(* ===== verification/Clm_Prelude.thy ===== *)
theory Clm_Prelude
  imports Main "HOL-Library.AList" "HOL-Library.Char_ord" "HOL-Library.List_Lexorder"
    "HOL-Library.Multiset" "HOL-Library.Word"
begin

text \<open>
  Shared vocabulary of the development: Go errors, the outcome of a Go call, computations that
  thread the state of the outside world (AWS, Kubernetes, the clock, the file system), Go maps as
  association lists, the functions of the packages \<open>strings\<close> and \<open>sort\<close> the program uses, and the
  generic lemmas the components share.

  A Go map is an association list with distinct keys; the order of the list stands for the order
  in which the runtime happens to iterate the map, and the theorems that depend on iteration are
  stated for every such order.
\<close>

named_theorems go_io \<open>unfolding rules of world-passing computations\<close>
named_theorems go_string \<open>evaluation rules of the string functions\<close>

section \<open>Errors and outcomes\<close>

text \<open>
  \<open>Errorf\<close> is an error made by the program itself with its text; \<open>Sentinel\<close> an error held in a
  package variable and compared by identity; \<open>Wrapf\<close> prefixes another error
  (\<open>fmt.Errorf("...: %w", err)\<close>); \<open>StatusError\<close> is a Kubernetes API status error with the reason by
  which the predicates of package \<open>errors\<close> know it (an error that only its code 429 makes known as too
  many requests has the reason that belongs to the code);
  \<open>APIError\<close> an AWS API error with code and message; \<open>Permanent\<close> the marker of
  \<open>backoff.Permanent\<close>; the last two are the errors of a done context.
\<close>

datatype go_error =
    Errorf string
  | Sentinel string
  | Wrapf string go_error
  | StatusError string string
  | APIError string string
  | Permanent go_error
  | Canceled
  | DeadlineExceeded

text \<open>The method \<open>Error() string\<close>.\<close>

fun error_text :: "go_error \<Rightarrow> string" where
  "error_text (Errorf s) = s"
| "error_text (Sentinel s) = s"
| "error_text (Wrapf s e) = s @ '': '' @ error_text e"
| "error_text (StatusError r s) = s"
| "error_text (APIError c s) = c @ '': '' @ s"
| "error_text (Permanent e) = error_text e"
| "error_text Canceled = ''context canceled''"
| "error_text DeadlineExceeded = ''context deadline exceeded''"

text \<open>\<open>apierrors.IsNotFound\<close>\<close>

definition IsNotFound :: "go_error \<Rightarrow> bool" where
  "IsNotFound e \<longleftrightarrow> (case e of StatusError r _ \<Rightarrow> r = ''NotFound'' | _ \<Rightarrow> False)"
definition IsTooManyRequests :: "go_error \<Rightarrow> bool" where
  "IsTooManyRequests e \<longleftrightarrow> (case e of StatusError r _ \<Rightarrow> r = ''TooManyRequests'' | _ \<Rightarrow> False)"
definition IsConflict :: "go_error \<Rightarrow> bool" where
  "IsConflict e \<longleftrightarrow> (case e of StatusError r _ \<Rightarrow> r = ''Conflict'' | _ \<Rightarrow> False)"

text \<open>
  The outcome of a call: a value, an error value, a run-time panic, or no result within the number
  of loop iterations allowed (only loops that may run for ever have such a bound).
\<close>

datatype 'a outcome = Ret 'a | Fail go_error | Panic string | OutOfFuel

type_synonym ('w, 'a) io = "'w \<Rightarrow> 'a outcome \<times> 'w"

definition ret :: "'a \<Rightarrow> ('w, 'a) io" where
  [go_io]: "ret x w = (Ret x, w)"

definition fail :: "go_error \<Rightarrow> ('w, 'a) io" where
  [go_io]: "fail e w = (Fail e, w)"

text \<open>\<open>x, err := m(); if err != nil { return err }; f(x)\<close>\<close>

definition bindE :: "('w, 'a) io \<Rightarrow> ('a \<Rightarrow> ('w, 'b) io) \<Rightarrow> ('w, 'b) io" where
  "bindE m f w = (case m w of
     (Ret x, w') \<Rightarrow> f x w'
   | (Fail e, w') \<Rightarrow> (Fail e, w')
   | (Panic s, w') \<Rightarrow> (Panic s, w')
   | (OutOfFuel, w') \<Rightarrow> (OutOfFuel, w'))"

text \<open>The same, when the caller looks at the error itself.\<close>

definition tryE :: "('w, 'a) io \<Rightarrow> (go_error \<Rightarrow> ('w, 'b) io) \<Rightarrow> ('a \<Rightarrow> ('w, 'b) io) \<Rightarrow> ('w, 'b) io" where
  "tryE m h f w = (case m w of
     (Ret x, w') \<Rightarrow> f x w'
   | (Fail e, w') \<Rightarrow> h e w'
   | (Panic s, w') \<Rightarrow> (Panic s, w')
   | (OutOfFuel, w') \<Rightarrow> (OutOfFuel, w'))"

text \<open>\<open>if err := ctx.Err(); err != nil { return err }\<close>\<close>

definition check :: "('w \<Rightarrow> go_error option) \<Rightarrow> ('w, unit) io" where
  "check c w = (case c w of Some e \<Rightarrow> (Fail e, w) | None \<Rightarrow> (Ret (), w))"

text \<open>A \<open>for ... range\<close> loop whose body returns on an error.\<close>

fun each :: "('a \<Rightarrow> ('w, unit) io) \<Rightarrow> 'a list \<Rightarrow> ('w, unit) io" where
  "each f [] w = (Ret (), w)"
| "each f (x # xs) w = bindE (f x) (\<lambda>_. each f xs) w"

lemma bindE_Ret [simp]:
  "bindE m f w = (Ret y, w'') \<longleftrightarrow> (\<exists>x w'. m w = (Ret x, w') \<and> f x w' = (Ret y, w''))"
  by (auto simp: bindE_def split: prod.splits outcome.splits)

lemma bindE_ret [simp]: "bindE (ret x) f = f x"
  by (rule ext) (simp add: bindE_def ret_def)

lemma bindE_fail [simp]: "bindE (fail e) f = fail e"
  by (rule ext) (simp add: bindE_def fail_def)

lemma ret_Ret [simp]: "ret x w = (Ret y, w') \<longleftrightarrow> x = y \<and> w = w'"
  by (auto simp: ret_def)

lemma fail_Ret [simp]: "fail e w \<noteq> (Ret y, w')"
  by (simp add: fail_def)

lemma check_Ret [simp]: "check c w = (Ret y, w') \<longleftrightarrow> w' = w \<and> c w = None"
  by (auto simp: check_def split: option.splits)

lemma tryE_cases:
  assumes "tryE m h f w = (r, w'')"
  obtains (ok) x w' where "m w = (Ret x, w')" "f x w' = (r, w'')"
    | (err) e w' where "m w = (Fail e, w')" "h e w' = (r, w'')"
    | (panic) s where "m w = (Panic s, w'')" "r = Panic s"
    | (fuel) "m w = (OutOfFuel, w'')" "r = OutOfFuel"
  using assms by (auto simp: tryE_def split: prod.splits outcome.splits)

lemma each_append: "each f (xs @ ys) w = bindE (each f xs) (\<lambda>_. each f ys) w"
proof (induction xs arbitrary: w)
  case Nil
  then show ?case by (simp add: bindE_def)
next
  case (Cons x xs)
  then show ?case
    by (auto simp: bindE_def split: prod.splits outcome.splits)
qed

text \<open>
  Reasoning about computations: \<open>keeps I m\<close> says that \<open>m\<close> preserves a property of the world
  whatever its outcome, \<open>yields P m Q\<close> that from a world in \<open>P\<close> a normal return satisfies \<open>Q\<close>.
\<close>

definition keeps :: "('w \<Rightarrow> bool) \<Rightarrow> ('w, 'a) io \<Rightarrow> bool" where
  "keeps I m \<longleftrightarrow> (\<forall>w. I w \<longrightarrow> I (snd (m w)))"

lemma keepsI: "(\<And>w. I w \<Longrightarrow> I (snd (m w))) \<Longrightarrow> keeps I m"
  by (simp add: keeps_def)

lemma keepsD: "keeps I m \<Longrightarrow> I w \<Longrightarrow> m w = (r, w') \<Longrightarrow> I w'"
  by (metis keeps_def snd_conv)

lemma keeps_ret [simp, intro]: "keeps I (ret x)"
  by (simp add: keeps_def ret_def)

lemma keeps_fail [simp, intro]: "keeps I (fail e)"
  by (simp add: keeps_def fail_def)

lemma keeps_check [simp, intro]: "keeps I (check c)"
  by (simp add: keeps_def check_def split: option.splits)

lemma keeps_bindE [intro]: "keeps I m \<Longrightarrow> (\<And>x. keeps I (f x)) \<Longrightarrow> keeps I (bindE m f)"
  by (auto simp: keeps_def bindE_def split: prod.splits outcome.splits)

lemma keeps_tryE [intro]:
  "keeps I m \<Longrightarrow> (\<And>e. keeps I (h e)) \<Longrightarrow> (\<And>x. keeps I (f x)) \<Longrightarrow> keeps I (tryE m h f)"
  by (auto simp: keeps_def tryE_def split: prod.splits outcome.splits)

lemma keeps_each: "(\<And>x. x \<in> set xs \<Longrightarrow> keeps I (f x)) \<Longrightarrow> keeps I (each f xs)"
proof (induction xs)
  case Nil
  then show ?case by (simp add: keeps_def)
next
  case (Cons x xs)
  have "keeps I (bindE (f x) (\<lambda>_. each f xs))"
    by (rule keeps_bindE) (use Cons in auto)
  then show ?case by (simp add: keeps_def)
qed

text \<open>A loop that returns normally ran every element in turn.\<close>

lemma each_Ret_Cons:
  "each f (x # xs) w = (Ret y, w'') \<longleftrightarrow> (\<exists>w'. f x w = (Ret (), w') \<and> each f xs w' = (Ret y, w''))"
  by auto

end
