(* ===== verification/Go_Lib.thy ===== *)
theory Go_Lib
  imports Clm_Prelude
begin

text \<open>
  The parts of Go's standard library the program relies on: \<open>strings.Split\<close>, \<open>strings.SplitN\<close>,
  \<open>strings.Join\<close>, prefix and substring tests, \<open>sort.Strings\<close>, Go maps, truncating division and
  the width of \<open>int64\<close>. Strings are byte strings, as in Go.
\<close>

section \<open>Package strings\<close>

text \<open>\<open>strings.Split\<close> with a separator of one byte.\<close>

fun split_on :: "char \<Rightarrow> string \<Rightarrow> string list" where
  "split_on c [] = [[]]"
| "split_on c (x # xs) =
     (if x = c then [] # split_on c xs
      else (case split_on c xs of [] \<Rightarrow> [[x]] | p # ps \<Rightarrow> (x # p) # ps))"

text \<open>\<open>strings.SplitN(s, sep, n)\<close> for a positive \<open>n\<close>.\<close>

fun splitn_on :: "nat \<Rightarrow> char \<Rightarrow> string \<Rightarrow> string list" where
  "splitn_on 0 c xs = []"
| "splitn_on (Suc 0) c xs = [xs]"
| "splitn_on (Suc (Suc n)) c xs =
     (case dropWhile (\<lambda>x. x \<noteq> c) xs of
        [] \<Rightarrow> [xs]
      | _ # ys \<Rightarrow> takeWhile (\<lambda>x. x \<noteq> c) xs # splitn_on (Suc n) c ys)"

fun join_with :: "string \<Rightarrow> string list \<Rightarrow> string" where
  "join_with sep [] = []"
| "join_with sep [x] = x"
| "join_with sep (x # y # ys) = x @ sep @ join_with sep (y # ys)"

definition has_prefix :: "string \<Rightarrow> string \<Rightarrow> bool" where
  "has_prefix s p \<longleftrightarrow> take (length p) s = p"

definition has_suffix :: "string \<Rightarrow> string \<Rightarrow> bool" where
  "has_suffix s p \<longleftrightarrow> has_prefix (rev s) (rev p)"

definition trim_prefix :: "string \<Rightarrow> string \<Rightarrow> string" where
  "trim_prefix s p = (if has_prefix s p then drop (length p) s else s)"

fun contains_str :: "string \<Rightarrow> string \<Rightarrow> bool" where
  "contains_str [] p \<longleftrightarrow> p = []"
| "contains_str (x # xs) p \<longleftrightarrow> has_prefix (x # xs) p \<or> contains_str xs p"

text \<open>\<open>strings.ReplaceAll\<close> with an old string of one byte.\<close>

definition replace_all :: "string \<Rightarrow> char \<Rightarrow> string \<Rightarrow> string" where
  "replace_all s c r = concat (map (\<lambda>x. if x = c then r else [x]) s)"

text \<open>The verb \<open>%q\<close>, for text without characters that need escaping.\<close>

definition quoted :: "string \<Rightarrow> string" where
  "quoted s = CHR 0x22 # s @ [CHR 0x22]"

text \<open>Decimal notation of a natural number and of an integer (\<open>strconv.Itoa\<close>, \<open>%d\<close>).\<close>

fun nat_str :: "nat \<Rightarrow> string" where
  "nat_str n = (if n < 10 then [char_of (48 + n)] else nat_str (n div 10) @ [char_of (48 + n mod 10)])"

declare nat_str.simps [simp del]

definition int_str :: "int \<Rightarrow> string" where
  "int_str i = (if i < 0 then CHR ''-'' # nat_str (nat (- i)) else nat_str (nat i))"

lemma list_all2_right: "list_all2 P xs ys \<Longrightarrow> y \<in> set ys \<Longrightarrow> \<exists>x \<in> set xs. P x y"
  by (induction rule: list_all2_induct) auto

lemma split_on_nonempty [simp]: "split_on c xs \<noteq> []"
  by (induction xs) (auto split: list.splits)

lemma split_on_no_sep: "c \<notin> set xs \<Longrightarrow> split_on c xs = [xs]"
  by (induction xs) auto

lemma split_on_append:
  "c \<notin> set xs \<Longrightarrow> split_on c (xs @ c # ys) = xs # split_on c ys"
  by (induction xs) auto

lemma split_on_parts: "p \<in> set (split_on c xs) \<Longrightarrow> c \<notin> set p"
proof (induction xs arbitrary: p)
  case Nil
  then show ?case by simp
next
  case (Cons x xs)
  then show ?case
    by (cases "split_on c xs") (auto split: if_splits)
qed

lemma join_split: "join_with [c] (split_on c xs) = xs"
proof (induction xs)
  case Nil
  then show ?case by simp
next
  case (Cons x xs)
  obtain p ps where eq: "split_on c xs = p # ps"
    by (cases "split_on c xs") auto
  with Cons show ?case
    by (cases ps) auto
qed

lemma split_join:
  "ps \<noteq> [] \<Longrightarrow> (\<And>p. p \<in> set ps \<Longrightarrow> c \<notin> set p) \<Longrightarrow> split_on c (join_with [c] ps) = ps"
proof (induction ps rule: induct_list012)
  case 1
  then show ?case by simp
next
  case (2 x)
  then show ?case by (simp add: split_on_no_sep)
next
  case (3 x y zs)
  then show ?case by (simp add: split_on_append)
qed

lemma length_split_on: "length (split_on c xs) = Suc (count_list xs c)"
  by (induction xs) (auto split: list.splits)

lemma splitn_on_2:
  "splitn_on 2 c xs = (if c \<in> set xs
     then [takeWhile (\<lambda>x. x \<noteq> c) xs, tl (dropWhile (\<lambda>x. x \<noteq> c) xs)] else [xs])"
proof (cases "dropWhile (\<lambda>x. x \<noteq> c) xs")
  case Nil
  then have "c \<notin> set xs" by (auto simp: dropWhile_eq_Nil_conv)
  then show ?thesis unfolding numeral_2_eq_2 splitn_on.simps Nil by simp
next
  case (Cons y ys)
  have "c \<in> set xs"
  proof (rule ccontr)
    assume "c \<notin> set xs"
    then have "dropWhile (\<lambda>x. x \<noteq> c) xs = []" by (auto simp: dropWhile_eq_Nil_conv)
    with Cons show False by simp
  qed
  then show ?thesis unfolding numeral_2_eq_2 splitn_on.simps Cons by simp
qed

lemma takeWhile_sep [simp]: "c \<notin> set xs \<Longrightarrow> takeWhile (\<lambda>x. x \<noteq> c) (xs @ c # ys) = xs"
  by (induction xs) auto

lemma dropWhile_sep [simp]: "c \<notin> set xs \<Longrightarrow> dropWhile (\<lambda>x. x \<noteq> c) (xs @ c # ys) = c # ys"
  by (induction xs) auto

lemma takeWhile_append_drop:
  "c \<in> set xs \<Longrightarrow> xs = takeWhile (\<lambda>x. x \<noteq> c) xs @ c # tl (dropWhile (\<lambda>x. x \<noteq> c) xs)"
  by (induction xs) auto

lemma has_prefix_append [simp]: "has_prefix (p @ s) p"
  by (simp add: has_prefix_def)

lemma has_prefix_iff: "has_prefix s p \<longleftrightarrow> (\<exists>t. s = p @ t)"
  by (metis append_take_drop_id has_prefix_append has_prefix_def)

lemma trim_prefix_append [simp]: "trim_prefix (p @ s) p = s"
  by (simp add: trim_prefix_def)

lemma contains_str_iff: "contains_str s p \<longleftrightarrow> (\<exists>a b. s = a @ p @ b)"
proof (induction s)
  case Nil
  then show ?case by auto
next
  case (Cons x xs)
  show ?case
  proof
    assume "contains_str (x # xs) p"
    then show "\<exists>a b. x # xs = a @ p @ b"
    proof (cases "has_prefix (x # xs) p")
      case True
      then obtain t where "x # xs = p @ t" by (auto simp: has_prefix_iff)
      then have "x # xs = [] @ p @ t" by simp
      then show ?thesis by blast
    next
      case False
      with \<open>contains_str (x # xs) p\<close> obtain a b where "xs = a @ p @ b" using Cons by auto
      then have "x # xs = (x # a) @ p @ b" by simp
      then show ?thesis by blast
    qed
  next
    assume "\<exists>a b. x # xs = a @ p @ b"
    then obtain a b where ab: "x # xs = a @ p @ b" by blast
    show "contains_str (x # xs) p"
    proof (cases a)
      case Nil
      with ab have "has_prefix (x # xs) p" by (auto simp: has_prefix_iff)
      then show ?thesis by simp
    next
      case (Cons y ys)
      with ab have "xs = ys @ p @ b" by simp
      with \<open>contains_str xs p = (\<exists>a b. xs = a @ p @ b)\<close> show ?thesis by auto
    qed
  qed
qed

definition digit :: "char \<Rightarrow> bool" where
  "digit c \<longleftrightarrow> 48 \<le> (of_char c :: nat) \<and> (of_char c :: nat) \<le> 57"

fun digits_val :: "string \<Rightarrow> nat" where
  "digits_val [] = 0"
| "digits_val (c # cs) = (of_char c - 48) * 10 ^ length cs + digits_val cs"

lemma digits_val_append: "digits_val (a @ [c]) = digits_val a * 10 + (of_char c - 48)"
  by (induction a) (auto simp: algebra_simps)

lemma digit_char_of: "n < 10 \<Longrightarrow> digit (char_of (48 + n)) \<and> (of_char (char_of (48 + n) :: char) :: nat) = 48 + n"
  by (simp add: digit_def)

lemma nat_str_val: "digits_val (nat_str n) = n"
proof (induction n rule: nat_str.induct)
  case (1 n)
  then show ?case
    by (subst nat_str.simps) (auto simp: digits_val_append)
qed

lemma nat_str_inj [simp]: "nat_str m = nat_str n \<longleftrightarrow> m = n"
  by (metis nat_str_val)

lemma nat_str_digits: "c \<in> set (nat_str n) \<Longrightarrow> digit c"
proof (induction n rule: nat_str.induct)
  case (1 n)
  from 1(2) have "c \<in> set (if n < 10 then [char_of (48 + n)] else nat_str (n div 10) @ [char_of (48 + n mod 10)])"
    using nat_str.simps [of n] by simp
  then show ?case using 1(1) digit_char_of [of n] digit_char_of [of "n mod 10"] by (auto split: if_splits)
qed

lemma nat_str_not_Nil [simp]: "nat_str n \<noteq> []"
  by (subst nat_str.simps) simp

lemma length_join_ge: "x \<in> set xs \<Longrightarrow> length x \<le> length (join_with sep xs)"
  by (induction sep xs rule: join_with.induct) auto

section \<open>Go maps\<close>

type_synonym 'v gomap = "(string \<times> 'v) list"

abbreviation m_get :: "('k \<times> 'v) list \<Rightarrow> 'k \<Rightarrow> 'v option" where
  "m_get m k \<equiv> map_of m k"

abbreviation m_has :: "('k \<times> 'v) list \<Rightarrow> 'k \<Rightarrow> bool" where
  "m_has m k \<equiv> map_of m k \<noteq> None"

definition m_put :: "'k \<Rightarrow> 'v \<Rightarrow> ('k \<times> 'v) list \<Rightarrow> ('k \<times> 'v) list" where
  "m_put k v m = AList.update k v m"

definition m_del :: "'k \<Rightarrow> ('k \<times> 'v) list \<Rightarrow> ('k \<times> 'v) list" where
  "m_del k m = filter (\<lambda>p. fst p \<noteq> k) m"

definition m_keys :: "('k \<times> 'v) list \<Rightarrow> 'k list" where
  "m_keys m = map fst m"

text \<open>Reading a missing key yields the zero value; here the empty string.\<close>

definition m_str :: "string gomap \<Rightarrow> string \<Rightarrow> string" where
  "m_str m k = (case m_get m k of None \<Rightarrow> [] | Some v \<Rightarrow> v)"

definition m_ok :: "('k \<times> 'v) list \<Rightarrow> bool" where
  "m_ok m \<longleftrightarrow> distinct (map fst m)"

lemma m_get_put [simp]: "m_get (m_put k v m) k' = (if k' = k then Some v else m_get m k')"
  by (simp add: m_put_def update_conv')

lemma m_get_del [simp]: "m_get (m_del k m) k' = (if k' = k then None else m_get m k')"
  by (induction m) (auto simp: m_del_def)

lemma m_ok_Nil [simp, intro]: "m_ok []"
  by (simp add: m_ok_def)

lemma m_ok_put [intro]: "m_ok m \<Longrightarrow> m_ok (m_put k v m)"
  by (simp add: m_ok_def m_put_def distinct_update)

lemma m_ok_del [intro]: "m_ok m \<Longrightarrow> m_ok (m_del k m)"
  by (simp add: m_ok_def m_del_def distinct_map_filter)

lemma m_ok_filter [intro]: "m_ok m \<Longrightarrow> m_ok (filter P m)"
  by (simp add: m_ok_def distinct_map_filter)

lemma m_get_filter:
  "m_ok m \<Longrightarrow> m_get (filter P m) k =
     (case m_get m k of None \<Rightarrow> None | Some v \<Rightarrow> if P (k, v) then Some v else None)"
proof (induction m)
  case Nil
  then show ?case by simp
next
  case (Cons a m)
  then have "m_ok m" and "fst a \<notin> fst ` set m" by (auto simp: m_ok_def)
  moreover have "m_get m (fst a) = None" if "fst a \<notin> fst ` set m"
    using that by (simp add: map_of_eq_None_iff)
  ultimately show ?case using Cons.IH by (cases a) (auto split: option.splits)
qed

lemma m_ok_get_iff: "m_ok m \<Longrightarrow> m_get m k = Some v \<longleftrightarrow> (k, v) \<in> set m"
  by (simp add: m_ok_def)

lemma m_keys_iff: "k \<in> set (m_keys m) \<longleftrightarrow> m_get m k \<noteq> None"
  by (auto simp: m_keys_def map_of_eq_None_iff)

lemma m_get_mset: "m_ok m \<Longrightarrow> mset m = mset m' \<Longrightarrow> m_get m = m_get m'"
proof -
  assume ok: "m_ok m" and eq: "mset m = mset m'"
  then have "mset (map fst m) = mset (map fst m')" by simp
  with ok have "m_ok m'" unfolding m_ok_def by (metis mset_eq_imp_distinct_iff)
  moreover from eq have "set m = set m'" by (rule mset_eq_setD)
  ultimately have "m_get m k = Some v \<longleftrightarrow> m_get m' k = Some v" for k v
    using ok by (simp add: m_ok_get_iff)
  then show ?thesis by (intro ext) (metis not_None_eq)
qed

lemma fold_put_get:
  "m_get (fold (\<lambda>(k, v). m_put k v) ts m) key = (case m_get (rev ts) key of Some v \<Rightarrow> Some v | None \<Rightarrow> m_get m key)"
proof (induction ts arbitrary: m)
  case (Cons t ts)
  then show ?case by (cases t) (auto simp: map_add_def split: option.splits)
qed simp

lemma m_ok_fold_put: "m_ok m \<Longrightarrow> m_ok (fold (\<lambda>(k, v). m_put k v) ts m)"
  by (induction ts arbitrary: m) (auto simp: m_ok_put)

lemma m_get_rev: "m_ok m \<Longrightarrow> m_get (rev m) = m_get m"
  by (rule m_get_mset) (auto simp: m_ok_def rev_map [symmetric])

section \<open>Integers\<close>

text \<open>Go's \<open>/\<close> and \<open>%\<close> truncate towards zero.\<close>

definition quot :: "int \<Rightarrow> int \<Rightarrow> int" where
  "quot a b = sgn a * sgn b * (\<bar>a\<bar> div \<bar>b\<bar>)"

definition remn :: "int \<Rightarrow> int \<Rightarrow> int" where
  "remn a b = a - b * quot a b"

text \<open>Two's complement wrap-around of \<open>int64\<close> arithmetic.\<close>

definition wrap64 :: "int \<Rightarrow> int" where
  "wrap64 x = (x + 2 ^ 63) mod 2 ^ 64 - 2 ^ 63"

lemma quot_nonneg: "0 \<le> a \<Longrightarrow> 0 < b \<Longrightarrow> quot a b = a div b"
  by (cases "a = 0") (auto simp: quot_def)

lemma remn_zero_iff: "b \<noteq> 0 \<Longrightarrow> remn a b = 0 \<longleftrightarrow> b dvd a"
proof -
  assume b: "b \<noteq> 0"
  have *: "b * (sgn a * sgn b * (\<bar>a\<bar> div \<bar>b\<bar>)) = sgn a * (\<bar>b\<bar> * (\<bar>a\<bar> div \<bar>b\<bar>))"
    by (simp add: sgn_if abs_if)
  show ?thesis
  proof
    assume "remn a b = 0"
    then show "b dvd a" unfolding remn_def by (metis dvd_triv_left eq_iff_diff_eq_0)
  next
    assume "b dvd a"
    then have "\<bar>b\<bar> * (\<bar>a\<bar> div \<bar>b\<bar>) = \<bar>a\<bar>" by simp
    then show "remn a b = 0" unfolding remn_def quot_def * by (simp add: sgn_if abs_if)
  qed
qed

lemma wrap64_id: "- (2 ^ 63) \<le> x \<Longrightarrow> x < 2 ^ 63 \<Longrightarrow> wrap64 x = x"
  by (simp add: wrap64_def)

section \<open>Choosing the best element\<close>

text \<open>
  A loop that keeps a current choice and replaces it by every element that is strictly better.
  \<open>better x y\<close> reads: \<open>x\<close> replaces \<open>y\<close>. Under the laws of a strict weak order the loop returns the
  first of the best elements.
\<close>

fun pick_best :: "('a \<Rightarrow> 'a \<Rightarrow> bool) \<Rightarrow> 'a list \<Rightarrow> 'a option \<Rightarrow> 'a option" where
  "pick_best b [] s = s"
| "pick_best b (x # xs) s =
     pick_best b xs (case s of None \<Rightarrow> Some x | Some y \<Rightarrow> if b x y then Some x else Some y)"

text \<open>
  \<open>sort.Slice\<close> with the comparison of the caller. The elements that compare equal keep their order
  here; where the input comes from iterating a map its order is arbitrary, so this covers every
  result of the unstable sort.
\<close>

fun insert_by :: "('a \<Rightarrow> 'a \<Rightarrow> bool) \<Rightarrow> 'a \<Rightarrow> 'a list \<Rightarrow> 'a list" where
  "insert_by b x [] = [x]"
| "insert_by b x (y # ys) = (if b x y then x # y # ys else y # insert_by b x ys)"

fun sort_by :: "('a \<Rightarrow> 'a \<Rightarrow> bool) \<Rightarrow> 'a list \<Rightarrow> 'a list" where
  "sort_by b [] = []"
| "sort_by b (x # xs) = insert_by b x (sort_by b xs)"

lemma mset_insert_by [simp]: "mset (insert_by b x xs) = add_mset x (mset xs)"
  by (induction xs) auto

lemma mset_sort_by [simp]: "mset (sort_by b xs) = mset xs"
  by (induction xs) auto

lemma set_sort_by [simp]: "set (sort_by b xs) = set xs"
  by (metis mset_sort_by set_mset_mset)

lemma distinct_sort_by [simp]: "distinct (sort_by b xs) = distinct xs"
  by (metis mset_sort_by mset_eq_imp_distinct_iff)

locale choice =
  fixes better :: "'a \<Rightarrow> 'a \<Rightarrow> bool"
  assumes irrefl: "\<not> better x x"
    and asym: "better x y \<Longrightarrow> \<not> better y x"
    and neg_trans: "\<not> better x y \<Longrightarrow> \<not> better y z \<Longrightarrow> \<not> better x z"
begin

lemma pick_best_Some:
  "pick_best better xs (Some y) = Some r \<Longrightarrow>
     (r = y \<or> r \<in> set xs) \<and> \<not> better y r \<and> (\<forall>x \<in> set xs. \<not> better x r)"
proof (induction xs arbitrary: y)
  case Nil
  then show ?case by (simp add: irrefl)
next
  case (Cons x xs)
  show ?case
  proof (cases "better x y")
    case True
    with Cons.prems have "pick_best better xs (Some x) = Some r" by simp
    from Cons.IH [OF this]
    have r: "(r = x \<or> r \<in> set xs) \<and> \<not> better x r \<and> (\<forall>z \<in> set xs. \<not> better z r)" .
    moreover have "\<not> better y r"
      using neg_trans [of y x r] asym [OF True] r by blast
    ultimately show ?thesis by auto
  next
    case False
    with Cons.prems have "pick_best better xs (Some y) = Some r" by simp
    from Cons.IH [OF this]
    have r: "(r = y \<or> r \<in> set xs) \<and> \<not> better y r \<and> (\<forall>z \<in> set xs. \<not> better z r)" .
    moreover have "\<not> better x r"
      using neg_trans [of x y r] False r by blast
    ultimately show ?thesis by auto
  qed
qed

lemma pick_best_not_None: "pick_best better xs (Some y) \<noteq> None"
  by (induction xs arbitrary: y) auto

lemma pick_best_best:
  "pick_best better xs None = Some r \<Longrightarrow> r \<in> set xs \<and> (\<forall>x \<in> set xs. \<not> better x r)"
  by (cases xs) (auto dest: pick_best_Some)

lemma pick_best_None_iff: "pick_best better xs None = None \<longleftrightarrow> xs = []"
  by (cases xs) (auto simp: pick_best_not_None)

lemma insert_by_set: "set (insert_by b x xs) = insert x (set xs)"
  by (induction xs) auto

lemma sorted_insert_by:
  "sorted_wrt (\<lambda>x y. \<not> better y x) ys \<Longrightarrow> sorted_wrt (\<lambda>x y. \<not> better y x) (insert_by better x ys)"
proof (induction ys)
  case Nil
  then show ?case by simp
next
  case (Cons y ys)
  show ?case
  proof (cases "better x y")
    case True
    then have "\<not> better z x" if "z = y \<or> z \<in> set ys" for z
      using that Cons.prems asym [OF True] neg_trans [of z y x] by auto
    with True Cons.prems show ?thesis by auto
  next
    case False
    with Cons show ?thesis by (auto simp: insert_by_set)
  qed
qed

lemma sorted_sort_by: "sorted_wrt (\<lambda>x y. \<not> better y x) (sort_by better xs)"
  by (induction xs) (auto simp: sorted_insert_by)

end

end
