(* ===== verification/Go_Net.thy ===== *)
theory Go_Net
  imports Go_Lib
begin

unbundle bit_operations_syntax

text \<open>
  The parts of Go's standard library that the template functions and the subnet logic use: integers
  from text (\<open>strconv.Atoi\<close>, \<open>strconv.ParseInt\<close>), and IP addresses and networks (\<open>net.ParseCIDR\<close>,
  \<open>net.CIDRMask\<close>, \<open>IP.Mask\<close>, \<open>IP.String\<close>). An address is a list of 4 or 16 bytes, as \<open>net.IP\<close> is.
\<close>

section \<open>Pure calls that may fail\<close>

definition bindO :: "'a outcome \<Rightarrow> ('a \<Rightarrow> 'b outcome) \<Rightarrow> 'b outcome" where
  "bindO m f = (case m of Ret x \<Rightarrow> f x | Fail e \<Rightarrow> Fail e | Panic s \<Rightarrow> Panic s | OutOfFuel \<Rightarrow> OutOfFuel)"

fun mapO :: "('a \<Rightarrow> 'b outcome) \<Rightarrow> 'a list \<Rightarrow> 'b list outcome" where
  "mapO f [] = Ret []"
| "mapO f (x # xs) = bindO (f x) (\<lambda>y. bindO (mapO f xs) (\<lambda>ys. Ret (y # ys)))"

lemma bindO_simps [simp]:
  "bindO (Ret x) f = f x" "bindO (Fail e) f = Fail e" "bindO (Panic s) f = Panic s" "bindO OutOfFuel f = OutOfFuel"
  by (simp_all add: bindO_def)

lemma bindO_Ret_iff: "bindO m f = Ret y \<longleftrightarrow> (\<exists>x. m = Ret x \<and> f x = Ret y)"
  by (cases m) auto

lemma mapO_Ret_iff: "mapO f xs = Ret ys \<longleftrightarrow> list_all2 (\<lambda>x y. f x = Ret y) xs ys"
proof (induction xs arbitrary: ys)
  case (Cons x xs)
  then show ?case by (auto simp: bindO_Ret_iff list_all2_Cons1)
qed auto

text \<open>An outcome that is a value or an error, never a panic.\<close>

definition orderly :: "'a outcome \<Rightarrow> bool" where
  "orderly r \<longleftrightarrow> (case r of Ret _ \<Rightarrow> True | Fail _ \<Rightarrow> True | _ \<Rightarrow> False)"

lemma orderly_simps [simp]: "orderly (Ret x)" "orderly (Fail e)" "\<not> orderly (Panic s)" "\<not> orderly OutOfFuel"
  by (simp_all add: orderly_def)

lemma orderly_bindO: "orderly m \<Longrightarrow> (\<And>x. m = Ret x \<Longrightarrow> orderly (f x)) \<Longrightarrow> orderly (bindO m f)"
  by (cases m) auto

lemma orderly_mapO: "(\<And>x. x \<in> set xs \<Longrightarrow> orderly (f x)) \<Longrightarrow> orderly (mapO f xs)"
  by (induction xs) (auto intro!: orderly_bindO)

lemma map_sum_Inr: "map_sum f g s = Inr y \<longleftrightarrow> (\<exists>x. s = Inr x \<and> y = g x)"
  by (cases s) auto

section \<open>Integers from text\<close>

definition parse_int64 :: "string \<Rightarrow> int option" where
  "parse_int64 s =
     (let (neg, ds) = (case s of
          c # r \<Rightarrow> if c = CHR ''-'' then (True, r) else if c = CHR ''+'' then (False, r) else (False, s)
        | [] \<Rightarrow> (False, s));
        v = (if neg then - int (digits_val ds) else int (digits_val ds)) in
      if ds = [] \<or> \<not> list_all digit ds then None
      else if - (2 ^ 63) \<le> v \<and> v < 2 ^ 63 then Some v else None)"

lemma parse_int64_range: "parse_int64 s = Some i \<Longrightarrow> - (2 ^ 63) \<le> i \<and> i < 2 ^ 63"
  by (auto simp: parse_int64_def Let_def split: prod.splits if_splits)

lemma nat_str_all_digits: "list_all digit (nat_str n)"
  using nat_str_digits by (auto simp: list_all_iff)

lemma parse_int64_int_str:
  assumes "- (2 ^ 63) \<le> i" and "i < 2 ^ 63"
  shows "parse_int64 (int_str i) = Some i"
proof (cases "i < 0")
  case True
  then show ?thesis using assms by (simp add: parse_int64_def int_str_def nat_str_all_digits nat_str_val)
next
  case False
  obtain c r where cr: "nat_str (nat i) = c # r" by (cases "nat_str (nat i)") auto
  have "digit c" using nat_str_all_digits [of "nat i"] cr by simp
  then have "c \<noteq> CHR ''-''" "c \<noteq> CHR ''+''" by (auto simp: digit_def)
  moreover have "int (digits_val (c # r)) = i" using nat_str_val [of "nat i"] cr False by (simp del: digits_val.simps)
  ultimately show ?thesis using assms False cr nat_str_all_digits [of "nat i"]
    by (simp add: parse_int64_def int_str_def del: digits_val.simps)
qed

section \<open>Addresses\<close>

type_synonym ip = "8 word list"

definition octet :: "string \<Rightarrow> 8 word option" where
  "octet s = (if s = [] \<or> \<not> list_all digit s \<or> (1 < length s \<and> hd s = CHR ''0'') \<or> 255 < digits_val s
     then None else Some (of_nat (digits_val s)))"

definition parseIPv4 :: "string \<Rightarrow> ip option" where
  "parseIPv4 s = (let fs = split_on (CHR ''.'') s in
     if length fs = 4 then those (map octet fs) else None)"

definition hex_val :: "char \<Rightarrow> nat option" where
  "hex_val c = (let n = of_char c in
     if 48 \<le> n \<and> n \<le> 57 then Some (n - 48)
     else if 97 \<le> n \<and> n \<le> 102 then Some (n - 87)
     else if 65 \<le> n \<and> n \<le> 70 then Some (n - 55) else None)"

definition hex_group :: "string \<Rightarrow> ip" where
  "hex_group h = (let v = fold (\<lambda>c a. a * 16 + (case hex_val c of Some d \<Rightarrow> d | None \<Rightarrow> 0)) h 0 in
     [of_nat (v div 256), of_nat (v mod 256)])"

text \<open>
  The loop over the groups of an IPv6 address: the rest of the text, the bytes so far and the
  position of the ellipsis.
\<close>

function ipv6_loop :: "string \<Rightarrow> ip \<Rightarrow> nat option \<Rightarrow> (ip \<times> nat option \<times> string) option" where
  "ipv6_loop s acc ell =
     (if 16 \<le> length acc then Some (acc, ell, s)
      else (let h = takeWhile (\<lambda>c. hex_val c \<noteq> None) s; acc' = acc @ hex_group h in
        if h = [] \<or> 4 < length h then None
        else (case drop (length h) s of
          [] \<Rightarrow> Some (acc', ell, [])
        | c # r \<Rightarrow>
            if c = CHR ''.''
            then (if (ell = None \<and> length acc \<noteq> 12) \<or> 16 < length acc + 4 then None
                  else (case parseIPv4 s of None \<Rightarrow> None | Some b \<Rightarrow> Some (acc @ b, ell, [])))
            else if c \<noteq> CHR '':'' \<or> r = [] then None
            else if hd r = CHR '':''
            then (if ell \<noteq> None then None
                  else if tl r = [] then Some (acc', Some (length acc'), [])
                  else ipv6_loop (tl r) acc' (Some (length acc')))
            else ipv6_loop r acc' ell)))"
  by pat_completeness auto
termination
  by (relation "measure (\<lambda>(s, acc, ell). 16 - length acc)") (auto simp: hex_group_def Let_def)

definition parseIPv6 :: "string \<Rightarrow> ip option" where
  "parseIPv6 s =
     (if CHR ''%'' \<in> set s then None
      else if s = ''::'' then Some (replicate 16 0)
      else (case (if has_prefix s ''::'' then ipv6_loop (drop 2 s) [] (Some 0) else ipv6_loop s [] None) of
         Some (acc, ell, []) \<Rightarrow>
           (case ell of
              None \<Rightarrow> if length acc = 16 then Some acc else None
            | Some k \<Rightarrow> if length acc < 16 then Some (take k acc @ replicate (16 - length acc) 0 @ drop k acc) else None)
       | _ \<Rightarrow> None))"

definition parseAddr :: "string \<Rightarrow> ip option" where
  "parseAddr s = (case filter (\<lambda>c. c = CHR ''.'' \<or> c = CHR '':'' \<or> c = CHR ''%'') s of
     [] \<Rightarrow> None
   | c # _ \<Rightarrow> if c = CHR ''.'' then parseIPv4 s else if c = CHR '':'' then parseIPv6 s else None)"

section \<open>Networks\<close>

record ip_net =
  net_IP :: ip
  net_Ones :: nat
  net_Bits :: nat

definition mask_byte :: "nat \<Rightarrow> 8 word" where
  "mask_byte ones = (if 8 \<le> ones then - 1 else push_bit (8 - ones) (- 1))"

definition CIDRMask :: "nat \<Rightarrow> nat \<Rightarrow> ip" where
  "CIDRMask ones bits = map (\<lambda>i. mask_byte (ones - 8 * i)) [0..<bits div 8]"

definition masked :: "ip \<Rightarrow> nat \<Rightarrow> nat \<Rightarrow> ip" where
  "masked a ones bits = map2 (AND) a (CIDRMask ones bits)"

definition ParseCIDR :: "string \<Rightarrow> ip_net outcome" where
  "ParseCIDR s =
     (let bad = Fail (Errorf (''invalid CIDR address: '' @ s)) in
      case splitn_on 2 (CHR ''/'') s of
        [addr, m] \<Rightarrow>
          (case parseAddr addr of
             None \<Rightarrow> bad
           | Some a \<Rightarrow>
               if m = [] \<or> \<not> list_all digit m \<or> 8 * length a < digits_val m then bad
               else Ret \<lparr>net_IP = masked a (digits_val m) (8 * length a), net_Ones = digits_val m, net_Bits = 8 * length a\<rparr>)
      | _ \<Rightarrow> bad)"

definition is_4in6 :: "ip \<Rightarrow> bool" where
  "is_4in6 a \<longleftrightarrow> length a = 16 \<and> take 12 a = replicate 10 0 @ [255, 255]"

definition To4 :: "ip \<Rightarrow> ip option" where
  "To4 a = (if length a = 4 then Some a else if is_4in6 a then Some (drop 12 a) else None)"

fun hex_str :: "nat \<Rightarrow> string" where
  "hex_str n = (if n < 16 then [char_of (if n < 10 then 48 + n else 87 + n)]
     else hex_str (n div 16) @ [char_of (if n mod 16 < 10 then 48 + n mod 16 else 87 + n mod 16)])"

declare hex_str.simps [simp del]

definition ipv4_str :: "ip \<Rightarrow> string" where
  "ipv4_str a = join_with ''.'' (map (\<lambda>b. nat_str (unat b)) a)"

fun ip_groups :: "ip \<Rightarrow> nat list" where
  "ip_groups (a # b # r) = (unat a * 256 + unat b) # ip_groups r"
| "ip_groups _ = []"

text \<open>The first longest run of at least two zero groups.\<close>

definition zero_run :: "nat list \<Rightarrow> (nat \<times> nat) option" where
  "zero_run gs = fold (\<lambda>i best.
     let l = length (takeWhile (\<lambda>g. g = 0) (drop i gs)) in
     if 2 \<le> l \<and> (case best of None \<Rightarrow> True | Some (a, b) \<Rightarrow> b - a < l) then Some (i, i + l) else best)
     [0..<length gs] None"

definition ipv6_str :: "ip \<Rightarrow> string" where
  "ipv6_str a = (let gs = ip_groups a in
     case zero_run gs of
       None \<Rightarrow> join_with '':'' (map hex_str gs)
     | Some (i, j) \<Rightarrow> join_with '':'' (map hex_str (take i gs)) @ ''::'' @ join_with '':'' (map hex_str (drop j gs)))"

definition ip_str :: "ip \<Rightarrow> string" where
  "ip_str a = (case To4 a of Some b \<Rightarrow> ipv4_str b | None \<Rightarrow> ipv6_str a)"

text \<open>\<open>IPNet.String\<close>, for a network with a canonical mask.\<close>

definition net_str :: "ip_net \<Rightarrow> string" where
  "net_str n = ip_str (net_IP n) @ ''/'' @ nat_str (net_Ones n)"

end
