(* ===== verification/Instance_Info.thy ===== *)
theory Instance_Info
  imports Go_Net
begin

text \<open>
  EC2 instance types (\<open>pkg/aws/instance_info.go\<close>): loading them from AWS, looking one up, and the
  synthetic instance of a node pool with several types. The pages of the AWS call are a list;
  \<open>AvailableStorage\<close>, which computes with floats, is in \<open>Template_Values\<close>.
\<close>

section \<open>Data\<close>

record instance_info =
  in_InstanceType :: string
  in_VCPU :: int
  in_Memory :: int
  in_StorageDevices :: int
  in_StorageDeviceSize :: int
  in_Architecture :: string

text \<open>An instance type as AWS describes it; the disks are present when there is storage information.\<close>

record aws_instance_type =
  it_InstanceType :: string
  it_VCpus :: int
  it_SizeInMiB :: int
  it_Disks :: "(int \<times> int) list option"
  it_Architectures :: "string list"

type_synonym instance_types = "(string \<times> instance_info) list"

definition mebibyte :: int where "mebibyte = 1024 * 1024"
definition gigabyte :: int where "gigabyte = 1000 * 1000 * 1000"

section \<open>Operations\<close>

definition MemoryFraction :: "instance_info \<Rightarrow> int \<Rightarrow> int" where
  "MemoryFraction i percent = quot (wrap64 (percent * in_Memory i)) 100"

definition NewInstanceTypes :: "instance_info list \<Rightarrow> instance_types" where
  "NewInstanceTypes is = fold (\<lambda>i. m_put (in_InstanceType i) i) is []"

definition getCompatibleCPUArchitecture :: "aws_instance_type \<Rightarrow> string option" where
  "getCompatibleCPUArchitecture t =
     (if ''x86_64'' \<in> set (it_Architectures t) then Some ''amd64''
      else if ''arm64'' \<in> set (it_Architectures t) then Some ''arm64'' else None)"

text \<open>Number and size of the storage devices; an error for more than one disk set.\<close>

definition storage :: "aws_instance_type \<Rightarrow> (int \<times> int) outcome" where
  "storage t =
     (case it_Disks t of
        None \<Rightarrow> Ret (0, 0)
      | Some [] \<Rightarrow> Ret (0, 0)
      | Some [(n, sizeInGB)] \<Rightarrow> Ret (n, wrap64 (sizeInGB * gigabyte))
      | Some ds \<Rightarrow> Fail (Errorf (''invalid number of disk sets ('' @ nat_str (length ds) @ '') for ''
            @ it_InstanceType t @ '', expecting 0 or 1'')))"

fun load_types :: "aws_instance_type list \<Rightarrow> instance_types \<Rightarrow> instance_types outcome" where
  "load_types [] m = Ret m"
| "load_types (t # ts) m =
     bindO (storage t) (\<lambda>(devices, size).
       case getCompatibleCPUArchitecture t of
         None \<Rightarrow> load_types ts m
       | Some arch \<Rightarrow> load_types ts (m_put (it_InstanceType t)
            \<lparr>in_InstanceType = it_InstanceType t, in_VCPU = it_VCpus t,
             in_Memory = wrap64 (it_SizeInMiB t * mebibyte), in_StorageDevices = devices,
             in_StorageDeviceSize = size, in_Architecture = arch\<rparr> m))"

definition NewInstanceTypesFromAWS :: "('w, aws_instance_type list) io \<Rightarrow> ('w, instance_types) io" where
  "NewInstanceTypesFromAWS describe =
     bindE describe (\<lambda>ts w. (load_types ts [], w))"

definition InstanceInfo :: "instance_types \<Rightarrow> string \<Rightarrow> instance_info outcome" where
  "InstanceInfo m t = (case m_get m t of
     Some i \<Rightarrow> Ret i
   | None \<Rightarrow> Fail (Errorf (''unknown instance type: '' @ t)))"

fun synthetic_loop :: "instance_types \<Rightarrow> string list \<Rightarrow> instance_info \<Rightarrow> instance_info outcome" where
  "synthetic_loop m [] r = Ret r"
| "synthetic_loop m (t # ts) r =
     bindO (InstanceInfo m t) (\<lambda>i. synthetic_loop m ts
       (r\<lparr>in_VCPU := min (in_VCPU r) (in_VCPU i), in_Memory := min (in_Memory r) (in_Memory i),
         in_StorageDeviceSize := min (in_StorageDeviceSize r) (in_StorageDeviceSize i),
         in_StorageDevices := min (in_StorageDevices r) (in_StorageDevices i)\<rparr>))"

definition SyntheticInstanceInfo :: "instance_types \<Rightarrow> string list \<Rightarrow> instance_info outcome" where
  "SyntheticInstanceInfo m ts =
     (case ts of
        [] \<Rightarrow> Fail (Errorf ''no instance types provided'')
      | [t] \<Rightarrow> InstanceInfo m t
      | t # rest \<Rightarrow> bindO (InstanceInfo m t) (\<lambda>i. synthetic_loop m rest (i\<lparr>in_InstanceType := ''<multiple>''\<rparr>)))"

section \<open>The synthetic instance\<close>

text \<open>Every measure of the result is the least of the types, and no type that is unknown is skipped.\<close>

lemma min_list_le: "x \<in> set xs \<Longrightarrow> foldr min xs (a :: int) \<le> x"
  by (induction xs) auto

lemma min_list_le_start: "foldr min xs (a :: int) \<le> a"
  by (induction xs) (auto simp: min_le_iff_disj)

lemma synthetic_loop_spec:
  "synthetic_loop m ts r = Ret i \<Longrightarrow>
     list_all (\<lambda>t. m_has m t) ts
   \<and> in_VCPU i = foldr min (map (\<lambda>t. in_VCPU (the (m_get m t))) ts) (in_VCPU r)
   \<and> in_Memory i = foldr min (map (\<lambda>t. in_Memory (the (m_get m t))) ts) (in_Memory r)
   \<and> in_StorageDevices i = foldr min (map (\<lambda>t. in_StorageDevices (the (m_get m t))) ts) (in_StorageDevices r)
   \<and> in_StorageDeviceSize i = foldr min (map (\<lambda>t. in_StorageDeviceSize (the (m_get m t))) ts) (in_StorageDeviceSize r)
   \<and> in_Architecture i = in_Architecture r"
proof (induction ts arbitrary: r)
  case (Cons t ts)
  have swap: "foldr min xs (min a b) = min b (foldr min xs a)" for xs and a b :: int
    by (induction xs) (auto simp: min.left_commute min.commute)
  obtain j where j: "m_get m t = Some j" using Cons.prems by (auto simp: InstanceInfo_def split: option.splits)
  show ?case using Cons.IH Cons.prems j by (auto simp: InstanceInfo_def swap)
qed simp

lemma foldr_min_attained: "foldr min xs (a :: int) \<in> insert a (set xs)"
  by (induction xs) (auto simp: min_def)

lemma synthetic_loop_fails:
  "(\<exists>i. synthetic_loop m ts r = Ret i) \<or> (\<exists>e. synthetic_loop m ts r = Fail e) \<and> (\<exists>t \<in> set ts. m_get m t = None)"
proof (induction ts arbitrary: r)
  case (Cons t ts)
  then show ?case by (cases "m_get m t") (simp_all add: InstanceInfo_def)
qed simp

text \<open>
  The synthetic instance of a node pool with several instance types is safe to plan with:
  every known measure is at most that of each type of the pool and equals that of one of them, the
  architecture is that of the first type, and the call fails exactly when the list is empty or a type
  is unknown.
\<close>

theorem SyntheticInstanceInfo_least:
  "case SyntheticInstanceInfo m ts of
     Ret i \<Rightarrow> ts \<noteq> [] \<and> (\<forall>t \<in> set ts. m_has m t)
       \<and> (\<forall>f \<in> {in_VCPU, in_Memory, in_StorageDevices, in_StorageDeviceSize}.
            (\<forall>t \<in> set ts. f i \<le> f (the (m_get m t))) \<and> (\<exists>t \<in> set ts. f i = f (the (m_get m t))))
       \<and> in_Architecture i = in_Architecture (the (m_get m (hd ts)))
   | Fail e \<Rightarrow> ts = [] \<or> (\<exists>t \<in> set ts. m_get m t = None)
   | _ \<Rightarrow> False"
proof -

  have bounds: "(\<forall>t \<in> set ts. f i \<le> f (the (m_get m t))) \<and> (\<exists>t \<in> set ts. f i = f (the (m_get m t)))"
    if "f i = foldr min (map (\<lambda>t. f (the (m_get m t))) (tl ts)) (f (the (m_get m (hd ts))))" "ts \<noteq> []"
    for f :: "instance_info \<Rightarrow> int" and i ts
  proof -
    let ?g = "\<lambda>t. f (the (m_get m t))"
    have "foldr min (map ?g (tl ts)) (?g (hd ts)) \<le> ?g (hd ts)" by (rule min_list_le_start)
    moreover have "f i \<in> ?g ` set ts" using foldr_min_attained [of "map ?g (tl ts)" "?g (hd ts)"] that
      by (cases ts) auto
    ultimately show ?thesis using that min_list_le [of _ "map ?g (tl ts)" "?g (hd ts)"]
      by (cases ts) (auto simp: image_iff)
  qed
  consider "ts = []" | t where "ts = [t]" | t u us where "ts = t # u # us" by (metis list.exhaust)
  then show ?thesis
  proof cases
    case 3
    let ?loop = "\<lambda>i. synthetic_loop m (u # us) (i\<lparr>in_InstanceType := ''<multiple>''\<rparr>)"
    show ?thesis
    proof (cases "m_get m t")
      case (Some i)
      then have s: "SyntheticInstanceInfo m ts = ?loop i" using 3 by (simp add: SyntheticInstanceInfo_def InstanceInfo_def)
      show ?thesis
      proof (cases "?loop i")
        case (Ret r)
        note spec = synthetic_loop_spec [OF Ret]
        have "list_all (\<lambda>t. m_has m t) ts" using spec 3 Some by simp
        then show ?thesis using spec 3 Some Ret s bounds [of _ r ts] by (simp add: list_all_iff)
      qed (use synthetic_loop_fails [of m "u # us" "i\<lparr>in_InstanceType := ''<multiple>''\<rparr>"] s 3 in auto)
    qed (use 3 in \<open>simp add: SyntheticInstanceInfo_def InstanceInfo_def\<close>)
  qed (auto simp: SyntheticInstanceInfo_def InstanceInfo_def split: option.splits)
qed

definition sample_types :: instance_types where
  "sample_types = NewInstanceTypes
     [\<lparr>in_InstanceType = ''m5.large'', in_VCPU = 2, in_Memory = 8, in_StorageDevices = 0, in_StorageDeviceSize = 0, in_Architecture = ''amd64''\<rparr>,
      \<lparr>in_InstanceType = ''m5.xlarge'', in_VCPU = 4, in_Memory = 16, in_StorageDevices = 0, in_StorageDeviceSize = 0, in_Architecture = ''amd64''\<rparr>]"

theorem SyntheticInstanceInfo_least_witness:
  "case SyntheticInstanceInfo sample_types [''m5.xlarge'', ''m5.large''] of
     Ret i \<Rightarrow> [''m5.xlarge'', ''m5.large''] \<noteq> [] \<and> (\<forall>t \<in> set [''m5.xlarge'', ''m5.large'']. m_has sample_types t)
       \<and> (\<forall>f \<in> {in_VCPU, in_Memory, in_StorageDevices, in_StorageDeviceSize}.
            (\<forall>t \<in> set [''m5.xlarge'', ''m5.large'']. f i \<le> f (the (m_get sample_types t)))
            \<and> (\<exists>t \<in> set [''m5.xlarge'', ''m5.large'']. f i = f (the (m_get sample_types t))))
       \<and> in_Architecture i = in_Architecture (the (m_get sample_types (hd [''m5.xlarge'', ''m5.large''])))
   | Fail e \<Rightarrow> [''m5.xlarge'', ''m5.large''] = [] \<or> (\<exists>t \<in> set [''m5.xlarge'', ''m5.large'']. m_get sample_types t = None)
   | _ \<Rightarrow> False"
  by (rule SyntheticInstanceInfo_least)

end
