(* ===== verification/Api_Cluster.thy ===== *)
theory Api_Cluster
  imports Go_Lib
begin

text \<open>
  Package \<open>api\<close>: the cluster, its node pools, its status and its version
  (\<open>api/cluster.go\<close>, \<open>api/cluster_version.go\<close>, \<open>api/node_pool.go\<close>, \<open>api/cluster_status.go\<close>,
  \<open>api/problem.go\<close>, \<open>pkg/util/hosted_zone.go\<close>). A cluster carries the clusters of its account;
  the clusters in that list are read without their own account lists, so a record extension
  holds them. \<open>net/url.Parse\<close> and \<open>json.Marshal\<close> are arguments of the definitions that call them,
  and so is the digest of \<open>Version\<close> (SHA-1, then base64).
\<close>

section \<open>Data\<close>

record node_pool =
  np_DiscountStrategy :: string
  np_InstanceTypes :: "string list"
  np_Name :: string
  np_Profile :: string
  np_MinSize :: int
  np_MaxSize :: int
  np_ConfigItems :: "string gomap"
  np_InstanceType :: string

record problem =
  pb_Detail :: string
  pb_Instance :: string
  pb_Status :: int
  pb_Title :: string
  pb_Type :: string

record cluster_status =
  st_CurrentVersion :: string
  st_LastVersion :: string
  st_NextVersion :: string
  st_Problems :: "problem list"

record account_cluster =
  cl_Alias :: string
  cl_APIServerURL :: string
  cl_Channel :: string
  cl_ConfigItems :: "string gomap"
  cl_CriticalityLevel :: int
  cl_Environment :: string
  cl_ID :: string
  cl_InfrastructureAccount :: string
  cl_LifecycleStatus :: string
  cl_LocalID :: string
  cl_NodePools :: "node_pool list"
  cl_Provider :: string
  cl_Region :: string
  cl_Status :: "cluster_status option"
  cl_Owner :: string
  cl_AccountName :: string
  cl_CreatedAt :: int
  cl_OIDCProvider :: string
  cl_IAMRoleTrustRelationshipTemplate :: string

record cluster = account_cluster +
  cl_AccountClusters :: "account_cluster list"

definition ZalandoAWSProvider :: string where
  "ZalandoAWSProvider = ''zalando-aws''"

definition ZalandoEKSProvider :: string where
  "ZalandoEKSProvider = ''zalando-eks''"

definition overrideChannelConfigItem :: string where
  "overrideChannelConfigItem = ''override_channel''"

text \<open>Lifecycle states of the registry model and of the controller.\<close>

definition statusRequested :: string where "statusRequested = ''requested''"
definition statusReady :: string where "statusReady = ''ready''"
definition statusDecommissionRequested :: string where
  "statusDecommissionRequested = ''decommission-requested''"
definition statusDecommissioned :: string where "statusDecommissioned = ''decommissioned''"

lemmas status_defs = statusRequested_def statusReady_def statusDecommissionRequested_def
  statusDecommissioned_def

section \<open>Node pools\<close>

definition IsSpot :: "node_pool \<Rightarrow> bool" where
  "IsSpot np \<longleftrightarrow> np_DiscountStrategy np = ''spot_max_price'' \<or> np_DiscountStrategy np = ''spot''"

definition IsMaster :: "node_pool \<Rightarrow> bool" where
  "IsMaster np \<longleftrightarrow> contains_str (np_Profile np) ''master''"

definition IsKarpenter :: "node_pool \<Rightarrow> bool" where
  "IsKarpenter np \<longleftrightarrow> np_Profile np = ''worker-karpenter''"

definition KarpenterInstanceTypeStrategy :: "node_pool \<Rightarrow> string" where
  "KarpenterInstanceTypeStrategy np =
     (if np_InstanceTypes np = [''not-specified''] then ''not-specified''
      else if np_InstanceTypes np = [''default-for-karpenter''] then ''default-for-karpenter''
      else ''custom'')"

fun KarpenterPools_loop :: "node_pool list \<Rightarrow> node_pool list" where
  "KarpenterPools_loop [] = []"
| "KarpenterPools_loop (n # ns) =
     (if IsKarpenter n then n # KarpenterPools_loop ns else KarpenterPools_loop ns)"

definition KarpenterPools :: "('a) account_cluster_scheme \<Rightarrow> node_pool list" where
  "KarpenterPools c = KarpenterPools_loop (cl_NodePools c)"

fun ASGBackedPools_loop :: "node_pool list \<Rightarrow> node_pool list" where
  "ASGBackedPools_loop [] = []"
| "ASGBackedPools_loop (n # ns) =
     (if \<not> IsKarpenter n then n # ASGBackedPools_loop ns else ASGBackedPools_loop ns)"

definition ASGBackedPools :: "('a) account_cluster_scheme \<Rightarrow> node_pool list" where
  "ASGBackedPools c = ASGBackedPools_loop (cl_NodePools c)"

lemma KarpenterPools_filter: "KarpenterPools c = filter IsKarpenter (cl_NodePools c)"
proof -
  have "KarpenterPools_loop ns = filter IsKarpenter ns" for ns by (induction ns) auto
  then show ?thesis by (simp add: KarpenterPools_def)
qed

lemma ASGBackedPools_filter:
  "ASGBackedPools c = filter (\<lambda>n. \<not> IsKarpenter n) (cl_NodePools c)"
proof -
  have "ASGBackedPools_loop ns = filter (\<lambda>n. \<not> IsKarpenter n) ns" for ns by (induction ns) auto
  then show ?thesis by (simp add: ASGBackedPools_def)
qed

section \<open>Versions\<close>

record cluster_version =
  cv_ConfigVersion :: string
  cv_ClusterHash :: string

definition ParseVersion :: "string \<Rightarrow> cluster_version" where
  "ParseVersion version =
     (case split_on (CHR ''#'') version of
        [a, b] \<Rightarrow> \<lparr>cv_ConfigVersion = a, cv_ClusterHash = b\<rparr>
      | _ \<Rightarrow> \<lparr>cv_ConfigVersion = [], cv_ClusterHash = []\<rparr>)"

definition version_String :: "cluster_version option \<Rightarrow> string" where
  "version_String v = (case v of None \<Rightarrow> []
     | Some v \<Rightarrow> cv_ConfigVersion v @ ''#'' @ cv_ClusterHash v)"

lemma parse_version_String:
  assumes "CHR ''#'' \<notin> set (cv_ConfigVersion v)" and "CHR ''#'' \<notin> set (cv_ClusterHash v)"
  shows "ParseVersion (version_String (Some v)) = v"
  using assms by (cases v) (simp add: ParseVersion_def version_String_def split_on_append split_on_no_sep)

text \<open>
  A configuration version with a hash sign in it makes the written form unreadable: it parses to
  the empty version.
\<close>

lemma parse_version_String_bad:
  assumes "CHR ''#'' \<in> set (cv_ConfigVersion v) \<or> CHR ''#'' \<in> set (cv_ClusterHash v)"
  shows "ParseVersion (version_String (Some v)) = \<lparr>cv_ConfigVersion = [], cv_ClusterHash = []\<rparr>"
proof -
  let ?s = "version_String (Some v)"
  have "0 < count_list (cv_ConfigVersion v) (CHR ''#'') + count_list (cv_ClusterHash v) (CHR ''#'')"
    using assms by (metis add_is_0 count_list_0_iff gr0I)
  then have "2 < length (split_on (CHR ''#'') ?s)"
    by (simp add: version_String_def length_split_on count_list_append)
  then show ?thesis
    by (auto simp: ParseVersion_def split: list.splits)
qed

text \<open>\<open>binary.Write(state, binary.LittleEndian, x)\<close> for an integer of \<open>n\<close> bytes.\<close>

definition le_bytes :: "nat \<Rightarrow> int \<Rightarrow> string" where
  "le_bytes n x = map (\<lambda>i. char_of (nat ((x div 256 ^ i) mod 256))) [0..<n]"

text \<open>The config items in the order of their sorted keys.\<close>

definition items_state :: "string gomap \<Rightarrow> string" where
  "items_state m = concat (map (\<lambda>k. k @ m_str m k) (sort (m_keys m)))"

definition pool_state :: "node_pool \<Rightarrow> string" where
  "pool_state np =
     np_Name np @ np_Profile np @ concat (np_InstanceTypes np) @ np_DiscountStrategy np
     @ le_bytes 8 (np_MinSize np) @ le_bytes 8 (np_MaxSize np) @ items_state (np_ConfigItems np)"

text \<open>The bytes the version is derived from, in the order they are written.\<close>

definition version_state :: "('a) account_cluster_scheme \<Rightarrow> string" where
  "version_state c =
     cl_ID c @ cl_InfrastructureAccount c @ cl_LocalID c @ cl_APIServerURL c @ cl_Channel c
     @ cl_Environment c @ le_bytes 4 (cl_CriticalityLevel c) @ cl_LifecycleStatus c
     @ cl_Provider c @ cl_Region c @ items_state (cl_ConfigItems c)
     @ concat (map pool_state (cl_NodePools c))"

definition Version :: "(string \<Rightarrow> string) \<Rightarrow> ('a) account_cluster_scheme \<Rightarrow> string \<Rightarrow> cluster_version" where
  "Version digest c channelVersionID =
     \<lparr>cv_ConfigVersion = channelVersionID, cv_ClusterHash = digest (version_state c)\<rparr>"

section \<open>Channel overrides\<close>

fun overrides_loop :: "string list \<Rightarrow> string gomap \<Rightarrow> go_error + string gomap" where
  "overrides_loop [] result = Inr result"
| "overrides_loop (override # os) result =
     (case splitn_on 2 (CHR ''='') override of
        [a, b] \<Rightarrow> overrides_loop os (m_put a b result)
      | _ \<Rightarrow> Inl (Errorf (''invalid override definition: '' @ override)))"

definition ChannelOverrides :: "('a) account_cluster_scheme \<Rightarrow> go_error + string gomap" where
  "ChannelOverrides c =
     (case m_get (cl_ConfigItems c) overrideChannelConfigItem of
        Some overrides \<Rightarrow> overrides_loop (split_on (CHR '','') overrides) []
      | None \<Rightarrow> Inr [])"

section \<open>Names and identifiers\<close>

definition cluster_Name :: "('a) account_cluster_scheme \<Rightarrow> string" where
  "cluster_Name c = (if cl_Provider c = ZalandoEKSProvider then cl_Alias c else cl_ID c)"

definition InfrastructureAccountID :: "('a) account_cluster_scheme \<Rightarrow> string" where
  "InfrastructureAccountID c = trim_prefix (cl_InfrastructureAccount c) ''aws:''"

definition WorkerRoleARN :: "('a) account_cluster_scheme \<Rightarrow> string" where
  "WorkerRoleARN c =
     ''arn:aws:iam::'' @ InfrastructureAccountID c @ '':role/'' @ cl_LocalID c @ ''-worker''"

definition OIDCProviderARN :: "('a) account_cluster_scheme \<Rightarrow> string" where
  "OIDCProviderARN c =
     ''arn:aws:iam::'' @ InfrastructureAccountID c @ '':oidc-provider/'' @ cl_OIDCProvider c"

definition OIDCSubjectKey :: "('a) account_cluster_scheme \<Rightarrow> string" where
  "OIDCSubjectKey c = cl_OIDCProvider c @ '':sub''"

section \<open>Trust relationship\<close>

record statement =
  sm_Effect :: string
  sm_Principal :: "string gomap"
  sm_Action :: "string list"
  sm_Condition :: "string gomap gomap"
  sm_Sid :: string

record policy_document =
  pd_Version :: string
  pd_Statement :: "statement list"

definition policyStatements :: "string \<Rightarrow> string \<Rightarrow> string \<Rightarrow> statement list" where
  "policyStatements workerRole identityProvider subjectKey =
     [\<lparr>sm_Effect = ''Allow'', sm_Principal = [(''AWS'', workerRole)],
       sm_Action = [''sts:AssumeRole''], sm_Condition = [], sm_Sid = []\<rparr>,
      \<lparr>sm_Effect = ''Allow'', sm_Principal = [(''Federated'', identityProvider)],
       sm_Action = [''sts:AssumeRoleWithWebIdentity''],
       sm_Condition = [(''StringLike'',
          [(subjectKey, ''system:serviceaccount:${SERVICE_ACCOUNT}'')])], sm_Sid = []\<rparr>]"

fun trust_loop :: "('a) account_cluster_scheme list \<Rightarrow> statement list \<Rightarrow> statement list" where
  "trust_loop [] acc = acc"
| "trust_loop (c # cs) acc =
     (if cl_LifecycleStatus c = statusReady
      then trust_loop cs (acc @ policyStatements (WorkerRoleARN c) (OIDCProviderARN c) (OIDCSubjectKey c))
      else trust_loop cs acc)"

definition trustRelationship :: "('a) account_cluster_scheme list \<Rightarrow> policy_document" where
  "trustRelationship clusters =
     \<lparr>pd_Version = ''2012-10-17'',
      pd_Statement = trust_loop clusters
        [\<lparr>sm_Effect = ''Allow'', sm_Principal = [(''Service'', ''ec2.amazonaws.com'')],
          sm_Action = [''sts:AssumeRole''], sm_Condition = [], sm_Sid = ''CLMApplied''\<rparr>,
         \<lparr>sm_Effect = ''Allow'', sm_Principal = [(''Service'', ''pods.eks.amazonaws.com'')],
          sm_Action = [''sts:AssumeRole'', ''sts:TagSession''], sm_Condition = [], sm_Sid = []\<rparr>]\<rparr>"

text \<open>\<open>url_host\<close> is \<open>url.Parse\<close> followed by the selection of the host.\<close>

definition GetHostedZone :: "(string \<Rightarrow> go_error + string) \<Rightarrow> string \<Rightarrow> go_error + string" where
  "GetHostedZone url_host apiServerURL =
     (case url_host apiServerURL of
        Inl e \<Rightarrow> Inl e
      | Inr host \<Rightarrow>
          (let split = split_on (CHR ''.'') host in
           if length split < 2
           then Inl (Errorf (''can't derive hosted zone from URL '' @ apiServerURL))
           else Inr (join_with ''.'' (tl split))))"

definition oidc_provider :: "(string \<Rightarrow> go_error + string) \<Rightarrow> ('a) account_cluster_scheme \<Rightarrow> go_error + string" where
  "oidc_provider url_host c =
     (if cl_Provider c = ZalandoEKSProvider
      then Inr (trim_prefix (m_str (cl_ConfigItems c) ''eks_oidc_issuer_url'') ''https://'')
      else (case GetHostedZone url_host (cl_APIServerURL c) of
              Inl e \<Rightarrow> Inl (Errorf (''error while getting trust relationship for '' @ cl_Alias c
                             @ '': '' @ error_text e))
            | Inr hostedZone \<Rightarrow> Inr (cl_LocalID c @ ''.'' @ hostedZone)))"

text \<open>
  The clusters of an account are pointers, and the cluster itself is one of them: the entry with its
  ID shows every change of the cluster.
\<close>

definition own_entry :: "cluster \<Rightarrow> cluster" where
  "own_entry c = c\<lparr>cl_AccountClusters :=
     map (\<lambda>a. if cl_ID a = cl_ID c then account_cluster.truncate c else a) (cl_AccountClusters c)\<rparr>"

definition InitOIDCProvider ::
  "(string \<Rightarrow> go_error + string) \<Rightarrow> (policy_document \<Rightarrow> go_error + string) \<Rightarrow> cluster \<Rightarrow> go_error + cluster" where
  "InitOIDCProvider url_host marshal c =
     (case oidc_provider url_host c of
        Inl e \<Rightarrow> Inl e
      | Inr provider \<Rightarrow>
          (let c' = own_entry (c\<lparr>cl_OIDCProvider := provider\<rparr>) in
           case marshal (trustRelationship (cl_AccountClusters c')) of
             Inl e \<Rightarrow> Inl (Errorf (''error while marshalling trust relationship for '' @ cl_Alias c
                            @ '': '' @ error_text e))
           | Inr json \<Rightarrow> Inr (own_entry (c'\<lparr>cl_IAMRoleTrustRelationshipTemplate := json\<rparr>))))"

section \<open>Sibling clusters\<close>

fun sibling_loop :: "cluster \<Rightarrow> account_cluster list \<Rightarrow> account_cluster option \<Rightarrow> account_cluster option" where
  "sibling_loop cluster [] sibling = sibling"
| "sibling_loop cluster (c # cs) sibling =
     (if cl_ID c = cl_ID cluster then sibling_loop cluster cs sibling
      else if cl_Region c \<noteq> cl_Region cluster then sibling_loop cluster cs sibling
      else if cl_LifecycleStatus c \<noteq> statusReady then sibling_loop cluster cs sibling
      else if (case sibling of None \<Rightarrow> True | Some s \<Rightarrow> cl_CreatedAt c < cl_CreatedAt s)
           then sibling_loop cluster cs (Some c)
           else sibling_loop cluster cs sibling)"

definition SiblingCluster :: "cluster \<Rightarrow> account_cluster option" where
  "SiblingCluster cluster = sibling_loop cluster (cl_AccountClusters cluster) None"

fun oldest_loop :: "cluster \<Rightarrow> account_cluster list \<Rightarrow> bool option" where
  "oldest_loop cluster [] = None"
| "oldest_loop cluster (c # cs) =
     (if cl_LifecycleStatus c = statusReady \<and> cl_Region cluster = cl_Region c
      then Some (cl_ID cluster = cl_ID c)
      else oldest_loop cluster cs)"

definition IsOldestReadyClusterInTheRegion :: "cluster \<Rightarrow> bool" where
  "IsOldestReadyClusterInTheRegion cluster =
     (case oldest_loop cluster (cl_AccountClusters cluster) of
        Some b \<Rightarrow> b
      | None \<Rightarrow> cl_AccountClusters cluster = [])"

section \<open>Properties of versions\<close>

lemma sort_mset_eq: "mset xs = mset ys \<Longrightarrow> sort xs = sort ys"
  by (metis mset_sort properties_for_sort sorted_sort)

lemma items_state_order:
  assumes "m_ok m" and "mset m = mset m'"
  shows "items_state m = items_state m'"
proof -
  have "m_get m = m_get m'" using assms by (rule m_get_mset)
  moreover have "sort (m_keys m) = sort (m_keys m')"
    using assms(2) by (intro sort_mset_eq) (simp add: m_keys_def)
  ultimately show ?thesis by (simp add: items_state_def m_str_def)
qed

text \<open>
  The pieces of the state, in the order they are written, so that the state is their concatenation.
\<close>

definition items_pieces :: "string gomap \<Rightarrow> string list" where
  "items_pieces m = concat (map (\<lambda>k. [k, m_str m k]) (sort (m_keys m)))"

definition pool_pieces :: "node_pool \<Rightarrow> string list" where
  "pool_pieces np = np_Name np # np_Profile np # np_InstanceTypes np
     @ [np_DiscountStrategy np, le_bytes 8 (np_MinSize np), le_bytes 8 (np_MaxSize np)]
     @ items_pieces (np_ConfigItems np)"

definition version_pieces :: "('a) account_cluster_scheme \<Rightarrow> string list" where
  "version_pieces c = [cl_ID c, cl_InfrastructureAccount c, cl_LocalID c, cl_APIServerURL c, cl_Channel c,
       cl_Environment c, le_bytes 4 (cl_CriticalityLevel c), cl_LifecycleStatus c, cl_Provider c, cl_Region c]
     @ items_pieces (cl_ConfigItems c) @ concat (map pool_pieces (cl_NodePools c))"

lemma items_state_pieces: "items_state m = concat (items_pieces m)"
proof -
  have "concat (map (\<lambda>k. k @ m_str m k) ks) = concat (concat (map (\<lambda>k. [k, m_str m k]) ks))" for ks
    by (induction ks) simp_all
  then show ?thesis by (simp add: items_state_def items_pieces_def)
qed

lemma version_state_pieces: "version_state c = concat (version_pieces c)"
proof -
  have "concat (map pool_state ps) = concat (concat (map pool_pieces ps))" for ps
    by (induction ps) (simp_all add: pool_state_def pool_pieces_def items_state_pieces)
  then show ?thesis by (simp add: version_state_def version_pieces_def items_state_pieces)
qed

lemma length_concat_same:
  "length xs = length ys \<Longrightarrow> \<forall>j < length xs. length (xs ! j) = length (ys ! j) \<Longrightarrow> length (concat xs) = length (concat ys)"
  by (auto simp: length_concat intro!: arg_cong [of _ _ sum_list] nth_equalityI)

text \<open>Two concatenations are the same only for the same pieces if at most one piece changes its length.\<close>

lemma concat_one_length:
  assumes "length xs = length ys" and "concat xs = concat ys"
    and "\<forall>j < length xs. j \<noteq> i \<longrightarrow> length (xs ! j) = length (ys ! j)"
  shows "xs = ys"
  using assms
proof (induction xs ys arbitrary: i rule: list_induct2)
  case (Cons x xs y ys)
  have "length x = length y"
  proof (cases i)
    case 0
    with Cons.prems(2) have "\<forall>j < length xs. length (xs ! j) = length (ys ! j)" by auto
    from length_concat_same [OF Cons.hyps this] Cons.prems(1) show ?thesis
      by (metis add_right_cancel concat.simps(2) length_append)
  next
    case (Suc i')
    with Cons.prems(2) show ?thesis by auto
  qed
  with Cons.prems(1) have eq: "x = y" "concat xs = concat ys" by simp_all
  have "\<forall>j < length xs. j \<noteq> i - 1 \<longrightarrow> length (xs ! j) = length (ys ! j)" if "i \<noteq> 0"
    using Cons.prems(2) that by (cases i) auto
  moreover have "\<forall>j < length xs. j \<noteq> i \<longrightarrow> length (xs ! j) = length (ys ! j)" if "i = 0"
    using Cons.prems(2) that by auto
  ultimately show ?case using Cons.IH eq by metis
qed simp

lemma length_items_pieces: "length (items_pieces m) = 2 * length (m_keys m)"
  by (simp add: items_pieces_def length_concat comp_def sum_list_triv)

text \<open>The pieces determine the attributes.\<close>

lemma le_bytes_inj:
  assumes "le_bytes n x = le_bytes n y"
  shows "x mod 256 ^ n = y mod 256 ^ n"
  using assms
proof (induction n)
  case (Suc n)
  have "char_of (nat ((x div 256 ^ n) mod 256)) = (char_of (nat ((y div 256 ^ n) mod 256)) :: char)"
    using Suc.prems by (simp add: le_bytes_def)
  then have "nat ((x div 256 ^ n) mod 256) mod 256 = nat ((y div 256 ^ n) mod 256) mod 256"
    by (metis of_char_of)
  then have "(x div 256 ^ n) mod 256 = (y div 256 ^ n) mod 256" by (simp add: nat_mod_distrib)
  moreover have "x mod 256 ^ n = y mod 256 ^ n" using Suc by (simp add: le_bytes_def)
  ultimately show ?case by (simp add: mult.commute [of 256] zmod_zmult2_eq)
qed simp

lemma signed_range_inj:
  fixes b :: int
  assumes "x mod (2 * b) = y mod (2 * b)" and "- b \<le> x" "x < b" "- b \<le> y" "y < b"
  shows "x = y"
proof -
  have "(x + b) mod (2 * b) = (y + b) mod (2 * b)" using assms(1) by (metis mod_add_left_eq)
  then show ?thesis using assms(2-5) by simp
qed

lemma items_pieces_get:
  assumes "items_pieces m = items_pieces m'" and "m_ok m" and "m_ok m'"
  shows "m_get m = m_get m'"
proof -
  have pairs: "map (\<lambda>k. (k, m_str m k)) (sort (m_keys m)) = map (\<lambda>k. (k, m_str m' k)) (sort (m_keys m'))"
  proof -
    have "map f ks = map g ks'"
      if "concat (map (\<lambda>k. [k, m_str m k]) ks) = concat (map (\<lambda>k. [k, m_str m' k]) ks')"
        and "f = (\<lambda>k. (k, m_str m k))" "g = (\<lambda>k. (k, m_str m' k))" for ks ks' f g
      using that
    proof (induction ks arbitrary: ks')
      case Nil
      then show ?case by (cases ks') auto
    next
      case (Cons k ks)
      then show ?case by (cases ks') auto
    qed
    then show ?thesis using assms(1) unfolding items_pieces_def by blast
  qed
  from arg_cong [OF pairs, of "map fst"] have keys: "sort (m_keys m) = sort (m_keys m')" by (simp add: comp_def)
  show ?thesis
  proof
    fix k
    show "m_get m k = m_get m' k"
    proof (cases "k \<in> set (m_keys m)")
      case True
      then have has: "k \<in> set (m_keys m')" using keys by (metis set_sort)
      have "m_str m k = m_str m' k" using pairs True unfolding keys by (metis (no_types, lifting) keys map_eq_conv prod.inject set_sort)
      moreover have "m_get i k = Some (m_str i k)" if "k \<in> set (m_keys i)" for i
        using that by (cases "m_get i k") (auto simp: m_keys_def m_str_def map_of_eq_None_iff)
      ultimately show ?thesis using True has by metis
    next
      case False
      then have "k \<notin> set (m_keys m')" using keys by (metis set_sort)
      with False show ?thesis by (metis m_keys_def map_of_eq_None_iff set_map)
    qed
  qed
qed

lemma items_pieces_iff:
  assumes "m_ok m" and "m_ok m'"
  shows "items_pieces m = items_pieces m' \<longleftrightarrow> m_get m = m_get m'"
proof
  assume same: "m_get m = m_get m'"
  then have "set (m_keys m) = set (m_keys m')"
    by (metis dom_map_of_conv_image_fst m_keys_def set_map)
  then have "sort (m_keys m) = sort (m_keys m')"
    using assms by (intro sorted_distinct_set_unique) (simp_all add: m_ok_def m_keys_def)
  with same show "items_pieces m = items_pieces m'" by (simp add: items_pieces_def m_str_def)
qed (rule items_pieces_get [OF _ assms])

text \<open>The values of the Go types: 32 and 64 bits wide integers, and maps.\<close>

definition go_pool :: "node_pool \<Rightarrow> bool" where
  "go_pool np \<longleftrightarrow> - (2 ^ 63) \<le> np_MinSize np \<and> np_MinSize np < 2 ^ 63
     \<and> - (2 ^ 63) \<le> np_MaxSize np \<and> np_MaxSize np < 2 ^ 63 \<and> m_ok (np_ConfigItems np)"

definition go_cluster :: "('a) account_cluster_scheme \<Rightarrow> bool" where
  "go_cluster c \<longleftrightarrow> - (2 ^ 31) \<le> cl_CriticalityLevel c \<and> cl_CriticalityLevel c < 2 ^ 31
     \<and> m_ok (cl_ConfigItems c) \<and> list_all go_pool (cl_NodePools c)"

lemma int32_bytes:
  assumes "- (2 ^ 31) \<le> x" "x < 2 ^ 31" "- (2 ^ 31) \<le> y" "y < 2 ^ 31"
  shows "le_bytes 4 x = le_bytes 4 y \<longleftrightarrow> x = y"
  using signed_range_inj [of x "2 ^ 31" y] le_bytes_inj [of 4 x y] assms by auto

lemma int64_bytes:
  assumes "- (2 ^ 63) \<le> x" "x < 2 ^ 63" "- (2 ^ 63) \<le> y" "y < 2 ^ 63"
  shows "le_bytes 8 x = le_bytes 8 y \<longleftrightarrow> x = y"
  using signed_range_inj [of x "2 ^ 63" y] le_bytes_inj [of 8 x y] assms by auto

definition same_pool :: "node_pool \<Rightarrow> node_pool \<Rightarrow> bool" where
  "same_pool p q \<longleftrightarrow> np_Name p = np_Name q \<and> np_Profile p = np_Profile q \<and> np_InstanceTypes p = np_InstanceTypes q
     \<and> np_DiscountStrategy p = np_DiscountStrategy q \<and> np_MinSize p = np_MinSize q \<and> np_MaxSize p = np_MaxSize q
     \<and> m_get (np_ConfigItems p) = m_get (np_ConfigItems q)"

definition alike_pool :: "node_pool \<Rightarrow> node_pool \<Rightarrow> bool" where
  "alike_pool p q \<longleftrightarrow> length (np_InstanceTypes p) = length (np_InstanceTypes q)
     \<and> length (m_keys (np_ConfigItems p)) = length (m_keys (np_ConfigItems q))"

lemma pool_pieces_iff:
  assumes "go_pool p" and "go_pool q" and "alike_pool p q"
  shows "pool_pieces p = pool_pieces q \<longleftrightarrow> same_pool p q"
  using assms int64_bytes items_pieces_iff
  by (auto simp: pool_pieces_def same_pool_def go_pool_def alike_pool_def)

lemma pools_pieces_iff:
  assumes "list_all2 alike_pool ps qs" and "list_all go_pool ps" and "list_all go_pool qs"
  shows "length (concat (map pool_pieces ps)) = length (concat (map pool_pieces qs))
    \<and> (concat (map pool_pieces ps) = concat (map pool_pieces qs) \<longleftrightarrow> list_all2 same_pool ps qs)"
  using assms
proof (induction rule: list_all2_induct)
  case (Cons p ps q qs)
  have len: "length (pool_pieces p) = length (pool_pieces q)"
    using Cons.hyps(1) by (simp add: pool_pieces_def alike_pool_def length_items_pieces)
  have "pool_pieces p = pool_pieces q \<longleftrightarrow> same_pool p q"
    using Cons.hyps(1) Cons.prems by (intro pool_pieces_iff) simp_all
  with len Cons.IH Cons.prems show ?case by simp
qed simp

lemma version_pieces_iff:
  assumes "go_cluster a" and "go_cluster b" and "list_all2 alike_pool (cl_NodePools a) (cl_NodePools b)"
    and "length (m_keys (cl_ConfigItems a)) = length (m_keys (cl_ConfigItems b))"
  shows "length (version_pieces a) = length (version_pieces b) \<and> (version_pieces a = version_pieces b \<longleftrightarrow>
      cl_ID a = cl_ID b \<and> cl_InfrastructureAccount a = cl_InfrastructureAccount b \<and> cl_LocalID a = cl_LocalID b
    \<and> cl_APIServerURL a = cl_APIServerURL b \<and> cl_Channel a = cl_Channel b \<and> cl_Environment a = cl_Environment b
    \<and> cl_CriticalityLevel a = cl_CriticalityLevel b \<and> cl_LifecycleStatus a = cl_LifecycleStatus b
    \<and> cl_Provider a = cl_Provider b \<and> cl_Region a = cl_Region b
    \<and> m_get (cl_ConfigItems a) = m_get (cl_ConfigItems b)
    \<and> list_all2 same_pool (cl_NodePools a) (cl_NodePools b))"
proof -
  have items: "length (items_pieces (cl_ConfigItems a)) = length (items_pieces (cl_ConfigItems b))"
    using assms(4) by (simp add: length_items_pieces)
  have pools: "list_all go_pool (cl_NodePools a)" "list_all go_pool (cl_NodePools b)"
    using assms(1,2) by (simp_all add: go_cluster_def)
  have level: "le_bytes 4 (cl_CriticalityLevel a) = le_bytes 4 (cl_CriticalityLevel b)
      \<longleftrightarrow> cl_CriticalityLevel a = cl_CriticalityLevel b"
    using assms(1,2) by (intro int32_bytes) (simp_all add: go_cluster_def)
  have config: "items_pieces (cl_ConfigItems a) = items_pieces (cl_ConfigItems b)
      \<longleftrightarrow> m_get (cl_ConfigItems a) = m_get (cl_ConfigItems b)"
    using assms(1,2) by (intro items_pieces_iff) (simp_all add: go_cluster_def)
  show ?thesis
    using pools_pieces_iff [OF assms(3) pools] items level config by (simp add: version_pieces_def)
qed

text \<open>
  A written version reads back as itself exactly when neither its configuration version
  nor its cluster hash contains the separator; otherwise it reads back as the empty version.
\<close>

theorem ParseVersion_roundtrip:
  "(ParseVersion (version_String (Some v)) = v \<longleftrightarrow>
      CHR ''#'' \<notin> set (cv_ConfigVersion v) \<and> CHR ''#'' \<notin> set (cv_ClusterHash v))
   \<and> (ParseVersion (version_String (Some v)) = v
      \<or> ParseVersion (version_String (Some v)) = \<lparr>cv_ConfigVersion = [], cv_ClusterHash = []\<rparr>)"
proof (cases "CHR ''#'' \<in> set (cv_ConfigVersion v) \<or> CHR ''#'' \<in> set (cv_ClusterHash v)")
  case True
  then have "v \<noteq> \<lparr>cv_ConfigVersion = [], cv_ClusterHash = []\<rparr>" by (cases v) auto
  with True parse_version_String_bad [OF True] show ?thesis by metis
next
  case False
  then show ?thesis using parse_version_String [of v] by simp
qed

text \<open>
  Claim C36. The version of a cluster detects changes of every attribute it is derived from:
  identifier, account, local identifier, API server URL, channel, environment, criticality level,
  lifecycle status, provider, region, the config items, and of every node pool its name, profile,
  instance types, discount strategy, sizes and config items. Of two clusters, with integers of Go's
  widths, that differ in any number of
  these attributes, but with the same numbers of config items, pools and instance types, and with at
  most one of the pieces written differing in its length, the versions are the same exactly when the
  channel versions and all those attributes are the same, unless the digest collides on the two byte
  strings. (The pieces are written without separators, so changes of the lengths of two pieces can
  cancel out, see \<open>Version_misses_config_change\<close>.)
\<close>

theorem Version_detects_changes:
  fixes a b :: "'a account_cluster_scheme"
  assumes go: "go_cluster a" "go_cluster b"
    and pools: "list_all2 (\<lambda>p q. length (np_InstanceTypes p) = length (np_InstanceTypes q)
        \<and> length (m_keys (np_ConfigItems p)) = length (m_keys (np_ConfigItems q))) (cl_NodePools a) (cl_NodePools b)"
    and items: "length (m_keys (cl_ConfigItems a)) = length (m_keys (cl_ConfigItems b))"
    and one: "\<forall>j < length (version_pieces a). j \<noteq> i \<longrightarrow> length (version_pieces a ! j) = length (version_pieces b ! j)"
    and digest: "digest (version_state a) = digest (version_state b) \<Longrightarrow> version_state a = version_state b"
  shows "Version digest a ch = Version digest b ch' \<longleftrightarrow> ch = ch'
    \<and> cl_ID a = cl_ID b \<and> cl_InfrastructureAccount a = cl_InfrastructureAccount b \<and> cl_LocalID a = cl_LocalID b
    \<and> cl_APIServerURL a = cl_APIServerURL b \<and> cl_Channel a = cl_Channel b \<and> cl_Environment a = cl_Environment b
    \<and> cl_CriticalityLevel a = cl_CriticalityLevel b \<and> cl_LifecycleStatus a = cl_LifecycleStatus b
    \<and> cl_Provider a = cl_Provider b \<and> cl_Region a = cl_Region b
    \<and> m_get (cl_ConfigItems a) = m_get (cl_ConfigItems b)
    \<and> list_all2 (\<lambda>p q. np_Name p = np_Name q \<and> np_Profile p = np_Profile q \<and> np_InstanceTypes p = np_InstanceTypes q
         \<and> np_DiscountStrategy p = np_DiscountStrategy q \<and> np_MinSize p = np_MinSize q \<and> np_MaxSize p = np_MaxSize q
         \<and> m_get (np_ConfigItems p) = m_get (np_ConfigItems q)) (cl_NodePools a) (cl_NodePools b)"
proof -
  note pieces = version_pieces_iff [OF go pools [folded alike_pool_def] items]
  have "version_state a = version_state b \<longleftrightarrow> version_pieces a = version_pieces b"
    using concat_one_length [OF conjunct1 [OF pieces] _ one] by (auto simp: version_state_pieces)
  moreover have "Version digest a ch = Version digest b ch' \<longleftrightarrow> ch = ch' \<and> version_state a = version_state b"
    using digest by (auto simp: Version_def)
  ultimately show ?thesis using conjunct2 [OF pieces] unfolding same_pool_def by simp
qed

definition sample_cluster :: cluster where
  "sample_cluster = \<lparr>cl_Alias = ''a'', cl_APIServerURL = ''https://kube.example.org'',
     cl_Channel = ''stable'', cl_ConfigItems = [(''k'', ''v'')], cl_CriticalityLevel = 1,
     cl_Environment = ''test'', cl_ID = ''aws:1:eu:kube'', cl_InfrastructureAccount = ''aws:1'',
     cl_LifecycleStatus = ''ready'', cl_LocalID = ''kube'', cl_NodePools = [],
     cl_Provider = ''zalando-aws'', cl_Region = ''eu'', cl_Status = None, cl_Owner = [],
     cl_AccountName = [], cl_CreatedAt = 5, cl_OIDCProvider = [],
     cl_IAMRoleTrustRelationshipTemplate = [], cl_AccountClusters = []\<rparr>"

definition sample_account :: account_cluster where
  "sample_account = \<lparr>cl_Alias = ''a'', cl_APIServerURL = ''https://kube.example.org'',
     cl_Channel = ''stable'', cl_ConfigItems = [(''k'', ''v'')], cl_CriticalityLevel = 1,
     cl_Environment = ''test'', cl_ID = ''aws:1:eu:kube'', cl_InfrastructureAccount = ''aws:1'',
     cl_LifecycleStatus = ''ready'', cl_LocalID = ''kube'', cl_NodePools = [],
     cl_Provider = ''zalando-aws'', cl_Region = ''eu'', cl_Status = None, cl_Owner = [],
     cl_AccountName = [], cl_CreatedAt = 5, cl_OIDCProvider = [],
     cl_IAMRoleTrustRelationshipTemplate = []\<rparr>"

definition sized_cluster :: "int \<Rightarrow> int \<Rightarrow> string \<Rightarrow> cluster" where
  "sized_cluster level most ch = sample_cluster\<lparr>cl_CriticalityLevel := level, cl_Channel := ch,
     cl_NodePools := [\<lparr>np_DiscountStrategy = ''none'', np_InstanceTypes = [''m5.large''], np_Name = ''p'',
       np_Profile = ''worker'', np_MinSize = 0, np_MaxSize = most, np_ConfigItems = [], np_InstanceType = ''m5.large''\<rparr>]\<rparr>"

theorem Version_detects_changes_witness:
  "Version id (sized_cluster 1 5 ''beta'') ''sha'' \<noteq> Version id (sized_cluster 2 6 ''alpha'') ''sha''"
proof -
  let ?a = "sized_cluster 1 5 ''beta''" and ?b = "sized_cluster 2 6 ''alpha''"
  have go: "go_cluster (sized_cluster 1 5 ''beta'')" "go_cluster (sized_cluster 2 6 ''alpha'')"
    by (simp_all add: go_cluster_def go_pool_def sized_cluster_def sample_cluster_def m_ok_def)
  have lens: "map length (version_pieces ?b) = (map length (version_pieces ?a))[4 := 5]"
    by (simp add: version_pieces_def pool_pieces_def items_pieces_def m_keys_def m_str_def le_bytes_def
        sized_cluster_def sample_cluster_def)
  have "length (version_pieces ?a ! j) = length (version_pieces ?b ! j)" if "j < length (version_pieces ?a)" "j \<noteq> 4" for j
  proof -
    have "j < length (version_pieces ?b)" using arg_cong [OF lens, of length] that(1) by simp
    then have "length (version_pieces ?b ! j) = map length (version_pieces ?b) ! j" by (rule nth_map [symmetric])
    also have "\<dots> = length (version_pieces ?a ! j)" using that by (simp add: lens)
    finally show ?thesis by (rule sym)
  qed
  then have "\<forall>j < length (version_pieces ?a). j \<noteq> 4 \<longrightarrow> length (version_pieces ?a ! j) = length (version_pieces ?b ! j)"
    by blast
  from Version_detects_changes [OF go _ _ this, of id "''sha''" "''sha''"] show ?thesis
    by (simp add: sized_cluster_def sample_cluster_def)
qed

text \<open>
  The attributes are written one after the other with nothing between them, so the
  version does not see a move of characters between neighbouring values: two clusters with
  different config items have the same version under every digest.
\<close>

theorem Version_misses_config_change:
  "\<exists>(a :: cluster) (b :: cluster). m_get (cl_ConfigItems a) \<noteq> m_get (cl_ConfigItems b)
     \<and> (\<forall>digest ch. Version digest a ch = Version digest b ch)"
proof -
  let ?a = "sample_cluster\<lparr>cl_ConfigItems := [(''ab'', ''c'')]\<rparr>"
  let ?b = "sample_cluster\<lparr>cl_ConfigItems := [(''a'', ''bc'')]\<rparr>"
  have "version_state ?a = version_state ?b"
    by (simp add: version_state_def items_state_def m_keys_def m_str_def)
  then have "\<forall>digest ch. Version digest ?a ch = Version digest ?b ch" by (simp add: Version_def)
  moreover have "m_get (cl_ConfigItems ?a) \<noteq> m_get (cl_ConfigItems ?b)"
  proof
    assume "m_get (cl_ConfigItems ?a) = m_get (cl_ConfigItems ?b)"
    from fun_cong [OF this, of "''ab''"] show False by simp
  qed
  ultimately show ?thesis
    by (intro exI [where x = ?a] exI [where x = ?b] conjI) assumption+
qed

text \<open>
  The version does not depend on the order in which the runtime iterates the map of
  config items.
\<close>

theorem Version_iteration_order:
  assumes "m_ok items" and "mset items = mset items'"
  shows "Version digest (c\<lparr>cl_ConfigItems := items\<rparr>) ch
       = Version digest (c\<lparr>cl_ConfigItems := items'\<rparr>) ch"
  using items_state_order [OF assms] by (simp add: Version_def version_state_def)

theorem Version_iteration_order_witness:
  "Version id (sample_cluster\<lparr>cl_ConfigItems := [(''b'', ''2''), (''a'', ''1'')]\<rparr>) ''sha''
     = Version id (sample_cluster\<lparr>cl_ConfigItems := [(''a'', ''1''), (''b'', ''2'')]\<rparr>) ''sha''"
  by (rule Version_iteration_order) (simp_all add: m_ok_def)

section \<open>Properties of channel overrides\<close>

lemma splitn_pair: "CHR ''='' \<notin> set a \<Longrightarrow> splitn_on 2 (CHR ''='') (a @ CHR ''='' # b) = [a, b]"
  by (simp add: splitn_on_2)

lemma overrides_loop_pair:
  "CHR ''='' \<notin> set a \<Longrightarrow>
     overrides_loop ((a @ CHR ''='' # b) # os) m = overrides_loop os (m_put a b m)"
  by (simp add: splitn_pair)

lemma overrides_loop_pairs:
  assumes "\<And>a b. (a, b) \<in> set ps \<Longrightarrow> CHR ''='' \<notin> set a"
  shows "overrides_loop (map (\<lambda>(a, b). a @ CHR ''='' # b) ps) acc
       = Inr (fold (\<lambda>(a, b). m_put a b) ps acc)"
  using assms
proof (induction ps arbitrary: acc)
  case Nil
  then show ?case by simp
next
  case (Cons p ps)
  obtain a b where p: "p = (a, b)" by (cases p)
  with Cons.prems have "CHR ''='' \<notin> set a" by auto
  then have "overrides_loop (map (\<lambda>(a, b). a @ CHR ''='' # b) (p # ps)) acc
      = overrides_loop (map (\<lambda>(a, b). a @ CHR ''='' # b) ps) (m_put a b acc)"
    by (simp add: p overrides_loop_pair del: overrides_loop.simps)
  also have "\<dots> = Inr (fold (\<lambda>(a, b). m_put a b) ps (m_put a b acc))"
    by (rule Cons.IH) (use Cons.prems in auto)
  finally show ?case by (simp add: p)
qed

lemma m_get_fold_put: "m_get (fold (\<lambda>(a, b). m_put a b) qs acc) = m_get acc ++ map_of (rev qs)"
  by (induction qs arbitrary: acc) (auto simp: map_add_def fun_eq_iff split: option.splits)

lemma overrides_loop_bad:
  "o1 \<in> set os \<Longrightarrow> CHR ''='' \<notin> set o1 \<Longrightarrow> \<exists>e. overrides_loop os acc = Inl e"
proof (induction os arbitrary: acc)
  case Nil
  then show ?case by simp
next
  case (Cons o2 os)
  show ?case
  proof (cases "CHR ''='' \<in> set o2")
    case True
    with Cons.prems have "o1 \<in> set os" by auto
    with Cons True show ?thesis by (simp add: splitn_on_2)
  next
    case False
    then show ?thesis by (simp add: splitn_on_2)
  qed
qed

text \<open>
  A list of \<open>source=channel\<close> pairs joined by commas is read back as the map that assigns
  the pairs in order, so the last pair for a source wins.
\<close>

theorem ChannelOverrides_roundtrip:
  assumes "ps \<noteq> []"
    and "\<And>a b. (a, b) \<in> set ps \<Longrightarrow> CHR ''='' \<notin> set a \<and> CHR '','' \<notin> set a \<and> CHR '','' \<notin> set b"
    and "m_get (cl_ConfigItems c) overrideChannelConfigItem
       = Some (join_with '','' (map (\<lambda>(a, b). a @ CHR ''='' # b) ps))"
  shows "\<exists>m. ChannelOverrides c = Inr m \<and> m_get m = map_of (rev ps)"
proof -
  have parts: "split_on (CHR '','') (join_with '','' (map (\<lambda>(a, b). a @ CHR ''='' # b) ps))
      = map (\<lambda>(a, b). a @ CHR ''='' # b) ps"
    using assms(1) by (intro split_join) (auto dest: assms(2))
  have "overrides_loop (map (\<lambda>(a, b). a @ CHR ''='' # b) ps) []
      = Inr (fold (\<lambda>(a, b). m_put a b) ps [])"
    by (rule overrides_loop_pairs) (auto dest: assms(2))
  then show ?thesis
    by (simp add: ChannelOverrides_def assms(3) parts m_get_fold_put)
qed

theorem ChannelOverrides_roundtrip_witness:
  "\<exists>m. ChannelOverrides (sample_cluster\<lparr>cl_ConfigItems :=
         [(''override_channel'', ''main=beta,extra=dev'')]\<rparr>) = Inr m
     \<and> m_get m = map_of (rev [(''main'', ''beta''), (''extra'', ''dev'')])"
  by (rule ChannelOverrides_roundtrip) (auto simp: overrideChannelConfigItem_def)

section \<open>Properties of sibling clusters\<close>

definition older :: "account_cluster \<Rightarrow> account_cluster \<Rightarrow> bool" where
  "older a b \<longleftrightarrow> cl_CreatedAt a < cl_CreatedAt b"

interpretation oldest: choice older
  by unfold_locales (auto simp: older_def)

definition eligible_sibling :: "cluster \<Rightarrow> account_cluster \<Rightarrow> bool" where
  "eligible_sibling cluster c \<longleftrightarrow>
     cl_ID c \<noteq> cl_ID cluster \<and> cl_Region c = cl_Region cluster \<and> cl_LifecycleStatus c = statusReady"

lemma sibling_loop_pick_best:
  "sibling_loop cluster cs s = pick_best older (filter (eligible_sibling cluster) cs) s"
  by (induction cs arbitrary: s) (auto simp: eligible_sibling_def older_def split: option.splits)

text \<open>
  \<open>SiblingCluster\<close> returns a ready cluster of the same account and region other than the
  cluster itself, none of the others being older, and nothing exactly when there is no such
  cluster.
\<close>

theorem SiblingCluster_spec:
  "(SiblingCluster cluster = None \<longleftrightarrow>
      \<not> (\<exists>c \<in> set (cl_AccountClusters cluster). eligible_sibling cluster c))
   \<and> (case SiblingCluster cluster of None \<Rightarrow> True | Some s \<Rightarrow>
        s \<in> {c \<in> set (cl_AccountClusters cluster). eligible_sibling cluster c}
        \<and> cl_CreatedAt s = Min (cl_CreatedAt ` {c \<in> set (cl_AccountClusters cluster). eligible_sibling cluster c}))"
proof -
  let ?E = "filter (eligible_sibling cluster) (cl_AccountClusters cluster)"
  have eq: "SiblingCluster cluster = pick_best older ?E None"
    by (simp add: SiblingCluster_def sibling_loop_pick_best)
  have setE: "{c \<in> set (cl_AccountClusters cluster). eligible_sibling cluster c} = set ?E" by auto
  have "cl_CreatedAt s = Min (cl_CreatedAt ` set ?E)"
    if "s \<in> set ?E" and "\<forall>x \<in> set ?E. \<not> older x s" for s
    using that by (intro Min_eqI [symmetric]) (auto simp: older_def not_less)
  then show ?thesis unfolding eq setE
    by (auto simp: oldest.pick_best_None_iff filter_empty_conv split: option.splits
        dest: oldest.pick_best_best)
qed

text \<open>
  A cluster that is alone in its account but not yet ready is not considered the oldest
  ready cluster, because the registries list every cluster among the clusters of its own account;
  the comment of the function says that a cluster without others is the oldest by default.
\<close>

theorem IsOldest_alone_not_ready:
  assumes "cl_AccountClusters cluster = [c]" and "cl_LifecycleStatus c \<noteq> statusReady"
  shows "\<not> IsOldestReadyClusterInTheRegion cluster"
  using assms by (simp add: IsOldestReadyClusterInTheRegion_def)

theorem IsOldest_alone_not_ready_witness:
  "\<not> IsOldestReadyClusterInTheRegion (sample_cluster\<lparr>cl_LifecycleStatus := ''requested'',
      cl_AccountClusters := [sample_account\<lparr>cl_LifecycleStatus := ''requested''\<rparr>]\<rparr>)"
  by (rule IsOldest_alone_not_ready [of _ "sample_account\<lparr>cl_LifecycleStatus := ''requested''\<rparr>"])
    (simp_all add: status_defs)

end
