(* ===== verification/Template_Funcs.thy ===== *)
theory Template_Funcs
  imports Instance_Info Api_Cluster
begin

unbundle bit_operations_syntax

text \<open>
  The functions that the templates of a channel can call (\<open>provisioner/template.go\<close>), except
  those on keys and certificates, in \<open>Credentials\<close>, and those on encodings and Kubernetes quantities, in
  \<open>Template_Values\<close>. The parser of URLs is a parameter.
\<close>

section \<open>Text and numbers\<close>

definition mountUnitName :: "string \<Rightarrow> string outcome" where
  "mountUnitName p =
     (if \<not> has_prefix p ''/'' then Fail (Errorf (''not an absolute path: '' @ p))
      else Ret (replace_all (drop 1 p) (CHR ''/'') ''-''))"

definition asgSize :: "int \<Rightarrow> int \<Rightarrow> int outcome" where
  "asgSize poolSize asgPerPool =
     (if asgPerPool = 0 then Panic ''integer divide by zero''
      else if remn poolSize asgPerPool \<noteq> 0
      then Fail (Errorf (''pool size must be an exact multiple of '' @ int_str asgPerPool))
      else Ret (wrap64 (quot poolSize asgPerPool)))"

definition azID :: "string \<Rightarrow> string" where
  "azID azName = last (split_on (CHR ''-'') azName)"

definition azCount :: "string gomap \<Rightarrow> int" where
  "azCount subnets = int (length (filter (\<lambda>k. k \<noteq> ''*'') (m_keys subnets)))"

definition split_fn :: "string \<Rightarrow> char \<Rightarrow> string list" where
  "split_fn s d = (if s = [] then [] else split_on d s)"

text \<open>Arguments of template functions: strings and other values.\<close>

datatype 'v arg = StringArg string | OtherArg 'v

fun dict_loop :: "nat \<Rightarrow> 'v arg list \<Rightarrow> 'v arg gomap \<Rightarrow> 'v arg gomap outcome" where
  "dict_loop i (a # v # args) m =
     (case a of
        OtherArg _ \<Rightarrow> Fail (Errorf (''dict: key argument '' @ nat_str i @ '' must be string''))
      | StringArg key \<Rightarrow>
          if m_has m key then Fail (Errorf (''dict: duplicate key '' @ key))
          else dict_loop (i + 2) args (m_put key v m))"
| "dict_loop i _ m = Ret m"

definition dict :: "'v arg list \<Rightarrow> 'v arg gomap outcome" where
  "dict args =
     (if length args = 0 \<or> length args mod 2 \<noteq> 0
      then Fail (Errorf (''dict: invalid number of arguments: '' @ nat_str (length args)))
      else dict_loop 0 args [])"

definition strAppend :: "string list \<Rightarrow> string \<Rightarrow> string list \<Rightarrow> string list" where
  "strAppend xs item moreItems = (xs @ [item]) @ moreItems"

definition accountID :: "string \<Rightarrow> string outcome" where
  "accountID account =
     (case split_on (CHR '':'') account of
        [_, i] \<Rightarrow> Ret i
      | _ \<Rightarrow> Fail (Errorf (''invalid account (expected type:id): '' @ account)))"

definition parseInt64 :: "string \<Rightarrow> int outcome" where
  "parseInt64 s = (case parse_int64 s of
     Some i \<Rightarrow> Ret i
   | None \<Rightarrow> Fail (Errorf (''strconv.ParseInt: parsing '' @ quoted s)))"

definition indexedList :: "string \<Rightarrow> int \<Rightarrow> string outcome" where
  "indexedList itemTemplate n =
     (if n < 0 then Fail (Errorf (''expecting non-negative integer, got: '' @ int_str n))
      else Ret (join_with '','' (map (\<lambda>i. replace_all itemTemplate (CHR ''$'') (nat_str i)) [0..<nat n])))"

definition awsValidID :: "string \<Rightarrow> string" where
  "awsValidID i = replace_all i (CHR '':'') ''__''"

definition instanceTypeCPUQuantity :: "instance_types \<Rightarrow> string \<Rightarrow> string outcome" where
  "instanceTypeCPUQuantity m t = bindO (InstanceInfo m t) (\<lambda>i. Ret (int_str (in_VCPU i)))"

text \<open>\<open>hostname\<close> is the host of a parsed URL.\<close>

definition extractEndpointHosts :: "(string \<Rightarrow> go_error + string) \<Rightarrow> string \<Rightarrow> string list outcome" where
  "extractEndpointHosts hostname endpoints =
     bindO (mapO (\<lambda>endpoint.
        let e = (if has_prefix endpoint ''http'' then endpoint else ''http://'' @ endpoint) in
        case hostname e of
          Inr h \<Rightarrow> Ret h
        | Inl err \<Rightarrow> Fail (Errorf (''unable to parse endpoint '' @ [CHR 0x27] @ e @ [CHR 0x27] @ '': '' @ error_text err)))
        (split_on (CHR '','') endpoints))
       (\<lambda>hs. Ret (sort (remdups hs)))"

section \<open>Ports\<close>

record port_range =
  pr_FromPort :: int
  pr_ToPort :: int

record sg_ingress_range =
  sg_CIDR :: string
  sg_FromPort :: int
  sg_ToPort :: int
  sg_Protocol :: string

definition validPortRange :: "int \<Rightarrow> int \<Rightarrow> bool" where
  "validPortRange f t = (if f > t then False else if t > 65535 then False else if f < 0 then False else True)"

definition invalid_range :: "int \<Rightarrow> int \<Rightarrow> go_error" where
  "invalid_range f t = Errorf (''port range '' @ int_str f @ ''-'' @ int_str t @ '' is invalid'')"

definition port_range_of :: "string \<Rightarrow> string \<Rightarrow> port_range outcome" where
  "port_range_of ranges r =
     (case split_on (CHR ''-'') r of
        [a, b] \<Rightarrow>
          (case parse_int64 a of
             None \<Rightarrow> Fail (Errorf (''invalid start port: '' @ a @ '' in input: '' @ ranges))
           | Some f \<Rightarrow>
               (case parse_int64 b of
                  None \<Rightarrow> Fail (Errorf (''invalid end port: '' @ b @ '' in input: '' @ ranges))
                | Some t \<Rightarrow> if validPortRange f t then Ret \<lparr>pr_FromPort = f, pr_ToPort = t\<rparr> else Fail (invalid_range f t)))
      | _ \<Rightarrow> Fail (Errorf (''invalid input for portRange: '' @ ranges)))"

definition portRanges :: "string \<Rightarrow> port_range list outcome" where
  "portRanges ranges = mapO (port_range_of ranges) (split_on (CHR '','') ranges)"

text \<open>The fields of one ingress range: protocol, network, ports.\<close>

definition ingress_fields :: "string \<Rightarrow> string \<Rightarrow> (string \<times> string \<times> string) outcome" where
  "ingress_fields ranges r =
     (case split_on (CHR '':'') r of
        [cidr, ports] \<Rightarrow> Ret (''tcp'', cidr, ports)
      | [protocol, cidr, ports] \<Rightarrow>
          if protocol = ''tcp'' \<or> protocol = ''udp'' then Ret (protocol, cidr, ports)
          else Fail (Errorf (''invalid protocol '' @ [CHR 0x27] @ protocol @ [CHR 0x27]
                 @ '' only '' @ [CHR 0x27] @ ''tcp'' @ [CHR 0x27] @ '' or '' @ [CHR 0x27] @ ''udp'' @ [CHR 0x27]
                 @ '' supported: '' @ ranges))
      | _ \<Rightarrow> Fail (Errorf (''invalid input for sgIngressRanges: '' @ ranges)))"

text \<open>
  \<open>splitR[1]\<close> in the message for the end port is out of range when there is only one port; the
  panic is a branch of the model.
\<close>

definition ingress_ports :: "string \<Rightarrow> string \<Rightarrow> (int \<times> int) outcome" where
  "ingress_ports ranges ports =
     (let splitR = split_on (CHR ''-'') ports in
      if length splitR \<noteq> 1 \<and> length splitR \<noteq> 2
      then Fail (Errorf (''invalid input for sgIngressRanges: '' @ ranges))
      else (let a = splitR ! 0; b = (if length splitR = 1 then a else splitR ! 1) in
        case parse_int64 a of
          None \<Rightarrow> Fail (Errorf (''invalid start port: '' @ a @ '' in input: '' @ ranges))
        | Some f \<Rightarrow>
            (case parse_int64 b of
               None \<Rightarrow> if length splitR = 1 then Panic ''index out of range''
                       else Fail (Errorf (''invalid end port: '' @ b @ '' in input: '' @ ranges))
             | Some t \<Rightarrow> if validPortRange f t then Ret (f, t) else Fail (invalid_range f t))))"

definition ingress_range_of :: "string \<Rightarrow> string \<Rightarrow> sg_ingress_range outcome" where
  "ingress_range_of ranges r =
     bindO (ingress_fields ranges r) (\<lambda>(protocol, cidr, ports).
     bindO (ParseCIDR cidr) (\<lambda>n.
     bindO (ingress_ports ranges ports) (\<lambda>(f, t).
       Ret \<lparr>sg_CIDR = net_str n, sg_FromPort = f, sg_ToPort = t, sg_Protocol = protocol\<rparr>)))"

definition sgIngressRanges :: "string \<Rightarrow> sg_ingress_range list outcome" where
  "sgIngressRanges ranges = mapO (ingress_range_of ranges) (split_on (CHR '','') ranges)"

section \<open>Networks\<close>

definition be_nat :: "ip \<Rightarrow> nat" where
  "be_nat bs = fold (\<lambda>b n. n * 256 + unat b) bs 0"

definition get32 :: "ip \<Rightarrow> 32 word" where
  "get32 bs = of_nat (be_nat bs)"

definition put32 :: "32 word \<Rightarrow> ip" where
  "put32 w = [of_nat (unat w div 256 ^ 3), of_nat (unat w div 256 ^ 2 mod 256), of_nat (unat w div 256 mod 256),
     of_nat (unat w mod 256)]"

text \<open>
  \<open>1 << (uint(addrSize) - uint(x))\<close> in an \<open>uint32\<close>, for the difference \<open>d\<close>: a shift by 32 or more gives
  0, and so does a negative difference, which wraps around to a huge one.
\<close>

definition one_shl :: "int \<Rightarrow> 32 word" where
  "one_shl d = (if d < 0 then 0 else push_bit (nat d) 1)"

definition subdivide :: "ip_net \<Rightarrow> int \<Rightarrow> ip_net list outcome" where
  "subdivide n sz =
     (if net_Bits n \<noteq> 32 then Fail (Errorf (''only ipv4 subnets are supported, got '' @ net_str n))
      else if sz < int (net_Ones n) \<or> net_Ones n > net_Bits n
      then Fail (Errorf (''subnet must be between /'' @ nat_str (net_Ones n) @ '' and /32''))
      else (let addrCountOriginal = one_shl (32 - int (net_Ones n));
                addrCountSubdivided = one_shl (32 - sz) in
        if addrCountSubdivided = 0 then Panic ''integer divide by zero''
        else Ret (map (\<lambda>i. \<lparr>net_IP = put32 (get32 (net_IP n) + of_nat i * addrCountSubdivided), net_Ones = nat sz, net_Bits = 32\<rparr>)
               [0..<unat (addrCountOriginal div addrCountSubdivided)])))"

definition stupsNATSubnets :: "string \<Rightarrow> string list outcome" where
  "stupsNATSubnets vpcCidr =
     bindO (ParseCIDR vpcCidr) (\<lambda>n.
       if net_Ones n = 0 \<or> net_Ones n > 24
       then Fail (Errorf (''invalid subnet, expecting at least /24: '' @ net_str n))
       else bindO (subdivide n (int (net_Ones n) + 2)) (\<lambda>addrs.
         case addrs of
           _ # second # _ \<Rightarrow>
             bindO (subdivide second 28) (\<lambda>nats.
               case nats of
                 a # b # c # _ \<Rightarrow> Ret [net_str a, net_str b, net_str c]
               | _ \<Rightarrow> Panic ''index out of range'')
         | _ \<Rightarrow> Panic ''index out of range''))"

definition checkCIDRMaxSize :: "int \<Rightarrow> unit outcome" where
  "checkCIDRMaxSize maskSize =
     (if maskSize < 24 \<or> maskSize > 28 then Fail (Errorf (''invalid value for maskSize: '' @ int_str maskSize)) else Ret ())"

definition nodeCIDRMaxNodes :: "int \<Rightarrow> int \<Rightarrow> int \<Rightarrow> int outcome" where
  "nodeCIDRMaxNodes podCIDRMaskSize maskSize reserved =
     (if podCIDRMaskSize < 14 \<or> podCIDRMaskSize > 16
      then Fail (Errorf (''invalid for podCIDRMaskSize: '' @ int_str podCIDRMaskSize))
      else bindO (checkCIDRMaxSize maskSize) (\<lambda>_.
        Ret (wrap64 (push_bit (nat (maskSize - podCIDRMaskSize - 1)) 2 - reserved))))"

definition nodeCIDRMaxPods :: "int \<Rightarrow> int \<Rightarrow> int outcome" where
  "nodeCIDRMaxPods maskSize extraCapacity =
     bindO (checkCIDRMaxSize maskSize) (\<lambda>_.
       let maxPods = wrap64 (push_bit (nat (32 - maskSize - 2)) 2 + extraCapacity) in
       Ret (if maxPods > 110 then 110 else maxPods))"

text \<open>\<open>for i := 0; i < n; i++ { ip[nthByte]++ }\<close>\<close>

fun increments :: "nat \<Rightarrow> nat \<Rightarrow> ip \<Rightarrow> ip" where
  "increments 0 k a = a"
| "increments (Suc n) k a = increments n k (a[k := a ! k + 1])"

definition nthAddressFromCIDR :: "string \<Rightarrow> int \<Rightarrow> string outcome" where
  "nthAddressFromCIDR cidr n =
     bindO (ParseCIDR cidr) (\<lambda>net.
       case To4 (net_IP net) of
         Some a \<Rightarrow>
           if net_Bits net = 32 then Ret (ip_str (increments (nat n) 3 (masked a (net_Ones net) 32)))
           else if 96 \<le> net_Ones net then Ret (ip_str (increments (nat n) 3 (masked a (net_Ones net - 96) 32)))
           else if n \<le> 0 then Ret ''<nil>''
           else Panic ''index out of range''
       | None \<Rightarrow> Ret (ip_str (increments (nat n) 15 (masked (net_IP net) (net_Ones net) 128))))"

section \<open>Groups of node pools\<close>

definition labelsConfigItem :: string where "labelsConfigItem = ''labels''"
definition taintsConfigItem :: string where "taintsConfigItem = ''taints''"
definition dedicatedLabel :: string where "dedicatedLabel = ''dedicated''"

definition parseLabels :: "node_pool \<Rightarrow> string gomap" where
  "parseLabels p = fold (\<lambda>s m. case splitn_on 2 (CHR ''='') s of [k, v] \<Rightarrow> m_put k v m | _ \<Rightarrow> m)
     (split_on (CHR '','') (m_str (np_ConfigItems p) labelsConfigItem)) []"

definition poolsDistributed :: "string \<Rightarrow> node_pool list \<Rightarrow> bool" where
  "poolsDistributed dedicated pools =
     (if length pools = 0 then False
      else list_all (\<lambda>p.
        (if dedicated \<noteq> [] \<and> m_str (np_ConfigItems p) taintsConfigItem \<noteq> ''dedicated='' @ dedicated @ '':NoSchedule'' then False
         else if m_has (np_ConfigItems p) ''availability_zones'' then False
         else np_Profile p = ''worker-splitaz'' \<or> np_Profile p = ''worker-karpenter'')) pools)"

definition add_to_group :: "string \<Rightarrow> node_pool \<Rightarrow> node_pool list gomap \<Rightarrow> node_pool list gomap" where
  "add_to_group g p m = m_put g ((case m_get m g of Some ps \<Rightarrow> ps | None \<Rightarrow> []) @ [p]) m"

definition purpose :: "node_pool \<Rightarrow> string option" where
  "purpose p = (if has_prefix (np_Profile p) ''master'' then None
     else (let group = m_str (parseLabels p) dedicatedLabel in
       if group \<noteq> [] then Some group
       else if \<not> m_has (np_ConfigItems p) taintsConfigItem then Some [] else None))"

definition groupNodePoolsByPurpose :: "node_pool list \<Rightarrow> node_pool list gomap" where
  "groupNodePoolsByPurpose pools =
     fold (\<lambda>p m. case purpose p of Some g \<Rightarrow> add_to_group g p m | None \<Rightarrow> m) pools []"

definition zone_groups :: "node_pool list gomap \<Rightarrow> bool gomap" where
  "zone_groups groups = fold (\<lambda>(g, ps) r. if poolsDistributed g ps then m_put g True r else r) groups []"

definition zoneDistributedNodePoolGroups :: "node_pool list \<Rightarrow> bool gomap" where
  "zoneDistributedNodePoolGroups pools = zone_groups (groupNodePoolsByPurpose pools)"

definition providers :: "string gomap" where
  "providers = [(''worker-karpenter'', ''karpenter''), (''worker-combined'', ''zalando''), (''worker-splitaz'', ''zalando'')]"

definition group_profile :: "node_pool list \<Rightarrow> string" where
  "group_profile ps = (if list_all (\<lambda>p. np_Profile p = np_Profile (hd ps)) (tl ps) then np_Profile (hd ps) else [])"

text \<open>The body of the loop over the groups, which a Go map yields in any order.\<close>

definition provider_groups :: "node_pool list gomap \<Rightarrow> string gomap" where
  "provider_groups groups = fold (\<lambda>(g, ps). m_put (if g = [] then ''default'' else g) (m_str providers (group_profile ps))) groups []"

definition nodeLifeCycleProviderPerNodePoolGroup :: "node_pool list \<Rightarrow> string gomap" where
  "nodeLifeCycleProviderPerNodePoolGroup pools = provider_groups (groupNodePoolsByPurpose pools)"

section \<open>Images\<close>

text \<open>\<open>images\<close> is the call to EC2, absent when there is no client.\<close>

definition amiID :: "((string \<times> string list) list \<Rightarrow> ('w, string list) io) option \<Rightarrow> string \<Rightarrow> string \<Rightarrow> ('w, string) io" where
  "amiID images name owner =
     (case images of
        None \<Rightarrow> fail (Errorf ''the ec2 client is not available'')
      | Some describe \<Rightarrow>
          tryE (describe [(''name'', [name]), (''owner-id'', [owner])])
            (\<lambda>e. fail (Errorf (''failed to describe image with name '' @ name @ '' and owner '' @ owner @ '': '' @ error_text e)))
            (\<lambda>is. if length is > 1
                  then fail (Errorf (''more than one image found with name: '' @ name @ '' and owner: '' @ owner))
                  else (case is of
                    [] \<Rightarrow> fail (Errorf (''no image found with name: '' @ name @ '' and owner: '' @ owner))
                  | i # _ \<Rightarrow> ret i)))"

section \<open>Properties of networks\<close>

lemma be_nat_4: "be_nat [a, b, c, d] = ((unat a * 256 + unat b) * 256 + unat c) * 256 + unat d"
  by (simp add: be_nat_def)

lemma unat8_less: "unat (b :: 8 word) < 256"
  using unsigned_less [of b] by simp

lemma be_nat_less: "length bs = 4 \<Longrightarrow> be_nat bs < 2 ^ 32"
proof -
  assume "length bs = 4"
  then obtain a b c d where "bs = [a, b, c, d]" by (auto simp: numeral_eq_Suc length_Suc_conv)
  then show ?thesis using unat8_less [of a] unat8_less [of b] unat8_less [of c] unat8_less [of d] by (simp add: be_nat_4)
qed

lemma unat_get32: "length bs = 4 \<Longrightarrow> unat (get32 bs) = be_nat bs"
  unfolding get32_def using be_nat_less [of bs] by (simp add: unat_of_nat take_bit_nat_eq_self)

lemma unat_of_nat8: "unat (of_nat n :: 8 word) = n mod 256"
  by (simp add: unat_of_nat take_bit_eq_mod)

lemma bytes_of_nat:
  fixes n :: nat
  assumes "n < 2 ^ 32"
  shows "((n div 256 ^ 3 mod 256 * 256 + n div 256 ^ 2 mod 256) * 256 + n div 256 mod 256) * 256 + n mod 256 = n"
proof -
  have d: "n div 256 ^ 2 = n div 256 div 256" "n div 256 ^ 3 = n div 256 div 256 div 256"
    by (simp_all add: div_mult2_eq [symmetric])
  have "n div 256 div 256 div 256 < 256" using assms by (simp add: div_mult2_eq [symmetric])
  then show ?thesis unfolding d by simp
qed

lemma be_nat_put32: "be_nat (put32 w) = unat w"
proof -
  have "unat w < 2 ^ 32" using unsigned_less [of w] by simp
  from bytes_of_nat [OF this] show ?thesis unfolding put32_def be_nat_4 unat_of_nat8 by (simp only: mod_mod_trivial)
qed

lemma length_put32 [simp]: "length (put32 w) = 4"
  by (simp add: put32_def)

text \<open>The addresses of an IPv4 network as numbers.\<close>

definition addresses :: "ip_net \<Rightarrow> nat set" where
  "addresses n = {be_nat (net_IP n) ..< be_nat (net_IP n) + 2 ^ (32 - net_Ones n)}"

definition ipv4_net :: "ip_net \<Rightarrow> bool" where
  "ipv4_net n \<longleftrightarrow> net_Bits n = 32 \<and> length (net_IP n) = 4 \<and> net_Ones n \<le> 32
     \<and> be_nat (net_IP n) mod 2 ^ (32 - net_Ones n) = 0"

lemma unat_power_32: "k < 32 \<Longrightarrow> unat (2 ^ k :: 32 word) = 2 ^ k"
proof -
  assume "k < 32"
  then have "(2 :: nat) ^ k < 2 ^ 32" by (intro power_strict_increasing) auto
  then have "unat (of_nat (2 ^ k) :: 32 word) = 2 ^ k" by (simp only: unat_of_nat) (simp add: take_bit_nat_eq_self)
  then show ?thesis by simp
qed

lemma push_bit_one_32: "k < 32 \<Longrightarrow> unat (push_bit k (1 :: 32 word)) = 2 ^ k"
  by (simp add: push_bit_eq_mult unat_power_32)

lemma one_shl_32: "k \<le> 32 \<Longrightarrow> one_shl (32 - int k) = push_bit (32 - k) 1"
proof -
  assume "k \<le> 32"
  moreover have "nat (32 - int k) = 32 - k" by arith
  ultimately show ?thesis by (simp only: one_shl_def) simp
qed

lemma one_shl_zero: "one_shl (32 - sz) = 0 \<longleftrightarrow> sz \<le> 0 \<or> 32 < sz"
proof (cases "0 < sz \<and> sz \<le> 32")
  case True
  then have "nat (32 - sz) < 32" by arith
  with True have "unat (one_shl (32 - sz)) = 2 ^ nat (32 - sz)"
    using push_bit_one_32 [of "nat (32 - sz)"] by (simp add: one_shl_def del: push_bit_of_1)
  then have "one_shl (32 - sz) \<noteq> 0" by (metis power_not_zero unat_0 zero_neq_numeral)
  with True show ?thesis by simp
next
  case False
  have "push_bit (nat (32 - sz)) (1 :: 32 word) = 0" if "sz \<le> 0"
    using that by (intro push_bit_word_beyond) simp
  with False show ?thesis by (auto simp: one_shl_def not_less)
qed

lemma push_bit_one_not_zero: "0 < k \<Longrightarrow> k \<le> 32 \<Longrightarrow> push_bit (32 - k) (1 :: 32 word) \<noteq> 0"
  using one_shl_zero [of "int k"] by (simp add: one_shl_32)

lemma parts_count:
  assumes "0 < s" "s \<le> k" "k \<le> 32"
  shows "unat (push_bit (32 - s) (1 :: 32 word) div push_bit (32 - k) 1) = 2 ^ (k - s)"
proof -
  have "32 - s < 32" "32 - k < 32" using assms by auto
  then have "unat (push_bit (32 - s) (1 :: 32 word) div push_bit (32 - k) 1) = 2 ^ (32 - s) div 2 ^ (32 - k)"
    by (simp only: unat_div push_bit_one_32)
  also have "\<dots> = 2 ^ (k - s)" using assms by (simp add: power_diff [symmetric])
  finally show ?thesis .
qed

lemma part_address:
  assumes n: "ipv4_net n" and s: "0 < net_Ones n" "net_Ones n \<le> k" "k \<le> 32" and i: "i < 2 ^ (k - net_Ones n)"
  shows "be_nat (put32 (get32 (net_IP n) + of_nat i * push_bit (32 - k) 1)) = be_nat (net_IP n) + i * 2 ^ (32 - k)"
    and "be_nat (net_IP n) + i * 2 ^ (32 - k) + 2 ^ (32 - k) \<le> be_nat (net_IP n) + 2 ^ (32 - net_Ones n)"
proof -
  let ?a = "be_nat (net_IP n)" and ?b = "2 ^ (32 - k) :: nat" and ?s = "net_Ones n"
  have split: "(2 :: nat) ^ (32 - ?s) = 2 ^ (k - ?s) * ?b" using s by (simp add: power_add [symmetric])
  have "i + 1 \<le> 2 ^ (k - ?s)" using i by simp
  then have "(i + 1) * ?b \<le> 2 ^ (k - ?s) * ?b" by (rule mult_le_mono1)
  then show le: "?a + i * ?b + ?b \<le> ?a + 2 ^ (32 - ?s)" using split by (simp add: algebra_simps)
  have "?a < 2 ^ 32" using n be_nat_less by (simp add: ipv4_net_def)
  moreover have "(2 :: nat) ^ 32 = 2 ^ ?s * 2 ^ (32 - ?s)" using s by (simp add: power_add [symmetric])
  moreover have "?a = ?a div 2 ^ (32 - ?s) * 2 ^ (32 - ?s)" using n by (auto simp: ipv4_net_def)
  ultimately have "?a div 2 ^ (32 - ?s) * 2 ^ (32 - ?s) < 2 ^ ?s * 2 ^ (32 - ?s)" by simp
  then have "?a div 2 ^ (32 - ?s) + 1 \<le> 2 ^ ?s" by (metis Suc_eq_plus1 Suc_leI mult_less_cancel2)
  then have "(?a div 2 ^ (32 - ?s) + 1) * 2 ^ (32 - ?s) \<le> 2 ^ ?s * 2 ^ (32 - ?s)" by (rule mult_le_mono1)
  then have "?a + 2 ^ (32 - ?s) \<le> 2 ^ 32" using \<open>?a = _\<close> \<open>2 ^ 32 = _\<close> by (simp add: algebra_simps)
  then have "?a + i * ?b < 2 ^ 32" using le zero_less_power [of "2 :: nat" "32 - k"] by linarith
  moreover have "get32 (net_IP n) + of_nat i * push_bit (32 - k) 1 = of_nat (?a + i * ?b)"
    by (simp add: get32_def push_bit_eq_mult)
  ultimately show "be_nat (put32 (get32 (net_IP n) + of_nat i * push_bit (32 - k) 1)) = ?a + i * ?b"
    by (simp only: be_nat_put32 unat_of_nat) (simp add: take_bit_nat_eq_self)
qed

lemma blocks_cover: "(\<Union>i<m. {a + i * b ..< a + i * b + b}) = {a ..< a + m * (b :: nat)}" if "0 < b"
proof (induction m)
  case (Suc m)
  have "{a ..< a + Suc m * b} = {a ..< a + m * b} \<union> {a + m * b ..< a + m * b + b}"
    by (auto simp: algebra_simps)
  then show ?case using Suc by (simp add: lessThan_Suc Un_commute)
qed simp

lemma subdivide_parts_partition:
  assumes n: "ipv4_net n" and s: "0 < net_Ones n" "net_Ones n \<le> k" "k \<le> 32"
  shows "\<exists>ns. subdivide n (int k) = Ret ns \<and> length ns = 2 ^ (k - net_Ones n)
     \<and> (\<forall>m \<in> set ns. ipv4_net m \<and> net_Ones m = k) \<and> (\<Union>m \<in> set ns. addresses m) = addresses n
     \<and> (\<forall>i < length ns. \<forall>j < length ns. i \<noteq> j \<longrightarrow> addresses (ns ! i) \<inter> addresses (ns ! j) = {})"
proof -
  let ?a = "be_nat (net_IP n)" and ?b = "2 ^ (32 - k) :: nat" and ?c = "2 ^ (k - net_Ones n) :: nat"
  define part where "part i = \<lparr>net_IP = put32 (get32 (net_IP n) + of_nat i * push_bit (32 - k) 1), net_Ones = k, net_Bits = 32\<rparr>" for i
  have run: "subdivide n (int k) = Ret (map part [0..<?c])"
    using n s parts_count [OF s] by (simp add: subdivide_def ipv4_net_def part_def Let_def one_shl_32 push_bit_one_not_zero)
  have addr: "addresses (part i) = {?a + i * ?b ..< ?a + i * ?b + ?b}" if "i < ?c" for i
    using part_address(1) [OF n s that] by (simp add: addresses_def part_def)
  have split: "(2 :: nat) ^ (32 - net_Ones n) = ?c * ?b" using s by (simp add: power_add [symmetric])
  have "?b dvd ?a" using n split by (metis dvd_mult_left dvd_triv_right ipv4_net_def mod_0_imp_dvd mult.commute)
  then have net: "ipv4_net (part i)" if "i < ?c" for i
    using part_address(1) [OF n s that] s by (auto simp: ipv4_net_def part_def mod_eq_0_iff_dvd)
  have "(\<Union>m \<in> set (map part [0..<?c]). addresses m) = (\<Union>i<?c. addresses (part i))" by auto
  also have "\<dots> = (\<Union>i<?c. {?a + i * ?b ..< ?a + i * ?b + ?b})" using addr by simp
  also have "\<dots> = {?a ..< ?a + ?c * ?b}" by (rule blocks_cover) simp
  finally have cover: "(\<Union>m \<in> set (map part [0..<?c]). addresses m) = addresses n" by (simp add: addresses_def split)
  have apart: "addresses (part i) \<inter> addresses (part j) = {}" if "i < j" "i < ?c" "j < ?c" for i j
  proof -
    have "(i + 1) * ?b \<le> j * ?b" using that(1) by (intro mult_le_mono1) simp
    then show ?thesis using that by (auto simp: addr algebra_simps)
  qed
  have disjoint: "addresses (part i) \<inter> addresses (part j) = {}" if "i \<noteq> j" "i < ?c" "j < ?c" for i j
    using apart [of i j] apart [of j i] that by (cases "i < j") auto
  show ?thesis
    by (rule exI [of _ "map part [0..<?c]"], intro conjI)
      (use run net cover disjoint in \<open>auto simp: part_def\<close>)
qed

text \<open>
  Claim C34. Dividing an IPv4 network that is not /0 into smaller ones, for every size up to /32,
  partitions it: the parts are networks of the wanted size, they do not overlap and together they hold
  exactly the addresses of the network, so that the 32-bit arithmetic does not wrap around. For /0 the
  number of its addresses wraps around to zero, and there are no parts. Sizes below that of the network
  are refused; a size above 32, and dividing /0 into /0, end in a division by zero.
\<close>

theorem subdivide_partition:
  assumes n: "ipv4_net n"
  shows "case subdivide n sz of
      Ret ns \<Rightarrow> int (net_Ones n) \<le> sz \<and> 0 < sz \<and> sz \<le> 32
        \<and> (if net_Ones n = 0 then ns = []
           else length ns = 2 ^ (nat sz - net_Ones n)
            \<and> (\<forall>m \<in> set ns. ipv4_net m \<and> int (net_Ones m) = sz) \<and> (\<Union>m \<in> set ns. addresses m) = addresses n
            \<and> (\<forall>i < length ns. \<forall>j < length ns. i \<noteq> j \<longrightarrow> addresses (ns ! i) \<inter> addresses (ns ! j) = {}))
    | Fail e \<Rightarrow> sz < int (net_Ones n)
    | Panic s \<Rightarrow> int (net_Ones n) \<le> sz \<and> (32 < sz \<or> sz = 0)
    | OutOfFuel \<Rightarrow> False"
proof -
  have bits: "net_Bits n = 32" "net_Ones n \<le> 32" using n by (simp_all add: ipv4_net_def)
  consider "sz < int (net_Ones n)" | "int (net_Ones n) \<le> sz" "32 < sz \<or> sz = 0"
    | (zero) "net_Ones n = 0" "0 < sz" "sz \<le> 32" | (parts) k where "sz = int k" "0 < net_Ones n" "net_Ones n \<le> k" "k \<le> 32"
    by (metis int_nat_eq linorder_not_less nat_int nat_le_iff of_nat_0_le_iff order.trans order_le_less zero_less_imp_eq_int of_nat_le_iff of_nat_0_less_iff of_nat_numeral)
  then show ?thesis
  proof cases
    case zero
    have "one_shl 32 = 0" using one_shl_zero [of 0] by simp
    with zero bits show ?thesis by (simp add: subdivide_def one_shl_zero)
  next
    case parts
    from subdivide_parts_partition [OF n parts(2-4)] parts(1-4) show ?thesis by auto
  qed (use bits in \<open>auto simp: subdivide_def one_shl_zero Let_def\<close>)
qed

theorem subdivide_partition_witness:
  "\<exists>ns. subdivide \<lparr>net_IP = [10, 0, 0, 0], net_Ones = 24, net_Bits = 32\<rparr> 26 = Ret ns \<and> length ns = 4
     \<and> (\<Union>m \<in> set ns. addresses m) = {167772160 ..< 167772416}"
proof -
  let ?n = "\<lparr>net_IP = [10, 0, 0, 0], net_Ones = 24, net_Bits = 32\<rparr>"
  have "ipv4_net ?n" "addresses ?n = {167772160 ..< 167772416}"
    by (simp_all add: ipv4_net_def addresses_def be_nat_def)
  with subdivide_partition [of ?n 26] show ?thesis by (cases "subdivide ?n 26") simp_all
qed

lemma subdivide_parts:
  assumes "net_Bits n = 32" and s: "0 < net_Ones n" "net_Ones n \<le> k" "k \<le> 32"
  shows "\<exists>part. subdivide n (int k) = Ret (map part [0..<2 ^ (k - net_Ones n)])
     \<and> (\<forall>i. net_Bits (part i) = 32 \<and> net_Ones (part i) = k)"
proof -
  define part where "part i = \<lparr>net_IP = put32 (get32 (net_IP n) + of_nat i * push_bit (32 - k) 1), net_Ones = k, net_Bits = 32\<rparr>" for i :: nat
  have "subdivide n (int k) = Ret (map part [0..<2 ^ (k - net_Ones n)])"
    using assms parts_count [OF s] by (simp add: subdivide_def part_def Let_def one_shl_32 push_bit_one_not_zero)
  then show ?thesis by (intro exI [of _ part]) (simp add: part_def)
qed

lemma orderly_ParseCIDR: "orderly (ParseCIDR s)"
  by (simp add: ParseCIDR_def Let_def split: list.splits option.splits)

lemma subdivide_not_ipv4: "net_Bits n \<noteq> 32 \<Longrightarrow> subdivide n k = Fail (Errorf (''only ipv4 subnets are supported, got '' @ net_str n))"
  by (simp add: subdivide_def)

lemma upt_4: "4 \<le> m \<Longrightarrow> map f [0..<m] = f 0 # f 1 # f 2 # f (Suc 2) # map f [4..<m]"
proof -
  assume "4 \<le> m"
  then have "[0..<m] = [0..<4] @ [4..<m]" by (metis le_add_diff_inverse upt_add_eq_append zero_le)
  also have "[0..<4] = [0, 1, 2, Suc 2]" by (simp add: upt_rec numeral_eq_Suc)
  finally show ?thesis by simp
qed

text \<open>
  The subnets of the NAT gateways are always there: for every IPv4 network of a size from /1 to /24
  the function returns three, and on every other input an error; it never indexes past the end of
  a list.
\<close>

lemma stupsNATSubnets_three:
  assumes "ParseCIDR s = Ret n" "net_Bits n = 32" "0 < net_Ones n" "net_Ones n \<le> 24"
  shows "\<exists>a b c. stupsNATSubnets s = Ret [a, b, c]"
proof -
  obtain part where p: "subdivide n (int (net_Ones n) + 2) = Ret (map part [0..<2 ^ 2])"
      "\<And>i. net_Bits (part i) = 32 \<and> net_Ones (part i) = net_Ones n + 2"
    using subdivide_parts [of n "net_Ones n + 2"] assms by (auto simp: algebra_simps)
  obtain nat where q: "subdivide (part 1) 28 = Ret (map nat [0..<2 ^ (26 - net_Ones n)])"
    using subdivide_parts [of "part 1" 28] p(2) [of 1] assms by auto
  have "(2 :: nat) ^ 2 \<le> 2 ^ (26 - net_Ones n)" using assms by (intro power_increasing) auto
  then have "4 \<le> (2 :: nat) ^ (26 - net_Ones n)" by simp
  then show ?thesis using assms p(1) q by (simp add: stupsNATSubnets_def upt_4)
qed

lemma orderly_stupsNATSubnets: "orderly (stupsNATSubnets s)"
proof (cases "ParseCIDR s")
  case (Ret n)
  show ?thesis
  proof (cases "net_Bits n = 32 \<and> 0 < net_Ones n \<and> net_Ones n \<le> 24")
    case True
    then obtain a b c where "stupsNATSubnets s = Ret [a, b, c]" using stupsNATSubnets_three [OF Ret] by blast
    then show ?thesis by simp
  next
    case False
    then show ?thesis using Ret by (auto simp: stupsNATSubnets_def subdivide_not_ipv4)
  qed
qed (use orderly_ParseCIDR [of s] in \<open>simp_all add: stupsNATSubnets_def\<close>)

section \<open>Properties of ports\<close>

lemma ingress_ports_orderly: "orderly (ingress_ports ranges ports)"
  by (auto simp: ingress_ports_def Let_def split: option.splits)

lemma ingress_ports_valid: "ingress_ports ranges ports = Ret (f, t) \<Longrightarrow> validPortRange f t"
  by (auto simp: ingress_ports_def Let_def split: option.splits if_splits)

lemma ingress_fields_orderly: "orderly (ingress_fields ranges r)"
  by (simp add: ingress_fields_def split: list.splits)

lemma ingress_fields_protocol: "ingress_fields ranges r = Ret (p, c, q) \<Longrightarrow> p = ''tcp'' \<or> p = ''udp''"
  by (auto simp: ingress_fields_def split: list.splits if_splits)

lemma ingress_range_of_orderly: "orderly (ingress_range_of ranges r)"
  unfolding ingress_range_of_def
  by (auto intro!: orderly_bindO simp: ingress_fields_orderly orderly_ParseCIDR ingress_ports_orderly split: prod.splits)

lemma ingress_range_of_valid:
  assumes "ingress_range_of ranges r = Ret g"
  shows "validPortRange (sg_FromPort g) (sg_ToPort g) \<and> (sg_Protocol g = ''tcp'' \<or> sg_Protocol g = ''udp'')"
proof -
  obtain p c q where f: "ingress_fields ranges r = Ret (p, c, q)"
    using assms by (cases "ingress_fields ranges r") (auto simp: ingress_range_of_def)
  with assms obtain f t n where g: "ParseCIDR c = Ret n" "ingress_ports ranges q = Ret (f, t)"
      "g = \<lparr>sg_CIDR = net_str n, sg_FromPort = f, sg_ToPort = t, sg_Protocol = p\<rparr>"
    by (auto simp: ingress_range_of_def bindO_Ret_iff)
  show ?thesis using ingress_ports_valid [OF g(2)] ingress_fields_protocol [OF f] g(3) by simp
qed

text \<open>
  Whatever the text, \<open>sgIngressRanges\<close> returns ranges or an error and does not panic (the
  indexing of the second port in its error message is never reached with a single port), and every
  range it returns has ports \<open>0 \<le> from \<le> to \<le> 65535\<close> and the protocol tcp or udp, one for each
  comma-separated part.
\<close>

theorem sgIngressRanges_valid:
  "orderly (sgIngressRanges s)
   \<and> (\<forall>gs. sgIngressRanges s = Ret gs \<longrightarrow> length gs = length (split_on (CHR '','') s)
        \<and> (\<forall>g \<in> set gs. 0 \<le> sg_FromPort g \<and> sg_FromPort g \<le> sg_ToPort g \<and> sg_ToPort g \<le> 65535
             \<and> sg_Protocol g \<in> {''tcp'', ''udp''}))"
proof (intro conjI allI impI)
  show "orderly (sgIngressRanges s)"
    unfolding sgIngressRanges_def by (rule orderly_mapO) (rule ingress_range_of_orderly)
next
  fix gs
  assume "sgIngressRanges s = Ret gs"
  then have l: "list_all2 (\<lambda>r g. ingress_range_of s r = Ret g) (split_on (CHR '','') s) gs"
    by (simp add: sgIngressRanges_def mapO_Ret_iff)
  then show "length gs = length (split_on (CHR '','') s)" by (simp add: list_all2_lengthD)
  show "\<forall>g \<in> set gs. 0 \<le> sg_FromPort g \<and> sg_FromPort g \<le> sg_ToPort g \<and> sg_ToPort g \<le> 65535
      \<and> sg_Protocol g \<in> {''tcp'', ''udp''}"
  proof
    fix g
    assume "g \<in> set gs"
    with l obtain r where "ingress_range_of s r = Ret g" by (auto simp: list_all2_conv_all_nth in_set_conv_nth)
    from ingress_range_of_valid [OF this]
    show "0 \<le> sg_FromPort g \<and> sg_FromPort g \<le> sg_ToPort g \<and> sg_ToPort g \<le> 65535 \<and> sg_Protocol g \<in> {''tcp'', ''udp''}"
      by (auto simp: validPortRange_def split: if_splits)
  qed
qed

theorem sgIngressRanges_valid_witness:
  "sgIngressRanges ''udp:10.1.2.3/8:53-54'' = Ret [\<lparr>sg_CIDR = ''10.0.0.0/8'', sg_FromPort = 53, sg_ToPort = 54, sg_Protocol = ''udp''\<rparr>]
   \<and> (53 :: int) \<le> 54 \<and> (54 :: int) \<le> 65535"
proof -
  let ?g = "\<lparr>sg_CIDR = ''10.0.0.0/8'', sg_FromPort = 53, sg_ToPort = 54, sg_Protocol = ''udp''\<rparr>"
  have "sgIngressRanges ''udp:10.1.2.3/8:53-54'' = Ret [?g]" by code_simp
  with sgIngressRanges_valid [of "''udp:10.1.2.3/8:53-54''"] show ?thesis by auto
qed

section \<open>Addresses of a network\<close>

lemma increments_last: "k < length a \<Longrightarrow> increments m k a = a[k := a ! k + of_nat m]"
  by (induction m k a rule: increments.induct) (simp_all add: ac_simps)

text \<open>
  \<open>nthAddressFromCIDR\<close> adds to the last byte only, so the address wraps around inside its /24
  instead of reaching the address numbered \<open>n\<close> of a larger network.
\<close>

lemma nthAddressFromCIDR_wraps:
  "nthAddressFromCIDR ''10.0.0.0/16'' 256 = Ret ''10.0.0.0''"
proof -
  have "ParseCIDR ''10.0.0.0/16'' = Ret \<lparr>net_IP = [10, 0, 0, 0], net_Ones = 16, net_Bits = 32\<rparr>" by code_simp
  moreover have "masked [10, 0, 0, 0] 16 32 = [10, 0, 0, 0]" by code_simp
  moreover have "ip_str [10, 0, 0, 0] = ''10.0.0.0''" by code_simp
  moreover have "increments 256 3 [10, 0, 0, 0] = [10, 0, 0, 0]" by (simp add: increments_last)
  ultimately show ?thesis by (simp add: nthAddressFromCIDR_def To4_def)
qed

text \<open>
  A dedicated group that is itself called \<open>default\<close> shares its entry with the group of the pools
  without a purpose: which provider is kept depends on the order in which the map is iterated.
\<close>

lemma provider_groups_collide:
  fixes g h :: "node_pool list"
  assumes "group_profile g = ''worker-karpenter''" "group_profile h = ''worker-splitaz''"
  shows "m_get (provider_groups [([], g), (''default'', h)]) ''default'' = Some ''zalando''"
    and "m_get (provider_groups [(''default'', h), ([], g)]) ''default'' = Some ''karpenter''"
  using assms by (simp_all add: provider_groups_def providers_def m_str_def m_put_def)

end
