(* ===== verification/Go_Base64.thy ===== *)
theory Go_Base64
  imports Go_Net
begin

text \<open>
  Base 64 as in Go's \<open>encoding/base64\<close>: \<open>StdEncoding\<close> and \<open>RawURLEncoding\<close>. Strings are lists of bytes.
  The decoder skips line ends and insists on padding; the position in its error is left out. The last
  section has \<open>net.SplitHostPort\<close>.
\<close>

section \<open>Alphabets\<close>

definition std_alphabet :: string where
  "std_alphabet = ''ABCDEFGHIJKLMNOPQRSTUVWXYZabcdefghijklmnopqrstuvwxyz0123456789+/''"

definition url_alphabet :: string where
  "url_alphabet = ''ABCDEFGHIJKLMNOPQRSTUVWXYZabcdefghijklmnopqrstuvwxyz0123456789-_''"

fun position :: "string \<Rightarrow> char \<Rightarrow> nat option" where
  "position [] c = None"
| "position (x # xs) c = (if x = c then Some 0 else map_option Suc (position xs c))"

abbreviation pad :: char where "pad \<equiv> CHR ''=''"

section \<open>Encoding\<close>

text \<open>The groups of six bits of up to three bytes.\<close>

fun sextets :: "nat list \<Rightarrow> nat list" where
  "sextets (a # b # c # r) = [a div 4, (a mod 4) * 16 + b div 16, (b mod 16) * 4 + c div 64, c mod 64] @ sextets r"
| "sextets [a, b] = [a div 4, (a mod 4) * 16 + b div 16, (b mod 16) * 4]"
| "sextets [a] = [a div 4, (a mod 4) * 16]"
| "sextets [] = []"

definition bytes :: "string \<Rightarrow> nat list" where
  "bytes s = map of_char s"

definition base64_raw :: "string \<Rightarrow> string \<Rightarrow> string" where
  "base64_raw alphabet s = map (\<lambda>i. alphabet ! i) (sextets (bytes s))"

definition RawURL_EncodeToString :: "string \<Rightarrow> string" where
  "RawURL_EncodeToString = base64_raw url_alphabet"

definition Std_EncodeToString :: "string \<Rightarrow> string" where
  "Std_EncodeToString s = base64_raw std_alphabet s @ replicate ((3 - length s mod 3) mod 3) pad"

section \<open>Decoding\<close>

definition CorruptInputError :: go_error where
  "CorruptInputError = Errorf ''illegal base64 data''"

definition val64 :: "char \<Rightarrow> nat option" where "val64 = position std_alphabet"

definition three_bytes :: "nat \<Rightarrow> nat \<Rightarrow> nat \<Rightarrow> nat \<Rightarrow> string" where
  "three_bytes s t u v = map char_of [s * 4 + t div 16, (t mod 16) * 16 + u div 4, (u mod 4) * 64 + v]"

fun decode_quanta :: "string \<Rightarrow> go_error + string" where
  "decode_quanta [] = Inr []"
| "decode_quanta (a # b # c # d # r) =
     (case (val64 a, val64 b) of
        (Some s, Some t) \<Rightarrow>
          (if c = pad then (if d = pad \<and> r = [] then Inr (take 1 (three_bytes s t 0 0)) else Inl CorruptInputError)
           else (case val64 c of
                   None \<Rightarrow> Inl CorruptInputError
                 | Some u \<Rightarrow>
                     if d = pad then (if r = [] then Inr (take 2 (three_bytes s t u 0)) else Inl CorruptInputError)
                     else (case val64 d of
                             None \<Rightarrow> Inl CorruptInputError
                           | Some v \<Rightarrow> map_sum id (\<lambda>x. three_bytes s t u v @ x) (decode_quanta r))))
      | _ \<Rightarrow> Inl CorruptInputError)"
| "decode_quanta _ = Inl CorruptInputError"

definition Std_DecodeString :: "string \<Rightarrow> go_error + string" where
  "Std_DecodeString s = decode_quanta (filter (\<lambda>c. c \<noteq> CHR 0x0A \<and> c \<noteq> CHR 0x0D) s)"

section \<open>Decoding what was encoded\<close>

lemma val64_nth: "i < 64 \<Longrightarrow> val64 (std_alphabet ! i) = Some i"
proof -
  have "list_all (\<lambda>i. val64 (std_alphabet ! i) = Some i) [0..<64]" by code_simp
  then show "i < 64 \<Longrightarrow> val64 (std_alphabet ! i) = Some i" by (simp add: list_all_iff)
qed

lemma alphabet_plain: "c \<in> set std_alphabet \<Longrightarrow> c \<noteq> pad \<and> c \<noteq> CHR 0x0A \<and> c \<noteq> CHR 0x0D"
  by (auto simp: std_alphabet_def)

lemma nth_plain [simp]:
  assumes "i < 64"
  shows "std_alphabet ! i \<noteq> pad" "std_alphabet ! i \<noteq> CHR 0x0A" "std_alphabet ! i \<noteq> CHR 0x0D"
proof -
  have "length std_alphabet = 64" by code_simp
  with assms have "std_alphabet ! i \<in> set std_alphabet" by simp
  then show "std_alphabet ! i \<noteq> pad" "std_alphabet ! i \<noteq> CHR 0x0A" "std_alphabet ! i \<noteq> CHR 0x0D"
    using alphabet_plain by blast+
qed

lemma sextet_bounds:
  fixes a b c :: nat
  assumes "a < 256" "b < 256" "c < 256"
  shows "a div 4 < 64" "(a mod 4) * 16 + b div 16 < 64" "(b mod 16) * 4 + c div 64 < 64" "c mod 64 < 64"
    "(a mod 4) * 16 < 64" "(b mod 16) * 4 < 64"
  using assms by (simp_all add: div_less_iff_less_mult)

lemma sextets_bounded: "\<forall>x \<in> set xs. x < 256 \<Longrightarrow> \<forall>s \<in> set (sextets xs). s < 64"
  by (induction xs rule: sextets.induct) (auto simp: sextet_bounds)

lemma three_bytes_back:
  fixes a b c :: nat
  assumes "b < 256" "c < 256"
  shows "three_bytes (a div 4) ((a mod 4) * 16 + b div 16) ((b mod 16) * 4 + c div 64) (c mod 64) = map char_of [a, b, c]"
  using assms by (simp add: three_bytes_def div_less_iff_less_mult)

lemma bytes_bounded: "\<forall>x \<in> set (bytes s). x < 256"
proof
  fix x assume "x \<in> set (bytes s)"
  then obtain c :: char where "x = of_char c" by (auto simp: bytes_def)
  then show "x < 256" by simp
qed

lemma chars_of_bytes: "map char_of (bytes s) = s"
  by (induction s) (simp_all add: bytes_def)

lemma decode_encode_bytes:
  "\<forall>x \<in> set xs. x < 256 \<Longrightarrow>
   decode_quanta (map (\<lambda>i. std_alphabet ! i) (sextets xs) @ replicate ((3 - length xs mod 3) mod 3) pad) = Inr (map char_of xs)"
proof (induction xs rule: sextets.induct)
  case (1 a b c r)
  then have bounds: "a < 256" "b < 256" "c < 256" by simp_all
  have "length (a # b # c # r) mod 3 = length r mod 3" by (simp add: mod_simps)
  with 1 show ?case
    by (simp add: val64_nth sextet_bounds [OF bounds] three_bytes_back [OF bounds(2,3)])
next
  case (2 a b)
  then have bounds: "a < 256" "b < 256" "(0::nat) < 256" by simp_all
  show ?case using three_bytes_back [of b 0 a]
    by (simp add: val64_nth sextet_bounds [OF bounds] bounds)
next
  case (3 a)
  then have bounds: "a < 256" "(0::nat) < 256" by simp_all
  have "replicate 2 pad = [pad, pad]" by (simp add: numeral_2_eq_2)
  then show ?case using three_bytes_back [of 0 0 a]
    by (simp add: val64_nth sextet_bounds [OF bounds bounds(2)])
qed simp

text \<open>What is encoded is decoded to itself, for every string of bytes.\<close>

lemma Std_roundtrip: "Std_DecodeString (Std_EncodeToString s) = Inr s"
proof -
  have "\<forall>i \<in> set (sextets (bytes s)). i < 64" using sextets_bounded bytes_bounded by blast
  then have "filter (\<lambda>c. c \<noteq> CHR 0x0A \<and> c \<noteq> CHR 0x0D) (Std_EncodeToString s) = Std_EncodeToString s"
    by (auto simp: Std_EncodeToString_def base64_raw_def intro!: filter_True)
  moreover have "decode_quanta (Std_EncodeToString s) = Inr s"
    using decode_encode_bytes [OF bytes_bounded, of s]
    by (simp add: Std_EncodeToString_def base64_raw_def chars_of_bytes) (simp add: bytes_def)
  ultimately show ?thesis by (simp add: Std_DecodeString_def)
qed

section \<open>Hosts and ports\<close>

definition addrErr :: "string \<Rightarrow> string \<Rightarrow> go_error" where
  "addrErr addr why = Errorf (''address '' @ addr @ '': '' @ why)"

text \<open>The text before and after the last colon, and before and after the first bracket.\<close>

definition last_colon :: "string \<Rightarrow> (string \<times> string) option" where
  "last_colon s = (if CHR '':'' \<in> set s
     then Some (rev (tl (dropWhile (\<lambda>c. c \<noteq> CHR '':'') (rev s))), rev (takeWhile (\<lambda>c. c \<noteq> CHR '':'') (rev s)))
     else None)"

definition first_bracket :: "string \<Rightarrow> (string \<times> string) option" where
  "first_bracket s = (if CHR '']'' \<in> set s
     then Some (takeWhile (\<lambda>c. c \<noteq> CHR '']'') s, tl (dropWhile (\<lambda>c. c \<noteq> CHR '']'') s))
     else None)"

definition no_brackets :: "string \<Rightarrow> string \<Rightarrow> string \<Rightarrow> string \<times> string \<Rightarrow> go_error + string \<times> string" where
  "no_brackets hostport from_j from_k r =
     (if CHR ''['' \<in> set from_j then Inl (addrErr hostport ''unexpected '[' in address'')
      else if CHR '']'' \<in> set from_k then Inl (addrErr hostport ''unexpected ']' in address'')
      else Inr r)"

definition SplitHostPort :: "string \<Rightarrow> go_error + string \<times> string" where
  "SplitHostPort hostport = (case last_colon hostport of
     None \<Rightarrow> Inl (addrErr hostport ''missing port in address'')
   | Some (before, port) \<Rightarrow>
       if has_prefix hostport ''['' then
         (case first_bracket hostport of
            None \<Rightarrow> Inl (addrErr hostport ''missing ']' in address'')
          | Some (front, rest) \<Rightarrow>
              if rest = [] then Inl (addrErr hostport ''missing port in address'')
              else if front @ '']'' = before then no_brackets hostport (tl hostport) rest (tl front, port)
              else if hd rest = CHR '':'' then Inl (addrErr hostport ''too many colons in address'')
              else Inl (addrErr hostport ''missing port in address''))
       else if CHR '':'' \<in> set before then Inl (addrErr hostport ''too many colons in address'')
       else no_brackets hostport hostport hostport (before, port))"

lemma last_colon_Some: "last_colon s = Some (b, p) \<Longrightarrow> s = b @ '':'' @ p \<and> CHR '':'' \<notin> set p"
proof -
  assume a: "last_colon s = Some (b, p)"
  let ?t = "takeWhile (\<lambda>c. c \<noteq> CHR '':'') (rev s)" and ?d = "dropWhile (\<lambda>c. c \<noteq> CHR '':'') (rev s)"
  from a have s: "CHR '':'' \<in> set s" "b = rev (tl ?d)" "p = rev ?t" by (auto simp: last_colon_def split: if_splits)
  then have ne: "?d \<noteq> []" by simp
  then have "?d = CHR '':'' # tl ?d" using hd_dropWhile [of "\<lambda>c. c \<noteq> CHR '':''" "rev s"] by (cases ?d) auto
  then have "rev s = ?t @ CHR '':'' # tl ?d" by (metis takeWhile_dropWhile_id)
  then have "s = rev (tl ?d) @ '':'' @ rev ?t" by (metis append.assoc append_Cons append_Nil rev.simps(2) rev_append rev_rev_ident)
  moreover have "CHR '':'' \<notin> set ?t" by (auto dest: set_takeWhileD)
  ultimately show "s = b @ '':'' @ p \<and> CHR '':'' \<notin> set p" using s by simp
qed

text \<open>
  A host and a port are what is joined by a colon, the host in brackets if it has colons itself; neither
  has brackets, and the port has no colon.
\<close>

lemma SplitHostPort_shape:
  assumes "SplitHostPort s = Inr (host, port)"
  shows "(s = host @ '':'' @ port \<and> CHR '':'' \<notin> set host) \<or> s = ''['' @ host @ '']:'' @ port"
    and "CHR '':'' \<notin> set port"
proof -
  from assms obtain before where b: "last_colon s = Some (before, port)"
    by (auto simp: SplitHostPort_def no_brackets_def split: option.splits if_splits)
  note s = last_colon_Some [OF b]
  from s show "CHR '':'' \<notin> set port" by simp
  show "(s = host @ '':'' @ port \<and> CHR '':'' \<notin> set host) \<or> s = ''['' @ host @ '']:'' @ port"
  proof (cases "has_prefix s ''[''")
    case True
    with assms b obtain front rest where f: "first_bracket s = Some (front, rest)" "front @ '']'' = before" "host = tl front"
      by (auto simp: SplitHostPort_def no_brackets_def split: option.splits if_splits)
    have "front \<noteq> [] \<and> hd front = CHR ''[''"
      using True f(1) by (cases s) (auto simp: first_bracket_def has_prefix_def split: if_splits)
    then have "front = CHR ''['' # host" using f(3) by (cases front) auto
    with f(2) s show ?thesis by auto
  next
    case False
    with assms b s show ?thesis by (auto simp: SplitHostPort_def no_brackets_def split: if_splits)
  qed
qed

end
