(* ===== verification/Cluster_List.thy ===== *)
theory Cluster_List
  imports Api_Cluster
begin

text \<open>
  The list of active clusters the controller keeps (\<open>controller/cluster_list.go\<close>) and the account
  filter (\<open>config/include_exclude.go\<close>).

  \<open>ClusterInfo\<close> objects are shared by pointer between the map of clusters, the list of pending
  updates and the workers, so the model has a heap of them: an address is an index into it, the map
  and the pending list hold addresses. A \<open>context.CancelFunc\<close> is the number of the context it
  cancels, and \<open>cancelled\<close> records the calls. The methods run under the mutex of the list, so each
  is one atomic step. The configuration source is an argument; \<open>'v\<close> is its type of versions.
\<close>

section \<open>Data\<close>

record include_exclude_filter =
  ie_Include :: "string \<Rightarrow> bool"
  ie_Exclude :: "string \<Rightarrow> bool"

definition Allowed :: "include_exclude_filter \<Rightarrow> string \<Rightarrow> bool" where
  "Allowed f item \<longleftrightarrow> \<not> ie_Exclude f item \<and> ie_Include f item"

datatype process_state = stateIdle | stateProcessing | stateProcessed

definition updatePriorityNone :: nat where "updatePriorityNone = 0"
definition updatePriorityNormal :: nat where "updatePriorityNormal = 1"
definition updatePriorityDecommissionRequested :: nat where "updatePriorityDecommissionRequested = 2"
definition updatePriorityAlreadyUpdating :: nat where "updatePriorityAlreadyUpdating = 3"

lemmas priority_defs = updatePriorityNone_def updatePriorityNormal_def
  updatePriorityDecommissionRequested_def updatePriorityAlreadyUpdating_def

definition updateBlockedConfigItem :: string where
  "updateBlockedConfigItem = ''cluster_update_block''"

record 'v cluster_info =
  ci_lastProcessed :: int
  ci_state :: process_state
  ci_cancelUpdate :: "nat option"
  ci_updatePriority :: nat
  ci_Cluster :: cluster
  ci_ChannelVersion :: "'v option"
  ci_CurrentVersion :: cluster_version
  ci_NextVersion :: "cluster_version option"
  ci_NextError :: "go_error option"

record 'v cluster_list =
  clusters :: "nat gomap"
  pendingUpdate :: "nat list"
  heap :: "'v cluster_info list"
  cancelled :: "nat list"

record ('w, 'v) config_source =
  cs_Name :: string
  cs_Update :: "('w, unit) io"
  cs_Version :: "string \<Rightarrow> string gomap \<Rightarrow> ('w, 'v) io"

definition NewClusterList :: "'v cluster_list" where
  "NewClusterList = \<lparr>clusters = [], pendingUpdate = [], heap = [], cancelled = []\<rparr>"

text \<open>Reading and writing the object behind a pointer.\<close>

abbreviation info :: "'v cluster_list \<Rightarrow> nat \<Rightarrow> 'v cluster_info" where
  "info l a \<equiv> heap l ! a"

definition set_info :: "nat \<Rightarrow> ('v cluster_info \<Rightarrow> 'v cluster_info) \<Rightarrow> 'v cluster_list \<Rightarrow> 'v cluster_list" where
  "set_info a f l = l\<lparr>heap := (heap l)[a := f (info l a)]\<rparr>"

section \<open>Operations\<close>

definition updateBlocked :: "('a) account_cluster_scheme \<Rightarrow> bool" where
  "updateBlocked c \<longleftrightarrow> m_has (cl_ConfigItems c) updateBlockedConfigItem"

text \<open>
  The target of a cluster: its channel version, the version it should have, or the error that
  prevents finding them out. The error of the source is kept, not returned.
\<close>

definition next_target ::
  "('w, 'v) config_source \<Rightarrow> ('v \<Rightarrow> string) \<Rightarrow> (string \<Rightarrow> string) \<Rightarrow> cluster
   \<Rightarrow> ('w, 'v option \<times> cluster_version option \<times> go_error option) io" where
  "next_target src vid digest c =
     (case ChannelOverrides c of
        Inl e \<Rightarrow> ret (None, None, Some e)
      | Inr overrides \<Rightarrow>
          tryE (cs_Version src (cl_Channel c) overrides)
            (\<lambda>e. ret (None, None, Some e))
            (\<lambda>v. ret (Some v, Some (Version digest c (vid v)), None)))"

definition update_existing ::
  "nat \<Rightarrow> cluster \<Rightarrow> cluster_version \<Rightarrow> 'v option \<times> cluster_version option \<times> go_error option
   \<Rightarrow> 'v cluster_list \<Rightarrow> 'v cluster_list" where
  "update_existing a c cur t l =
     (if ci_state (info l a) \<noteq> stateProcessing
      then set_info a (\<lambda>i. i\<lparr>ci_state := stateIdle, ci_Cluster := c, ci_ChannelVersion := fst t,
             ci_CurrentVersion := cur, ci_NextVersion := fst (snd t), ci_NextError := snd (snd t)\<rparr>) l
      else if updateBlocked c
           then (case ci_cancelUpdate (info l a) of
                   None \<Rightarrow> l
                 | Some ctx \<Rightarrow> l\<lparr>cancelled := ctx # cancelled l\<rparr>)
           else l)"

definition add_new ::
  "cluster \<Rightarrow> cluster_version \<Rightarrow> 'v option \<times> cluster_version option \<times> go_error option
   \<Rightarrow> 'v cluster_list \<Rightarrow> 'v cluster_list" where
  "add_new c cur t l =
     l\<lparr>clusters := m_put (cl_ID c) (length (heap l)) (clusters l),
       heap := heap l @ [\<lparr>ci_lastProcessed = 0, ci_state = stateIdle, ci_cancelUpdate = None,
          ci_updatePriority = 0, ci_Cluster = c, ci_ChannelVersion = fst t,
          ci_CurrentVersion = cur, ci_NextVersion = fst (snd t), ci_NextError = snd (snd t)\<rparr>]\<rparr>"

definition put_cluster ::
  "cluster \<Rightarrow> cluster_version \<Rightarrow> 'v option \<times> cluster_version option \<times> go_error option
   \<Rightarrow> 'v cluster_list \<Rightarrow> 'v cluster_list" where
  "put_cluster c cur t l =
     (case m_get (clusters l) (cl_ID c) of
        Some a \<Rightarrow> update_existing a c cur t l
      | None \<Rightarrow> add_new c cur t l)"

text \<open>The first loop of \<open>updateClusters\<close>; the accumulator holds the list and the available IDs.\<close>

fun update_loop ::
  "('w, 'v) config_source \<Rightarrow> ('v \<Rightarrow> string) \<Rightarrow> (string \<Rightarrow> string) \<Rightarrow> include_exclude_filter
   \<Rightarrow> cluster list \<Rightarrow> 'v cluster_list \<Rightarrow> string list \<Rightarrow> ('w, 'v cluster_list \<times> string list) io" where
  "update_loop src vid digest flt [] l ids = ret (l, ids)"
| "update_loop src vid digest flt (c # cs) l ids =
     (if cl_LifecycleStatus c = statusDecommissioned then update_loop src vid digest flt cs l ids
      else if \<not> Allowed flt (cl_InfrastructureAccount c) then update_loop src vid digest flt cs l ids
      else (case cl_Status c of
              None \<Rightarrow> (\<lambda>w. (Panic ''nil pointer dereference'', w))
            | Some st \<Rightarrow>
                bindE (next_target src vid digest c) (\<lambda>t.
                  update_loop src vid digest flt cs
                    (put_cluster c (ParseVersion (st_CurrentVersion st)) t l)
                    (cl_ID c # ids))))"

text \<open>The second loop deletes the clusters that are neither available nor being processed.\<close>

definition drop_inactive :: "string list \<Rightarrow> 'v cluster_list \<Rightarrow> 'v cluster_list" where
  "drop_inactive ids l =
     l\<lparr>clusters := filter (\<lambda>(id, a). ci_state (info l a) = stateProcessing \<or> id \<in> set ids) (clusters l)\<rparr>"

definition updateClusters ::
  "('w, 'v) config_source \<Rightarrow> ('v \<Rightarrow> string) \<Rightarrow> (string \<Rightarrow> string) \<Rightarrow> include_exclude_filter
   \<Rightarrow> cluster list \<Rightarrow> 'v cluster_list \<Rightarrow> ('w, 'v cluster_list) io" where
  "updateClusters src vid digest flt available l =
     bindE (update_loop src vid digest flt available l [])
       (\<lambda>(l', ids). ret (drop_inactive ids l'))"

text \<open>\<open>None\<close> is the panic of a nil dereference.\<close>

definition updatePriority :: "'v cluster_info \<Rightarrow> nat option" where
  "updatePriority ci =
     (let c = ci_Cluster ci in
      if updateBlocked c then Some updatePriorityNone
      else if ci_NextError ci \<noteq> None then Some updatePriorityNormal
      else if cl_LifecycleStatus c = statusDecommissionRequested
      then Some updatePriorityDecommissionRequested
      else (case cl_Status c of
              None \<Rightarrow> None
            | Some st \<Rightarrow>
                if st_NextVersion st \<noteq> [] \<and> st_NextVersion st \<noteq> st_CurrentVersion st
                then Some updatePriorityAlreadyUpdating
                else (case ci_NextVersion ci of
                        None \<Rightarrow> None
                      | Some v \<Rightarrow> if v \<noteq> ci_CurrentVersion ci then Some updatePriorityNormal
                                  else Some updatePriorityNone)))"

text \<open>The loop of \<open>UpdateAvailable\<close> that caches the priorities and collects the pending clusters.\<close>

fun collect_pending :: "nat list \<Rightarrow> 'v cluster_list \<Rightarrow> nat list \<Rightarrow> ('v cluster_list \<times> nat list) option" where
  "collect_pending [] l acc = Some (l, acc)"
| "collect_pending (a # as) l acc =
     (if ci_state (info l a) \<noteq> stateIdle then collect_pending as l acc
      else (case updatePriority (info l a) of
              None \<Rightarrow> None
            | Some p \<Rightarrow> collect_pending as (set_info a (\<lambda>i. i\<lparr>ci_updatePriority := p\<rparr>) l)
                         (if p \<noteq> updatePriorityNone then acc @ [a] else acc)))"

definition pending_less :: "'v cluster_list \<Rightarrow> nat \<Rightarrow> nat \<Rightarrow> bool" where
  "pending_less l i j =
     (let pi = ci_updatePriority (info l i); pj = ci_updatePriority (info l j) in
      if pi > pj then True else if pi < pj then False
      else ci_lastProcessed (info l i) < ci_lastProcessed (info l j))"

definition UpdateAvailable ::
  "('w, 'v) config_source \<Rightarrow> ('v \<Rightarrow> string) \<Rightarrow> (string \<Rightarrow> string) \<Rightarrow> include_exclude_filter
   \<Rightarrow> cluster list \<Rightarrow> 'v cluster_list \<Rightarrow> ('w, 'v cluster_list) io" where
  "UpdateAvailable src vid digest flt available l =
     bindE (updateClusters src vid digest flt available l) (\<lambda>l1.
       case collect_pending (map snd (clusters l1)) l1 [] of
         None \<Rightarrow> (\<lambda>w. (Panic ''nil pointer dereference'', w))
       | Some (l2, pending) \<Rightarrow> ret (l2\<lparr>pendingUpdate := sort_by (pending_less l2) pending\<rparr>))"

definition SelectNext :: "nat \<Rightarrow> 'v cluster_list \<Rightarrow> nat option \<times> 'v cluster_list" where
  "SelectNext cancelUpdate l =
     (case pendingUpdate l of
        [] \<Rightarrow> (None, l)
      | a # rest \<Rightarrow>
          (Some a, (set_info a (\<lambda>i. i\<lparr>ci_state := stateProcessing,
                      ci_cancelUpdate := Some cancelUpdate\<rparr>) l)\<lparr>pendingUpdate := rest\<rparr>))"

definition ClusterProcessed :: "int \<Rightarrow> nat \<Rightarrow> 'v cluster_list \<Rightarrow> 'v cluster_list" where
  "ClusterProcessed now a l =
     (case m_get (clusters l) (cl_ID (ci_Cluster (info l a))) of
        None \<Rightarrow> l
      | Some b \<Rightarrow> set_info b (\<lambda>i. i\<lparr>ci_state := stateProcessed, ci_cancelUpdate := None,
                   ci_lastProcessed := now\<rparr>) l)"

section \<open>Invariant\<close>

text \<open>
  \<open>map_ok\<close>: every entry of the map points to an object whose cluster has that ID. \<open>idle_ok\<close>: an
  idle object has a status and either a target version or an error. \<open>pending_ok\<close>: the pending list
  holds distinct idle objects of the map. \<open>processing\<close> are the objects of the map that a worker
  is busy with.
\<close>

definition map_ok :: "'v cluster_list \<Rightarrow> bool" where
  "map_ok l \<longleftrightarrow> m_ok (clusters l) \<and>
     (\<forall>k a. m_get (clusters l) k = Some a \<longrightarrow>
        a < length (heap l) \<and> cl_ID (ci_Cluster (info l a)) = k)"

definition coherent :: "'v cluster_info \<Rightarrow> bool" where
  "coherent i \<longleftrightarrow> cl_Status (ci_Cluster i) \<noteq> None \<and> (ci_NextError i = None \<longrightarrow> ci_NextVersion i \<noteq> None)"

definition idle_ok :: "'v cluster_list \<Rightarrow> bool" where
  "idle_ok l \<longleftrightarrow> (\<forall>k a. m_get (clusters l) k = Some a \<longrightarrow> ci_state (info l a) = stateIdle
      \<longrightarrow> coherent (info l a))"

definition pending_ok :: "'v cluster_list \<Rightarrow> bool" where
  "pending_ok l \<longleftrightarrow> distinct (pendingUpdate l) \<and>
     (\<forall>a \<in> set (pendingUpdate l). \<exists>k. m_get (clusters l) k = Some a \<and> ci_state (info l a) = stateIdle)"

definition processing :: "'v cluster_list \<Rightarrow> (string \<times> nat \<times> 'v cluster_info) set" where
  "processing l = {(k, a, i). m_get (clusters l) k = Some a \<and> i = info l a \<and> ci_state i = stateProcessing}"

definition list_ok :: "'v cluster_list \<Rightarrow> bool" where
  "list_ok l \<longleftrightarrow> map_ok l \<and> idle_ok l"

lemma map_okD:
  "map_ok l \<Longrightarrow> m_get (clusters l) k = Some a \<Longrightarrow> a < length (heap l) \<and> cl_ID (ci_Cluster (info l a)) = k"
  by (simp add: map_ok_def)

lemma map_ok_inj: "map_ok l \<Longrightarrow> m_get (clusters l) k = Some a \<Longrightarrow> m_get (clusters l) k' = Some a \<Longrightarrow> k = k'"
  by (auto dest: map_okD)

lemma set_info_simps [simp]:
  "clusters (set_info a f l) = clusters l" "pendingUpdate (set_info a f l) = pendingUpdate l"
  "cancelled (set_info a f l) = cancelled l" "length (heap (set_info a f l)) = length (heap l)"
  by (simp_all add: set_info_def)

lemma info_set_info [simp]:
  "a < length (heap l) \<Longrightarrow> info (set_info a f l) b = (if b = a then f (info l a) else info l b)"
  by (simp add: set_info_def nth_list_update)

text \<open>Writing an object through a map entry.\<close>

lemma map_ok_set_info:
  "map_ok l \<Longrightarrow> m_get (clusters l) k = Some a \<Longrightarrow> cl_ID (ci_Cluster (f (info l a))) = k
     \<Longrightarrow> map_ok (set_info a f l)"
proof -
  assume m: "map_ok l" and a: "m_get (clusters l) k = Some a"
    and id: "cl_ID (ci_Cluster (f (info l a))) = k"
  have "k' = k" if "m_get (clusters l) k' = Some a" for k' using map_ok_inj [OF m that a] .
  then show ?thesis using m id map_okD [OF m a] by (simp add: map_ok_def)
qed

lemma idle_ok_set_info:
  "map_ok l \<Longrightarrow> idle_ok l \<Longrightarrow> m_get (clusters l) k = Some a
     \<Longrightarrow> (ci_state (f (info l a)) = stateIdle \<Longrightarrow> coherent (f (info l a))) \<Longrightarrow> idle_ok (set_info a f l)"
  using map_okD [of l k a] by (auto simp: idle_ok_def)

lemma processing_set_info_other:
  "map_ok l \<Longrightarrow> m_get (clusters l) k = Some a \<Longrightarrow> ci_state (info l a) \<noteq> stateProcessing
     \<Longrightarrow> ci_state (f (info l a)) \<noteq> stateProcessing \<Longrightarrow> processing (set_info a f l) = processing l"
  by (auto simp: processing_def dest: map_okD split: if_splits)

text \<open>The entry of one available cluster.\<close>

lemma put_cluster_get:
  "m_get (clusters (put_cluster c cur t l)) k =
     (if k = cl_ID c then Some (case m_get (clusters l) k of None \<Rightarrow> length (heap l) | Some a \<Rightarrow> a)
      else m_get (clusters l) k)"
  by (auto simp: put_cluster_def update_existing_def add_new_def split: option.splits)

lemma put_cluster_ok:
  assumes "list_ok l" and "cl_Status c \<noteq> None" and "snd (snd t) = None \<longrightarrow> fst (snd t) \<noteq> None"
  shows "list_ok (put_cluster c cur t l) \<and> processing (put_cluster c cur t l) = processing l"
proof (cases "m_get (clusters l) (cl_ID c)")
  case None
  have m: "map_ok l" and i: "idle_ok l" using assms(1) by (auto simp: list_ok_def)
  have "map_ok (add_new c cur t l)"
    using m by (auto simp: map_ok_def add_new_def nth_append less_Suc_eq split: if_splits)
  moreover have "idle_ok (add_new c cur t l)"
    using m i assms(2,3) by (auto simp: idle_ok_def add_new_def coherent_def nth_append dest: map_okD split: if_splits)
  moreover have "processing (add_new c cur t l) = processing l"
    using m None by (auto simp: processing_def add_new_def nth_append dest: map_okD split: if_splits)
  ultimately show ?thesis using None by (simp add: put_cluster_def list_ok_def)
next
  case (Some a)
  have m: "map_ok l" and i: "idle_ok l" using assms(1) by (auto simp: list_ok_def)
  show ?thesis
  proof (cases "ci_state (info l a) = stateProcessing")
    case True
    then show ?thesis using Some m i
      by (auto simp: put_cluster_def update_existing_def list_ok_def map_ok_def idle_ok_def
          processing_def split: option.splits)
  next
    case False
    let ?f = "\<lambda>i. i\<lparr>ci_state := stateIdle, ci_Cluster := c, ci_ChannelVersion := fst t,
             ci_CurrentVersion := cur, ci_NextVersion := fst (snd t), ci_NextError := snd (snd t)\<rparr>"
    have "put_cluster c cur t l = set_info a ?f l"
      using Some False by (simp add: put_cluster_def update_existing_def)
    moreover have "map_ok (set_info a ?f l)" by (rule map_ok_set_info [OF m Some]) simp
    moreover have "idle_ok (set_info a ?f l)"
      by (rule idle_ok_set_info [OF m i Some]) (use assms(2,3) in \<open>simp add: coherent_def\<close>)
    moreover have "processing (set_info a ?f l) = processing l"
      by (rule processing_set_info_other [OF m Some False]) simp
    ultimately show ?thesis by (simp add: list_ok_def)
  qed
qed

lemma next_target_coherent:
  "next_target src vid digest c w = (Ret t, w') \<Longrightarrow> snd (snd t) = None \<longrightarrow> fst (snd t) \<noteq> None"
  by (auto simp: next_target_def ret_def elim!: tryE_cases split: sum.splits)

definition tracked :: "include_exclude_filter \<Rightarrow> cluster \<Rightarrow> bool" where
  "tracked flt c \<longleftrightarrow> cl_LifecycleStatus c \<noteq> statusDecommissioned \<and> Allowed flt (cl_InfrastructureAccount c)"

lemma update_loop_ok:
  assumes "update_loop src vid digest flt cs l ids w = (Ret (l', ids'), w')" and "list_ok l"
  shows "list_ok l' \<and> processing l' = processing l
    \<and> set ids' = set ids \<union> {cl_ID c | c. c \<in> set cs \<and> tracked flt c}
    \<and> (\<forall>k. m_has (clusters l') k \<longleftrightarrow> m_has (clusters l) k \<or> (\<exists>c \<in> set cs. tracked flt c \<and> cl_ID c = k))"
  using assms
proof (induction cs arbitrary: l ids w)
  case Nil
  then show ?case by simp
next
  case (Cons c cs)
  show ?case
  proof (cases "tracked flt c")
    case False
    with Cons.prems have "update_loop src vid digest flt cs l ids w = (Ret (l', ids'), w')"
      by (auto simp: tracked_def split: if_splits)
    from Cons.IH [OF this Cons.prems(2)] False show ?thesis by auto
  next
    case True
    with Cons.prems(1) obtain st t w1 where st: "cl_Status c = Some st"
      and t: "next_target src vid digest c w = (Ret t, w1)"
      and rest: "update_loop src vid digest flt cs (put_cluster c (ParseVersion (st_CurrentVersion st)) t l)
             (cl_ID c # ids) w1 = (Ret (l', ids'), w')"
      by (auto simp: tracked_def split: option.splits)
    have "list_ok (put_cluster c (ParseVersion (st_CurrentVersion st)) t l)
       \<and> processing (put_cluster c (ParseVersion (st_CurrentVersion st)) t l) = processing l"
      using put_cluster_ok [OF Cons.prems(2)] st next_target_coherent [OF t] by simp
    with Cons.IH [OF rest] True show ?thesis by (auto simp: put_cluster_get)
  qed
qed

lemma drop_inactive_get:
  "m_ok (clusters l) \<Longrightarrow> m_get (clusters (drop_inactive ids l)) k =
     (case m_get (clusters l) k of None \<Rightarrow> None
      | Some a \<Rightarrow> if ci_state (info l a) = stateProcessing \<or> k \<in> set ids then Some a else None)"
  by (simp add: drop_inactive_def m_get_filter split: option.splits)

lemma drop_inactive_ok:
  assumes "list_ok l"
  shows "list_ok (drop_inactive ids l) \<and> processing (drop_inactive ids l) = processing l"
proof -
  have ok: "m_ok (clusters l)" and m: "map_ok l" and i: "idle_ok l"
    using assms by (auto simp: list_ok_def map_ok_def)
  have heap: "heap (drop_inactive ids l) = heap l" by (simp add: drop_inactive_def)
  have sub: "m_get (clusters l) k = Some a" if "m_get (clusters (drop_inactive ids l)) k = Some a" for k a
    using that by (simp add: drop_inactive_get [OF ok] split: option.splits if_splits)
  have "m_ok (clusters (drop_inactive ids l))" using ok by (auto simp: drop_inactive_def)
  moreover have "processing (drop_inactive ids l) = processing l"
    by (auto simp: processing_def heap drop_inactive_get [OF ok] split: option.splits if_splits)
  ultimately show ?thesis
    using m i by (auto simp: list_ok_def map_ok_def idle_ok_def heap dest!: sub)
qed

text \<open>
  After the refresh the map holds the clusters offered by the registry, less the decommissioned
  and filtered ones, and the clusters still being processed.
\<close>

lemma updateClusters_ok:
  assumes "updateClusters src vid digest flt cs l w = (Ret l', w')" and "list_ok l"
  shows "list_ok l' \<and> processing l' = processing l
    \<and> {k. m_has (clusters l') k} = {cl_ID c | c. c \<in> set cs \<and> tracked flt c} \<union> fst ` processing l"
proof -
  obtain l1 ids w1 where loop: "update_loop src vid digest flt cs l [] w = (Ret (l1, ids), w1)"
    and l': "l' = drop_inactive ids l1"
    using assms(1) by (auto simp: updateClusters_def split: prod.splits)
  note * = update_loop_ok [OF loop assms(2)]
  then have ok: "m_ok (clusters l1)" by (simp add: list_ok_def map_ok_def)
  have "m_has (clusters l') k \<longleftrightarrow> (\<exists>a. m_get (clusters l1) k = Some a
      \<and> (ci_state (info l1 a) = stateProcessing \<or> k \<in> set ids))" for k
    by (auto simp: l' drop_inactive_get [OF ok] split: option.splits if_splits)
  also have "\<dots> k \<longleftrightarrow> k \<in> {cl_ID c | c. c \<in> set cs \<and> tracked flt c} \<union> fst ` processing l1" for k
  proof -
    have "\<exists>a. m_get (clusters l1) k = Some a" if "k \<in> set ids" using that * by auto
    moreover have "k \<in> fst ` processing l1 \<longleftrightarrow> (\<exists>a. m_get (clusters l1) k = Some a
        \<and> ci_state (info l1 a) = stateProcessing)" by (force simp: processing_def)
    moreover have "k \<in> set ids \<longleftrightarrow> k \<in> {cl_ID c | c. c \<in> set cs \<and> tracked flt c}" using * by auto
    ultimately show ?thesis by blast
  qed
  finally show ?thesis using * drop_inactive_ok [of l1 ids] by (auto simp: l')
qed

text \<open>
  What a refresh stores of a cluster: the cluster as it was offered, its current version, and the
  target that was computed for it.
\<close>

definition refreshed ::
  "('w, 'v) config_source \<Rightarrow> ('v \<Rightarrow> string) \<Rightarrow> (string \<Rightarrow> string) \<Rightarrow> cluster set \<Rightarrow> 'v cluster_info \<Rightarrow> bool" where
  "refreshed src vid digest offered i \<longleftrightarrow> ci_state i = stateIdle \<and> ci_Cluster i \<in> offered
     \<and> (\<exists>st. cl_Status (ci_Cluster i) = Some st \<and> ci_CurrentVersion i = ParseVersion (st_CurrentVersion st))
     \<and> (\<exists>w w'. next_target src vid digest (ci_Cluster i) w
          = (Ret (ci_ChannelVersion i, ci_NextVersion i, ci_NextError i), w'))"

definition refreshed_entries ::
  "('w, 'v) config_source \<Rightarrow> ('v \<Rightarrow> string) \<Rightarrow> (string \<Rightarrow> string) \<Rightarrow> cluster set \<Rightarrow> string set \<Rightarrow> 'v cluster_list \<Rightarrow> bool" where
  "refreshed_entries src vid digest offered ids l \<longleftrightarrow> (\<forall>k \<in> ids. \<forall>a. m_get (clusters l) k = Some a
     \<longrightarrow> ci_state (info l a) = stateProcessing \<or> refreshed src vid digest offered (info l a))"

definition last_time :: "'v cluster_list \<Rightarrow> string \<Rightarrow> int" where
  "last_time l k = (case m_get (clusters l) k of None \<Rightarrow> 0 | Some a \<Rightarrow> ci_lastProcessed (info l a))"

lemma put_cluster_entry:
  assumes "map_ok l" and "cl_Status c = Some st" and "next_target src vid digest c w = (Ret t, w')" and "c \<in> offered"
    and a: "m_get (clusters (put_cluster c (ParseVersion (st_CurrentVersion st)) t l)) k = Some a"
  shows "(if k = cl_ID c
     then ci_state (info (put_cluster c (ParseVersion (st_CurrentVersion st)) t l) a) = stateProcessing
        \<or> refreshed src vid digest offered (info (put_cluster c (ParseVersion (st_CurrentVersion st)) t l) a)
     else m_get (clusters l) k = Some a
        \<and> info (put_cluster c (ParseVersion (st_CurrentVersion st)) t l) a = info l a)"
proof (cases "m_get (clusters l) (cl_ID c)")
  case None
  with assms show ?thesis
    by (cases t) (auto simp: put_cluster_def add_new_def refreshed_def nth_append split: if_splits dest: map_okD)
next
  case (Some b)
  have b: "b < length (heap l)" using map_okD [OF assms(1) Some] by simp
  show ?thesis
  proof (cases "ci_state (info l b) = stateProcessing")
    case True
    with Some a show ?thesis
      by (auto simp: put_cluster_def update_existing_def split: option.splits if_splits)
  next
    case False
    obtain f :: "'a cluster_info \<Rightarrow> 'a cluster_info" where
      f_def: "f = (\<lambda>i. i\<lparr>ci_state := stateIdle, ci_Cluster := c, ci_ChannelVersion := fst t,
         ci_CurrentVersion := ParseVersion (st_CurrentVersion st), ci_NextVersion := fst (snd t), ci_NextError := snd (snd t)\<rparr>)" by simp
    have put: "put_cluster c (ParseVersion (st_CurrentVersion st)) t l = set_info b f l"
      using Some False by (simp add: put_cluster_def update_existing_def f_def)
    have new: "refreshed src vid digest offered (f (info l b))"
      using assms(2-4) by (cases t) (auto simp: refreshed_def f_def)
    from a have k: "m_get (clusters l) k = Some a" by (simp add: put)
    show ?thesis
    proof (cases "k = cl_ID c")
      case True
      with k Some b new show ?thesis by (simp add: put)
    next
      case False
      then have "a \<noteq> b" using map_ok_inj [OF assms(1) k] Some by blast
      with False k b show ?thesis by (simp add: put)
    qed
  qed
qed

lemma put_cluster_time:
  "map_ok l \<Longrightarrow> last_time (put_cluster c cur t l) k = last_time l k"
  by (auto simp: last_time_def put_cluster_def update_existing_def add_new_def nth_append split: option.splits dest: map_okD)

lemma update_loop_refreshed:
  assumes "update_loop src vid digest flt cs l ids w = (Ret (l', ids'), w')" and "list_ok l"
    and "{c \<in> set cs. tracked flt c} \<subseteq> offered" and "refreshed_entries src vid digest offered (set ids) l"
  shows "refreshed_entries src vid digest offered (set ids') l' \<and> last_time l' = last_time l"
  using assms
proof (induction cs arbitrary: l ids w)
  case Nil
  then show ?case by simp
next
  case (Cons c cs)
  show ?case
  proof (cases "tracked flt c")
    case False
    with Cons.prems have "update_loop src vid digest flt cs l ids w = (Ret (l', ids'), w')"
      by (auto simp: tracked_def split: if_splits)
    from Cons.IH [OF this Cons.prems(2) _ Cons.prems(4)] Cons.prems(3) show ?thesis by auto
  next
    case True
    with Cons.prems(1) obtain st t w1 where st: "cl_Status c = Some st"
      and t: "next_target src vid digest c w = (Ret t, w1)"
      and rest: "update_loop src vid digest flt cs (put_cluster c (ParseVersion (st_CurrentVersion st)) t l)
             (cl_ID c # ids) w1 = (Ret (l', ids'), w')"
      by (auto simp: tracked_def split: option.splits)
    let ?l = "put_cluster c (ParseVersion (st_CurrentVersion st)) t l"
    have m: "map_ok l" using Cons.prems(2) by (simp add: list_ok_def)
    have ok: "list_ok ?l" using put_cluster_ok [OF Cons.prems(2)] st next_target_coherent [OF t] by simp
    have c: "c \<in> offered" using True Cons.prems(3) by auto
    have "refreshed_entries src vid digest offered (set (cl_ID c # ids)) ?l"
      unfolding refreshed_entries_def
    proof (intro ballI allI impI)
      fix k a assume k: "k \<in> set (cl_ID c # ids)" and a: "m_get (clusters ?l) k = Some a"
      from put_cluster_entry [OF m st t c a] k Cons.prems(4)
      show "ci_state (info ?l a) = stateProcessing \<or> refreshed src vid digest offered (info ?l a)"
        by (auto simp: refreshed_entries_def split: if_splits)
    qed
    with Cons.IH [OF rest ok] Cons.prems(3) put_cluster_time [OF m] show ?thesis by auto
  qed
qed

lemma updateClusters_refreshed:
  assumes "updateClusters src vid digest flt cs l w = (Ret l', w')" and "list_ok l"
    and a: "m_get (clusters l') k = Some a"
  shows "(ci_state (info l' a) = stateProcessing \<or> refreshed src vid digest {c \<in> set cs. tracked flt c} (info l' a))
    \<and> ci_lastProcessed (info l' a) = last_time l k"
proof -
  obtain l1 ids w1 where loop: "update_loop src vid digest flt cs l [] w = (Ret (l1, ids), w1)"
    and l': "l' = drop_inactive ids l1"
    using assms(1) by (auto simp: updateClusters_def split: prod.splits)
  have r: "refreshed_entries src vid digest {c \<in> set cs. tracked flt c} (set ids) l1" "last_time l1 = last_time l"
    using update_loop_refreshed [OF loop assms(2) subset_refl] by (simp_all add: refreshed_entries_def)
  have ok: "m_ok (clusters l1)" using update_loop_ok [OF loop assms(2)] by (simp add: list_ok_def map_ok_def)
  have info: "info l' a = info l1 a" by (simp add: l' drop_inactive_def)
  from a have k: "m_get (clusters l1) k = Some a" "ci_state (info l1 a) = stateProcessing \<or> k \<in> set ids"
    by (auto simp: l' drop_inactive_get [OF ok] split: option.splits if_splits)
  from r(2) [THEN fun_cong, of k] k(1) have "ci_lastProcessed (info l1 a) = last_time l k"
    by (simp add: last_time_def)
  with k r(1) show ?thesis unfolding info refreshed_entries_def by blast
qed

lemma updatePriority_coherent: "coherent i \<Longrightarrow> updatePriority i \<noteq> None"
  by (auto simp: coherent_def updatePriority_def Let_def split: option.splits)

definition needs_update :: "'v cluster_info \<Rightarrow> bool" where
  "needs_update i \<longleftrightarrow> ci_state i = stateIdle \<and> updatePriority i \<noteq> Some updatePriorityNone"

definition prioritised :: "'v cluster_info \<Rightarrow> 'v cluster_info" where
  "prioritised i = (if ci_state i = stateIdle then i\<lparr>ci_updatePriority := the (updatePriority i)\<rparr> else i)"

lemma updatePriority_cached [simp]: "updatePriority (i\<lparr>ci_updatePriority := p\<rparr>) = updatePriority i"
  by (simp add: updatePriority_def Let_def split: option.split)

lemma prioritised_simps [simp]:
  "ci_state (prioritised i) = ci_state i" "ci_Cluster (prioritised i) = ci_Cluster i"
  "coherent (prioritised i) = coherent i" "ci_lastProcessed (prioritised i) = ci_lastProcessed i"
  "updatePriority (prioritised i) = updatePriority i" "needs_update (prioritised i) = needs_update i"
  by (simp_all add: prioritised_def coherent_def needs_update_def)

lemma refreshed_prioritised [simp]:
  "refreshed src vid digest offered (prioritised i) \<longleftrightarrow> refreshed src vid digest offered i"
  by (simp add: refreshed_def prioritised_def)

lemma collect_pending_spec:
  assumes "distinct as" and "\<forall>a \<in> set as. a < length (heap l)"
    and "\<forall>a \<in> set as. ci_state (info l a) = stateIdle \<longrightarrow> coherent (info l a)"
  shows "\<exists>l'. collect_pending as l acc = Some (l', acc @ filter (\<lambda>a. needs_update (info l a)) as)
    \<and> clusters l' = clusters l \<and> length (heap l') = length (heap l) \<and> cancelled l' = cancelled l
    \<and> (\<forall>b. info l' b = (if b \<in> set as then prioritised (info l b) else info l b))"
  using assms
proof (induction as arbitrary: l acc)
  case Nil
  then show ?case by simp
next
  case (Cons a as)
  show ?case
  proof (cases "ci_state (info l a) = stateIdle")
    case False
    then have "\<not> needs_update (info l a)" and "prioritised (info l a) = info l a"
      by (simp_all add: needs_update_def prioritised_def)
    with False Cons.IH [of l acc] Cons.prems show ?thesis by auto
  next
    case True
    with Cons.prems obtain p where p: "updatePriority (info l a) = Some p"
      using updatePriority_coherent [of "info l a"] by auto
    let ?l = "set_info a (\<lambda>i. i\<lparr>ci_updatePriority := p\<rparr>) l"
    have a: "a < length (heap l)" and a': "a \<notin> set as" using Cons.prems by auto
    have other: "info ?l b = info l b" if "b \<in> set as" for b using that a a' by auto
    then have filt: "filter (\<lambda>b. needs_update (info ?l b)) as = filter (\<lambda>b. needs_update (info l b)) as"
      by (intro filter_cong) auto
    have pa: "prioritised (info l a) = (info l a)\<lparr>ci_updatePriority := p\<rparr>"
      using True p by (simp add: prioritised_def)
    from Cons.IH [of ?l "if p \<noteq> updatePriorityNone then acc @ [a] else acc"] Cons.prems other
    obtain l' where l': "collect_pending as ?l (if p \<noteq> updatePriorityNone then acc @ [a] else acc)
        = Some (l', (if p \<noteq> updatePriorityNone then acc @ [a] else acc)
            @ filter (\<lambda>b. needs_update (info l b)) as)"
      "clusters l' = clusters l" "length (heap l') = length (heap l)" "cancelled l' = cancelled l"
      "\<forall>b. info l' b = (if b \<in> set as then prioritised (info ?l b) else info ?l b)"
      unfolding filt by auto
    have "collect_pending (a # as) l acc = Some (l', acc @ filter (\<lambda>b. needs_update (info l b)) (a # as))"
      using True p l'(1) by (simp add: needs_update_def)
    moreover have "info l' b = (if b \<in> set (a # as) then prioritised (info l b) else info l b)" for b
      using l'(5) a a' other pa by auto
    ultimately show ?thesis using l'(2-4) by blast
  qed
qed

interpretation pending: choice "pending_less l" for l :: "'v cluster_list"
  by unfold_locales (auto simp: pending_less_def Let_def split: if_splits)

lemma clusters_addresses:
  assumes "map_ok l"
  shows "distinct (map snd (clusters l))" and "a \<in> snd ` set (clusters l) \<longleftrightarrow> (\<exists>k. m_get (clusters l) k = Some a)"
proof -
  have ok: "m_ok (clusters l)" using assms by (simp add: map_ok_def)
  have "inj_on snd (set (clusters l))"
  proof (rule inj_onI)
    fix p q assume pq: "p \<in> set (clusters l)" "q \<in> set (clusters l)" "snd p = snd q"
    then have "m_get (clusters l) (fst p) = Some (snd p)" "m_get (clusters l) (fst q) = Some (snd p)"
      using m_ok_get_iff [OF ok] by (metis prod.collapse)+
    then have "fst p = fst q" by (rule map_ok_inj [OF assms])
    with pq(3) show "p = q" by (rule prod_eqI [rotated])
  qed
  moreover have "distinct (clusters l)" using ok by (simp add: m_ok_def distinct_map)
  ultimately show "distinct (map snd (clusters l))" by (simp add: distinct_map)
  show "a \<in> snd ` set (clusters l) \<longleftrightarrow> (\<exists>k. m_get (clusters l) k = Some a)"
    using m_ok_get_iff [OF ok] by force
qed

lemma UpdateAvailable_spec:
  assumes "UpdateAvailable src vid digest flt cs l w = (Ret l', w')" and "list_ok l"
  shows "list_ok l' \<and> pending_ok l' \<and> processing l' = processing l
    \<and> {k. m_has (clusters l') k} = {cl_ID c | c. c \<in> set cs \<and> tracked flt c} \<union> fst ` processing l
    \<and> set (pendingUpdate l') = {a. \<exists>k. m_get (clusters l') k = Some a \<and> needs_update (info l' a)}
    \<and> sorted_wrt (\<lambda>a b. \<not> pending_less l' b a) (pendingUpdate l')
    \<and> (\<forall>a \<in> set (pendingUpdate l'). updatePriority (info l' a) = Some (ci_updatePriority (info l' a)))
    \<and> (\<forall>k a. m_get (clusters l') k = Some a \<longrightarrow> (ci_state (info l' a) = stateProcessing
           \<or> refreshed src vid digest {c \<in> set cs. tracked flt c} (info l' a))
         \<and> ci_lastProcessed (info l' a) = last_time l k)"
proof -
  obtain l1 w1 where u: "updateClusters src vid digest flt cs l w = (Ret l1, w1)"
    and rest: "(case collect_pending (map snd (clusters l1)) l1 [] of
         None \<Rightarrow> (\<lambda>w. (Panic ''nil pointer dereference'', w))
       | Some (l2, pending) \<Rightarrow> ret (l2\<lparr>pendingUpdate := sort_by (pending_less l2) pending\<rparr>)) w1 = (Ret l', w')"
    using assms(1) by (auto simp: UpdateAvailable_def)
  note ok = updateClusters_ok [OF u assms(2)]
  then have m: "map_ok l1" and i: "idle_ok l1" by (simp_all add: list_ok_def)
  note addr = clusters_addresses [OF m]
  let ?as = "map snd (clusters l1)"
  have as: "a \<in> set ?as \<longleftrightarrow> (\<exists>k. m_get (clusters l1) k = Some a)" for a using addr(2) by simp
  have coh: "\<forall>a \<in> set ?as. ci_state (info l1 a) = stateIdle \<longrightarrow> coherent (info l1 a)"
    using i by (auto simp: as idle_ok_def simp del: set_map)
  have bnd: "\<forall>a \<in> set ?as. a < length (heap l1)" using m by (auto simp: as simp del: set_map dest: map_okD)
  obtain l2 where l2: "collect_pending ?as l1 [] = Some (l2, filter (\<lambda>a. needs_update (info l1 a)) ?as)"
      "clusters l2 = clusters l1" "length (heap l2) = length (heap l1)"
      "\<And>b. info l2 b = (if b \<in> set ?as then prioritised (info l1 b) else info l1 b)"
    using collect_pending_spec [OF addr(1) bnd coh, of "[]"] by (auto simp del: set_map)
  let ?p = "filter (\<lambda>a. needs_update (info l1 a)) ?as"
  have l': "l' = l2\<lparr>pendingUpdate := sort_by (pending_less l2) ?p\<rparr>" using rest l2(1) by simp
  have inf: "info l' a = prioritised (info l1 a)" if "m_get (clusters l') k = Some a" for k a
    using that l2 as [of a] by (auto simp: l' simp del: set_map)
  have cl: "clusters l' = clusters l1" and ln: "length (heap l') = length (heap l1)" using l2 by (simp_all add: l')
  have pend: "set (pendingUpdate l') = {a. \<exists>k. m_get (clusters l') k = Some a \<and> needs_update (info l' a)}"
    using inf as by (auto simp: l' l2(2) simp del: set_map)
  have "list_ok l'"
    using m i inf by (auto simp: list_ok_def map_ok_def idle_ok_def cl ln)
  moreover have "pending_ok l'"
    using pend addr(1) by (auto simp: pending_ok_def l' needs_update_def distinct_map_filter)
  moreover have "processing l' = processing l1"
    using inf by (auto simp: processing_def cl prioritised_def)
  moreover have "pending_less l' = pending_less l2"
    by (intro ext) (simp add: l' pending_less_def)
  then have "sorted_wrt (\<lambda>a b. \<not> pending_less l' b a) (pendingUpdate l')"
    using pending.sorted_sort_by [of l2 ?p] by (simp add: l')
  moreover have "updatePriority (info l' a) = Some (ci_updatePriority (info l' a))"
    if "a \<in> set (pendingUpdate l')" for a
  proof -
    from that pend obtain k where k: "m_get (clusters l') k = Some a" "needs_update (info l' a)" by auto
    then have "coherent (info l1 a)" and "ci_state (info l1 a) = stateIdle"
      using i inf [OF k(1)] by (auto simp: idle_ok_def cl needs_update_def)
    then show ?thesis using inf [OF k(1)] updatePriority_coherent [of "info l1 a"]
      by (auto simp: prioritised_def)
  qed
  moreover have "(ci_state (info l' a) = stateProcessing
        \<or> refreshed src vid digest {c \<in> set cs. tracked flt c} (info l' a))
      \<and> ci_lastProcessed (info l' a) = last_time l k" if "m_get (clusters l') k = Some a" for k a
    using updateClusters_refreshed [OF u assms(2)] that inf [OF that] by (simp add: cl)
  ultimately show ?thesis using ok pend by (auto simp: cl)
qed

lemma NewClusterList_ok: "list_ok NewClusterList" "pending_ok NewClusterList" "processing NewClusterList = {}"
  by (simp_all add: NewClusterList_def list_ok_def map_ok_def idle_ok_def pending_ok_def processing_def)

lemma SelectNext_ok:
  assumes "SelectNext ctx l = (Some a, l')" and "list_ok l" and "pending_ok l"
  shows "list_ok l' \<and> pending_ok l' \<and> pendingUpdate l = a # pendingUpdate l'
    \<and> processing l' = insert (cl_ID (ci_Cluster (info l a)), a, info l' a) (processing l)
    \<and> m_get (clusters l) (cl_ID (ci_Cluster (info l a))) = Some a \<and> ci_state (info l a) = stateIdle
    \<and> cl_ID (ci_Cluster (info l' a)) = cl_ID (ci_Cluster (info l a))"
proof -
  let ?f = "\<lambda>i. i\<lparr>ci_state := stateProcessing, ci_cancelUpdate := Some ctx\<rparr>"
  obtain rest where p: "pendingUpdate l = a # rest" and l': "l' = (set_info a ?f l)\<lparr>pendingUpdate := rest\<rparr>"
    using assms(1) by (auto simp: SelectNext_def split: list.splits)
  have m: "map_ok l" and i: "idle_ok l" using assms(2) by (auto simp: list_ok_def)
  obtain k where k: "m_get (clusters l) k = Some a" "ci_state (info l a) = stateIdle"
    using assms(3) p by (auto simp: pending_ok_def)
  note a = map_okD [OF m k(1)]
  have "map_ok (set_info a ?f l)" by (rule map_ok_set_info [OF m k(1)]) (use a in simp)
  moreover have "idle_ok (set_info a ?f l)" by (rule idle_ok_set_info [OF m i k(1)]) simp
  moreover have "pending_ok l'"
    using assms(3) a by (auto simp: pending_ok_def l' p)
  moreover have "processing l' = insert (k, a, info l' a) (processing l)"
  proof -
    have "k' = k" if "m_get (clusters l) k' = Some a" for k' using map_ok_inj [OF m that k(1)] .
    then have ka: "m_get (clusters l) k' = Some a \<longleftrightarrow> k' = k" for k' using k(1) by blast
    have inf: "info l' b = (if b = a then ?f (info l a) else info l b)" for b using a by (simp add: l')
    have cl: "clusters l' = clusters l" by (simp add: l')
    have "(k', b, j) \<in> processing l' \<longleftrightarrow> (k', b, j) \<in> insert (k, a, info l' a) (processing l)" for k' b j
    proof (cases "b = a")
      case True
      then show ?thesis using k(2) by (auto simp: processing_def cl inf ka)
    next
      case False
      then show ?thesis by (simp add: processing_def cl inf)
    qed
    then show ?thesis by auto
  qed
  ultimately show ?thesis using a k by (simp add: l' p list_ok_def map_ok_def idle_ok_def)
qed

lemma ClusterProcessed_ok:
  assumes "list_ok l" and "pending_ok l" and "(k, a, i) \<in> processing l"
  shows "list_ok (ClusterProcessed now a l) \<and> pending_ok (ClusterProcessed now a l)
    \<and> processing (ClusterProcessed now a l) = {p \<in> processing l. fst (snd p) \<noteq> a}
    \<and> ci_state (info (ClusterProcessed now a l) a) = stateProcessed
    \<and> ci_lastProcessed (info (ClusterProcessed now a l) a) = now"
proof -
  let ?f = "\<lambda>i. i\<lparr>ci_state := stateProcessed, ci_cancelUpdate := None, ci_lastProcessed := now\<rparr>"
  have m: "map_ok l" and idle: "idle_ok l" using assms(1) by (auto simp: list_ok_def)
  have k: "m_get (clusters l) k = Some a" "ci_state (info l a) = stateProcessing"
    using assms(3) by (auto simp: processing_def)
  note a = map_okD [OF m k(1)]
  have eq: "ClusterProcessed now a l = set_info a ?f l" using a k by (simp add: ClusterProcessed_def)
  have "map_ok (set_info a ?f l)" by (rule map_ok_set_info [OF m k(1)]) (use a in simp)
  moreover have "idle_ok (set_info a ?f l)" by (rule idle_ok_set_info [OF m idle k(1)]) simp
  moreover have "pending_ok (set_info a ?f l)"
    using assms(2) a k by (auto simp: pending_ok_def)
  moreover have "processing (set_info a ?f l) = {p \<in> processing l. fst (snd p) \<noteq> a}"
    using a by (auto simp: processing_def split: if_splits)
  ultimately show ?thesis unfolding eq using a by (simp add: list_ok_def)
qed

text \<open>A refresh does not panic when the registry gives every cluster a status.\<close>

lemma update_loop_returns:
  assumes "\<And>c. c \<in> set cs \<Longrightarrow> cl_Status c \<noteq> None"
    and "\<And>ch ov w. \<exists>r w'. cs_Version src ch ov w = (r, w') \<and> (\<exists>v. r = Ret v \<or> (\<exists>e. r = Fail e))"
  shows "\<exists>r w'. update_loop src vid digest flt cs l ids w = (Ret r, w')"
  using assms(1)
proof (induction cs arbitrary: l ids w)
  case Nil
  then show ?case by (simp add: ret_def)
next
  case (Cons c cs)
  have "\<exists>t w'. next_target src vid digest c w = (Ret t, w')"
  proof (cases "ChannelOverrides c")
    case (Inl e)
    then show ?thesis by (simp add: next_target_def ret_def)
  next
    case (Inr ov)
    with assms(2) [of "cl_Channel c" ov w] show ?thesis
      by (auto simp: next_target_def tryE_def ret_def)
  qed
  then obtain t w1 where t: "next_target src vid digest c w = (Ret t, w1)" by blast
  from Cons.prems obtain st where "cl_Status c = Some st" by fastforce
  with t Cons show ?case by (auto simp: bindE_def)
qed

lemma UpdateAvailable_returns:
  assumes "list_ok l" and "\<And>c. c \<in> set cs \<Longrightarrow> cl_Status c \<noteq> None"
    and "\<And>ch ov w. \<exists>r w'. cs_Version src ch ov w = (r, w') \<and> (\<exists>v. r = Ret v \<or> (\<exists>e. r = Fail e))"
  shows "\<exists>l' w'. UpdateAvailable src vid digest flt cs l w = (Ret l', w')"
proof -
  obtain r w1 where "update_loop src vid digest flt cs l [] w = (Ret r, w1)"
    using update_loop_returns [OF assms(2,3)] by blast
  then have u: "updateClusters src vid digest flt cs l w = (Ret (drop_inactive (snd r) (fst r)), w1)"
    by (cases r) (simp add: updateClusters_def bindE_def ret_def)
  let ?l = "drop_inactive (snd r) (fst r)"
  have m: "map_ok ?l" and i: "idle_ok ?l" using updateClusters_ok [OF u assms(1)] by (simp_all add: list_ok_def)
  note addr = clusters_addresses [OF m]
  have "\<forall>a \<in> set (map snd (clusters ?l)). ci_state (info ?l a) = stateIdle \<longrightarrow> coherent (info ?l a)"
    using i addr(2) by (simp add: idle_ok_def) blast
  moreover have "\<forall>a \<in> set (map snd (clusters ?l)). a < length (heap ?l)"
    using addr(2) by (auto dest: map_okD [OF m])
  ultimately obtain l2 ps where "collect_pending (map snd (clusters ?l)) ?l [] = Some (l2, ps)"
    using collect_pending_spec [OF addr(1)] by blast
  with u show ?thesis by (simp add: UpdateAvailable_def bindE_def ret_def)
qed

section \<open>Properties of the cluster list\<close>

text \<open>
  Claim C11. A refresh computes the list of pending clusters from the registry's answer. The map
  afterwards holds exactly the clusters offered that are neither decommissioned nor filtered out,
  and those still being processed, which are untouched. Every other entry is refreshed: it is idle
  and holds a cluster as it was offered, its current version, and the target computed for it now; it
  keeps the time at which it was last processed. The pending list holds exactly the idle entries
  whose update priority is not \<open>None\<close>, each once, and the priority that is cached for the order
  is the update priority of the entry as it is now: they are ordered by falling update priority and
  then by the time they were last processed.
\<close>

theorem UpdateAvailable_pending:
  assumes "list_ok l" and "UpdateAvailable src vid digest flt cs l w = (Ret l', w')"
  shows "distinct (pendingUpdate l')
    \<and> set (pendingUpdate l') = {a. \<exists>k. m_get (clusters l') k = Some a \<and> ci_state (info l' a) = stateIdle
         \<and> updatePriority (info l' a) \<noteq> Some updatePriorityNone}
    \<and> (\<forall>a \<in> set (pendingUpdate l'). updatePriority (info l' a) = Some (ci_updatePriority (info l' a)))
    \<and> sorted_wrt (\<lambda>a b. ci_updatePriority (info l' b) < ci_updatePriority (info l' a)
         \<or> ci_updatePriority (info l' b) = ci_updatePriority (info l' a)
           \<and> ci_lastProcessed (info l' a) \<le> ci_lastProcessed (info l' b)) (pendingUpdate l')
    \<and> {k. m_has (clusters l') k} = {cl_ID c | c. c \<in> set cs \<and> cl_LifecycleStatus c \<noteq> statusDecommissioned
         \<and> Allowed flt (cl_InfrastructureAccount c)} \<union> fst ` processing l
    \<and> processing l' = processing l
    \<and> (\<forall>k a. m_get (clusters l') k = Some a \<longrightarrow> ci_state (info l' a) = stateProcessing
         \<or> ci_state (info l' a) = stateIdle \<and> ci_Cluster (info l' a) \<in> set cs
           \<and> cl_ID (ci_Cluster (info l' a)) = k
           \<and> (\<exists>st. cl_Status (ci_Cluster (info l' a)) = Some st
                \<and> ci_CurrentVersion (info l' a) = ParseVersion (st_CurrentVersion st))
           \<and> (\<exists>w1 w2. next_target src vid digest (ci_Cluster (info l' a)) w1
                = (Ret (ci_ChannelVersion (info l' a), ci_NextVersion (info l' a), ci_NextError (info l' a)), w2)))
    \<and> (\<forall>k a. m_get (clusters l') k = Some a \<longrightarrow> ci_lastProcessed (info l' a)
         = (case m_get (clusters l) k of None \<Rightarrow> 0 | Some b \<Rightarrow> ci_lastProcessed (info l b)))"
proof -
  have less: "\<not> pending_less l' b a \<longleftrightarrow> ci_updatePriority (info l' b) < ci_updatePriority (info l' a)
         \<or> ci_updatePriority (info l' b) = ci_updatePriority (info l' a)
           \<and> ci_lastProcessed (info l' a) \<le> ci_lastProcessed (info l' b)" for a b
    by (auto simp: pending_less_def Let_def)
  note spec = UpdateAvailable_spec [OF assms(2,1)]
  then have ok: "map_ok l'" unfolding list_ok_def by (elim conjE)
  have stored: "\<forall>k a. m_get (clusters l') k = Some a \<longrightarrow> (ci_state (info l' a) = stateProcessing
       \<or> refreshed src vid digest {c \<in> set cs. tracked flt c} (info l' a))
     \<and> ci_lastProcessed (info l' a) = last_time l k" using spec by (elim conjE)
  have times: "\<forall>k a. m_get (clusters l') k = Some a \<longrightarrow> ci_lastProcessed (info l' a)
         = (case m_get (clusters l) k of None \<Rightarrow> 0 | Some b \<Rightarrow> ci_lastProcessed (info l b))"
    using stored unfolding last_time_def by blast
  have entry: "ci_state (info l' a) = stateProcessing
         \<or> ci_state (info l' a) = stateIdle \<and> ci_Cluster (info l' a) \<in> set cs
           \<and> cl_ID (ci_Cluster (info l' a)) = k
           \<and> (\<exists>st. cl_Status (ci_Cluster (info l' a)) = Some st
                \<and> ci_CurrentVersion (info l' a) = ParseVersion (st_CurrentVersion st))
           \<and> (\<exists>w1 w2. next_target src vid digest (ci_Cluster (info l' a)) w1
                = (Ret (ci_ChannelVersion (info l' a), ci_NextVersion (info l' a), ci_NextError (info l' a)), w2))"
    if "m_get (clusters l') k = Some a" for k a
  proof (rule disj_imp [THEN iffD2], rule impI)
    assume "ci_state (info l' a) \<noteq> stateProcessing"
    with stored [rule_format, OF that] have "refreshed src vid digest {c \<in> set cs. tracked flt c} (info l' a)"
      by (elim conjE disjE) simp_all
    then show "ci_state (info l' a) = stateIdle \<and> ci_Cluster (info l' a) \<in> set cs
           \<and> cl_ID (ci_Cluster (info l' a)) = k
           \<and> (\<exists>st. cl_Status (ci_Cluster (info l' a)) = Some st
                \<and> ci_CurrentVersion (info l' a) = ParseVersion (st_CurrentVersion st))
           \<and> (\<exists>w1 w2. next_target src vid digest (ci_Cluster (info l' a)) w1
                = (Ret (ci_ChannelVersion (info l' a), ci_NextVersion (info l' a), ci_NextError (info l' a)), w2))"
      using map_okD [OF ok that] unfolding refreshed_def by (elim conjE, intro conjI) (assumption | simp)+
  qed
  show ?thesis
    using spec [unfolded less pending_ok_def needs_update_def tracked_def]
    by (elim conjE, intro conjI) (assumption | rule times | intro allI impI, rule entry, assumption)+
qed

definition sample_source :: "(unit, string) config_source" where
  "sample_source = \<lparr>cs_Name = ''s'', cs_Update = ret (), cs_Version = (\<lambda>ch ov. ret ch)\<rparr>"

definition all_accounts :: include_exclude_filter where
  "all_accounts = \<lparr>ie_Include = (\<lambda>s. True), ie_Exclude = (\<lambda>s. False)\<rparr>"

definition ready_cluster :: "string \<Rightarrow> string \<Rightarrow> cluster" where
  "ready_cluster i current = sample_cluster\<lparr>cl_ID := i,
     cl_Status := Some \<lparr>st_CurrentVersion = current, st_LastVersion = [], st_NextVersion = [], st_Problems = []\<rparr>\<rparr>"

theorem UpdateAvailable_pending_witness:
  "\<exists>l'. UpdateAvailable sample_source id id all_accounts [ready_cluster ''c1'' []] NewClusterList ()
      = (Ret l', ()) \<and> processing l' = processing NewClusterList"
proof -
  have "\<exists>l' w'. UpdateAvailable sample_source id id all_accounts [ready_cluster ''c1'' []]
      (NewClusterList :: string cluster_list) () = (Ret l', w')"
    by (rule UpdateAvailable_returns [OF NewClusterList_ok(1)])
      (auto simp: ready_cluster_def sample_source_def ret_def)
  then obtain l' where "UpdateAvailable sample_source id id all_accounts [ready_cluster ''c1'' []]
      (NewClusterList :: string cluster_list) () = (Ret l', ())" by auto
  moreover from UpdateAvailable_pending [OF NewClusterList_ok(1) this]
  have "processing l' = processing NewClusterList" by (elim conjE)
  ultimately show ?thesis by blast
qed

text \<open>
  A refresh always returns, without a nil dereference, when every cluster of the
  registry's answer carries a status and the configuration source answers with a version or an
  error.
\<close>

theorem UpdateAvailable_total:
  assumes "list_ok l" and "\<And>c. c \<in> set cs \<Longrightarrow> cl_Status c \<noteq> None"
    and "\<And>ch ov w. (\<exists>v. fst (cs_Version src ch ov w) = Ret v) \<or> (\<exists>e. fst (cs_Version src ch ov w) = Fail e)"
  shows "\<exists>l' w'. UpdateAvailable src vid digest flt cs l w = (Ret l', w') \<and> list_ok l' \<and> pending_ok l'"
proof -
  have "\<exists>r w'. cs_Version src ch ov w = (r, w') \<and> (\<exists>v. r = Ret v \<or> (\<exists>e. r = Fail e))" for ch ov w
    using assms(3) [of ch ov w] by (cases "cs_Version src ch ov w") auto
  with assms(1,2) have "\<exists>l' w'. UpdateAvailable src vid digest flt cs l w = (Ret l', w')"
    by (rule UpdateAvailable_returns)
  then obtain l' w' where u: "UpdateAvailable src vid digest flt cs l w = (Ret l', w')" by blast
  from UpdateAvailable_spec [OF u assms(1)] have "list_ok l'" "pending_ok l'" by simp_all
  with u show ?thesis by (intro exI conjI)
qed

theorem UpdateAvailable_total_witness:
  "\<exists>l' w'. UpdateAvailable sample_source id id all_accounts [ready_cluster ''c1'' []] NewClusterList ()
      = (Ret l', w') \<and> list_ok l' \<and> pending_ok l'"
  by (rule UpdateAvailable_total [OF NewClusterList_ok(1)])
    (auto simp: ready_cluster_def sample_source_def ret_def)

end
