(* ===== verification/File_System.thy ===== *)
theory File_System
  imports Go_Lib
begin

text \<open>
  The part of packages \<open>os\<close> and \<open>path/filepath\<close> the configuration sources use. A path is the list
  of its components, absolute and rooted at \<open>[]\<close>; \<open>clean\<close> is the lexical normalisation of
  \<open>filepath.Clean\<close>. A file system assigns nodes to physical paths; \<open>resolve\<close> is the kernel's walk,
  which follows symbolic links, at most forty of them. The operations on the last component of a
  path (\<open>Lstat\<close>, \<open>Mkdir\<close>, \<open>OpenFile\<close> with \<open>O_EXCL\<close>, \<open>Symlink\<close>) do not follow it.
\<close>

type_synonym path = "string list"

datatype node = Directory | Regular string bool | Link string

type_synonym fs = "(path \<times> node) list"

section \<open>Lexical paths\<close>

fun clean_onto :: "path \<Rightarrow> string list \<Rightarrow> path" where
  "clean_onto p [] = p"
| "clean_onto p (c # cs) =
     (if c = [] \<or> c = ''.'' then clean_onto p cs
      else if c = ''..'' then clean_onto (butlast p) cs
      else clean_onto (p @ [c]) cs)"

text \<open>\<open>filepath.Join(dir, name)\<close> for a clean absolute directory.\<close>

definition join_path :: "path \<Rightarrow> string \<Rightarrow> path" where
  "join_path dir name = clean_onto dir (split_on (CHR ''/'') name)"

definition dir_of :: "path \<Rightarrow> path" where
  "dir_of p = butlast p"

fun common_prefix :: "path \<Rightarrow> path \<Rightarrow> nat" where
  "common_prefix (a # as) (b # bs) = (if a = b then Suc (common_prefix as bs) else 0)"
| "common_prefix _ _ = 0"

text \<open>\<open>filepath.Rel(base, target)\<close> of two clean absolute paths; the empty list is the path \<open>.\<close>.\<close>

definition rel_path :: "path \<Rightarrow> path \<Rightarrow> string list" where
  "rel_path base target =
     (let k = common_prefix base target in replicate (length base - k) ''..'' @ drop k target)"

section \<open>System calls\<close>

definition ErrNotExist :: go_error where "ErrNotExist = Sentinel ''file does not exist''"
definition ErrExist :: go_error where "ErrExist = Sentinel ''file already exists''"
definition ErrNotDir :: go_error where "ErrNotDir = Errorf ''not a directory''"
definition ErrLoop :: go_error where "ErrLoop = Errorf ''too many levels of symbolic links''"

definition IsNotExist :: "go_error \<Rightarrow> bool" where
  "IsNotExist e \<longleftrightarrow> e = ErrNotExist"

lemmas os_errors = ErrNotExist_def ErrExist_def ErrNotDir_def ErrLoop_def IsNotExist_def

definition node_at :: "fs \<Rightarrow> path \<Rightarrow> node option" where
  "node_at f p = (if p = [] then Some Directory else m_get f p)"

text \<open>Walking a list of components from a physical directory.\<close>

function resolve :: "nat \<Rightarrow> fs \<Rightarrow> path \<Rightarrow> string list \<Rightarrow> go_error + path" where
  "resolve hops f cur [] = Inr cur"
| "resolve hops f cur (c # cs) =
     (if c = [] \<or> c = ''.'' then resolve hops f cur cs
      else if c = ''..'' then resolve hops f (butlast cur) cs
      else (case node_at f (cur @ [c]) of
              None \<Rightarrow> Inl ErrNotExist
            | Some Directory \<Rightarrow> resolve hops f (cur @ [c]) cs
            | Some (Regular _ _) \<Rightarrow> Inl ErrNotDir
            | Some (Link t) \<Rightarrow>
                (case hops of
                   0 \<Rightarrow> Inl ErrLoop
                 | Suc h \<Rightarrow> resolve h f (if has_prefix t ''/'' then [] else cur)
                              (split_on (CHR ''/'') t @ cs))))"
  by pat_completeness auto
termination
  by (relation "measures [\<lambda>(hops, f, cur, cs). hops, \<lambda>(hops, f, cur, cs). length cs]") auto

definition maxSymlinks :: nat where "maxSymlinks = 40"

text \<open>The physical place of the last component of a path.\<close>

definition place :: "fs \<Rightarrow> path \<Rightarrow> go_error + path" where
  "place f p = (if p = [] then Inr []
     else (case resolve maxSymlinks f [] (butlast p) of Inl e \<Rightarrow> Inl e | Inr d \<Rightarrow> Inr (d @ [last p])))"

definition Lstat :: "fs \<Rightarrow> path \<Rightarrow> go_error + node" where
  "Lstat f p = (case place f p of
     Inl e \<Rightarrow> Inl e
   | Inr q \<Rightarrow> (case node_at f q of None \<Rightarrow> Inl ErrNotExist | Some n \<Rightarrow> Inr n))"

text \<open>Creating a node where there is none: \<open>Mkdir\<close>, \<open>Symlink\<close> and exclusive \<open>OpenFile\<close>.\<close>

definition create :: "node \<Rightarrow> path \<Rightarrow> fs \<Rightarrow> go_error + fs" where
  "create n p f = (case place f p of
     Inl e \<Rightarrow> Inl e
   | Inr q \<Rightarrow> (case node_at f q of Some _ \<Rightarrow> Inl ErrExist | None \<Rightarrow> Inr (m_put q n f)))"

text \<open>\<open>os.MkdirAll\<close>, one component after the other.\<close>

fun MkdirAll :: "path \<Rightarrow> string list \<Rightarrow> fs \<Rightarrow> go_error + fs" where
  "MkdirAll pre [] f = Inr f"
| "MkdirAll pre (c # cs) f =
     (case resolve maxSymlinks f [] (pre @ [c]) of
        Inr _ \<Rightarrow> MkdirAll (pre @ [c]) cs f
      | Inl e \<Rightarrow> if IsNotExist e
                then (case create Directory (pre @ [c]) f of
                        Inl e' \<Rightarrow> Inl e'
                      | Inr f' \<Rightarrow> MkdirAll (pre @ [c]) cs f')
                else Inl e)"

text \<open>\<open>os.ReadFile\<close> and \<open>os.ReadDir\<close> follow links; the entries of a directory are sorted by name.\<close>

function final :: "nat \<Rightarrow> fs \<Rightarrow> path \<Rightarrow> string list \<Rightarrow> go_error + path" where
  "final hops f cur cs =
     (if cs = [] then Inr cur
      else (case resolve hops f cur (butlast cs) of
              Inl e \<Rightarrow> Inl e
            | Inr d \<Rightarrow>
                (let c = last cs in
                 if c = [] \<or> c = ''.'' then Inr d
                 else if c = ''..'' then Inr (butlast d)
                 else (case node_at f (d @ [c]) of
                         None \<Rightarrow> Inl ErrNotExist
                       | Some (Link t) \<Rightarrow>
                           (case hops of
                              0 \<Rightarrow> Inl ErrLoop
                            | Suc h \<Rightarrow> final h f (if has_prefix t ''/'' then [] else d) (split_on (CHR ''/'') t))
                       | Some _ \<Rightarrow> Inr (d @ [c])))))"
  by pat_completeness auto
termination
  by (relation "measure (\<lambda>(hops, f, cur, cs). hops)") auto

definition ReadFile :: "fs \<Rightarrow> path \<Rightarrow> go_error + string" where
  "ReadFile f p = (case final maxSymlinks f [] p of
     Inl e \<Rightarrow> Inl e
   | Inr q \<Rightarrow> (case node_at f q of
         Some (Regular s _) \<Rightarrow> Inr s
       | Some _ \<Rightarrow> Inl (Errorf ''is a directory'')
       | None \<Rightarrow> Inl ErrNotExist))"

definition ReadDir :: "fs \<Rightarrow> path \<Rightarrow> go_error + (string \<times> node) list" where
  "ReadDir f p = (case final maxSymlinks f [] p of
     Inl e \<Rightarrow> Inl e
   | Inr q \<Rightarrow> (case node_at f q of
         Some Directory \<Rightarrow>
           Inr (map (\<lambda>n. (n, the (node_at f (q @ [n]))))
             (sort (remdups (map last (filter (\<lambda>k. k \<noteq> [] \<and> butlast k = q) (m_keys f))))))
       | Some _ \<Rightarrow> Inl ErrNotDir
       | None \<Rightarrow> Inl ErrNotExist))"

definition RemoveAll :: "path \<Rightarrow> fs \<Rightarrow> fs" where
  "RemoveAll p f = filter (\<lambda>(q, _). take (length p) q \<noteq> p) f"

section \<open>Lemmas\<close>

definition below :: "path \<Rightarrow> path \<Rightarrow> bool" where
  "below root p \<longleftrightarrow> take (length root) p = root"

lemma below_iff: "below root p \<longleftrightarrow> (\<exists>t. p = root @ t)"
  unfolding below_def by (metis append_eq_conv_conj append_take_drop_id)

lemma below_refl [simp]: "below root root" by (simp add: below_def)

lemma below_append [simp]: "below root (root @ t)" by (simp add: below_def)

text \<open>A path all of whose prefixes are directories.\<close>

definition real_dir :: "fs \<Rightarrow> path \<Rightarrow> bool" where
  "real_dir f p \<longleftrightarrow> (\<forall>k \<le> length p. node_at f (take k p) = Some Directory)"

text \<open>A path with no component that \<open>clean\<close> would drop.\<close>

definition proper :: "path \<Rightarrow> bool" where
  "proper p \<longleftrightarrow> (\<forall>c \<in> set p. c \<noteq> [] \<and> c \<noteq> ''.'' \<and> c \<noteq> ''..'' \<and> CHR ''/'' \<notin> set c)"

lemma proper_append [simp]: "proper (p @ q) \<longleftrightarrow> proper p \<and> proper q"
  by (auto simp: proper_def)

lemma proper_butlast: "proper p \<Longrightarrow> proper (butlast p)"
  by (auto simp: proper_def dest: in_set_butlastD)

lemma proper_clean:
  "proper p \<Longrightarrow> (\<And>c. c \<in> set cs \<Longrightarrow> CHR ''/'' \<notin> set c) \<Longrightarrow> proper (clean_onto p cs)"
proof (induction p cs rule: clean_onto.induct)
  case (1 p)
  then show ?case by simp
next
  case (2 p c cs)
  then show ?case by (auto simp: proper_butlast) (auto simp: proper_def)
qed

lemma proper_join: "proper dir \<Longrightarrow> proper (join_path dir name)"
  unfolding join_path_def by (rule proper_clean) (auto dest: split_on_parts)

lemma resolve_real_dir:
  "real_dir f (cur @ cs) \<Longrightarrow> proper cs \<Longrightarrow> resolve hops f cur cs = Inr (cur @ cs)"
proof (induction cs arbitrary: cur)
  case Nil
  then show ?case by simp
next
  case (Cons c cs)
  have "node_at f (take (Suc (length cur)) (cur @ c # cs)) = Some Directory"
    using Cons.prems(1) unfolding real_dir_def by (metis (no_types) add_leE length_Cons length_append
        not_less_eq_eq plus_1_eq_Suc add_Suc_right le_add1)
  then have "node_at f (cur @ [c]) = Some Directory" by simp
  with Cons show ?case by (simp add: proper_def)
qed

lemma place_real: "real_dir f (butlast p) \<Longrightarrow> proper p \<Longrightarrow> place f p = Inr p"
  using resolve_real_dir [of f "[]" "butlast p"] by (simp add: place_def proper_butlast)

lemma common_prefix_le: "common_prefix a b \<le> length a \<and> common_prefix a b \<le> length b
    \<and> take (common_prefix a b) a = take (common_prefix a b) b"
  by (induction a b rule: common_prefix.induct) auto

lemma common_prefix_append [simp]: "common_prefix r (r @ t) = length r"
  by (induction r) auto

lemma rel_below: "rel_path r (r @ t) = t"
  by (simp add: rel_path_def Let_def)

lemma rel_not_below: "\<not> below r p \<Longrightarrow> \<exists>t. rel_path r p = ''..'' # t"
proof -
  assume nb: "\<not> below r p"
  have "common_prefix r p < length r"
  proof (rule ccontr)
    assume "\<not> common_prefix r p < length r"
    with common_prefix_le [of r p] have "take (length r) p = r" by auto
    with nb show False by (simp add: below_def)
  qed
  then obtain n where "length r - common_prefix r p = Suc n" by (metis Suc_diff_Suc)
  then show ?thesis by (simp add: rel_path_def Let_def)
qed

lemma node_at_put: "q \<noteq> [] \<Longrightarrow> node_at (m_put q n f) p = (if p = q then Some n else node_at f p)"
  by (simp add: node_at_def)

end
