(* ===== verification/Git_Checkout.thy ===== *)
theory Git_Checkout
  imports File_System
begin

text \<open>
  The checkout of a configuration version from a git mirror (\<open>channel/git.go\<close>, from \<open>localClone\<close>
  on). The git library is not part of the program: a tree is given with what \<open>object.GetTree\<close> and
  \<open>object.GetBlob\<close> return for its entries, which is a finite tree because objects name each other by
  the hash of their content. The context is the sequence of answers of \<open>ctx.Err()\<close>; the state is the
  file system and the number of answers used.
\<close>

section \<open>Data\<close>

datatype entry_mode = Submodule | Dir | Symlink | RegularMode | Executable

record blob =
  bl_Reader :: "go_error option"
  bl_Content :: string
  bl_Read :: "go_error option"

datatype git_entry = Entry (en_Name: string) (en_Mode: entry_mode)
  (en_Tree: "go_error + git_entry list") (en_Blob: "go_error + blob")

type_synonym state = "fs \<times> nat"

definition ctx_Err :: "(nat \<Rightarrow> go_error option) \<Rightarrow> (state, unit) io" where
  "ctx_Err ctx s = (case ctx (snd s) of
     Some e \<Rightarrow> (Fail e, (fst s, Suc (snd s)))
   | None \<Rightarrow> (Ret (), (fst s, Suc (snd s))))"

definition os_call :: "(fs \<Rightarrow> go_error + fs) \<Rightarrow> (state, unit) io" where
  "os_call op s = (case op (fst s) of
     Inl e \<Rightarrow> (Fail e, s)
   | Inr f \<Rightarrow> (Ret (), (f, snd s)))"

section \<open>Operations\<close>

definition safeJoin :: "path \<Rightarrow> string \<Rightarrow> go_error + path" where
  "safeJoin dir name =
     (let dest = join_path dir name in
      case rel_path dir dest of
        r # rs \<Rightarrow> if r = ''..'' then Inl (Errorf (''entry '' @ quoted name @ '' escapes checkout directory''))
                 else Inr dest
      | [] \<Rightarrow> Inr dest)"

fun mkdir_parts :: "path \<Rightarrow> string list \<Rightarrow> (state, unit) io" where
  "mkdir_parts current [] s = ret () s"
| "mkdir_parts current (part # parts) s =
     (let current' = clean_onto current [part] in
      case Lstat (fst s) current' of
        Inl e \<Rightarrow> if IsNotExist e
                then bindE (os_call (create Directory current')) (\<lambda>_. mkdir_parts current' parts) s
                else fail e s
      | Inr n \<Rightarrow> if n = Directory then mkdir_parts current' parts s
                else fail (Errorf (''refusing to write through non-directory '' @ quoted (concat (map (\<lambda>c. CHR ''/'' # c) current')))) s)"

definition safeMkdirAll :: "path \<Rightarrow> path \<Rightarrow> (state, unit) io" where
  "safeMkdirAll root destDir =
     bindE (os_call (MkdirAll [] root)) (\<lambda>_. mkdir_parts root (rel_path root destDir))"

definition writeBlob :: "blob \<Rightarrow> path \<Rightarrow> entry_mode \<Rightarrow> (state, unit) io" where
  "writeBlob b dest mode =
     (case bl_Reader b of
        Some e \<Rightarrow> fail e
      | None \<Rightarrow>
          tryE (os_call (create (Regular (bl_Content b) (mode = Executable)) dest))
            (\<lambda>e. fail (Wrapf (''failed to create '' @ concat (map (\<lambda>c. CHR ''/'' # c) dest)) e))
            (\<lambda>_. case bl_Read b of Some e \<Rightarrow> fail e | None \<Rightarrow> ret ()))"

definition writeSymlink :: "blob \<Rightarrow> path \<Rightarrow> (state, unit) io" where
  "writeSymlink b dest s =
     (case bl_Reader b of
        Some e \<Rightarrow> fail e s
      | None \<Rightarrow>
          (case bl_Read b of
             Some e \<Rightarrow> fail e s
           | None \<Rightarrow>
               (case Lstat (fst s) dest of
                  Inr _ \<Rightarrow> fail (Errorf (''refusing to overwrite existing entry ''
                            @ quoted (concat (map (\<lambda>c. CHR ''/'' # c) dest)))) s
                | Inl e \<Rightarrow> if IsNotExist e then os_call (create (Link (bl_Content b)) dest) s
                          else fail e s)))"

definition write_file :: "path \<Rightarrow> string \<Rightarrow> entry_mode \<Rightarrow> go_error + blob \<Rightarrow> (state, unit) io" where
  "write_file dir name mode b =
     (case safeJoin dir name of
        Inl e \<Rightarrow> fail e
      | Inr dest \<Rightarrow>
          bindE (safeMkdirAll dir (dir_of dest)) (\<lambda>_.
            case b of
              Inl e \<Rightarrow> fail (Wrapf (''failed to get blob for '' @ name) e)
            | Inr blob \<Rightarrow> if mode = Symlink then writeSymlink blob dest else writeBlob blob dest mode))"

lemma size_en_Tree: "en_Tree e = Inr b \<Longrightarrow> size_list size b < size e"
  by (cases e) auto

function writeTreeEntries ::
  "(nat \<Rightarrow> go_error option) \<Rightarrow> git_entry list \<Rightarrow> string \<Rightarrow> path \<Rightarrow> (state, unit) io" where
  "writeTreeEntries ctx [] base dir s = ret () s"
| "writeTreeEntries ctx (e # es) base dir s =
     bindE (ctx_Err ctx) (\<lambda>_ s1.
       let name = (if base \<noteq> [] then base @ ''/'' @ en_Name e else en_Name e) in
       if en_Mode e = Submodule then writeTreeEntries ctx es base dir s1
       else if en_Mode e = Dir
       then (case en_Tree e of
               Inl err \<Rightarrow> fail (Wrapf (''failed to get subtree '' @ name) err) s1
             | Inr subtree \<Rightarrow> bindE (writeTreeEntries ctx subtree name dir)
                               (\<lambda>_. writeTreeEntries ctx es base dir) s1)
       else bindE (write_file dir name (en_Mode e) (en_Blob e))
              (\<lambda>_. writeTreeEntries ctx es base dir) s1) s"
  by pat_completeness auto
termination
  by (relation "measure (\<lambda>(ctx, es, base, dir, s). size_list size es)") (auto dest: size_en_Tree)

definition writeTree :: "(nat \<Rightarrow> go_error option) \<Rightarrow> git_entry list \<Rightarrow> path \<Rightarrow> (state, unit) io" where
  "writeTree ctx tree dir = writeTreeEntries ctx tree [] dir"

section \<open>Confinement\<close>

text \<open>
  \<open>grows root f f'\<close>: nothing that existed has changed, and what is new lies below \<open>root\<close>.
\<close>

definition grows :: "path \<Rightarrow> fs \<Rightarrow> fs \<Rightarrow> bool" where
  "grows root f f' \<longleftrightarrow> (\<forall>p. node_at f' p = node_at f p \<or> node_at f p = None \<and> below root p)"

text \<open>The checkout directory is fresh or a directory, and no link leads to it.\<close>

definition root_ok :: "path \<Rightarrow> fs \<Rightarrow> bool" where
  "root_ok root f \<longleftrightarrow> proper root \<and> root \<noteq> [] \<and> real_dir f (butlast root)
     \<and> (node_at f root = None \<or> node_at f root = Some Directory)"

lemma grows_refl [simp]: "grows root f f" by (simp add: grows_def)

lemma grows_trans: "grows root f g \<Longrightarrow> grows root g h \<Longrightarrow> grows root f h"
  unfolding grows_def by metis

lemma grows_keeps: "grows root f g \<Longrightarrow> node_at f p = Some n \<Longrightarrow> node_at g p = Some n"
  unfolding grows_def by (metis option.distinct(1))

lemma grows_real_dir: "grows root f g \<Longrightarrow> real_dir f p \<Longrightarrow> real_dir g p"
  by (auto simp: real_dir_def intro: grows_keeps)

lemma real_dir_snoc: "real_dir f (p @ [c]) \<longleftrightarrow> real_dir f p \<and> node_at f (p @ [c]) = Some Directory"
  by (auto simp: real_dir_def le_Suc_eq)

lemma real_dir_self: "real_dir f p \<Longrightarrow> node_at f p = Some Directory"
  unfolding real_dir_def by (metis order_refl take_all)

lemma real_dir_prefix: "real_dir f (p @ q) \<Longrightarrow> real_dir f p"
  by (induction q rule: rev_induct) (auto simp: real_dir_snoc simp flip: append_assoc)

lemma real_dir_root: "root_ok root f \<Longrightarrow> real_dir f root \<longleftrightarrow> node_at f root = Some Directory"
  using real_dir_snoc [of f "butlast root" "last root"] by (simp add: root_ok_def)

lemma create_at:
  assumes "place f p = Inr p" and "p \<noteq> []"
  shows "create n p f = (if node_at f p = None then Inr (m_put p n f) else Inl ErrExist)"
  using assms by (auto simp: create_def split: option.splits)

lemma grows_put: "node_at f p = None \<Longrightarrow> below root p \<Longrightarrow> p \<noteq> [] \<Longrightarrow> grows root f (m_put p n f)"
  by (simp add: grows_def node_at_put)

lemma resolve_append:
  "real_dir f (cur @ a) \<Longrightarrow> proper a \<Longrightarrow> resolve h f cur (a @ b) = resolve h f (cur @ a) b"
proof (induction a arbitrary: cur)
  case Nil
  then show ?case by simp
next
  case (Cons c a)
  have "real_dir f (cur @ [c])" using real_dir_prefix [of f "cur @ [c]" a] Cons.prems by simp
  then have "node_at f (cur @ [c]) = Some Directory" by (rule real_dir_self)
  with Cons show ?case by (simp add: proper_def)
qed

lemma resolve_root:
  assumes "root_ok root f"
  shows "resolve h f [] root = (if node_at f root = None then Inl ErrNotExist else Inr root)"
proof -
  have r: "butlast root @ [last root] = root" using assms by (simp add: root_ok_def)
  have "proper [last root]" using assms r proper_append unfolding root_ok_def by metis
  moreover have "resolve h f [] (butlast root @ [last root]) = resolve h f (butlast root) [last root]"
    using assms resolve_append [of f "[]" "butlast root" h "[last root]"] by (simp add: root_ok_def proper_butlast)
  ultimately show ?thesis using assms r
    by (auto simp: root_ok_def proper_def split: option.splits)
qed

lemma MkdirAll_prefix:
  "real_dir f (pre @ cs) \<Longrightarrow> proper (pre @ cs) \<Longrightarrow> MkdirAll pre (cs @ ds) f = MkdirAll (pre @ cs) ds f"
proof (induction cs arbitrary: pre)
  case Nil
  then show ?case by simp
next
  case (Cons c cs)
  have "real_dir f ([] @ (pre @ [c]))" using real_dir_prefix [of f "pre @ [c]" cs] Cons.prems by simp
  then have "resolve maxSymlinks f [] (pre @ [c]) = Inr (pre @ [c])"
    using resolve_real_dir [of f "[]" "pre @ [c]"] Cons.prems by (simp add: proper_def)
  with Cons.IH [of "pre @ [c]"] Cons.prems show ?case by simp
qed

lemma MkdirAll_root:
  assumes "root_ok root f"
  shows "MkdirAll [] root f = Inr (if node_at f root = None then m_put root Directory f else f)"
proof -
  have r: "butlast root @ [last root] = root" and ne: "root \<noteq> []" and p: "proper root"
    using assms by (simp_all add: root_ok_def)
  have "MkdirAll [] (butlast root @ [last root]) f = MkdirAll (butlast root) [last root] f"
    using MkdirAll_prefix [of f "[]" "butlast root" "[last root]"] assms
    by (simp add: root_ok_def proper_butlast)
  moreover have "place f root = Inr root" using assms by (intro place_real) (simp_all add: root_ok_def)
  ultimately show ?thesis
    using r resolve_root [OF assms, of maxSymlinks] create_at [of f root Directory] ne
    by (simp add: IsNotExist_def)
qed

lemma mkdir_parts_spec:
  assumes "mkdir_parts current parts (f, n) = (r, (f', n'))" and "real_dir f current"
    and "proper (current @ parts)" and "below root current"
  shows "n' = n \<and> grows root f f' \<and> (r = Ret () \<longrightarrow> real_dir f' (current @ parts))"
  using assms
proof (induction parts arbitrary: current f)
  case Nil
  then show ?case by (simp add: ret_def)
next
  case (Cons part parts)
  let ?c = "current @ [part]"
  have cl: "clean_onto current [part] = ?c" using Cons.prems(3) by (simp add: proper_def)
  have place: "place f ?c = Inr ?c" using Cons.prems by (intro place_real) (simp_all add: proper_def)
  have below: "below root ?c" using Cons.prems(4) by (auto simp: below_iff)
  consider (none) "node_at f ?c = None" | (dir) "node_at f ?c = Some Directory"
    | (other) m where "node_at f ?c = Some m" "m \<noteq> Directory" by (cases "node_at f ?c") auto
  then show ?case
  proof cases
    case none
    let ?f = "m_put ?c Directory f"
    have g: "grows root f ?f" using none below by (intro grows_put) simp_all
    have "real_dir ?f ?c"
      using grows_real_dir [OF g Cons.prems(2)] by (simp add: real_dir_snoc node_at_put)
    moreover have "mkdir_parts ?c parts (?f, n) = (r, (f', n'))"
      using Cons.prems(1) none place cl
      by (simp add: Lstat_def IsNotExist_def os_call_def create_at bindE_def Let_def)
    ultimately show ?thesis using Cons.IH [of ?c ?f] Cons.prems(3) below g by (auto intro: grows_trans)
  next
    case dir
    then have "mkdir_parts ?c parts (f, n) = (r, (f', n'))"
      using Cons.prems(1) place cl by (simp add: Lstat_def)
    moreover have "real_dir f ?c" using dir Cons.prems(2) by (simp add: real_dir_snoc)
    ultimately show ?thesis using Cons.IH [of ?c f] Cons.prems(3) below by simp
  next
    case other
    then show ?thesis using Cons.prems(1) place cl by (auto simp: Lstat_def fail_def)
  qed
qed

lemma safeJoin_below: "safeJoin dir name = Inr dest \<Longrightarrow> dest = join_path dir name \<and> below dir dest"
  using rel_not_below [of dir "join_path dir name"]
  by (auto simp: safeJoin_def Let_def split: list.splits if_splits)

lemma common_prefix_snoc: "common_prefix (p @ [c]) p = length p"
  by (induction p) auto

lemma safeMkdirAll_spec:
  assumes ok: "root_ok root f" and dest: "proper dest" "below root dest"
    and run: "safeMkdirAll root (dir_of dest) (f, n) = (r, (f', n'))"
  shows "n' = n \<and> grows root f f' \<and> root_ok root f' \<and> real_dir f' root
     \<and> (r = Ret () \<longrightarrow> place f' dest = Inr dest)"
proof -
  let ?f = "if node_at f root = None then m_put root Directory f else f"
  have ne: "root \<noteq> []" "proper root" using ok by (simp_all add: root_ok_def)
  have g: "grows root f ?f" using ne by (auto intro!: grows_put)
  have "real_dir ?f (butlast root)" using ok grows_real_dir [OF g] by (simp add: root_ok_def)
  moreover have "node_at ?f root = Some Directory"
    using ok ne by (auto simp: root_ok_def node_at_put)
  ultimately have real: "real_dir ?f root" and ok': "root_ok root ?f"
    using real_dir_snoc [of ?f "butlast root" "last root"] ne by (simp_all add: root_ok_def)
  have run': "mkdir_parts root (rel_path root (dir_of dest)) (?f, n) = (r, (f', n'))"
    using run MkdirAll_root [OF ok] by (simp add: safeMkdirAll_def os_call_def bindE_def)
  obtain t where t: "dest = root @ t" using dest(2) by (auto simp: below_iff)
  show ?thesis
  proof (cases "t = []")
    case True
    have eq: "root = butlast root @ [last root]" using ne by simp
    have "rel_path root (butlast root) = [''..'']"
      using common_prefix_snoc [of "butlast root" "last root"] ne
      by (cases "length root") (simp_all add: rel_path_def Let_def)
    moreover have "place ?f (butlast root) = Inr (butlast root)"
      using ok' ne real_dir_prefix [of ?f "butlast (butlast root)" "[last (butlast root)]"]
      by (cases "butlast root = []") (auto simp: place_def [of _ "[]"] root_ok_def intro!: place_real proper_butlast)
    moreover have "node_at ?f (butlast root) = Some Directory" using ok' by (auto simp: root_ok_def intro: real_dir_self)
    ultimately have "f' = ?f \<and> n' = n"
      using run' True t by (simp add: dir_of_def Lstat_def ret_def Let_def)
    then show ?thesis using g ok' real True t ne
      by (auto simp: root_ok_def intro!: place_real)
  next
    case False
    have d: "dir_of dest = root @ butlast t" using t False by (simp add: dir_of_def butlast_append)
    have "mkdir_parts root (butlast t) (?f, n) = (r, (f', n'))" using run' d by (simp add: rel_below)
    from mkdir_parts_spec [OF this real, of root] dest(1) t
    have *: "n' = n \<and> grows root ?f f' \<and> (r = Ret () \<longrightarrow> real_dir f' (root @ butlast t))"
      by (simp add: proper_butlast)
    then have real': "real_dir f' root" using real by (auto intro: grows_real_dir)
    have "real_dir f' (butlast root)"
      using real' ne real_dir_prefix [of f' "butlast root" "[last root]"] by simp
    then have "root_ok root f'" using ne real_dir_self [OF real'] by (simp add: root_ok_def)
    moreover have "place f' dest = Inr dest" if "r = Ret ()"
      using that * d dest(1) by (intro place_real) (simp_all add: dir_of_def)
    ultimately show ?thesis using * g real' by (auto intro: grows_trans)
  qed
qed

definition expected_node :: "entry_mode \<Rightarrow> blob \<Rightarrow> node" where
  "expected_node mode b = (if mode = Symlink then Link (bl_Content b)
     else Regular (bl_Content b) (mode = Executable))"

lemma create_spec:
  assumes "place f dest = Inr dest" "below root dest" "dest \<noteq> []" "real_dir f root" "root_ok root f"
    and "create m dest f = Inr f'"
  shows "grows root f f' \<and> root_ok root f' \<and> node_at f' dest = Some m"
proof -
  have none: "node_at f dest = None" and f': "f' = m_put dest m f"
    using assms by (auto simp: create_at split: if_splits)
  then have g: "grows root f f'" using assms by (auto intro: grows_put)
  have "node_at f' root = Some Directory" using g assms(4) by (auto intro: grows_keeps real_dir_self)
  then have "root_ok root f'" using assms(5) g by (auto simp: root_ok_def intro: grows_real_dir)
  then show ?thesis using g f' assms(3) by (simp add: node_at_put)
qed

lemma write_file_spec:
  assumes ok: "root_ok root f" and run: "write_file root name mode b (f, n) = (r, (f', n'))"
  shows "grows root f f' \<and> root_ok root f'
     \<and> (r = Ret () \<longrightarrow> (\<exists>blob. b = Inr blob \<and> below root (join_path root name)
          \<and> node_at f' (join_path root name) = Some (expected_node mode blob)))"
proof (cases "safeJoin root name")
  case (Inl e)
  then show ?thesis using ok run by (auto simp: write_file_def fail_def)
next
  case (Inr dest)
  have ne: "root \<noteq> []" "proper root" using ok by (simp_all add: root_ok_def)
  have dest: "dest = join_path root name" "below root dest" using safeJoin_below [OF Inr] by auto
  have pd: "proper dest" using ne(2) dest(1) proper_join by simp
  have dne: "dest \<noteq> []" using dest(2) ne(1) by (auto simp: below_iff)
  obtain r1 f1 n1 where m: "safeMkdirAll root (dir_of dest) (f, n) = (r1, (f1, n1))"
    by (metis prod_cases3)
  note s = safeMkdirAll_spec [OF ok pd dest(2) m]
  show ?thesis
  proof (cases "r1 = Ret ()")
    case False
    then have "f' = f1 \<and> r \<noteq> Ret ()" using run Inr m
      by (auto simp: write_file_def bindE_def split: outcome.splits)
    with s show ?thesis by auto
  next
    case True
    with s have p: "place f1 dest = Inr dest" and real: "real_dir f1 root" and ok1: "root_ok root f1" by auto
    note cr = create_spec [OF p dest(2) dne real ok1]
    consider (same) "f' = f1" "r \<noteq> Ret ()"
      | (new) blob where "b = Inr blob" "create (expected_node mode blob) dest f1 = Inr f'"
      using run Inr m True
      by (auto simp: write_file_def bindE_def fail_def ret_def writeSymlink_def writeBlob_def tryE_def os_call_def
          expected_node_def split: sum.splits if_splits option.splits)
    then show ?thesis
    proof cases
      case same
      then show ?thesis using s by auto
    next
      case new
      from cr [OF new(2)] new(1) s dest show ?thesis by (auto intro: grows_trans)
    qed
  qed
qed

text \<open>The files a tree contains, with their names from the root of the tree.\<close>

function files :: "git_entry list \<Rightarrow> string \<Rightarrow> (string \<times> entry_mode \<times> (go_error + blob)) list" where
  "files [] base = []"
| "files (e # es) base =
     (let name = (if base \<noteq> [] then base @ ''/'' @ en_Name e else en_Name e) in
      if en_Mode e = Submodule then files es base
      else if en_Mode e = Dir
      then (case en_Tree e of Inl _ \<Rightarrow> [] | Inr subtree \<Rightarrow> files subtree name) @ files es base
      else (name, en_Mode e, en_Blob e) # files es base)"
  by pat_completeness auto
termination
  by (relation "measure (\<lambda>(es, base). size_list size es)") (auto dest: size_en_Tree)

definition written :: "path \<Rightarrow> fs \<Rightarrow> string \<times> entry_mode \<times> (go_error + blob) \<Rightarrow> bool" where
  "written root f = (\<lambda>(name, mode, b). \<exists>blob. b = Inr blob \<and> below root (join_path root name)
      \<and> node_at f (join_path root name) = Some (expected_node mode blob))"

lemma written_grows: "grows root f g \<Longrightarrow> written root f x \<Longrightarrow> written root g x"
  by (auto simp: written_def intro: grows_keeps)

definition wrote :: "path \<Rightarrow> fs \<Rightarrow> (string \<times> entry_mode \<times> (go_error + blob)) list \<Rightarrow> unit outcome \<times> state \<Rightarrow> bool" where
  "wrote root f xs res \<longleftrightarrow> grows root f (fst (snd res)) \<and> root_ok root (fst (snd res))
     \<and> (fst res = Ret () \<longrightarrow> (\<forall>x \<in> set xs. written root (fst (snd res)) x))"

text \<open>Two steps one after the other.\<close>

lemma wrote_bindE:
  assumes "wrote root f xs (m (f, n))"
    and "\<And>f1 n1. root_ok root f1 \<Longrightarrow> wrote root f1 ys (k () (f1, n1))"
  shows "wrote root f (xs @ ys) (bindE m k (f, n))"
proof (cases "m (f, n)")
  case (fields r f1 n1)
  show ?thesis
  proof (cases "r = Ret ()")
    case True
    then have eq: "bindE m k (f, n) = k () (f1, n1)" using fields by (simp add: bindE_def)
    have 1: "wrote root f xs (Ret (), (f1, n1))" using assms(1) fields True by simp
    then have 2: "wrote root f1 ys (k () (f1, n1))" by (intro assms(2)) (simp add: wrote_def)
    have "written root (fst (snd (k () (f1, n1)))) x" if "x \<in> set xs" for x
      using 1 2 that by (auto simp: wrote_def intro: written_grows)
    then show ?thesis using 1 2 unfolding eq by (auto simp: wrote_def intro: grows_trans)
  next
    case False
    then have "snd (bindE m k (f, n)) = (f1, n1)" "fst (bindE m k (f, n)) \<noteq> Ret ()"
      using fields by (auto simp: bindE_def split: outcome.splits)
    then show ?thesis using assms(1) fields by (simp add: wrote_def)
  qed
qed

lemma writeTreeEntries_wrote:
  "root_ok root f \<Longrightarrow> wrote root f (files es base) (writeTreeEntries ctx es base root (f, n))"
proof (induction "size_list size es" arbitrary: es base f n rule: less_induct)
  case less
  show ?case
  proof (cases es)
    case Nil
    then show ?thesis using less.prems by (simp add: wrote_def ret_def)
  next
    case (Cons e es')
    have rest: "wrote root f1 (files es' base) (writeTreeEntries ctx es' base root (f1, n1))"
      if "root_ok root f1" for f1 n1 using less.hyps [of es' f1] that Cons by simp
    let ?name = "if base \<noteq> [] then base @ ''/'' @ en_Name e else en_Name e"
    have c: "wrote root f [] (ctx_Err ctx (f, n))"
      using less.prems by (auto simp: wrote_def ctx_Err_def split: option.splits)
    let ?k = "\<lambda>s1. if en_Mode e = Submodule then writeTreeEntries ctx es' base root s1
       else if en_Mode e = Dir
       then (case en_Tree e of
               Inl err \<Rightarrow> fail (Wrapf (''failed to get subtree '' @ ?name) err) s1
             | Inr subtree \<Rightarrow> bindE (writeTreeEntries ctx subtree ?name root)
                               (\<lambda>_. writeTreeEntries ctx es' base root) s1)
       else bindE (write_file root ?name (en_Mode e) (en_Blob e))
              (\<lambda>_. writeTreeEntries ctx es' base root) s1"
    have "wrote root f1 (files es base) (?k (f1, n1))" if ok: "root_ok root f1" for f1 n1
    proof -
      consider (sub) "en_Mode e = Submodule" | (tree) "en_Mode e = Dir"
        | (leaf) "en_Mode e \<noteq> Submodule" "en_Mode e \<noteq> Dir" by blast
      then show ?thesis
      proof cases
        case sub
        then show ?thesis using rest [OF ok] Cons by simp
      next
        case tree
        show ?thesis
        proof (cases "en_Tree e")
          case (Inl err)
          then show ?thesis using tree ok Cons by (simp add: wrote_def fail_def)
        next
          case (Inr sub)
          have "wrote root f1 (files sub ?name) (writeTreeEntries ctx sub ?name root (f1, n1))"
            using less.hyps [of sub f1] ok size_en_Tree [OF Inr] Cons by simp
          from wrote_bindE [where m = "writeTreeEntries ctx sub ?name root"
              and k = "\<lambda>_. writeTreeEntries ctx es' base root", OF this rest]
            tree Inr Cons show ?thesis by simp
        qed
      next
        case leaf
        obtain r f2 n2 where w: "write_file root ?name (en_Mode e) (en_Blob e) (f1, n1) = (r, (f2, n2))"
          by (metis prod_cases3)
        from write_file_spec [OF ok w]
        have "wrote root f1 [(?name, en_Mode e, en_Blob e)] (write_file root ?name (en_Mode e) (en_Blob e) (f1, n1))"
          by (simp add: w wrote_def written_def)
        from wrote_bindE [where m = "write_file root ?name (en_Mode e) (en_Blob e)"
            and k = "\<lambda>_. writeTreeEntries ctx es' base root", OF this rest]
          leaf Cons show ?thesis by (simp add: Let_def)
      qed
    qed
    from wrote_bindE [where m = "ctx_Err ctx" and k = "\<lambda>_. ?k" and ys = "files es base", OF c this]
    show ?thesis
      using Cons by (simp add: Let_def)
  qed
qed

section \<open>Local clones\<close>

record git =
  gt_name :: string
  gt_workdir :: path
  gt_repoName :: string
  gt_counter :: nat

definition clone_dir :: "git \<Rightarrow> string \<Rightarrow> int \<Rightarrow> nat \<Rightarrow> path" where
  "clone_dir g sha nanos i =
     join_path (gt_workdir g) (gt_repoName g @ ''_'' @ sha @ ''_'' @ int_str nanos @ ''_'' @ nat_str i)"

text \<open>
  \<open>open_mirror\<close>, \<open>commit_object\<close> and \<open>commit_tree\<close> are the calls into the git library; the counter is
  a \<open>uint64\<close>.
\<close>

definition localClone ::
  "(nat \<Rightarrow> go_error option) \<Rightarrow> go_error option \<Rightarrow> (string \<Rightarrow> go_error + 'c) \<Rightarrow> ('c \<Rightarrow> go_error + git_entry list)
   \<Rightarrow> int \<Rightarrow> string \<Rightarrow> git \<times> state \<Rightarrow> path outcome \<times> (git \<times> state)" where
  "localClone ctx open_mirror commit_object commit_tree nanos sha = (\<lambda>(g, s).
     let i = (gt_counter g + 1) mod 2 ^ 64;
         g' = g\<lparr>gt_counter := i\<rparr>;
         repoDir = clone_dir g sha nanos i in
     case open_mirror of
       Some e \<Rightarrow> (Fail (Wrapf ''failed to open mirror repo'' e), (g', s))
     | None \<Rightarrow>
         (case commit_object sha of
            Inl e \<Rightarrow> (Fail (Wrapf (''failed to resolve commit '' @ sha) e), (g', s))
          | Inr commit \<Rightarrow>
              (case commit_tree commit of
                 Inl e \<Rightarrow> (Fail (Wrapf (''failed to get tree for '' @ sha) e), (g', s))
               | Inr tree \<Rightarrow>
                   (case writeTree ctx tree repoDir s of
                      (Ret _, s') \<Rightarrow> (Ret repoDir, (g', s'))
                    | (Fail e, s') \<Rightarrow> (Fail (Wrapf (''failed to write tree for '' @ sha) e),
                                       (g', (RemoveAll repoDir (fst s'), snd s')))
                    | (Panic p, s') \<Rightarrow> (Panic p, (g', s'))
                    | (OutOfFuel, s') \<Rightarrow> (OutOfFuel, (g', s'))))))"

lemma last_piece_unique:
  assumes "a @ c # x = b @ c # y" and "c \<notin> set x" and "c \<notin> set y"
  shows "x = y"
proof -
  have "takeWhile (\<lambda>z. z \<noteq> c) (rev (a @ c # x)) = rev x" if "c \<notin> set x" for a x
    using takeWhile_sep [of c "rev x" "rev a"] that by simp
  then show ?thesis using assms by (metis rev_rev_ident)
qed

lemma clone_name_inj:
  assumes "r @ ''_'' @ s @ ''_'' @ t @ ''_'' @ nat_str i = r' @ ''_'' @ s' @ ''_'' @ t' @ ''_'' @ nat_str j"
  shows "i = j"
proof -
  have no: "CHR ''_'' \<notin> set (nat_str n)" for n
    using nat_str_digits [of "CHR ''_''" n] by (auto simp: digit_def)
  have "(r @ ''_'' @ s @ ''_'' @ t) @ CHR ''_'' # nat_str i = (r' @ ''_'' @ s' @ ''_'' @ t') @ CHR ''_'' # nat_str j"
    using assms by simp
  from last_piece_unique [OF this no no] show ?thesis by simp
qed

text \<open>
  Claim C2. Writing a tree out of the mirror never touches anything outside the checkout directory
  and never changes anything that already existed, whatever names, links and duplicate entries the
  tree contains and wherever the operation fails. When it succeeds, every file and link of the tree
  is in place with its content and its mode.
\<close>

theorem writeTree_confined:
  assumes "root_ok root f" and "writeTree ctx tree root (f, n) = (r, (f', n'))"
  shows "(\<forall>p. node_at f' p \<noteq> node_at f p \<longrightarrow> node_at f p = None \<and> below root p)
    \<and> (r = Ret () \<longrightarrow> (\<forall>(name, mode, b) \<in> set (files tree []). \<exists>blob. b = Inr blob
         \<and> below root (join_path root name)
         \<and> node_at f' (join_path root name) = Some (if mode = Symlink then Link (bl_Content blob)
              else Regular (bl_Content blob) (mode = Executable))))"
  using writeTreeEntries_wrote [OF assms(1), of tree "[]" ctx n] assms(2)
  by (auto simp: wrote_def writeTree_def grows_def written_def expected_node_def)

definition sample_blob :: "string \<Rightarrow> blob" where
  "sample_blob s = \<lparr>bl_Reader = None, bl_Content = s, bl_Read = None\<rparr>"

definition evil_tree :: "git_entry list" where
  "evil_tree = [Entry ''link'' Symlink (Inr []) (Inr (sample_blob ''/etc'')),
     Entry ''link/passwd'' RegularMode (Inr []) (Inr (sample_blob ''x''))]"

definition sample_fs :: fs where
  "sample_fs = [([''w''], Directory), ([''etc''], Directory)]"

theorem writeTree_confined_witness:
  "{p. node_at (fst (snd (writeTree (\<lambda>_. None) evil_tree [''w'', ''c''] (sample_fs, 0)))) p \<noteq> node_at sample_fs p}
      \<subseteq> {p. node_at sample_fs p = None \<and> below [''w'', ''c''] p}"
proof -
  have "root_ok [''w'', ''c''] sample_fs"
    by (auto simp: root_ok_def proper_def real_dir_def sample_fs_def node_at_def le_Suc_eq)
  moreover obtain r f' n' where run: "writeTree (\<lambda>_. None) evil_tree [''w'', ''c''] (sample_fs, 0) = (r, (f', n'))"
    by (metis prod_cases3)
  ultimately show ?thesis unfolding run using writeTree_confined [OF _ run] by auto
qed

text \<open>
  Two local clones of one source never share a directory as long as the counter has not
  gone through all its values, whatever revisions and times they were made for.
\<close>

theorem localClone_directories_distinct:
  assumes "i \<noteq> j" and "proper (gt_workdir g)" and "CHR ''/'' \<notin> set (gt_repoName g)"
    and "CHR ''/'' \<notin> set sha" and "CHR ''/'' \<notin> set sha'"
  shows "clone_dir g sha nanos i \<noteq> clone_dir g sha' nanos' j"
proof
  let ?n = "gt_repoName g @ ''_'' @ sha @ ''_'' @ int_str nanos @ ''_'' @ nat_str i"
  let ?n' = "gt_repoName g @ ''_'' @ sha' @ ''_'' @ int_str nanos' @ ''_'' @ nat_str j"
  have num: "CHR ''/'' \<notin> set (nat_str m)" "CHR ''/'' \<notin> set (int_str k)" for m k
    using nat_str_digits [of "CHR ''/''"] by (auto simp: digit_def int_str_def)
  have one: "join_path (gt_workdir g) (a @ CHR ''_'' # b) = gt_workdir g @ [a @ CHR ''_'' # b]"
    if "CHR ''/'' \<notin> set a" "CHR ''/'' \<notin> set b" for a b
    using that by (auto simp: join_path_def split_on_no_sep append_eq_Cons_conv)
  assume "clone_dir g sha nanos i = clone_dir g sha' nanos' j"
  then have "?n = ?n'" using assms(3-5) num
    by (simp add: clone_dir_def one)
  with clone_name_inj assms(1) show False by blast
qed

theorem localClone_directories_distinct_witness:
  "clone_dir \<lparr>gt_name = ''m'', gt_workdir = [''w''], gt_repoName = ''repo'', gt_counter = 0\<rparr> ''abc'' 5 1
     \<noteq> clone_dir \<lparr>gt_name = ''m'', gt_workdir = [''w''], gt_repoName = ''repo'', gt_counter = 0\<rparr> ''abc'' 5 2"
  by (rule localClone_directories_distinct) (simp_all add: proper_def)

end
