(* ===== verification/Channel.thy ===== *)
theory Channel
  imports Cluster_List Git_Checkout
begin

text \<open>
  Package \<open>channel\<close>: the interface of a configuration, the configuration stored in a directory
  (\<open>simple_config.go\<close>, \<open>directory.go\<close>), the combination of several sources (\<open>combined.go\<close>) and the
  cache of resolved versions (\<open>caching_source.go\<close>). A configuration is the record of its operations,
  so a combined configuration is built from the records of its parts.
\<close>

section \<open>Interface\<close>

record manifest =
  mf_Path :: string
  mf_Contents :: string

record component =
  co_Name :: string
  co_Manifests :: "manifest list"

record 'w config =
  cf_StackManifest :: "string \<Rightarrow> ('w, manifest) io"
  cf_EtcdManifest :: "string \<Rightarrow> ('w, manifest) io"
  cf_CFManifests :: "('w, manifest list) io"
  cf_NodePoolManifest :: "string \<Rightarrow> string \<Rightarrow> ('w, manifest) io"
  cf_DefaultsManifests :: "('w, manifest list) io"
  cf_DeletionsManifests :: "('w, manifest list) io"
  cf_CFDeletionsManifests :: "('w, manifest list) io"
  cf_Components :: "('w, component list) io"
  cf_Delete :: "('w, unit) io"

section \<open>Directories\<close>

record simple_config =
  sc_pathPrefix :: string
  sc_baseDir :: path
  sc_allowDelete :: bool

definition configRoot :: string where "configRoot = ''cluster''"
definition poolConfigDir :: string where "poolConfigDir = ''node-pools''"
definition cfManifestsConfigDir :: string where "cfManifestsConfigDir = ''cf-manifests''"
definition etcdConfigDir :: string where "etcdConfigDir = ''etcd''"
definition defaultsFile :: string where "defaultsFile = ''config-defaults.yaml''"
definition manifestsDir :: string where "manifestsDir = ''manifests''"
definition deletionsFile :: string where "deletionsFile = ''deletions.yaml''"
definition cfDeletionsFile :: string where "cfDeletionsFile = ''cf-deletions.yaml''"

text \<open>\<open>baseDir\<close> is given with the absolute, cleaned directory.\<close>

definition NewSimpleConfig :: "string \<Rightarrow> path \<Rightarrow> bool \<Rightarrow> simple_config" where
  "NewSimpleConfig sourceName baseDir allowDelete =
     \<lparr>sc_pathPrefix = sourceName @ ''/'', sc_baseDir = baseDir, sc_allowDelete = allowDelete\<rparr>"

definition path_str :: "path \<Rightarrow> string" where
  "path_str p = join_with ''/'' p"

definition from_sum :: "go_error + 'a \<Rightarrow> ('w, 'a) io" where
  "from_sum r = (case r of Inl e \<Rightarrow> fail e | Inr x \<Rightarrow> ret x)"

text \<open>
  The reported path is relative; a name that climbs above the prefix of the source with \<open>..\<close> is
  cut off at the prefix here.
\<close>

definition readManifest :: "simple_config \<Rightarrow> string list \<Rightarrow> string \<Rightarrow> (fs, manifest) io" where
  "readManifest c dir name f =
     bindE (from_sum (ReadFile f (clean_onto (sc_baseDir c) (dir @ split_on (CHR ''/'') name)))) (\<lambda>res.
       ret \<lparr>mf_Path = path_str (clean_onto [] (split_on (CHR ''/'') (sc_pathPrefix c) @ dir @ split_on (CHR ''/'') name)),
            mf_Contents = res\<rparr>) f"

text \<open>A file that does not exist is no error but no manifest.\<close>

definition optional_manifest :: "(fs, manifest) io \<Rightarrow> (fs, manifest list) io" where
  "optional_manifest m = tryE m (\<lambda>e. if IsNotExist e then ret [] else fail e) (\<lambda>res. ret [res])"

definition optional_dir :: "(string \<times> node) list \<Rightarrow> go_error + (string \<times> node) list \<Rightarrow> go_error + (string \<times> node) list" where
  "optional_dir none r = (case r of Inl e \<Rightarrow> if IsNotExist e then Inr none else Inl e | Inr x \<Rightarrow> Inr x)"

definition yaml_name :: "string \<Rightarrow> bool" where
  "yaml_name n \<longleftrightarrow> has_suffix n ''.yaml'' \<or> has_suffix n ''.yml''"

fun read_all :: "simple_config \<Rightarrow> string list \<Rightarrow> string list \<Rightarrow> (fs, manifest list) io" where
  "read_all c dir [] = ret []"
| "read_all c dir (n # ns) =
     bindE (readManifest c dir n) (\<lambda>m. bindE (read_all c dir ns) (\<lambda>ms. ret (m # ms)))"

definition CFManifests :: "simple_config \<Rightarrow> (fs, manifest list) io" where
  "CFManifests c f =
     bindE (from_sum (optional_dir [] (ReadDir f (sc_baseDir c @ [configRoot, cfManifestsConfigDir])))) (\<lambda>files.
       read_all c [configRoot, cfManifestsConfigDir]
         (map fst (filter (\<lambda>(n, node). node \<noteq> Directory \<and> yaml_name n \<and> n \<noteq> cfDeletionsFile) files))) f"

fun components_loop :: "simple_config \<Rightarrow> (string \<times> node) list \<Rightarrow> (fs, component list) io" where
  "components_loop c [] f = ret [] f"
| "components_loop c ((n, node) # es) f =
     (if node \<noteq> Directory then components_loop c es f
      else bindE (from_sum (ReadDir f (sc_baseDir c @ [configRoot, manifestsDir, n]))) (\<lambda>files.
           bindE (read_all c [configRoot, manifestsDir, n] (filter yaml_name (map fst files))) (\<lambda>ms.
           bindE (components_loop c es) (\<lambda>rest.
           ret (\<lparr>co_Name = n, co_Manifests = ms\<rparr> # rest)))) f)"

definition Components :: "simple_config \<Rightarrow> (fs, component list) io" where
  "Components c f =
     bindE (from_sum (optional_dir [] (ReadDir f (sc_baseDir c @ [configRoot, manifestsDir]))))
       (components_loop c) f"

definition simple_Delete :: "simple_config \<Rightarrow> (fs, unit) io" where
  "simple_Delete c f = (if \<not> sc_allowDelete c then (Ret (), f) else (Ret (), RemoveAll (sc_baseDir c) f))"

definition simple :: "simple_config \<Rightarrow> fs config" where
  "simple c = \<lparr>cf_StackManifest = readManifest c [configRoot],
     cf_EtcdManifest = readManifest c [configRoot, etcdConfigDir],
     cf_CFManifests = CFManifests c,
     cf_NodePoolManifest = (\<lambda>profile. readManifest c ([configRoot, poolConfigDir] @ split_on (CHR ''/'') profile)),
     cf_DefaultsManifests = optional_manifest (readManifest c [configRoot] defaultsFile),
     cf_DeletionsManifests = optional_manifest (readManifest c [configRoot, manifestsDir] deletionsFile),
     cf_CFDeletionsManifests = optional_manifest (readManifest c [configRoot, cfManifestsConfigDir] cfDeletionsFile),
     cf_Components = Components c,
     cf_Delete = simple_Delete c\<rparr>"

section \<open>Combined sources\<close>

fun NewCombinedSource_loop :: "string list \<Rightarrow> string list \<Rightarrow> go_error option" where
  "NewCombinedSource_loop [] names = None"
| "NewCombinedSource_loop (n # ns) names =
     (if n \<in> set names then Some (Errorf (''duplicate config source name: '' @ n))
      else NewCombinedSource_loop ns (n # names))"

definition NewCombinedSource :: "('w, 'v) config_source list \<Rightarrow> go_error + ('w, 'v) config_source list" where
  "NewCombinedSource sources =
     (case NewCombinedSource_loop (map cs_Name sources) [] of Some e \<Rightarrow> Inl e | None \<Rightarrow> Inr sources)"

fun combined_Update :: "('w, 'v) config_source list \<Rightarrow> ('w, unit) io" where
  "combined_Update [] = ret ()"
| "combined_Update (s # ss) =
     tryE (cs_Update s)
       (\<lambda>e. fail (Errorf (''error while updating source '' @ cs_Name s @ '': '' @ error_text e)))
       (\<lambda>_. combined_Update ss)"

fun combined_Version :: "('w, 'v) config_source list \<Rightarrow> string \<Rightarrow> string gomap \<Rightarrow> ('w, (string \<times> 'v) list) io" where
  "combined_Version [] channel overrides = ret []"
| "combined_Version (s # ss) channel overrides =
     tryE (cs_Version s (case m_get overrides (cs_Name s) of None \<Rightarrow> channel | Some ch \<Rightarrow> ch) [])
       (\<lambda>e. fail (Errorf (''unable to determine version for source '' @ cs_Name s @ '': '' @ error_text e)))
       (\<lambda>v. bindE (combined_Version ss channel overrides) (\<lambda>vs. ret ((cs_Name s, v) # vs)))"

definition combined_source :: "('w, 'v) config_source list \<Rightarrow> ('w, (string \<times> 'v) list) config_source" where
  "combined_source sources = \<lparr>cs_Name = ''<combined>'', cs_Update = combined_Update sources,
     cs_Version = combined_Version sources\<rparr>"

definition combined_ID :: "('v \<Rightarrow> string) \<Rightarrow> (string \<times> 'v) list \<Rightarrow> string" where
  "combined_ID vid vs = join_with '';'' (map (\<lambda>(n, v). n @ ''='' @ vid v) vs)"

text \<open>Deleting the configurations obtained so far; failures are only logged.\<close>

definition delete_logged :: "('c \<Rightarrow> ('w, unit) io) \<Rightarrow> (string \<times> 'c) list \<Rightarrow> ('w, unit) io" where
  "delete_logged del cs = each (\<lambda>(n, c). tryE (del c) (\<lambda>_. ret ()) (\<lambda>_. ret ())) cs"

fun combined_Get_loop ::
  "('v \<Rightarrow> string) \<Rightarrow> ('v \<Rightarrow> ('w, 'c) io) \<Rightarrow> ('c \<Rightarrow> ('w, unit) io) \<Rightarrow> (string \<times> 'v) list \<Rightarrow> (string \<times> 'c) list
   \<Rightarrow> ('w, (string \<times> 'c) list) io" where
  "combined_Get_loop vid get del [] configs = ret configs"
| "combined_Get_loop vid get del ((n, v) # vs) configs =
     tryE (get v)
       (\<lambda>e. bindE (delete_logged del configs) (\<lambda>_.
          fail (Errorf (''unable to checkout version '' @ vid v @ '' for source '' @ n @ '': '' @ error_text e))))
       (\<lambda>c. combined_Get_loop vid get del vs (configs @ [(n, c)]))"

definition combined_Get where
  "combined_Get vid get del vs = combined_Get_loop vid get del vs []"

definition main_config :: "(string \<times> 'w config) list \<Rightarrow> go_error + 'w config" where
  "main_config cs = (case cs of [] \<Rightarrow> Inl (Errorf ''no configs found'') | (n, c) # _ \<Rightarrow> Inr c)"

definition from_main :: "('w config \<Rightarrow> ('w, 'a) io) \<Rightarrow> (string \<times> 'w config) list \<Rightarrow> ('w, 'a) io" where
  "from_main op cs = (case main_config cs of Inl e \<Rightarrow> fail e | Inr c \<Rightarrow> op c)"

fun gather :: "string \<Rightarrow> (string \<Rightarrow> 'w config \<Rightarrow> ('w, 'a list) io) \<Rightarrow> (string \<times> 'w config) list \<Rightarrow> ('w, 'a list) io" where
  "gather what op [] = ret []"
| "gather what op ((n, c) # cs) =
     tryE (op n c)
       (\<lambda>e. fail (Errorf (''unable to get '' @ what @ '' for source '' @ n @ '': '' @ error_text e)))
       (\<lambda>xs. bindE (gather what op cs) (\<lambda>ys. ret (xs @ ys)))"

text \<open>All configurations are deleted; the last failure is returned.\<close>

fun combined_Delete_loop :: "(string \<times> 'w config) list \<Rightarrow> go_error option \<Rightarrow> ('w, unit) io" where
  "combined_Delete_loop [] res = (case res of None \<Rightarrow> ret () | Some e \<Rightarrow> fail e)"
| "combined_Delete_loop ((n, c) # cs) res =
     tryE (cf_Delete c) (\<lambda>e. combined_Delete_loop cs (Some e)) (\<lambda>_. combined_Delete_loop cs res)"

definition combined :: "(string \<times> 'w config) list \<Rightarrow> 'w config" where
  "combined cs = \<lparr>cf_StackManifest = (\<lambda>m. from_main (\<lambda>c. cf_StackManifest c m) cs),
     cf_EtcdManifest = (\<lambda>m. from_main (\<lambda>c. cf_EtcdManifest c m) cs),
     cf_CFManifests = gather ''CF manifests'' (\<lambda>n. cf_CFManifests) cs,
     cf_NodePoolManifest = (\<lambda>p m. from_main (\<lambda>c. cf_NodePoolManifest c p m) cs),
     cf_DefaultsManifests = gather ''defaults'' (\<lambda>n. cf_DefaultsManifests) cs,
     cf_DeletionsManifests = gather ''deletions'' (\<lambda>n. cf_DeletionsManifests) cs,
     cf_CFDeletionsManifests = gather ''CF deletions'' (\<lambda>n. cf_CFDeletionsManifests) cs,
     cf_Components = gather ''components'' (\<lambda>n c. bindE (cf_Components c) (\<lambda>xs.
        ret (map (\<lambda>x. x\<lparr>co_Name := n @ ''/'' @ co_Name x\<rparr>) xs))) cs,
     cf_Delete = combined_Delete_loop cs None\<rparr>"

section \<open>Caching source\<close>

definition cache_key :: "string \<Rightarrow> string gomap \<Rightarrow> string" where
  "cache_key channel overrides =
     channel @ [CHR 0x00] @ concat (map (\<lambda>(k, v). k @ [CHR 0x00] @ v @ [CHR 0x00]) overrides)"

definition on_target :: "('w, 'a) io \<Rightarrow> ('v gomap \<times> 'w, 'a) io" where
  "on_target m s = (let (r, w') = m (snd s) in (r, (fst s, w')))"

definition caching_Update :: "('w, 'v) config_source \<Rightarrow> ('v gomap \<times> 'w, unit) io" where
  "caching_Update target s = on_target (cs_Update target) ([], snd s)"

definition caching_Version ::
  "('w, 'v) config_source \<Rightarrow> string \<Rightarrow> string gomap \<Rightarrow> ('v gomap \<times> 'w, 'v) io" where
  "caching_Version target channel overrides s =
     (case m_get (fst s) (cache_key channel overrides) of
        Some cached \<Rightarrow> (Ret cached, s)
      | None \<Rightarrow> bindE (on_target (cs_Version target channel overrides))
          (\<lambda>res s'. (Ret res, (m_put (cache_key channel overrides) res (fst s'), snd s'))) s)"

definition caching_source :: "('w, 'v) config_source \<Rightarrow> ('v gomap \<times> 'w, 'v) config_source" where
  "caching_source target = \<lparr>cs_Name = cs_Name target, cs_Update = caching_Update target,
     cs_Version = caching_Version target\<rparr>"

section \<open>Properties of combined sources\<close>

lemma combined_Version_names:
  "combined_Version ss ch ov w = (Ret vs, w') \<Longrightarrow> map fst vs = map cs_Name ss"
  by (induction ss arbitrary: vs w) (auto elim!: tryE_cases simp: fail_def)

lemma pair_string_inj:
  "length n = length n' \<Longrightarrow> n @ ''='' @ i = n' @ ''='' @ i' \<longleftrightarrow> n = n' \<and> i = i'"
  by simp

text \<open>
  The identifier of a combined version identifies its parts: two versions of the same
  combined source with the same identifier have the same identifier in every source, if neither the
  names nor the identifiers contain the separator. The controller compares versions by this
  identifier only.
\<close>

theorem combined_ID_identifies:
  assumes "combined_Version ss ch ov w = (Ret vs, w1)" and "combined_Version ss ch' ov' w' = (Ret vs', w1')"
    and "\<And>n v. (n, v) \<in> set (vs @ vs') \<Longrightarrow> CHR '';'' \<notin> set n \<and> CHR '';'' \<notin> set (vid v)"
    and "combined_ID vid vs = combined_ID vid vs'"
  shows "map (\<lambda>(n, v). (n, vid v)) vs = map (\<lambda>(n, v). (n, vid v)) vs'"
proof -
  let ?p = "map (\<lambda>(n, v). n @ ''='' @ vid v)"
  have names: "map fst vs = map fst vs'" using combined_Version_names assms(1,2) by metis
  have no: "CHR '';'' \<notin> set p" if "p \<in> set (?p vs) \<or> p \<in> set (?p vs')" for p
    using that assms(3) by fastforce
  have "?p vs = ?p vs'"
  proof (cases "vs = []")
    case True
    then show ?thesis using names by simp
  next
    case False
    then have "vs' \<noteq> []" using names by auto
    then have "split_on (CHR '';'') (combined_ID vid vs') = ?p vs'"
      unfolding combined_ID_def using no by (intro split_join) auto
    moreover have "split_on (CHR '';'') (combined_ID vid vs) = ?p vs"
      unfolding combined_ID_def using False no by (intro split_join) auto
    ultimately show ?thesis using assms(4) by simp
  qed
  then show ?thesis using names
  proof (induction vs arbitrary: vs')
    case Nil
    then show ?case by simp
  next
    case (Cons x vs)
    then obtain y ys where "vs' = y # ys" by (cases vs') auto
    with Cons show ?case by (auto simp: split_beta)
  qed
qed

definition two_sources :: "(unit, string) config_source list" where
  "two_sources = [\<lparr>cs_Name = ''a'', cs_Update = ret (), cs_Version = (\<lambda>ch ov. ret ch)\<rparr>,
     \<lparr>cs_Name = ''b'', cs_Update = ret (), cs_Version = (\<lambda>ch ov. ret ch)\<rparr>]"

theorem combined_ID_identifies_witness:
  "map (\<lambda>(n, v). (n, id v)) [(''a'', ''x''), (''b'', ''dev'')] = [(''a'', ''x''), (''b'', ''dev'')]"
proof -
  have run: "combined_Version two_sources ''dev'' [(''a'', ''x'')] () = (Ret [(''a'', ''x''), (''b'', ''dev'')], ())"
    by (simp add: two_sources_def tryE_def bindE_def ret_def)
  have "map (\<lambda>(n, v). (n, id v)) [(''a'', ''x''), (''b'', ''dev'')]
      = map (\<lambda>(n, v). (n, id v)) [(''a'', ''x''), (''b'', ''dev'')]"
    by (rule combined_ID_identifies [OF run run]) auto
  then show ?thesis by simp
qed

text \<open>
  What a checkout does to the set of checkouts on disk, as \<open>Get\<close> and \<open>Delete\<close> of the sources
  promise: \<open>Get\<close> adds one that was not there, or nothing when it fails, and \<open>Delete\<close> removes it.
\<close>

definition leases :: "('w \<Rightarrow> 'c set) \<Rightarrow> ('v \<Rightarrow> ('w, 'c) io) \<Rightarrow> ('c \<Rightarrow> ('w, unit) io) \<Rightarrow> bool" where
  "leases live get del \<longleftrightarrow>
     (\<forall>v w r w'. get v w = (r, w') \<longrightarrow>
        (case r of Ret c \<Rightarrow> c \<notin> live w \<and> live w' = insert c (live w)
         | Fail e \<Rightarrow> live w' = live w | _ \<Rightarrow> False))
   \<and> (\<forall>c w. \<exists>w'. del c w = (Ret (), w') \<and> live w' = live w - {c})"

lemma leases_getD: "leases live get del \<Longrightarrow> get v w = (r, w') \<Longrightarrow>
    (\<exists>c. r = Ret c \<and> c \<notin> live w \<and> live w' = insert c (live w)) \<or> (\<exists>e. r = Fail e \<and> live w' = live w)"
  unfolding leases_def by (cases r) fastforce+

lemma delete_logged_live:
  assumes "leases live get del"
  shows "\<exists>w'. delete_logged del cs w = (Ret (), w') \<and> live w' = live w - snd ` set cs"
proof (induction cs arbitrary: w)
  case Nil
  then show ?case by (simp add: delete_logged_def)
next
  case (Cons c cs)
  obtain w1 where w1: "del (snd c) w = (Ret (), w1)" "live w1 = live w - {snd c}"
    using assms unfolding leases_def by blast
  from Cons.IH [of w1] obtain w2 where w2: "delete_logged del cs w1 = (Ret (), w2)"
      "live w2 = live w1 - snd ` set cs" by blast
  have "delete_logged del (c # cs) w = (Ret (), w2)"
    using w1(1) w2(1) by (simp add: delete_logged_def bindE_def tryE_def ret_def split_beta)
  moreover have "live w2 = live w - snd ` set (c # cs)" using w1(2) w2(2) by auto
  ultimately show ?case by blast
qed

lemma combined_Get_loop_live:
  assumes "leases live get del"
  shows "combined_Get_loop vid get del vs cs w = (r, w') \<Longrightarrow> snd ` set cs \<subseteq> live w \<Longrightarrow>
    (\<exists>cs'. r = Ret (cs @ cs') \<and> map fst cs' = map fst vs \<and> distinct (map snd cs')
        \<and> live w' = live w \<union> snd ` set cs' \<and> live w \<inter> snd ` set cs' = {})
    \<or> (\<exists>e. r = Fail e \<and> live w' = live w - snd ` set cs)"
proof (induction vs arbitrary: cs w)
  case Nil
  then show ?case by (simp add: ret_def)
next
  case (Cons nv vs)
  obtain n v where nv: "nv = (n, v)" by (cases nv)
  obtain r1 w1 where g: "get v w = (r1, w1)" by (cases "get v w")
  from leases_getD [OF assms g] show ?case
  proof (elim disjE exE conjE)
    fix e assume r1: "r1 = Fail e" "live w1 = live w"
    obtain w2 where "delete_logged del cs w1 = (Ret (), w2)" "live w2 = live w1 - snd ` set cs"
      using delete_logged_live [OF assms] by blast
    then show ?thesis using Cons.prems(1) r1 g by (auto simp: nv tryE_def bindE_def fail_def)
  next
    fix c assume r1: "r1 = Ret c" "c \<notin> live w" "live w1 = insert c (live w)"
    have run: "combined_Get_loop vid get del vs (cs @ [(n, c)]) w1 = (r, w')"
      using Cons.prems(1) r1 g by (simp add: nv tryE_def)
    have "snd ` set (cs @ [(n, c)]) \<subseteq> live w1" using Cons.prems(2) r1(3) by auto
    from Cons.IH [OF run this] show ?thesis
    proof (elim disjE exE conjE)
      fix cs' assume "r = Ret ((cs @ [(n, c)]) @ cs')" "map fst cs' = map fst vs" "distinct (map snd cs')"
        "live w' = live w1 \<union> snd ` set cs'" "live w1 \<inter> snd ` set cs' = {}"
      then show ?thesis using r1 by (intro disjI1 exI [of _ "(n, c) # cs'"]) (auto simp: nv)
    next
      fix e assume "r = Fail e" "live w' = live w1 - snd ` set (cs @ [(n, c)])"
      then show ?thesis using r1 by auto
    qed
  qed
qed

text \<open>
  Claim C31. Checking out a combined version leaks nothing: it either yields one new checkout for each
  source, or it fails and every checkout made on the way has been deleted again.
\<close>

theorem combined_Get_no_leak:
  assumes "leases live get del"
  shows "case combined_Get vid get del vs w of
      (Ret cs, w') \<Rightarrow> map fst cs = map fst vs \<and> distinct (map snd cs) \<and> live w \<inter> snd ` set cs = {}
         \<and> live w' = live w \<union> snd ` set cs
    | (Fail e, w') \<Rightarrow> live w' = live w
    | _ \<Rightarrow> False"
proof (cases "combined_Get vid get del vs w")
  case (Pair r w')
  then have "combined_Get_loop vid get del vs [] w = (r, w')" by (simp add: combined_Get_def)
  from combined_Get_loop_live [OF assms this] show ?thesis by (auto simp: Pair)
qed

text \<open>A store of checkouts numbered in the order they are made; a version is whether its \<open>Get\<close> works.\<close>

definition numbered_get :: "bool \<Rightarrow> (nat \<times> nat list, nat) io" where
  "numbered_get v s = (if v then (Ret (fst s), (Suc (fst s), fst s # snd s)) else (Fail Canceled, s))"

definition numbered_del :: "nat \<Rightarrow> (nat \<times> nat list, unit) io" where
  "numbered_del c s = (Ret (), (fst s, filter (\<lambda>x. x \<noteq> c) (snd s)))"

definition numbered_live :: "nat \<times> nat list \<Rightarrow> nat set" where
  "numbered_live s = {x \<in> set (snd s). x < fst s}"

theorem combined_Get_no_leak_witness:
  "numbered_live (snd (combined_Get (\<lambda>_. []) numbered_get numbered_del [(''a'', True), (''b'', False)] (0, [])))
     = numbered_live (0, [])"
proof -
  have "leases numbered_live numbered_get numbered_del"
    by (auto simp: leases_def numbered_live_def numbered_get_def numbered_del_def split: if_splits)
  from combined_Get_no_leak [OF this, where vid = "\<lambda>_. []" and vs = "[(''a'', True), (''b'', False)]"
      and w = "(0, [])"]
  show ?thesis
    by (simp add: combined_Get_def tryE_def delete_logged_def bindE_def ret_def fail_def numbered_get_def numbered_del_def)
qed

section \<open>Properties of the cache\<close>

lemma pieces_inj:
  assumes "\<And>x. x \<in> set xs \<union> set ys \<Longrightarrow> c \<notin> set x"
    and "concat (map (\<lambda>x. x @ [c]) xs) = concat (map (\<lambda>x. x @ [c]) ys)"
  shows "xs = ys"
  using assms
proof (induction xs arbitrary: ys)
  case Nil
  then show ?case by (cases ys) auto
next
  case (Cons x xs)
  then obtain y ys' where ys: "ys = y # ys'" by (cases ys) auto
  have eq: "x @ c # concat (map (\<lambda>x. x @ [c]) xs) = y @ c # concat (map (\<lambda>x. x @ [c]) ys')"
    using Cons.prems(2) ys by simp
  have cx: "c \<notin> set x" "c \<notin> set y" using Cons.prems(1) ys by auto
  have "x = y" using arg_cong [OF eq, of "takeWhile (\<lambda>z. z \<noteq> c)"] cx by simp
  moreover have "xs = ys'" using Cons.IH [of ys'] Cons.prems(1) ys eq \<open>x = y\<close> by auto
  ultimately show ?case by (simp add: ys)
qed

definition no_nul :: "string \<Rightarrow> string gomap \<Rightarrow> bool" where
  "no_nul ch ov \<longleftrightarrow> CHR 0x00 \<notin> set ch \<and> (\<forall>(k, v) \<in> set ov. CHR 0x00 \<notin> set k \<and> CHR 0x00 \<notin> set v)"

lemma cache_key_inj:
  assumes "no_nul ch ov" and "no_nul ch' ov'" and "cache_key ch ov = cache_key ch' ov'"
  shows "ch = ch' \<and> ov = ov'"
proof -
  let ?flat = "\<lambda>ov :: string gomap. concat (map (\<lambda>(k, v). [k, v]) ov)"
  have key: "cache_key ch ov = concat (map (\<lambda>x. x @ [CHR 0x00]) (ch # ?flat ov))" for ch ov
    by (induction ov) (auto simp: cache_key_def)
  have "ch # ?flat ov = ch' # ?flat ov'"
    by (rule pieces_inj [of _ _ "CHR 0x00"]) (use assms key in \<open>auto simp: no_nul_def\<close>)
  moreover have "ov = ov'" if "?flat ov = ?flat ov'" using that
  proof (induction ov arbitrary: ov')
    case Nil
    then show ?case by (cases ov') auto
  next
    case (Cons p ov)
    then show ?case by (cases ov'; cases p) auto
  qed
  ultimately show ?thesis by simp
qed

text \<open>
  The calls a source gets, updates and requests for versions in any order, and what they return. A
  source is \<open>reading\<close> if asking it for a version changes nothing: only updates, and whatever they
  fetch, change its answers.
\<close>

datatype source_call = CallUpdate | CallVersion string "string gomap"

fun calls :: "('s, 'v) config_source \<Rightarrow> source_call list \<Rightarrow> 's \<Rightarrow> (unit outcome + 'v outcome) list \<times> 's" where
  "calls src [] s = ([], s)"
| "calls src (CallUpdate # cs) s =
     (let (r, s') = cs_Update src s; (rs, s'') = calls src cs s' in (Inl r # rs, s''))"
| "calls src (CallVersion ch ov # cs) s =
     (let (r, s') = cs_Version src ch ov s; (rs, s'') = calls src cs s' in (Inr r # rs, s''))"

definition reading :: "('w, 'v) config_source \<Rightarrow> bool" where
  "reading src \<longleftrightarrow> (\<forall>ch ov w. snd (cs_Version src ch ov w) = w)"

lemma combined_reading: "(\<And>s. s \<in> set ss \<Longrightarrow> reading s) \<Longrightarrow> reading (combined_source ss)"
proof -
  assume "\<And>s. s \<in> set ss \<Longrightarrow> reading s"
  then have "snd (combined_Version ss ch ov w) = w" for ch ov w
  proof (induction ss)
    case (Cons s ss)
    obtain r where r: "cs_Version s (case m_get ov (cs_Name s) of None \<Rightarrow> ch | Some c \<Rightarrow> c) [] w = (r, w)"
      using Cons.prems [of s] unfolding reading_def by (metis list.set_intros(1) prod.collapse)
    obtain rs where "combined_Version ss ch ov w = (rs, w)"
      using Cons.IH Cons.prems by (metis list.set_intros(2) prod.collapse)
    with r show ?case by (cases r; cases rs) (simp_all add: tryE_def bindE_def ret_def fail_def)
  qed (simp add: ret_def)
  then show "reading (combined_source ss)" by (simp add: reading_def combined_source_def)
qed

text \<open>The entries of the cache are what the source would answer now.\<close>

definition cache_valid :: "('w, 'v) config_source \<Rightarrow> 'v gomap \<Rightarrow> 'w \<Rightarrow> bool" where
  "cache_valid target cache w \<longleftrightarrow> (\<forall>k v. m_get cache k = Some v \<longrightarrow>
     (\<exists>ch ov. no_nul ch ov \<and> k = cache_key ch ov \<and> cs_Version target ch ov w = (Ret v, w)))"

lemma caching_Version_valid:
  assumes "reading target" and "cache_valid target cache w" and "no_nul ch ov"
  shows "\<exists>r cache'. cs_Version (caching_source target) ch ov (cache, w) = (r, (cache', w))
     \<and> cs_Version target ch ov w = (r, w) \<and> cache_valid target cache' w"
proof (cases "m_get cache (cache_key ch ov)")
  case (Some v)
  with assms(2) obtain ch' ov' where "no_nul ch' ov'" "cache_key ch ov = cache_key ch' ov'"
      "cs_Version target ch' ov' w = (Ret v, w)" unfolding cache_valid_def by blast
  with cache_key_inj [OF assms(3)] have "cs_Version target ch ov w = (Ret v, w)" by blast
  then show ?thesis using Some assms(2) by (simp add: caching_source_def caching_Version_def)
next
  case None
  obtain r where r: "cs_Version target ch ov w = (r, w)"
    using assms(1) unfolding reading_def by (metis prod.collapse)
  show ?thesis
  proof (cases r)
    case (Ret v)
    have "cache_valid target (m_put (cache_key ch ov) v cache) w"
      using assms(2,3) r Ret by (auto simp: cache_valid_def split: if_splits)
    with None r Ret show ?thesis
      by (simp add: caching_source_def caching_Version_def bindE_def on_target_def)
  qed (use None r assms(2) in \<open>simp_all add: caching_source_def caching_Version_def bindE_def on_target_def\<close>)
qed

lemma caching_calls:
  assumes "reading target"
  shows "cache_valid target cache w \<Longrightarrow> (\<And>ch ov. CallVersion ch ov \<in> set cs \<Longrightarrow> no_nul ch ov) \<Longrightarrow>
    \<exists>cache'. calls (caching_source target) cs (cache, w)
      = (fst (calls target cs w), (cache', snd (calls target cs w)))"
proof (induction cs arbitrary: cache w)
  case Nil
  then show ?case by simp
next
  case (Cons c cs)
  show ?case
  proof (cases c)
    case CallUpdate
    obtain r w' where u: "cs_Update target w = (r, w')" by (cases "cs_Update target w")
    have "cache_valid target [] w'" by (simp add: cache_valid_def)
    with Cons.IH [of "[]" w'] Cons.prems(2) obtain cache' where
      "calls (caching_source target) cs ([], w') = (fst (calls target cs w'), (cache', snd (calls target cs w')))" by auto
    then show ?thesis
      by (simp add: CallUpdate u caching_source_def caching_Update_def on_target_def split_beta)
  next
    case (CallVersion ch ov)
    with Cons.prems have "no_nul ch ov" by simp
    from caching_Version_valid [OF assms Cons.prems(1) this] obtain r cache1 where
        v: "cs_Version (caching_source target) ch ov (cache, w) = (r, (cache1, w))" "cs_Version target ch ov w = (r, w)"
      and valid: "cache_valid target cache1 w" by blast
    from Cons.IH [OF valid] Cons.prems(2) obtain cache' where
      "calls (caching_source target) cs (cache1, w) = (fst (calls target cs w), (cache', snd (calls target cs w)))" by auto
    with v show ?thesis by (simp add: CallVersion split_beta)
  qed
qed


text \<open>A source whose versions are the number of updates, for the channel \<open>dev\<close> only.\<close>

definition counting_source :: "(nat, nat) config_source" where
  "counting_source = \<lparr>cs_Name = ''n'', cs_Update = (\<lambda>n. (Ret (), Suc n)),
     cs_Version = (\<lambda>ch ov n. (if ch = ''dev'' then Ret n else Fail (Errorf ''unknown channel''), n))\<rparr>"


end
