(* ===== verification/Git_Source.thy ===== *)
theory Git_Source
  imports Channel
begin

text \<open>
  The sources of configurations: a git repository with its mirror (\<open>channel/git.go\<close>, up to \<open>Version\<close>,
  and the SSH helpers at its end) and a directory (\<open>channel/directory.go\<close>). The git library, the parser
  of its endpoints and the reader of SSH configurations are fields of a record; what they do to their
  own state \<open>'x\<close> is theirs, the file system is the one of the model.
\<close>

section \<open>Names of repositories\<close>

text \<open>
  The expression \<open>/?([\w-]+)(.git)?$\<close>, searched from the left: the longest word that is followed by the
  end of the text, or by one character and \<open>git\<close> at the end. The dot of the expression is not quoted.
\<close>

definition word_char :: "char \<Rightarrow> bool" where
  "word_char c \<longleftrightarrow> digit c \<or> (CHR ''a'' \<le> c \<and> c \<le> CHR ''z'') \<or> (CHR ''A'' \<le> c \<and> c \<le> CHR ''Z'') \<or> c = CHR ''_'' \<or> c = CHR ''-''"

definition git_suffix :: "string \<Rightarrow> bool" where
  "git_suffix s \<longleftrightarrow> (case s of [] \<Rightarrow> True | c # t \<Rightarrow> c \<noteq> CHR 0x0A \<and> t = ''git'')"

fun longest_word :: "nat \<Rightarrow> string \<Rightarrow> string option" where
  "longest_word 0 s = None"
| "longest_word (Suc n) s = (if git_suffix (drop (Suc n) s) then Some (take (Suc n) s) else longest_word n s)"

definition match_here :: "string \<Rightarrow> string option" where
  "match_here s = (let t = trim_prefix s ''/'' in longest_word (length (takeWhile word_char t)) t)"

fun find_match :: "string \<Rightarrow> string option" where
  "find_match [] = match_here []"
| "find_match (c # s) = (case match_here (c # s) of Some m \<Rightarrow> Some m | None \<Rightarrow> find_match s)"

definition getRepoName :: "string \<Rightarrow> go_error + string" where
  "getRepoName repoURI =
     (case find_match repoURI of
        None \<Rightarrow> Inl (Errorf (''could not parse repository name from uri: '' @ repoURI))
      | Some name \<Rightarrow> Inr name)"

section \<open>The git library\<close>

record endpoint =
  ep_Protocol :: string
  ep_User :: string
  ep_Host :: string

type_synonym ssh_config = "string \<Rightarrow> string \<Rightarrow> go_error + string"
type_synonym 'x disk = "fs \<times> 'x"

record ('x, 'a, 'p) git_lib =
  gl_Endpoint :: "string \<Rightarrow> go_error + endpoint"
  gl_Abs :: "string \<Rightarrow> go_error + path"
  gl_UserHomeDir :: "go_error + path"
  gl_DecodeSSH :: "string \<Rightarrow> go_error + ssh_config"
  gl_PublicKeys :: "string \<Rightarrow> string \<Rightarrow> ('x disk, 'a) io"
  gl_PlainClone :: "path \<Rightarrow> string \<Rightarrow> 'a option \<Rightarrow> ('x disk, unit) io"
  gl_PlainOpen :: "path \<Rightarrow> ('x disk, 'p) io"
  gl_Fetch :: "'p \<Rightarrow> 'a option \<Rightarrow> ('x disk, unit) io"
  gl_Remote :: "'p \<Rightarrow> string \<Rightarrow> ('x disk, unit) io"
  gl_List :: "'p \<Rightarrow> 'a option \<Rightarrow> ('x disk, (string \<times> string option) list) io"
  gl_SetHEAD :: "'p \<Rightarrow> string \<Rightarrow> ('x disk, unit) io"
  gl_ResolveRevision :: "'p \<Rightarrow> string \<Rightarrow> ('x disk, string) io"

definition NoErrAlreadyUpToDate :: go_error where
  "NoErrAlreadyUpToDate = Sentinel ''already up-to-date''"

definition HEAD :: string where "HEAD = ''HEAD''"

definition on_fs :: "(fs \<Rightarrow> go_error + 'b) \<Rightarrow> ('x disk, 'b) io" where
  "on_fs r s = (case r (fst s) of Inl e \<Rightarrow> (Fail e, s) | Inr y \<Rightarrow> (Ret y, s))"

text \<open>\<open>os.Stat\<close>, which follows links.\<close>

definition Stat :: "path \<Rightarrow> fs \<Rightarrow> go_error + node" where
  "Stat p f = (case final maxSymlinks f [] p of
     Inl e \<Rightarrow> Inl e
   | Inr q \<Rightarrow> (case node_at f q of None \<Rightarrow> Inl ErrNotExist | Some n \<Rightarrow> Inr n))"

text \<open>
  The loader of repositories on disk: where the storage of the repository at a path is rooted. The
  directory \<open>.git\<close> comes first.
\<close>

definition ErrRepositoryNotFound :: go_error where
  "ErrRepositoryNotFound = Sentinel ''repository not found''"

definition loader_Load :: "path \<Rightarrow> fs \<Rightarrow> go_error + path" where
  "loader_Load p f =
     (case Stat (p @ [''.git'', ''config'']) f of
        Inr _ \<Rightarrow> Inr (p @ [''.git''])
      | Inl _ \<Rightarrow>
          (case Stat (p @ [''config'']) f of
             Inr _ \<Rightarrow> Inr p
           | Inl _ \<Rightarrow> Inl ErrRepositoryNotFound))"

section \<open>A git source\<close>

record git_source = git +
  gs_repositoryURL :: string
  gs_repoDir :: path
  gs_sshPrivateKeyFile :: string
  gs_sshConfig :: "ssh_config option"

definition isSSHURL :: "('x, 'a, 'p) git_lib \<Rightarrow> string \<Rightarrow> bool" where
  "isSSHURL lib rawURL \<longleftrightarrow> (case gl_Endpoint lib rawURL of Inl _ \<Rightarrow> False | Inr ep \<Rightarrow> ep_Protocol ep = ''ssh'')"

definition sshUsername :: "('x, 'a, 'p) git_lib \<Rightarrow> string \<Rightarrow> string" where
  "sshUsername lib rawURL =
     (case gl_Endpoint lib rawURL of
        Inr ep \<Rightarrow> if ep_User ep \<noteq> [] then ep_User ep else ''git''
      | Inl _ \<Rightarrow> ''git'')"

text \<open>The configuration of SSH, when the file is there.\<close>

definition loadSSHConfig :: "('x, 'a, 'p) git_lib \<Rightarrow> fs \<Rightarrow> go_error + ssh_config option" where
  "loadSSHConfig lib f =
     (case gl_UserHomeDir lib of
        Inl _ \<Rightarrow> Inr None
      | Inr home \<Rightarrow>
          (case ReadFile f (home @ [''.ssh'', ''config'']) of
             Inl e \<Rightarrow> if IsNotExist e then Inr None else Inl e
           | Inr content \<Rightarrow>
               (case gl_DecodeSSH lib content of Inl e \<Rightarrow> Inl e | Inr c \<Rightarrow> Inr (Some c))))"

text \<open>The directories of old checkouts in the working directory.\<close>

definition old_checkouts :: "path \<Rightarrow> string \<Rightarrow> fs \<Rightarrow> string list" where
  "old_checkouts workdir repoName f =
     (case ReadDir f workdir of
        Inl _ \<Rightarrow> []
      | Inr entries \<Rightarrow> map fst (filter (\<lambda>(n, node). node = Directory \<and> has_prefix n (repoName @ ''_'')) entries))"

definition NewGit :: "('x, 'a, 'p) git_lib \<Rightarrow> string \<Rightarrow> string \<Rightarrow> string \<Rightarrow> string \<Rightarrow> ('x disk, git_source) io" where
  "NewGit lib name workdir repositoryURL sshPrivateKeyFile s =
     (case gl_Abs lib workdir of
        Inl e \<Rightarrow> (Fail e, s)
      | Inr absWorkdir \<Rightarrow>
          (case getRepoName repositoryURL of
             Inl e \<Rightarrow> (Fail e, s)
           | Inr repoName \<Rightarrow>
               (let f' = fold (\<lambda>n. RemoveAll (join_path absWorkdir n)) (old_checkouts absWorkdir repoName (fst s)) (fst s);
                    sshCfg = (if isSSHURL lib repositoryURL
                              then (case loadSSHConfig lib f' of Inl _ \<Rightarrow> None | Inr c \<Rightarrow> c) else None) in
                (Ret \<lparr>gt_name = name, gt_workdir = absWorkdir, gt_repoName = repoName, gt_counter = 0,
                      gs_repositoryURL = repositoryURL, gs_repoDir = join_path absWorkdir repoName,
                      gs_sshPrivateKeyFile = sshPrivateKeyFile, gs_sshConfig = sshCfg\<rparr>, (f', snd s)))))"

definition strip_quotes :: "string \<Rightarrow> string" where
  "strip_quotes s = rev (dropWhile (\<lambda>c. c = CHR 0x22) (rev (dropWhile (\<lambda>c. c = CHR 0x22) s)))"

definition abs_str :: "path \<Rightarrow> string" where
  "abs_str p = CHR ''/'' # path_str p"

definition sshIdentityFile :: "('x, 'a, 'p) git_lib \<Rightarrow> git_source \<Rightarrow> string" where
  "sshIdentityFile lib g =
     (case gs_sshConfig g of
        None \<Rightarrow> []
      | Some cfg \<Rightarrow>
          (case gl_Endpoint lib (gs_repositoryURL g) of
             Inl _ \<Rightarrow> []
           | Inr ep \<Rightarrow>
               (case cfg (ep_Host ep) ''IdentityFile'' of
                  Inl _ \<Rightarrow> []
                | Inr identityFile \<Rightarrow>
                    if identityFile = [] then []
                    else (let i = strip_quotes identityFile in
                          case gl_UserHomeDir lib of
                            Inr home \<Rightarrow> if has_prefix i ''~/'' then abs_str (join_path home (drop 2 i)) else i
                          | Inl _ \<Rightarrow> i))))"

definition git_auth :: "('x, 'a, 'p) git_lib \<Rightarrow> git_source \<Rightarrow> ('x disk, 'a option) io" where
  "git_auth lib g =
     (if \<not> isSSHURL lib (gs_repositoryURL g) then ret None
      else (let identityFile = sshIdentityFile lib g;
                keyFile = (if identityFile \<noteq> [] then identityFile else gs_sshPrivateKeyFile g) in
            if keyFile = [] then ret None
            else tryE (gl_PublicKeys lib (sshUsername lib (gs_repositoryURL g)) keyFile)
                   (\<lambda>e. fail (Wrapf (''failed to load SSH key '' @ keyFile) e)) (\<lambda>a. ret (Some a))))"

text \<open>The first symbolic reference \<open>HEAD\<close> among the references of the remote.\<close>

fun set_head :: "('x, 'a, 'p) git_lib \<Rightarrow> 'p \<Rightarrow> (string \<times> string option) list \<Rightarrow> ('x disk, unit) io" where
  "set_head lib repo [] = ret ()"
| "set_head lib repo ((name, target) # refs) =
     (case target of
        Some t \<Rightarrow> if name = HEAD then gl_SetHEAD lib repo t else set_head lib repo refs
      | None \<Rightarrow> set_head lib repo refs)"

definition syncMirrorHEAD :: "('x, 'a, 'p) git_lib \<Rightarrow> git_source \<Rightarrow> 'p \<Rightarrow> ('x disk, unit) io" where
  "syncMirrorHEAD lib g repo =
     bindE (git_auth lib g) (\<lambda>auth.
     bindE (gl_Remote lib repo ''origin'') (\<lambda>_.
     bindE (gl_List lib repo auth) (\<lambda>refs.
     set_head lib repo refs)))"

definition git_Update :: "('x, 'a, 'p) git_lib \<Rightarrow> git_source \<Rightarrow> ('x disk, unit) io" where
  "git_Update lib g =
     bindE (git_auth lib g) (\<lambda>auth.
     tryE (on_fs (Stat (gs_repoDir g)))
       (\<lambda>e. if \<not> IsNotExist e then fail e
            else tryE (gl_PlainClone lib (gs_repoDir g) (gs_repositoryURL g) auth)
                   (\<lambda>e. fail (Wrapf (''failed to clone '' @ quoted (gt_name g)) e)) ret)
       (\<lambda>_. tryE (gl_PlainOpen lib (gs_repoDir g)) (\<lambda>e. fail (Wrapf ''failed to open mirror repo'' e)) (\<lambda>repo.
            bindE (tryE (gl_Fetch lib repo auth)
                    (\<lambda>e. if e = NoErrAlreadyUpToDate then ret () else fail (Wrapf (''failed to fetch '' @ quoted (gt_name g)) e)) ret) (\<lambda>_.
            tryE (syncMirrorHEAD lib g repo)
              (\<lambda>_. tryE (gl_ResolveRevision lib repo HEAD)
                     (\<lambda>e. fail (Wrapf ''mirror HEAD does not resolve after failed sync'' e)) (\<lambda>_. ret ())) ret))))"

definition git_Version :: "('x, 'a, 'p) git_lib \<Rightarrow> git_source \<Rightarrow> string \<Rightarrow> string gomap \<Rightarrow> ('x disk, string) io" where
  "git_Version lib g channel overrides =
     tryE (gl_PlainOpen lib (gs_repoDir g)) (\<lambda>e. fail (Wrapf ''failed to open mirror repo'' e)) (\<lambda>repo.
     tryE (gl_ResolveRevision lib repo channel) (\<lambda>e. fail (Wrapf (''failed to resolve '' @ quoted channel) e)) ret)"

text \<open>A version is the hash of a commit; reading it is a checkout that may be deleted.\<close>

definition git_Get ::
  "(nat \<Rightarrow> go_error option) \<Rightarrow> go_error option \<Rightarrow> (string \<Rightarrow> go_error + 'c) \<Rightarrow> ('c \<Rightarrow> go_error + git_entry list)
   \<Rightarrow> int \<Rightarrow> string \<Rightarrow> git \<times> state \<Rightarrow> simple_config outcome \<times> (git \<times> state)" where
  "git_Get ctx open_mirror commit_object commit_tree nanos sha =
     bindE (localClone ctx open_mirror commit_object commit_tree nanos sha) (\<lambda>repoDir s.
       (Ret (NewSimpleConfig (gt_name (fst s)) repoDir True), s))"

definition git_config_source :: "('x, 'a, 'p) git_lib \<Rightarrow> git_source \<Rightarrow> ('x disk, string) config_source" where
  "git_config_source lib g = \<lparr>cs_Name = gt_name g, cs_Update = git_Update lib g, cs_Version = git_Version lib g\<rparr>"

section \<open>A directory as a source\<close>

record directory =
  dy_name :: string
  dy_location :: path

definition directory_Get :: "directory \<Rightarrow> simple_config" where
  "directory_Get d = NewSimpleConfig (dy_name d) (dy_location d) False"

definition directory_ID :: "directory \<Rightarrow> string" where "directory_ID d = ''<dir>''"

definition directory_source :: "directory \<Rightarrow> ('w, directory) config_source" where
  "directory_source d = \<lparr>cs_Name = dy_name d, cs_Update = ret (), cs_Version = (\<lambda>_ _. ret d)\<rparr>"

section \<open>Where a git source writes\<close>

lemma longest_word_take: "longest_word n s = Some m \<Longrightarrow> \<exists>k. 0 < k \<and> k \<le> n \<and> m = take k s"
  by (induction n) (auto split: if_splits intro: le_SucI)

lemma match_here_word:
  assumes "match_here s = Some m"
  shows "m \<noteq> [] \<and> list_all word_char m"
proof -
  let ?t = "trim_prefix s ''/''"
  from assms obtain k where k: "0 < k" "k \<le> length (takeWhile word_char ?t)" "m = take k ?t"
    by (auto simp: match_here_def Let_def dest!: longest_word_take)
  then have "m = take k (takeWhile word_char ?t)"
    by (metis min.absorb1 take_take takeWhile_eq_take)
  then have "set m \<subseteq> set (takeWhile word_char ?t)" by (simp add: set_take_subset)
  then show ?thesis using k by (auto simp: list_all_iff dest: set_takeWhileD)
qed

lemma getRepoName_word: "getRepoName uri = Inr name \<Longrightarrow> name \<noteq> [] \<and> list_all word_char name"
proof -
  have "find_match u = Some m \<Longrightarrow> m \<noteq> [] \<and> list_all word_char m" for u m
    by (induction u) (auto dest: match_here_word split: option.splits)
  then show "getRepoName uri = Inr name \<Longrightarrow> name \<noteq> [] \<and> list_all word_char name"
    by (auto simp: getRepoName_def split: option.splits)
qed

lemma word_char_path: "\<not> word_char (CHR ''/'')" "\<not> word_char (CHR ''.'')"
  by code_simp+

lemma join_one: "n \<noteq> [] \<Longrightarrow> n \<noteq> ''.'' \<Longrightarrow> n \<noteq> ''..'' \<Longrightarrow> CHR ''/'' \<notin> set n \<Longrightarrow> join_path d n = d @ [n]"
  by (simp add: join_path_def split_on_no_sep)

lemma join_word: "n \<noteq> [] \<Longrightarrow> list_all word_char n \<Longrightarrow> join_path d n = d @ [n]"
  using word_char_path by (intro join_one) (auto simp: list_all_iff)

lemma node_at_RemoveAll: "node_at (RemoveAll p f) q = (if q \<noteq> [] \<and> below p q then None else node_at f q)"
proof -
  have "m_get (filter (\<lambda>(k, _). P k) f) q = (if P q then m_get f q else None)" for P
    by (induction f) auto
  from this [of "\<lambda>k. take (length p) k \<noteq> p"] show ?thesis
    by (simp add: RemoveAll_def node_at_def below_def)
qed

lemma node_at_RemoveAll_fold:
  "node_at (fold (\<lambda>n. RemoveAll (d @ [n])) ns f) q =
     (if q \<noteq> [] \<and> (\<exists>n \<in> set ns. below (d @ [n]) q) then None else node_at f q)"
  by (induction ns arbitrary: f) (auto simp: node_at_RemoveAll)

lemma final_real: "real_dir f p \<Longrightarrow> proper p \<Longrightarrow> final hops f [] p = Inr p"
proof (cases p rule: rev_cases)
  case (snoc d c)
  assume r: "real_dir f p" and pr: "proper p"
  have "real_dir f d" unfolding real_dir_def
  proof (intro allI impI)
    fix k assume "k \<le> length d"
    then show "node_at f (take k d) = Some Directory"
      using r [unfolded real_dir_def, rule_format, of k] by (simp add: snoc)
  qed
  then have "resolve hops f [] d = Inr d" using resolve_real_dir [of f "[]" d] pr by (simp add: snoc)
  moreover have "node_at f (d @ [c]) = Some Directory"
    using r [unfolded real_dir_def, rule_format, of "length p"] by (simp add: snoc)
  ultimately show ?thesis using pr by (subst final.simps) (simp add: snoc proper_def)
qed simp

text \<open>The names in a file system have no separators in them.\<close>

definition names_ok :: "fs \<Rightarrow> bool" where
  "names_ok f \<longleftrightarrow> list_all proper (m_keys f)"

lemma old_checkouts_iff:
  assumes "real_dir f w" "proper w" "names_ok f"
  shows "n \<in> set (old_checkouts w r f) \<longleftrightarrow> node_at f (w @ [n]) = Some Directory \<and> has_prefix n (r @ ''_'') \<and> proper [n]"
proof -
  have dir: "node_at f w = Some Directory"
    using assms(1) [unfolded real_dir_def, rule_format, of "length w"] by simp
  let ?ns = "sort (remdups (map last (filter (\<lambda>k. k \<noteq> [] \<and> butlast k = w) (m_keys f))))"
  have read: "ReadDir f w = Inr (map (\<lambda>n. (n, the (node_at f (w @ [n])))) ?ns)"
    using final_real [OF assms(1,2)] dir by (simp add: ReadDir_def)
  have names: "n \<in> set ?ns \<longleftrightarrow> w @ [n] \<in> set (m_keys f)"
    by (auto simp: image_iff)
  have "w @ [n] \<in> set (m_keys f) \<longleftrightarrow> node_at f (w @ [n]) \<noteq> None"
    by (simp add: node_at_def m_keys_iff)
  moreover have "w @ [n] \<in> set (m_keys f) \<Longrightarrow> proper [n]"
    using assms(3) by (auto simp: names_ok_def list_all_iff dest!: bspec [of _ _ "w @ [n]"])
  ultimately show ?thesis using names
    by (auto simp: old_checkouts_def read image_iff)
qed

text \<open>
  Claim C40. What setting up a git source does to the disk: its mirror is a direct child of the
  working directory, whatever the URL; exactly the directories there whose names begin with the name of
  the repository and an underscore are removed, with everything in them; nothing else on the disk
  changes, and the mirror that a former run of this source left is kept. The old checkouts of the
  repository have such names, but so has everything of a repository whose name begins in this way, its
  mirror included, which is then removed too: see \<open>other_mirror_removed\<close>.
\<close>

theorem NewGit_cleanup:
  assumes "gl_Abs lib workdir = Inr w" and "proper w" and "real_dir f w" and "names_ok f"
    and "NewGit lib name workdir url key (f, x) = (Ret g, (f', x'))"
  shows "gs_repoDir g = w @ [gt_repoName g]
    \<and> (\<forall>n. node_at f (w @ [n]) = Some Directory \<and> has_prefix n (gt_repoName g @ ''_'') \<and> proper [n] \<longrightarrow> node_at f' (w @ [n]) = None)
    \<and> (\<forall>p. node_at f' p \<noteq> node_at f p \<longrightarrow> node_at f' p = None
         \<and> (\<exists>n. below (w @ [n]) p \<and> has_prefix n (gt_repoName g @ ''_'') \<and> node_at f (w @ [n]) = Some Directory))
    \<and> (\<forall>p. below (gs_repoDir g) p \<longrightarrow> node_at f' p = node_at f p)"
proof -
  from assms(1,5) obtain r where r: "getRepoName url = Inr r" by (auto simp: NewGit_def split: sum.splits)
  let ?old = "old_checkouts w r f"
  have word: "r \<noteq> []" "list_all word_char r" using getRepoName_word [OF r] by simp_all
  note old = old_checkouts_iff [OF assms(3,2,4)]
  have one: "join_path w n = w @ [n]" if "n \<in> set ?old" for n
    using that old by (intro join_one) (auto simp: proper_def)
  have g: "gs_repoDir g = w @ [r]" "gt_repoName g = r"
    using assms(1,5) r join_word [OF word] by (auto simp: NewGit_def Let_def)
  have "fold (\<lambda>n. RemoveAll (join_path w n)) ?old f = fold (\<lambda>n. RemoveAll (w @ [n])) ?old f"
    using one by (intro fold_cong) simp_all
  then have "f' = fold (\<lambda>n. RemoveAll (w @ [n])) ?old f"
    using assms(1,5) r by (auto simp: NewGit_def Let_def)
  then have at: "node_at f' p = (if p \<noteq> [] \<and> (\<exists>n \<in> set ?old. below (w @ [n]) p) then None else node_at f p)" for p
    by (simp add: node_at_RemoveAll_fold)
  have own: "\<not> below (w @ [n]) p" if "n \<in> set ?old" "below (w @ [r]) p" for n p
    using that old by (auto simp: below_iff has_prefix_iff)
  have gone: "node_at f' (w @ [n]) = None" if "n \<in> set ?old" for n using that at [of "w @ [n]"] below_refl by auto
  have "\<exists>n. below (w @ [n]) p \<and> has_prefix n (r @ ''_'') \<and> node_at f (w @ [n]) = Some Directory" "node_at f' p = None"
    if "node_at f' p \<noteq> node_at f p" for p using that at [of p] old by (auto split: if_splits)
  moreover have "node_at f' p = node_at f p" if "below (w @ [r]) p" for p using that at [of p] own by auto
  ultimately show ?thesis unfolding g using gone old by blast
qed

definition sample_lib :: "(unit, unit, unit) git_lib" where
  "sample_lib = \<lparr>gl_Endpoint = (\<lambda>_. Inl Canceled), gl_Abs = (\<lambda>_. Inr [''w'']), gl_UserHomeDir = Inl Canceled,
     gl_DecodeSSH = (\<lambda>_. Inl Canceled), gl_PublicKeys = (\<lambda>_ _. ret ()), gl_PlainClone = (\<lambda>_ _ _. ret ()),
     gl_PlainOpen = (\<lambda>_. ret ()), gl_Fetch = (\<lambda>_ _. fail NoErrAlreadyUpToDate), gl_Remote = (\<lambda>_ _. ret ()),
     gl_List = (\<lambda>_ _. ret [(HEAD, Some ''refs/heads/main'')]), gl_SetHEAD = (\<lambda>_ _. ret ()), gl_ResolveRevision = (\<lambda>_ _. ret ''abc'')\<rparr>"

text \<open>A working directory with the mirrors of two sources and an old checkout.\<close>

definition sample_disk :: fs where
  "sample_disk = [([''w''], Directory), ([''w'', ''kube''], Directory), ([''w'', ''kube'', ''config''], Regular ''c'' False),
     ([''w'', ''kube_abc_1_1''], Directory), ([''w'', ''kube_abc_1_1'', ''a''], Regular ''a'' False), ([''w'', ''kube_infra''], Directory)]"

theorem NewGit_cleanup_witness:
  "\<exists>g f'. NewGit sample_lib ''main'' ''w'' ''https://example.org/org/kube.git'' [] (sample_disk, ()) = (Ret g, (f', ()))
     \<and> gs_repoDir g = [''w'', ''kube''] \<and> node_at f' [''w'', ''kube'', ''config''] = Some (Regular ''c'' False)
     \<and> node_at f' [''w'', ''kube_abc_1_1''] = None"
proof -
  let ?g = "\<lparr>gt_name = ''main'', gt_workdir = [''w''], gt_repoName = ''kube'', gt_counter = 0,
     gs_repositoryURL = ''https://example.org/org/kube.git'', gs_repoDir = [''w'', ''kube''], gs_sshPrivateKeyFile = [], gs_sshConfig = None\<rparr>"
  let ?f = "[([''w''], Directory), ([''w'', ''kube''], Directory), ([''w'', ''kube'', ''config''], Regular ''c'' False)]"
  have "old_checkouts [''w''] ''kube'' sample_disk = [''kube_abc_1_1'', ''kube_infra'']" by code_simp
  moreover have "getRepoName ''https://example.org/org/kube.git'' = Inr ''kube''" by code_simp
  ultimately have run: "NewGit sample_lib ''main'' ''w'' ''https://example.org/org/kube.git'' [] (sample_disk, ()) = (Ret ?g, (?f, ()))"
    by (simp add: NewGit_def sample_lib_def isSSHURL_def sample_disk_def join_path_def split_on_no_sep RemoveAll_def)
  have "real_dir sample_disk [''w'']"
    by (auto simp: real_dir_def sample_disk_def node_at_def le_Suc_eq)
  moreover have "proper [''w'']" "names_ok sample_disk" by code_simp+
  ultimately have "gs_repoDir ?g = [''w''] @ [gt_repoName ?g]"
    using NewGit_cleanup [OF _ _ _ _ run, of "[''w'']"] by (simp add: sample_lib_def)
  then show ?thesis using run by (intro exI [of _ ?g] exI [of _ ?f]) (simp add: node_at_def)
qed

text \<open>
  The underscore also begins the rest of longer names: setting up the source of \<open>kube\<close> removes the
  mirror of \<open>kube_infra\<close>.
\<close>

lemma other_mirror_removed:
  "snd (NewGit sample_lib ''main'' ''w'' ''https://example.org/org/kube.git'' [] (sample_disk, ()))
     = ([([''w''], Directory), ([''w'', ''kube''], Directory), ([''w'', ''kube'', ''config''], Regular ''c'' False)], ())"
  by code_simp

text \<open>
  The name is all that distinguishes mirrors: repositories of the same name share one, and the dot that
  is not quoted makes a repository called \<open>git\<close> take the name of its parent.
\<close>

lemma repository_names_collide:
  "getRepoName ''https://example.org/team-a/config.git'' = Inr ''config''"
  "getRepoName ''https://example.org/team-b/config.git'' = Inr ''config''"
  "getRepoName ''https://example.org/team/git'' = Inr ''team''"
  "getRepoName ''https://example.org/team/my.config.git'' = Inr ''config''"
  by code_simp+

section \<open>Updates\<close>

lemma tryE_fail_Ret: "tryE m (\<lambda>e. fail (h e)) f w = (Ret x, w') \<longleftrightarrow> (\<exists>y v. m w = (Ret y, v) \<and> f y v = (Ret x, w'))"
  by (auto simp: tryE_def fail_def split: prod.splits outcome.splits)

text \<open>
  A successful update has cloned the mirror, or it has fetched into the mirror and then set its
  \<open>HEAD\<close> from the remote, or found that \<open>HEAD\<close> still resolves.
\<close>

lemma git_Update_head:
  assumes "git_Update lib g w = (Ret (), w')"
  shows "(\<exists>auth v. gl_PlainClone lib (gs_repoDir g) (gs_repositoryURL g) auth v = (Ret (), w'))
    \<or> (\<exists>repo auth v v1 r. gl_Fetch lib repo auth v = (r, v1) \<and> (r = Ret () \<or> r = Fail NoErrAlreadyUpToDate)
        \<and> (syncMirrorHEAD lib g repo v1 = (Ret (), w') \<or> (\<exists>u sha. gl_ResolveRevision lib repo HEAD u = (Ret sha, w'))))"
proof -
  from assms obtain auth w1 where run: "tryE (on_fs (Stat (gs_repoDir g)))
       (\<lambda>e. if \<not> IsNotExist e then fail e
            else tryE (gl_PlainClone lib (gs_repoDir g) (gs_repositoryURL g) auth)
                   (\<lambda>e. fail (Wrapf (''failed to clone '' @ quoted (gt_name g)) e)) ret)
       (\<lambda>_. tryE (gl_PlainOpen lib (gs_repoDir g)) (\<lambda>e. fail (Wrapf ''failed to open mirror repo'' e)) (\<lambda>repo.
            bindE (tryE (gl_Fetch lib repo auth)
                    (\<lambda>e. if e = NoErrAlreadyUpToDate then ret () else fail (Wrapf (''failed to fetch '' @ quoted (gt_name g)) e)) ret) (\<lambda>_.
            tryE (syncMirrorHEAD lib g repo)
              (\<lambda>_. tryE (gl_ResolveRevision lib repo HEAD)
                     (\<lambda>e. fail (Wrapf ''mirror HEAD does not resolve after failed sync'' e)) (\<lambda>_. ret ())) ret))) w1 = (Ret (), w')"
    by (auto simp: git_Update_def)
  then show ?thesis
  proof (cases rule: tryE_cases)
    case (ok n w2)
    then obtain repo w3 v1 where open1: "gl_PlainOpen lib (gs_repoDir g) w2 = (Ret repo, w3)"
      and fetch: "tryE (gl_Fetch lib repo auth)
                    (\<lambda>e. if e = NoErrAlreadyUpToDate then ret () else fail (Wrapf (''failed to fetch '' @ quoted (gt_name g)) e)) ret w3 = (Ret (), v1)"
      and sync: "tryE (syncMirrorHEAD lib g repo)
              (\<lambda>_. tryE (gl_ResolveRevision lib repo HEAD)
                     (\<lambda>e. fail (Wrapf ''mirror HEAD does not resolve after failed sync'' e)) (\<lambda>_. ret ())) ret v1 = (Ret (), w')"
      by (auto simp: tryE_fail_Ret)
    have "\<exists>r. gl_Fetch lib repo auth w3 = (r, v1) \<and> (r = Ret () \<or> r = Fail NoErrAlreadyUpToDate)"
      using fetch by (cases rule: tryE_cases) (auto split: if_splits)
    moreover have "syncMirrorHEAD lib g repo v1 = (Ret (), w') \<or> (\<exists>u sha. gl_ResolveRevision lib repo HEAD u = (Ret sha, w'))"
      using sync by (cases rule: tryE_cases) (auto simp: tryE_fail_Ret)
    ultimately show ?thesis by blast
  qed (auto simp: tryE_fail_Ret split: if_splits)
qed

end
