(* ===== verification/Credentials.thy ===== *)
theory Credentials
  imports Go_Base64 Git_Source
begin

text \<open>
  Tokens and keys: the tokens of the registry and of the clusters, which are files whose expiry is a
  claim of the token (\<open>pkg/credentials-loader\<close>), and the documents with the public key of the service
  accounts (\<open>provisioner/jwks.go\<close>, and the functions of \<open>template.go\<close> and \<open>aws.go\<close> on keys and
  certificates). PEM, X.509, SHA-256, JSON and the JOSE library are fields of a record.
\<close>

section \<open>Claims of tokens\<close>

record claims =
  jc_Sub :: string
  jc_Realm :: string
  jc_Type :: string
  jc_ManagedID :: string
  jc_Azp :: string
  jc_Businesspartner :: string
  jc_AuthTime :: int
  jc_ISS :: string
  jc_Exp :: int
  jc_IAt :: int

definition UID :: "claims \<Rightarrow> string" where
  "UID c = (if jc_Realm c = ''users'' then jc_ManagedID c else jc_Sub c)"

record token_lib =
  tl_DecodeSegment :: "string \<Rightarrow> go_error + string"
  tl_UnmarshalClaims :: "string \<Rightarrow> go_error + claims"

definition ParseClaims :: "token_lib \<Rightarrow> string \<Rightarrow> go_error + claims" where
  "ParseClaims lib token = (case split_on (CHR ''.'') token of
     [_, p, _] \<Rightarrow>
       (case tl_DecodeSegment lib p of
          Inl e \<Rightarrow> Inl e
        | Inr d \<Rightarrow> tl_UnmarshalClaims lib d)
   | _ \<Rightarrow> Inl (Errorf ''token contains an invalid number of segments''))"

section \<open>Tokens in files\<close>

record token_source =
  ts_name :: string
  ts_path :: path

record oauth2_token =
  ot_AccessToken :: string
  ot_TokenType :: string
  ot_Expiry :: int

definition NewTokenSource :: "string \<Rightarrow> path \<Rightarrow> token_source" where
  "NewTokenSource name p = \<lparr>ts_name = name, ts_path = p\<rparr>"

definition readFileContent :: "fs \<Rightarrow> path \<Rightarrow> go_error + string" where
  "readFileContent f p = ReadFile f p"

definition Token :: "token_lib \<Rightarrow> token_source \<Rightarrow> fs \<Rightarrow> go_error + oauth2_token" where
  "Token lib s f =
     (case readFileContent f (join_path (ts_path s) (ts_name s @ ''-token-secret'')) of
        Inl e \<Rightarrow> Inl e
      | Inr token \<Rightarrow>
          (case readFileContent f (join_path (ts_path s) (ts_name s @ ''-token-type'')) of
             Inl e \<Rightarrow> Inl e
           | Inr tokenType \<Rightarrow>
               (case ParseClaims lib token of
                  Inl e \<Rightarrow> Inl e
                | Inr c \<Rightarrow> Inr \<lparr>ot_AccessToken = token, ot_TokenType = tokenType, ot_Expiry = jc_Exp c\<rparr>)))"

record client_credentials =
  cc_ID :: string
  cc_Secret :: string

definition ClientCredentials :: "token_source \<Rightarrow> fs \<Rightarrow> go_error + client_credentials" where
  "ClientCredentials s f =
     (case readFileContent f (join_path (ts_path s) (ts_name s @ ''-client-id'')) of
        Inl e \<Rightarrow> Inl e
      | Inr i \<Rightarrow>
          (case readFileContent f (join_path (ts_path s) (ts_name s @ ''-client-secret'')) of
             Inl e \<Rightarrow> Inl e
           | Inr secret \<Rightarrow> Inr \<lparr>cc_ID = i, cc_Secret = secret\<rparr>))"

text \<open>
  The token is the content of its file as it is, with a line end at its end too; it is given out only
  when it has the three segments of a token.
\<close>

lemma Token_verbatim:
  assumes "Token lib s f = Inr t"
  shows "ReadFile f (join_path (ts_path s) (ts_name s @ ''-token-secret'')) = Inr (ot_AccessToken t)"
    and "length (split_on (CHR ''.'') (ot_AccessToken t)) = 3"
    and "\<exists>c. ParseClaims lib (ot_AccessToken t) = Inr c \<and> ot_Expiry t = jc_Exp c"
  using assms by (auto simp: Token_def readFileContent_def ParseClaims_def split: sum.splits list.splits)

section \<open>Keys and certificates\<close>

record jwk =
  jk_KeyID :: string
  jk_Algorithm :: string
  jk_Use :: string

record provider_metadata =
  pm_Issuer :: string
  pm_AuthURL :: string
  pm_JWKSURL :: string
  pm_ResponseTypes :: "string list"
  pm_SubjectTypes :: "string list"
  pm_Algorithms :: "string list"
  pm_Claims :: "string list"

record 'k crypto_lib =
  cy_PEMDecode :: "string \<Rightarrow> string option"
  cy_PEMEncode :: "string \<Rightarrow> string \<Rightarrow> string"
  cy_ParsePKIXPublicKey :: "string \<Rightarrow> go_error + 'k"
  cy_IsRSA :: "'k \<Rightarrow> bool"
  cy_MarshalPKIXPublicKey :: "'k \<Rightarrow> go_error + string"
  cy_SHA256 :: "string \<Rightarrow> string"
  cy_PublicOfPKCS1 :: "string \<Rightarrow> go_error + 'k"
  cy_NotAfter :: "string \<Rightarrow> go_error + int"
  cy_RFC3339 :: "int \<Rightarrow> string"
  cy_MarshalJWK :: "'k \<Rightarrow> jwk \<Rightarrow> go_error + string"
  cy_UnmarshalStrings :: "string \<Rightarrow> go_error + string gomap"
  cy_MarshalKeys :: "string gomap list \<Rightarrow> go_error + string"
  cy_MarshalProvider :: "provider_metadata \<Rightarrow> go_error + string"

definition keyIDFromPublicKey :: "'k crypto_lib \<Rightarrow> 'k \<Rightarrow> go_error + string" where
  "keyIDFromPublicKey lib k = (case cy_MarshalPKIXPublicKey lib k of
     Inl e \<Rightarrow> Inl (Errorf (''failed to serialize public key to DER format: '' @ error_text e))
   | Inr der \<Rightarrow> Inr (RawURL_EncodeToString (cy_SHA256 lib der)))"

definition getStringMapList :: "'k crypto_lib \<Rightarrow> 'k \<Rightarrow> jwk \<Rightarrow> go_error + string gomap list" where
  "getStringMapList lib k key = (case cy_MarshalJWK lib k key of
     Inl e \<Rightarrow> Inl (Errorf (''failed to marshall key: '' @ error_text e))
   | Inr keyJSON \<Rightarrow>
       (case cy_UnmarshalStrings lib keyJSON of
          Inl e \<Rightarrow> Inl (Errorf (''failed to unmarshall key json: '' @ error_text e))
        | Inr keyMap \<Rightarrow>
            (let keyMapCopy = fold (\<lambda>(n, v). m_put n v) keyMap [] in Inr [keyMap, m_put ''kid'' [] keyMapCopy])))"

definition generateJWKSDocument :: "'k crypto_lib \<Rightarrow> string \<Rightarrow> go_error + string" where
  "generateJWKSDocument lib serviceAccountKey = (case cy_PEMDecode lib serviceAccountKey of
     None \<Rightarrow> Inl (Errorf ''Error decoding serviceAccountKey'')
   | Some block \<Rightarrow>
       (case cy_ParsePKIXPublicKey lib block of
          Inl e \<Rightarrow> Inl (Errorf (''failed to parse public key: '' @ error_text e))
        | Inr pubKey \<Rightarrow>
            if \<not> cy_IsRSA lib pubKey then Inl (Errorf ''Public key was not RSA'')
            else (case keyIDFromPublicKey lib pubKey of
               Inl e \<Rightarrow> Inl e
             | Inr kid \<Rightarrow>
                 (case getStringMapList lib pubKey \<lparr>jk_KeyID = kid, jk_Algorithm = ''RS256'', jk_Use = ''sig''\<rparr> of
                    Inl e \<Rightarrow> Inl (Errorf (''failed to get key list: '' @ error_text e))
                  | Inr keys \<Rightarrow>
                      (case cy_MarshalKeys lib keys of
                         Inl e \<Rightarrow> Inl (Errorf (''failed to marshal key response: '' @ error_text e))
                       | Inr response \<Rightarrow> Inr response)))))"

definition generateOIDCDiscoveryDocument :: "'k crypto_lib \<Rightarrow> string \<Rightarrow> go_error + string" where
  "generateOIDCDiscoveryDocument lib apiServerURL =
     (case cy_MarshalProvider lib
        \<lparr>pm_Issuer = apiServerURL, pm_AuthURL = ''urn:kubernetes:programmatic_authorization'',
         pm_JWKSURL = apiServerURL @ ''/openid-configuration/keys.json'', pm_ResponseTypes = [''id_token''],
         pm_SubjectTypes = [''public''], pm_Algorithms = [''RS256''], pm_Claims = [''sub'', ''iss'']\<rparr> of
        Inl e \<Rightarrow> Inl (Errorf (''failed to serialize oidc discovery document: '' @ error_text e))
      | Inr document \<Rightarrow> Inr document)"

definition publicKey :: "'k crypto_lib \<Rightarrow> string \<Rightarrow> go_error + string" where
  "publicKey lib privateKey = (case cy_PEMDecode lib privateKey of
     None \<Rightarrow> Inl (Errorf ''no PEM data found'')
   | Some decoded \<Rightarrow>
       (case cy_PublicOfPKCS1 lib decoded of
          Inl e \<Rightarrow> Inl e
        | Inr key \<Rightarrow>
            (case cy_MarshalPKIXPublicKey lib key of
               Inl e \<Rightarrow> Inl e
             | Inr der \<Rightarrow> Inr (cy_PEMEncode lib ''PUBLIC KEY'' der))))"

definition certificateExpiryTime :: "'k crypto_lib \<Rightarrow> string \<Rightarrow> go_error + int" where
  "certificateExpiryTime lib certificate = (case cy_PEMDecode lib certificate of
     None \<Rightarrow> Inl (Errorf ''no PEM data found'')
   | Some block \<Rightarrow> cy_NotAfter lib block)"

definition certificateExpiry :: "'k crypto_lib \<Rightarrow> string \<Rightarrow> go_error + string" where
  "certificateExpiry lib certificate = (case certificateExpiryTime lib certificate of
     Inl e \<Rightarrow> Inl e
   | Inr expiry \<Rightarrow> Inr (cy_RFC3339 lib expiry))"

section \<open>The published keys\<close>

text \<open>PEM and PKIX read what they write, and a JSON object has each name once.\<close>

definition crypto_laws :: "'k crypto_lib \<Rightarrow> bool" where
  "crypto_laws lib \<longleftrightarrow> (\<forall>t b. cy_PEMDecode lib (cy_PEMEncode lib t b) = Some b)
     \<and> (\<forall>k der. cy_MarshalPKIXPublicKey lib k = Inr der \<longrightarrow> cy_ParsePKIXPublicKey lib der = Inr k)
     \<and> (\<forall>j m. cy_UnmarshalStrings lib j = Inr m \<longrightarrow> m_ok m)"

lemma getStringMapList_keys:
  assumes "getStringMapList lib k key = Inr keys" and "crypto_laws lib"
  shows "\<exists>j m m'. keys = [m, m'] \<and> cy_MarshalJWK lib k key = Inr j \<and> cy_UnmarshalStrings lib j = Inr m
    \<and> (\<forall>n. m_get m' n = (if n = ''kid'' then Some [] else m_get m n))"
proof -
  from assms(1) obtain j m where j: "cy_MarshalJWK lib k key = Inr j" "cy_UnmarshalStrings lib j = Inr m"
      "keys = [m, m_put ''kid'' [] (fold (\<lambda>(n, v). m_put n v) m [])]"
    by (auto simp: getStringMapList_def Let_def split: sum.splits)
  have "m_get (fold (\<lambda>(n, v). m_put n v) m []) = m_get m"
    using assms(2) j(2) by (auto simp: crypto_laws_def fold_put_get m_get_rev fun_eq_iff split: option.splits)
  then show ?thesis using j by auto
qed

lemma generateJWKSDocument_keys:
  assumes "generateJWKSDocument lib pem = Inr doc" and "crypto_laws lib"
  shows "\<exists>block k der j m m'. cy_PEMDecode lib pem = Some block \<and> cy_ParsePKIXPublicKey lib block = Inr k \<and> cy_IsRSA lib k
    \<and> cy_MarshalPKIXPublicKey lib k = Inr der
    \<and> cy_MarshalJWK lib k \<lparr>jk_KeyID = RawURL_EncodeToString (cy_SHA256 lib der), jk_Algorithm = ''RS256'', jk_Use = ''sig''\<rparr> = Inr j
    \<and> cy_UnmarshalStrings lib j = Inr m \<and> (\<forall>n. m_get m' n = (if n = ''kid'' then Some [] else m_get m n))
    \<and> cy_MarshalKeys lib [m, m'] = Inr doc"
proof -
  from assms(1) obtain block k kid keys where *: "cy_PEMDecode lib pem = Some block" "cy_ParsePKIXPublicKey lib block = Inr k"
      "cy_IsRSA lib k" "keyIDFromPublicKey lib k = Inr kid"
      "getStringMapList lib k \<lparr>jk_KeyID = kid, jk_Algorithm = ''RS256'', jk_Use = ''sig''\<rparr> = Inr keys" "cy_MarshalKeys lib keys = Inr doc"
    by (auto simp: generateJWKSDocument_def split: option.splits sum.splits if_splits)
  moreover from *(4) obtain der where "cy_MarshalPKIXPublicKey lib k = Inr der" "kid = RawURL_EncodeToString (cy_SHA256 lib der)"
    by (auto simp: keyIDFromPublicKey_def split: sum.splits)
  moreover note getStringMapList_keys [OF *(5) assms(2)]
  ultimately show ?thesis by blast
qed

text \<open>
  Claim C28. The document published for the public key of a private key lets verifiers find exactly this
  key: it holds the key twice, once under the hash of its encoding and once under the empty identifier
  that older tokens have, and the two entries differ in nothing else. PEM and PKIX are assumed to read
  what they write, and JSON objects to have each name once.
\<close>

theorem published_keys:
  assumes "publicKey lib private = Inr pub" and "generateJWKSDocument lib pub = Inr doc" and "crypto_laws lib"
  shows "\<exists>block k der j m m'. cy_PEMDecode lib private = Some block \<and> cy_PublicOfPKCS1 lib block = Inr k
    \<and> cy_MarshalPKIXPublicKey lib k = Inr der
    \<and> cy_MarshalJWK lib k \<lparr>jk_KeyID = RawURL_EncodeToString (cy_SHA256 lib der), jk_Algorithm = ''RS256'', jk_Use = ''sig''\<rparr> = Inr j
    \<and> cy_UnmarshalStrings lib j = Inr m \<and> (\<forall>n. m_get m' n = (if n = ''kid'' then Some [] else m_get m n))
    \<and> cy_MarshalKeys lib [m, m'] = Inr doc"
proof -
  from assms(1) obtain block k der where k: "cy_PEMDecode lib private = Some block" "cy_PublicOfPKCS1 lib block = Inr k"
      "cy_MarshalPKIXPublicKey lib k = Inr der" "pub = cy_PEMEncode lib ''PUBLIC KEY'' der"
    by (auto simp: publicKey_def split: option.splits sum.splits)
  from generateJWKSDocument_keys [OF assms(2,3)] obtain block' k' der' j m m' where
      k': "cy_PEMDecode lib pub = Some block'" "cy_ParsePKIXPublicKey lib block' = Inr k'" "cy_MarshalPKIXPublicKey lib k' = Inr der'"
      and doc: "cy_MarshalJWK lib k' \<lparr>jk_KeyID = RawURL_EncodeToString (cy_SHA256 lib der'), jk_Algorithm = ''RS256'', jk_Use = ''sig''\<rparr> = Inr j"
      "cy_UnmarshalStrings lib j = Inr m" "\<forall>n. m_get m' n = (if n = ''kid'' then Some [] else m_get m n)" "cy_MarshalKeys lib [m, m'] = Inr doc"
    by blast
  have "block' = der" using assms(3) k(4) k'(1) by (simp add: crypto_laws_def)
  then have "k' = k" using assms(3) k(3) k'(2) by (auto simp: crypto_laws_def)
  with k(3) k'(3) have "der' = der" by simp
  with \<open>k' = k\<close> show ?thesis using k(1-3) doc by blast
qed

text \<open>A library in which a key is its own encoding, and a JSON object the line of its fields.\<close>

definition sample_crypto :: "string crypto_lib" where
  "sample_crypto = \<lparr>cy_PEMDecode = Some, cy_PEMEncode = (\<lambda>t b. b), cy_ParsePKIXPublicKey = Inr, cy_IsRSA = (\<lambda>_. True),
     cy_MarshalPKIXPublicKey = Inr, cy_SHA256 = (\<lambda>b. b), cy_PublicOfPKCS1 = Inr, cy_NotAfter = (\<lambda>_. Inr 0), cy_RFC3339 = int_str,
     cy_MarshalJWK = (\<lambda>k j. Inr (k @ '' '' @ jk_KeyID j)),
     cy_UnmarshalStrings = (\<lambda>s. Inr [(''n'', s), (''kid'', s)]),
     cy_MarshalKeys = (\<lambda>ms. Inr (join_with '','' (map (\<lambda>m. m_str m ''n'' @ ''/'' @ m_str m ''kid'') ms))),
     cy_MarshalProvider = (\<lambda>p. Inr (pm_Issuer p))\<rparr>"

theorem published_keys_witness:
  "\<exists>k m m'. cy_PublicOfPKCS1 sample_crypto ''key'' = Inr k \<and> cy_UnmarshalStrings sample_crypto ''key a2V5'' = Inr m
    \<and> m_get m' ''kid'' = Some [] \<and> m_get m' ''n'' = m_get m ''n''
    \<and> cy_MarshalKeys sample_crypto [m, m'] = Inr ''key a2V5/key a2V5,key a2V5/''"
proof -
  have "crypto_laws sample_crypto" by (simp add: crypto_laws_def sample_crypto_def m_ok_def m_keys_def)
  moreover have "publicKey sample_crypto ''key'' = Inr ''key''" "generateJWKSDocument sample_crypto ''key'' = Inr ''key a2V5/key a2V5,key a2V5/''"
    by code_simp+
  ultimately obtain block k der j m m' where *: "cy_PEMDecode sample_crypto ''key'' = Some block" "cy_PublicOfPKCS1 sample_crypto block = Inr k"
      "cy_MarshalPKIXPublicKey sample_crypto k = Inr der"
      "cy_MarshalJWK sample_crypto k \<lparr>jk_KeyID = RawURL_EncodeToString (cy_SHA256 sample_crypto der), jk_Algorithm = ''RS256'', jk_Use = ''sig''\<rparr> = Inr j"
      "cy_UnmarshalStrings sample_crypto j = Inr m" "\<forall>n. m_get m' n = (if n = ''kid'' then Some [] else m_get m n)"
      "cy_MarshalKeys sample_crypto [m, m'] = Inr ''key a2V5/key a2V5,key a2V5/''"
    using published_keys [of sample_crypto "''key''" "''key''"] by blast
  have "block = ''key''" "k = ''key''" "der = ''key''" using *(1-3) by (simp_all add: sample_crypto_def)
  moreover have "RawURL_EncodeToString ''key'' = ''a2V5''" by code_simp
  ultimately have "j = ''key a2V5''" using *(4) by (simp add: sample_crypto_def)
  with * \<open>block = ''key''\<close> show ?thesis by (intro exI [of _ k] exI [of _ m] exI [of _ m']) simp
qed

end
