(* ===== verification/Template_Render.thy ===== *)
theory Template_Render
  imports Channel
begin

text \<open>
  Rendering templates (\<open>provisioner/template.go\<close>): a template context holds the files of a component,
  the texts rendered so far and the flag that keeps \<open>manifestHash\<close> from calling itself. Executing a
  parsed template is a process that writes text and calls \<open>manifestHash\<close>; the other functions of a
  template depend on their arguments and on the data only and are part of the process, where the
  images that EC2 knows are taken to be fixed while a template is rendered. The parser and the digest
  are parameters.
\<close>

section \<open>Paths with slashes\<close>

text \<open>\<open>path.Clean\<close>: the components kept so far, in reverse, of a rooted or relative path.\<close>

fun clean_parts :: "bool \<Rightarrow> string list \<Rightarrow> string list \<Rightarrow> string list" where
  "clean_parts rooted acc [] = rev acc"
| "clean_parts rooted acc (c # cs) =
     (if c = [] \<or> c = ''.'' then clean_parts rooted acc cs
      else if c = ''..''
      then (case acc of
              [] \<Rightarrow> clean_parts rooted (if rooted then [] else [''..'']) cs
            | a # as \<Rightarrow> clean_parts rooted (if a = ''..'' then ''..'' # acc else as) cs)
      else clean_parts rooted (c # acc) cs)"

definition path_Clean :: "string \<Rightarrow> string" where
  "path_Clean p =
     (let rooted = has_prefix p ''/'';
          body = join_with ''/'' (clean_parts rooted [] (split_on (CHR ''/'') p)) in
      if rooted then CHR ''/'' # body else if body = [] then ''.'' else body)"

definition path_Join :: "string list \<Rightarrow> string" where
  "path_Join ps = (case filter (\<lambda>p. p \<noteq> []) ps of [] \<Rightarrow> [] | qs \<Rightarrow> path_Clean (join_with ''/'' qs))"

definition path_Dir :: "string \<Rightarrow> string" where
  "path_Dir p = path_Clean (rev (dropWhile (\<lambda>c. c \<noteq> CHR ''/'') (rev p)))"

section \<open>Rendering\<close>

text \<open>
  The execution of a template: its output, an error, or a call of \<open>manifestHash\<close> at some place in the
  template and what follows with its result.
\<close>

datatype exec =
    Output string
  | ExecError go_error
  | CallManifestHash string string "string \<Rightarrow> exec"

record 'd engine =
  eg_Parse :: "string \<Rightarrow> string \<Rightarrow> go_error + ('d \<Rightarrow> exec)"
  eg_Sha256 :: "string \<Rightarrow> string"

record 'd template_context =
  tc_fileData :: "string gomap"
  tc_templateData :: "string gomap"
  tc_data :: 'd
  tc_computingManifestHash :: bool

definition newTemplateContext :: "string gomap \<Rightarrow> 'd \<Rightarrow> 'd template_context" where
  "newTemplateContext fileData d =
     \<lparr>tc_fileData = fileData, tc_templateData = [], tc_data = d, tc_computingManifestHash = False\<rparr>"

primrec execute :: "(string \<Rightarrow> ('s, string) io) \<Rightarrow> exec \<Rightarrow> ('s, string) io" where
  "execute hash (Output t) = ret t"
| "execute hash (ExecError e) = fail e"
| "execute hash (CallManifestHash loc p k) =
     tryE (hash p) (\<lambda>e. fail (Wrapf (loc @ '': error calling manifestHash'') e)) (\<lambda>s. execute hash (k s))"

definition sibling :: "string \<Rightarrow> string \<Rightarrow> string" where
  "sibling originalFile templateFile = path_Clean (path_Join [path_Dir originalFile, templateFile])"

text \<open>\<open>manifestHash\<close>, given how a file is rendered.\<close>

definition manifestHash :: "(string \<Rightarrow> ('d template_context, string) io) \<Rightarrow> 'd engine \<Rightarrow> string \<Rightarrow> string
    \<Rightarrow> ('d template_context, string) io" where
  "manifestHash render g originalFile templateFile c =
     (if tc_computingManifestHash c then fail (Errorf ''manifestHash is not reentrant'') c
      else (let newPath = sibling originalFile templateFile;
                (r, c') = bindE (case m_get (tc_templateData c) newPath of
                    Some text \<Rightarrow> ret text
                  | None \<Rightarrow> render newPath) (\<lambda>text. ret (eg_Sha256 g text))
                  (c\<lparr>tc_computingManifestHash := True\<rparr>) in
            (r, c'\<lparr>tc_computingManifestHash := False\<rparr>)))"

text \<open>\<open>renderTemplate\<close>, with a bound on the depth of its calls of itself through \<open>manifestHash\<close>.\<close>

fun renderTemplate :: "nat \<Rightarrow> 'd engine \<Rightarrow> string \<Rightarrow> ('d template_context, string) io" where
  "renderTemplate 0 g file = (\<lambda>c. (OutOfFuel, c))"
| "renderTemplate (Suc n) g file = (\<lambda>c.
     (case m_get (tc_fileData c) file of
        None \<Rightarrow> fail (Errorf (''template file not found: '' @ file)) c
      | Some content \<Rightarrow>
          (case eg_Parse g file content of
             Inl e \<Rightarrow> fail e c
           | Inr t \<Rightarrow>
               bindE (execute (manifestHash (\<lambda>f. renderTemplate n g f) g file) (t (tc_data c))) (\<lambda>text c'.
                 (Ret text, c'\<lparr>tc_templateData := m_put file text (tc_templateData c')\<rparr>)) c)))"

text \<open>The depth that is enough: a template and the sibling whose hash it wants.\<close>

definition render_depth :: nat where "render_depth = 2"

definition renderSingleTemplate :: "'d engine \<Rightarrow> manifest \<Rightarrow> 'd \<Rightarrow> string outcome" where
  "renderSingleTemplate g m d =
     fst (renderTemplate render_depth g (mf_Path m) (newTemplateContext [(mf_Path m, mf_Contents m)] d))"

section \<open>What rendering means\<close>

text \<open>
  The meaning of a template, without cache, flag and order: its output, where every hash is the hash
  of the text of the sibling.
\<close>

inductive renders :: "'d engine \<Rightarrow> string gomap \<Rightarrow> 'd \<Rightarrow> string \<Rightarrow> string \<Rightarrow> bool"
  and runs :: "'d engine \<Rightarrow> string gomap \<Rightarrow> 'd \<Rightarrow> string \<Rightarrow> exec \<Rightarrow> string \<Rightarrow> bool"
  for g fs d where
  whole: "m_get fs f = Some content \<Longrightarrow> eg_Parse g f content = Inr t \<Longrightarrow> runs g fs d f (t d) text \<Longrightarrow> renders g fs d f text"
| text_out: "runs g fs d f (Output text) text"
| call: "renders g fs d (sibling f p) sib \<Longrightarrow> runs g fs d f (k (eg_Sha256 g sib)) text
    \<Longrightarrow> runs g fs d f (CallManifestHash loc p k) text"

inductive_cases renders_cases: "renders g fs d f text"
inductive_cases runs_output: "runs g fs d f (Output t) text"
inductive_cases runs_error: "runs g fs d f (ExecError e) text"
inductive_cases runs_call: "runs g fs d f (CallManifestHash loc p k) text"

lemma renders_runs_deterministic:
  "renders g fs d f t \<Longrightarrow> \<forall>t'. renders g fs d f t' \<longrightarrow> t' = t"
  "runs g fs d f e t \<Longrightarrow> \<forall>t'. runs g fs d f e t' \<longrightarrow> t' = t"
proof (induction rule: renders_runs.inducts)
  case (whole f content t out)
  show ?case
  proof (intro allI impI)
    fix t'
    assume "renders g fs d f t'"
    then obtain content' u where "m_get fs f = Some content'" "eg_Parse g f content' = Inr u" "runs g fs d f (u d) t'"
      by (rule renders_cases)
    then show "t' = out" using whole by simp
  qed
next
  case (text_out f out)
  then show ?case by (auto elim!: runs_output)
next
  case (call f p sib k out loc)
  show ?case
  proof (intro allI impI)
    fix t'
    assume "runs g fs d f (CallManifestHash loc p k) t'"
    then obtain sib' where "renders g fs d (sibling f p) sib'" "runs g fs d f (k (eg_Sha256 g sib')) t'"
      by (rule runs_call)
    then show "t' = out" using call by auto
  qed
qed

definition sound :: "'d engine \<Rightarrow> 'd template_context \<Rightarrow> bool" where
  "sound g c \<longleftrightarrow> (\<forall>f text. m_get (tc_templateData c) f = Some text \<longrightarrow> renders g (tc_fileData c) (tc_data c) f text)"

text \<open>Two contexts of the same component: same files and data.\<close>

definition same_input :: "'d template_context \<Rightarrow> 'd template_context \<Rightarrow> bool" where
  "same_input c c' \<longleftrightarrow> tc_fileData c' = tc_fileData c \<and> tc_data c' = tc_data c"

lemma sound_computing [simp]: "sound g (c\<lparr>tc_computingManifestHash := b\<rparr>) = sound g c"
  by (simp add: sound_def)

lemma same_input_computing [simp]:
  "same_input (c\<lparr>tc_computingManifestHash := b\<rparr>) c' = same_input c c'"
  "same_input c (c'\<lparr>tc_computingManifestHash := b\<rparr>) = same_input c c'"
  by (simp_all add: same_input_def)

lemma same_input_refl [simp]: "same_input c c"
  by (simp add: same_input_def)

lemma same_input_trans: "same_input a b \<Longrightarrow> same_input b c \<Longrightarrow> same_input a c"
  by (simp add: same_input_def)

text \<open>The contract of a handler for \<open>manifestHash\<close>, and of rendering a file.\<close>

definition hash_ok :: "'d engine \<Rightarrow> string \<Rightarrow> string \<Rightarrow> 'd template_context \<Rightarrow> string outcome \<times> 'd template_context \<Rightarrow> bool" where
  "hash_ok g file p c rc \<longleftrightarrow> sound g (snd rc) \<and> same_input c (snd rc)
     \<and> (\<forall>h. fst rc = Ret h \<longrightarrow> (\<exists>sib. renders g (tc_fileData c) (tc_data c) (sibling file p) sib \<and> h = eg_Sha256 g sib))"

definition render_ok :: "'d engine \<Rightarrow> string \<Rightarrow> 'd template_context \<Rightarrow> string outcome \<times> 'd template_context \<Rightarrow> bool" where
  "render_ok g file c rc \<longleftrightarrow> sound g (snd rc) \<and> same_input c (snd rc)
     \<and> (\<forall>text. fst rc = Ret text \<longrightarrow> renders g (tc_fileData c) (tc_data c) file text)"

lemma execute_runs:
  assumes hash: "\<And>p v. sound g v \<Longrightarrow> hash_ok g file p v (hash p v)"
  shows "sound g c \<Longrightarrow> execute hash e c = (r, c') \<Longrightarrow>
     sound g c' \<and> same_input c c' \<and> (\<forall>text. r = Ret text \<longrightarrow> runs g (tc_fileData c) (tc_data c) file e text)"
proof (induction e arbitrary: c)
  case (Output t)
  then show ?case by (auto simp: ret_def intro: text_out)
next
  case (ExecError e)
  then show ?case by (auto simp: fail_def)
next
  case (CallManifestHash loc p k)
  from CallManifestHash.prems(2) have "tryE (hash p) (\<lambda>e. fail (Wrapf (loc @ '': error calling manifestHash'') e)) (\<lambda>s. execute hash (k s)) c = (r, c')"
    by simp
  then show ?case
  proof (cases rule: tryE_cases)
    case (ok h c1)
    obtain sib where c1: "sound g c1" "same_input c c1"
      and sib: "renders g (tc_fileData c) (tc_data c) (sibling file p) sib" "h = eg_Sha256 g sib"
      using hash [OF CallManifestHash.prems(1), of p] ok(1) by (auto simp: hash_ok_def)
    from CallManifestHash.IH [of "k h" c1] c1 ok(2)
    have "sound g c' \<and> same_input c1 c' \<and> (\<forall>text. r = Ret text \<longrightarrow> runs g (tc_fileData c1) (tc_data c1) file (k h) text)"
      by auto
    then show ?thesis using c1 sib by (auto simp: same_input_def intro: call)
  qed (use hash [OF CallManifestHash.prems(1), of p] in \<open>auto simp: hash_ok_def fail_def\<close>)
qed

lemma render_step:
  assumes hash: "\<And>p v. sound g v \<Longrightarrow> hash_ok g file p v (manifestHash (\<lambda>f. renderTemplate n g f) g file p v)" and c: "sound g c"
  shows "render_ok g file c (renderTemplate (Suc n) g file c)"
proof (cases "m_get (tc_fileData c) file")
  case None
  then show ?thesis using c by (simp add: render_ok_def fail_def)
next
  case (Some content)
  show ?thesis
  proof (cases "eg_Parse g file content")
    case (Inl e)
    then show ?thesis using c Some by (simp add: render_ok_def fail_def)
  next
    case (Inr t)
    obtain r c1 where run: "execute (manifestHash (\<lambda>f. renderTemplate n g f) g file) (t (tc_data c)) c = (r, c1)"
      by (cases "execute (manifestHash (\<lambda>f. renderTemplate n g f) g file) (t (tc_data c)) c")
    note spec = execute_runs [OF hash c run]
    show ?thesis
    proof (cases r)
      case (Ret out)
      then have "renders g (tc_fileData c) (tc_data c) file out" using spec Some Inr by (auto intro: whole)
      then show ?thesis using spec Ret Some Inr run by (auto simp: render_ok_def bindE_def sound_def same_input_def)
    qed (use spec Some Inr run in \<open>auto simp: render_ok_def bindE_def\<close>)
  qed
qed

lemma hash_step:
  assumes render: "\<And>f v. sound g v \<Longrightarrow> render_ok g f v (render f v)" and c: "sound g c"
  shows "hash_ok g file p c (manifestHash render g file p c)"
proof (cases "tc_computingManifestHash c")
  case True
  then show ?thesis using c by (simp add: hash_ok_def fail_def manifestHash_def)
next
  case False
  let ?c = "c\<lparr>tc_computingManifestHash := True\<rparr>" and ?f = "sibling file p"
  let ?get = "case m_get (tc_templateData c) ?f of Some text \<Rightarrow> ret text | None \<Rightarrow> render ?f"
  obtain r c1 where run: "?get ?c = (r, c1)" by (cases "?get ?c")
  have "render_ok g ?f ?c (?get ?c)"
    using render [of ?c ?f] c by (auto simp: render_ok_def ret_def sound_def same_input_def split: option.splits)
  then have spec: "sound g c1" "same_input c c1" "\<And>text. r = Ret text \<Longrightarrow> renders g (tc_fileData c) (tc_data c) ?f text"
    using run by (auto simp: render_ok_def)
  show ?thesis using False spec run
    by (cases r) (auto simp: manifestHash_def hash_ok_def Let_def bindE_def ret_def split: option.splits)
qed

lemma rendering_sound: "sound g c \<Longrightarrow> render_ok g f c (renderTemplate n g f c)"
proof (induction n arbitrary: c f)
  case 0
  then show ?case by (simp add: render_ok_def)
next
  case (Suc n)
  show ?case by (rule render_step [OF hash_step [OF Suc.IH] Suc.prems])
qed

section \<open>Rendering ends\<close>

lemma hash_refused:
  "tc_computingManifestHash c \<Longrightarrow> manifestHash render g f p c = (Fail (Errorf ''manifestHash is not reentrant''), c)"
  by (simp add: manifestHash_def fail_def)

text \<open>Inside a hash the way files are rendered does not matter: no file is.\<close>

lemma execute_inside:
  assumes "tc_computingManifestHash c"
  shows "execute (manifestHash render g f) e c = execute (manifestHash render' g f) e c
     \<and> fst (execute (manifestHash render' g f) e c) \<noteq> OutOfFuel \<and> snd (execute (manifestHash render' g f) e c) = c"
  using assms by (cases e) (auto simp: ret_def fail_def tryE_def hash_refused)

lemma render_by_execution:
  assumes exec: "\<And>e. execute (manifestHash (\<lambda>f. renderTemplate n g f) g f) e c = execute (manifestHash (\<lambda>f. renderTemplate m g f) g f) e c
      \<and> fst (execute (manifestHash (\<lambda>f. renderTemplate m g f) g f) e c) \<noteq> OutOfFuel
      \<and> tc_computingManifestHash (snd (execute (manifestHash (\<lambda>f. renderTemplate m g f) g f) e c)) = tc_computingManifestHash c"
  shows "renderTemplate (Suc n) g f c = renderTemplate (Suc m) g f c
     \<and> fst (renderTemplate (Suc m) g f c) \<noteq> OutOfFuel
     \<and> tc_computingManifestHash (snd (renderTemplate (Suc m) g f c)) = tc_computingManifestHash c"
proof (cases "m_get (tc_fileData c) f")
  case None
  then show ?thesis by (simp add: fail_def)
next
  case (Some content)
  show ?thesis
  proof (cases "eg_Parse g f content")
    case (Inl e)
    then show ?thesis using Some by (simp add: fail_def)
  next
    case (Inr t)
    obtain r c1 where run: "execute (manifestHash (\<lambda>f. renderTemplate m g f) g f) (t (tc_data c)) c = (r, c1)"
      by (cases "execute (manifestHash (\<lambda>f. renderTemplate m g f) g f) (t (tc_data c)) c")
    then show ?thesis using exec [of "t (tc_data c)"] Some Inr by (cases r) (auto simp: bindE_def)
  qed
qed

lemma render_inside:
  assumes c: "tc_computingManifestHash c"
  shows "renderTemplate (Suc n) g f c = renderTemplate (Suc 0) g f c
     \<and> fst (renderTemplate (Suc 0) g f c) \<noteq> OutOfFuel
     \<and> tc_computingManifestHash (snd (renderTemplate (Suc 0) g f c)) = tc_computingManifestHash c"
  by (rule render_by_execution)
    (use execute_inside [OF c, of "\<lambda>f. renderTemplate n g f" g f _ "\<lambda>f. renderTemplate 0 g f"] in auto)

lemma hash_outside:
  assumes c: "\<not> tc_computingManifestHash c"
  shows "manifestHash (\<lambda>f. renderTemplate (Suc n) g f) g f p c = manifestHash (\<lambda>f. renderTemplate (Suc 0) g f) g f p c
     \<and> fst (manifestHash (\<lambda>f. renderTemplate (Suc 0) g f) g f p c) \<noteq> OutOfFuel
     \<and> \<not> tc_computingManifestHash (snd (manifestHash (\<lambda>f. renderTemplate (Suc 0) g f) g f p c))"
proof -
  let ?c = "c\<lparr>tc_computingManifestHash := True\<rparr>" and ?f = "sibling f p"
  have r: "renderTemplate (Suc n) g ?f ?c = renderTemplate (Suc 0) g ?f ?c" "fst (renderTemplate (Suc 0) g ?f ?c) \<noteq> OutOfFuel" for n
    using render_inside [of ?c n g ?f] by simp_all
  obtain q c1 where run: "renderTemplate (Suc 0) g ?f ?c = (q, c1)" by (cases "renderTemplate (Suc 0) g ?f ?c")
  show ?thesis unfolding manifestHash_def using r run c
    by (cases q; cases "m_get (tc_templateData c) ?f") (simp_all add: bindE_def ret_def Let_def del: renderTemplate.simps)
qed

lemma execute_outside:
  "\<not> tc_computingManifestHash c \<Longrightarrow>
     execute (manifestHash (\<lambda>f. renderTemplate (Suc n) g f) g f) e c = execute (manifestHash (\<lambda>f. renderTemplate (Suc 0) g f) g f) e c
     \<and> fst (execute (manifestHash (\<lambda>f. renderTemplate (Suc 0) g f) g f) e c) \<noteq> OutOfFuel
     \<and> \<not> tc_computingManifestHash (snd (execute (manifestHash (\<lambda>f. renderTemplate (Suc 0) g f) g f) e c))"
proof (induction e arbitrary: c)
  case (CallManifestHash loc p k)
  let ?h = "\<lambda>n. manifestHash (\<lambda>f. renderTemplate (Suc n) g f) g f p c"
  obtain r c1 where run: "?h 0 = (r, c1)" by (cases "?h 0")
  then have c1: "?h n = (r, c1)" "r \<noteq> OutOfFuel" "\<not> tc_computingManifestHash c1"
    using hash_outside [OF CallManifestHash.prems, of n g f p] by auto
  show ?case using run c1 CallManifestHash.IH [of _ c1]
    by (cases r) (auto simp: tryE_def fail_def simp del: renderTemplate.simps)
qed (auto simp: ret_def fail_def)

text \<open>
  Claim C21. Rendering a template always ends: the flag that refuses a hash inside a hash bounds the
  depth of the calls, so that whatever the templates are, a depth of two gives the result and no
  larger depth changes it. Afterwards hashes can be computed again, whether or not it failed.
\<close>

theorem rendering_ends:
  assumes c: "\<not> tc_computingManifestHash c"
  shows "renderTemplate (render_depth + n) g f c = renderTemplate render_depth g f c
     \<and> fst (renderTemplate render_depth g f c) \<noteq> OutOfFuel
     \<and> \<not> tc_computingManifestHash (snd (renderTemplate render_depth g f c))"
proof -
  have "renderTemplate (Suc (Suc n)) g f c = renderTemplate (Suc (Suc 0)) g f c
     \<and> fst (renderTemplate (Suc (Suc 0)) g f c) \<noteq> OutOfFuel
     \<and> tc_computingManifestHash (snd (renderTemplate (Suc (Suc 0)) g f c)) = tc_computingManifestHash c"
    by (rule render_by_execution) (use execute_outside [OF c] c in \<open>auto simp del: renderTemplate.simps\<close>)
  moreover have "render_depth = Suc (Suc 0)" "render_depth + n = Suc (Suc n)" by (simp_all add: render_depth_def)
  ultimately show ?thesis using c by metis
qed

section \<open>The order of rendering\<close>

text \<open>The contexts of a component: a new one, and the ones after rendering a file, successfully or not.\<close>

inductive component_context :: "'d engine \<Rightarrow> string gomap \<Rightarrow> 'd \<Rightarrow> 'd template_context \<Rightarrow> bool" for g fs d where
  initial: "component_context g fs d (newTemplateContext fs d)"
| rendered: "component_context g fs d c \<Longrightarrow> component_context g fs d (snd (renderTemplate render_depth g f c))"

lemma component_context_sound:
  "component_context g fs d c \<Longrightarrow> sound g c \<and> tc_fileData c = fs \<and> tc_data c = d"
proof (induction rule: component_context.induct)
  case initial
  then show ?case by (simp add: sound_def newTemplateContext_def)
next
  case (rendered c f)
  then show ?case using rendering_sound [of g c f render_depth] by (auto simp: render_ok_def same_input_def)
qed

text \<open>
  Claim C5. The text of a template does not depend on what was rendered before: in every context of
  a component a successful rendering gives the meaning of the template, which is unique; the cached
  texts and the order of the files have no influence on it.
\<close>

theorem rendering_refines_meaning:
  assumes "component_context g fs d c" and "renderTemplate render_depth g f c = (Ret out, c')"
  shows "renders g fs d f out \<and> (\<forall>t. renders g fs d f t \<longrightarrow> t = out)"
proof -
  have r: "renders g fs d f out"
    using component_context_sound [OF assms(1)] rendering_sound [of g c f render_depth] assms(2)
    by (auto simp: render_ok_def)
  show ?thesis by (rule conjI [OF r renders_runs_deterministic(1) [OF r]])
qed

text \<open>A small engine: a template that starts with an at sign writes the hash of the named sibling.\<close>

definition sample_engine :: "unit engine" where
  "sample_engine = \<lparr>eg_Parse = (\<lambda>f s. Inr (\<lambda>_. case s of
       [] \<Rightarrow> Output []
     | x # p \<Rightarrow> if x = CHR ''@'' then CallManifestHash f p (\<lambda>h. Output h) else Output s)),
     eg_Sha256 = (\<lambda>s. CHR ''#'' # s)\<rparr>"

definition sample_files :: "string gomap" where
  "sample_files = [(''m/a'', ''@b''), (''m/b'', ''@c''), (''m/c'', ''x'')]"

theorem rendering_ends_witness:
  "fst (renderTemplate (render_depth + 7) sample_engine ''m/a'' (newTemplateContext sample_files ()))
     = fst (renderTemplate render_depth sample_engine ''m/a'' (newTemplateContext sample_files ()))"
  using rendering_ends [of "newTemplateContext sample_files ()" 7 sample_engine "''m/a''"]
  by (simp add: newTemplateContext_def)

theorem rendering_refines_meaning_witness:
  "fst (renderTemplate render_depth sample_engine ''m/b'' (newTemplateContext sample_files ())) = Ret ''#x''
   \<and> renders sample_engine sample_files () ''m/b'' ''#x''"
proof -
  let ?c = "newTemplateContext sample_files ()"
  have run: "fst (renderTemplate render_depth sample_engine ''m/b'' ?c) = Ret ''#x''" by code_simp
  then have "renderTemplate render_depth sample_engine ''m/b'' ?c
      = (Ret ''#x'', snd (renderTemplate render_depth sample_engine ''m/b'' ?c))" by (metis prod.collapse)
  from run rendering_refines_meaning [OF initial this] show ?thesis by simp
qed

text \<open>
  Whether a rendering succeeds does depend on the order: a hash of a template that itself computes a
  hash is refused, unless that template happens to have been rendered before.
\<close>

lemma nested_hash_depends_on_order:
  "fst (renderTemplate render_depth sample_engine ''m/a'' (newTemplateContext sample_files ()))
     = Fail (Wrapf ''m/a: error calling manifestHash'' (Wrapf ''m/b: error calling manifestHash'' (Errorf ''manifestHash is not reentrant'')))"
  "fst (renderTemplate render_depth sample_engine ''m/a''
     (snd (renderTemplate render_depth sample_engine ''m/b'' (newTemplateContext sample_files ())))) = Ret ''##x''"
  by code_simp+

end
