(* ===== verification/Node_Pool_Backend.thy ===== *)
theory Node_Pool_Backend
  imports Api_Cluster
begin

text \<open>
  Node pools as the update strategies see them (\<open>pkg/updatestrategy/updatestrategy.go\<close>), the
  interfaces of a node pool backend and of a node pool manager as records of operations, the
  backend that chooses by profile, and the environment of a running operation: the clock, sleeping
  and the context.
\<close>

section \<open>Data\<close>

record taint =
  tn_Key :: string
  tn_Value :: string
  tn_Effect :: string

record node =
  nd_Name :: string
  nd_Annotations :: "string gomap"
  nd_Labels :: "string gomap"
  nd_Taints :: "taint list"
  nd_Cordoned :: bool
  nd_ProviderID :: string
  nd_FailureDomain :: string
  nd_Generation :: int
  nd_VolumesAttached :: bool
  nd_Ready :: bool
  nd_Master :: bool

record pool =
  pl_Min :: int
  pl_Desired :: int
  pl_Current :: int
  pl_Max :: int
  pl_Generation :: int
  pl_Nodes :: "node list"

definition ReadyNodes :: "pool \<Rightarrow> node list" where
  "ReadyNodes n = filter nd_Ready (pl_Nodes n)"

section \<open>Interfaces\<close>

record 'w backend =
  bk_Get :: "node_pool \<Rightarrow> ('w, pool) io"
  bk_Scale :: "node_pool \<Rightarrow> int \<Rightarrow> ('w, unit) io"
  bk_MarkForDecommission :: "node_pool \<Rightarrow> ('w, unit) io"
  bk_Terminate :: "node_pool \<Rightarrow> node \<Rightarrow> bool \<Rightarrow> ('w, unit) io"

record 'w pool_manager =
  pm_GetPool :: "node_pool \<Rightarrow> ('w, pool) io"
  pm_MarkNodeForDecommission :: "node \<Rightarrow> ('w, unit) io"
  pm_AbortNodeDecommissioning :: "node \<Rightarrow> ('w, unit) io"
  pm_ScalePool :: "node_pool \<Rightarrow> int \<Rightarrow> ('w, unit) io"
  pm_TerminateNode :: "node_pool \<Rightarrow> node \<Rightarrow> bool \<Rightarrow> ('w, unit) io"
  pm_MarkPoolForDecommission :: "node_pool \<Rightarrow> ('w, unit) io"
  pm_DisableReplacementNodeProvisioning :: "node \<Rightarrow> ('w, unit) io"
  pm_CordonNode :: "node \<Rightarrow> ('w, unit) io"

text \<open>
  The environment: the time, the world after sleeping for a while, and the error of the context
  once it is done.
\<close>

record 'w env =
  en_now :: "'w \<Rightarrow> int"
  en_sleep :: "int \<Rightarrow> 'w \<Rightarrow> 'w"
  en_err :: "'w \<Rightarrow> go_error option"

text \<open>A context derived with a deadline.\<close>

definition with_deadline :: "int \<Rightarrow> 'w env \<Rightarrow> 'w env" where
  "with_deadline t e = e\<lparr>en_err := (\<lambda>w. case en_err e w of
      Some err \<Rightarrow> Some err
    | None \<Rightarrow> if t \<le> en_now e w then Some DeadlineExceeded else None)\<rparr>"

text \<open>\<open>select { case <-ctx.Done(): return ctx.Err(); case <-time.After(d): }\<close>\<close>

definition wait :: "'w env \<Rightarrow> int \<Rightarrow> ('w, unit) io" where
  "wait e d w = check (en_err e) (en_sleep e d w)"

definition sleep :: "'w env \<Rightarrow> int \<Rightarrow> ('w, unit) io" where
  "sleep e d w = (Ret (), en_sleep e d w)"

definition second :: int where "second = 1000000000"
definition minute :: int where "minute = 60 * second"

section \<open>Choice of a backend by profile\<close>

definition by_profile :: "'w backend \<Rightarrow> 'w backend gomap \<Rightarrow> node_pool \<Rightarrow> 'w backend" where
  "by_profile dflt mapping np = (case m_get mapping (np_Profile np) of Some b \<Rightarrow> b | None \<Rightarrow> dflt)"

definition ProfileNodePoolProvisioner :: "'w backend \<Rightarrow> 'w backend gomap \<Rightarrow> 'w backend" where
  "ProfileNodePoolProvisioner dflt mapping =
     \<lparr>bk_Get = (\<lambda>np. bk_Get (by_profile dflt mapping np) np),
      bk_Scale = (\<lambda>np. bk_Scale (by_profile dflt mapping np) np),
      bk_MarkForDecommission = (\<lambda>np. bk_MarkForDecommission (by_profile dflt mapping np) np),
      bk_Terminate = (\<lambda>np. bk_Terminate (by_profile dflt mapping np) np)\<rparr>"

section \<open>Lemmas\<close>

lemma keeps_wait: "(\<And>w. I w \<Longrightarrow> I (en_sleep e d w)) \<Longrightarrow> keeps I (wait e d)"
  by (auto simp: keeps_def wait_def check_def split: option.splits)

lemma keeps_sleep: "(\<And>w. I w \<Longrightarrow> I (en_sleep e d w)) \<Longrightarrow> keeps I (sleep e d)"
  by (auto simp: keeps_def sleep_def)

lemma with_deadline_simps [simp]: "en_now (with_deadline t e) = en_now e" "en_sleep (with_deadline t e) = en_sleep e"
  by (simp_all add: with_deadline_def)

section \<open>Polling loops\<close>

text \<open>
  The waiting loops of the program have one shape: look (\<open>Some r\<close>: leave with the outcome \<open>r\<close>), and
  otherwise pause for \<open>d\<close>, giving up when the context is done.
\<close>

locale polling =
  fixes e :: "'w env" and d :: int and look :: "'w \<Rightarrow> 'a outcome option \<times> 'w"
    and give_up :: "go_error \<Rightarrow> go_error" and loop :: "nat \<Rightarrow> ('w, 'a) io"
  assumes loop_0: "loop 0 w = (OutOfFuel, w)"
    and loop_Suc: "loop (Suc k) w = (case look w of
        (Some r, w') \<Rightarrow> (r, w')
      | (None, w') \<Rightarrow> tryE (wait e d) (\<lambda>err. fail (give_up err)) (\<lambda>_. loop k) w')"
begin

lemma result:
  "loop k w = (r, w') \<Longrightarrow> r = OutOfFuel \<or> (\<exists>v. look v = (Some r, w')) \<or> (\<exists>err. en_err e w' = Some err \<and> r = Fail (give_up err))"
proof (induction k arbitrary: w)
  case 0
  then show ?case by (simp add: loop_0)
next
  case (Suc k)
  obtain l w1 where l: "look w = (l, w1)" by (cases "look w")
  show ?case
  proof (cases l)
    case (Some q)
    then show ?thesis using Suc.prems l by (auto simp: loop_Suc)
  next
    case None
    then show ?thesis using Suc l
      by (cases "en_err e (en_sleep e d w1)") (auto simp: loop_Suc tryE_def wait_def check_def fail_def)
  qed
qed

lemma returns: "loop k w = (Ret x, w') \<Longrightarrow> \<exists>v. look v = (Some (Ret x), w')"
  by (drule result) simp

lemma ends:
  assumes looks: "\<And>w. en_now e w \<le> en_now e (snd (look w))" "\<And>w. fst (look w) \<noteq> Some OutOfFuel"
    and pause: "\<And>w. en_now e w + d \<le> en_now e (en_sleep e d w)"
    and deadline: "\<And>w. t \<le> en_now e w \<Longrightarrow> en_err e w \<noteq> None"
  shows "0 < k \<Longrightarrow> t \<le> en_now e w + int k * d \<Longrightarrow> fst (loop k w) \<noteq> OutOfFuel"
proof (induction k arbitrary: w)
  case (Suc k)
  obtain l w1 where l: "look w = (l, w1)" by (cases "look w")
  have now1: "en_now e w \<le> en_now e w1" and noloop: "l \<noteq> Some OutOfFuel" using looks [of w] l by auto
  let ?w2 = "en_sleep e d w1"
  have now2: "en_now e w1 + d \<le> en_now e ?w2" by (rule pause)
  show ?case
  proof (cases "l = None \<and> en_err e ?w2 = None")
    case False
    then show ?thesis using l noloop
      by (cases l) (auto simp: loop_Suc tryE_def wait_def check_def fail_def split: option.splits)
  next
    case True
    then have late: "en_now e ?w2 < t" using deadline [of ?w2] by fastforce
    have "0 < k" using late now1 now2 Suc.prems(2) by (cases k) auto
    moreover have "t \<le> en_now e ?w2 + int k * d" using now1 now2 Suc.prems(2) by (simp add: algebra_simps)
    ultimately have "fst (loop k ?w2) \<noteq> OutOfFuel" by (rule Suc.IH)
    then show ?thesis using l True by (simp add: loop_Suc tryE_def wait_def check_def)
  qed
qed simp

end

lemma with_deadline_due: "t \<le> en_now e w \<Longrightarrow> en_err (with_deadline t e) w \<noteq> None"
  by (simp add: with_deadline_def split: option.splits)

text \<open>A look made of one call and a test of its value.\<close>

definition look_at :: "('w, 'b) io \<Rightarrow> ('b \<Rightarrow> 'a outcome option) \<Rightarrow> 'w \<Rightarrow> 'a outcome option \<times> 'w" where
  "look_at m leave w = (case m w of
     (Ret x, w') \<Rightarrow> (leave x, w')
   | (Fail err, w') \<Rightarrow> (Some (Fail err), w')
   | (Panic s, w') \<Rightarrow> (Some (Panic s), w')
   | (OutOfFuel, w') \<Rightarrow> (Some OutOfFuel, w'))"

lemma look_at_leaves:
  "look_at m leave w = (Some (Ret r), w') \<Longrightarrow> \<exists>x. m w = (Ret x, w') \<and> leave x = Some (Ret r)"
  by (auto simp: look_at_def split: prod.splits outcome.splits)

lemma look_leaves:
  "\<exists>v. look_at m leave v = (Some (Ret r), w') \<Longrightarrow> \<exists>v x. m v = (Ret x, w') \<and> leave x = Some (Ret r)"
  using look_at_leaves by metis

lemma look_at_fails:
  "look_at m leave v = (Some (Fail err), w') \<Longrightarrow>
     m v = (Fail err, w') \<or> (\<exists>x. m v = (Ret x, w') \<and> leave x = Some (Fail err))"
  by (auto simp: look_at_def split: prod.splits outcome.splits)

lemma snd_look_at [simp]: "snd (look_at m leave w) = snd (m w)"
  by (simp add: look_at_def split: prod.splits outcome.splits)

lemma look_at_total: "fst (m w) \<noteq> OutOfFuel \<Longrightarrow> (\<And>x. leave x \<noteq> Some OutOfFuel) \<Longrightarrow> fst (look_at m leave w) \<noteq> Some OutOfFuel"
  by (auto simp: look_at_def split: prod.splits outcome.splits)

end
