(* ===== verification/AWS_Stacks.thy ===== *)
theory AWS_Stacks
  imports Node_Pool_Backend
begin

text \<open>
  The AWS adapter of the provisioner (\<open>provisioner/aws.go\<close>): applying, listing, waiting for and
  deleting CloudFormation stacks, and the smaller calls for buckets, volumes, certificates, VPCs,
  subnets, tags, the EKS cluster and leaked network interfaces. The AWS SDK, the YAML parser, the
  hash and the retry helper are fields of a record; a stack status is the string the SDK uses.
\<close>

section \<open>Data\<close>

record stack =
  sk_Name :: string
  sk_Status :: string
  sk_Reason :: "string option"
  sk_LastUpdated :: "int option"
  sk_Tags :: "(string \<times> string) list"
  sk_Outputs :: "(string \<times> string) list"

record stack_policy_statement =
  ps_Effect :: string
  ps_Action :: "string list"
  ps_Principal :: string
  ps_Resource :: "string list"
  ps_NotResource :: "string list"
  ps_Condition :: "string list option"

type_synonym stack_policy = "stack_policy_statement list"

record create_stack =
  cs_StackName :: string
  cs_OnFailure :: string
  cs_Capabilities :: "string list"
  cs_TerminationProtection :: bool
  cs_Tags :: "(string \<times> string) list"
  cs_TemplateURL :: "string option"
  cs_TemplateBody :: "string option"

record update_stack =
  us_StackName :: string
  us_Capabilities :: "string list"
  us_Tags :: "(string \<times> string) list"
  us_Policy :: "stack_policy option"
  us_TemplateURL :: "string option"
  us_TemplateBody :: "string option"

record cf_manifest =
  cf_StackName :: string
  cf_Tags :: "string gomap"
  cf_Template :: string
  cf_Path :: string

record subnet =
  sn_SubnetId :: string
  sn_AvailabilityZone :: string
  sn_CidrBlock :: string
  sn_Ipv6CidrBlocks :: "string list"
  sn_Tags :: "(string \<times> string) list"

record vpc =
  vp_VpcId :: string
  vp_IsDefault :: bool
  vp_CidrBlock :: string
  vp_Ipv6CidrBlocks :: "string list"

record volume =
  vo_VolumeId :: string
  vo_State :: string

record eks_cluster =
  ek_Endpoint :: string
  ek_CertificateAuthority :: string
  ek_Issuer :: string
  ek_IpFamily :: string
  ek_ServiceIpv4Cidr :: string
  ek_ServiceIpv6Cidr :: string

record EKSClusterDetails =
  ed_Endpoint :: string
  ed_CertificateAuthority :: string
  ed_OIDCIssuerURL :: string
  ed_ServiceCIDR :: string

text \<open>
  The outside: CloudFormation, S3, EC2, ACM, EKS, KMS and STS, the YAML parser for stack templates,
  \<open>sha256\<close> in hexadecimal, base64 and \<open>backoff.Retry\<close> with its configuration. A call made through
  a paginator gives the items of all pages; a certificate is an identifier with what the ingress
  controller's library makes of it.
\<close>

record ('w, 'c) aws_api =
  aw_CallerAccount :: "('w, string) io"
  aw_CreateStack :: "create_stack \<Rightarrow> ('w, unit) io"
  aw_UpdateTerminationProtection :: "string \<Rightarrow> bool \<Rightarrow> ('w, unit) io"
  aw_UpdateStack :: "update_stack \<Rightarrow> ('w, unit) io"
  aw_DeleteStack :: "string \<Rightarrow> ('w, unit) io"
  aw_DescribeStack :: "string \<Rightarrow> ('w, stack list) io"
  aw_DescribeStacks :: "('w, stack list) io"
  aw_Upload :: "string \<Rightarrow> string \<Rightarrow> string \<Rightarrow> ('w, string) io"
  aw_CreateBucket :: "string \<Rightarrow> string \<Rightarrow> ('w, unit) io"
  aw_DescribeVolumes :: "(string \<times> string list) list \<Rightarrow> ('w, volume list) io"
  aw_DeleteVolume :: "string \<Rightarrow> ('w, unit) io"
  aw_ListCertificates :: "('w, string list) io"
  aw_GetCertificate :: "string \<Rightarrow> ('w, string \<times> string option) io"
  aw_DescribeVpcs :: "string list \<Rightarrow> ('w, vpc list) io"
  aw_DescribeSubnets :: "string \<Rightarrow> ('w, subnet list) io"
  aw_CreateTags :: "string \<Rightarrow> (string \<times> string) list \<Rightarrow> ('w, unit) io"
  aw_DeleteTags :: "string \<Rightarrow> (string \<times> string) list \<Rightarrow> ('w, unit) io"
  aw_DescribeEKS :: "string \<Rightarrow> ('w, eks_cluster) io"
  aw_NetworkInterfaces :: "(string \<times> string list) list \<Rightarrow> ('w, string list) io"
  aw_DeleteNetworkInterface :: "string \<Rightarrow> ('w, unit) io"
  aw_DescribeKey :: "string \<Rightarrow> ('w, string) io"
  aw_Encrypt :: "string \<Rightarrow> string \<Rightarrow> ('w, string) io"
  aw_Base64 :: "string \<Rightarrow> string"
  aw_Sha256 :: "string \<Rightarrow> string"
  aw_ParseTemplate :: "string \<Rightarrow> go_error + cf_manifest"
  aw_ParseCertificate :: "string \<Rightarrow> string option \<Rightarrow> string \<Rightarrow> go_error + 'c"
  aw_RetryFor :: "int \<Rightarrow> ('w, unit) io \<Rightarrow> ('w, unit) io"
  aw_Retries :: "nat \<Rightarrow> ('w, unit) io \<Rightarrow> ('w, unit) io"
  aw_region :: string

definition waitTime :: int where "waitTime = 15 * second"
definition maxWaitTimeout :: int where "maxWaitTimeout = 25 * minute"
definition stackMaxSize :: nat where "stackMaxSize = 51200"
definition stackUpdateRetryDuration :: int where "stackUpdateRetryDuration = 5 * minute"
definition cloudformationNoUpdateMsg :: string where "cloudformationNoUpdateMsg = ''No updates are to be performed.''"
definition tagNameKubernetesClusterPrefix :: string where "tagNameKubernetesClusterPrefix = ''kubernetes.io/cluster/''"
definition lifecycleOwned :: string where "lifecycleOwned = ''owned''"
definition mainStackTagKey :: string where "mainStackTagKey = ''cluster-lifecycle-controller.zalando.org/main-stack''"
definition stackTagValueTrue :: string where "stackTagValueTrue = ''true''"

text \<open>The zero value of \<open>time.Time\<close>, the first of January of the year 1, in nanoseconds of Unix time.\<close>

definition zeroTime :: int where "zeroTime = -62135596800 * second"

definition stack_failed :: "string \<Rightarrow> go_error" where
  "stack_failed status = Sentinel (''wait for stack failed with '' @ status)"

definition errTimeoutExceeded :: go_error where "errTimeoutExceeded = Sentinel ''wait for stack timeout exceeded''"
definition errDeleteCanceled :: go_error where "errDeleteCanceled = Sentinel ''stack deletion was canceled''"
definition errCreateFailedDeleted :: go_error where
  "errCreateFailedDeleted = Sentinel ''stack creation failed and was automatically deleted (OnFailure=DELETE)''"

section \<open>Errors of the API\<close>

text \<open>\<open>errors.As(err, &apiErr)\<close>: the code and message of the API error in the chain.\<close>

fun as_api_error :: "go_error \<Rightarrow> (string \<times> string) option" where
  "as_api_error (APIError c m) = Some (c, m)"
| "as_api_error (Wrapf s e) = as_api_error e"
| "as_api_error _ = None"

definition has_code :: "string \<Rightarrow> go_error \<Rightarrow> bool" where
  "has_code code e \<longleftrightarrow> (case as_api_error e of Some (c, m) \<Rightarrow> c = code | None \<Rightarrow> False)"

definition validation_error :: "(string \<Rightarrow> bool) \<Rightarrow> go_error \<Rightarrow> bool" where
  "validation_error p e \<longleftrightarrow> (case as_api_error e of Some (c, m) \<Rightarrow> c = ''ValidationError'' \<and> p m | None \<Rightarrow> False)"

definition isDoesNotExistsErr :: "go_error \<Rightarrow> bool" where
  "isDoesNotExistsErr = validation_error (\<lambda>m. contains_str m ''does not exist'')"

definition isStackNoUpdateNeededErr :: "go_error \<Rightarrow> bool" where
  "isStackNoUpdateNeededErr = validation_error (\<lambda>m. contains_str m cloudformationNoUpdateMsg)"

definition isStackUpdateInProgressErr :: "go_error \<Rightarrow> bool" where
  "isStackUpdateInProgressErr = validation_error (\<lambda>m. contains_str m ''UPDATE_IN_PROGRESS''
     \<or> contains_str m ''UPDATE_COMPLETE_CLEANUP_IN_PROGRESS'')"

section \<open>Tags\<close>

text \<open>A later list wins; a list of tags as a map.\<close>

definition tagsToMap :: "(string \<times> string) list \<Rightarrow> string gomap" where
  "tagsToMap tags = fold (\<lambda>(k, v). m_put k v) tags []"

definition mergeTags :: "string gomap list \<Rightarrow> string gomap" where
  "mergeTags ms = fold (\<lambda>m acc. fold (\<lambda>(k, v). m_put k v) m acc) ms []"

definition tagMapToCloudformationTags :: "string gomap \<Rightarrow> (string \<times> string) list" where
  "tagMapToCloudformationTags tags = map (\<lambda>(k, v). (k, v)) tags"

definition tagsFromStackTemplate :: "('w, 'c) aws_api \<Rightarrow> string \<Rightarrow> go_error + string gomap" where
  "tagsFromStackTemplate a template =
     (case aw_ParseTemplate a template of Inl e \<Rightarrow> Inl e | Inr m \<Rightarrow> Inr (cf_Tags m))"

definition cloudformationHasTags :: "string gomap \<Rightarrow> (string \<times> string) list \<Rightarrow> bool" where
  "cloudformationHasTags expected tags =
     (if length expected > length tags then False
      else list_all (\<lambda>(k, v). m_get (tagsToMap tags) k = Some v) expected)"

definition cloudformationDoesNotHaveTags :: "string gomap \<Rightarrow> (string \<times> string) list \<Rightarrow> bool" where
  "cloudformationDoesNotHaveTags excluded tags =
     list_all (\<lambda>(k, v). m_get (tagsToMap tags) k \<noteq> Some v) excluded"

section \<open>Applying stacks\<close>

definition update_attempt :: "('w, 'c) aws_api \<Rightarrow> update_stack \<Rightarrow> ('w, unit) io" where
  "update_attempt a u =
     tryE (aw_UpdateStack a u)
       (\<lambda>e. if isStackNoUpdateNeededErr e then ret ()
            else if isStackUpdateInProgressErr e then fail e
            else fail (Permanent e)) ret"

definition applyStack :: "('w, 'c) aws_api \<Rightarrow> string \<Rightarrow> string \<Rightarrow> string \<Rightarrow> string gomap \<Rightarrow> bool \<Rightarrow> stack_policy option
    \<Rightarrow> ('w, unit) io" where
  "applyStack a name template url tags updateStack policy =
     (case tagsFromStackTemplate a template of
        Inl e \<Rightarrow> fail (Errorf (''failed to parse tags from stack template '' @ name @ '': '' @ error_text e))
      | Inr templateTags \<Rightarrow>
          let cfTags = tagMapToCloudformationTags (mergeTags [templateTags, tags]);
              url' = (if url \<noteq> [] then Some url else None);
              body = (if url \<noteq> [] then None else Some template) in
          tryE (aw_CreateStack a \<lparr>cs_StackName = name, cs_OnFailure = ''DELETE'',
                  cs_Capabilities = [''CAPABILITY_NAMED_IAM''], cs_TerminationProtection = True, cs_Tags = cfTags,
                  cs_TemplateURL = url', cs_TemplateBody = body\<rparr>)
            (\<lambda>e. if has_code ''AlreadyExistsException'' e
                 then bindE (aw_UpdateTerminationProtection a name True) (\<lambda>_.
                   if updateStack
                   then aw_RetryFor a stackUpdateRetryDuration (update_attempt a
                          \<lparr>us_StackName = name, us_Capabilities = [''CAPABILITY_NAMED_IAM''], us_Tags = cfTags,
                           us_Policy = policy, us_TemplateURL = url', us_TemplateBody = body\<rparr>)
                   else ret ())
                 else fail e)
            ret)"

definition upload_if_large :: "('w, 'c) aws_api \<Rightarrow> string \<Rightarrow> string \<Rightarrow> string \<Rightarrow> ('w, string) io" where
  "upload_if_large a bucket key template =
     (if length template > stackMaxSize then aw_Upload a bucket key template else ret [])"

definition applyClusterStack :: "('w, 'c) aws_api \<Rightarrow> string \<Rightarrow> string \<Rightarrow> ('a) account_cluster_scheme \<Rightarrow> string \<Rightarrow> ('w, unit) io" where
  "applyClusterStack a name template c bucket =
     bindE (upload_if_large a bucket (cl_ID c @ ''.template'') template) (\<lambda>url.
       applyStack a name template url
         [(tagNameKubernetesClusterPrefix @ cl_ID c, lifecycleOwned), (mainStackTagKey, stackTagValueTrue)] True None)"

definition applyCFManifest :: "('w, 'c) aws_api \<Rightarrow> cf_manifest \<Rightarrow> string \<Rightarrow> string \<Rightarrow> ('w, unit) io" where
  "applyCFManifest a m clusterID bucket =
     bindE (upload_if_large a bucket (aw_Sha256 a (cf_Path m) @ ''.template'') (cf_Template m)) (\<lambda>url.
       applyStack a (cf_StackName m) (cf_Template m) url
         [(tagNameKubernetesClusterPrefix @ clusterID, lifecycleOwned)] True None)"

section \<open>Waiting\<close>

definition getStackByName :: "('w, 'c) aws_api \<Rightarrow> string \<Rightarrow> ('w, stack) io" where
  "getStackByName a name =
     bindE (aw_DescribeStack a name) (\<lambda>ss.
       case ss of
         [s] \<Rightarrow> ret s
       | _ \<Rightarrow> fail (Errorf (''unexpected response, got '' @ nat_str (length ss) @ '', expected 1 stack'')))"

definition with_reason :: "stack \<Rightarrow> go_error \<Rightarrow> go_error" where
  "with_reason s e = (case sk_Reason s of
     Some r \<Rightarrow> Errorf (error_text e @ '', reason: '' @ r)
   | None \<Rightarrow> e)"

definition failed_status :: "string \<Rightarrow> go_error option" where
  "failed_status st =
     (if st = ''DELETE_COMPLETE'' then Some errCreateFailedDeleted
      else if st \<in> set [''CREATE_FAILED'', ''DELETE_FAILED'', ''ROLLBACK_COMPLETE'', ''ROLLBACK_FAILED'',
                        ''UPDATE_ROLLBACK_COMPLETE'', ''UPDATE_ROLLBACK_FAILED''] then Some (stack_failed st)
      else None)"

fun waitForStack :: "nat \<Rightarrow> 'w env \<Rightarrow> ('w, 'c) aws_api \<Rightarrow> int \<Rightarrow> string \<Rightarrow> ('w, unit) io" where
  "waitForStack 0 e a d name = (\<lambda>w. (OutOfFuel, w))"
| "waitForStack (Suc k) e a d name =
     bindE (getStackByName a name) (\<lambda>s.
       if sk_Status s = ''UPDATE_COMPLETE'' \<or> sk_Status s = ''CREATE_COMPLETE'' then ret ()
       else (case failed_status (sk_Status s) of
               Some err \<Rightarrow> fail (with_reason s err)
             | None \<Rightarrow> tryE (wait e d) (\<lambda>_. fail errTimeoutExceeded) (\<lambda>_. waitForStack k e a d name)))"

definition failed_deletion :: "int \<Rightarrow> stack \<Rightarrow> go_error option" where
  "failed_deletion startedAt s =
     (if sk_Status s = ''DELETE_FAILED'' then Some (stack_failed ''DELETE_FAILED'')
      else if sk_Status s \<in> set [''UPDATE_COMPLETE'', ''CREATE_COMPLETE'', ''ROLLBACK_COMPLETE'', ''UPDATE_ROLLBACK_COMPLETE'']
      then (case sk_LastUpdated s of
              Some t \<Rightarrow> if t > startedAt then Some errDeleteCanceled else None
            | None \<Rightarrow> None)
      else None)"

fun waitForStackDeletion :: "nat \<Rightarrow> 'w env \<Rightarrow> ('w, 'c) aws_api \<Rightarrow> int \<Rightarrow> string \<Rightarrow> int \<Rightarrow> ('w, unit) io" where
  "waitForStackDeletion 0 e a d name startedAt = (\<lambda>w. (OutOfFuel, w))"
| "waitForStackDeletion (Suc k) e a d name startedAt =
     bindE (getStackByName a name) (\<lambda>s.
       if sk_Status s = ''DELETE_COMPLETE'' then ret ()
       else (case failed_deletion startedAt s of
               Some err \<Rightarrow> fail (with_reason s err)
             | None \<Rightarrow> tryE (wait e d) (\<lambda>_. fail errTimeoutExceeded) (\<lambda>_. waitForStackDeletion k e a d name startedAt)))"

definition ListStacks :: "('w, 'c) aws_api \<Rightarrow> string gomap \<Rightarrow> string gomap \<Rightarrow> ('w, stack list) io" where
  "ListStacks a includeTags excludeTags =
     bindE (aw_DescribeStacks a) (\<lambda>ss.
       ret (filter (\<lambda>s. cloudformationHasTags includeTags (sk_Tags s)
                       \<and> cloudformationDoesNotHaveTags excludeTags (sk_Tags s)) ss))"

definition isStackDeleting :: "stack \<Rightarrow> bool" where
  "isStackDeleting s \<longleftrightarrow> sk_Status s = ''DELETE_IN_PROGRESS'' \<or> sk_Status s = ''DELETE_COMPLETE''"

text \<open>The part of \<open>DeleteStack\<close> after the deletion was requested or found in progress.\<close>

definition await_deletion :: "nat \<Rightarrow> 'w env \<Rightarrow> ('w, 'c) aws_api \<Rightarrow> string \<Rightarrow> int \<Rightarrow> ('w, unit) io" where
  "await_deletion fuel e a name startedAt w =
     tryE (waitForStackDeletion fuel (with_deadline (en_now e w + maxWaitTimeout) e) a waitTime name startedAt)
       (\<lambda>err. if isDoesNotExistsErr err then ret () else fail err) ret w"

definition aws_DeleteStack :: "nat \<Rightarrow> 'w env \<Rightarrow> ('w, 'c) aws_api \<Rightarrow> stack \<Rightarrow> ('w, unit) io" where
  "aws_DeleteStack fuel e a s =
     (let name = sk_Name s in
      if isStackDeleting s then await_deletion fuel e a name zeroTime
      else
        tryE (aw_UpdateTerminationProtection a name False)
          (\<lambda>err. if isDoesNotExistsErr err then ret () else fail err)
          (\<lambda>_ w. tryE (aw_DeleteStack a name)
             (\<lambda>err. if isDoesNotExistsErr err then ret () else fail err)
             (\<lambda>_. await_deletion fuel e a name (en_now e w)) w))"

section \<open>Other calls of the adapter\<close>

text \<open>\<open>strings.Split(ia, ":")[1]\<close>, with the panic of an index out of range.\<close>

definition getAWSAccountID :: "string \<Rightarrow> string option" where
  "getAWSAccountID ia = (case split_on (CHR '':'') ia of _ # x # _ \<Rightarrow> Some x | _ \<Rightarrow> None)"

definition VerifyAccount :: "('w, 'c) aws_api \<Rightarrow> string \<Rightarrow> ('w, unit) io" where
  "VerifyAccount a account =
     bindE (aw_CallerAccount a) (\<lambda>effective.
       case getAWSAccountID account of
         None \<Rightarrow> (\<lambda>w. (Panic ''index out of range'', w))
       | Some expected \<Rightarrow>
           if effective \<noteq> expected
           then fail (Errorf (''invalid AWS account, expected '' @ expected @ '', found '' @ effective))
           else ret ())"

definition resolveKeyID :: "('w, 'c) aws_api \<Rightarrow> string \<Rightarrow> ('w, string) io" where
  "resolveKeyID a key = aw_DescribeKey a key"

definition kmsEncryptForTaupage :: "('w, 'c) aws_api \<Rightarrow> string \<Rightarrow> string \<Rightarrow> ('w, string) io" where
  "kmsEncryptForTaupage a key plain = bindE (aw_Encrypt a key plain) (\<lambda>blob. ret (''aws:kms:'' @ aw_Base64 a blob))"

definition createS3Bucket :: "('w, 'c) aws_api \<Rightarrow> string \<Rightarrow> ('w, unit) io" where
  "createS3Bucket a bucket =
     aw_Retries a 10 (tryE (aw_CreateBucket a bucket (aw_region a))
       (\<lambda>e. if has_code ''BucketAlreadyOwnedByYou'' e then ret () else fail e) ret)"

definition GetVolumes :: "('w, 'c) aws_api \<Rightarrow> string gomap \<Rightarrow> ('w, volume list) io" where
  "GetVolumes a tags = aw_DescribeVolumes a (map (\<lambda>(k, v). (''tag:'' @ k, [v])) tags)"

definition DeleteVolume :: "('w, 'c) aws_api \<Rightarrow> string \<Rightarrow> ('w, unit) io" where
  "DeleteVolume a i = aw_DeleteVolume a i"

definition getCertificateSummaryFromACM :: "('w, 'c) aws_api \<Rightarrow> string \<Rightarrow> ('w, 'c) io" where
  "getCertificateSummaryFromACM a arn =
     bindE (aw_GetCertificate a arn) (\<lambda>(cert, chain).
       case aw_ParseCertificate a cert chain arn of Inl e \<Rightarrow> fail e | Inr c \<Rightarrow> ret c)"

fun certificate_summaries :: "('w, 'c) aws_api \<Rightarrow> string list \<Rightarrow> ('w, 'c list) io" where
  "certificate_summaries a [] = ret []"
| "certificate_summaries a (arn # arns) =
     bindE (getCertificateSummaryFromACM a arn) (\<lambda>c.
     bindE (certificate_summaries a arns) (\<lambda>cs. ret (c # cs)))"

definition GetCertificates :: "('w, 'c) aws_api \<Rightarrow> ('w, 'c list) io" where
  "GetCertificates a = bindE (aw_ListCertificates a) (certificate_summaries a)"

definition GetDefaultVPC :: "('w, 'c) aws_api \<Rightarrow> ('w, vpc) io" where
  "GetDefaultVPC a =
     bindE (aw_DescribeVpcs a []) (\<lambda>vs.
       case vs of
         [v] \<Rightarrow> ret v
       | _ \<Rightarrow> (case filter vp_IsDefault vs of
                 v # _ \<Rightarrow> ret v
               | [] \<Rightarrow> fail (Errorf ''default VPC not found in account'')))"

definition GetVPC :: "('w, 'c) aws_api \<Rightarrow> string \<Rightarrow> ('w, vpc) io" where
  "GetVPC a i =
     bindE (aw_DescribeVpcs a [i]) (\<lambda>vs.
       case vs of
         [v] \<Rightarrow> ret v
       | _ \<Rightarrow> fail (Errorf (''found '' @ nat_str (length vs) @ '' VPC for VPCID '' @ i @ '', expected 1'')))"

definition GetSubnets :: "('w, 'c) aws_api \<Rightarrow> string \<Rightarrow> ('w, subnet list) io" where
  "GetSubnets a vpcID = aw_DescribeSubnets a vpcID"

definition CreateTags :: "('w, 'c) aws_api \<Rightarrow> string \<Rightarrow> (string \<times> string) list \<Rightarrow> ('w, unit) io" where
  "CreateTags a resource tags = aw_CreateTags a resource tags"

definition DeleteTags :: "('w, 'c) aws_api \<Rightarrow> string \<Rightarrow> (string \<times> string) list \<Rightarrow> ('w, unit) io" where
  "DeleteTags a resource tags = aw_DeleteTags a resource tags"

definition GetEKSClusterDetails :: "('w, 'c) aws_api \<Rightarrow> ('a) account_cluster_scheme \<Rightarrow> ('w, EKSClusterDetails) io" where
  "GetEKSClusterDetails a c =
     bindE (aw_DescribeEKS a (cl_Alias c)) (\<lambda>r.
       ret \<lparr>ed_Endpoint = ek_Endpoint r, ed_CertificateAuthority = ek_CertificateAuthority r,
            ed_OIDCIssuerURL = ek_Issuer r,
            ed_ServiceCIDR = (if ek_IpFamily r = ''ipv4'' then ek_ServiceIpv4Cidr r else ek_ServiceIpv6Cidr r)\<rparr>)"

definition DeleteLeakedAWSVPCCNIENIs :: "('w, 'c) aws_api \<Rightarrow> ('a) account_cluster_scheme \<Rightarrow> ('w, unit) io" where
  "DeleteLeakedAWSVPCCNIENIs a c =
     tryE (aw_NetworkInterfaces a [(''tag:cluster.k8s.amazonaws.com/name'', [cluster_Name c]), (''status'', [''available''])])
       (\<lambda>e. fail (Wrapf (''failed to list AWS VPC CNI ENIs for cluster '' @ quoted (cluster_Name c)) e))
       (each (\<lambda>eni. tryE (aw_DeleteNetworkInterface a eni) (\<lambda>e. fail (Wrapf (''failed to delete ENI '' @ eni) e)) ret))"

section \<open>A small account\<close>

text \<open>An account whose world is the list of its stacks with their protection, and the time.\<close>

type_synonym account = "bool gomap \<times> int"

definition account_env :: "account env" where
  "account_env = \<lparr>en_now = snd, en_sleep = (\<lambda>d (s, t). (s, t + d)), en_err = (\<lambda>_. None)\<rparr>"

definition no_stack :: "string \<Rightarrow> go_error" where
  "no_stack name = APIError ''ValidationError'' (''Stack '' @ name @ '' does not exist'')"

definition sample_aws :: "(account, string) aws_api" where
  "sample_aws = \<lparr>aw_CallerAccount = ret ''1'',
     aw_CreateStack = (\<lambda>p (s, t). if m_has s (cs_StackName p) then (Fail (APIError ''AlreadyExistsException'' []), (s, t))
        else (Ret (), (m_put (cs_StackName p) (cs_TerminationProtection p) s, t))),
     aw_UpdateTerminationProtection = (\<lambda>n b (s, t). if m_has s n then (Ret (), (m_put n b s, t)) else (Fail (no_stack n), (s, t))),
     aw_UpdateStack = (\<lambda>u. fail (APIError ''ValidationError'' cloudformationNoUpdateMsg)),
     aw_DeleteStack = (\<lambda>n (s, t). (Ret (), (m_del n s, t))),
     aw_DescribeStack = (\<lambda>n (s, t). if m_has s n then (Ret [\<lparr>sk_Name = n, sk_Status = ''UPDATE_COMPLETE'', sk_Reason = None,
        sk_LastUpdated = None, sk_Tags = [], sk_Outputs = []\<rparr>], (s, t)) else (Fail (no_stack n), (s, t))),
     aw_DescribeStacks = ret [], aw_Upload = (\<lambda>_ _ _. ret ''url''), aw_CreateBucket = (\<lambda>_ _. ret ()),
     aw_DescribeVolumes = (\<lambda>_. ret []), aw_DeleteVolume = (\<lambda>_. ret ()), aw_ListCertificates = ret [],
     aw_GetCertificate = (\<lambda>_. ret ([], None)), aw_DescribeVpcs = (\<lambda>_. ret []), aw_DescribeSubnets = (\<lambda>_. ret []),
     aw_CreateTags = (\<lambda>_ _. ret ()), aw_DeleteTags = (\<lambda>_ _. ret ()), aw_DescribeEKS = (\<lambda>_. fail (Errorf ''no cluster'')),
     aw_NetworkInterfaces = (\<lambda>_. ret []), aw_DeleteNetworkInterface = (\<lambda>_. ret ()), aw_DescribeKey = ret,
     aw_Encrypt = (\<lambda>_. ret), aw_Base64 = (\<lambda>s. s), aw_Sha256 = (\<lambda>s. s),
     aw_ParseTemplate = (\<lambda>s. Inr \<lparr>cf_StackName = [], cf_Tags = [], cf_Template = [], cf_Path = []\<rparr>),
     aw_ParseCertificate = (\<lambda>_ _ arn. Inr arn), aw_RetryFor = (\<lambda>_ m. m), aw_Retries = (\<lambda>_ m. m), aw_region = ''eu''\<rparr>"

section \<open>Tags of a stack\<close>

lemma tagsToMap_get: "m_ok tags \<Longrightarrow> m_get (tagsToMap tags) k = m_get tags k"
  by (simp add: tagsToMap_def fold_put_get m_get_rev split: option.splits)

lemma mergeTags_get:
  "m_ok b \<Longrightarrow> m_get (mergeTags [a, b]) k = (case m_get b k of Some v \<Rightarrow> Some v | None \<Rightarrow> m_get (tagsToMap a) k)"
  by (simp add: mergeTags_def tagsToMap_def fold_put_get m_get_rev split: option.splits)

lemma m_ok_mergeTags: "m_ok (mergeTags ms)"
proof -
  have "m_ok acc \<Longrightarrow> m_ok (fold (\<lambda>m acc. fold (\<lambda>(k, v). m_put k v) m acc) ms acc)" for acc
    by (induction ms arbitrary: acc) (auto simp: m_ok_fold_put)
  then show ?thesis by (simp add: mergeTags_def)
qed

lemma hasTags_iff:
  assumes "m_ok tags" and "m_ok expected"
  shows "cloudformationHasTags expected tags \<longleftrightarrow> set expected \<subseteq> set tags"
proof
  assume "cloudformationHasTags expected tags"
  then show "set expected \<subseteq> set tags" using assms(1)
    by (auto simp: cloudformationHasTags_def list_all_iff tagsToMap_get m_ok_get_iff split: if_splits)
next
  assume sub: "set expected \<subseteq> set tags"
  have "distinct expected" using assms(2) by (simp add: m_ok_def distinct_map)
  then have "length expected \<le> length tags" using sub
    by (metis card_length card_mono distinct_card finite_set le_trans)
  then show "cloudformationHasTags expected tags" using sub assms(1)
    by (auto simp: cloudformationHasTags_def list_all_iff tagsToMap_get m_ok_get_iff)
qed

text \<open>
  The tags a stack is applied with are found again: a list of stacks filtered by tags
  contains every stack whose tags were produced from the given tags, whatever its template adds, and
  a stack that carries an excluded tag is left out.
\<close>

theorem applied_tags_found:
  assumes "m_ok tags" and "m_ok expected"
  shows "cloudformationHasTags expected (tagMapToCloudformationTags (mergeTags [templateTags, tags]))
     \<longleftrightarrow> (\<forall>(k, v) \<in> set expected. m_get tags k = Some v \<or> (m_get tags k = None \<and> m_get (tagsToMap templateTags) k = Some v))"
    (is "?L \<longleftrightarrow> ?R")
proof -
  let ?m = "mergeTags [templateTags, tags]"
  have "?L \<longleftrightarrow> (\<forall>(k, v) \<in> set expected. m_get ?m k = Some v)"
    using hasTags_iff [OF m_ok_mergeTags assms(2)] m_ok_mergeTags
    by (auto simp: tagMapToCloudformationTags_def m_ok_get_iff)
  also have "\<dots> \<longleftrightarrow> ?R"
    by (rule ball_cong) (auto simp: mergeTags_get [OF assms(1)] split: option.splits)
  finally show ?thesis .
qed

theorem applied_tags_found_witness:
  "cloudformationHasTags [(''kubernetes.io/cluster/c'', ''owned'')]
     (tagMapToCloudformationTags (mergeTags [[(''kubernetes.io/cluster/c'', ''foreign''), (''x'', ''1'')],
        [(''kubernetes.io/cluster/c'', ''owned'')]]))"
  by (subst applied_tags_found) (simp_all add: m_ok_def)

section \<open>Termination protection\<close>

text \<open>
  What CloudFormation documents of termination protection, for a view \<open>prot\<close> of the account, and what
  \<open>backoff.Retry\<close> promises: it does nothing but run its operation.
\<close>

definition protection_laws :: "('w, 'c) aws_api \<Rightarrow> ('w \<Rightarrow> string \<Rightarrow> bool) \<Rightarrow> bool" where
  "protection_laws a prot \<longleftrightarrow>
     (\<forall>p w w'. aw_CreateStack a p w = (Ret (), w') \<longrightarrow> prot w' (cs_StackName p) = cs_TerminationProtection p)
     \<and> (\<forall>n b w w'. aw_UpdateTerminationProtection a n b w = (Ret (), w') \<longrightarrow> prot w' n = b)
     \<and> (\<forall>u w. prot (snd (aw_UpdateStack a u w)) = prot w)
     \<and> (\<forall>d m I. keeps I m \<longrightarrow> keeps I (aw_RetryFor a d m))"

text \<open>
  Claim C18. A stack that was applied successfully is protected against termination, whether it was
  created or existed before, and whether or not its update was skipped, retried or not wanted.
\<close>

theorem applyStack_protects:
  assumes laws: "protection_laws a prot"
    and run: "applyStack a name template url tags updateStack policy w = (Ret (), w')"
  shows "prot w' name"
proof -
  have "keeps (\<lambda>v. prot v name) (aw_UpdateStack a u)" for u using laws by (simp add: keeps_def protection_laws_def)
  then have "keeps (\<lambda>v. prot v name) (update_attempt a u)" for u unfolding update_attempt_def by auto
  then have retry: "keeps (\<lambda>v. prot v name) (aw_RetryFor a d (update_attempt a u))" for d u
    using laws by (auto simp: protection_laws_def)
  obtain tt where tt: "tagsFromStackTemplate a template = Inr tt" using run by (auto simp: applyStack_def split: sum.splits)
  from run [unfolded applyStack_def tt sum.case Let_def] show ?thesis
  proof (cases rule: tryE_cases)
    case (ok x v)
    then show ?thesis using laws by (fastforce simp: protection_laws_def)
  next
    case (err e v)
    then obtain v1 where p: "aw_UpdateTerminationProtection a name True v = (Ret (), v1)"
      by (auto split: if_splits)
    then have "prot v1 name" using laws by (auto simp: protection_laws_def)
    then show ?thesis using err(2) p by (auto split: if_splits dest: keepsD [OF retry])
  qed simp_all
qed

theorem applyStack_protects_witness:
  "map_of (fst (snd (applyStack sample_aws ''etcd'' [] [] [] True None ([(''etcd'', False)], 0)))) ''etcd'' = Some True"
proof -
  have laws: "protection_laws sample_aws (\<lambda>w n. map_of (fst w) n = Some True)"
    by (auto simp: protection_laws_def sample_aws_def fail_def split: if_splits)
  have no_update: "contains_str cloudformationNoUpdateMsg cloudformationNoUpdateMsg"
    by (auto simp: contains_str_iff intro: exI [of _ "[]"])
  have run: "applyStack sample_aws ''etcd'' [] [] [] True None ([(''etcd'', False)], 0)
      = (Ret (), snd (applyStack sample_aws ''etcd'' [] [] [] True None ([(''etcd'', False)], 0)))"
    by (simp add: applyStack_def tagsFromStackTemplate_def sample_aws_def tryE_def bindE_def has_code_def update_attempt_def
        isStackNoUpdateNeededErr_def validation_error_def fail_def ret_def no_update Let_def)
  from applyStack_protects [OF laws run] show ?thesis .
qed

section \<open>Waiting for stacks\<close>

interpretation applied: polling e d
  "look_at (getStackByName a name) (\<lambda>s.
     if sk_Status s = ''UPDATE_COMPLETE'' \<or> sk_Status s = ''CREATE_COMPLETE'' then Some (Ret ())
     else map_option (\<lambda>err. Fail (with_reason s err)) (failed_status (sk_Status s)))"
  "\<lambda>_. errTimeoutExceeded" "\<lambda>k. waitForStack k e a d name" for e a d name
  by unfold_locales
    (auto simp: look_at_def bindE_def tryE_def ret_def fail_def split: prod.splits outcome.splits option.splits)

interpretation deleted: polling e d
  "look_at (getStackByName a name) (\<lambda>s.
     if sk_Status s = ''DELETE_COMPLETE'' then Some (Ret ())
     else map_option (\<lambda>err. Fail (with_reason s err)) (failed_deletion startedAt s))"
  "\<lambda>_. errTimeoutExceeded" "\<lambda>k. waitForStackDeletion k e a d name startedAt" for e a d name startedAt
  by unfold_locales
    (auto simp: look_at_def bindE_def tryE_def ret_def fail_def split: prod.splits outcome.splits option.splits)

lemma getStackByName_clock:
  assumes "\<And>w. en_now e w \<le> en_now e (snd (aw_DescribeStack a name w))" and "\<And>w. fst (aw_DescribeStack a name w) \<noteq> OutOfFuel"
  shows "en_now e w \<le> en_now e (snd (getStackByName a name w))" "fst (getStackByName a name w) \<noteq> OutOfFuel"
proof -
  have snd: "snd (getStackByName a name w) = snd (aw_DescribeStack a name w)"
    by (auto simp: getStackByName_def bindE_def ret_def fail_def split: prod.splits outcome.splits list.splits)
  then show "en_now e w \<le> en_now e (snd (getStackByName a name w))" using assms(1) by simp
  show "fst (getStackByName a name w) \<noteq> OutOfFuel" using assms(2) [of w]
    by (auto simp: getStackByName_def bindE_def ret_def fail_def split: prod.splits outcome.splits list.splits)
qed

text \<open>
  Claim C24. Waiting for a stack that was applied ends within a hundred looks at it, and it reports
  success only after seeing the stack created or updated: never for a stack that was rolled back,
  that failed, or that CloudFormation removed because its creation failed.
\<close>

theorem waitForStack_verdict:
  assumes "\<And>w. en_now e w \<le> en_now e (snd (aw_DescribeStack a name w))"
    and "\<And>w. fst (aw_DescribeStack a name w) \<noteq> OutOfFuel"
    and "\<And>w. en_now e w + waitTime \<le> en_now e (en_sleep e waitTime w)"
  shows "case waitForStack 100 (with_deadline (en_now e w + maxWaitTimeout) e) a waitTime name w of
      (OutOfFuel, w') \<Rightarrow> False
    | (Ret u, w') \<Rightarrow> \<exists>v s. getStackByName a name v = (Ret s, w') \<and> sk_Status s \<in> {''UPDATE_COMPLETE'', ''CREATE_COMPLETE''}
    | _ \<Rightarrow> True"
proof -
  have "en_now e w + maxWaitTimeout \<le> en_now e w + int 100 * waitTime"
    by (simp add: maxWaitTimeout_def waitTime_def minute_def)
  then have "fst (waitForStack 100 (with_deadline (en_now e w + maxWaitTimeout) e) a waitTime name w) \<noteq> OutOfFuel"
    using getStackByName_clock [OF assms(1,2)] assms(3)
    by (intro applied.ends [where t = "en_now e w + maxWaitTimeout"]) (auto simp: with_deadline_due look_at_total)
  moreover have "\<exists>v s. getStackByName a name v = (Ret s, w') \<and> sk_Status s \<in> {''UPDATE_COMPLETE'', ''CREATE_COMPLETE''}"
    if "waitForStack k e' a d name w = (Ret u, w')" for k e' d w u w'
  proof -
    from look_leaves [OF applied.returns [OF that]] obtain v s where "getStackByName a name v = (Ret s, w')"
      "(if sk_Status s = ''UPDATE_COMPLETE'' \<or> sk_Status s = ''CREATE_COMPLETE'' then Some (Ret ())
        else map_option (\<lambda>err. Fail (with_reason s err)) (failed_status (sk_Status s))) = Some (Ret u)"
      by (elim exE conjE)
    moreover from this(2) have "sk_Status s \<in> {''UPDATE_COMPLETE'', ''CREATE_COMPLETE''}" by (auto split: if_splits)
    ultimately show ?thesis by metis
  qed
  ultimately show ?thesis by (auto split: prod.splits outcome.splits)
qed

theorem waitForStack_verdict_witness:
  "case waitForStack 100 (with_deadline (en_now account_env ([], 0) + maxWaitTimeout) account_env) sample_aws waitTime ''s'' ([], 0) of
      (OutOfFuel, w') \<Rightarrow> False
    | (Ret u, w') \<Rightarrow> \<exists>v s. getStackByName sample_aws ''s'' v = (Ret s, w') \<and> sk_Status s \<in> {''UPDATE_COMPLETE'', ''CREATE_COMPLETE''}
    | _ \<Rightarrow> True"
  by (rule waitForStack_verdict) (auto simp: account_env_def sample_aws_def split: if_splits)

lemma not_does_not_exist:
  "isDoesNotExistsErr (with_reason s err) \<Longrightarrow> sk_Reason s = None"
  "\<not> isDoesNotExistsErr errTimeoutExceeded" "failed_deletion t s = Some err \<Longrightarrow> \<not> isDoesNotExistsErr err"
  "\<not> isDoesNotExistsErr (Errorf m)"
  by (auto simp: isDoesNotExistsErr_def validation_error_def with_reason_def errTimeoutExceeded_def failed_deletion_def
      stack_failed_def errDeleteCanceled_def split: option.splits if_splits)

lemma getStackByName_Fail:
  "getStackByName a name v = (Fail err, w') \<Longrightarrow> aw_DescribeStack a name v = (Fail err, w') \<or> (\<exists>m. err = Errorf m)"
  by (auto simp: getStackByName_def bindE_def ret_def fail_def split: prod.splits outcome.splits list.splits)

lemma await_deletion_Ret:
  assumes "await_deletion fuel e a name t w = (Ret u, w')"
  shows "\<exists>v. (\<exists>s. getStackByName a name v = (Ret s, w') \<and> sk_Status s = ''DELETE_COMPLETE'')
     \<or> (\<exists>err. aw_DescribeStack a name v = (Fail err, w') \<and> isDoesNotExistsErr err)"
  using assms unfolding await_deletion_def
proof (cases rule: tryE_cases)
  case (ok x v)
  from look_leaves [OF deleted.returns [OF ok(1)]] obtain v' s where "getStackByName a name v' = (Ret s, v)"
    "(if sk_Status s = ''DELETE_COMPLETE'' then Some (Ret ())
      else map_option (\<lambda>err. Fail (with_reason s err)) (failed_deletion t s)) = Some (Ret x)"
    by (elim exE conjE)
  moreover from this(2) have "sk_Status s = ''DELETE_COMPLETE''" by (auto split: if_splits)
  moreover have "v = w'" using ok(2) by simp
  ultimately show ?thesis by metis
next
  case (err e' v)
  then have gone: "isDoesNotExistsErr e'" "w' = v" by (auto split: if_splits)
  from deleted.result [OF err(1)] obtain v' where
    "look_at (getStackByName a name) (\<lambda>s. if sk_Status s = ''DELETE_COMPLETE'' then Some (Ret ())
       else map_option (\<lambda>err. Fail (with_reason s err)) (failed_deletion t s)) v' = (Some (Fail e'), w')"
    using gone not_does_not_exist(2) by auto
  from look_at_fails [OF this] have "getStackByName a name v' = (Fail e', w')"
  proof (elim disjE exE conjE)
    fix st assume st: "(if sk_Status st = ''DELETE_COMPLETE'' then Some (Ret ())
       else map_option (\<lambda>err. Fail (with_reason st err)) (failed_deletion t st)) = Some (Fail e')"
    then obtain err where "failed_deletion t st = Some err" "e' = with_reason st err" by (auto split: if_splits)
    then show ?thesis using gone(1) not_does_not_exist by (cases "sk_Reason st") (auto simp: with_reason_def)
  qed
  then have "aw_DescribeStack a name v' = (Fail e', w')"
    using gone(1) getStackByName_Fail not_does_not_exist(4) by metis
  then show ?thesis using gone(1) by metis
qed (use assms in simp_all)

text \<open>
  Claim C9. Deleting a stack reports success only when the stack is gone: CloudFormation reported it
  deleted, or answered a request of the deletion that the stack does not exist. A failed, timed out or
  rejected deletion is an error.
\<close>

theorem DeleteStack_success_means_gone:
  assumes "aws_DeleteStack fuel e a s w = (Ret u, w')"
  shows "\<exists>v. (\<exists>st. getStackByName a (sk_Name s) v = (Ret st, w') \<and> sk_Status st = ''DELETE_COMPLETE'')
     \<or> (\<exists>err. isDoesNotExistsErr err \<and> (aw_UpdateTerminationProtection a (sk_Name s) False v = (Fail err, w')
           \<or> aw_DeleteStack a (sk_Name s) v = (Fail err, w') \<or> aw_DescribeStack a (sk_Name s) v = (Fail err, w')))"
proof (cases "isStackDeleting s")
  case True
  then have "await_deletion fuel e a (sk_Name s) zeroTime w = (Ret u, w')" using assms by (simp add: aws_DeleteStack_def)
  from await_deletion_Ret [OF this] show ?thesis by metis
next
  case False
  then have "tryE (aw_UpdateTerminationProtection a (sk_Name s) False)
      (\<lambda>err. if isDoesNotExistsErr err then ret () else fail err)
      (\<lambda>_ w. tryE (aw_DeleteStack a (sk_Name s)) (\<lambda>err. if isDoesNotExistsErr err then ret () else fail err)
        (\<lambda>_. await_deletion fuel e a (sk_Name s) (en_now e w)) w) w = (Ret u, w')"
    using assms by (simp add: aws_DeleteStack_def Let_def)
  then show ?thesis
  proof (cases rule: tryE_cases)
    case (ok x v)
    from ok(2) show ?thesis
    proof (cases rule: tryE_cases)
      case (ok y v')
      from await_deletion_Ret [OF ok(2)] show ?thesis by metis
    next
      case (err err v')
      then have "isDoesNotExistsErr err" "v' = w'" by (auto split: if_splits)
      with err(1) show ?thesis by metis
    qed simp_all
  next
    case (err err v')
    then have "isDoesNotExistsErr err" "v' = w'" by (auto split: if_splits)
    with err(1) show ?thesis by metis
  qed simp_all
qed

theorem DeleteStack_success_means_gone_witness:
  "\<exists>v. (\<exists>st. getStackByName sample_aws ''s'' v = (Ret st, ([], 0)) \<and> sk_Status st = ''DELETE_COMPLETE'')
     \<or> (\<exists>err. isDoesNotExistsErr err \<and> (aw_UpdateTerminationProtection sample_aws ''s'' False v = (Fail err, ([], 0))
           \<or> aw_DeleteStack sample_aws ''s'' v = (Fail err, ([], 0)) \<or> aw_DescribeStack sample_aws ''s'' v = (Fail err, ([], 0))))"
proof -
  let ?s = "\<lparr>sk_Name = ''s'', sk_Status = [], sk_Reason = None, sk_LastUpdated = None, sk_Tags = [], sk_Outputs = []\<rparr>"
  have gone: "isDoesNotExistsErr (no_stack ''s'')"
    by (simp add: isDoesNotExistsErr_def validation_error_def no_stack_def has_prefix_def)
  have "aws_DeleteStack 2 account_env sample_aws ?s ([(''s'', True)], 0) = (Ret (), ([], 0))"
    by (auto simp: aws_DeleteStack_def isStackDeleting_def tryE_def sample_aws_def await_deletion_def numeral_2_eq_2
        getStackByName_def bindE_def gone m_del_def m_put_def ret_def Let_def)
  from DeleteStack_success_means_gone [OF this] show ?thesis by simp
qed

end
