(* ===== verification/Subnets.thy ===== *)
theory Subnets
  imports Go_Net AWS_Stacks
begin

text \<open>
  Subnets and availability zones: \<open>AZInfo\<close> (\<open>provisioner/aws_az.go\<close>) and the choice of the subnets of
  a cluster (\<open>filterSubnets\<close>, \<open>selectSubnetIDs\<close> in \<open>provisioner/clusterpy.go\<close>).
\<close>

section \<open>Availability zones\<close>

record subnet_info =
  si_SubnetID :: string
  si_IPV4CIDR :: string
  si_IPV6CIDRs :: "string list"

type_synonym az_info = "subnet_info gomap"

definition subnetAllAZName :: string where "subnetAllAZName = ''*''"
definition awsReservedSubnetAddresses :: int where "awsReservedSubnetAddresses = 5"

definition RestrictAZs :: "az_info \<Rightarrow> string list \<Rightarrow> az_info" where
  "RestrictAZs info azs =
     fold (\<lambda>az r. case m_get info az of Some s \<Rightarrow> m_put az s r | None \<Rightarrow> r) azs []"

definition AvailabilityZones :: "az_info \<Rightarrow> string list" where
  "AvailabilityZones info = sort (m_keys info)"

definition SubnetsByAZ :: "az_info \<Rightarrow> string gomap" where
  "SubnetsByAZ info =
     fold (\<lambda>az r.
       let i = (case m_get info az of Some s \<Rightarrow> si_SubnetID s | None \<Rightarrow> []);
           r1 = m_put az i r in
       m_put subnetAllAZName (case m_get r1 subnetAllAZName of Some e \<Rightarrow> e @ '','' @ i | None \<Rightarrow> i) r1)
     (AvailabilityZones info) []"

definition SubnetIPv6CIDRs :: "az_info \<Rightarrow> string list" where
  "SubnetIPv6CIDRs info = concat (map (\<lambda>(az, s). si_IPV6CIDRs s) info)"

text \<open>The addresses of one subnet, \<open>None\<close> for a subnet without an IPv4 block.\<close>

definition usable_addresses :: "subnet_info \<Rightarrow> int option outcome" where
  "usable_addresses s =
     (if si_IPV4CIDR s = [] then Ret None
      else (case ParseCIDR (si_IPV4CIDR s) of
         Ret n \<Rightarrow>
           if net_Bits n \<noteq> 32
           then Fail (Errorf (''CIDR '' @ quoted (si_IPV4CIDR s) @ '' of subnet '' @ si_SubnetID s @ '' is not an IPv4 CIDR''))
           else Ret (Some (2 ^ (32 - net_Ones n) - awsReservedSubnetAddresses))
       | Fail e \<Rightarrow> Fail (Errorf (''invalid IPv4 CIDR '' @ quoted (si_IPV4CIDR s) @ '' of subnet '' @ si_SubnetID s @ '': '' @ error_text e))
       | Panic p \<Rightarrow> Panic p
       | OutOfFuel \<Rightarrow> OutOfFuel))"

fun addresses_loop :: "subnet_info list \<Rightarrow> int \<Rightarrow> bool \<Rightarrow> (int \<times> bool) outcome" where
  "addresses_loop [] addresses found = Ret (addresses, found)"
| "addresses_loop (s # ss) addresses found =
     bindO (usable_addresses s) (\<lambda>a.
       case a of
         None \<Rightarrow> addresses_loop ss addresses found
       | Some n \<Rightarrow> addresses_loop ss (wrap64 (addresses + n)) True)"

definition MaxNodes :: "az_info \<Rightarrow> int \<Rightarrow> int outcome" where
  "MaxNodes info usablePercent =
     (if usablePercent < 1 \<or> usablePercent > 100
      then Fail (Errorf (''invalid value for usablePercent: '' @ int_str usablePercent @ '', must be between 1 and 100''))
      else bindO (addresses_loop (map snd info) 0 False) (\<lambda>(addresses, found).
        if \<not> found then Fail (Errorf ''none of the subnets has an IPv4 CIDR'')
        else Ret (quot (wrap64 (addresses * usablePercent)) 100)))"

section \<open>Choice of subnets\<close>

definition customSubnetTag :: string where "customSubnetTag = ''zalando.org/custom-subnet''"

definition filterSubnets :: "subnet list \<Rightarrow> (subnet \<Rightarrow> bool) \<Rightarrow> subnet list" where
  "filterSubnets ss p = filter p ss"

definition subnetIDIncluded :: "string list \<Rightarrow> subnet \<Rightarrow> bool" where
  "subnetIDIncluded ids s = list_ex (\<lambda>i. sn_SubnetId s = i) ids"

definition isCustomSubnet :: "subnet \<Rightarrow> bool" where
  "isCustomSubnet s = list_ex (\<lambda>(k, v). k = customSubnetTag) (sn_Tags s)"

definition subnetNot :: "(subnet \<Rightarrow> bool) \<Rightarrow> subnet \<Rightarrow> bool" where
  "subnetNot p s = (\<not> p s)"

definition has_tag :: "string \<Rightarrow> subnet \<Rightarrow> bool" where
  "has_tag tag s = m_has (tagsToMap (sn_Tags s)) tag"

fun select_loop :: "string \<Rightarrow> subnet list \<Rightarrow> subnet gomap \<Rightarrow> subnet gomap" where
  "select_loop tag [] m = m"
| "select_loop tag (s # ss) m =
     (let az = sn_AvailabilityZone s in
      case m_get m az of
        None \<Rightarrow> select_loop tag ss (m_put az s m)
      | Some existing \<Rightarrow>
          if has_tag tag existing \<noteq> has_tag tag s
          then select_loop tag ss (if has_tag tag s then m_put az s m else m)
          else if sn_SubnetId existing > sn_SubnetId s
          then select_loop tag ss (m_put az s m)
          else select_loop tag ss m)"

definition info_of :: "subnet \<Rightarrow> subnet_info" where
  "info_of s = \<lparr>si_SubnetID = sn_SubnetId s, si_IPV4CIDR = sn_CidrBlock s, si_IPV6CIDRs = sn_Ipv6CidrBlocks s\<rparr>"

definition selectSubnetIDs :: "subnet list \<Rightarrow> string \<Rightarrow> az_info" where
  "selectSubnetIDs ss tag = map (\<lambda>(az, s). (az, info_of s)) (select_loop tag ss [])"

section \<open>The chosen subnet is the best of its zone\<close>

text \<open>A subnet is better than another when only it has the tag, or, if they agree there, by its ID.\<close>

definition better_subnet :: "string \<Rightarrow> subnet \<Rightarrow> subnet \<Rightarrow> bool" where
  "better_subnet tag x y \<longleftrightarrow>
     has_tag tag x \<and> \<not> has_tag tag y \<or> has_tag tag x = has_tag tag y \<and> sn_SubnetId x < sn_SubnetId y"

interpretation subnet_choice: choice "better_subnet tag" for tag
  by unfold_locales (auto simp: better_subnet_def)

lemma select_loop_picks:
  "m_get (select_loop tag ss m) az =
     pick_best (better_subnet tag) (filter (\<lambda>s. sn_AvailabilityZone s = az) ss) (m_get m az)"
proof (induction ss arbitrary: m)
  case (Cons s ss)
  show ?case
  proof (cases "m_get m (sn_AvailabilityZone s)")
    case None
    then show ?thesis using Cons by auto
  next
    case (Some e)
    then have "select_loop tag (s # ss) m = select_loop tag ss (if better_subnet tag s e then m_put (sn_AvailabilityZone s) s m else m)"
      by (auto simp: better_subnet_def Let_def)
    then show ?thesis using Cons Some by (auto simp del: select_loop.simps)
  qed
qed simp

lemma m_get_map_values: "m_get (map (\<lambda>(k, v). (k, f v)) m) k = map_option f (m_get m k)"
  by (induction m) auto

lemma selectSubnetIDs_picks:
  "m_get (selectSubnetIDs ss tag) az =
     map_option info_of (pick_best (better_subnet tag) (filter (\<lambda>s. sn_AvailabilityZone s = az) ss) None)"
  by (simp add: selectSubnetIDs_def m_get_map_values select_loop_picks)

lemma better_subnet_total:
  "sn_SubnetId x \<noteq> sn_SubnetId y \<Longrightarrow> \<not> better_subnet tag x y \<Longrightarrow> better_subnet tag y x"
  by (auto simp: better_subnet_def)

text \<open>
  Claim C14. In every availability zone with a subnet, and in no other, the chosen subnet is one of the
  zone that no other subnet of the zone beats: it has the role tag if any has, and among those the
  first ID. With distinct IDs the choice does not depend on the order in which AWS lists the subnets.
\<close>

theorem selectSubnetIDs_best:
  assumes "inj_on sn_SubnetId (set ss)"
  shows "(case m_get (selectSubnetIDs ss tag) az of
       None \<Rightarrow> \<forall>s \<in> set ss. sn_AvailabilityZone s \<noteq> az
     | Some i \<Rightarrow> \<exists>s \<in> set ss. sn_AvailabilityZone s = az \<and> i = info_of s
          \<and> (\<forall>s' \<in> set ss. sn_AvailabilityZone s' = az \<longrightarrow> \<not> better_subnet tag s' s))
    \<and> (\<forall>ss'. mset ss' = mset ss \<longrightarrow> m_get (selectSubnetIDs ss' tag) az = m_get (selectSubnetIDs ss tag) az)"
proof -
  let ?zone = "\<lambda>ss. filter (\<lambda>s. sn_AvailabilityZone s = az) ss"
  let ?best = "\<lambda>ss. pick_best (better_subnet tag) (?zone ss) None"
  have unique: "?best ss' = ?best ss" if "mset ss' = mset ss" for ss'
  proof -
    have sets: "set ss' = set ss" using that by (metis set_mset_mset)
    show ?thesis
    proof (cases "?best ss")
      case None
      then have "?zone ss = []" by (simp add: subnet_choice.pick_best_None_iff)
      then have "?zone ss' = []" using sets by (auto simp: filter_empty_conv)
      then show ?thesis using None by simp
    next
      case (Some x)
      then have x: "x \<in> set (?zone ss)" "\<And>y. y \<in> set (?zone ss) \<Longrightarrow> \<not> better_subnet tag y x"
        using subnet_choice.pick_best_best by blast+
      have "?zone ss' \<noteq> []" using x(1) sets by (auto simp: filter_empty_conv)
      then obtain y where y: "?best ss' = Some y" using subnet_choice.pick_best_None_iff by fastforce
      then have y': "y \<in> set (?zone ss')" "\<And>z. z \<in> set (?zone ss') \<Longrightarrow> \<not> better_subnet tag z y"
        using subnet_choice.pick_best_best by blast+
      have "sn_SubnetId x = sn_SubnetId y"
        using better_subnet_total [of x y tag] x y' sets by fastforce
      then have "x = y" using assms x(1) y'(1) sets by (auto dest: inj_onD)
      then show ?thesis using y Some by simp
    qed
  qed
  have best: "case m_get (selectSubnetIDs ss tag) az of
       None \<Rightarrow> \<forall>s \<in> set ss. sn_AvailabilityZone s \<noteq> az
     | Some i \<Rightarrow> \<exists>s \<in> set ss. sn_AvailabilityZone s = az \<and> i = info_of s
          \<and> (\<forall>s' \<in> set ss. sn_AvailabilityZone s' = az \<longrightarrow> \<not> better_subnet tag s' s)"
  proof (cases "?best ss")
    case None
    then have "?zone ss = []" by (simp add: subnet_choice.pick_best_None_iff)
    then show ?thesis using None by (auto simp: selectSubnetIDs_picks filter_empty_conv)
  next
    case (Some x)
    then show ?thesis using subnet_choice.pick_best_best [OF Some] by (auto simp: selectSubnetIDs_picks)
  qed
  show ?thesis
  proof (intro conjI allI impI)
    fix ss' assume m: "mset ss' = mset ss"
    show "m_get (selectSubnetIDs ss' tag) az = m_get (selectSubnetIDs ss tag) az"
      by (simp only: selectSubnetIDs_picks unique [OF m])
  qed (rule best)
qed

definition sample_subnets :: "subnet list" where
  "sample_subnets = [\<lparr>sn_SubnetId = ''s-1'', sn_AvailabilityZone = ''a'', sn_CidrBlock = ''10.0.0.0/24'', sn_Ipv6CidrBlocks = [], sn_Tags = []\<rparr>,
     \<lparr>sn_SubnetId = ''s-2'', sn_AvailabilityZone = ''a'', sn_CidrBlock = ''10.0.1.0/24'', sn_Ipv6CidrBlocks = [], sn_Tags = [(''role'', [])]\<rparr>]"

theorem selectSubnetIDs_best_witness:
  "case m_get (selectSubnetIDs sample_subnets ''role'') ''a'' of
       None \<Rightarrow> \<forall>s \<in> set sample_subnets. sn_AvailabilityZone s \<noteq> ''a''
     | Some i \<Rightarrow> \<exists>s \<in> set sample_subnets. sn_AvailabilityZone s = ''a'' \<and> i = info_of s
          \<and> (\<forall>s' \<in> set sample_subnets. sn_AvailabilityZone s' = ''a'' \<longrightarrow> \<not> better_subnet ''role'' s' s)"
proof -
  have "inj_on sn_SubnetId (set sample_subnets)" by (auto simp: sample_subnets_def)
  from selectSubnetIDs_best [OF this] show ?thesis by (rule conjunct1)
qed

section \<open>How many nodes fit\<close>

definition addresses_of :: "int option list \<Rightarrow> int" where
  "addresses_of ns = sum_list (map (\<lambda>a. case a of None \<Rightarrow> 0 | Some n \<Rightarrow> n) ns)"

lemma usable_addresses_range: "usable_addresses s = Ret (Some n) \<Longrightarrow> \<bar>n\<bar> \<le> 2 ^ 32"
proof -
  assume "usable_addresses s = Ret (Some n)"
  then obtain k :: nat where "n = 2 ^ (32 - k) - 5"
    by (auto simp: usable_addresses_def awsReservedSubnetAddresses_def split: if_splits outcome.splits)
  then obtain y where y: "n = y - 5" "y = 2 ^ (32 - k)" by blast
  have "1 \<le> y" "y \<le> 2 ^ 32" using y(2) by (simp, simp only:, intro power_increasing) auto
  then show ?thesis using y(1) by simp
qed

lemma addresses_loop_spec:
  "addresses_loop ss a f = Ret (t, g) \<Longrightarrow> \<bar>a\<bar> + int (length ss) * 2 ^ 32 < 2 ^ 62 \<Longrightarrow>
     \<exists>ns. list_all2 (\<lambda>s n. usable_addresses s = Ret n) ss ns \<and> t = a + addresses_of ns
        \<and> \<bar>t\<bar> \<le> \<bar>a\<bar> + int (length ss) * 2 ^ 32 \<and> (g \<longleftrightarrow> f \<or> (\<exists>n. Some n \<in> set ns))"
proof (induction ss arbitrary: a f)
  case Nil
  then show ?case by (auto simp: addresses_of_def)
next
  case (Cons s ss)
  from Cons.prems(1) obtain u where u: "usable_addresses s = Ret u" by (auto simp: bindO_Ret_iff)
  show ?case
  proof (cases u)
    case None
    then have "addresses_loop ss a f = Ret (t, g)" using Cons.prems(1) u by simp
    moreover have "\<bar>a\<bar> + int (length ss) * 2 ^ 32 < 2 ^ 62" using Cons.prems(2) by simp
    ultimately obtain ns where "list_all2 (\<lambda>s n. usable_addresses s = Ret n) ss ns" "t = a + addresses_of ns"
      "\<bar>t\<bar> \<le> \<bar>a\<bar> + int (length ss) * 2 ^ 32" "g \<longleftrightarrow> f \<or> (\<exists>n. Some n \<in> set ns)" using Cons.IH by blast
    then show ?thesis using u None by (intro exI [of _ "None # ns"]) (auto simp: addresses_of_def)
  next
    case (Some n)
    have n: "\<bar>n\<bar> \<le> 2 ^ 32" using usable_addresses_range u Some by simp
    then have w: "wrap64 (a + n) = a + n" using Cons.prems(2) by (intro wrap64_id) auto
    have "addresses_loop ss (a + n) True = Ret (t, g)" using Cons.prems(1) u Some w by simp
    moreover have "\<bar>a + n\<bar> + int (length ss) * 2 ^ 32 < 2 ^ 62" using Cons.prems(2) n by auto
    ultimately obtain ns where "list_all2 (\<lambda>s n. usable_addresses s = Ret n) ss ns" "t = a + n + addresses_of ns"
      "\<bar>t\<bar> \<le> \<bar>a + n\<bar> + int (length ss) * 2 ^ 32" "g" using Cons.IH by (metis (no_types, lifting))
    then show ?thesis using u Some n by (intro exI [of _ "Some n # ns"]) (auto simp: addresses_of_def)
  qed
qed

text \<open>
  The number of nodes that fit the subnets is the given percentage, rounded down, of the
  addresses of all their IPv4 blocks without the five that AWS reserves in each: it is never more than
  the usable addresses, and it does not depend on the order of the subnets. (The bound on the number of
  subnets excludes overflow of the 64-bit product.)
\<close>

theorem MaxNodes_bound:
  assumes "MaxNodes info p = Ret n" and "length info < 2 ^ 23"
  shows "\<exists>ns. list_all2 (\<lambda>s a. usable_addresses s = Ret a) (map snd info) ns
     \<and> n = quot (addresses_of ns * p) 100
     \<and> (0 \<le> addresses_of ns \<longrightarrow> 0 \<le> n \<and> n \<le> addresses_of ns \<and> 100 * n \<le> addresses_of ns * p \<and> addresses_of ns * p < 100 * (n + 1))"
proof -
  from assms(1) obtain t g where loop: "addresses_loop (map snd info) 0 False = Ret (t, g)"
    and p: "1 \<le> p" "p \<le> 100" and n: "n = quot (wrap64 (t * p)) 100"
    by (auto simp: MaxNodes_def bindO_Ret_iff split: if_splits)
  have small: "int (length info) * 2 ^ 32 < 2 ^ 55" using assms(2) by simp
  then obtain ns where ns: "list_all2 (\<lambda>s a. usable_addresses s = Ret a) (map snd info) ns" "t = addresses_of ns"
    "\<bar>t\<bar> \<le> int (length info) * 2 ^ 32" using addresses_loop_spec [OF loop] by auto
  have "\<bar>t * p\<bar> \<le> 2 ^ 55 * 100"
    unfolding abs_mult using ns(3) small p by (intro mult_mono) auto
  then have w: "wrap64 (t * p) = t * p" by (intro wrap64_id) auto
  then have n': "n = quot (t * p) 100" using n by simp
  have "0 \<le> n \<and> n \<le> t \<and> 100 * n \<le> t * p \<and> t * p < 100 * (n + 1)" if "0 \<le> t"
  proof -
    have "0 \<le> t * p" using that p by simp
    then have q: "n = t * p div 100" using n' by (simp add: quot_nonneg)
    moreover have "t * p \<le> t * 100" using that p by (intro mult_left_mono) auto
    ultimately show ?thesis using \<open>0 \<le> t * p\<close> by (auto simp: pos_imp_zdiv_nonneg_iff)
  qed
  then show ?thesis using ns n' by auto
qed

theorem MaxNodes_bound_witness:
  "\<exists>ns. list_all2 (\<lambda>s a. usable_addresses s = Ret a) (map snd (selectSubnetIDs sample_subnets ''role'')) ns
     \<and> 225 = quot (addresses_of ns * 90) 100
     \<and> (0 \<le> addresses_of ns \<longrightarrow> 0 \<le> (225 :: int) \<and> 225 \<le> addresses_of ns \<and> 100 * 225 \<le> addresses_of ns * 90
         \<and> addresses_of ns * 90 < 100 * (225 + 1))"
proof -
  have "MaxNodes (selectSubnetIDs sample_subnets ''role'') 90 = Ret 225" by code_simp
  moreover have "length (selectSubnetIDs sample_subnets ''role'') = 1" by code_simp
  ultimately show ?thesis by (intro MaxNodes_bound) simp_all
qed

end
