(* ===== verification/Kube_Client.thy ===== *)
theory Kube_Client
  imports Node_Pool_Backend
begin

text \<open>
  The Kubernetes client of the program (\<open>pkg/kubernetes/kubernetes.go\<close>): resolving kinds, the
  operations on resources, and the deletion of resources by name, selector or labels; reading
  manifests (\<open>resource_manifest.go\<close>); and applying them (\<open>kubectl_apply.go\<close>). The API server, the
  REST mapper, YAML and the apply machinery of \<open>kubectl\<close> are fields of records; what the theorems
  need of them is stated as named laws.
\<close>

section \<open>Data\<close>

record gvr =
  gr_Group :: string
  gr_Version :: string
  gr_Resource :: string

definition empty_gvr :: gvr where
  "empty_gvr = \<lparr>gr_Group = [], gr_Version = [], gr_Resource = []\<rparr>"

text \<open>An object of the dynamic client, as far as the program looks into it.\<close>

record unstructured =
  u_Namespace :: string
  u_Name :: string
  u_Annotations :: "string gomap option"
  u_OwnerReferences :: "string list"

record delete_options =
  do_GracePeriodSeconds :: "int option"
  do_PropagationPolicy :: "string option"

record resource =
  rs_Name :: string
  rs_Namespace :: string
  rs_Kind :: string
  rs_Selector :: string
  rs_Labels :: "string gomap"
  rs_HasOwner :: "bool option"
  rs_GracePeriodSeconds :: "int option"
  rs_PropagationPolicy :: "string option"

text \<open>
  The clients: \<open>schema.ParseResourceArg\<close> (a full resource, or a resource with its group), the mapper,
  whose \<open>ResourceFor\<close> returns a value and an error and which may have a method \<open>Reset\<close>, the
  tests for the errors of the mapper, the operations of the dynamic client, today's date and
  \<open>metav1.FormatLabelSelector\<close>. An empty namespace stands for a resource without one.
\<close>

record 'w clients =
  kc_ParseResourceArg :: "string \<Rightarrow> gvr option \<times> string \<times> string"
  kc_ResourceFor :: "gvr \<Rightarrow> 'w \<Rightarrow> (gvr \<times> go_error option) \<times> 'w"
  kc_Reset :: "('w \<Rightarrow> 'w) option"
  kc_IsNoMatch :: "go_error \<Rightarrow> bool"
  kc_IsAmbiguous :: "go_error \<Rightarrow> bool"
  kc_create :: "gvr \<Rightarrow> string \<Rightarrow> unstructured \<Rightarrow> ('w, unstructured) io"
  kc_update :: "gvr \<Rightarrow> string \<Rightarrow> unstructured \<Rightarrow> ('w, unstructured) io"
  kc_updateStatus :: "gvr \<Rightarrow> string \<Rightarrow> unstructured \<Rightarrow> ('w, unstructured) io"
  kc_get :: "gvr \<Rightarrow> string \<Rightarrow> string \<Rightarrow> ('w, unstructured) io"
  kc_list :: "gvr \<Rightarrow> string \<Rightarrow> string \<Rightarrow> ('w, unstructured list) io"
  kc_patch :: "gvr \<Rightarrow> string \<Rightarrow> string \<Rightarrow> string \<Rightarrow> ('w, unstructured) io"
  kc_delete :: "gvr \<Rightarrow> string \<Rightarrow> string \<Rightarrow> delete_options \<Rightarrow> ('w, unit) io"
  kc_deleteCollection :: "gvr \<Rightarrow> string \<Rightarrow> delete_options \<Rightarrow> string \<Rightarrow> ('w, unit) io"
  kc_today :: "'w \<Rightarrow> string"
  kc_FormatLabelSelector :: "string gomap \<Rightarrow> string"

definition Labels_String :: "string gomap \<Rightarrow> string" where
  "Labels_String l = join_with '','' (map (\<lambda>(k, v). k @ ''='' @ v) l)"

definition resource_Options :: "resource \<Rightarrow> delete_options" where
  "resource_Options r = \<lparr>do_GracePeriodSeconds = rs_GracePeriodSeconds r, do_PropagationPolicy = rs_PropagationPolicy r\<rparr>"

definition LabelSelector :: "'w clients \<Rightarrow> resource \<Rightarrow> string" where
  "LabelSelector c r = (if rs_Selector r \<noteq> [] then rs_Selector r else kc_FormatLabelSelector c (rs_Labels r))"

section \<open>Resolving kinds\<close>

text \<open>The second lookup of \<open>resolveKind\<close> and its verdict, given the error of the first.\<close>

definition resolve_group :: "'w clients \<Rightarrow> string \<Rightarrow> string \<times> string \<Rightarrow> go_error option \<Rightarrow> ('w, gvr) io" where
  "resolve_group c kind gres lastErr w =
     (let ((g, err), w') = kc_ResourceFor c \<lparr>gr_Group = fst gres, gr_Version = [], gr_Resource = snd gres\<rparr> w;
          lastErr' = (if lastErr = None then err else lastErr) in
      if g = empty_gvr
      then (case lastErr' of
              Some e \<Rightarrow> fail e w'
            | None \<Rightarrow> fail (Errorf (''unable to resolve kind '' @ kind @ '' (use either name or name.version.group)'')) w')
      else ret g w')"

definition resolveKind :: "'w clients \<Rightarrow> string \<Rightarrow> ('w, gvr) io" where
  "resolveKind c kind w =
     (let (full, gres) = kc_ParseResourceArg c kind in
      case full of
        None \<Rightarrow> resolve_group c kind gres None w
      | Some f \<Rightarrow>
          (let ((g, err), w') = kc_ResourceFor c f w in
           if g = empty_gvr then resolve_group c kind gres err w' else ret g w'))"

definition type_unknown :: "'w clients \<Rightarrow> go_error \<Rightarrow> bool" where
  "type_unknown c e \<longleftrightarrow> kc_IsNoMatch c e \<or> kc_IsAmbiguous c e"

definition reset_mapper :: "'w clients \<Rightarrow> 'w \<Rightarrow> 'w" where
  "reset_mapper c w = (case kc_Reset c of Some f \<Rightarrow> f w | None \<Rightarrow> w)"

definition ResolveKind :: "'w clients \<Rightarrow> string \<Rightarrow> ('w, gvr) io" where
  "ResolveKind c kind =
     tryE (resolveKind c kind)
       (\<lambda>e w. if type_unknown c e then resolveKind c kind (reset_mapper c w) else fail e w) ret"

definition getResourceClient :: "'w clients \<Rightarrow> string \<Rightarrow> string \<Rightarrow> ('w, gvr \<times> string) io" where
  "getResourceClient c kind namespace = bindE (ResolveKind c kind) (\<lambda>g. ret (g, namespace))"

section \<open>Operations on resources\<close>

definition kube_Create :: "'w clients \<Rightarrow> string \<Rightarrow> string \<Rightarrow> unstructured \<Rightarrow> ('w, unstructured) io" where
  "kube_Create c kind namespace obj = bindE (getResourceClient c kind namespace) (\<lambda>(g, ns). kc_create c g ns obj)"

definition kube_Update :: "'w clients \<Rightarrow> string \<Rightarrow> string \<Rightarrow> unstructured \<Rightarrow> ('w, unstructured) io" where
  "kube_Update c kind namespace obj = bindE (getResourceClient c kind namespace) (\<lambda>(g, ns). kc_update c g ns obj)"

definition UpdateStatus :: "'w clients \<Rightarrow> string \<Rightarrow> string \<Rightarrow> unstructured \<Rightarrow> ('w, unstructured) io" where
  "UpdateStatus c kind namespace obj = bindE (getResourceClient c kind namespace) (\<lambda>(g, ns). kc_updateStatus c g ns obj)"

definition kube_Get :: "'w clients \<Rightarrow> string \<Rightarrow> string \<Rightarrow> string \<Rightarrow> ('w, unstructured) io" where
  "kube_Get c kind namespace name = bindE (getResourceClient c kind namespace) (\<lambda>(g, ns). kc_get c g ns name)"

definition kube_Exists :: "'w clients \<Rightarrow> string \<Rightarrow> string \<Rightarrow> string \<Rightarrow> ('w, bool) io" where
  "kube_Exists c kind namespace name =
     tryE (kube_Get c kind namespace name) (\<lambda>e. if IsNotFound e then ret False else fail e) (\<lambda>_. ret True)"

definition kube_List :: "'w clients \<Rightarrow> string \<Rightarrow> string \<Rightarrow> string \<Rightarrow> ('w, unstructured list) io" where
  "kube_List c kind namespace selector = bindE (getResourceClient c kind namespace) (\<lambda>(g, ns). kc_list c g ns selector)"

definition kube_Patch :: "'w clients \<Rightarrow> string \<Rightarrow> string \<Rightarrow> string \<Rightarrow> string \<Rightarrow> ('w, unstructured) io" where
  "kube_Patch c kind namespace name data = bindE (getResourceClient c kind namespace) (\<lambda>(g, ns). kc_patch c g ns name data)"

definition kube_Delete :: "'w clients \<Rightarrow> string \<Rightarrow> string \<Rightarrow> string \<Rightarrow> delete_options \<Rightarrow> ('w, unit) io" where
  "kube_Delete c kind namespace name opts = bindE (getResourceClient c kind namespace) (\<lambda>(g, ns). kc_delete c g ns name opts)"

definition DeleteCollection :: "'w clients \<Rightarrow> string \<Rightarrow> string \<Rightarrow> delete_options \<Rightarrow> string \<Rightarrow> ('w, unit) io" where
  "DeleteCollection c kind namespace opts selector =
     bindE (getResourceClient c kind namespace) (\<lambda>(g, ns). kc_deleteCollection c g ns opts selector)"

section \<open>Deleting resources\<close>

definition deleteIfFound :: "'w clients \<Rightarrow> string \<Rightarrow> string \<Rightarrow> string \<Rightarrow> delete_options \<Rightarrow> ('w, unit) io" where
  "deleteIfFound c kind namespace name opts =
     tryE (kube_Delete c kind namespace name opts)
       (\<lambda>e. if IsNotFound e then ret ()
            else if type_unknown c e then ret ()
            else fail (Wrapf ''unable to delete'' e)) ret"

definition ListResources :: "'w clients \<Rightarrow> resource \<Rightarrow> ('w, unstructured list) io" where
  "ListResources c r =
     bindE (kube_List c (rs_Kind r) (rs_Namespace r) (LabelSelector c r)) (\<lambda>items.
       case rs_HasOwner r of
         None \<Rightarrow> ret items
       | Some b \<Rightarrow> ret (filter (\<lambda>o1. b = (0 < length (u_OwnerReferences o1))) items))"

definition annotated_for_deletion :: "string \<Rightarrow> string \<Rightarrow> unstructured \<Rightarrow> unstructured" where
  "annotated_for_deletion today name o1 =
     o1\<lparr>u_Annotations := Some (m_put ''zalando.org/delete-namespace'' name
          (m_put ''zalando.org/delete-date'' today (case u_Annotations o1 of Some m \<Rightarrow> m | None \<Rightarrow> [])))\<rparr>"

definition overrideDeletionProtection :: "'w clients \<Rightarrow> string \<Rightarrow> string \<Rightarrow> string \<Rightarrow> ('w, unit) io" where
  "overrideDeletionProtection c kind namespace name =
     (if kind \<noteq> ''Namespace'' then ret ()
      else tryE (kube_Get c kind namespace name)
        (\<lambda>e. if IsNotFound e then ret () else fail e)
        (\<lambda>o1 w. bindE (kube_Update c kind namespace (annotated_for_deletion (kc_today c w) name o1)) (\<lambda>_. ret ()) w))"

definition resourceIdentifiers :: "resource \<Rightarrow> nat" where
  "resourceIdentifiers r = (if rs_Name r \<noteq> [] then 1 else 0) + (if rs_Selector r \<noteq> [] then 1 else 0)
     + (if length (rs_Labels r) > 0 then 1 else 0)"

text \<open>The loop over the listed items; the protection is lifted for the name in the deletion.\<close>

definition delete_items :: "'w clients \<Rightarrow> resource \<Rightarrow> unstructured list \<Rightarrow> ('w, unit) io" where
  "delete_items c r items =
     each (\<lambda>item. bindE (overrideDeletionProtection c (rs_Kind r) (rs_Namespace r) (rs_Name r)) (\<lambda>_.
       deleteIfFound c (rs_Kind r) (u_Namespace item) (u_Name item) (resource_Options r))) items"

definition single_quoted :: "string \<Rightarrow> string" where
  "single_quoted s = CHR 0x27 # s @ [CHR 0x27]"

definition identifiers_text :: string where
  "identifiers_text = single_quoted ''name'' @ '', '' @ single_quoted ''selector'' @ '' or '' @ single_quoted ''labels''
     @ '' must be specified to identify a resource''"

definition DeleteResource :: "'w clients \<Rightarrow> resource \<Rightarrow> ('w, unit) io" where
  "DeleteResource c r =
     (if resourceIdentifiers r = 0
      then fail (Errorf (''either '' @ identifiers_text))
      else if resourceIdentifiers r > 1
      then fail (Errorf (''only one of '' @ identifiers_text))
      else if rs_HasOwner r \<noteq> None \<and> rs_Selector r = [] \<and> length (rs_Labels r) = 0
      then fail (Errorf (single_quoted ''has_owner'' @ '' requires '' @ single_quoted ''selector'' @ '' or ''
             @ single_quoted ''labels'' @ '' to be specified''))
      else if rs_Name r \<noteq> []
      then bindE (overrideDeletionProtection c (rs_Kind r) (rs_Namespace r) (rs_Name r)) (\<lambda>_.
             deleteIfFound c (rs_Kind r) (rs_Namespace r) (rs_Name r) (resource_Options r))
      else tryE (ListResources c r)
        (\<lambda>e. if type_unknown c e then ret () else fail e)
        (delete_items c r))"

section \<open>Taints\<close>

definition allowedTaints :: "string list" where
  "allowedTaints = [''NoSchedule'', ''NoExecute'', ''PreferNoSchedule'']"

definition ParseTaint :: "string \<Rightarrow> taint outcome" where
  "ParseTaint spec =
     (let bad = Fail (Errorf (''invalid taint spec: '' @ spec)) in
      case split_on (CHR '':'') spec of
        [key] \<Rightarrow> if contains_str key ''='' then bad else Ret \<lparr>tn_Key = key, tn_Value = [], tn_Effect = []\<rparr>
      | [kv, effect] \<Rightarrow>
          if effect \<notin> set allowedTaints then bad
          else (case split_on (CHR ''='') kv of
                  [key] \<Rightarrow> Ret \<lparr>tn_Key = key, tn_Value = [], tn_Effect = effect\<rparr>
                | [key, v] \<Rightarrow> Ret \<lparr>tn_Key = key, tn_Value = v, tn_Effect = effect\<rparr>
                | _ \<Rightarrow> bad)
      | _ \<Rightarrow> bad)"

section \<open>Manifests\<close>

record kubernetes_meta =
  km_Kind :: string
  km_APIVersion :: string
  km_Name :: string
  km_Namespace :: string

record 'y resource_manifest =
  rm_Content :: 'y
  rm_Name :: string
  rm_Namespace :: string
  rm_Kind :: string
  rm_APIVersion :: string
  rm_SourceFile :: string

text \<open>
  YAML: the documents of a text, with the error that ends them if there is one before the end of the
  text; writing a document; reading the metadata of a written document.
\<close>

record 'y yaml =
  ym_Decode :: "string \<Rightarrow> 'y list \<times> go_error option"
  ym_Marshal :: "'y \<Rightarrow> go_error + string"
  ym_Meta :: "string \<Rightarrow> go_error + kubernetes_meta"

definition errUnsupportedManifest :: go_error where
  "errUnsupportedManifest =
     Sentinel ''unsupported manifest, expecting kind/apiVersion/metadata.name for Kubernetes''"

definition ToYaml :: "'y yaml \<Rightarrow> 'y resource_manifest \<Rightarrow> go_error + string" where
  "ToYaml y m = ym_Marshal y (rm_Content m)"

definition unmashalAndDetectManifestKind :: "'y yaml \<Rightarrow> string \<Rightarrow> kubernetes_meta outcome" where
  "unmashalAndDetectManifestKind y s =
     (case ym_Meta y s of
        Inl e \<Rightarrow> Fail e
      | Inr k \<Rightarrow>
          if km_Kind k \<noteq> [] \<and> km_APIVersion k \<noteq> [] \<and> km_Name k \<noteq> []
          then Ret (if km_Namespace k = [] then k\<lparr>km_Namespace := ''default''\<rparr> else k)
          else Fail errUnsupportedManifest)"

definition parse_document :: "'y yaml \<Rightarrow> string \<Rightarrow> 'y \<Rightarrow> 'y resource_manifest outcome" where
  "parse_document y path raw =
     (let m = \<lparr>rm_Content = raw, rm_Name = [], rm_Namespace = [], rm_Kind = [], rm_APIVersion = [], rm_SourceFile = path\<rparr> in
      case ToYaml y m of
        Inl e \<Rightarrow> Fail e
      | Inr s \<Rightarrow>
          (case unmashalAndDetectManifestKind y s of
             Ret k \<Rightarrow> Ret (m\<lparr>rm_APIVersion := km_APIVersion k, rm_Kind := km_Kind k, rm_Name := km_Name k,
                            rm_Namespace := km_Namespace k\<rparr>)
           | Fail e \<Rightarrow> Fail e
           | Panic p \<Rightarrow> Panic p
           | OutOfFuel \<Rightarrow> OutOfFuel))"

fun parse_documents :: "'y yaml \<Rightarrow> string \<Rightarrow> 'y list \<Rightarrow> go_error option \<Rightarrow> 'y resource_manifest list
    \<Rightarrow> 'y resource_manifest list outcome" where
  "parse_documents y path [] err result = (case err of Some e \<Rightarrow> Fail e | None \<Rightarrow> Ret result)"
| "parse_documents y path (raw # docs) err result =
     (case parse_document y path raw of
        Ret m \<Rightarrow> parse_documents y path docs err (result @ [m])
      | Fail e \<Rightarrow> Fail e
      | Panic p \<Rightarrow> Panic p
      | OutOfFuel \<Rightarrow> OutOfFuel)"

definition ParseResourceManifest :: "'y yaml \<Rightarrow> string \<Rightarrow> string \<Rightarrow> 'y resource_manifest list outcome" where
  "ParseResourceManifest y content path =
     (let (docs, err) = ym_Decode y content in parse_documents y path docs err [])"

section \<open>Applying manifests\<close>

record gvk =
  gk_Group :: string
  gk_Version :: string
  gk_Kind :: string

text \<open>
  What \<open>kubectl apply\<close> and the API server provide: decoding and validating a manifest, the REST
  mapping of a kind and the reset of its cache, the REST client, the annotation with the applied
  configuration, reading, creating and patching an object, and \<open>backoff.RetryNotify\<close>.
\<close>

record ('w, 'y, 'o, 'm) applier =
  ap_Decode :: "string \<Rightarrow> go_error + ('o \<times> gvk)"
  ap_RESTMapping :: "gvk \<Rightarrow> ('w, 'm) io"
  ap_Reset :: "('w \<Rightarrow> 'w) option"
  ap_IsNoMatch :: "go_error \<Rightarrow> bool"
  ap_RESTClient :: "gvk \<Rightarrow> go_error option"
  ap_Modified :: "'o \<Rightarrow> go_error + string"
  ap_Annotate :: "'o \<Rightarrow> go_error + 'o"
  ap_Get :: "'m \<Rightarrow> string \<Rightarrow> string \<Rightarrow> ('w, 'o) io"
  ap_Create :: "'m \<Rightarrow> string \<Rightarrow> 'o \<Rightarrow> ('w, 'o) io"
  ap_Patch :: "'m \<Rightarrow> 'o \<Rightarrow> string \<Rightarrow> string \<Rightarrow> string \<Rightarrow> ('w, unit) io"
  ap_Retry :: "nat \<Rightarrow> ('w, unit) io \<Rightarrow> ('w, unit) io"
  ap_yaml :: "'y yaml"

definition decodeAndValidate :: "('w, 'y, 'o, 'm) applier \<Rightarrow> 'y resource_manifest \<Rightarrow> go_error + ('o \<times> gvk)" where
  "decodeAndValidate d m = (case ToYaml (ap_yaml d) m of Inl e \<Rightarrow> Inl e | Inr s \<Rightarrow> ap_Decode d s)"

definition getRESTMappingFor :: "('w, 'y, 'o, 'm) applier \<Rightarrow> gvk \<Rightarrow> ('w, 'm) io" where
  "getRESTMappingFor d k =
     tryE (ap_RESTMapping d k)
       (\<lambda>e w. if ap_IsNoMatch d e
              then ap_RESTMapping d k (case ap_Reset d of Some f \<Rightarrow> f w | None \<Rightarrow> w)
              else fail e w) ret"

definition applyKubernetesResource :: "('w, 'y, 'o, 'm) applier \<Rightarrow> 'y resource_manifest \<Rightarrow> 'o \<Rightarrow> 'm \<Rightarrow> ('w, unit) io" where
  "applyKubernetesResource d m obj mapping =
     (case ap_Modified d obj of
        Inl e \<Rightarrow> fail e
      | Inr modified \<Rightarrow>
          tryE (ap_Get d mapping (rm_Namespace m) (rm_Name m))
            (\<lambda>e. if \<not> IsNotFound e then fail e
                 else (case ap_Annotate d obj of
                         Inl e' \<Rightarrow> fail e'
                       | Inr obj' \<Rightarrow> bindE (ap_Create d mapping (rm_Namespace m) obj') (\<lambda>_. ret ())))
            (\<lambda>current. ap_Patch d mapping current modified (rm_Namespace m) (rm_Name m)))"

definition applyKubernetesManifest :: "nat \<Rightarrow> ('w, 'y, 'o, 'm) applier \<Rightarrow> 'y resource_manifest \<Rightarrow> ('w, unit) io" where
  "applyKubernetesManifest maxRetries d m =
     (case decodeAndValidate d m of
        Inl e \<Rightarrow> fail e
      | Inr (obj, k) \<Rightarrow>
          bindE (getRESTMappingFor d k) (\<lambda>mapping.
            case ap_RESTClient d k of
              Some e \<Rightarrow> fail e
            | None \<Rightarrow> ap_Retry d maxRetries (applyKubernetesResource d m obj mapping)))"

definition applier_Apply :: "nat \<Rightarrow> ('w, 'y, 'o, 'm) applier \<Rightarrow> 'y resource_manifest \<Rightarrow> ('w, unit) io" where
  "applier_Apply maxRetries d m = applyKubernetesManifest maxRetries d m"

section \<open>Properties of deletions\<close>

text \<open>
  What the API server promises, for the set \<open>live\<close> of the objects it holds and the objects \<open>objs\<close> a
  list call selects: reading and updating neither add nor remove objects, a list call returns the
  selected objects, a deletion removes its object and no other, \<open>NotFound\<close> is told of absent objects
  only, and the errors of the mapper are not errors of the server.
\<close>

type_synonym key = "gvr \<times> string \<times> string"

definition server_laws :: "'w clients \<Rightarrow> ('w \<Rightarrow> key set) \<Rightarrow> ('w \<Rightarrow> gvr \<Rightarrow> string \<Rightarrow> string \<Rightarrow> unstructured list) \<Rightarrow> bool" where
  "server_laws c live objs \<longleftrightarrow>
     (\<forall>g ns n w. live (snd (kc_get c g ns n w)) = live w)
   \<and> (\<forall>g ns x w. live (snd (kc_update c g ns x w)) = live w)
   \<and> (\<forall>g ns s w. live (snd (kc_list c g ns s w)) = live w)
   \<and> (\<forall>g ns s w xs. fst (kc_list c g ns s w) = Ret xs \<longrightarrow> xs = objs w g ns s)
   \<and> (\<forall>g ns s w e. fst (kc_list c g ns s w) = Fail e \<longrightarrow> \<not> type_unknown c e)
   \<and> (\<forall>g ns n opts w. fst (kc_delete c g ns n opts w) = Ret () \<longrightarrow> live (snd (kc_delete c g ns n opts w)) = live w - {(g, ns, n)})
   \<and> (\<forall>g ns n opts w e. fst (kc_delete c g ns n opts w) = Fail e \<longrightarrow>
        live (snd (kc_delete c g ns n opts w)) = live w \<and> \<not> type_unknown c e \<and> (IsNotFound e \<longrightarrow> (g, ns, n) \<notin> live w))"

lemma server_lawsD:
  assumes laws: "server_laws c live objs"
  shows deleted: "kc_delete c g ns n opts w = (Ret u, w') \<Longrightarrow> live w' = live w - {(g, ns, n)}"
    and not_deleted: "kc_delete c g ns n opts w = (Fail e, w') \<Longrightarrow>
      live w' = live w \<and> \<not> type_unknown c e \<and> (IsNotFound e \<longrightarrow> (g, ns, n) \<notin> live w)"
    and listed: "kc_list c g ns s w = (Ret xs, w') \<Longrightarrow> live w' = live w \<and> xs = objs w g ns s"
    and not_listed: "kc_list c g ns s w = (Fail e, w') \<Longrightarrow> \<not> type_unknown c e"
proof -
  have "fst (kc_delete c g ns n opts w) = Ret () \<longrightarrow> live (snd (kc_delete c g ns n opts w)) = live w - {(g, ns, n)}"
    "fst (kc_delete c g ns n opts w) = Fail e \<longrightarrow>
        live (snd (kc_delete c g ns n opts w)) = live w \<and> \<not> type_unknown c e \<and> (IsNotFound e \<longrightarrow> (g, ns, n) \<notin> live w)"
    "live (snd (kc_list c g ns s w)) = live w" "fst (kc_list c g ns s w) = Ret xs \<longrightarrow> xs = objs w g ns s"
    "fst (kc_list c g ns s w) = Fail e \<longrightarrow> \<not> type_unknown c e"
    using laws by (simp_all add: server_laws_def)
  then show "kc_delete c g ns n opts w = (Ret u, w') \<Longrightarrow> live w' = live w - {(g, ns, n)}"
    "kc_delete c g ns n opts w = (Fail e, w') \<Longrightarrow>
      live w' = live w \<and> \<not> type_unknown c e \<and> (IsNotFound e \<longrightarrow> (g, ns, n) \<notin> live w)"
    "kc_list c g ns s w = (Ret xs, w') \<Longrightarrow> live w' = live w \<and> xs = objs w g ns s"
    "kc_list c g ns s w = (Fail e, w') \<Longrightarrow> \<not> type_unknown c e"
    by simp_all
qed

text \<open>The kind is registered: the mapper finds its resource without looking again.\<close>

definition resolves :: "'w clients \<Rightarrow> string \<Rightarrow> gvr \<Rightarrow> bool" where
  "resolves c kind g \<longleftrightarrow> (\<forall>w. resolveKind c kind w = (Ret g, w))"

lemma getResourceClient_resolved: "resolves c kind g \<Longrightarrow> getResourceClient c kind ns w = (Ret (g, ns), w)"
  by (simp add: getResourceClient_def ResolveKind_def resolves_def bindE_def tryE_def ret_def)

lemma calls_resolved:
  assumes "resolves c kind g"
  shows "kube_Delete c kind ns n opts w = kc_delete c g ns n opts w" and "kube_Get c kind ns n w = kc_get c g ns n w"
    and "kube_Update c kind ns x w = kc_update c g ns x w" and "kube_List c kind ns s w = kc_list c g ns s w"
  using getResourceClient_resolved [OF assms]
  by (simp_all add: bindE_def kube_Delete_def kube_Get_def kube_Update_def kube_List_def)

lemma deleteIfFound_live:
  assumes laws: "server_laws c live objs" and g: "resolves c kind g"
    and run: "deleteIfFound c kind ns n opts w = (Ret u, w')"
  shows "live w' = live w - {(g, ns, n)}"
proof -
  have del: "kube_Delete c kind ns n opts w = kc_delete c g ns n opts w" by (rule calls_resolved [OF g])
  from run [unfolded deleteIfFound_def] show ?thesis
  proof (cases rule: tryE_cases)
    case (ok x w1)
    then show ?thesis using deleted [OF laws] del by (simp add: ret_def)
  next
    case (err e w1)
    then have "live w1 = live w \<and> \<not> type_unknown c e \<and> (IsNotFound e \<longrightarrow> (g, ns, n) \<notin> live w)"
      using not_deleted [OF laws] del by simp
    then show ?thesis using err by (auto simp: ret_def fail_def split: if_splits)
  qed simp_all
qed

lemma overrideDeletionProtection_live:
  assumes laws: "server_laws c live objs" and g: "resolves c kind g"
  shows "keeps (\<lambda>v. live v = L) (overrideDeletionProtection c kind ns n)"
proof -
  have "kube_Get c kind ns n = kc_get c g ns n" for n by (rule ext) (rule calls_resolved [OF g])
  moreover have "kube_Update c kind ns x = kc_update c g ns x" for x by (rule ext) (rule calls_resolved [OF g])
  moreover have "keeps (\<lambda>v. live v = L) (kc_get c g ns n)" for n using laws by (simp add: keeps_def server_laws_def)
  moreover have "keeps (\<lambda>v. live v = L) (kc_update c g ns x)" for x using laws by (simp add: keeps_def server_laws_def)
  ultimately have "keeps (\<lambda>v. live v = L) (kube_Get c kind ns n)"
    and up: "keeps (\<lambda>v. live v = L) (bindE (kube_Update c kind ns x) (\<lambda>_. ret ()))" for x by auto
  moreover have "keeps (\<lambda>v. live v = L) (\<lambda>w. bindE (kube_Update c kind ns (annotated_for_deletion (kc_today c w) n o1)) (\<lambda>_. ret ()) w)" for o1
    using up by (simp add: keeps_def)
  ultimately show ?thesis unfolding overrideDeletionProtection_def by (auto intro!: keeps_tryE)
qed

lemma override_live:
  "server_laws c live objs \<Longrightarrow> resolves c kind g \<Longrightarrow> overrideDeletionProtection c kind ns n w = (r, w') \<Longrightarrow> live w' = live w"
  using overrideDeletionProtection_live [of c live objs kind g "live w" ns n] by (simp add: keeps_def) (metis snd_conv)

lemma delete_items_live:
  assumes laws: "server_laws c live objs" and g: "resolves c (rs_Kind r) g"
  shows "delete_items c r items w = (Ret u, w') \<Longrightarrow>
     live w' = live w - {(g, u_Namespace i, u_Name i) |i. i \<in> set items}"
proof (induction items arbitrary: w)
  case Nil
  then show ?case by (simp add: delete_items_def)
next
  case (Cons i items)
  then obtain w1 w2 where
      o: "overrideDeletionProtection c (rs_Kind r) (rs_Namespace r) (rs_Name r) w = (Ret (), w1)"
    and d: "deleteIfFound c (rs_Kind r) (u_Namespace i) (u_Name i) (resource_Options r) w1 = (Ret (), w2)"
    and rest: "delete_items c r items w2 = (Ret u, w')"
    by (auto simp: delete_items_def)
  show ?case
    using override_live [OF laws g o] deleteIfFound_live [OF laws g d] Cons.IH [OF rest] by auto
qed

text \<open>The objects a deletion is about: the named one, or the listed ones with the wanted ownership.\<close>

definition wanted_owner :: "resource \<Rightarrow> unstructured \<Rightarrow> bool" where
  "wanted_owner r o1 \<longleftrightarrow> (case rs_HasOwner r of None \<Rightarrow> True | Some b \<Rightarrow> b = (u_OwnerReferences o1 \<noteq> []))"

definition targets :: "'w clients \<Rightarrow> ('w \<Rightarrow> gvr \<Rightarrow> string \<Rightarrow> string \<Rightarrow> unstructured list) \<Rightarrow> gvr \<Rightarrow> resource \<Rightarrow> 'w \<Rightarrow> key set" where
  "targets c objs g r w =
     (if rs_Name r \<noteq> [] then {(g, rs_Namespace r, rs_Name r)}
      else {(g, u_Namespace i, u_Name i) |i. i \<in> set (objs w g (rs_Namespace r) (LabelSelector c r)) \<and> wanted_owner r i})"

lemma ListResources_items:
  assumes laws: "server_laws c live objs" and g: "resolves c (rs_Kind r) g"
    and run: "ListResources c r w = (Ret items, w')"
  shows "live w' = live w \<and> items = filter (wanted_owner r) (objs w g (rs_Namespace r) (LabelSelector c r))"
proof -
  have "kube_List c (rs_Kind r) (rs_Namespace r) s v = kc_list c g (rs_Namespace r) s v" for s v
    by (rule calls_resolved [OF g])
  with run obtain xs where xs: "kc_list c g (rs_Namespace r) (LabelSelector c r) w = (Ret xs, w')"
    and items: "items = (case rs_HasOwner r of None \<Rightarrow> xs | Some b \<Rightarrow> filter (\<lambda>o1. b = (0 < length (u_OwnerReferences o1))) xs)"
    by (auto simp: ListResources_def split: option.splits)
  have "live w' = live w" "xs = objs w g (rs_Namespace r) (LabelSelector c r)"
    using listed [OF laws xs] by simp_all
  then show ?thesis using items by (auto simp: wanted_owner_def fun_eq_iff split: option.splits intro!: filter_cong)
qed

lemma ListResources_fails:
  assumes "server_laws c live objs" "resolves c (rs_Kind r) g" "ListResources c r w = (Fail e, w')"
  shows "\<not> type_unknown c e"
proof -
  have "kube_List c (rs_Kind r) (rs_Namespace r) s v = kc_list c g (rs_Namespace r) s v" for s v
    by (rule calls_resolved [OF assms(2)])
  with assms(3) have "kc_list c g (rs_Namespace r) (LabelSelector c r) w = (Fail e, w')"
    by (auto simp: ListResources_def bindE_def ret_def split: prod.splits outcome.splits option.splits)
  then show ?thesis by (rule not_listed [OF assms(1)])
qed

text \<open>
  Claim C4. A deletion that succeeds does exactly what was asked: afterwards the server holds the
  objects it held before without the named one, or without the ones that the selector or the labels
  chose and that have the wanted ownership. Nothing else is removed.
\<close>

theorem DeleteResource_exact:
  assumes laws: "server_laws c live objs" and g: "resolves c (rs_Kind r) g"
    and run: "DeleteResource c r w = (Ret (), w')"
  shows "live w' = live w - targets c objs g r w"
proof (cases "rs_Name r = []")
  case False
  with run obtain w1 where
      o: "overrideDeletionProtection c (rs_Kind r) (rs_Namespace r) (rs_Name r) w = (Ret (), w1)"
    and d: "deleteIfFound c (rs_Kind r) (rs_Namespace r) (rs_Name r) (resource_Options r) w1 = (Ret (), w')"
    by (auto simp: DeleteResource_def fail_def split: if_splits)
  show ?thesis
    using override_live [OF laws g o] deleteIfFound_live [OF laws g d] False by (simp add: targets_def)
next
  case True
  with run have "tryE (ListResources c r) (\<lambda>e. if type_unknown c e then ret () else fail e) (delete_items c r) w = (Ret (), w')"
    by (auto simp: DeleteResource_def fail_def split: if_splits)
  then show ?thesis
  proof (cases rule: tryE_cases)
    case (ok items w1)
    have l: "live w1 = live w" "items = filter (wanted_owner r) (objs w g (rs_Namespace r) (LabelSelector c r))"
      using ListResources_items [OF laws g ok(1)] by simp_all
    show ?thesis using delete_items_live [OF laws g ok(2)] l True by (auto simp: targets_def)
  next
    case (err e w1)
    then show ?thesis using ListResources_fails [OF laws g err(1)] by (simp add: fail_def)
  qed simp_all
qed

text \<open>A server that holds the pods in a list.\<close>

definition pods :: gvr where "pods = \<lparr>gr_Group = [], gr_Version = ''v1'', gr_Resource = ''pods''\<rparr>"

definition sample_objects :: "unstructured list \<Rightarrow> gvr \<Rightarrow> string \<Rightarrow> string \<Rightarrow> unstructured list" where
  "sample_objects w g ns s = (if g = pods then filter (\<lambda>o1. u_Namespace o1 = ns) w else [])"

definition sample_live :: "unstructured list \<Rightarrow> key set" where
  "sample_live w = (\<lambda>o1. (pods, u_Namespace o1, u_Name o1)) ` set w"

definition sample_delete :: "gvr \<Rightarrow> string \<Rightarrow> string \<Rightarrow> (unstructured list, unit) io" where
  "sample_delete g ns n w =
     (if g = pods \<and> list_ex (\<lambda>o1. u_Namespace o1 = ns \<and> u_Name o1 = n) w
      then (Ret (), filter (\<lambda>o1. \<not> (u_Namespace o1 = ns \<and> u_Name o1 = n)) w)
      else (Fail (StatusError ''NotFound'' n), w))"

definition sample_clients :: "unstructured list clients" where
  "sample_clients = \<lparr>kc_ParseResourceArg = (\<lambda>k. (None, [], k)),
     kc_ResourceFor = (\<lambda>g w. ((if gr_Resource g = ''Pod'' then (pods, None) else (empty_gvr, Some (Sentinel ''no match''))), w)),
     kc_Reset = None, kc_IsNoMatch = (\<lambda>e. e = Sentinel ''no match''), kc_IsAmbiguous = (\<lambda>_. False),
     kc_create = (\<lambda>_ _ o1 w. (Ret o1, o1 # w)), kc_update = (\<lambda>_ _ o1. ret o1), kc_updateStatus = (\<lambda>_ _ o1. ret o1),
     kc_get = (\<lambda>_ _ n. fail (StatusError ''NotFound'' n)), kc_list = (\<lambda>g ns s w. (Ret (sample_objects w g ns s), w)),
     kc_patch = (\<lambda>_ _ n _. fail (StatusError ''NotFound'' n)), kc_delete = (\<lambda>g ns n _. sample_delete g ns n),
     kc_deleteCollection = (\<lambda>_ _ _ _. ret ()), kc_today = (\<lambda>_. ''2024-01-01''), kc_FormatLabelSelector = Labels_String\<rparr>"

definition sample_pods :: "unstructured list" where
  "sample_pods = [\<lparr>u_Namespace = ''ns'', u_Name = ''a'', u_Annotations = None, u_OwnerReferences = []\<rparr>,
     \<lparr>u_Namespace = ''ns'', u_Name = ''b'', u_Annotations = None, u_OwnerReferences = [''job'']\<rparr>]"

definition sample_resource :: resource where
  "sample_resource = \<lparr>rs_Name = [], rs_Namespace = ''ns'', rs_Kind = ''Pod'', rs_Selector = ''x=y'', rs_Labels = [],
     rs_HasOwner = Some False, rs_GracePeriodSeconds = None, rs_PropagationPolicy = None\<rparr>"

lemma sample_server: "server_laws sample_clients sample_live sample_objects"
  by (auto simp: server_laws_def sample_clients_def sample_live_def sample_delete_def ret_def fail_def type_unknown_def
      list_ex_iff)

lemma sample_resolves: "resolves sample_clients ''Pod'' pods"
  by (simp add: resolves_def resolveKind_def resolve_group_def sample_clients_def pods_def empty_gvr_def ret_def)

theorem DeleteResource_exact_witness:
  "DeleteResource sample_clients sample_resource sample_pods = (Ret (), [sample_pods ! 1])
   \<and> sample_live [sample_pods ! 1]
       = sample_live sample_pods - targets sample_clients sample_objects pods sample_resource sample_pods"
proof -
  have run: "DeleteResource sample_clients sample_resource sample_pods = (Ret (), [sample_pods ! 1])" by code_simp
  have "resolves sample_clients (rs_Kind sample_resource) pods" using sample_resolves by (simp add: sample_resource_def)
  from run DeleteResource_exact [OF sample_server this run] show ?thesis by simp
qed

text \<open>
  A deletion that does not identify its objects in exactly one way, or asks for an ownership without
  a selector, is refused before the server is asked anything.
\<close>

lemma DeleteResource_refuses:
  assumes "resourceIdentifiers r \<noteq> 1 \<or> (rs_HasOwner r \<noteq> None \<and> rs_Name r \<noteq> [])"
  shows "\<exists>e. DeleteResource c r w = (Fail (Errorf e), w)"
proof -
  have "rs_Selector r = [] \<and> length (rs_Labels r) = 0" if "resourceIdentifiers r = 1" "rs_Name r \<noteq> []"
    using that by (auto simp: resourceIdentifiers_def split: if_splits)
  then show ?thesis using assms by (auto simp: DeleteResource_def fail_def)
qed

text \<open>Resources whose type is not registered count as deleted; nothing is changed.\<close>

lemma DeleteResource_unregistered:
  assumes "resourceIdentifiers r = 1" "rs_HasOwner r = None" "rs_Kind r \<noteq> ''Namespace''"
    and "ResolveKind c (rs_Kind r) w = (Fail e, w')" "type_unknown c e"
  shows "DeleteResource c r w = (Ret (), w')"
  using assms by (simp add: DeleteResource_def overrideDeletionProtection_def ListResources_def deleteIfFound_def
      kube_Delete_def kube_List_def getResourceClient_def bindE_def tryE_def ret_def)

text \<open>
  Deleting namespaces by selector fails as soon as one matches: the protection is lifted for the
  empty name of the deletion and not for the name of the namespace, and the dynamic client refuses
  to read an object without a name.
\<close>

lemma namespaces_by_selector_fail:
  assumes g: "resolves c ''Namespace'' g" and kind: "rs_Kind r = ''Namespace''"
    and ids: "resourceIdentifiers r = 1" "rs_Name r = []"
    and name_required: "\<And>ns v. kc_get c g ns [] v = (Fail (Errorf ''name is required''), v)"
    and items: "ListResources c r w = (Ret (i # is), w')"
  shows "DeleteResource c r w = (Fail (Errorf ''name is required''), w')"
proof -
  have "overrideDeletionProtection c ''Namespace'' ns [] v = (Fail (Errorf ''name is required''), v)" for ns v
    using calls_resolved(2) [OF g] name_required
    by (simp add: overrideDeletionProtection_def tryE_def IsNotFound_def fail_def)
  moreover have "rs_Selector r \<noteq> [] \<or> length (rs_Labels r) \<noteq> 0"
    using ids by (auto simp: resourceIdentifiers_def split: if_splits)
  ultimately show ?thesis using ids items kind
    by (auto simp: DeleteResource_def tryE_def delete_items_def bindE_def)
qed

section \<open>Properties of taints\<close>

text \<open>The written form of a taint, as \<open>Taint.ToString\<close> of the API gives it.\<close>

definition taint_str :: "taint \<Rightarrow> string" where
  "taint_str t = (if tn_Effect t = [] then tn_Key t
     else (if tn_Value t = [] then tn_Key t else tn_Key t @ ''='' @ tn_Value t) @ '':'' @ tn_Effect t)"

lemma contains_eq: "contains_str s [c] \<longleftrightarrow> c \<in> set s"
  by (auto simp: contains_str_iff in_set_conv_decomp)

text \<open>
  Parsing a taint reads back what is written: for a key and a value without colons and
  equal signs and an effect that Kubernetes knows (or none, and then no value), parsing the written
  form gives the taint, and every other effect is refused.
\<close>

theorem ParseTaint_roundtrip:
  assumes "CHR '':'' \<notin> set (tn_Key t)" "CHR ''='' \<notin> set (tn_Key t)"
    and "CHR '':'' \<notin> set (tn_Value t)" "CHR ''='' \<notin> set (tn_Value t)" "CHR '':'' \<notin> set (tn_Effect t)"
    and "tn_Effect t = [] \<longrightarrow> tn_Value t = []"
  shows "ParseTaint (taint_str t) =
    (if tn_Effect t = [] \<or> tn_Effect t \<in> set allowedTaints then Ret t
     else Fail (Errorf (''invalid taint spec: '' @ taint_str t)))"
proof (cases "tn_Effect t = []")
  case True
  then show ?thesis using assms by (simp add: ParseTaint_def taint_str_def split_on_no_sep contains_eq)
next
  case False
  define kv where "kv = (if tn_Value t = [] then tn_Key t else tn_Key t @ ''='' @ tn_Value t)"
  have colon: "CHR '':'' \<notin> set kv" using assms by (simp add: kv_def)
  have s: "split_on (CHR '':'') (taint_str t) = [kv, tn_Effect t]"
    using False colon assms(5) by (simp add: taint_str_def kv_def [symmetric] split_on_append split_on_no_sep)
  have "split_on (CHR ''='') kv = (if tn_Value t = [] then [tn_Key t] else [tn_Key t, tn_Value t])"
    using assms by (simp add: kv_def split_on_append split_on_no_sep)
  then show ?thesis using False s by (cases t) (simp add: ParseTaint_def)
qed

theorem ParseTaint_roundtrip_witness:
  "ParseTaint ''dedicated=gpu:NoSchedule'' = Ret \<lparr>tn_Key = ''dedicated'', tn_Value = ''gpu'', tn_Effect = ''NoSchedule''\<rparr>"
  using ParseTaint_roundtrip [of "\<lparr>tn_Key = ''dedicated'', tn_Value = ''gpu'', tn_Effect = ''NoSchedule''\<rparr>"]
  by (simp add: taint_str_def allowedTaints_def)

section \<open>Properties of manifests\<close>

definition complete_manifest :: "'y resource_manifest \<Rightarrow> bool" where
  "complete_manifest m \<longleftrightarrow> rm_Kind m \<noteq> [] \<and> rm_APIVersion m \<noteq> [] \<and> rm_Name m \<noteq> [] \<and> rm_Namespace m \<noteq> []"

lemma parse_document_complete:
  "parse_document y path raw = Ret m \<Longrightarrow> complete_manifest m \<and> rm_Content m = raw \<and> rm_SourceFile m = path"
  by (auto simp: parse_document_def unmashalAndDetectManifestKind_def complete_manifest_def Let_def
      split: sum.splits if_splits outcome.splits)

lemma parse_documents_Ret:
  "parse_documents y path docs err acc = Ret ms \<Longrightarrow> err = None \<and>
     (\<exists>new. ms = acc @ new \<and> map rm_Content new = docs \<and> (\<forall>m \<in> set new. complete_manifest m \<and> rm_SourceFile m = path))"
proof (induction docs arbitrary: acc)
  case Nil
  then show ?case by (auto split: option.splits)
next
  case (Cons raw docs)
  then obtain m where m: "parse_document y path raw = Ret m" "parse_documents y path docs err (acc @ [m]) = Ret ms"
    by (auto split: outcome.splits)
  from Cons.IH [OF m(2)] obtain new where "err = None" "ms = (acc @ [m]) @ new" "map rm_Content new = docs"
      "\<forall>m \<in> set new. complete_manifest m \<and> rm_SourceFile m = path" by auto
  then show ?case using parse_document_complete [OF m(1)] by (intro conjI exI [of _ "m # new"]) auto
qed

text \<open>
  Claim C33. Parsing the resource manifests of a file succeeds only when the whole text was read; it
  then gives one manifest for each document, in order and with its content, and each of them can be
  applied: it has a kind, an API version, a name, and a namespace (\<open>default\<close> when none is given).
\<close>

theorem ParseResourceManifest_complete:
  assumes "ParseResourceManifest y content path = Ret ms"
  shows "ym_Decode y content = (map rm_Content ms, None)
     \<and> (\<forall>m \<in> set ms. complete_manifest m \<and> rm_SourceFile m = path)"
proof -
  obtain docs err where d: "ym_Decode y content = (docs, err)" by (cases "ym_Decode y content")
  then show ?thesis using assms parse_documents_Ret [of y path docs err "[]" ms]
    by (auto simp: ParseResourceManifest_def)
qed

definition sample_yaml :: "string yaml" where
  "sample_yaml = \<lparr>ym_Decode = (\<lambda>s. (split_on (CHR '';'') s, None)), ym_Marshal = Inr,
     ym_Meta = (\<lambda>s. Inr \<lparr>km_Kind = s, km_APIVersion = ''v1'', km_Name = ''n'', km_Namespace = []\<rparr>)\<rparr>"

theorem ParseResourceManifest_complete_witness:
  "\<exists>a b. ParseResourceManifest sample_yaml ''Pod;Service'' ''f'' = Ret [a, b] \<and> complete_manifest a \<and> complete_manifest b
     \<and> ym_Decode sample_yaml ''Pod;Service'' = ([rm_Content a, rm_Content b], None)"
proof -
  let ?m = "\<lambda>k. \<lparr>rm_Content = k, rm_Name = ''n'', rm_Namespace = ''default'', rm_Kind = k, rm_APIVersion = ''v1'', rm_SourceFile = ''f''\<rparr>"
  have run: "ParseResourceManifest sample_yaml ''Pod;Service'' ''f'' = Ret [?m ''Pod'', ?m ''Service'']" by code_simp
  from run ParseResourceManifest_complete [OF run] show ?thesis by auto
qed

end
