(* ===== verification/Pool_Provisioner.thy ===== *)
theory Pool_Provisioner
  imports Template_Render Subnets Kube_Client Instance_Info
begin

text \<open>
  Provisioning and reconciling node pools (\<open>provisioner/node_pools.go\<close>), the files uploaded for their
  nodes (\<open>provisioner/remote_files.go\<close>) and the decryption of secrets (\<open>pkg/decrypter\<close>). A pool is a
  CloudFormation stack or, with Karpenter, a set of Kubernetes objects. The pools of a group are
  provisioned by one goroutine each; the model runs them one after the other, in the order of the
  list. Compression, archives, digests and encodings are parameters.
\<close>

section \<open>Template data\<close>

datatype tvalue =
    VString string
  | VInt int
  | VBool bool
  | VStrings "string list"
  | VMap "string gomap"
  | VInstance instance_info

type_synonym tvalues = "tvalue gomap"

record tdata =
  td_Cluster :: cluster
  td_Values :: tvalues
  td_NodePool :: "node_pool option"
  td_InstanceTypes :: "instance_types option"

definition CopyValues :: "tvalues \<Rightarrow> tvalues" where
  "CopyValues v = fold (\<lambda>(k, x). m_put k x) v []"

record remote_file =
  rf_Path :: string
  rf_Data :: string
  rf_Encrypted :: bool
  rf_Permissions :: int

record archive_entry =
  ae_Name :: string
  ae_Size :: int
  ae_Mode :: int
  ae_Content :: string

text \<open>
  The outside of the provisioners: the AWS adapter, the channel configuration, the template engine,
  and the encodings: strict YAML of the file list, base64, the header check of a tar writer, the
  archive of entries, \<open>gzip\<close> and SHA-512 in hexadecimal. \<open>en_fuel\<close> bounds the waiting loops.
\<close>

record ('w, 'c) surroundings =
  sr_aws :: "('w, 'c) aws_api"
  sr_env :: "'w env"
  sr_fuel :: nat
  sr_config :: "'w config"
  sr_engine :: "tdata engine"
  sr_RemoteFiles :: "string \<Rightarrow> go_error + remote_file list"
  sr_Base64Encode :: "string \<Rightarrow> string"
  sr_Base64Decode :: "string \<Rightarrow> go_error + string"
  sr_TarHeader :: "archive_entry \<Rightarrow> go_error option"
  sr_TarGzip :: "archive_entry list \<Rightarrow> go_error + string"
  sr_Gzip :: "string \<Rightarrow> string"
  sr_Sha512 :: "string \<Rightarrow> string"

definition from_outcome :: "'a outcome \<Rightarrow> ('w, 'a) io" where
  "from_outcome r w = (r, w)"

definition render_single :: "('w, 'c) surroundings \<Rightarrow> manifest \<Rightarrow> tdata \<Rightarrow> ('w, string) io" where
  "render_single s m d = from_outcome (renderSingleTemplate (sr_engine s) m d)"

section \<open>Secrets\<close>

definition AWSKMSSecretPrefix :: string where "AWSKMSSecretPrefix = ''aws:kms:''"

type_synonym 'w decrypter = "string \<Rightarrow> ('w, string) io"

definition SecretDecrypter_Decrypt :: "'w decrypter gomap \<Rightarrow> 'w decrypter" where
  "SecretDecrypter_Decrypt ds secret =
     (if has_prefix secret AWSKMSSecretPrefix
      then (case m_get ds AWSKMSSecretPrefix of
              Some d \<Rightarrow> d (trim_prefix secret AWSKMSSecretPrefix)
            | None \<Rightarrow> ret secret)
      else ret secret)"

text \<open>The decrypter of KMS, from the decoding of base64 and the call to the service.\<close>

definition awsKMS_Decrypt :: "(string \<Rightarrow> go_error + string) \<Rightarrow> 'w decrypter \<Rightarrow> 'w decrypter" where
  "awsKMS_Decrypt decode kms secret =
     (case decode secret of Inl e \<Rightarrow> fail e | Inr blob \<Rightarrow> kms blob)"

section \<open>Files for the nodes\<close>

definition archive_file :: "('w, 'c) surroundings \<Rightarrow> string \<Rightarrow> remote_file \<Rightarrow> ('w, archive_entry) io" where
  "archive_file s kmsKey f =
     (case sr_Base64Decode s (rf_Data f) of
        Inl _ \<Rightarrow> fail (Errorf (''failed to decode data for file: '' @ rf_Path f))
      | Inr decoded \<Rightarrow>
          bindE (if rf_Encrypted f
                 then bindE (aw_Encrypt (sr_aws s) kmsKey decoded) (\<lambda>blob. ret (blob, rf_Path f @ ''.enc''))
                 else ret (decoded, rf_Path f)) (\<lambda>(content, name).
            let entry = \<lparr>ae_Name = name, ae_Size = int (length content), ae_Mode = rf_Permissions f, ae_Content = content\<rparr> in
            case sr_TarHeader s entry of
              Some e \<Rightarrow> fail (Errorf (''failed to write header: '' @ error_text e))
            | None \<Rightarrow> ret entry))"

fun archive_files :: "('w, 'c) surroundings \<Rightarrow> string \<Rightarrow> remote_file list \<Rightarrow> ('w, archive_entry list) io" where
  "archive_files s kmsKey [] = ret []"
| "archive_files s kmsKey (f # fs) =
     bindE (archive_file s kmsKey f) (\<lambda>e. bindE (archive_files s kmsKey fs) (\<lambda>es. ret (e # es)))"

definition makeArchive :: "('w, 'c) surroundings \<Rightarrow> string \<Rightarrow> string \<Rightarrow> ('w, string) io" where
  "makeArchive s input kmsKey =
     (case sr_RemoteFiles s input of
        Inl e \<Rightarrow> fail e
      | Inr rfs \<Rightarrow> bindE (archive_files s kmsKey rfs) (\<lambda>entries. from_sum (sr_TarGzip s entries)))"

definition generateDataHash :: "('w, 'c) surroundings \<Rightarrow> string \<Rightarrow> string" where
  "generateDataHash s userData = sr_Sha512 s userData @ ''.userdata''"

definition RenderAndUploadFiles :: "('w, 'c) surroundings \<Rightarrow> tdata \<Rightarrow> string \<Rightarrow> string \<Rightarrow> string \<Rightarrow> ('w, string) io" where
  "RenderAndUploadFiles s d directory bucketName kmsKey =
     bindE (case td_NodePool d of
              None \<Rightarrow> cf_EtcdManifest (sr_config s) ''files.yaml''
            | Some np \<Rightarrow> cf_NodePoolManifest (sr_config s) (np_Profile np) ''files.yaml'') (\<lambda>m.
     bindE (render_single s m d) (\<lambda>rendered.
     bindE (makeArchive s rendered kmsKey) (\<lambda>archive.
       let filename = path_Join [cl_LocalID (td_Cluster d), directory, generateDataHash s rendered] in
     bindE (aw_Upload (sr_aws s) bucketName filename archive) (\<lambda>_.
       ret (''s3://'' @ bucketName @ ''/'' @ filename)))))"

section \<open>Templates of node pools\<close>

definition getPKIKMSKey :: "('w, 'c) aws_api \<Rightarrow> string \<Rightarrow> string \<Rightarrow> ('w, string) io" where
  "getPKIKMSKey a clusterID keyName =
     bindE (getStackByName a clusterID) (\<lambda>st.
       case filter (\<lambda>(k, v). k = keyName) (sk_Outputs st) of
         (k, v) # _ \<Rightarrow> ret v
       | [] \<Rightarrow> fail (Errorf (''failed to find the encryption key: '' @ keyName)))"

definition userDataValuesKey :: string where "userDataValuesKey = ''UserData''"
definition s3GeneratedFilesPathValuesKey :: string where "s3GeneratedFilesPathValuesKey = ''S3GeneratedFilesPath''"
definition instanceInfoKey :: string where "instanceInfoKey = ''InstanceInfo''"

record renderer =
  rn_cluster :: cluster
  rn_bucketName :: string
  rn_encodeUserData :: bool
  rn_instanceTypes :: instance_types

definition pool_data :: "renderer \<Rightarrow> node_pool \<Rightarrow> tvalues \<Rightarrow> tdata" where
  "pool_data r np values = \<lparr>td_Cluster = rn_cluster r, td_Values = values, td_NodePool = Some np,
     td_InstanceTypes = Some (rn_instanceTypes r)\<rparr>"

text \<open>The user data and the values with the path of the uploaded files.\<close>

definition prepareCloudInit :: "('w, 'c) surroundings \<Rightarrow> renderer \<Rightarrow> node_pool \<Rightarrow> tvalues \<Rightarrow> ('w, string \<times> tvalues) io" where
  "prepareCloudInit s r np values =
     (let (keyName, poolKind) = (if IsMaster np then (''MasterFilesEncryptionKey'', ''master'')
                                 else (''WorkerFilesEncryptionKey'', ''worker'')) in
      bindE (getPKIKMSKey (sr_aws s) (cl_LocalID (rn_cluster r)) keyName) (\<lambda>kmsKey.
      bindE (RenderAndUploadFiles s (pool_data r np values) poolKind (rn_bucketName r) kmsKey) (\<lambda>s3Path.
        let values' = m_put s3GeneratedFilesPathValuesKey (VString s3Path) values in
      bindE (cf_NodePoolManifest (sr_config s) (np_Profile np) ''userdata.yaml'') (\<lambda>m.
      bindE (render_single s m (pool_data r np values')) (\<lambda>rendered.
        ret (if \<not> rn_encodeUserData r then rendered else sr_Base64Encode s (sr_Gzip s rendered), values'))))))"

definition generateNodePoolTemplate :: "('w, 'c) surroundings \<Rightarrow> renderer \<Rightarrow> node_pool \<Rightarrow> tvalues \<Rightarrow> string \<Rightarrow> ('w, string) io" where
  "generateNodePoolTemplate s r np values templateFileName =
     bindE (prepareCloudInit s r np values) (\<lambda>(userData, values').
       let values'' = m_put userDataValuesKey (VString userData) values';
           fileName = (if templateFileName = [] then ''stack.yaml'' else templateFileName) in
       bindE (cf_NodePoolManifest (sr_config s) (np_Profile np) fileName) (\<lambda>m.
         render_single s m (pool_data r np values'')))"

section \<open>Provisioning groups of pools\<close>

text \<open>
  The goroutines of a group and the errors they send: every element is processed whatever happens to
  the others, and the texts of the errors are collected.
\<close>

fun run_all :: "('a \<Rightarrow> ('w, unit) io) \<Rightarrow> ('a \<Rightarrow> go_error \<Rightarrow> go_error) \<Rightarrow> 'a list \<Rightarrow> ('w, string list) io" where
  "run_all f wrap [] = ret []"
| "run_all f wrap (x # xs) =
     tryE (f x) (\<lambda>e. bindE (run_all f wrap xs) (\<lambda>es. ret (error_text (wrap x e) # es))) (\<lambda>_. run_all f wrap xs)"

definition joined :: "('w, string list) io \<Rightarrow> ('w, unit) io" where
  "joined m = bindE m (\<lambda>errorStrs. if length errorStrs > 0 then fail (Errorf (join_with '', '' errorStrs)) else ret ())"

definition pool_failed :: "node_pool \<Rightarrow> go_error \<Rightarrow> go_error" where
  "pool_failed np e = Errorf (''failed to provision node pool '' @ np_Name np @ '': '' @ error_text e)"

definition supportsT2Unlimited :: "string list \<Rightarrow> bool" where
  "supportsT2Unlimited types = list_all (\<lambda>t. has_prefix t ''t2.'') types"

definition nodePoolTagKeyLegacy :: string where "nodePoolTagKeyLegacy = ''NodePool''"
definition nodePoolTagKey :: string where "nodePoolTagKey = ''kubernetes.io/node-pool''"
definition nodePoolRoleTagKey :: string where "nodePoolRoleTagKey = ''kubernetes.io/role/node-pool''"
definition nodePoolProfileTagKey :: string where "nodePoolProfileTagKey = ''kubernetes.io/node-pool/profile''"

definition node_pool_tags :: "('a) account_cluster_scheme \<Rightarrow> node_pool \<Rightarrow> string gomap" where
  "node_pool_tags c np =
     [(tagNameKubernetesClusterPrefix @ cluster_Name c, lifecycleOwned), (nodePoolRoleTagKey, ''true''),
      (nodePoolTagKey, np_Name np), (nodePoolTagKeyLegacy, np_Name np), (nodePoolProfileTagKey, np_Profile np)]"

definition wait_for_stack :: "('w, 'c) surroundings \<Rightarrow> string \<Rightarrow> ('w, unit) io" where
  "wait_for_stack s name w =
     waitForStack (sr_fuel s) (with_deadline (en_now (sr_env s) w + maxWaitTimeout) (sr_env s)) (sr_aws s) waitTime name w"

definition aws_provisionNodePool :: "('w, 'c) surroundings \<Rightarrow> renderer \<Rightarrow> az_info \<Rightarrow> tvalues \<Rightarrow> node_pool \<Rightarrow> ('w, unit) io" where
  "aws_provisionNodePool s r azInfo values np =
     (let values1 = m_put ''supports_t2_unlimited'' (VBool (supportsT2Unlimited (np_InstanceTypes np))) values in
      bindE (from_outcome (SyntheticInstanceInfo (rn_instanceTypes r) (np_InstanceTypes np))) (\<lambda>info.
        let values2 = m_put instanceInfoKey (VInstance info) values1;
            values3 = (case m_get (np_ConfigItems np) ''availability_zones'' of
                None \<Rightarrow> values2
              | Some azNames \<Rightarrow>
                  (let az = RestrictAZs azInfo (split_on (CHR '','') azNames) in
                   m_put ''availability_zones'' (VStrings (AvailabilityZones az))
                     (m_put ''subnets'' (VMap (SubnetsByAZ az)) values2))) in
      bindE (generateNodePoolTemplate s r np values3 ''stack.yaml'') (\<lambda>template.
        let stackName = ''nodepool-'' @ np_Name np @ ''-'' @ replace_all (cl_ID (rn_cluster r)) (CHR '':'') ''-'' in
      bindE (applyStack (sr_aws s) stackName template [] (node_pool_tags (rn_cluster r) np) True None) (\<lambda>_.
        wait_for_stack s stackName))))"

definition aws_Provision :: "('w, 'c) surroundings \<Rightarrow> renderer \<Rightarrow> az_info \<Rightarrow> node_pool list \<Rightarrow> tvalues \<Rightarrow> ('w, unit) io" where
  "aws_Provision s r azInfo nodePools values =
     joined (run_all (\<lambda>np. aws_provisionNodePool s r azInfo (CopyValues values) np) pool_failed nodePools)"

definition karpenter_provisionNodePool :: "('w, 'c) surroundings \<Rightarrow> renderer \<Rightarrow> nat \<Rightarrow> ('w, 'y, 'o, 'm) applier \<Rightarrow> tvalues
    \<Rightarrow> node_pool \<Rightarrow> ('w, unit) io" where
  "karpenter_provisionNodePool s r retries d values np =
     bindE (generateNodePoolTemplate s r np values ''provisioners.yaml'') (\<lambda>template.
       if template = [] then ret ()
       else tryE (from_outcome (ParseResourceManifest (ap_yaml d) template ''provisioners.yaml''))
         (\<lambda>e. fail (Wrapf (''failed to parse provisioners manifest for node pool '' @ np_Name np) e))
         (each (\<lambda>m. tryE (applier_Apply retries d m)
            (\<lambda>e. fail (Wrapf (''apply failed for '' @ rm_Kind m @ ''/'' @ rm_Name m @ '' in node pool '' @ np_Name np) e)) ret)))"

definition karpenter_Provision :: "('w, 'c) surroundings \<Rightarrow> renderer \<Rightarrow> nat \<Rightarrow> ('w, 'y, 'o, 'm) applier \<Rightarrow> node_pool list \<Rightarrow> tvalues
    \<Rightarrow> ('w, unit) io" where
  "karpenter_Provision s r retries d nodePools values =
     joined (run_all (\<lambda>np. karpenter_provisionNodePool s r retries d (CopyValues values) np) pool_failed nodePools)"

section \<open>Reconciling\<close>

record 'w updater =
  up_Update :: "node_pool \<Rightarrow> ('w, unit) io"
  up_PrepareForRemoval :: "node_pool \<Rightarrow> ('w, unit) io"

definition named_pool :: "string \<Rightarrow> string \<Rightarrow> node_pool" where
  "named_pool name profile = \<lparr>np_DiscountStrategy = [], np_InstanceTypes = [], np_Name = name, np_Profile = profile,
     np_MinSize = 0, np_MaxSize = 0, np_ConfigItems = [], np_InstanceType = []\<rparr>"

definition inNodePoolList :: "node_pool \<Rightarrow> node_pool list \<Rightarrow> bool" where
  "inNodePoolList np nodePools = list_ex (\<lambda>x. np_Name x = np_Name np) nodePools"

definition nodePoolStackToNodePool :: "stack \<Rightarrow> node_pool" where
  "nodePoolStackToNodePool s = fold (\<lambda>(k, v) np.
     let np1 = (if k = nodePoolTagKey then np\<lparr>np_Name := v\<rparr> else np) in
     if k = nodePoolProfileTagKey then np1\<lparr>np_Profile := v\<rparr> else np1) (sk_Tags s) (named_pool [] [])"

definition orphanedNodePoolStacks :: "stack list \<Rightarrow> node_pool list \<Rightarrow> stack list" where
  "orphanedNodePoolStacks stacks nodePools =
     filter (\<lambda>s. \<not> inNodePoolList (nodePoolStackToNodePool s) nodePools) stacks"

definition remove_orphan :: "('w, 'c) surroundings \<Rightarrow> 'w updater \<Rightarrow> stack \<Rightarrow> ('w, unit) io" where
  "remove_orphan s u st =
     bindE (up_PrepareForRemoval u (nodePoolStackToNodePool st)) (\<lambda>_.
       aws_DeleteStack (sr_fuel s) (sr_env s) (sr_aws s) st)"

definition aws_Reconcile :: "('w, 'c) surroundings \<Rightarrow> ('a) account_cluster_scheme \<Rightarrow> 'w updater \<Rightarrow> ('w, unit) io" where
  "aws_Reconcile s c u =
     bindE (ListStacks (sr_aws s)
       [(tagNameKubernetesClusterPrefix @ cluster_Name c, lifecycleOwned), (nodePoolRoleTagKey, ''true'')] []) (\<lambda>stacks.
       each (remove_orphan s u) (orphanedNodePoolStacks stacks (ASGBackedPools c)))"

text \<open>
  The objects of Karpenter: the node pools and node classes by name, and the labels of the nodes that
  have the given labels.
\<close>

record 'w karpenter =
  kk_NodePools :: "('w, string list) io"
  kk_DeleteNodePool :: "string \<Rightarrow> ('w, unit) io"
  kk_Nodes :: "string gomap \<Rightarrow> ('w, string gomap list) io"
  kk_NodeClasses :: "('w, string list) io"
  kk_DeleteNodeClass :: "string \<Rightarrow> ('w, unit) io"
  kk_NodePoolLabelKey :: string

definition karpenterNodePoolProfile :: string where "karpenterNodePoolProfile = ''worker-karpenter''"

fun obsolete_pools :: "string \<Rightarrow> node_pool list \<Rightarrow> string gomap list \<Rightarrow> string list \<Rightarrow> node_pool list" where
  "obsolete_pools key pools [] checked = []"
| "obsolete_pools key pools (labels # ns) checked =
     (let name = m_str labels key in
      if name \<in> set checked then obsolete_pools key pools ns checked
      else (let np = named_pool name karpenterNodePoolProfile; rest = obsolete_pools key pools ns (name # checked) in
            if \<not> inNodePoolList np pools then np # rest else rest))"

definition karpenter_Reconcile :: "'w karpenter \<Rightarrow> ('a) account_cluster_scheme \<Rightarrow> 'w updater \<Rightarrow> ('w, unit) io" where
  "karpenter_Reconcile k c u =
     (let pools = KarpenterPools c;
          unknown = (\<lambda>name. \<not> inNodePoolList (named_pool name karpenterNodePoolProfile) pools) in
      bindE (kk_NodePools k) (\<lambda>existing.
      bindE (each (\<lambda>name. if unknown name then kk_DeleteNodePool k name else ret ()) existing) (\<lambda>_.
      bindE (kk_Nodes k [(kk_NodePoolLabelKey k, [])]) (\<lambda>nodes.
      bindE (each (up_PrepareForRemoval u) (obsolete_pools (kk_NodePoolLabelKey k) pools nodes [])) (\<lambda>_.
      bindE (kk_NodeClasses k) (\<lambda>classes.
        each (\<lambda>name. if \<not> inNodePoolList (named_pool name []) pools then kk_DeleteNodeClass k name else ret ()) classes))))))"

section \<open>Provisioning groups\<close>

lemma run_all_Nil_iff: "run_all f wrap xs w = (Ret [], w') \<longleftrightarrow> each f xs w = (Ret (), w')"
proof (induction xs arbitrary: w)
  case Nil
  then show ?case by (auto simp: ret_def)
next
  case (Cons x xs)
  obtain r w1 where f: "f x w = (r, w1)" by (cases "f x w")
  show ?case using f Cons.IH [of w1]
    by (cases r) (auto simp: tryE_def bindE_def ret_def split: prod.splits outcome.splits)
qed

text \<open>Every element is processed: the errors of a group are those of its members, none is lost.\<close>

lemma run_all_counts:
  "run_all f wrap xs w = (Ret es, w') \<Longrightarrow> length es \<le> length xs \<and> (es = [] \<longleftrightarrow> each f xs w = (Ret (), w'))"
proof -
  have "run_all f wrap xs w = (Ret es, w') \<Longrightarrow> length es \<le> length xs" for es w'
  proof (induction xs arbitrary: w es)
    case (Cons x xs)
    from Cons.prems have "tryE (f x) (\<lambda>e. bindE (run_all f wrap xs) (\<lambda>es. ret (error_text (wrap x e) # es)))
        (\<lambda>_. run_all f wrap xs) w = (Ret es, w')" by simp
    then show ?case by (cases rule: tryE_cases) (auto dest: Cons.IH)
  qed (simp add: ret_def)
  then show "run_all f wrap xs w = (Ret es, w') \<Longrightarrow> length es \<le> length xs \<and> (es = [] \<longleftrightarrow> each f xs w = (Ret (), w'))"
    using run_all_Nil_iff [of f wrap xs w w'] by auto
qed

lemma joined_run_all:
  "joined (run_all f wrap xs) w = (Ret (), w') \<longleftrightarrow> each f xs w = (Ret (), w')"
proof -
  have "joined (run_all f wrap xs) w = (Ret (), w') \<longleftrightarrow> run_all f wrap xs w = (Ret [], w')"
    by (auto simp: joined_def fail_def split: if_splits)
  then show ?thesis by (simp only: run_all_Nil_iff)
qed

section \<open>Stacks of node pools\<close>

lemma pool_of_tags:
  assumes "m_ok (sk_Tags s)"
  shows "np_Name (nodePoolStackToNodePool s) = m_str (sk_Tags s) nodePoolTagKey"
    and "np_Profile (nodePoolStackToNodePool s) = m_str (sk_Tags s) nodePoolProfileTagKey"
proof -
  let ?step = "\<lambda>(k, v) np. let np1 = (if k = nodePoolTagKey then np\<lparr>np_Name := v\<rparr> else np) in
     if k = nodePoolProfileTagKey then np1\<lparr>np_Profile := v\<rparr> else np1"
  have keys: "nodePoolTagKey \<noteq> nodePoolProfileTagKey" by (simp add: nodePoolTagKey_def nodePoolProfileTagKey_def)
  have *: "np_Name (fold ?step ts np) = (case m_get ts nodePoolTagKey of Some v \<Rightarrow> v | None \<Rightarrow> np_Name np)
     \<and> np_Profile (fold ?step ts np) = (case m_get ts nodePoolProfileTagKey of Some v \<Rightarrow> v | None \<Rightarrow> np_Profile np)"
    if "m_ok ts" for ts np
    using that
  proof (induction ts arbitrary: np)
    case (Cons t ts)
    obtain k v where t: "t = (k, v)" by (cases t)
    have ok: "m_ok ts" and fresh: "m_get ts k = None" using Cons.prems t by (auto simp: m_ok_def map_of_eq_None_iff)
    then show ?case using Cons.IH [OF ok] t keys by (auto simp: Let_def split: option.splits)
  qed simp
  show "np_Name (nodePoolStackToNodePool s) = m_str (sk_Tags s) nodePoolTagKey"
    and "np_Profile (nodePoolStackToNodePool s) = m_str (sk_Tags s) nodePoolProfileTagKey"
    using * [OF assms, of "named_pool [] []"]
    by (simp_all add: nodePoolStackToNodePool_def m_str_def named_pool_def split: option.splits)
qed

lemmas pool_tag_keys = nodePoolTagKey_def nodePoolTagKeyLegacy_def nodePoolRoleTagKey_def nodePoolProfileTagKey_def
  tagNameKubernetesClusterPrefix_def

lemma m_ok_node_pool_tags: "m_ok (node_pool_tags c np)"
  by (simp add: node_pool_tags_def m_ok_def pool_tag_keys)

definition reconcile_tags :: "('a) account_cluster_scheme \<Rightarrow> string gomap" where
  "reconcile_tags c = [(tagNameKubernetesClusterPrefix @ cluster_Name c, lifecycleOwned), (nodePoolRoleTagKey, ''true'')]"

text \<open>
  Claim C23. What provisioning writes, reconciling reads: the stack of a provisioned node pool, whatever
  its template adds to the tags and in whatever order CloudFormation lists them, is found by the
  filter of \<open>Reconcile\<close>, is read back as a pool with the same name and profile, and is orphaned
  exactly when the cluster has no pool with that name any more.
\<close>

theorem provisioned_pool_recognised:
  assumes tags: "mset (sk_Tags st) = mset (tagMapToCloudformationTags (mergeTags [templateTags, node_pool_tags c np]))"
  shows "cloudformationHasTags (reconcile_tags c) (sk_Tags st)
     \<and> np_Name (nodePoolStackToNodePool st) = np_Name np \<and> np_Profile (nodePoolStackToNodePool st) = np_Profile np
     \<and> (st \<in> set (orphanedNodePoolStacks stacks pools) \<longleftrightarrow> st \<in> set stacks \<and> np_Name np \<notin> np_Name ` set pools)"
proof -
  let ?m = "mergeTags [templateTags, node_pool_tags c np]"
  have okm: "m_ok ?m" by (rule m_ok_mergeTags)
  have same: "mset (sk_Tags st) = mset ?m" using tags by (simp add: tagMapToCloudformationTags_def)
  then have "mset (map fst (sk_Tags st)) = mset (map fst ?m)" by simp
  then have ok: "m_ok (sk_Tags st)" using okm unfolding m_ok_def by (metis mset_eq_imp_distinct_iff)
  have get: "m_get (sk_Tags st) k = (case m_get (node_pool_tags c np) k of Some v \<Rightarrow> Some v | None \<Rightarrow> m_get (tagsToMap templateTags) k)" for k
    using m_get_mset [OF ok same] mergeTags_get [OF m_ok_node_pool_tags, of templateTags c np k] by simp
  have "m_get (sk_Tags st) nodePoolTagKey = Some (np_Name np)" "m_get (sk_Tags st) nodePoolProfileTagKey = Some (np_Profile np)"
    by (simp_all add: get node_pool_tags_def pool_tag_keys)
  then have pool: "np_Name (nodePoolStackToNodePool st) = np_Name np" "np_Profile (nodePoolStackToNodePool st) = np_Profile np"
    using pool_of_tags [OF ok] by (simp_all add: m_str_def)
  have "m_ok (reconcile_tags c)" by (simp add: reconcile_tags_def m_ok_def pool_tag_keys)
  moreover have "m_get (sk_Tags st) k = Some v" if "(k, v) \<in> set (reconcile_tags c)" for k v
    using that by (auto simp: get reconcile_tags_def node_pool_tags_def pool_tag_keys)
  ultimately have "cloudformationHasTags (reconcile_tags c) (sk_Tags st)"
    using hasTags_iff [OF ok] ok by (auto simp: m_ok_get_iff)
  with pool show ?thesis by (auto simp: orphanedNodePoolStacks_def inNodePoolList_def list_ex_iff image_iff)
qed

theorem provisioned_pool_recognised_witness:
  "np_Profile (nodePoolStackToNodePool \<lparr>sk_Name = ''s'', sk_Status = ''CREATE_COMPLETE'', sk_Reason = None, sk_LastUpdated = None,
       sk_Tags = rev (tagMapToCloudformationTags (mergeTags [[(''x'', ''1'')], node_pool_tags sample_cluster (named_pool ''p'' ''worker'')])),
       sk_Outputs = []\<rparr>) = ''worker''"
  using provisioned_pool_recognised [of
    "\<lparr>sk_Name = ''s'', sk_Status = ''CREATE_COMPLETE'', sk_Reason = None, sk_LastUpdated = None,
       sk_Tags = rev (tagMapToCloudformationTags (mergeTags [[(''x'', ''1'')], node_pool_tags sample_cluster (named_pool ''p'' ''worker'')])),
       sk_Outputs = []\<rparr>" "[(''x'', ''1'')]" sample_cluster "named_pool ''p'' ''worker''"]
  by (simp add: named_pool_def)

text \<open>
  \<open>Reconcile\<close> leaves the pools of the cluster alone: whatever its listing of the stacks and the removal
  of pools that the cluster does not have preserve, it preserves.
\<close>

lemma aws_Reconcile_only_orphans:
  assumes listing: "keeps I (aw_DescribeStacks (sr_aws s))"
    and removal: "\<And>st. np_Name (nodePoolStackToNodePool st) \<notin> np_Name ` set (ASGBackedPools c) \<Longrightarrow> keeps I (remove_orphan s u st)"
  shows "keeps I (aws_Reconcile s c u)"
proof -
  have "keeps I (each (remove_orphan s u) (orphanedNodePoolStacks stacks (ASGBackedPools c)))" for stacks
    by (rule keeps_each, rule removal) (auto simp: orphanedNodePoolStacks_def inNodePoolList_def list_ex_iff)
  then show ?thesis unfolding aws_Reconcile_def ListStacks_def using listing by (auto intro!: keeps_bindE)
qed

section \<open>Secrets\<close>

text \<open>
  A secret encrypted for a node can be read as a config item: what \<open>kmsEncryptForTaupage\<close>
  returns, the decrypter with KMS turns back into the plain text, provided that KMS decrypts what it
  encrypted and decoding base64 inverts encoding it.
\<close>

theorem encrypted_secret_decrypts:
  assumes base64: "\<And>x. decode (aw_Base64 a x) = Inr x"
    and service: "\<And>v blob v'. aw_Encrypt a key plain v = (Ret blob, v') \<Longrightarrow> fst (kms blob v') = Ret plain"
    and run: "kmsEncryptForTaupage a key plain w = (Ret secret, w')"
  shows "fst (SecretDecrypter_Decrypt [(AWSKMSSecretPrefix, awsKMS_Decrypt decode kms)] secret w') = Ret plain"
proof -
  obtain blob where blob: "aw_Encrypt a key plain w = (Ret blob, w')" and secret: "secret = AWSKMSSecretPrefix @ aw_Base64 a blob"
    using run by (auto simp: kmsEncryptForTaupage_def AWSKMSSecretPrefix_def)
  show ?thesis unfolding secret
    by (simp add: SecretDecrypter_Decrypt_def awsKMS_Decrypt_def base64 service [OF blob])
qed

theorem encrypted_secret_decrypts_witness:
  "fst (SecretDecrypter_Decrypt [(AWSKMSSecretPrefix, awsKMS_Decrypt Inr (\<lambda>blob. ret (rev blob)))] ''aws:kms:cba'' (([], 0) :: account)) = Ret ''abc''"
proof -
  let ?a = "sample_aws\<lparr>aw_Base64 := (\<lambda>x. x), aw_Encrypt := (\<lambda>k x. ret (rev x))\<rparr>"
  have run: "kmsEncryptForTaupage ?a ''k'' ''abc'' ([], 0) = (Ret ''aws:kms:cba'', ([], 0))"
    by (simp add: kmsEncryptForTaupage_def)
  show ?thesis by (rule encrypted_secret_decrypts [OF _ _ run]) (auto simp: ret_def)
qed

section \<open>Obsolete Karpenter pools\<close>

text \<open>
  \<open>Reconcile\<close> lists the nodes whose node pool label equals the empty string. With the meaning labels
  selectors have, no node of a named pool is among them, so no obsolete pool of Karpenter is ever
  prepared for removal: the only candidate is the pool without a name.
\<close>

lemma obsolete_only_unnamed:
  assumes "\<And>labels. labels \<in> set nodes \<Longrightarrow> m_get labels key = Some []"
  shows "set (obsolete_pools key pools nodes checked) \<subseteq> {named_pool [] karpenterNodePoolProfile}"
  using assms by (induction nodes arbitrary: checked) (auto simp: Let_def m_str_def)

lemma obsolete_pools_distinct:
  "distinct (map np_Name (obsolete_pools key pools nodes checked))
     \<and> set (map np_Name (obsolete_pools key pools nodes checked)) \<inter> set checked = {}"
  by (induction key pools nodes checked rule: obsolete_pools.induct) (auto simp: Let_def named_pool_def)

end
