(* ===== verification/Template_Values.thy ===== *)
theory Template_Values
  imports Template_Funcs Credentials Pool_Provisioner
begin

text \<open>
  The rest of the functions for templates (\<open>provisioner/template.go\<close>): base 64, hosts and ports, and
  Kubernetes quantities, with the taints and requirements of a node pool (\<open>api/node_pool.go\<close>). Quantities
  and the arithmetic of floats are fields of records: the model has the functions around them.
\<close>

section \<open>Encodings\<close>

definition base64Encode :: "string \<Rightarrow> string" where
  "base64Encode s = Std_EncodeToString s"

definition base64Decode :: "string \<Rightarrow> go_error + string" where
  "base64Decode s = (case Std_DecodeString s of Inl e \<Rightarrow> Inl e | Inr res \<Rightarrow> Inr res)"

record host_port =
  hp_Host :: string
  hp_Port :: string

definition splitHostPort :: "string \<Rightarrow> go_error + host_port" where
  "splitHostPort hostport = (case SplitHostPort hostport of
     Inl e \<Rightarrow> Inl e
   | Inr (host, port) \<Rightarrow> Inr \<lparr>hp_Host = host, hp_Port = port\<rparr>)"

definition list_fn :: "'v list \<Rightarrow> 'v list" where
  "list_fn args = args"

section \<open>Quantities\<close>

record 'q quantity_lib =
  qt_zero :: 'q
  qt_ParseQuantity :: "string \<Rightarrow> go_error + 'q"
  qt_AsInt64 :: "'q \<Rightarrow> int option"
  qt_Value :: "'q \<Rightarrow> int"
  qt_MilliValue :: "'q \<Rightarrow> int"
  qt_DecimalSI :: "'q \<Rightarrow> bool"
  qt_Set :: "int \<Rightarrow> 'q \<Rightarrow> 'q"
  qt_SetMilli :: "int \<Rightarrow> 'q \<Rightarrow> 'q"
  qt_Add :: "'q \<Rightarrow> 'q \<Rightarrow> 'q"
  qt_NewBinary :: "int \<Rightarrow> 'q"
  qt_String :: "'q \<Rightarrow> string"

record 'f float_lib =
  fl_of_int :: "int \<Rightarrow> 'f"
  fl_div :: "'f \<Rightarrow> 'f \<Rightarrow> 'f"
  fl_mult :: "'f \<Rightarrow> 'f \<Rightarrow> 'f"
  fl_Ceil :: "'f \<Rightarrow> 'f"
  fl_to_int :: "'f \<Rightarrow> int"
  fl_nonpositive :: "'f \<Rightarrow> bool"

definition kubernetesSizeToKiloBytes :: "'q quantity_lib \<Rightarrow> 'f float_lib \<Rightarrow> string \<Rightarrow> 'f \<Rightarrow> go_error + string" where
  "kubernetesSizeToKiloBytes q fl quantity scale = (case qt_ParseQuantity q quantity of
     Inl e \<Rightarrow> Inl e
   | Inr resource \<Rightarrow>
       (case qt_AsInt64 q resource of
          None \<Rightarrow> Inl (Errorf (''unexpected size for quantity: '' @ quantity))
        | Some v \<Rightarrow>
            Inr (int_str (fl_to_int fl (fl_Ceil fl (fl_mult fl (fl_div fl (fl_of_int fl v) (fl_of_int fl 1024)) scale))) @ ''KB'')))"

fun sum_loop :: "'q quantity_lib \<Rightarrow> string list \<Rightarrow> 'q \<Rightarrow> go_error + 'q" where
  "sum_loop q [] result = Inr result"
| "sum_loop q (s # ss) result = (case qt_ParseQuantity q s of
     Inl e \<Rightarrow> Inl e
   | Inr x \<Rightarrow> sum_loop q ss (qt_Add q result x))"

definition sumQuantities :: "'q quantity_lib \<Rightarrow> string list \<Rightarrow> go_error + string" where
  "sumQuantities q quantities = (case sum_loop q quantities (qt_zero q) of Inl e \<Rightarrow> Inl e | Inr r \<Rightarrow> Inr (qt_String q r))"

definition instanceTypeMemoryQuantity :: "'q quantity_lib \<Rightarrow> instance_types \<Rightarrow> string \<Rightarrow> string outcome" where
  "instanceTypeMemoryQuantity q m t = bindO (InstanceInfo m t) (\<lambda>i. Ret (qt_String q (qt_NewBinary q (in_Memory i))))"

text \<open>The error of \<open>scaleQuantity\<close> comes with the quantity as it was.\<close>

definition scaleQuantity :: "'q quantity_lib \<Rightarrow> 'f float_lib \<Rightarrow> string \<Rightarrow> 'f \<Rightarrow> (string \<times> go_error) + string" where
  "scaleQuantity q fl quantityStr factor =
     (if fl_nonpositive fl factor then Inl (quantityStr, Errorf ''scaling factor must be greater than 0.0'')
      else (case qt_ParseQuantity q quantityStr of
         Inl e \<Rightarrow> Inl (quantityStr, Errorf (''failed to parse '' @ quantityStr @ '' as k8sresource.Quantity: '' @ error_text e))
       | Inr x \<Rightarrow>
           if qt_Value q x < 1024 \<and> qt_DecimalSI q x
           then Inr (qt_String q (qt_SetMilli q (fl_to_int fl (fl_mult fl (fl_of_int fl (qt_MilliValue q x)) factor)) x))
           else Inr (qt_String q (qt_Set q (fl_to_int fl (fl_mult fl (fl_of_int fl (qt_Value q x)) factor)) x))))"

section \<open>Storage of instances\<close>

text \<open>The sizes are multiplied as 64-bit integers, then scaled as floats (\<open>pkg/aws/instance_info.go\<close>).\<close>

definition AvailableStorage :: "'f float_lib \<Rightarrow> instance_info \<Rightarrow> 'f \<Rightarrow> int \<Rightarrow> 'f \<Rightarrow> int" where
  "AvailableStorage fl i instanceStorageScaleFactor rootVolumeSize rootVolumeScaleFactor =
     (if in_StorageDevices i = 0 then fl_to_int fl (fl_mult fl (fl_of_int fl rootVolumeSize) rootVolumeScaleFactor)
      else fl_to_int fl (fl_mult fl instanceStorageScaleFactor
             (fl_of_int fl (wrap64 (in_StorageDevices i * in_StorageDeviceSize i)))))"

definition AllInstances :: "instance_types \<Rightarrow> instance_types" where
  "AllInstances m = m"

section \<open>Taints and requirements of a node pool\<close>

text \<open>Specifications that cannot be parsed are left out.\<close>

fun parsed_taints :: "string list \<Rightarrow> taint list" where
  "parsed_taints [] = []"
| "parsed_taints (t # ts) = (case ParseTaint t of Ret x \<Rightarrow> x # parsed_taints ts | _ \<Rightarrow> parsed_taints ts)"

definition Taints :: "node_pool \<Rightarrow> taint list" where
  "Taints np = (case m_get (np_ConfigItems np) ''taints'' of
     None \<Rightarrow> []
   | Some conf \<Rightarrow> parsed_taints (split_on (CHR '','') conf))"

text \<open>\<open>unmarshal\<close> returns what it has decoded and an error, which is only logged.\<close>

definition KarpenterRequirements :: "(string \<Rightarrow> 'r list \<times> go_error option) \<Rightarrow> node_pool \<Rightarrow> 'r list" where
  "KarpenterRequirements unmarshal np = (case m_get (np_ConfigItems np) ''requirements'' of
     None \<Rightarrow> []
   | Some conf \<Rightarrow> fst (unmarshal conf))"

section \<open>Properties\<close>

lemma base64_roundtrip: "base64Decode (base64Encode s) = Inr s"
  by (simp add: base64Decode_def base64Encode_def Std_roundtrip)

lemma base64_errors:
  "base64Decode ''QQ='' = Inl CorruptInputError" "base64Decode ''QQ==QQ=='' = Inl CorruptInputError" "base64Decode ''QUJD'' = Inr ''ABC''"
  by code_simp+

lemma splitHostPort_examples:
  "splitHostPort ''[2001:db8::1]:443'' = Inr \<lparr>hp_Host = ''2001:db8::1'', hp_Port = ''443''\<rparr>"
  "splitHostPort ''2001:db8::1'' = Inl (Errorf ''address 2001:db8::1: too many colons in address'')"
  by code_simp+

text \<open>Taints that are written to the config item are read from it.\<close>

lemma parsed_taints_append: "parsed_taints (xs @ ys) = parsed_taints xs @ parsed_taints ys"
  by (induction xs) (auto split: outcome.splits)

lemma Taints_none: "m_get (np_ConfigItems np) ''taints'' = Some [] \<Longrightarrow> Taints np = [\<lparr>tn_Key = [], tn_Value = [], tn_Effect = []\<rparr>]"
  by (simp add: Taints_def ParseTaint_def)

text \<open>
  Secrets that a template encrypts for KMS and that are stored as config items reach the cluster as the
  plain text: the base 64 that is written is the one that is read.
\<close>

lemma secret_reaches_cluster:
  assumes "aw_Base64 a = Std_EncodeToString"
    and "\<And>v blob v'. aw_Encrypt a key plain v = (Ret blob, v') \<Longrightarrow> fst (kms blob v') = Ret plain"
    and "kmsEncryptForTaupage a key plain w = (Ret secret, w')"
  shows "fst (SecretDecrypter_Decrypt [(AWSKMSSecretPrefix, awsKMS_Decrypt Std_DecodeString kms)] secret w') = Ret plain"
  by (rule encrypted_secret_decrypts [OF _ assms(2,3)]) (simp add: assms(1) Std_roundtrip)

end
