(* ===== verification/Controller.thy ===== *)
theory Controller
  imports Cluster_List
begin

text \<open>
  The control loop (\<open>controller/controller.go\<close>). The registry, the provisioners and the
  configuration versions are interfaces of other packages and enter as records of operations on
  the state \<open>'w\<close> of the outside world. Processing a cluster mutates the cluster object it was
  handed, so these computations run on the pair of the cluster and the world. The goroutines are
  interleaved at the critical sections of the cluster list: \<open>ctl_step\<close> is one such section, or the
  work a worker does between two of them on an object no other goroutine touches.
\<close>

section \<open>Interfaces\<close>

record 'w registry_ops =
  rg_ListClusters :: "string list \<Rightarrow> ('w, cluster list) io"
  rg_UpdateLifecycleStatus :: "cluster \<Rightarrow> ('w, unit) io"

record ('w, 'cfg) provisioner =
  pv_Supports :: "cluster \<Rightarrow> bool"
  pv_Provision :: "'cfg \<Rightarrow> (cluster \<times> 'w, unit) io"
  pv_Decommission :: "(cluster \<times> 'w, unit) io"

record ('w, 'v, 'cfg) controller =
  ct_registry :: "'w registry_ops"
  ct_provisioners :: "('w, 'cfg) provisioner gomap"
  ct_providers :: "string list"
  ct_configSource :: "('w, 'v) config_source"
  ct_versionID :: "'v \<Rightarrow> string"
  ct_versionGet :: "'v \<Rightarrow> ('w, 'cfg) io"
  ct_configDelete :: "'cfg \<Rightarrow> ('w, unit) io"
  ct_digest :: "string \<Rightarrow> string"
  ct_dryRun :: bool
  ct_accountFilter :: include_exclude_filter

definition ErrProviderNotSupported :: go_error where
  "ErrProviderNotSupported = Sentinel ''unsupported provider type''"

definition errTypeGeneral :: string where
  "errTypeGeneral = ''https://cluster-lifecycle-manager.zalando.org/problems/general-error''"

definition errTypeCoalescedProblems :: string where
  "errTypeCoalescedProblems = ''https://cluster-lifecycle-manager.zalando.org/problems/too-many-problems''"

definition errorLimit :: nat where
  "errorLimit = 25"

section \<open>Computations on a cluster\<close>

definition on_cluster :: "(cluster \<Rightarrow> cluster) \<Rightarrow> (cluster \<times> 'w, unit) io" where
  "on_cluster f s = (Ret (), (f (fst s), snd s))"

definition on_world :: "(cluster \<Rightarrow> ('w, 'a) io) \<Rightarrow> (cluster \<times> 'w, 'a) io" where
  "on_world m s = (let (r, w') = m (fst s) (snd s) in (r, (fst s, w')))"

text \<open>
  A deferred function that overwrites the named result when it fails itself.
\<close>

definition deferE :: "('w, 'a) io \<Rightarrow> ('w, unit) io \<Rightarrow> ('w, 'a) io" where
  "deferE m d w = (let (r, w1) = m w; (r', w2) = d w1 in
     (case r' of Ret _ \<Rightarrow> r | Fail e \<Rightarrow> Fail e | Panic s \<Rightarrow> Panic s | OutOfFuel \<Rightarrow> OutOfFuel, w2))"

definition emptyStatus :: cluster_status where
  "emptyStatus = \<lparr>st_CurrentVersion = [], st_LastVersion = [], st_NextVersion = [], st_Problems = []\<rparr>"

definition status_of :: "cluster \<Rightarrow> cluster_status" where
  "status_of c = (case cl_Status c of None \<Rightarrow> emptyStatus | Some st \<Rightarrow> st)"

definition init_status :: "cluster \<Rightarrow> cluster" where
  "init_status c = c\<lparr>cl_Status := Some (status_of c)\<rparr>"

definition set_status :: "(cluster_status \<Rightarrow> cluster_status) \<Rightarrow> cluster \<Rightarrow> cluster" where
  "set_status f c = c\<lparr>cl_Status := Some (f (status_of c))\<rparr>"

section \<open>Operations\<close>

text \<open>The two assignments blocks of a successful provisioning and a successful decommissioning.\<close>

definition provisioned :: "cluster \<Rightarrow> cluster" where
  "provisioned c = (set_status (\<lambda>st. \<lparr>st_CurrentVersion = st_NextVersion st, st_LastVersion = st_CurrentVersion st,
      st_NextVersion = [], st_Problems = []\<rparr>) c)\<lparr>cl_LifecycleStatus := statusReady\<rparr>"

definition decommissioned :: "cluster \<Rightarrow> cluster" where
  "decommissioned c = (set_status (\<lambda>st. \<lparr>st_CurrentVersion = [], st_LastVersion = st_CurrentVersion st,
      st_NextVersion = [], st_Problems = []\<rparr>) c)\<lparr>cl_LifecycleStatus := statusDecommissioned\<rparr>"

definition run_lifecycle ::
  "('w, 'v, 'cfg) controller \<Rightarrow> 'v cluster_info \<Rightarrow> 'cfg \<Rightarrow> cluster \<Rightarrow> (cluster \<times> 'w, unit) io" where
  "run_lifecycle c ci config cluster =
     (case m_get (ct_provisioners c) (cl_Provider cluster) of
        None \<Rightarrow> fail (Errorf (''cluster '' @ cl_ID cluster @ '': unknown provider ''
          @ quoted (cl_Provider cluster)))
      | Some prov \<Rightarrow>
          if cl_LifecycleStatus cluster = statusRequested \<or> cl_LifecycleStatus cluster = statusReady
          then bindE (on_cluster (set_status (\<lambda>st. st\<lparr>st_NextVersion := version_String (ci_NextVersion ci)\<rparr>)))
            (\<lambda>_. bindE (if ct_dryRun c then ret () else on_world (rg_UpdateLifecycleStatus (ct_registry c)))
            (\<lambda>_. bindE (pv_Provision prov config)
            (\<lambda>_. on_cluster provisioned)))
          else if cl_LifecycleStatus cluster = statusDecommissionRequested
          then bindE (pv_Decommission prov) (\<lambda>_. on_cluster decommissioned)
          else fail (Errorf (''invalid cluster status: '' @ cl_LifecycleStatus cluster)))"

definition doProcessCluster ::
  "('w, 'v, 'cfg) controller \<Rightarrow> 'v cluster_info \<Rightarrow> (cluster \<times> 'w, unit) io" where
  "doProcessCluster c ci s =
     (let cluster = init_status (fst s) in
      (case ci_NextError ci of
         Some e \<Rightarrow> fail e
       | None \<Rightarrow>
           (case ci_ChannelVersion ci of
              None \<Rightarrow> (\<lambda>s. (Panic ''nil pointer dereference'', s))
            | Some v \<Rightarrow>
                bindE (on_world (\<lambda>_. ct_versionGet c v)) (\<lambda>config.
                  deferE (run_lifecycle c ci config cluster)
                    (on_world (\<lambda>_. ct_configDelete c config)))))
      (cluster, snd s))"

text \<open>\<open>slices.CompactFunc\<close> with the equality of problems.\<close>

fun compact :: "'a list \<Rightarrow> 'a list" where
  "compact [] = []"
| "compact [x] = [x]"
| "compact (x # y # ys) = (if x = y then compact (x # ys) else x # compact (y # ys))"

definition add_problem :: "go_error \<Rightarrow> problem list \<Rightarrow> problem list" where
  "add_problem err ps =
     (let qs = compact (ps @ [\<lparr>pb_Detail = [], pb_Instance = [], pb_Status = 0,
                               pb_Title = error_text err, pb_Type = errTypeGeneral\<rparr>]) in
      if length qs > errorLimit
      then (drop (length qs - errorLimit) qs)[0 := \<lparr>pb_Detail = [], pb_Instance = [], pb_Status = 0,
             pb_Title = ''<multiple problems>'', pb_Type = errTypeCoalescedProblems\<rparr>]
      else qs)"

text \<open>
  The reporting after the work: the error, unless the provider is merely unsupported, becomes a
  problem of the cluster, and the registry is told. Its failure to take the update is only logged.
\<close>

definition report :: "('w, 'v, 'cfg) controller \<Rightarrow> go_error option \<Rightarrow> (cluster \<times> 'w, unit) io" where
  "report c err0 =
     (let err = (if err0 = Some ErrProviderNotSupported then None else err0) in
      if ct_dryRun c then ret ()
      else bindE (on_cluster (set_status (\<lambda>st. st\<lparr>st_Problems :=
                   (case err of Some e \<Rightarrow> add_problem e (st_Problems st) | None \<Rightarrow> [])\<rparr>)))
             (\<lambda>_. tryE (on_world (rg_UpdateLifecycleStatus (ct_registry c))) (\<lambda>_. ret ()) ret))"

definition processCluster ::
  "('w, 'v, 'cfg) controller \<Rightarrow> 'v cluster_info \<Rightarrow> (cluster \<times> 'w, unit) io" where
  "processCluster c ci =
     tryE (doProcessCluster c ci) (\<lambda>e. report c (Some e)) (\<lambda>_. report c None)"

fun dropUnsupported :: "('w, 'v, 'cfg) controller \<Rightarrow> cluster list \<Rightarrow> cluster list" where
  "dropUnsupported c [] = []"
| "dropUnsupported c (x # xs) =
     (if list_ex (\<lambda>(_, p). pv_Supports p x) (ct_provisioners c)
      then x # dropUnsupported c xs else dropUnsupported c xs)"

text \<open>
  The type assertion to \<open>channel.GarbageCollector\<close> fails for the caching source the controller
  wraps around its configuration source, so nothing is collected here.
\<close>

definition refresh :: "('w, 'v, 'cfg) controller \<Rightarrow> 'v cluster_list \<Rightarrow> ('w, 'v cluster_list) io" where
  "refresh c l =
     bindE (cs_Update (ct_configSource c)) (\<lambda>_.
     bindE (rg_ListClusters (ct_registry c) (ct_providers c)) (\<lambda>cs.
     UpdateAvailable (ct_configSource c) (ct_versionID c) (ct_digest c) (ct_accountFilter c)
       (dropUnsupported c cs) l))"

section \<open>The goroutines\<close>

text \<open>
  A worker is idle, has taken a cluster, or has finished its work on it and is about to run the
  deferred \<open>ClusterProcessed\<close>.
\<close>

datatype worker = Waiting | Working nat | Finished nat

fun holds :: "worker \<Rightarrow> nat option" where
  "holds Waiting = None"
| "holds (Working a) = Some a"
| "holds (Finished a) = Some a"

record ('w, 'v) system =
  sy_list :: "'v cluster_list"
  sy_workers :: "worker list"
  sy_world :: 'w

definition start :: "nat \<Rightarrow> 'w \<Rightarrow> ('w, 'v) system" where
  "start concurrentUpdates w =
     \<lparr>sy_list = NewClusterList, sy_workers = replicate concurrentUpdates Waiting, sy_world = w\<rparr>"

inductive ctl_step :: "('w, 'v, 'cfg) controller \<Rightarrow> ('w, 'v) system \<Rightarrow> ('w, 'v) system \<Rightarrow> bool"
  for c :: "('w, 'v, 'cfg) controller" where
  refresh_ok: "refresh c (sy_list s) (sy_world s) = (Ret l', w')
     \<Longrightarrow> ctl_step c s (s\<lparr>sy_list := l', sy_world := w'\<rparr>)"
| refresh_failed: "refresh c (sy_list s) (sy_world s) = (Fail e, w')
     \<Longrightarrow> ctl_step c s (s\<lparr>sy_world := w'\<rparr>)"
| select: "k < length (sy_workers s) \<Longrightarrow> sy_workers s ! k = Waiting
     \<Longrightarrow> SelectNext ctx (sy_list s) = (Some a, l')
     \<Longrightarrow> ctl_step c s (s\<lparr>sy_list := l', sy_workers := (sy_workers s)[k := Working a]\<rparr>)"
| work: "k < length (sy_workers s) \<Longrightarrow> sy_workers s ! k = Working a
     \<Longrightarrow> processCluster c (info (sy_list s) a) (ci_Cluster (info (sy_list s) a), sy_world s) = (Ret (), (cl', w'))
     \<Longrightarrow> ctl_step c s (s\<lparr>sy_list := set_info a (\<lambda>i. i\<lparr>ci_Cluster := cl'\<rparr>) (sy_list s),
           sy_workers := (sy_workers s)[k := Finished a], sy_world := w'\<rparr>)"
| finish: "k < length (sy_workers s) \<Longrightarrow> sy_workers s ! k = Finished a
     \<Longrightarrow> ctl_step c s (s\<lparr>sy_list := ClusterProcessed now a (sy_list s),
           sy_workers := (sy_workers s)[k := Waiting]\<rparr>)"
| elsewhere: "ctl_step c s (s\<lparr>sy_world := w'\<rparr>)"

inductive reachable :: "('w, 'v, 'cfg) controller \<Rightarrow> nat \<Rightarrow> ('w, 'v) system \<Rightarrow> bool"
  for c :: "('w, 'v, 'cfg) controller" and n :: nat where
  init: "reachable c n (start n w)"
| step: "reachable c n s \<Longrightarrow> ctl_step c s s' \<Longrightarrow> reachable c n s'"

section \<open>Mutual exclusion\<close>

definition busy :: "'v cluster_list \<Rightarrow> nat set" where
  "busy l = {a. \<exists>k. m_get (clusters l) k = Some a \<and> ci_state (info l a) = stateProcessing}"

definition held :: "worker list \<Rightarrow> nat \<Rightarrow> nat option" where
  "held ws k = (if k < length ws then holds (ws ! k) else None)"

text \<open>The workers hold exactly the clusters being processed, and no two hold the same.\<close>

definition workers_ok :: "'v cluster_list \<Rightarrow> worker list \<Rightarrow> bool" where
  "workers_ok l ws \<longleftrightarrow> ran (held ws) = busy l
     \<and> (\<forall>k k' a. held ws k = Some a \<longrightarrow> held ws k' = Some a \<longrightarrow> k = k')"

definition system_ok :: "('w, 'v) system \<Rightarrow> bool" where
  "system_ok s \<longleftrightarrow> list_ok (sy_list s) \<and> pending_ok (sy_list s) \<and> workers_ok (sy_list s) (sy_workers s)"

text \<open>A provisioner may change the cluster it is handed, but not its identifier.\<close>

definition keeps_id :: "('w, 'cfg) provisioner \<Rightarrow> bool" where
  "keeps_id p \<longleftrightarrow> (\<forall>i config. keeps (\<lambda>s. cl_ID (fst s) = i) (pv_Provision p config))
     \<and> (\<forall>i. keeps (\<lambda>s. cl_ID (fst s) = i) (pv_Decommission p))"

definition provisioners_keep_id :: "('w, 'v, 'cfg) controller \<Rightarrow> bool" where
  "provisioners_keep_id c \<longleftrightarrow> (\<forall>n p. m_get (ct_provisioners c) n = Some p \<longrightarrow> keeps_id p)"

lemma busy_processing: "busy l = (\<lambda>p. fst (snd p)) ` processing l"
  by (force simp: busy_def processing_def)



lemma id_updates [simp]:
  "cl_ID (set_status f c) = cl_ID c" "cl_ID (provisioned c) = cl_ID c" "cl_ID (decommissioned c) = cl_ID c"
  "cl_ID (init_status c) = cl_ID c"
  by (simp_all add: set_status_def provisioned_def decommissioned_def init_status_def)

lemma keeps_on_world [intro]: "(\<And>c w w'. I (c, w) = I (c, w')) \<Longrightarrow> keeps I (on_world m)"
  unfolding keeps_def on_world_def by (metis (no_types, lifting) case_prod_beta' prod.collapse snd_conv)

lemma keeps_deferE: "keeps I m \<Longrightarrow> keeps I d \<Longrightarrow> keeps I (deferE m d)"
  unfolding keeps_def deferE_def Let_def by (simp split: prod.splits) (metis snd_conv)

lemma keeps_id_on_cluster:
  "(\<And>c. cl_ID (f c) = cl_ID c) \<Longrightarrow> keeps (\<lambda>s. cl_ID (fst s) = i) (on_cluster f)"
  by (simp add: keeps_def on_cluster_def)

lemma run_lifecycle_keeps_id:
  assumes "provisioners_keep_id c"
  shows "keeps (\<lambda>s. cl_ID (fst s) = i) (run_lifecycle c ci config cluster)"
proof (cases "m_get (ct_provisioners c) (cl_Provider cluster)")
  case None
  then show ?thesis by (simp add: run_lifecycle_def)
next
  case (Some p)
  then have "keeps_id p" using assms by (auto simp: provisioners_keep_id_def)
  then show ?thesis unfolding run_lifecycle_def Some keeps_id_def
    by (auto intro!: keeps_bindE keeps_on_world keeps_id_on_cluster)
qed

lemma processCluster_keeps_id:
  assumes "provisioners_keep_id c"
  shows "keeps (\<lambda>s. cl_ID (fst s) = i) (processCluster c ci)"
proof -
  have "keeps (\<lambda>s. cl_ID (fst s) = i) (doProcessCluster c ci)"
  proof (rule keepsI)
    fix s :: "cluster \<times> 'a" assume s: "cl_ID (fst s) = i"
    let ?m = "case ci_NextError ci of Some e \<Rightarrow> fail e
       | None \<Rightarrow> (case ci_ChannelVersion ci of
              None \<Rightarrow> (\<lambda>s. (Panic ''nil pointer dereference'', s))
            | Some v \<Rightarrow> bindE (on_world (\<lambda>_. ct_versionGet c v)) (\<lambda>config.
                  deferE (run_lifecycle c ci config (init_status (fst s)))
                    (on_world (\<lambda>_. ct_configDelete c config))))"
    have "keeps (\<lambda>s. cl_ID (fst s) = i) ?m"
      by (auto split: option.splits simp: keeps_def [of _ "\<lambda>s. (Panic _, s)"]
          intro!: keeps_bindE keeps_on_world keeps_deferE run_lifecycle_keeps_id [OF assms])
    then show "cl_ID (fst (snd (doProcessCluster c ci s))) = i"
      unfolding doProcessCluster_def Let_def using s by (simp add: keeps_def)
  qed
  then show ?thesis unfolding processCluster_def report_def
    by (auto simp: Let_def intro!: keeps_tryE keeps_bindE keeps_on_world keeps_id_on_cluster)
qed

lemma busy_simps:
  assumes "processing l' = processing l" shows "busy l' = busy l"
  using assms by (simp add: busy_processing)

lemma work_list_ok:
  assumes "list_ok l" "pending_ok l" "a \<in> busy l" "cl_ID cl' = cl_ID (ci_Cluster (info l a))"
  defines "l' \<equiv> set_info a (\<lambda>i. i\<lparr>ci_Cluster := cl'\<rparr>) l"
  shows "list_ok l' \<and> pending_ok l' \<and> busy l' = busy l"
proof -
  obtain k where k: "m_get (clusters l) k = Some a" "ci_state (info l a) = stateProcessing"
    using assms(3) by (auto simp: busy_def)
  have m: "map_ok l" and i: "idle_ok l" using assms(1) by (auto simp: list_ok_def)
  note a = map_okD [OF m k(1)]
  have "map_ok l'" unfolding l'_def by (rule map_ok_set_info [OF m k(1)]) (use a assms(4) in simp)
  moreover have "idle_ok l'" unfolding l'_def by (rule idle_ok_set_info [OF m i k(1)]) (use k in simp)
  moreover have "pending_ok l'" using assms(2) a k by (auto simp: l'_def pending_ok_def)
  moreover have "busy l' = busy l" using a by (auto simp: busy_def l'_def)
  ultimately show ?thesis by (simp add: list_ok_def)
qed

lemma held_update: "k < length ws \<Longrightarrow> held (ws[k := x]) = (held ws)(k := holds x)"
  by (rule ext) (simp add: held_def nth_list_update)

lemma workers_ok_busy: "workers_ok l ws \<Longrightarrow> held ws k = Some a \<Longrightarrow> a \<in> busy l"
  by (auto simp: workers_ok_def ran_def)

lemma workers_ok_same:
  "workers_ok l ws \<Longrightarrow> busy l' = busy l \<Longrightarrow> held ws' = held ws \<Longrightarrow> workers_ok l' ws'"
  by (simp add: workers_ok_def)

lemma workers_ok_select:
  assumes "workers_ok l ws" "k < length ws" "ws ! k = Waiting" "busy l' = insert a (busy l)" "a \<notin> busy l"
  shows "workers_ok l' (ws[k := Working a])"
proof -
  have "held ws k = None" using assms(2,3) by (simp add: held_def)
  moreover have "held ws j \<noteq> Some a" for j using assms(1,5) unfolding workers_ok_def by (metis ranI)
  ultimately show ?thesis using assms by (auto simp: workers_ok_def held_update)
qed

lemma workers_ok_finish:
  assumes "workers_ok l ws" "k < length ws" "holds (ws ! k) = Some a" "busy l' = busy l - {a}"
  shows "workers_ok l' (ws[k := Waiting])"
proof -
  have k: "held ws k = Some a" using assms(2,3) by (simp add: held_def)
  have inj: "j = k" if "held ws j = Some a" for j using that k assms(1) unfolding workers_ok_def by metis
  have "ran ((held ws)(k := None)) = ran (held ws) - {a}"
  proof (intro set_eqI iffI)
    fix b assume "b \<in> ran ((held ws)(k := None))"
    then obtain j where "j \<noteq> k" "held ws j = Some b" by (auto simp: ran_def split: if_splits)
    then show "b \<in> ran (held ws) - {a}" using inj by (auto simp: ran_def)
  next
    fix b assume "b \<in> ran (held ws) - {a}"
    then obtain j where "held ws j = Some b" "b \<noteq> a" by (auto simp: ran_def)
    then have "((held ws)(k := None)) j = Some b" using k by auto
    then show "b \<in> ran ((held ws)(k := None))" by (rule ranI)
  qed
  then show ?thesis using assms by (simp add: workers_ok_def held_update)
qed

lemma ctl_step_ok:
  assumes "ctl_step c s s'" and "system_ok s" and "provisioners_keep_id c"
  shows "system_ok s'"
  using assms
proof (induction rule: ctl_step.cases)
  case (refresh_ok s l' w')
  then obtain cs w1 where "UpdateAvailable (ct_configSource c) (ct_versionID c) (ct_digest c)
      (ct_accountFilter c) cs (sy_list s) w1 = (Ret l', w')"
    by (auto simp: refresh_def)
  from UpdateAvailable_spec [OF this] refresh_ok
  have "list_ok l' \<and> pending_ok l' \<and> processing l' = processing (sy_list s)"
    by (simp add: system_ok_def)
  then show ?case using refresh_ok
    by (auto simp: system_ok_def elim!: workers_ok_same intro!: busy_simps)
next
  case (refresh_failed s e w')
  then show ?case by (simp add: system_ok_def)
next
  case (select k s ctx a l')
  note sel = SelectNext_ok [OF select(5)]
  have "a \<notin> busy (sy_list s)" using sel select by (auto simp: system_ok_def busy_def)
  moreover have "busy l' = insert a (busy (sy_list s))" using sel select by (auto simp: system_ok_def busy_processing)
  ultimately show ?case using sel select by (auto simp: system_ok_def intro!: workers_ok_select)
next
  case (work k s a cl' w')
  have h: "held (sy_workers s) k = Some a" using work by (simp add: held_def)
  then have "a \<in> busy (sy_list s)" using work by (auto simp: system_ok_def intro: workers_ok_busy [OF _ h])
  moreover have "cl_ID cl' = cl_ID (ci_Cluster (info (sy_list s) a))"
    using keepsD [OF processCluster_keeps_id [OF work(7)] _ work(5)] by simp
  ultimately have "list_ok (sy_list s') \<and> pending_ok (sy_list s') \<and> busy (sy_list s') = busy (sy_list s)"
    using work_list_ok work by (auto simp: system_ok_def)
  then show ?case using work
    by (auto simp: system_ok_def held_update h intro!: workers_ok_same [of "sy_list s" "sy_workers s"])
next
  case (finish k s a now)
  then have h: "held (sy_workers s) k = Some a" by (simp add: held_def)
  then have "a \<in> busy (sy_list s)" using finish by (auto simp: system_ok_def intro: workers_ok_busy [OF _ h])
  then obtain n i where p: "(n, a, i) \<in> processing (sy_list s)" by (auto simp: busy_processing)
  have "system_ok s" using finish by simp
  then have "list_ok (sy_list s)" "pending_ok (sy_list s)" by (simp_all add: system_ok_def)
  note fin = ClusterProcessed_ok [OF this p, of now]
  then have "busy (ClusterProcessed now a (sy_list s)) = busy (sy_list s) - {a}"
    by (auto simp: busy_processing)
  then show ?case using fin finish by (auto simp: system_ok_def intro!: workers_ok_finish)
next
  case (elsewhere s w')
  then show ?case by (simp add: system_ok_def)
qed

lemma start_ok: "system_ok (start n w)"
  by (auto simp: system_ok_def start_def NewClusterList_ok workers_ok_def busy_processing
      held_def ran_def)

lemma reachable_ok: "reachable c n s \<Longrightarrow> provisioners_keep_id c \<Longrightarrow> system_ok s \<and> length (sy_workers s) = n"
proof (induction rule: reachable.induct)
  case (init w)
  then show ?case by (simp add: start_ok) (simp add: start_def)
next
  case (step s s')
  then show ?case using ctl_step_ok [of c s s'] by (auto elim: ctl_step.cases)
qed

section \<open>Properties of the controller\<close>

text \<open>
  Claim C1. However the refresh loop and the workers interleave, two workers never process the same
  cluster at the same time: the clusters two busy workers hold have different identifiers, each of
  them is marked as being processed in the map, and a cluster marked as being processed is held by
  a worker, so it is released again.
\<close>

theorem worker_mutual_exclusion:
  assumes "reachable c n s" and "provisioners_keep_id c"
  shows "(\<forall>j k a b. j \<noteq> k \<longrightarrow> held (sy_workers s) j = Some a \<longrightarrow> held (sy_workers s) k = Some b \<longrightarrow>
       cl_ID (ci_Cluster (info (sy_list s) a)) \<noteq> cl_ID (ci_Cluster (info (sy_list s) b)))
    \<and> (\<forall>k a. held (sy_workers s) k = Some a \<longrightarrow>
         m_get (clusters (sy_list s)) (cl_ID (ci_Cluster (info (sy_list s) a))) = Some a
         \<and> ci_state (info (sy_list s) a) = stateProcessing)
    \<and> (\<forall>i a. m_get (clusters (sy_list s)) i = Some a \<longrightarrow> ci_state (info (sy_list s) a) = stateProcessing
         \<longrightarrow> (\<exists>k < n. held (sy_workers s) k = Some a))"
proof -
  have ok: "system_ok s" and n: "length (sy_workers s) = n" using reachable_ok [OF assms] by auto
  then have m: "map_ok (sy_list s)" and w: "workers_ok (sy_list s) (sy_workers s)"
    by (auto simp: system_ok_def list_ok_def)
  have held: "m_get (clusters (sy_list s)) (cl_ID (ci_Cluster (info (sy_list s) a))) = Some a
      \<and> ci_state (info (sy_list s) a) = stateProcessing" if "held (sy_workers s) k = Some a" for k a
    using workers_ok_busy [OF w that] map_okD [OF m] by (auto simp: busy_def)
  have "cl_ID (ci_Cluster (info (sy_list s) a)) \<noteq> cl_ID (ci_Cluster (info (sy_list s) b))"
    if "j \<noteq> k" "held (sy_workers s) j = Some a" "held (sy_workers s) k = Some b" for j k a b
    using that held w unfolding workers_ok_def by (metis option.inject)
  moreover have "\<exists>k < n. held (sy_workers s) k = Some a"
    if "m_get (clusters (sy_list s)) i = Some a" "ci_state (info (sy_list s) a) = stateProcessing" for i a
  proof -
    have "a \<in> ran (held (sy_workers s))" using that w by (auto simp: workers_ok_def busy_def)
    then show ?thesis using n by (auto simp: ran_def held_def split: if_splits)
  qed
  ultimately show ?thesis using held by blast
qed

definition sample_registry :: "unit registry_ops" where
  "sample_registry = \<lparr>rg_ListClusters = (\<lambda>_. ret [ready_cluster ''c1'' []]), rg_UpdateLifecycleStatus = (\<lambda>_. ret ())\<rparr>"

definition sample_provisioner :: "(unit, string) provisioner" where
  "sample_provisioner = \<lparr>pv_Supports = (\<lambda>_. True), pv_Provision = (\<lambda>_. ret ()), pv_Decommission = ret ()\<rparr>"

definition sample_controller :: "(unit, string, string) controller" where
  "sample_controller = \<lparr>ct_registry = sample_registry,
     ct_provisioners = [(ZalandoAWSProvider, sample_provisioner)], ct_providers = [],
     ct_configSource = sample_source, ct_versionID = id, ct_versionGet = ret,
     ct_configDelete = (\<lambda>_. ret ()), ct_digest = id, ct_dryRun = False, ct_accountFilter = all_accounts\<rparr>"

lemma sample_keep_id: "provisioners_keep_id sample_controller"
  by (auto simp: provisioners_keep_id_def sample_controller_def sample_provisioner_def keeps_id_def
      split: if_splits)

theorem worker_mutual_exclusion_witness:
  "\<exists>s. reachable sample_controller 2 s \<and> length (sy_workers s) = 2 \<and>
     (\<forall>j k a b. j \<noteq> k \<longrightarrow> held (sy_workers s) j = Some a \<longrightarrow> held (sy_workers s) k = Some b \<longrightarrow>
       cl_ID (ci_Cluster (info (sy_list s) a)) \<noteq> cl_ID (ci_Cluster (info (sy_list s) b)))"
proof -
  have r: "reachable sample_controller 2 (start 2 ())" by (rule reachable.init)
  show ?thesis
    using worker_mutual_exclusion [OF r sample_keep_id] r by (intro exI [of _ "start 2 ()"]) (simp add: start_def)
qed

lemma last_compact: "xs \<noteq> [] \<Longrightarrow> compact xs \<noteq> [] \<and> last (compact xs) = last xs"
  by (induction xs rule: compact.induct) auto

lemma length_compact: "length (compact xs) \<le> length xs"
  by (induction xs rule: compact.induct) auto

lemma compact_no_repeats: "Suc i < length (compact xs) \<Longrightarrow> compact xs ! i \<noteq> compact xs ! Suc i"
proof (induction xs arbitrary: i rule: compact.induct)
  case (3 x y ys)
  show ?case
  proof (cases "x = y")
    case True
    with 3 show ?thesis by simp
  next
    case False
    have hd: "compact (z # zs) \<noteq> [] \<and> hd (compact (z # zs)) = z" for z :: 'a and zs
      by (induction "z # zs" arbitrary: z zs rule: compact.induct) auto
    show ?thesis
    proof (cases i)
      case 0
      then show ?thesis using False hd [of y ys] hd_conv_nth [of "compact (y # ys)"] by auto
    next
      case (Suc j)
      then show ?thesis using False 3 by simp
    qed
  qed
qed simp_all

lemma add_problem_last:
  "add_problem e ps \<noteq> [] \<and> length (add_problem e ps) \<le> errorLimit
    \<and> last (add_problem e ps) = \<lparr>pb_Detail = [], pb_Instance = [], pb_Status = 0,
          pb_Title = error_text e, pb_Type = errTypeGeneral\<rparr>"
proof -
  let ?p = "\<lparr>pb_Detail = [], pb_Instance = [], pb_Status = 0, pb_Title = error_text e, pb_Type = errTypeGeneral\<rparr>"
  let ?qs = "compact (ps @ [?p])"
  have q: "?qs \<noteq> []" "last ?qs = ?p" using last_compact [of "ps @ [?p]"] by auto
  show ?thesis
  proof (cases "length ?qs > errorLimit")
    case True
    let ?d = "drop (length ?qs - errorLimit) ?qs"
    have len: "length ?d = errorLimit" using True by simp
    have "last (?d[0 := x]) = last ?d" for x
      using len by (simp add: last_conv_nth errorLimit_def nth_list_update)
    moreover have "last ?d = ?p" using True q by (simp add: last_drop errorLimit_def)
    ultimately show ?thesis using True len by (auto simp: add_problem_def Let_def errorLimit_def)
  next
    case False
    then show ?thesis using q by (simp add: add_problem_def Let_def)
  qed
qed

text \<open>
  Claim C35. Unless the controller runs dry, processing a cluster leaves a problem list that is
  never longer than the limit; it is empty when the work succeeded or the provider is not
  supported, and otherwise its last entry is the error of this run, also after older problems have
  been coalesced.
\<close>

theorem processCluster_problems:
  assumes "\<not> ct_dryRun c" and "processCluster c ci s = (Ret (), s')"
  shows "length (st_Problems (status_of (fst s'))) \<le> errorLimit
    \<and> (case fst (doProcessCluster c ci s) of
         Fail e \<Rightarrow> if e = ErrProviderNotSupported then st_Problems (status_of (fst s')) = []
                  else last (st_Problems (status_of (fst s')))
                     = \<lparr>pb_Detail = [], pb_Instance = [], pb_Status = 0,
                        pb_Title = error_text e, pb_Type = errTypeGeneral\<rparr>
       | _ \<Rightarrow> st_Problems (status_of (fst s')) = [])"
proof -
  have rep: "st_Problems (status_of (fst s')) =
      (case (if err = Some ErrProviderNotSupported then None else err) of
         Some e \<Rightarrow> add_problem e (st_Problems (status_of (fst s1))) | None \<Rightarrow> [])"
    if "report c err s1 = (Ret (), s')" for err s1
    using that assms(1)
    by (auto simp: report_def Let_def on_cluster_def on_world_def set_status_def status_of_def ret_def
        elim!: tryE_cases split: prod.splits)
  from assms(2) show ?thesis unfolding processCluster_def
  proof (cases rule: tryE_cases)
    case (ok x w')
    then show ?thesis using rep by (simp add: errorLimit_def)
  next
    case (err e w')
    then show ?thesis using rep [OF err(2)] add_problem_last [of e] by (auto simp: errorLimit_def)
  qed simp_all
qed

definition sample_info :: "cluster \<Rightarrow> string \<Rightarrow> go_error option \<Rightarrow> string cluster_info" where
  "sample_info cl v e = \<lparr>ci_lastProcessed = 0, ci_state = stateProcessing, ci_cancelUpdate = None,
     ci_updatePriority = updatePriorityNormal, ci_Cluster = cl, ci_ChannelVersion = Some v,
     ci_CurrentVersion = ParseVersion (st_CurrentVersion (status_of cl)),
     ci_NextVersion = Some (Version id cl v), ci_NextError = e\<rparr>"

theorem processCluster_problems_witness:
  "length (st_Problems (status_of (fst (snd (processCluster sample_controller
      (sample_info (ready_cluster ''c1'' []) ''v'' (Some (Errorf ''x''))) (ready_cluster ''c1'' [], ()))))))
    \<le> errorLimit"
proof -
  let ?ci = "sample_info (ready_cluster ''c1'' []) ''v'' (Some (Errorf ''x''))"
  have "\<exists>s'. processCluster sample_controller ?ci (ready_cluster ''c1'' [], ()) = (Ret (), s')"
    by (simp add: processCluster_def doProcessCluster_def report_def tryE_def fail_def bindE_def ret_def
        on_cluster_def on_world_def Let_def sample_controller_def sample_registry_def sample_info_def)
  then obtain s' where s': "processCluster sample_controller ?ci (ready_cluster ''c1'' [], ()) = (Ret (), s')" ..
  have "\<not> ct_dryRun sample_controller" by (simp add: sample_controller_def)
  from processCluster_problems [OF this s'] show ?thesis by (simp add: s')
qed

text \<open>
  What a provisioner must leave alone for the controller's bookkeeping: the identifier, the
  lifecycle status and the status record of the cluster.
\<close>

definition keeps_status :: "('w, 'cfg) provisioner \<Rightarrow> bool" where
  "keeps_status p \<longleftrightarrow>
     (\<forall>x config. keeps (\<lambda>s. (cl_LifecycleStatus (fst s), cl_Status (fst s)) = x) (pv_Provision p config))
   \<and> (\<forall>x. keeps (\<lambda>s. (cl_LifecycleStatus (fst s), cl_Status (fst s)) = x) (pv_Decommission p))"

lemma deferE_Ret:
  "deferE m d w = (Ret x, w2) \<longleftrightarrow> (\<exists>w1. m w = (Ret x, w1) \<and> (\<exists>u. d w1 = (Ret u, w2)))"
  by (auto simp: deferE_def Let_def split: prod.splits outcome.splits)

lemma on_world_Ret: "on_world m s = (Ret x, s') \<longleftrightarrow> m (fst s) (snd s) = (Ret x, snd s') \<and> fst s' = fst s"
  by (cases s') (auto simp: on_world_def Let_def split: prod.splits)

lemma on_cluster_Ret: "on_cluster f s = (Ret x, s') \<longleftrightarrow> s' = (f (fst s), snd s)"
  by (auto simp: on_cluster_def)

lemma run_lifecycle_Ret:
  assumes "run_lifecycle c ci config cluster (cluster, w) = (Ret (), s')"
    and "m_get (ct_provisioners c) (cl_Provider cluster) = Some p" and "keeps_status p"
    and "cl_Status cluster = Some st"
  shows "(cl_LifecycleStatus cluster \<in> {statusRequested, statusReady}
        \<and> cl_LifecycleStatus (fst s') = statusReady
        \<and> cl_Status (fst s') = Some \<lparr>st_CurrentVersion = version_String (ci_NextVersion ci),
             st_LastVersion = st_CurrentVersion st, st_NextVersion = [], st_Problems = []\<rparr>)
     \<or> (cl_LifecycleStatus cluster = statusDecommissionRequested
        \<and> cl_LifecycleStatus (fst s') = statusDecommissioned
        \<and> cl_Status (fst s') = Some \<lparr>st_CurrentVersion = [],
             st_LastVersion = st_CurrentVersion st, st_NextVersion = [], st_Problems = []\<rparr>)"
proof (cases "cl_LifecycleStatus cluster = statusRequested \<or> cl_LifecycleStatus cluster = statusReady")
  case True
  let ?c1 = "set_status (\<lambda>st. st\<lparr>st_NextVersion := version_String (ci_NextVersion ci)\<rparr>) cluster"
  obtain w1 s2 where prov: "pv_Provision p config (?c1, w1) = (Ret (), s2)"
    and s': "s' = (provisioned (fst s2), snd s2)"
    using assms(1,2) True
    by (auto simp: run_lifecycle_def on_world_Ret on_cluster_Ret split: if_splits)
  have "keeps (\<lambda>s. (cl_LifecycleStatus (fst s), cl_Status (fst s)) = (cl_LifecycleStatus ?c1, cl_Status ?c1))
      (pv_Provision p config)" using assms(3) by (simp add: keeps_status_def)
  from keepsD [OF this _ prov] have "cl_Status (fst s2) = cl_Status ?c1" by simp
  then show ?thesis using True assms(4)
    by (simp add: s' provisioned_def set_status_def status_of_def)
next
  case False
  with assms(1,2) have dec: "cl_LifecycleStatus cluster = statusDecommissionRequested"
    by (auto simp: run_lifecycle_def split: if_splits)
  obtain s2 where prov: "pv_Decommission p (cluster, w) = (Ret (), s2)"
    and s': "s' = (decommissioned (fst s2), snd s2)"
    using assms(1,2) False dec by (auto simp: run_lifecycle_def on_cluster_Ret)
  have "keeps (\<lambda>s. (cl_LifecycleStatus (fst s), cl_Status (fst s)) = (cl_LifecycleStatus cluster, cl_Status cluster))
      (pv_Decommission p)" using assms(3) by (simp add: keeps_status_def)
  from keepsD [OF this _ prov] have "cl_Status (fst s2) = cl_Status cluster" by simp
  then show ?thesis using dec assms(4)
    by (simp add: s' decommissioned_def set_status_def status_of_def)
qed

lemma doProcessCluster_Ret:
  assumes "doProcessCluster c ci (cl, w) = (Ret (), s')"
  shows "\<exists>v config w1 s2. ci_NextError ci = None \<and> ci_ChannelVersion ci = Some v
    \<and> run_lifecycle c ci config (init_status cl) (init_status cl, w1) = (Ret (), s2) \<and> fst s' = fst s2"
  using assms
  by (force simp: doProcessCluster_def Let_def deferE_Ret on_world_Ret split: option.splits)

lemma doProcessCluster_transitions:
  assumes "doProcessCluster c ci (cl, w) = (Ret (), s')"
    and "\<And>p. m_get (ct_provisioners c) (cl_Provider cl) = Some p \<Longrightarrow> keeps_status p"
  shows "ci_NextError ci = None \<and> m_has (ct_provisioners c) (cl_Provider cl) \<and>
     ((cl_LifecycleStatus cl \<in> {statusRequested, statusReady}
        \<and> cl_LifecycleStatus (fst s') = statusReady
        \<and> cl_Status (fst s') = Some \<lparr>st_CurrentVersion = version_String (ci_NextVersion ci),
             st_LastVersion = st_CurrentVersion (status_of cl), st_NextVersion = [], st_Problems = []\<rparr>)
     \<or> (cl_LifecycleStatus cl = statusDecommissionRequested
        \<and> cl_LifecycleStatus (fst s') = statusDecommissioned
        \<and> cl_Status (fst s') = Some \<lparr>st_CurrentVersion = [],
             st_LastVersion = st_CurrentVersion (status_of cl), st_NextVersion = [], st_Problems = []\<rparr>))"
proof -
  obtain v config w1 s2 where *: "ci_NextError ci = None"
    "run_lifecycle c ci config (init_status cl) (init_status cl, w1) = (Ret (), s2)" "fst s' = fst s2"
    using doProcessCluster_Ret [OF assms(1)] by blast
  then obtain p where p: "m_get (ct_provisioners c) (cl_Provider cl) = Some p"
    by (auto simp: run_lifecycle_def init_status_def split: option.splits)
  have "m_get (ct_provisioners c) (cl_Provider (init_status cl)) = Some p"
    and st: "cl_Status (init_status cl) = Some (status_of cl)"
    using p by (simp_all add: init_status_def)
  from run_lifecycle_Ret [OF *(2) this(1) assms(2) [OF p] st] *(1,3) p show ?thesis
    by (simp add: init_status_def)
qed

text \<open>
  Claim C20. When the controller reports success, the cluster went through a legal transition:
  a requested or ready cluster is ready and its current version is the version that was targeted,
  a cluster to be decommissioned is decommissioned and has no version; the last version is the
  former current one, the next version is cleared and the problems are gone. Success is never
  reported for an unknown provider, an unresolved configuration or any other lifecycle status.
\<close>

theorem doProcessCluster_success:
  assumes "doProcessCluster c ci (cl, w) = (Ret (), s')"
    and "\<And>p. m_get (ct_provisioners c) (cl_Provider cl) = Some p \<Longrightarrow> keeps_status p"
  shows "ci_NextError ci = None \<and> m_has (ct_provisioners c) (cl_Provider cl) \<and>
     ((cl_LifecycleStatus cl \<in> {statusRequested, statusReady}
        \<and> cl_LifecycleStatus (fst s') = statusReady
        \<and> cl_Status (fst s') = Some \<lparr>st_CurrentVersion = version_String (ci_NextVersion ci),
             st_LastVersion = st_CurrentVersion (status_of cl), st_NextVersion = [], st_Problems = []\<rparr>)
     \<or> (cl_LifecycleStatus cl = statusDecommissionRequested
        \<and> cl_LifecycleStatus (fst s') = statusDecommissioned
        \<and> cl_Status (fst s') = Some \<lparr>st_CurrentVersion = [],
             st_LastVersion = st_CurrentVersion (status_of cl), st_NextVersion = [], st_Problems = []\<rparr>))"
  using assms by (rule doProcessCluster_transitions)

lemma sample_run:
  "doProcessCluster sample_controller (sample_info (ready_cluster ''c1'' []) ''v'' None) (ready_cluster ''c1'' [], ())
     = (Ret (), (provisioned (set_status (\<lambda>st. st\<lparr>st_NextVersion
           := version_String (Some (Version id (ready_cluster ''c1'' []) ''v''))\<rparr>)
         (init_status (ready_cluster ''c1'' []))), ()))"
  by (simp add: doProcessCluster_def run_lifecycle_def bindE_def ret_def deferE_def
        on_cluster_def on_world_def Let_def sample_controller_def sample_registry_def sample_info_def
        ready_cluster_def init_status_def sample_cluster_def sample_provisioner_def
        ZalandoAWSProvider_def status_defs)

lemma sample_keeps_status: "m_get (ct_provisioners sample_controller) n = Some p \<Longrightarrow> keeps_status p"
  by (auto simp: sample_controller_def sample_provisioner_def keeps_status_def split: if_splits)

theorem doProcessCluster_success_witness:
  "m_has (ct_provisioners sample_controller) (cl_Provider (ready_cluster ''c1'' []))"
  using doProcessCluster_success [OF sample_run sample_keeps_status] by blast

text \<open>
  Claim C19. A successful update settles: when the registry offers the cluster again with the
  status that was written, and the channel has not moved, a cluster that was ready needs no further
  update. A newly requested cluster is processed once more, because its lifecycle status is part
  of the hash and has changed to ready.
\<close>

theorem successful_update_settles:
  assumes run: "doProcessCluster c ci (cl, w) = (Ret (), s')"
    and prov: "\<And>p. m_get (ct_provisioners c) (cl_Provider cl) = Some p \<Longrightarrow> keeps_status p"
    and target: "ci_NextVersion ci = Some (Version digest cl channelID)"
    and sep: "CHR ''#'' \<notin> set channelID" "CHR ''#'' \<notin> set (digest (version_state cl))"
    and again: "ci_Cluster ci' = cl\<lparr>cl_LifecycleStatus := cl_LifecycleStatus (fst s'), cl_Status := cl_Status (fst s')\<rparr>"
      "ci_NextError ci' = None" "ci_NextVersion ci' = Some (Version digest (ci_Cluster ci') channelID)"
      "ci_CurrentVersion ci' = ParseVersion (st_CurrentVersion (status_of (ci_Cluster ci')))"
    and live: "\<not> updateBlocked cl" "cl_LifecycleStatus cl \<noteq> statusDecommissionRequested"
  shows "updatePriority ci' = Some (if cl_LifecycleStatus cl = statusReady
           \<or> digest (version_state (cl\<lparr>cl_LifecycleStatus := statusReady\<rparr>)) = digest (version_state cl)
         then updatePriorityNone else updatePriorityNormal)"
proof -
  let ?cl = "ci_Cluster ci'"
  have ls: "cl_LifecycleStatus (fst s') = statusReady"
    and st: "cl_Status (fst s') = Some \<lparr>st_CurrentVersion = version_String (ci_NextVersion ci),
             st_LastVersion = st_CurrentVersion (status_of cl), st_NextVersion = [], st_Problems = []\<rparr>"
    using doProcessCluster_transitions [OF run prov] live by auto
  have vs: "version_state ?cl = version_state (cl\<lparr>cl_LifecycleStatus := statusReady\<rparr>)"
    by (simp add: again(1) ls version_state_def)
  have cur: "ci_CurrentVersion ci' = Version digest cl channelID"
    using sep parse_version_String [of "Version digest cl channelID"]
    by (simp add: again(4,1) status_of_def st target Version_def)
  have same: "version_state (cl\<lparr>cl_LifecycleStatus := statusReady\<rparr>) = version_state cl"
    if "cl_LifecycleStatus cl = statusReady" using that by (simp add: version_state_def)
  have "cl_LifecycleStatus ?cl \<noteq> statusDecommissionRequested" "\<not> updateBlocked ?cl"
    using live by (simp_all add: again(1) ls status_defs updateBlocked_def)
  moreover have "cl_Status ?cl = Some \<lparr>st_CurrentVersion = version_String (ci_NextVersion ci),
             st_LastVersion = st_CurrentVersion (status_of cl), st_NextVersion = [], st_Problems = []\<rparr>"
    by (simp add: again(1) st)
  moreover have "ci_NextVersion ci' = Some (ci_CurrentVersion ci') \<longleftrightarrow>
      digest (version_state (cl\<lparr>cl_LifecycleStatus := statusReady\<rparr>)) = digest (version_state cl)"
    by (simp add: again(3) cur Version_def vs)
  ultimately show ?thesis
    using same again(2,3) by (simp add: updatePriority_def Let_def)
qed

theorem successful_update_settles_witness:
  "updatePriority (sample_info (provisioned (set_status (\<lambda>st. st\<lparr>st_NextVersion
           := version_String (Some (Version id (ready_cluster ''c1'' []) ''v''))\<rparr>)
         (init_status (ready_cluster ''c1'' [])))) ''v'' None) = Some updatePriorityNone"
proof -
  let ?cl = "ready_cluster ''c1'' []"
  let ?cl' = "provisioned (set_status (\<lambda>st. st\<lparr>st_NextVersion
           := version_String (Some (Version id ?cl ''v''))\<rparr>) (init_status ?cl))"
  have eq: "?cl' = ?cl\<lparr>cl_LifecycleStatus := cl_LifecycleStatus ?cl', cl_Status := cl_Status ?cl'\<rparr>"
    by (simp add: provisioned_def set_status_def init_status_def ready_cluster_def sample_cluster_def)
  have "CHR ''#'' \<notin> set (version_state ?cl)"
    by (simp add: version_state_def ready_cluster_def sample_cluster_def le_bytes_def items_state_def
        m_keys_def m_str_def upt_rec numeral_eq_Suc char_of_def)
  moreover have "\<not> updateBlocked ?cl"
    by (simp add: updateBlocked_def ready_cluster_def sample_cluster_def updateBlockedConfigItem_def)
  moreover have "cl_LifecycleStatus ?cl = statusReady"
    by (simp add: ready_cluster_def sample_cluster_def status_defs)
  ultimately show ?thesis
    using successful_update_settles [OF sample_run sample_keeps_status,
        where digest = id and channelID = "''v''" and ci' = "sample_info ?cl' ''v'' None"] eq
    by (simp add: sample_info_def status_defs)
qed

end
