(* ===== verification/Cluster_Config.thy ===== *)
theory Cluster_Config
  imports Pool_Provisioner
begin

text \<open>
  What a provisioner computes before it changes anything (\<open>provisioner/clusterpy.go\<close>): the config
  items of the cluster and of its node pools, the deletions, and the rendered manifests. YAML and the
  decryption of secrets are parameters.
\<close>

section \<open>Data\<close>

record deletions =
  dl_PreApply :: "resource list"
  dl_PostApply :: "resource list"

record cf_deletions =
  cd_PreApply :: "string list"
  cd_PostApply :: "string list"

record 'y manifest_package =
  mp_name :: string
  mp_manifests :: "'y resource_manifest list"

text \<open>
  The readers of YAML: a map of strings, deletions and stack deletions; and the stream used to write
  YAML again, where a document may be empty and the text of a document depends on the documents
  before before it.
\<close>

record ('w, 'c, 'y) readers = "('w, 'c) surroundings" +
  rd_StringMap :: "string \<Rightarrow> go_error + string gomap"
  rd_Deletions :: "string \<Rightarrow> go_error + deletions"
  rd_CFDeletions :: "string \<Rightarrow> go_error + cf_deletions"
  rd_Documents :: "string \<Rightarrow> 'y option list \<times> go_error option"
  rd_Encode :: "'y list \<Rightarrow> 'y \<Rightarrow> go_error + string"
  rd_yaml :: "'y yaml"
  rd_Decrypt :: "'w decrypter"

definition cluster_data :: "cluster \<Rightarrow> tvalues \<Rightarrow> instance_types option \<Rightarrow> tdata" where
  "cluster_data c values types = \<lparr>td_Cluster = c, td_Values = values, td_NodePool = None, td_InstanceTypes = types\<rparr>"

definition render_cluster :: "('w, 'c, 'y, 'z) readers_scheme \<Rightarrow> manifest \<Rightarrow> tdata \<Rightarrow> ('w, string) io" where
  "render_cluster s m d = from_outcome (renderSingleTemplate (sr_engine s) m d)"

section \<open>Config items\<close>

fun defaults_loop :: "('w, 'c, 'y, 'z) readers_scheme \<Rightarrow> tdata \<Rightarrow> manifest list \<Rightarrow> string gomap \<Rightarrow> ('w, string gomap) io" where
  "defaults_loop s d [] allDefaults = ret allDefaults"
| "defaults_loop s d (file # fs) allDefaults =
     bindE (render_cluster s file d) (\<lambda>result.
       case rd_StringMap s result of
         Inl e \<Rightarrow> fail (Wrapf (''failed to unmarshal defaults file '' @ mf_Path file) e)
       | Inr defaults \<Rightarrow> defaults_loop s d fs (fold (\<lambda>(k, v). m_put k v) defaults allDefaults))"

text \<open>Values for the keys that are not there yet.\<close>

definition fill_in :: "string gomap \<Rightarrow> string gomap \<Rightarrow> string gomap" where
  "fill_in new items = fold (\<lambda>(k, v) m. if m_has m k then m else m_put k v m) new items"

definition updateDefaults :: "('w, 'c, 'y, 'z) readers_scheme \<Rightarrow> instance_types \<Rightarrow> cluster \<Rightarrow> ('w, cluster) io" where
  "updateDefaults s types c =
     bindE (cf_DefaultsManifests (sr_config s)) (\<lambda>fs.
     bindE (defaults_loop s (cluster_data (c\<lparr>cl_ConfigItems := []\<rparr>) [] (Some types)) fs []) (\<lambda>allDefaults.
       ret (c\<lparr>cl_ConfigItems := fill_in allDefaults (cl_ConfigItems c)\<rparr>)))"

text \<open>The loop over the config items; the map is changed at the key that is visited.\<close>

fun decrypt_loop :: "'w decrypter \<Rightarrow> string gomap \<Rightarrow> string gomap \<Rightarrow> ('w, string gomap) io" where
  "decrypt_loop d [] items = ret items"
| "decrypt_loop d ((key, item) # rest) items =
     tryE (d item) (\<lambda>e. fail (Wrapf (''failed to decrypt config-item: '' @ key) e))
       (\<lambda>plaintext. decrypt_loop d rest (m_put key plaintext items))"

definition decryptConfigItems :: "('w, 'c, 'y, 'z) readers_scheme \<Rightarrow> cluster \<Rightarrow> ('w, cluster) io" where
  "decryptConfigItems s c =
     bindE (decrypt_loop (rd_Decrypt s) (cl_ConfigItems c) (cl_ConfigItems c)) (\<lambda>items. ret (c\<lparr>cl_ConfigItems := items\<rparr>))"

definition propagateConfigItemsToNodePools :: "cluster \<Rightarrow> cluster" where
  "propagateConfigItemsToNodePools c =
     c\<lparr>cl_NodePools := map (\<lambda>np. np\<lparr>np_ConfigItems := fill_in (cl_ConfigItems c) (np_ConfigItems np)\<rparr>) (cl_NodePools c)\<rparr>"

definition applyDefaultsToManifests :: "('w, 'c, 'y, 'z) readers_scheme \<Rightarrow> instance_types \<Rightarrow> cluster \<Rightarrow> ('w, cluster) io" where
  "applyDefaultsToManifests s types c =
     tryE (updateDefaults s types c)
       (\<lambda>e. fail (Errorf (''unable to read configuration defaults: '' @ error_text e))) (\<lambda>c1.
     tryE (decryptConfigItems s c1)
       (\<lambda>e. fail (Errorf (''unable to decrypt config items: '' @ error_text e))) (\<lambda>c2.
     ret (propagateConfigItemsToNodePools c2)))"

definition nodeSubnetsUsablePercent :: "('a) account_cluster_scheme \<Rightarrow> int outcome" where
  "nodeSubnetsUsablePercent c =
     (case m_get (cl_ConfigItems c) ''node_subnet_usable_percent'' of
        None \<Rightarrow> Ret 90
      | Some v \<Rightarrow>
          (case parse_int64 v of
             None \<Rightarrow> Fail (Errorf (''invalid value for node_subnet_usable_percent: '' @ quoted v @ '': strconv.ParseInt: parsing '' @ quoted v))
           | Some n \<Rightarrow> Ret n))"

section \<open>Deletions\<close>

fun deletions_loop :: "('w, 'c, 'y, 'z) readers_scheme \<Rightarrow> tdata \<Rightarrow> manifest list \<Rightarrow> deletions \<Rightarrow> ('w, deletions) io" where
  "deletions_loop s d [] result = ret result"
| "deletions_loop s d (file # fs) result =
     bindE (render_cluster s file d) (\<lambda>res.
       case rd_Deletions s res of
         Inl e \<Rightarrow> fail (Wrapf (''failed to unmarshal deletions file '' @ mf_Path file) e)
       | Inr ds \<Rightarrow> deletions_loop s d fs \<lparr>dl_PreApply = dl_PreApply result @ dl_PreApply ds,
                                          dl_PostApply = dl_PostApply result @ dl_PostApply ds\<rparr>)"

definition parseDeletions :: "('w, 'c, 'y, 'z) readers_scheme \<Rightarrow> tdata \<Rightarrow> ('w, deletions) io" where
  "parseDeletions s d =
     bindE (cf_DeletionsManifests (sr_config s)) (\<lambda>fs. deletions_loop s d fs \<lparr>dl_PreApply = [], dl_PostApply = []\<rparr>)"

fun cf_deletions_loop :: "('w, 'c, 'y, 'z) readers_scheme \<Rightarrow> tdata \<Rightarrow> manifest list \<Rightarrow> cf_deletions \<Rightarrow> ('w, cf_deletions) io" where
  "cf_deletions_loop s d [] result = ret result"
| "cf_deletions_loop s d (file # fs) result =
     bindE (render_cluster s file d) (\<lambda>res.
       case rd_CFDeletions s res of
         Inl e \<Rightarrow> fail (Wrapf (''failed to unmarshal deletions file '' @ mf_Path file) e)
       | Inr ds \<Rightarrow> cf_deletions_loop s d fs \<lparr>cd_PreApply = cd_PreApply result @ cd_PreApply ds,
                                             cd_PostApply = cd_PostApply result @ cd_PostApply ds\<rparr>)"

definition parseCFDeletions :: "('w, 'c, 'y, 'z) readers_scheme \<Rightarrow> tdata \<Rightarrow> ('w, cf_deletions) io" where
  "parseCFDeletions s d =
     bindE (cf_CFDeletionsManifests (sr_config s)) (\<lambda>fs. cf_deletions_loop s d fs \<lparr>cd_PreApply = [], cd_PostApply = []\<rparr>)"

section \<open>Manifests\<close>

fun remarshal_loop :: "('w, 'c, 'y, 'z) readers_scheme \<Rightarrow> 'y option list \<Rightarrow> go_error option \<Rightarrow> 'y list \<Rightarrow> string \<Rightarrow> string outcome" where
  "remarshal_loop s [] err before result = (case err of Some e \<Rightarrow> Fail e | None \<Rightarrow> Ret result)"
| "remarshal_loop s (None # docs) err before result = remarshal_loop s docs err before result"
| "remarshal_loop s (Some y # docs) err before result =
     (case rd_Encode s before y of
        Inl e \<Rightarrow> Fail e
      | Inr t \<Rightarrow> remarshal_loop s docs err (before @ [y]) (result @ t))"

definition remarshalYAML :: "('w, 'c, 'y, 'z) readers_scheme \<Rightarrow> string \<Rightarrow> string outcome" where
  "remarshalYAML s contents = (let (docs, err) = rd_Documents s contents in remarshal_loop s docs err [] [])"

text \<open>The manifests of a component, in one template context.\<close>

definition failing :: "string \<Rightarrow> string \<Rightarrow> 'a outcome \<Rightarrow> 'a outcome" where
  "failing what path r = (case r of Fail e \<Rightarrow> Fail (Errorf (''error '' @ what @ '' '' @ path @ '': '' @ error_text e)) | _ \<Rightarrow> r)"

fun manifests_loop :: "('w, 'c, 'y, 'z) readers_scheme \<Rightarrow> manifest list \<Rightarrow> tdata template_context \<Rightarrow> 'y resource_manifest list
    \<Rightarrow> 'y resource_manifest list outcome" where
  "manifests_loop s [] c parsed = Ret parsed"
| "manifests_loop s (m # ms) c parsed =
     (let (r, c') = renderTemplate render_depth (sr_engine s) (mf_Path m) c in
      bindO (failing ''rendering template'' (mf_Path m) r) (\<lambda>rendered.
      bindO (failing ''remarshaling manifest'' (mf_Path m) (remarshalYAML s rendered)) (\<lambda>remarshaled.
        if remarshaled = [] then manifests_loop s ms c' parsed
        else bindO (failing ''parsing manifest'' (mf_Path m) (ParseResourceManifest (rd_yaml s) remarshaled (mf_Path m)))
               (\<lambda>ps. manifests_loop s ms c' (parsed @ ps)))))"

definition render_component :: "('w, 'c, 'y, 'z) readers_scheme \<Rightarrow> tdata \<Rightarrow> component \<Rightarrow> 'y resource_manifest list outcome" where
  "render_component s d co =
     (let fileData = fold (\<lambda>m. m_put (mf_Path m) (mf_Contents m)) (co_Manifests co) [] in
      manifests_loop s (co_Manifests co) (newTemplateContext fileData d) [])"

fun packages_loop :: "('w, 'c, 'y, 'z) readers_scheme \<Rightarrow> tdata \<Rightarrow> component list \<Rightarrow> 'y manifest_package list
    \<Rightarrow> 'y manifest_package list outcome" where
  "packages_loop s d [] result = Ret result"
| "packages_loop s d (co # cos) result =
     bindO (render_component s d co) (\<lambda>parsed.
       packages_loop s d cos (if length parsed > 0 then result @ [\<lparr>mp_name = co_Name co, mp_manifests = parsed\<rparr>] else result))"

definition renderManifests :: "('w, 'c, 'y, 'z) readers_scheme \<Rightarrow> tdata \<Rightarrow> ('w, 'y manifest_package list) io" where
  "renderManifests s d =
     bindE (cf_Components (sr_config s)) (\<lambda>cos. from_outcome (packages_loop s d cos []))"

definition extractModuleFromPath :: "string \<Rightarrow> string" where
  "extractModuleFromPath p =
     (let parts = split_on (CHR ''/'') (trim_prefix p ''/'') in
      if length parts > 0 \<and> parts ! 0 \<noteq> [] then parts ! 0 else ''unknown'')"

section \<open>Which value a config item has\<close>

lemma fill_in_get: "m_get (fill_in new items) k = (case m_get items k of Some v \<Rightarrow> Some v | None \<Rightarrow> m_get new k)"
proof (induction new arbitrary: items)
  case Nil
  then show ?case by (simp add: fill_in_def split: option.splits)
next
  case (Cons ab new)
  obtain a b where ab: "ab = (a, b)" by (cases ab)
  have "fill_in (ab # new) items = fill_in new (if m_has items a then items else m_put a b items)"
    by (simp add: fill_in_def ab)
  then show ?case using Cons.IH ab by (cases "m_get items a"; cases "k = a") (auto split: option.splits)
qed

lemma m_ok_fill_in: "m_ok items \<Longrightarrow> m_ok (fill_in new items)"
  by (induction new arbitrary: items) (auto simp: fill_in_def m_ok_put)

text \<open>\<open>decrypts d v p\<close>: the decrypter gave \<open>p\<close> for \<open>v\<close>.\<close>

definition decrypts :: "'w decrypter \<Rightarrow> string \<Rightarrow> string \<Rightarrow> bool" where
  "decrypts d v p \<longleftrightarrow> (\<exists>w1 w2. d v w1 = (Ret p, w2))"

definition decrypted :: "'w decrypter \<Rightarrow> string option \<Rightarrow> string option \<Rightarrow> bool" where
  "decrypted d old new \<longleftrightarrow> (case old of None \<Rightarrow> new = None | Some v \<Rightarrow> \<exists>p. new = Some p \<and> decrypts d v p)"

lemma decrypt_loop_get:
  "decrypt_loop d rest items w = (Ret items', w') \<Longrightarrow> m_ok rest \<Longrightarrow>
     (case m_get rest k of
        None \<Rightarrow> m_get items' k = m_get items k
      | Some v \<Rightarrow> \<exists>p. m_get items' k = Some p \<and> decrypts d v p)"
proof (induction rest arbitrary: items w)
  case Nil
  then show ?case by simp
next
  case (Cons kv rest)
  obtain key item where kv: "kv = (key, item)" by (cases kv)
  from Cons.prems(1) obtain p w1 where p: "d item w = (Ret p, w1)" "decrypt_loop d rest (m_put key p items) w1 = (Ret items', w')"
    by (auto simp: kv tryE_def fail_def split: prod.splits outcome.splits)
  have ok: "m_ok rest" and fresh: "m_get rest key = None"
    using Cons.prems(2) kv by (auto simp: m_ok_def map_of_eq_None_iff)
  have "decrypts d item p" using p(1) by (auto simp: decrypts_def)
  then show ?case using Cons.IH [OF p(2) ok] kv fresh by (auto split: option.splits if_splits)
qed

text \<open>
  The defaults are read from all files, in their order: every file is rendered for the cluster
  without its config items and read as a map, and a later entry replaces an earlier one.
\<close>

definition defaults_of :: "('w, 'c, 'y, 'z) readers_scheme \<Rightarrow> tdata \<Rightarrow> manifest \<Rightarrow> string gomap \<Rightarrow> bool" where
  "defaults_of s d f items \<longleftrightarrow> (\<exists>result. renderSingleTemplate (sr_engine s) f d = Ret result \<and> rd_StringMap s result = Inr items)"

lemma put_all_get:
  "m_get (fold (\<lambda>(k, v). m_put k v) items acc) k = (case m_get (rev items) k of Some v \<Rightarrow> Some v | None \<Rightarrow> m_get acc k)"
  by (induction items arbitrary: acc) (auto simp: map_add_def split: option.splits)

lemma defaults_loop_get:
  "defaults_loop s d fs acc w = (Ret defaults, w') \<Longrightarrow> \<exists>parts. list_all2 (defaults_of s d) fs parts
     \<and> (\<forall>k. m_get defaults k = (case m_get (rev (concat parts)) k of Some v \<Rightarrow> Some v | None \<Rightarrow> m_get acc k))"
proof (induction fs arbitrary: acc w)
  case Nil
  then show ?case by (intro exI [of _ "[]"]) simp
next
  case (Cons f fs)
  from Cons.prems obtain items w1 where f: "defaults_of s d f items"
    and run: "defaults_loop s d fs (fold (\<lambda>(k, v). m_put k v) items acc) w1 = (Ret defaults, w')"
    by (auto simp: render_cluster_def from_outcome_def defaults_of_def bindE_def fail_def split: prod.splits outcome.splits sum.splits)
  from Cons.IH [OF run] obtain parts where "list_all2 (defaults_of s d) fs parts"
    "\<forall>k. m_get defaults k = (case m_get (rev (concat parts)) k of Some v \<Rightarrow> Some v
       | None \<Rightarrow> m_get (fold (\<lambda>(k, v). m_put k v) items acc) k)" by blast
  with f show ?case
    by (intro exI [of _ "items # parts"]) (auto simp: put_all_get map_add_def split: option.splits)
qed

text \<open>
  Claim C13. After the defaults have been applied the value of every config item is determined by a
  fixed precedence. A cluster keeps its own value, and only otherwise gets the default: the entry of
  the last defaults file that sets the item, where every defaults file of the channel is rendered, in
  order, for the cluster without its config items. The chosen value is decrypted. A node pool keeps
  its own value, and otherwise has the value of the cluster. No other items appear, and nothing
  else of the cluster or its pools changes.
\<close>

theorem config_item_precedence:
  assumes ok: "m_ok (cl_ConfigItems c)"
    and run: "applyDefaultsToManifests s types c w = (Ret c', w')"
  shows "\<exists>files w1 parts. cf_DefaultsManifests (sr_config s) w = (Ret files, w1)
     \<and> list_all2 (\<lambda>f items. \<exists>result. renderSingleTemplate (sr_engine s) f
            (cluster_data (c\<lparr>cl_ConfigItems := []\<rparr>) [] (Some types)) = Ret result \<and> rd_StringMap s result = Inr items)
          files parts
     \<and> (\<forall>k. decrypted (rd_Decrypt s)
          (case m_get (cl_ConfigItems c) k of Some v \<Rightarrow> Some v | None \<Rightarrow> m_get (rev (concat parts)) k)
          (m_get (cl_ConfigItems c') k))
     \<and> list_all2 (\<lambda>np np'. np'\<lparr>np_ConfigItems := np_ConfigItems np\<rparr> = np
          \<and> (\<forall>k. m_get (np_ConfigItems np') k =
               (case m_get (np_ConfigItems np) k of Some v \<Rightarrow> Some v | None \<Rightarrow> m_get (cl_ConfigItems c') k)))
        (cl_NodePools c) (cl_NodePools c')
     \<and> c'\<lparr>cl_ConfigItems := cl_ConfigItems c, cl_NodePools := cl_NodePools c\<rparr> = c"
proof -
  from run obtain c1 w1 c2 where u: "updateDefaults s types c w = (Ret c1, w1)"
    and d: "decryptConfigItems s c1 w1 = (Ret c2, w')" and c': "c' = propagateConfigItemsToNodePools c2"
    by (auto simp: applyDefaultsToManifests_def tryE_def fail_def ret_def split: prod.splits outcome.splits)
  from u obtain files w0 defaults where files: "cf_DefaultsManifests (sr_config s) w = (Ret files, w0)"
    and loop: "defaults_loop s (cluster_data (c\<lparr>cl_ConfigItems := []\<rparr>) [] (Some types)) files [] w0 = (Ret defaults, w1)"
    and c1: "c1 = c\<lparr>cl_ConfigItems := fill_in defaults (cl_ConfigItems c)\<rparr>"
    by (auto simp: updateDefaults_def)
  from defaults_loop_get [OF loop] obtain parts where
      parts: "list_all2 (defaults_of s (cluster_data (c\<lparr>cl_ConfigItems := []\<rparr>) [] (Some types))) files parts"
    and defaults: "\<forall>k. m_get defaults k = (case m_get (rev (concat parts)) k of Some v \<Rightarrow> Some v | None \<Rightarrow> m_get [] k)"
    by blast
  have defaults: "m_get defaults k = m_get (rev (concat parts)) k" for k
    using defaults [rule_format, of k] by (cases "m_get (rev (concat parts)) k") simp_all
  from d obtain items where items: "decrypt_loop (rd_Decrypt s) (cl_ConfigItems c1) (cl_ConfigItems c1) w1 = (Ret items, w')"
    and c2: "c2 = c1\<lparr>cl_ConfigItems := items\<rparr>" by (auto simp: decryptConfigItems_def)
  have "m_ok (cl_ConfigItems c1)" using ok by (simp add: c1 m_ok_fill_in)
  then have "decrypted (rd_Decrypt s) (m_get (cl_ConfigItems c1) k) (m_get (cl_ConfigItems c') k)" for k
    using decrypt_loop_get [OF items, of k] by (auto simp: decrypted_def c' c2 propagateConfigItemsToNodePools_def split: option.splits)
  then have chosen: "\<forall>k. decrypted (rd_Decrypt s)
      (case m_get (cl_ConfigItems c) k of Some v \<Rightarrow> Some v | None \<Rightarrow> m_get (rev (concat parts)) k)
      (m_get (cl_ConfigItems c') k)" by (simp add: c1 fill_in_get defaults cong: option.case_cong)
  have final: "cl_ConfigItems c' = items" by (simp add: c' c2 propagateConfigItemsToNodePools_def)
  have pools: "list_all2 (\<lambda>np np'. np'\<lparr>np_ConfigItems := np_ConfigItems np\<rparr> = np
          \<and> (\<forall>k. m_get (np_ConfigItems np') k =
               (case m_get (np_ConfigItems np) k of Some v \<Rightarrow> Some v | None \<Rightarrow> m_get (cl_ConfigItems c') k)))
        (cl_NodePools c) (cl_NodePools c')"
    unfolding final by (simp add: c' c2 c1 propagateConfigItemsToNodePools_def fill_in_get list_all2_map2 list_all2_same)
  have rest: "c'\<lparr>cl_ConfigItems := cl_ConfigItems c, cl_NodePools := cl_NodePools c\<rparr> = c"
    by (simp add: c' c2 c1 propagateConfigItemsToNodePools_def)
  show ?thesis
    by (intro exI conjI) (rule files, rule parts [unfolded defaults_of_def], rule chosen, rule pools, rule rest)
qed

text \<open>A configuration with one file of defaults, and secrets that are written backwards.\<close>

definition sample_config :: "account config" where
  "sample_config = \<lparr>cf_StackManifest = (\<lambda>_. fail ErrNotExist), cf_EtcdManifest = (\<lambda>_. fail ErrNotExist), cf_CFManifests = ret [],
     cf_NodePoolManifest = (\<lambda>_ _. fail ErrNotExist), cf_DefaultsManifests = ret [\<lparr>mf_Path = ''d'', mf_Contents = ''x''\<rparr>],
     cf_DeletionsManifests = ret [], cf_CFDeletionsManifests = ret [], cf_Components = ret [], cf_Delete = ret ()\<rparr>"

definition sample_readers :: "(account, string, string) readers" where
  "sample_readers = \<lparr>sr_aws = sample_aws, sr_env = account_env, sr_fuel = 100, sr_config = sample_config,
     sr_engine = \<lparr>eg_Parse = (\<lambda>f t. Inr (\<lambda>_. Output t)), eg_Sha256 = id\<rparr>,
     sr_RemoteFiles = (\<lambda>_. Inr []), sr_Base64Encode = id, sr_Base64Decode = Inr, sr_TarHeader = (\<lambda>_. None),
     sr_TarGzip = (\<lambda>_. Inr []), sr_Gzip = id, sr_Sha512 = id,
     rd_StringMap = (\<lambda>t. Inr [(''k'', ''default''), (''new'', ''eulav'')]),
     rd_Deletions = (\<lambda>_. Inr \<lparr>dl_PreApply = [], dl_PostApply = []\<rparr>), rd_CFDeletions = (\<lambda>_. Inr \<lparr>cd_PreApply = [], cd_PostApply = []\<rparr>),
     rd_Documents = (\<lambda>t. ([Some t], None)), rd_Encode = (\<lambda>_ t. Inr t), rd_yaml = sample_yaml, rd_Decrypt = (\<lambda>v. ret (rev v))\<rparr>"

theorem config_item_precedence_witness:
  "\<exists>c' w'. applyDefaultsToManifests sample_readers [] sample_cluster ([], 0) = (Ret c', w')
     \<and> m_get (cl_ConfigItems c') ''k'' = Some ''v'' \<and> m_get (cl_ConfigItems c') ''new'' = Some ''value''
     \<and> decrypted (rd_Decrypt sample_readers) (Some ''eulav'') (m_get (cl_ConfigItems c') ''new'')"
proof -
  let ?r = "applyDefaultsToManifests sample_readers [] sample_cluster ([], 0)"
  let ?c = "sample_cluster\<lparr>cl_ConfigItems := [(''k'', ''v''), (''new'', ''value'')]\<rparr>"
  have run: "?r = (Ret ?c, ([], 0))" by code_simp
  have ok: "m_ok (cl_ConfigItems sample_cluster)" by code_simp
  have own: "m_get (cl_ConfigItems sample_cluster) ''new'' = None" by code_simp
  from config_item_precedence [OF ok run] obtain files w1 parts where
      files: "cf_DefaultsManifests (sr_config sample_readers) ([], 0) = (Ret files, w1)"
    and parts: "list_all2 (\<lambda>f items. \<exists>result. renderSingleTemplate (sr_engine sample_readers) f
            (cluster_data (sample_cluster\<lparr>cl_ConfigItems := []\<rparr>) [] (Some [])) = Ret result
          \<and> rd_StringMap sample_readers result = Inr items) files parts"
    and item: "decrypted (rd_Decrypt sample_readers)
        (case m_get (cl_ConfigItems sample_cluster) ''new'' of Some v \<Rightarrow> Some v | None \<Rightarrow> m_get (rev (concat parts)) ''new'')
        (m_get (cl_ConfigItems ?c) ''new'')" by blast
  have "files = [\<lparr>mf_Path = ''d'', mf_Contents = ''x''\<rparr>]"
    using files by (simp add: sample_readers_def sample_config_def ret_def)
  with parts have "parts = [[(''k'', ''default''), (''new'', ''eulav'')]]"
    by (auto simp: list_all2_Cons1 sample_readers_def)
  with item have "decrypted (rd_Decrypt sample_readers) (Some ''eulav'') (m_get (cl_ConfigItems ?c) ''new'')"
    by (simp add: own)
  with run show ?thesis by simp
qed

section \<open>Manifests that can be applied\<close>

lemma bindO_failing: "bindO (failing what path r) f = Ret y \<longleftrightarrow> (\<exists>x. r = Ret x \<and> f x = Ret y)"
  by (cases r) (auto simp: failing_def)

lemma manifests_loop_complete:
  "manifests_loop s ms c parsed = Ret ps \<Longrightarrow> list_all complete_manifest parsed \<Longrightarrow> list_all complete_manifest ps"
proof (induction ms arbitrary: c parsed)
  case (Cons m ms)
  obtain r c' where r: "renderTemplate render_depth (sr_engine s) (mf_Path m) c = (r, c')"
    by (cases "renderTemplate render_depth (sr_engine s) (mf_Path m) c")
  with Cons.prems(1) obtain t where t: "remarshalYAML s t = Ret [] \<and> manifests_loop s ms c' parsed = Ret ps
      \<or> (\<exists>u qs. ParseResourceManifest (rd_yaml s) u (mf_Path m) = Ret qs \<and> manifests_loop s ms c' (parsed @ qs) = Ret ps)"
    by (auto simp: bindO_failing split: if_splits)
  have "list_all complete_manifest qs" if "ParseResourceManifest (rd_yaml s) u (mf_Path m) = Ret qs" for u qs
    using that parse_documents_Ret [of "rd_yaml s" "mf_Path m" _ _ "[]" qs]
    by (auto simp: ParseResourceManifest_def list_all_iff split: prod.splits)
  then show ?case using t Cons.IH Cons.prems(2) by (auto simp: list_all_append)
qed simp

text \<open>The packages to apply are not empty, and each of their manifests is complete.\<close>

lemma renderManifests_complete:
  assumes "renderManifests s d w = (Ret ps, w')"
  shows "list_all (\<lambda>p. mp_manifests p \<noteq> [] \<and> list_all complete_manifest (mp_manifests p)) ps"
proof -
  have "packages_loop s d cos acc = Ret ps \<Longrightarrow> list_all (\<lambda>p. mp_manifests p \<noteq> [] \<and> list_all complete_manifest (mp_manifests p)) acc
      \<Longrightarrow> list_all (\<lambda>p. mp_manifests p \<noteq> [] \<and> list_all complete_manifest (mp_manifests p)) ps" for cos acc
  proof (induction cos arbitrary: acc)
    case (Cons co cos)
    then obtain parsed where "render_component s d co = Ret parsed"
        "packages_loop s d cos (if length parsed > 0 then acc @ [\<lparr>mp_name = co_Name co, mp_manifests = parsed\<rparr>] else acc) = Ret ps"
      by (auto simp: bindO_Ret_iff)
    moreover from this(1) have "list_all complete_manifest parsed"
      by (auto simp: render_component_def Let_def dest: manifests_loop_complete)
    ultimately show ?case using Cons.IH Cons.prems(2) by (auto split: if_splits)
  qed simp
  then show ?thesis using assms by (auto simp: renderManifests_def from_outcome_def)
qed

end
