(* ===== verification/Clm_Main.thy ===== *)
theory Clm_Main
  imports Controller Credentials Cluster_Config
begin

text \<open>
  The command line (\<open>cmd/clm/main.go\<close>): the configuration sources are set up from their definitions,
  tokens are static or read from files, and the commands \<open>provision\<close> and \<open>decommission\<close> go through the
  clusters of the registry once. \<open>log.Fatalf\<close> ends the process, here as a panic. The flags and the wiring are
  in \<open>Clm_Wiring\<close>; the HTTP server for health checks and the handling of signals are not modelled.
\<close>

definition fatal :: "string \<Rightarrow> ('w, 'a) io" where
  "fatal s w = (Panic s, w)"

section \<open>Configuration sources\<close>

record lm_config =
  lc_Directory :: string
  lc_ConfigSources :: "string list"
  lc_Workdir :: string
  lc_SSHPrivateKeyFile :: string
  lc_Token :: string
  lc_RegistryTokenName :: string
  lc_ClusterTokenName :: string
  lc_CredentialsDir :: path

datatype clm_source = DirectorySource directory | GitSource git_source

datatype clm_version = DirectoryVersion directory | GitVersion git_source string

primrec source_ops :: "('x, 'a, 'p) git_lib \<Rightarrow> clm_source \<Rightarrow> ('x disk, clm_version) config_source" where
  "source_ops lib (DirectorySource d) =
     \<lparr>cs_Name = cs_Name (directory_source d :: ('x disk, directory) config_source), cs_Update = cs_Update (directory_source d),
      cs_Version = (\<lambda>ch ov. bindE (cs_Version (directory_source d) ch ov) (\<lambda>v. ret (DirectoryVersion v)))\<rparr>"
| "source_ops lib (GitSource g) =
     \<lparr>cs_Name = cs_Name (git_config_source lib g), cs_Update = cs_Update (git_config_source lib g),
      cs_Version = (\<lambda>ch ov. bindE (cs_Version (git_config_source lib g) ch ov) (\<lambda>sha. ret (GitVersion g sha)))\<rparr>"

primrec version_ID :: "clm_version \<Rightarrow> string" where
  "version_ID (DirectoryVersion d) = directory_ID d"
| "version_ID (GitVersion g sha) = sha"

text \<open>What the rest of the program is given: the only source, or the combination of several.\<close>

datatype root = Single clm_source | CombinedSources "clm_source list"
datatype root_version = One clm_version | Many "(string \<times> clm_version) list"

primrec root_source :: "('x, 'a, 'p) git_lib \<Rightarrow> root \<Rightarrow> ('x disk, root_version) config_source" where
  "root_source lib (Single s) = \<lparr>cs_Name = cs_Name (source_ops lib s), cs_Update = cs_Update (source_ops lib s),
     cs_Version = (\<lambda>ch ov. bindE (cs_Version (source_ops lib s) ch ov) (\<lambda>v. ret (One v)))\<rparr>"
| "root_source lib (CombinedSources ss) =
     (let src = combined_source (map (source_ops lib) ss) in
      \<lparr>cs_Name = cs_Name src, cs_Update = cs_Update src,
       cs_Version = (\<lambda>ch ov. bindE (cs_Version src ch ov) (\<lambda>vs. ret (Many vs)))\<rparr>)"

primrec root_ID :: "root_version \<Rightarrow> string" where
  "root_ID (One v) = version_ID v"
| "root_ID (Many vs) = combined_ID version_ID vs"

text \<open>\<open>locate\<close> is the file that a path given on the command line names.\<close>

definition one_source :: "('x, 'a, 'p) git_lib \<Rightarrow> (string \<Rightarrow> path) \<Rightarrow> lm_config \<Rightarrow> string \<Rightarrow> ('x disk, clm_source) io" where
  "one_source lib locate cfg source = (case splitn_on 3 (CHR '':'') source of
     [name, kind, location] \<Rightarrow>
       if kind = ''dir'' \<or> kind = ''directory'' then ret (DirectorySource \<lparr>dy_name = name, dy_location = locate location\<rparr>)
       else if kind = ''git'' then
         tryE (NewGit lib name (lc_Workdir cfg) location (lc_SSHPrivateKeyFile cfg))
           (\<lambda>e. fail (Errorf (''unable to setup git config source '' @ name @ '': '' @ error_text e)))
           (\<lambda>g. ret (GitSource g))
       else fail (Errorf (''unknown config source type '' @ kind))
   | _ \<Rightarrow> fail (Errorf (''invalid config source definition: '' @ source)))"

fun sources_loop :: "('x, 'a, 'p) git_lib \<Rightarrow> (string \<Rightarrow> path) \<Rightarrow> lm_config \<Rightarrow> string list \<Rightarrow> ('x disk, clm_source list) io" where
  "sources_loop lib locate cfg [] = ret []"
| "sources_loop lib locate cfg (d # ds) =
     bindE (one_source lib locate cfg d) (\<lambda>s. bindE (sources_loop lib locate cfg ds) (\<lambda>ss. ret (s # ss)))"

definition choose_root :: "('x, 'a, 'p) git_lib \<Rightarrow> clm_source list \<Rightarrow> ('x disk, root) io" where
  "choose_root lib sources = (case sources of
     [] \<Rightarrow> fail (Errorf ''at least one --config-source is required'')
   | [s] \<Rightarrow> ret (Single s)
   | ss \<Rightarrow> (case NewCombinedSource (map (source_ops lib) ss) of
         Inl e \<Rightarrow> fail e
       | Inr _ \<Rightarrow> ret (CombinedSources ss)))"

definition setupConfigSource :: "('x, 'a, 'p) git_lib \<Rightarrow> (string \<Rightarrow> path) \<Rightarrow> lm_config \<Rightarrow> ('x disk, root) io" where
  "setupConfigSource lib locate cfg =
     (if lc_Directory cfg \<noteq> [] then
        (if lc_ConfigSources cfg \<noteq> [] then fatal ''--directory can't be used with --config-source''
         else ret (Single (DirectorySource \<lparr>dy_name = ''main'', dy_location = locate (lc_Directory cfg)\<rparr>)))
      else bindE (sources_loop lib locate cfg (lc_ConfigSources cfg)) (choose_root lib))"

text \<open>
  Collecting garbage goes to the sources that can: \<open>gc s\<close> is the method of a source, if it has one. No
  source of the program has it.
\<close>

fun combined_GarbageCollect :: "('s \<Rightarrow> string) \<Rightarrow> ('s \<Rightarrow> ('w, unit) io option) \<Rightarrow> 's list \<Rightarrow> ('w, unit) io" where
  "combined_GarbageCollect name gc [] = ret ()"
| "combined_GarbageCollect name gc (s # ss) = (case gc s of
     None \<Rightarrow> combined_GarbageCollect name gc ss
   | Some m \<Rightarrow> tryE m (\<lambda>e. fail (Errorf (''error while garbage collecting source '' @ name s @ '': '' @ error_text e)))
       (\<lambda>_. combined_GarbageCollect name gc ss))"

section \<open>Tokens\<close>

text \<open>The sources of tokens for the registry and for the clusters, as operations that give the access token.\<close>

definition token_sources :: "token_lib \<Rightarrow> lm_config \<Rightarrow> (fs \<Rightarrow> go_error + string) \<times> (fs \<Rightarrow> go_error + string)" where
  "token_sources lib cfg =
     (if lc_Token cfg \<noteq> [] then (\<lambda>_. Inr (lc_Token cfg), \<lambda>_. Inr (lc_Token cfg))
      else (\<lambda>f. map_sum id ot_AccessToken (Token lib (NewTokenSource (lc_RegistryTokenName cfg) (lc_CredentialsDir cfg)) f),
            \<lambda>f. map_sum id ot_AccessToken (Token lib (NewTokenSource (lc_ClusterTokenName cfg) (lc_CredentialsDir cfg)) f)))"

section \<open>The commands\<close>

datatype command = Provision | Decommission | OtherCommand string

definition fatal_on :: "('w, 'a) io \<Rightarrow> ('a \<Rightarrow> ('w, 'b) io) \<Rightarrow> ('w, 'b) io" where
  "fatal_on m f = tryE m (\<lambda>e. fatal (error_text e)) f"

fun decrypt_items :: "'w decrypter \<Rightarrow> string gomap \<Rightarrow> string gomap \<Rightarrow> ('w, string gomap) io" where
  "decrypt_items d [] items = ret items"
| "decrypt_items d ((key, v) # rest) items = fatal_on (d v) (\<lambda>plain. decrypt_items d rest (m_put key plain items))"

definition run_provisioner :: "command \<Rightarrow> ('w, 'cfg) provisioner \<Rightarrow> 'cfg \<Rightarrow> cluster \<Rightarrow> ('w, unit) io" where
  "run_provisioner cmd p config cluster w = (case cmd of
     Provision \<Rightarrow>
       (case pv_Provision p config (cluster, w) of
          (Fail e, s) \<Rightarrow> (Panic (''Fail to provision: '' @ error_text e), snd s) | (r, s) \<Rightarrow> (r, snd s))
   | Decommission \<Rightarrow>
       (case pv_Decommission p (cluster, w) of
          (Fail e, s) \<Rightarrow> (Panic (''Fail to decommission: '' @ error_text e), snd s) | (r, s) \<Rightarrow> (r, snd s))
   | OtherCommand s \<Rightarrow> (Panic (''unknown cmd: '' @ s), w))"

definition command_cluster :: "('w, 'v, 'cfg) controller \<Rightarrow> 'w decrypter \<Rightarrow> command \<Rightarrow> cluster \<Rightarrow> ('w, unit) io" where
  "command_cluster c d cmd cluster =
     fatal_on (cs_Update (ct_configSource c)) (\<lambda>_.
     fatal_on (from_sum (ChannelOverrides cluster)) (\<lambda>overrides.
     fatal_on (cs_Version (ct_configSource c) (cl_Channel cluster) overrides) (\<lambda>version.
     fatal_on (ct_versionGet c version) (\<lambda>config.
     bindE (decrypt_items d (cl_ConfigItems cluster) (cl_ConfigItems cluster)) (\<lambda>items.
     case m_get (ct_provisioners c) (cl_Provider cluster) of
       None \<Rightarrow> fatal (''Cluster '' @ cl_ID cluster @ '': unknown provider '' @ quoted (cl_Provider cluster))
     | Some p \<Rightarrow> run_provisioner cmd p config (cluster\<lparr>cl_ConfigItems := items\<rparr>))))))"

fun command_loop :: "('w, 'v, 'cfg) controller \<Rightarrow> 'w decrypter \<Rightarrow> command \<Rightarrow> cluster list \<Rightarrow> ('w, unit) io" where
  "command_loop c d cmd [] = ret ()"
| "command_loop c d cmd (cluster # cs) =
     (if \<not> Allowed (ct_accountFilter c) (cl_InfrastructureAccount cluster) then command_loop c d cmd cs
      else bindE (command_cluster c d cmd cluster) (\<lambda>_. command_loop c d cmd cs))"

definition run_command :: "('w, 'v, 'cfg) controller \<Rightarrow> 'w decrypter \<Rightarrow> command \<Rightarrow> ('w, unit) io" where
  "run_command c d cmd = fatal_on (rg_ListClusters (ct_registry c) []) (command_loop c d cmd)"

section \<open>The sources that are set up\<close>

primrec root_sources :: "root \<Rightarrow> clm_source list" where
  "root_sources (Single s) = [s]"
| "root_sources (CombinedSources ss) = ss"

definition source_name :: "clm_source \<Rightarrow> string" where
  "source_name s = (case s of DirectorySource d \<Rightarrow> dy_name d | GitSource g \<Rightarrow> gt_name g)"

lemma source_ops_name [simp]: "cs_Name (source_ops lib s) = source_name s"
  by (cases s) (simp_all add: source_name_def directory_source_def git_config_source_def)

lemma NewGit_name: "NewGit lib name wd url key s = (Ret g, s') \<Longrightarrow> gt_name g = name"
  by (auto simp: NewGit_def Let_def split: sum.splits)

lemma one_source_name:
  "one_source lib locate cfg d w = (Ret s, w') \<Longrightarrow> \<exists>kind location. splitn_on 3 (CHR '':'') d = [source_name s, kind, location]"
  by (auto simp: one_source_def source_name_def tryE_fail_Ret fail_def ret_def split: list.splits if_splits dest: NewGit_name)

lemma sources_loop_names:
  "sources_loop lib locate cfg ds w = (Ret ss, w') \<Longrightarrow>
     list_all2 (\<lambda>d s. \<exists>kind location. splitn_on 3 (CHR '':'') d = [source_name s, kind, location]) ds ss"
  by (induction ds arbitrary: ss w) (auto simp: ret_def dest!: one_source_name)

lemma NewCombinedSource_loop_distinct:
  "NewCombinedSource_loop ns seen = None \<Longrightarrow> distinct ns \<and> set ns \<inter> set seen = {}"
proof (induction ns arbitrary: seen)
  case (Cons n ns)
  then have "n \<notin> set seen" "NewCombinedSource_loop ns (n # seen) = None" by (auto split: if_splits)
  with Cons.IH [of "n # seen"] show ?case by auto
qed simp

text \<open>
  The sources that are set up are those of the command line: one for each definition, in
  their order and under their names, at least one, and no two under the same name. So an override names
  at most one source.
\<close>

theorem setup_as_defined:
  assumes "setupConfigSource lib locate cfg w = (Ret r, w')" and "lc_Directory cfg = []"
  shows "root_sources r \<noteq> [] \<and> distinct (map source_name (root_sources r))
    \<and> list_all2 (\<lambda>d s. \<exists>kind location. splitn_on 3 (CHR '':'') d = [source_name s, kind, location])
        (lc_ConfigSources cfg) (root_sources r)"
proof -
  from assms obtain ss w1 where ss: "sources_loop lib locate cfg (lc_ConfigSources cfg) w = (Ret ss, w1)"
      and r: "choose_root lib ss w1 = (Ret r, w')"
    by (auto simp: setupConfigSource_def)
  from r have "root_sources r = ss" "ss \<noteq> []"
    by (auto simp: choose_root_def fail_def ret_def split: list.splits sum.splits)
  moreover have "distinct (map source_name ss)"
  proof (cases "length ss \<le> 1")
    case True
    then show ?thesis by (cases ss) auto
  next
    case False
    with r obtain x where "NewCombinedSource (map (source_ops lib) ss) = Inr x"
      by (auto simp: choose_root_def fail_def split: list.splits sum.splits)
    then have "NewCombinedSource_loop (map source_name ss) [] = None"
      by (auto simp: NewCombinedSource_def comp_def split: option.splits)
    then show ?thesis using NewCombinedSource_loop_distinct by blast
  qed
  ultimately show ?thesis using sources_loop_names [OF ss] by simp
qed

section \<open>What a command does\<close>

lemma command_loop_each:
  "command_loop c d cmd cs w = each (command_cluster c d cmd) (filter (\<lambda>x. Allowed (ct_accountFilter c) (cl_InfrastructureAccount x)) cs) w"
proof (induction cs arbitrary: w)
  case (Cons x cs)
  have "command_loop c d cmd cs = each (command_cluster c d cmd) (filter (\<lambda>x. Allowed (ct_accountFilter c) (cl_InfrastructureAccount x)) cs)"
    using Cons by blast
  then show ?case by simp
qed (simp add: ret_def)

text \<open>A loop that returns on an error has done all of its steps, or the steps before the first one that did not succeed.\<close>

lemma each_steps:
  "each f xs w = (q, w') \<Longrightarrow>
   \<exists>ws. length ws \<le> Suc (length xs) \<and> ws \<noteq> [] \<and> hd ws = w \<and> (\<forall>i. Suc i < length ws \<longrightarrow> f (xs ! i) (ws ! i) = (Ret (), ws ! Suc i))
     \<and> (if q = Ret () then length ws = Suc (length xs) \<and> last ws = w'
        else length ws \<le> length xs \<and> f (xs ! (length ws - 1)) (last ws) = (q, w'))"
proof (induction xs arbitrary: w)
  case Nil
  then show ?case by (intro exI [of _ "[w]"]) simp
next
  case (Cons x xs)
  obtain r w1 where x: "f x w = (r, w1)" by (cases "f x w")
  show ?case
  proof (cases "r = Ret ()")
    case True
    with Cons.prems x have "each f xs w1 = (q, w')" by (simp add: bindE_def)
    from Cons.IH [OF this] obtain ws where ws: "length ws \<le> Suc (length xs)" "ws \<noteq> []" "hd ws = w1"
        "\<forall>i. Suc i < length ws \<longrightarrow> f (xs ! i) (ws ! i) = (Ret (), ws ! Suc i)"
        "if q = Ret () then length ws = Suc (length xs) \<and> last ws = w'
         else length ws \<le> length xs \<and> f (xs ! (length ws - 1)) (last ws) = (q, w')" by blast
    have "f ((x # xs) ! i) ((w # ws) ! i) = (Ret (), (w # ws) ! Suc i)" if "Suc i < length (w # ws)" for i
      using that x True ws(2,3,4) by (cases i) (auto simp: hd_conv_nth)
    then show ?thesis using ws by (intro exI [of _ "w # ws"]) (auto simp: nth_Cons' split: if_splits)
  next
    case False
    with Cons.prems x have "q = r" "w' = w1" by (cases r; simp add: bindE_def)+
    with False x show ?thesis by (intro exI [of _ "[w]"]) simp
  qed
qed

text \<open>
  The commands \<open>provision\<close> and \<open>decommission\<close> go through exactly the clusters of allowed
  accounts, in the order of the registry, each from where the one before left the world; they stop at
  the first cluster that fails, so that no later cluster is touched, and end without an error only when
  all of them were handled.
\<close>

theorem command_in_order:
  assumes "rg_ListClusters (ct_registry c) [] w0 = (Ret cs, w)" and "run_command c d cmd w0 = (q, w')"
  defines "allowed \<equiv> filter (\<lambda>x. Allowed (ct_accountFilter c) (cl_InfrastructureAccount x)) cs"
  shows "\<exists>ws. ws \<noteq> [] \<and> hd ws = w
    \<and> (\<forall>i. Suc i < length ws \<longrightarrow> command_cluster c d cmd (allowed ! i) (ws ! i) = (Ret (), ws ! Suc i))
    \<and> (if q = Ret () then length ws = Suc (length allowed) \<and> last ws = w'
       else length ws \<le> length allowed \<and> command_cluster c d cmd (allowed ! (length ws - 1)) (last ws) = (q, w'))"
proof -
  have "each (command_cluster c d cmd) allowed w = (q, w')"
    using assms(1,2) by (simp add: run_command_def fatal_on_def tryE_def command_loop_each allowed_def)
  from each_steps [OF this] show ?thesis by blast
qed

lemma fatal_on_Ret [simp]: "fatal_on m f w = (Ret x, w') \<longleftrightarrow> (\<exists>y v. m w = (Ret y, v) \<and> f y v = (Ret x, w'))"
  by (auto simp: fatal_on_def tryE_def fatal_def split: prod.splits outcome.splits)

lemma from_sum_value: "from_sum s w = (Ret x, w') \<longleftrightarrow> s = Inr x \<and> w' = w"
  by (auto simp: from_sum_def ret_def fail_def split: sum.splits)

text \<open>No command goes on without a configuration: the version is resolved and read before the provisioner runs.\<close>

lemma command_needs_config:
  assumes "command_cluster c d cmd cluster w = (Ret (), w')"
  shows "\<exists>overrides version config items p v1 v2 v3. ChannelOverrides cluster = Inr overrides
    \<and> cs_Version (ct_configSource c) (cl_Channel cluster) overrides v1 = (Ret version, v2) \<and> ct_versionGet c version v2 = (Ret config, v3)
    \<and> m_get (ct_provisioners c) (cl_Provider cluster) = Some p
    \<and> (\<exists>v4. run_provisioner cmd p config (cluster\<lparr>cl_ConfigItems := items\<rparr>) v4 = (Ret (), w'))"
  using assms by (auto simp: command_cluster_def from_sum_value fatal_def split: option.splits) blast

section \<open>Examples\<close>

definition sample_config :: lm_config where
  "sample_config = \<lparr>lc_Directory = [], lc_ConfigSources = [''main:git:https://example.org/org/kube.git'', ''extra:dir:/etc/extra''],
     lc_Workdir = ''w'', lc_SSHPrivateKeyFile = [], lc_Token = [], lc_RegistryTokenName = ''r'', lc_ClusterTokenName = ''c'',
     lc_CredentialsDir = []\<rparr>"

lemma sample_setup:
  "\<exists>r f. setupConfigSource sample_lib (\<lambda>s. [s]) sample_config (sample_disk, ()) = (Ret r, (f, ()))
     \<and> map source_name (root_sources r) = [''main'', ''extra'']"
proof -
  have "case setupConfigSource sample_lib (\<lambda>s. [s]) sample_config (sample_disk, ()) of
      (Ret r, _) \<Rightarrow> map source_name (root_sources r) = [''main'', ''extra''] | _ \<Rightarrow> False"
    by code_simp
  then show ?thesis by (auto split: prod.splits outcome.splits)
qed

theorem setup_as_defined_witness:
  "\<exists>r f. setupConfigSource sample_lib (\<lambda>s. [s]) sample_config (sample_disk, ()) = (Ret r, (f, ()))
     \<and> root_sources r \<noteq> [] \<and> distinct (map source_name (root_sources r))"
proof -
  from sample_setup obtain r f where r: "setupConfigSource sample_lib (\<lambda>s. [s]) sample_config (sample_disk, ()) = (Ret r, (f, ()))" by blast
  with setup_as_defined [OF r] show ?thesis by (auto simp: sample_config_def)
qed

theorem command_in_order_witness:
  "run_command sample_controller ret Provision () = (Ret (), ())
   \<and> command_cluster sample_controller ret Provision (ready_cluster ''c1'' []) () = (Ret (), ())"
proof -
  let ?c = "sample_controller"
  let ?allowed = "filter (\<lambda>x. Allowed (ct_accountFilter ?c) (cl_InfrastructureAccount x)) [ready_cluster ''c1'' []]"
  have run: "run_command ?c ret Provision () = (Ret (), ())" by code_simp
  have list: "rg_ListClusters (ct_registry ?c) [] () = (Ret [ready_cluster ''c1'' []], ())"
    by (simp add: sample_controller_def sample_registry_def ret_def)
  have allowed: "?allowed = [ready_cluster ''c1'' []]" by (simp add: sample_controller_def all_accounts_def Allowed_def)
  from command_in_order [OF list run] obtain ws where ws: "length ws = Suc (length ?allowed)"
      "\<forall>i. Suc i < length ws \<longrightarrow> command_cluster ?c ret Provision (?allowed ! i) (ws ! i) = (Ret (), ws ! Suc i)"
    by auto
  from ws(2) [rule_format, of 0] ws(1) have "command_cluster ?c ret Provision (ready_cluster ''c1'' []) () = (Ret (), ())"
    unfolding allowed by simp
  with run show ?thesis by blast
qed

end
