(* ===== verification/Node_Pool_Manager.thy ===== *)
theory Node_Pool_Manager
  imports Node_Pool_Backend
begin

text \<open>
  The node pool manager on top of the Kubernetes API and a backend
  (\<open>pkg/updatestrategy/node_pool_manager.go\<close>) and its draining of nodes (\<open>drain.go\<close>). The API client
  is a record of calls; the retry helpers of package \<open>backoff\<close> are among them. The loops that end
  only when the cluster or the context says so take the number of iterations they may run.
\<close>

section \<open>Kubernetes objects and calls\<close>

record kube_node =
  kn_Name :: string
  kn_ProviderID :: string
  kn_Annotations :: "string gomap"
  kn_Labels :: "string gomap"
  kn_Taints :: "taint list"
  kn_Unschedulable :: bool
  kn_VolumesAttached :: nat

record pod =
  po_Namespace :: string
  po_Name :: string
  po_UID :: string
  po_NodeName :: string
  po_Labels :: "string gomap"
  po_Annotations :: "string gomap"
  po_OwnerKinds :: "string list"
  po_Phase :: string
  po_Conditions :: "(string \<times> string) list"
  po_Created :: int
  po_GracePeriod :: "int option"

text \<open>A disruption budget: its name and its selector, as a test of labels, unless it is invalid.\<close>

record pdb =
  pd_Name :: string
  pd_Selector :: "(string gomap \<Rightarrow> bool) option"

record 'w kube_api =
  ka_ListNodes :: "('w, kube_node list) io"
  ka_GetNode :: "string \<Rightarrow> ('w, kube_node) io"
  ka_UpdateNode :: "kube_node \<Rightarrow> ('w, unit) io"
  ka_CordonNode :: "string \<Rightarrow> ('w, unit) io"
  ka_PodsOnNode :: "string \<Rightarrow> ('w, pod list) io"
  ka_PodsByNamespace :: "string \<Rightarrow> ('w, pod list) io"
  ka_PDBsByNamespace :: "string \<Rightarrow> ('w, pdb list) io"
  ka_GetPod :: "string \<Rightarrow> string \<Rightarrow> ('w, pod) io"
  ka_Evict :: "pod \<Rightarrow> ('w, unit) io"
  ka_DeletePod :: "pod \<Rightarrow> ('w, unit) io"
  ka_RetryNodes :: "nat \<Rightarrow> ('w, kube_node list) io \<Rightarrow> ('w, kube_node list) io"
  ka_Retry :: "nat \<Rightarrow> ('w, unit) io \<Rightarrow> ('w, unit) io"
  ka_RetryFor :: "int \<Rightarrow> ('w, unit) io \<Rightarrow> ('w, unit) io"

record drain_config =
  dc_ForceEvictionGracePeriod :: int
  dc_MinPodLifetime :: int
  dc_MinHealthyPDBSiblingLifetime :: int
  dc_MinUnhealthyPDBSiblingLifetime :: int
  dc_ForceEvictionInterval :: int
  dc_PollInterval :: int

record 'w manager =
  mg_kube :: "'w kube_api"
  mg_backend :: "'w backend"
  mg_env :: "'w env"
  mg_drainConfig :: drain_config
  mg_noScheduleTaint :: bool
  mg_formatTime :: "int \<Rightarrow> string"
  mg_parseTime :: "string \<Rightarrow> int option"

definition maxConflictRetries :: nat where "maxConflictRetries = 50"
definition podEvictionHeadroom :: int where "podEvictionHeadroom = 30 * second"
definition multiplePDBsErrMsg :: string where "multiplePDBsErrMsg = ''This pod has more than one PodDisruptionBudget''"
definition mirrorPodAnnotation :: string where "mirrorPodAnnotation = ''kubernetes.io/config.mirror''"
definition lifecycleStatusLabel :: string where "lifecycleStatusLabel = ''lifecycle-status''"
definition lifecycleStatusDraining :: string where "lifecycleStatusDraining = ''draining''"
definition lifecycleStatusDecommissionPending :: string where "lifecycleStatusDecommissionPending = ''decommission-pending''"
definition lifecycleStatusReady :: string where "lifecycleStatusReady = ''ready''"
definition decommissionPendingTaintKey :: string where "decommissionPendingTaintKey = ''decommission-pending''"
definition decommissionPendingTaintValue :: string where "decommissionPendingTaintValue = ''rolling-upgrade''"
definition clcReplacementStrategyLabel :: string where
  "clcReplacementStrategyLabel = ''cluster-lifecycle-controller.zalan.do/replacement-strategy''"
definition clcReplacementStrategyNone :: string where "clcReplacementStrategyNone = ''none''"
definition drainStartAnnotation :: string where
  "drainStartAnnotation = ''cluster-lifecycle-manager.zalando.org/drain-start''"
definition lastForcedDrainAnnotation :: string where
  "lastForcedDrainAnnotation = ''cluster-lifecycle-manager.zalando.org/last-forced-drain''"
definition operationMaxTimeout :: int where "operationMaxTimeout = 15 * minute"
definition operationCheckInterval :: int where "operationCheckInterval = 15 * second"

section \<open>Reading the pool\<close>

text \<open>The map from provider IDs to nodes; the last node with an ID wins.\<close>

definition instanceIDMap :: "kube_node list \<Rightarrow> (string \<times> kube_node) list" where
  "instanceIDMap items = fold (\<lambda>n. m_put (kn_ProviderID n) n) items []"

fun attach_nodes :: "bool \<Rightarrow> (string \<times> kube_node) list \<Rightarrow> node list \<Rightarrow> node list" where
  "attach_nodes master ids [] = []"
| "attach_nodes master ids (n # ns) =
     (case m_get ids (nd_ProviderID n) of
        None \<Rightarrow> attach_nodes master ids ns
      | Some k \<Rightarrow> \<lparr>nd_Name = kn_Name k, nd_Annotations = kn_Annotations k, nd_Labels = kn_Labels k,
           nd_Taints = kn_Taints k, nd_Cordoned = kn_Unschedulable k, nd_ProviderID = nd_ProviderID n,
           nd_FailureDomain = nd_FailureDomain n, nd_Generation = nd_Generation n,
           nd_VolumesAttached = (kn_VolumesAttached k > 0), nd_Ready = nd_Ready n, nd_Master = master\<rparr>
         # attach_nodes master ids ns)"

definition GetPool :: "'w manager \<Rightarrow> node_pool \<Rightarrow> ('w, pool) io" where
  "GetPool m np =
     tryE (bk_Get (mg_backend m) np) (\<lambda>e. fail (Wrapf ''failed to get node pool details'' e)) (\<lambda>p.
     tryE (ka_RetryNodes (mg_kube m) 60 (ka_ListNodes (mg_kube m))) (\<lambda>e. fail (Wrapf ''failed to list nodes'' e)) (\<lambda>kns.
       let nodes = attach_nodes (IsMaster np) (instanceIDMap kns) (pl_Nodes p) in
       ret (p\<lparr>pl_Current := int (length nodes), pl_Nodes := nodes\<rparr>)))"

section \<open>Changing nodes\<close>

definition updateNode :: "'w manager \<Rightarrow> node \<Rightarrow> (node \<Rightarrow> bool) \<Rightarrow> (kube_node \<Rightarrow> bool \<times> kube_node) \<Rightarrow> ('w, unit) io" where
  "updateNode m n needsUpdate patch =
     (if \<not> needsUpdate n then ret ()
      else ka_Retry (mg_kube m) maxConflictRetries
        (tryE (ka_GetNode (mg_kube m) (nd_Name n)) (\<lambda>e. fail (Permanent e)) (\<lambda>k.
           let (changed, k') = patch k in
           if changed
           then tryE (ka_UpdateNode (mg_kube m) k')
                  (\<lambda>e. if IsConflict e then fail e else fail (Permanent e)) ret
           else ret ())))"

definition annotate_patch :: "string \<Rightarrow> string \<Rightarrow> kube_node \<Rightarrow> bool \<times> kube_node" where
  "annotate_patch key value k =
     (m_get (kn_Annotations k) key \<noteq> Some value, k\<lparr>kn_Annotations := m_put key value (kn_Annotations k)\<rparr>)"

definition annotateNode :: "'w manager \<Rightarrow> node \<Rightarrow> string \<Rightarrow> string \<Rightarrow> ('w, unit) io" where
  "annotateNode m n key value =
     updateNode m n (\<lambda>n. m_get (nd_Annotations n) key \<noteq> Some value) (annotate_patch key value)"

definition label_patch :: "string \<Rightarrow> string \<Rightarrow> kube_node \<Rightarrow> bool \<times> kube_node" where
  "label_patch key value k =
     (m_get (kn_Labels k) key \<noteq> Some value, k\<lparr>kn_Labels := m_put key value (kn_Labels k)\<rparr>)"

definition labelNode :: "'w manager \<Rightarrow> node \<Rightarrow> string \<Rightarrow> string \<Rightarrow> ('w, unit) io" where
  "labelNode m n key value =
     updateNode m n (\<lambda>n. m_get (nd_Labels n) key \<noteq> Some value) (label_patch key value)"

definition cas_patch :: "string \<Rightarrow> string \<Rightarrow> string \<Rightarrow> kube_node \<Rightarrow> bool \<times> kube_node" where
  "cas_patch key expected new k =
     (case m_get (kn_Labels k) key of
        Some v \<Rightarrow> if v \<noteq> expected then (False, k)
                  else (True, k\<lparr>kn_Labels := m_put key new (kn_Labels k)\<rparr>)
      | None \<Rightarrow> (True, k\<lparr>kn_Labels := m_put key new (kn_Labels k)\<rparr>))"

definition compareAndSetNodeLabel :: "'w manager \<Rightarrow> node \<Rightarrow> string \<Rightarrow> string \<Rightarrow> string \<Rightarrow> ('w, unit) io" where
  "compareAndSetNodeLabel m n key expected new =
     updateNode m n (\<lambda>n. case m_get (nd_Labels n) key of None \<Rightarrow> True | Some v \<Rightarrow> v = expected)
       (cas_patch key expected new)"

fun updateTaint_loop :: "taint list \<Rightarrow> string \<Rightarrow> string \<Rightarrow> string \<Rightarrow> bool \<times> taint list" where
  "updateTaint_loop [] key value effect = (True, [\<lparr>tn_Key = key, tn_Value = value, tn_Effect = effect\<rparr>])"
| "updateTaint_loop (t # ts) key value effect =
     (if tn_Key t = key
      then (if tn_Value t = value \<and> tn_Effect t = effect then (False, t # ts)
            else (True, t\<lparr>tn_Value := value, tn_Effect := effect\<rparr> # ts))
      else (let (changed, ts') = updateTaint_loop ts key value effect in (changed, t # ts')))"

definition updateTaint :: "string \<Rightarrow> string \<Rightarrow> string \<Rightarrow> kube_node \<Rightarrow> bool \<times> kube_node" where
  "updateTaint key value effect k =
     (let (changed, ts) = updateTaint_loop (kn_Taints k) key value effect in (changed, k\<lparr>kn_Taints := ts\<rparr>))"

definition taintNode :: "'w manager \<Rightarrow> node \<Rightarrow> string \<Rightarrow> string \<Rightarrow> string \<Rightarrow> ('w, unit) io" where
  "taintNode m n key value effect =
     updateNode m n (\<lambda>n. \<not> list_ex (\<lambda>t. tn_Key t = key \<and> tn_Value t = value \<and> tn_Effect t = effect) (nd_Taints n))
       (updateTaint key value effect)"

definition MarkNodeForDecommission :: "'w manager \<Rightarrow> node \<Rightarrow> ('w, unit) io" where
  "MarkNodeForDecommission m n =
     bindE (taintNode m n decommissionPendingTaintKey decommissionPendingTaintValue
              (if mg_noScheduleTaint m \<and> \<not> nd_Master n then ''NoSchedule'' else ''PreferNoSchedule'')) (\<lambda>_.
     compareAndSetNodeLabel m n lifecycleStatusLabel lifecycleStatusReady lifecycleStatusDecommissionPending)"

definition AbortNodeDecommissioning :: "'w manager \<Rightarrow> node \<Rightarrow> ('w, unit) io" where
  "AbortNodeDecommissioning m n =
     compareAndSetNodeLabel m n lifecycleStatusLabel lifecycleStatusDecommissionPending lifecycleStatusReady"

definition DisableReplacementNodeProvisioning :: "'w manager \<Rightarrow> node \<Rightarrow> ('w, unit) io" where
  "DisableReplacementNodeProvisioning m n = labelNode m n clcReplacementStrategyLabel clcReplacementStrategyNone"

definition CordonNode :: "'w manager \<Rightarrow> node \<Rightarrow> ('w, unit) io" where
  "CordonNode m n = ka_CordonNode (mg_kube m) (nd_Name n)"

section \<open>Draining\<close>

definition timestampAnnotation :: "'w manager \<Rightarrow> node \<Rightarrow> string \<Rightarrow> int \<Rightarrow> int" where
  "timestampAnnotation m n annotation fallback =
     (case m_get (nd_Annotations n) annotation of
        None \<Rightarrow> fallback
      | Some ts \<Rightarrow> (case mg_parseTime m ts of None \<Rightarrow> fallback | Some v \<Rightarrow> v))"

definition podTerminated :: "pod \<Rightarrow> bool" where
  "podTerminated p \<longleftrightarrow> po_Phase p = ''Succeeded'' \<or> po_Phase p = ''Failed''"

fun first_ready :: "(string \<times> string) list \<Rightarrow> bool" where
  "first_ready [] = False"
| "first_ready ((ty, st) # cs) = (if ty = ''Ready'' then st = ''True'' else first_ready cs)"

definition podReady :: "pod \<Rightarrow> bool" where
  "podReady p = first_ready (po_Conditions p)"

definition isEvictablePod :: "pod \<Rightarrow> bool" where
  "isEvictablePod p \<longleftrightarrow> \<not> m_has (po_Annotations p) mirrorPodAnnotation
     \<and> \<not> (po_Phase p = ''Succeeded'' \<or> po_Phase p = ''Failed'')
     \<and> \<not> list_ex (\<lambda>k. k = ''DaemonSet'') (po_OwnerKinds p)"

definition evictablePods :: "'w manager \<Rightarrow> string \<Rightarrow> ('w, pod list) io" where
  "evictablePods m nodeName =
     bindE (ka_PodsOnNode (mg_kube m) nodeName) (\<lambda>pods. ret (filter isEvictablePod pods))"

definition isPDBViolation :: "go_error \<Rightarrow> bool" where
  "isPDBViolation e \<longleftrightarrow> IsTooManyRequests e \<or> contains_str (error_text e) multiplePDBsErrMsg"

definition ignoredSiblingPod :: "pod \<Rightarrow> bool" where
  "ignoredSiblingPod p \<longleftrightarrow> podTerminated p \<or> list_ex (\<lambda>k. k = ''Job'') (po_OwnerKinds p)"

fun sibling_selectors :: "pod \<Rightarrow> pdb list \<Rightarrow> (string gomap \<Rightarrow> bool) list" where
  "sibling_selectors p [] = []"
| "sibling_selectors p (b # bs) =
     (case pd_Selector b of
        None \<Rightarrow> sibling_selectors p bs
      | Some sel \<Rightarrow> if sel (po_Labels p) then sel # sibling_selectors p bs else sibling_selectors p bs)"

fun sibling_pods :: "pod \<Rightarrow> (string gomap \<Rightarrow> bool) list \<Rightarrow> pod list \<Rightarrow> pod list" where
  "sibling_pods p sels [] = []"
| "sibling_pods p sels (c # cs) =
     (if po_Name c = po_Name p then sibling_pods p sels cs
      else if ignoredSiblingPod c then sibling_pods p sels cs
      else if list_ex (\<lambda>sel. sel (po_Labels c)) sels then c # sibling_pods p sels cs
      else sibling_pods p sels cs)"

definition findSiblingPods :: "pod \<Rightarrow> pod list \<Rightarrow> pdb list \<Rightarrow> pod list" where
  "findSiblingPods p allPods allPdbs = sibling_pods p (sibling_selectors p allPdbs) allPods"

definition sibling_wait :: "drain_config \<Rightarrow> pod \<Rightarrow> int" where
  "sibling_wait dc p = (if podReady p then dc_MinHealthyPDBSiblingLifetime dc else dc_MinUnhealthyPDBSiblingLifetime dc)"

definition forceTerminationAllowed :: "'w manager \<Rightarrow> pod \<Rightarrow> int \<Rightarrow> int \<Rightarrow> int \<Rightarrow> ('w, bool) io" where
  "forceTerminationAllowed m p now drainStart lastForced =
     (let dc = mg_drainConfig m in
      if now < drainStart + dc_ForceEvictionGracePeriod dc then ret False
      else if now < lastForced + dc_ForceEvictionInterval dc then ret False
      else if now < po_Created p + dc_MinPodLifetime dc then ret False
      else bindE (ka_PodsByNamespace (mg_kube m) (po_Namespace p)) (\<lambda>allPods.
           bindE (ka_PDBsByNamespace (mg_kube m) (po_Namespace p)) (\<lambda>allPdbs.
           ret (list_all (\<lambda>s. \<not> now < po_Created s + sibling_wait dc s) (findSiblingPods p allPods allPdbs)))))"

definition waitForPodTermination :: "'w manager \<Rightarrow> pod \<Rightarrow> ('w, unit) io" where
  "waitForPodTermination m p =
     (case po_GracePeriod p of
        None \<Rightarrow> ret ()
      | Some secs \<Rightarrow>
          ka_RetryFor (mg_kube m) (secs * second + podEvictionHeadroom)
            (tryE (ka_GetPod (mg_kube m) (po_Namespace p) (po_Name p))
              (\<lambda>e. if IsNotFound e then ret () else fail e)
              (\<lambda>q. if po_UID q = po_UID p then fail (Errorf ''pod not terminated'') else ret ())))"

text \<open>The result of waiting is only logged.\<close>

definition wait_logged :: "'w manager \<Rightarrow> pod \<Rightarrow> ('w, unit) io" where
  "wait_logged m p = tryE (waitForPodTermination m p) (\<lambda>_. ret ()) ret"

definition evictPod :: "'w manager \<Rightarrow> pod \<Rightarrow> ('w, unit) io" where
  "evictPod m p =
     tryE (ka_GetPod (mg_kube m) (po_Namespace p) (po_Name p))
       (\<lambda>e. if IsNotFound e then ret () else fail e)
       (\<lambda>updated.
          if podTerminated updated then ret ()
          else if po_NodeName updated \<noteq> po_NodeName p then ret ()
          else tryE (ka_Evict (mg_kube m) p) (\<lambda>e. if IsNotFound e then ret () else fail e)
                 (\<lambda>_. wait_logged m p))"

definition deletePod :: "'w manager \<Rightarrow> pod \<Rightarrow> ('w, unit) io" where
  "deletePod m p =
     tryE (ka_DeletePod (mg_kube m) p) (\<lambda>e. if IsNotFound e then ret () else fail e) (\<lambda>_. wait_logged m p)"

text \<open>
  The goroutines of the error group, in the order of the pods: all of them run, the number of
  evicted pods and the first error are the result.
\<close>

fun evict_all :: "'w manager \<Rightarrow> pod list \<Rightarrow> nat \<Rightarrow> go_error option \<Rightarrow> ('w, bool \<times> go_error option) io" where
  "evict_all m [] evicted err = ret (evicted > 0, err)"
| "evict_all m (p # ps) evicted err =
     tryE (evictPod m p)
       (\<lambda>e. if isPDBViolation e then evict_all m ps evicted err
            else evict_all m ps evicted (if err = None then Some e else err))
       (\<lambda>_. evict_all m ps (Suc evicted) err)"

definition evictParallel :: "'w manager \<Rightarrow> pod list \<Rightarrow> ('w, bool \<times> go_error option) io" where
  "evictParallel m pods = evict_all m pods 0 None"

fun evictOrForceTerminatePod :: "'w manager \<Rightarrow> pod list \<Rightarrow> int \<Rightarrow> int \<Rightarrow> ('w, bool) io" where
  "evictOrForceTerminatePod m [] drainStart lastForced = ret False"
| "evictOrForceTerminatePod m (p # ps) drainStart lastForced =
     bindE (check (en_err (mg_env m))) (\<lambda>_.
     tryE (evictPod m p)
       (\<lambda>e. if \<not> isPDBViolation e then fail e
            else tryE (\<lambda>w. forceTerminationAllowed m p (en_now (mg_env m) w) drainStart lastForced w)
                   (\<lambda>_. evictOrForceTerminatePod m ps drainStart lastForced)
                   (\<lambda>allowed. if allowed then bindE (deletePod m p) (\<lambda>_. ret True)
                              else evictOrForceTerminatePod m ps drainStart lastForced))
       (\<lambda>_. ret False))"

fun drain_slow :: "nat \<Rightarrow> 'w manager \<Rightarrow> node \<Rightarrow> int \<Rightarrow> int \<Rightarrow> ('w, unit) io" where
  "drain_slow 0 m n drainStart lastForced = (\<lambda>w. (OutOfFuel, w))"
| "drain_slow (Suc k) m n drainStart lastForced =
     bindE (check (en_err (mg_env m))) (\<lambda>_.
     bindE (evictablePods m (nd_Name n)) (\<lambda>pods.
       if pods = [] then ret ()
       else bindE (evictOrForceTerminatePod m pods drainStart lastForced) (\<lambda>forceEvicted.
         if forceEvicted
         then (\<lambda>w. let now = en_now (mg_env m) w in
                bindE (annotateNode m n lastForcedDrainAnnotation (mg_formatTime m now)) (\<lambda>_.
                bindE (sleep (mg_env m) (dc_PollInterval (mg_drainConfig m))) (\<lambda>_.
                drain_slow k m n drainStart now)) w)
         else bindE (sleep (mg_env m) (dc_PollInterval (mg_drainConfig m))) (\<lambda>_.
                drain_slow k m n drainStart lastForced))))"

text \<open>\<open>Ret True\<close>: the node is drained; \<open>Ret False\<close>: nothing could be evicted, go on slowly.\<close>

fun drain_fast :: "nat \<Rightarrow> 'w manager \<Rightarrow> node \<Rightarrow> ('w, bool) io" where
  "drain_fast 0 m n = (\<lambda>w. (OutOfFuel, w))"
| "drain_fast (Suc k) m n =
     bindE (check (en_err (mg_env m))) (\<lambda>_.
     bindE (evictablePods m (nd_Name n)) (\<lambda>pods.
       if pods = [] then ret True
       else bindE (evictParallel m pods) (\<lambda>(evicted, err).
         case err of
           Some e \<Rightarrow> fail e
         | None \<Rightarrow> bindE (check (en_err (mg_env m))) (\<lambda>_.
             if \<not> evicted then ret False
             else bindE (sleep (mg_env m) (dc_PollInterval (mg_drainConfig m))) (\<lambda>_. drain_fast k m n)))))"

definition drain :: "nat \<Rightarrow> 'w manager \<Rightarrow> node \<Rightarrow> ('w, unit) io" where
  "drain fuel m n =
     bindE (labelNode m n lifecycleStatusLabel lifecycleStatusDraining) (\<lambda>_ w.
       let drainStart = timestampAnnotation m n drainStartAnnotation (en_now (mg_env m) w) in
       bindE (annotateNode m n drainStartAnnotation (mg_formatTime m drainStart)) (\<lambda>_.
       bindE (drain_fast fuel m n) (\<lambda>drained.
         if drained then ret ()
         else drain_slow fuel m n drainStart (timestampAnnotation m n lastForcedDrainAnnotation 0))) w)"

section \<open>Terminating and scaling\<close>

definition TerminateNode :: "nat \<Rightarrow> 'w manager \<Rightarrow> node_pool \<Rightarrow> node \<Rightarrow> bool \<Rightarrow> ('w, unit) io" where
  "TerminateNode fuel m np n decrementDesired =
     bindE (drain fuel m n) (\<lambda>_.
     bindE (check (en_err (mg_env m))) (\<lambda>_.
     bk_Terminate (mg_backend m) np n decrementDesired))"

fun wait_desired :: "nat \<Rightarrow> 'w env \<Rightarrow> (node_pool \<Rightarrow> ('w, pool) io) \<Rightarrow> node_pool \<Rightarrow> ('w, pool) io" where
  "wait_desired 0 e getPool np = (\<lambda>w. (OutOfFuel, w))"
| "wait_desired (Suc k) e getPool np =
     bindE (getPool np) (\<lambda>p.
       if int (length (ReadyNodes p)) = pl_Desired p then ret p
       else if IsSpot np then ret p
       else bindE (wait e operationCheckInterval) (\<lambda>_. wait_desired k e getPool np))"

text \<open>The context is limited to \<open>operationMaxTimeout\<close> from the start of the call.\<close>

definition WaitForDesiredNodes :: "nat \<Rightarrow> 'w env \<Rightarrow> (node_pool \<Rightarrow> ('w, pool) io) \<Rightarrow> node_pool \<Rightarrow> ('w, pool) io" where
  "WaitForDesiredNodes fuel e getPool np w =
     wait_desired fuel (with_deadline (en_now e w + operationMaxTimeout) e) getPool np w"

definition filterNodesToTerminate :: "node list \<Rightarrow> node list" where
  "filterNodesToTerminate nodes = filter nd_Cordoned nodes"

fun scale_loop :: "nat \<Rightarrow> 'w manager \<Rightarrow> node_pool \<Rightarrow> int \<Rightarrow> ('w, unit) io" where
  "scale_loop 0 m np replicas = (\<lambda>w. (OutOfFuel, w))"
| "scale_loop (Suc k) m np replicas =
     bindE (WaitForDesiredNodes (Suc k) (mg_env m) (GetPool m) np) (\<lambda>p.
       if pl_Current p > replicas \<and> replicas \<noteq> 0
       then fail (Errorf (''refusing to scale down: current '' @ int_str (pl_Current p) @ '', desired ''
                   @ int_str replicas @ '' nodes''))
       else bindE (if replicas = 0 then each (MarkNodeForDecommission m) (pl_Nodes p) else ret ()) (\<lambda>_.
         if pl_Current p < replicas then bk_Scale (mg_backend m) np replicas
         else if pl_Current p > replicas
         then (case pl_Nodes p of
                 [] \<Rightarrow> fail (Errorf ''expected at least 1 node in the node pool, found 0'')
               | n0 # _ \<Rightarrow>
                   (let n = (case filterNodesToTerminate (pl_Nodes p) of c # _ \<Rightarrow> c | [] \<Rightarrow> n0) in
                    bindE (CordonNode m n) (\<lambda>_.
                    bindE (TerminateNode (Suc k) m np n True) (\<lambda>_.
                    scale_loop k m np replicas))))
         else ret ()))"

definition ScalePool :: "nat \<Rightarrow> 'w manager \<Rightarrow> node_pool \<Rightarrow> int \<Rightarrow> ('w, unit) io" where
  "ScalePool fuel m np replicas =
     bindE (if replicas = 0 then bk_MarkForDecommission (mg_backend m) np else ret ()) (\<lambda>_.
     scale_loop fuel m np replicas)"

definition kubernetes_manager :: "nat \<Rightarrow> 'w manager \<Rightarrow> 'w pool_manager" where
  "kubernetes_manager fuel m =
     \<lparr>pm_GetPool = GetPool m, pm_MarkNodeForDecommission = MarkNodeForDecommission m,
      pm_AbortNodeDecommissioning = AbortNodeDecommissioning m, pm_ScalePool = ScalePool fuel m,
      pm_TerminateNode = TerminateNode fuel m,
      pm_MarkPoolForDecommission = bk_MarkForDecommission (mg_backend m),
      pm_DisableReplacementNodeProvisioning = DisableReplacementNodeProvisioning m,
      pm_CordonNode = CordonNode m\<rparr>"

section \<open>A small instance\<close>

definition sample_env :: "int env" where
  "sample_env = \<lparr>en_now = (\<lambda>w. w), en_sleep = (\<lambda>d w. w + d), en_err = (\<lambda>_. None)\<rparr>"

definition empty_pool :: "int \<Rightarrow> pool" where
  "empty_pool desired = \<lparr>pl_Min = 0, pl_Desired = desired, pl_Current = 0, pl_Max = 5, pl_Generation = 1, pl_Nodes = []\<rparr>"

definition sample_pool :: node_pool where
  "sample_pool = \<lparr>np_DiscountStrategy = ''none'', np_InstanceTypes = [''m5.large''], np_Name = ''p'',
     np_Profile = ''worker'', np_MinSize = 0, np_MaxSize = 5, np_ConfigItems = [], np_InstanceType = ''m5.large''\<rparr>"

text \<open>A small cluster: the world is the time; \<open>pods\<close> run on every node and \<open>evict\<close> is the answer to evictions.\<close>

definition sample_kube :: "pod list \<Rightarrow> unit outcome \<Rightarrow> int kube_api" where
  "sample_kube pods evict = \<lparr>ka_ListNodes = ret [], ka_GetNode = (\<lambda>n. fail (StatusError ''NotFound'' n)),
     ka_UpdateNode = (\<lambda>_. ret ()), ka_CordonNode = (\<lambda>_. ret ()), ka_PodsOnNode = (\<lambda>_. ret pods),
     ka_PodsByNamespace = (\<lambda>_. ret pods), ka_PDBsByNamespace = (\<lambda>_. ret []),
     ka_GetPod = (\<lambda>ns n. ret (hd pods)), ka_Evict = (\<lambda>_ w. (evict, w)), ka_DeletePod = (\<lambda>_. ret ()),
     ka_RetryNodes = (\<lambda>_ op. op), ka_Retry = (\<lambda>_ op. ret ()), ka_RetryFor = (\<lambda>_ op. op)\<rparr>"

definition sample_backend :: "int backend" where
  "sample_backend = \<lparr>bk_Get = (\<lambda>_. ret (empty_pool 0)), bk_Scale = (\<lambda>_ _. ret ()),
     bk_MarkForDecommission = (\<lambda>_. ret ()), bk_Terminate = (\<lambda>_ _ _. ret ())\<rparr>"

definition sample_manager :: "pod list \<Rightarrow> unit outcome \<Rightarrow> int manager" where
  "sample_manager pods evict = \<lparr>mg_kube = sample_kube pods evict, mg_backend = sample_backend, mg_env = sample_env,
     mg_drainConfig = \<lparr>dc_ForceEvictionGracePeriod = 10, dc_MinPodLifetime = 10, dc_MinHealthyPDBSiblingLifetime = 10,
       dc_MinUnhealthyPDBSiblingLifetime = 10, dc_ForceEvictionInterval = 10, dc_PollInterval = 1\<rparr>,
     mg_noScheduleTaint = False, mg_formatTime = int_str, mg_parseTime = (\<lambda>_. None)\<rparr>"

definition sample_node :: node where
  "sample_node = \<lparr>nd_Name = ''n1'', nd_Annotations = [], nd_Labels = [], nd_Taints = [], nd_Cordoned = True,
     nd_ProviderID = ''i-1'', nd_FailureDomain = ''a'', nd_Generation = 0, nd_VolumesAttached = False,
     nd_Ready = True, nd_Master = False\<rparr>"

definition sample_pod :: pod where
  "sample_pod = \<lparr>po_Namespace = ''ns'', po_Name = ''pod'', po_UID = ''u'', po_NodeName = ''n1'', po_Labels = [],
     po_Annotations = [], po_OwnerKinds = [], po_Phase = ''Running'', po_Conditions = [], po_Created = 0,
     po_GracePeriod = None\<rparr>"

lemmas sample_defs = sample_env_def sample_kube_def sample_backend_def sample_manager_def sample_node_def
  sample_pod_def

section \<open>Properties of draining\<close>

lemma drain_fast_True:
  "drain_fast k m n w = (Ret True, w') \<Longrightarrow> \<exists>w0. evictablePods m (nd_Name n) w0 = (Ret [], w')"
proof (induction k arbitrary: w)
  case 0
  then show ?case by simp
next
  case (Suc k)
  then show ?case by (fastforce split: if_splits option.splits prod.splits simp: case_prod_beta)
qed

lemma drain_slow_Ret:
  "drain_slow k m n ds lf w = (Ret (), w') \<Longrightarrow> \<exists>w0. evictablePods m (nd_Name n) w0 = (Ret [], w')"
proof (induction k arbitrary: w lf)
  case 0
  then show ?case by simp
next
  case (Suc k)
  then show ?case by (fastforce split: if_splits simp: Let_def)
qed

lemma drain_Ret:
  "drain k m n w = (Ret (), w') \<Longrightarrow> \<exists>w0. evictablePods m (nd_Name n) w0 = (Ret [], w')"
  by (auto simp: drain_def Let_def split: if_splits dest: drain_fast_True drain_slow_Ret)

text \<open>
  What the backend of the manager cannot influence: nothing on the way to a drained node calls it.
\<close>

lemma drain_steps_backend:
  "labelNode (m\<lparr>mg_backend := b\<rparr>) n key value = labelNode m n key value"
  "annotateNode (m\<lparr>mg_backend := b\<rparr>) n key value = annotateNode m n key value"
  "timestampAnnotation (m\<lparr>mg_backend := b\<rparr>) n key t = timestampAnnotation m n key t"
  "evictablePods (m\<lparr>mg_backend := b\<rparr>) name = evictablePods m name"
  "evictPod (m\<lparr>mg_backend := b\<rparr>) p = evictPod m p"
  "deletePod (m\<lparr>mg_backend := b\<rparr>) p = deletePod m p"
  "forceTerminationAllowed (m\<lparr>mg_backend := b\<rparr>) p now ds lf = forceTerminationAllowed m p now ds lf"
  by (simp_all add: labelNode_def annotateNode_def timestampAnnotation_def evictablePods_def evictPod_def deletePod_def
      wait_logged_def waitForPodTermination_def forceTerminationAllowed_def updateNode_def
      cong: if_cong option.case_cong)

lemma evict_all_backend:
  "evict_all (m\<lparr>mg_backend := b\<rparr>) ps k err = evict_all m ps k err"
  by (induction ps arbitrary: k err) (simp_all add: drain_steps_backend cong: if_cong)

lemma evictOrForceTerminatePod_backend:
  "evictOrForceTerminatePod (m\<lparr>mg_backend := b\<rparr>) ps ds lf = evictOrForceTerminatePod m ps ds lf"
  by (induction ps) (simp_all add: drain_steps_backend cong: if_cong)

lemma drain_fast_backend: "drain_fast k (m\<lparr>mg_backend := b\<rparr>) n = drain_fast k m n"
  by (induction k) (simp_all add: drain_steps_backend evictParallel_def evict_all_backend cong: if_cong)

lemma drain_slow_backend: "drain_slow k (m\<lparr>mg_backend := b\<rparr>) n ds lf = drain_slow k m n ds lf"
  by (induction k arbitrary: lf) (simp_all add: drain_steps_backend evictOrForceTerminatePod_backend Let_def cong: if_cong)

lemma drain_backend: "drain fuel (m\<lparr>mg_backend := b\<rparr>) n = drain fuel m n"
  by (simp add: drain_def drain_steps_backend drain_fast_backend drain_slow_backend Let_def cong: if_cong)

text \<open>
  Claim C8. The backend is asked to terminate a node only after the node was drained. Either the
  drain ends with success, at its end the list of evictable pods on the node has just been
  read and was empty, the context is not done, and then the call is exactly the termination by the
  backend; or the backend is not called at all: the call has the same result and the same effects
  with any other backend, and it does not succeed.
\<close>

theorem TerminateNode_after_drain:
  "(\<exists>w0 w1. drain fuel m n w = (Ret (), w1) \<and> evictablePods m (nd_Name n) w0 = (Ret [], w1)
       \<and> en_err (mg_env m) w1 = None
       \<and> TerminateNode fuel m np n dec w = bk_Terminate (mg_backend m) np n dec w1)
   \<or> (\<forall>b. TerminateNode fuel (m\<lparr>mg_backend := b\<rparr>) np n dec w = TerminateNode fuel m np n dec w)
     \<and> (\<forall>w'. TerminateNode fuel m np n dec w \<noteq> (Ret (), w'))"
proof (cases "\<exists>w1. drain fuel m n w = (Ret (), w1) \<and> en_err (mg_env m) w1 = None")
  case True
  then obtain w1 where run: "drain fuel m n w = (Ret (), w1)" "en_err (mg_env m) w1 = None" by blast
  from drain_Ret [OF run(1)] obtain w0 where "evictablePods m (nd_Name n) w0 = (Ret [], w1)" by blast
  with run show ?thesis by (auto simp: TerminateNode_def bindE_def check_def ret_def)
next
  case False
  then show ?thesis
    by (auto simp: TerminateNode_def drain_backend bindE_def check_def fail_def split: prod.splits outcome.splits option.splits)
qed

theorem TerminateNode_after_drain_witness:
  "\<exists>w1. evictablePods (sample_manager [] (Ret ())) (nd_Name sample_node) w1 = (Ret [], w1)
     \<and> TerminateNode 1 (sample_manager [] (Ret ())) sample_pool sample_node True 100
       = bk_Terminate sample_backend sample_pool sample_node True w1"
proof -
  let ?m = "sample_manager [] (Ret ())"
  have run: "TerminateNode 1 ?m sample_pool sample_node True 100 = (Ret (), 100)"
    by (simp add: TerminateNode_def drain_def labelNode_def annotateNode_def updateNode_def evictablePods_def
        check_def ret_def bindE_def sample_defs)
  have pods: "evictablePods ?m (nd_Name sample_node) w = (Ret [], w)" for w
    by (simp add: evictablePods_def bindE_def ret_def sample_defs)
  have "mg_backend ?m = sample_backend" by (simp add: sample_manager_def)
  with TerminateNode_after_drain [of 1 ?m sample_node 100 sample_pool True] run pods
  show ?thesis by auto
qed

lemma forceTerminationAllowed_True:
  assumes "forceTerminationAllowed m p now ds lf w = (Ret True, w')"
  shows "ds + dc_ForceEvictionGracePeriod (mg_drainConfig m) \<le> now
    \<and> lf + dc_ForceEvictionInterval (mg_drainConfig m) \<le> now
    \<and> po_Created p + dc_MinPodLifetime (mg_drainConfig m) \<le> now
    \<and> (\<exists>pods pdbs w1. ka_PodsByNamespace (mg_kube m) (po_Namespace p) w = (Ret pods, w1)
        \<and> ka_PDBsByNamespace (mg_kube m) (po_Namespace p) w1 = (Ret pdbs, w')
        \<and> (\<forall>s \<in> set (findSiblingPods p pods pdbs).
             po_Created s + (if podReady s then dc_MinHealthyPDBSiblingLifetime (mg_drainConfig m)
               else dc_MinUnhealthyPDBSiblingLifetime (mg_drainConfig m)) \<le> now))"
  using assms
  by (auto simp: forceTerminationAllowed_def Let_def list_all_iff sibling_wait_def not_less split: if_splits)


lemma evictPod_delete:
  "evictPod (m\<lparr>mg_kube := (mg_kube m)\<lparr>ka_DeletePod := d\<rparr>\<rparr>) p = evictPod m p"
  by (simp add: evictPod_def wait_logged_def waitForPodTermination_def cong: if_cong option.case_cong)

lemma forceTerminationAllowed_delete:
  "forceTerminationAllowed (m\<lparr>mg_kube := (mg_kube m)\<lparr>ka_DeletePod := d\<rparr>\<rparr>) p now ds lf = forceTerminationAllowed m p now ds lf"
  by (simp add: forceTerminationAllowed_def Let_def cong: if_cong)

definition deletes_forced :: "'w manager \<Rightarrow> pod list \<Rightarrow> int \<Rightarrow> int \<Rightarrow> 'w \<Rightarrow> bool" where
  "deletes_forced m ps ds lf w \<longleftrightarrow> (\<exists>p \<in> set ps. \<exists>w1 e w2 pods w3 pdbs w4.
       evictPod m p w1 = (Fail e, w2) \<and> isPDBViolation e
     \<and> ds + dc_ForceEvictionGracePeriod (mg_drainConfig m) \<le> en_now (mg_env m) w2
     \<and> lf + dc_ForceEvictionInterval (mg_drainConfig m) \<le> en_now (mg_env m) w2
     \<and> po_Created p + dc_MinPodLifetime (mg_drainConfig m) \<le> en_now (mg_env m) w2
     \<and> ka_PodsByNamespace (mg_kube m) (po_Namespace p) w2 = (Ret pods, w3)
     \<and> ka_PDBsByNamespace (mg_kube m) (po_Namespace p) w3 = (Ret pdbs, w4)
     \<and> (\<forall>s \<in> set (findSiblingPods p pods pdbs).
          po_Created s + (if podReady s then dc_MinHealthyPDBSiblingLifetime (mg_drainConfig m)
            else dc_MinUnhealthyPDBSiblingLifetime (mg_drainConfig m)) \<le> en_now (mg_env m) w2)
     \<and> evictOrForceTerminatePod m ps ds lf w = bindE (deletePod m p) (\<lambda>_. ret True) w4)"

definition deletes_nothing :: "'w manager \<Rightarrow> pod list \<Rightarrow> int \<Rightarrow> int \<Rightarrow> 'w \<Rightarrow> bool" where
  "deletes_nothing m ps ds lf w \<longleftrightarrow>
     (\<forall>d. evictOrForceTerminatePod (m\<lparr>mg_kube := (mg_kube m)\<lparr>ka_DeletePod := d\<rparr>\<rparr>) ps ds lf w
        = evictOrForceTerminatePod m ps ds lf w)
   \<and> (\<forall>w'. evictOrForceTerminatePod m ps ds lf w \<noteq> (Ret True, w'))"

text \<open>Skipping a pod leaves the verdict to the rest of the list; an allowed pod is the one that is deleted.\<close>

lemma forced_skip:
  assumes skip: "\<And>d. evictOrForceTerminatePod (m\<lparr>mg_kube := (mg_kube m)\<lparr>ka_DeletePod := d\<rparr>\<rparr>) (p # ps) ds lf w
      = evictOrForceTerminatePod (m\<lparr>mg_kube := (mg_kube m)\<lparr>ka_DeletePod := d\<rparr>\<rparr>) ps ds lf w'"
    and rest: "deletes_forced m ps ds lf w' \<or> deletes_nothing m ps ds lf w'"
  shows "deletes_forced m (p # ps) ds lf w \<or> deletes_nothing m (p # ps) ds lf w"
proof -
  from skip [of "ka_DeletePod (mg_kube m)"]
  have same: "evictOrForceTerminatePod m (p # ps) ds lf w = evictOrForceTerminatePod m ps ds lf w'" by simp
  from rest show ?thesis
  proof
    assume "deletes_forced m ps ds lf w'"
    then show ?thesis unfolding deletes_forced_def same by (meson list.set_intros(2))
  next
    assume "deletes_nothing m ps ds lf w'"
    then show ?thesis unfolding deletes_nothing_def skip same by blast
  qed
qed

lemma forced_now:
  assumes "evictPod m p w = (Fail e, w2)" "isPDBViolation e" "en_err (mg_env m) w = None"
    and allowed: "forceTerminationAllowed m p (en_now (mg_env m) w2) ds lf w2 = (Ret True, w4)"
  shows "deletes_forced m (p # ps) ds lf w"
proof -
  have run: "evictOrForceTerminatePod m (p # ps) ds lf w = bindE (deletePod m p) (\<lambda>_. ret True) w4"
    using assms by (simp add: bindE_def check_def ret_def tryE_def)
  from forceTerminationAllowed_True [OF allowed] obtain pods pdbs w3 where limits:
      "ds + dc_ForceEvictionGracePeriod (mg_drainConfig m) \<le> en_now (mg_env m) w2"
      "lf + dc_ForceEvictionInterval (mg_drainConfig m) \<le> en_now (mg_env m) w2"
      "po_Created p + dc_MinPodLifetime (mg_drainConfig m) \<le> en_now (mg_env m) w2"
      "ka_PodsByNamespace (mg_kube m) (po_Namespace p) w2 = (Ret pods, w3)"
      "ka_PDBsByNamespace (mg_kube m) (po_Namespace p) w3 = (Ret pdbs, w4)"
      "\<forall>s \<in> set (findSiblingPods p pods pdbs).
         po_Created s + (if podReady s then dc_MinHealthyPDBSiblingLifetime (mg_drainConfig m)
           else dc_MinUnhealthyPDBSiblingLifetime (mg_drainConfig m)) \<le> en_now (mg_env m) w2" by blast
  show ?thesis
    unfolding deletes_forced_def run
    by (intro bexI [of _ p] exI conjI) (rule assms(1,2) limits refl list.set_intros(1))+
qed

lemmas evict_eval = bindE_def check_def ret_def fail_def tryE_def evictPod_delete forceTerminationAllowed_delete

lemma forced_or_nothing: "deletes_forced m ps ds lf w \<or> deletes_nothing m ps ds lf w"
proof (induction ps arbitrary: w)
  case Nil
  then show ?case by (simp add: deletes_nothing_def ret_def)
next
  case (Cons p ps)
  obtain r w2 where evict: "evictPod m p w = (r, w2)" by fastforce
  consider (stop) "en_err (mg_env m) w \<noteq> None \<or> \<not> (\<exists>e. r = Fail e \<and> isPDBViolation e)"
    | (refused) e where "en_err (mg_env m) w = None" "r = Fail e" "isPDBViolation e" by blast
  then show ?case
  proof cases
    case stop
    with evict show ?thesis
      by (cases r; cases "en_err (mg_env m) w") (auto simp: deletes_nothing_def evict_eval)
  next
    case refused
    obtain a w4 where asked: "forceTerminationAllowed m p (en_now (mg_env m) w2) ds lf w2 = (a, w4)" by fastforce
    show ?thesis
    proof (cases a)
      case (Ret allowed)
      show ?thesis
      proof (cases allowed)
        case True
        with forced_now refused evict asked Ret show ?thesis by metis
      next
        case False
        with refused evict asked Ret show ?thesis
          by (intro forced_skip [OF _ Cons.IH [of w4]]) (simp add: evict_eval)
      qed
    next
      case (Fail x)
      with refused evict asked show ?thesis
        by (intro forced_skip [OF _ Cons.IH [of w4]]) (simp add: evict_eval)
    qed (use refused evict asked in \<open>simp_all add: deletes_nothing_def evict_eval\<close>)
  qed
qed

text \<open>
  Claim C32. Evicting the pods of a node deletes a pod by force only under all its guards. Either
  one of the pods is deleted, and that is the last thing that happens: its eviction was refused
  because of a disruption budget, and at that time the grace period of the drain was over, the
  last forced deletion was long enough ago, the pod had reached its minimum age, and so had every
  pod that shares with it a disruption budget of its namespace, as both were then read from the API,
  healthy and unhealthy ones by their own limit. Or no pod is deleted: the result and the effects
  are the same with any other deletion, and no forced deletion is reported.
\<close>

theorem force_termination_guarded:
  "(\<exists>p \<in> set ps. \<exists>w1 e w2 pods w3 pdbs w4.
       evictPod m p w1 = (Fail e, w2) \<and> isPDBViolation e
     \<and> ds + dc_ForceEvictionGracePeriod (mg_drainConfig m) \<le> en_now (mg_env m) w2
     \<and> lf + dc_ForceEvictionInterval (mg_drainConfig m) \<le> en_now (mg_env m) w2
     \<and> po_Created p + dc_MinPodLifetime (mg_drainConfig m) \<le> en_now (mg_env m) w2
     \<and> ka_PodsByNamespace (mg_kube m) (po_Namespace p) w2 = (Ret pods, w3)
     \<and> ka_PDBsByNamespace (mg_kube m) (po_Namespace p) w3 = (Ret pdbs, w4)
     \<and> (\<forall>s \<in> set (findSiblingPods p pods pdbs).
          po_Created s + (if podReady s then dc_MinHealthyPDBSiblingLifetime (mg_drainConfig m)
            else dc_MinUnhealthyPDBSiblingLifetime (mg_drainConfig m)) \<le> en_now (mg_env m) w2)
     \<and> evictOrForceTerminatePod m ps ds lf w = bindE (deletePod m p) (\<lambda>_. ret True) w4)
   \<or> (\<forall>d. evictOrForceTerminatePod (m\<lparr>mg_kube := (mg_kube m)\<lparr>ka_DeletePod := d\<rparr>\<rparr>) ps ds lf w
        = evictOrForceTerminatePod m ps ds lf w)
     \<and> (\<forall>w'. evictOrForceTerminatePod m ps ds lf w \<noteq> (Ret True, w'))"
  using forced_or_nothing [of m ps ds lf w] unfolding deletes_forced_def deletes_nothing_def .

theorem force_termination_guarded_witness:
  "\<exists>w2 w4. dc_ForceEvictionGracePeriod (mg_drainConfig (sample_manager [sample_pod] (Fail (StatusError ''TooManyRequests'' []))))
       \<le> en_now sample_env w2
     \<and> ka_PDBsByNamespace (sample_kube [sample_pod] (Fail (StatusError ''TooManyRequests'' []))) ''ns'' w4 = (Ret [], w4)
     \<and> evictOrForceTerminatePod (sample_manager [sample_pod] (Fail (StatusError ''TooManyRequests'' []))) [sample_pod] 0 0 100
       = bindE (deletePod (sample_manager [sample_pod] (Fail (StatusError ''TooManyRequests'' []))) sample_pod) (\<lambda>_. ret True) w4"
proof -
  let ?m = "sample_manager [sample_pod] (Fail (StatusError ''TooManyRequests'' []))"
  have run: "evictOrForceTerminatePod ?m [sample_pod] 0 0 100 = (Ret True, 100)"
    by (simp add: evictPod_def tryE_def check_def ret_def fail_def bindE_def isPDBViolation_def IsTooManyRequests_def
        IsNotFound_def forceTerminationAllowed_def findSiblingPods_def deletePod_def wait_logged_def podTerminated_def
        waitForPodTermination_def Let_def sample_defs)
  have same: "en_now (mg_env ?m) = en_now sample_env" by (simp add: sample_manager_def)
  have none: "ka_PDBsByNamespace (sample_kube [sample_pod] (Fail (StatusError ''TooManyRequests'' []))) ''ns'' w = (Ret [], w)" for w
    by (simp add: sample_kube_def ret_def)
  from force_termination_guarded [of "[sample_pod]" ?m 0 0 100] run same none show ?thesis by auto
qed

interpretation desired: polling e operationCheckInterval
  "look_at (getPool np) (\<lambda>p. if int (length (ReadyNodes p)) = pl_Desired p \<or> IsSpot np then Some (Ret p) else None)"
  "\<lambda>err. err" "\<lambda>k. wait_desired k e getPool np" for e getPool np
  by unfold_locales
    (auto simp: look_at_def bindE_def tryE_def ret_def fail_def wait_def check_def split: prod.splits outcome.splits option.splits)

text \<open>
  Waiting for the desired number of nodes ends after at most sixty looks at the pool: with
  that many iterations it returns a pool whose ready nodes match the desired number (or a spot
  pool), or an error, provided time does not run backwards and looking at the pool ends.
\<close>

theorem WaitForDesiredNodes_ends:
  assumes "\<And>w. en_now e w \<le> en_now e (snd (getPool np w))"
    and "\<And>w. en_now e w + operationCheckInterval \<le> en_now e (en_sleep e operationCheckInterval w)"
    and "\<And>w. fst (getPool np w) \<noteq> OutOfFuel"
  shows "case WaitForDesiredNodes 60 e getPool np w of
      (OutOfFuel, w') \<Rightarrow> False
    | (Ret p, w') \<Rightarrow> int (length (ReadyNodes p)) = pl_Desired p \<or> IsSpot np
    | _ \<Rightarrow> True"
proof -
  have "en_now e w + operationMaxTimeout \<le> en_now e w + int 60 * operationCheckInterval"
    by (simp add: operationMaxTimeout_def operationCheckInterval_def minute_def)
  then have "fst (WaitForDesiredNodes 60 e getPool np w) \<noteq> OutOfFuel"
    unfolding WaitForDesiredNodes_def using assms
    by (intro desired.ends [where t = "en_now e w + operationMaxTimeout"])
      (auto simp: with_deadline_due look_at_total split: if_splits)
  then show ?thesis
    by (auto simp: WaitForDesiredNodes_def split: prod.splits outcome.splits if_splits
        dest!: desired.returns look_at_leaves)
qed

theorem WaitForDesiredNodes_ends_witness:
  "case WaitForDesiredNodes 60 sample_env (\<lambda>_. ret (empty_pool 1)) sample_pool 0 of
      (OutOfFuel, w') \<Rightarrow> False
    | (Ret p, w') \<Rightarrow> int (length (ReadyNodes p)) = pl_Desired p \<or> IsSpot sample_pool
    | _ \<Rightarrow> True"
  by (rule WaitForDesiredNodes_ends) (simp_all add: sample_env_def ret_def)

section \<open>Properties of taints\<close>

lemma updateTaint_loop_spec:
  "updateTaint_loop ts key value effect = (changed, ts') \<Longrightarrow>
     (\<exists>t \<in> set ts'. tn_Key t = key \<and> tn_Value t = value \<and> tn_Effect t = effect)
   \<and> filter (\<lambda>t. tn_Key t \<noteq> key) ts' = filter (\<lambda>t. tn_Key t \<noteq> key) ts
   \<and> (changed \<longleftrightarrow> ts' \<noteq> ts)
   \<and> (distinct (map tn_Key ts) \<longrightarrow> distinct (map tn_Key ts'))
   \<and> set (map tn_Key ts') = insert key (set (map tn_Key ts))"
proof (induction ts arbitrary: changed ts')
  case Nil
  then show ?case by auto
next
  case (Cons t ts)
  show ?case
  proof (cases "tn_Key t = key")
    case True
    then show ?thesis using Cons.prems by (cases t) (auto split: if_splits)
  next
    case False
    then obtain us where us: "updateTaint_loop ts key value effect = (changed, us)" "ts' = t # us"
      using Cons.prems by (auto split: prod.splits)
    from Cons.IH [OF us(1)] False us(2) show ?thesis by auto
  qed
qed

text \<open>
  Tainting a node leaves exactly one kind of taint for the key: afterwards the node has the
  taint with the wanted value and effect, the taints with other keys are the same in the same order,
  keys stay distinct, and a change is reported exactly when the list of taints differs.
\<close>

theorem updateTaint_spec:
  "case updateTaint key value effect k of (changed, k') \<Rightarrow>
     (\<exists>t \<in> set (kn_Taints k'). tn_Key t = key \<and> tn_Value t = value \<and> tn_Effect t = effect)
   \<and> filter (\<lambda>t. tn_Key t \<noteq> key) (kn_Taints k') = filter (\<lambda>t. tn_Key t \<noteq> key) (kn_Taints k)
   \<and> (changed \<longleftrightarrow> kn_Taints k' \<noteq> kn_Taints k)
   \<and> (distinct (map tn_Key (kn_Taints k)) \<longrightarrow> distinct (map tn_Key (kn_Taints k')))
   \<and> k' = k\<lparr>kn_Taints := kn_Taints k'\<rparr>"
proof -
  obtain changed ts where u: "updateTaint_loop (kn_Taints k) key value effect = (changed, ts)"
    by (cases "updateTaint_loop (kn_Taints k) key value effect")
  from updateTaint_loop_spec [OF u] u show ?thesis by (auto simp: updateTaint_def)
qed

definition tainted_node :: kube_node where
  "tainted_node = \<lparr>kn_Name = ''n1'', kn_ProviderID = ''i-1'', kn_Annotations = [], kn_Labels = [],
     kn_Taints = [\<lparr>tn_Key = ''j'', tn_Value = [], tn_Effect = []\<rparr>], kn_Unschedulable = False, kn_VolumesAttached = 0\<rparr>"

theorem updateTaint_spec_witness:
  "distinct (map tn_Key (kn_Taints (snd (updateTaint ''k'' ''v'' ''NoSchedule''
     tainted_node))))"
  using updateTaint_spec [of "''k''" "''v''" "''NoSchedule''"
      tainted_node]
  by (simp add: case_prod_beta tainted_node_def)

end
