(* ===== verification/Update_Strategy.thy ===== *)
theory Update_Strategy
  imports Node_Pool_Manager
begin

text \<open>
  The two strategies for replacing the nodes of a pool: the rolling update
  (\<open>pkg/updatestrategy/rolling_update.go\<close>) and the update that leaves the work to the cluster
  lifecycle controller (\<open>clc_update.go\<close>). Both work through the interface of a node pool manager.
  \<open>math.Min\<close> on counts of nodes is the minimum of integers. The iteration over the map of new nodes
  follows the order of an association list, and the result is shown not to depend on it.
\<close>

section \<open>Rolling update\<close>

definition is_old :: "pool \<Rightarrow> node \<Rightarrow> bool" where
  "is_old p n \<longleftrightarrow> nd_Generation n \<noteq> pl_Generation p"

fun split_loop :: "(node \<Rightarrow> bool) \<Rightarrow> node list \<Rightarrow> node list \<times> node list" where
  "split_loop P [] = ([], [])"
| "split_loop P (n # ns) = (let (a, b) = split_loop P ns in if P n then (n # a, b) else (a, n # b))"

definition splitOldNewNodes :: "pool \<Rightarrow> node list \<times> node list" where
  "splitOldNewNodes p = split_loop (is_old p) (pl_Nodes p)"

definition splitVolumeNoVolumeAttachedNodes :: "node list \<Rightarrow> node list \<times> node list" where
  "splitVolumeNoVolumeAttachedNodes nodes = split_loop nd_VolumesAttached nodes"

definition markOldNodes :: "'w pool_manager \<Rightarrow> pool \<Rightarrow> ('w, unit) io" where
  "markOldNodes m p =
     each (\<lambda>n. if is_old p n then pm_MarkNodeForDecommission m n else ret ()) (pl_Nodes p)"

definition isUpdateDone :: "pool \<Rightarrow> bool" where
  "isUpdateDone p \<longleftrightarrow> fst (splitOldNewNodes p) = []"

fun terminate_loop :: "'w pool_manager \<Rightarrow> node_pool \<Rightarrow> int \<Rightarrow> int \<Rightarrow> node list \<Rightarrow> ('w, unit) io" where
  "terminate_loop m np surge numOldNodes [] = ret ()"
| "terminate_loop m np surge numOldNodes (n # ns) =
     bindE (pm_TerminateNode m np n (numOldNodes \<le> surge)) (\<lambda>_. terminate_loop m np surge (numOldNodes - 1) ns)"

definition terminateCordonedNodes :: "'w pool_manager \<Rightarrow> node_pool \<Rightarrow> pool \<Rightarrow> int \<Rightarrow> ('w, unit) io" where
  "terminateCordonedNodes m np p surge =
     (let oldNodes = fst (splitOldNewNodes p) in
      terminate_loop m np surge (int (length oldNodes)) (filterNodesToTerminate oldNodes))"

definition cordonNodes :: "'w pool_manager \<Rightarrow> node list \<Rightarrow> ('w, unit) io" where
  "cordonNodes m ns = each (pm_CordonNode m) ns"

definition increaseByUnmatchedNodes :: "'w pool_manager \<Rightarrow> pool \<Rightarrow> node_pool \<Rightarrow> node list \<Rightarrow> ('w, unit) io" where
  "increaseByUnmatchedNodes m p np unmatched =
     (if length unmatched > 0 then pm_ScalePool m np (pl_Desired p + int (length unmatched)) else ret ())"

text \<open>The first new node of the map in the failure domain, and the map without it.\<close>

fun match_domain :: "string \<Rightarrow> (string \<times> node) list \<Rightarrow> (string \<times> node) list option" where
  "match_domain fd [] = None"
| "match_domain fd ((k, n) # m) =
     (if nd_FailureDomain n = fd then Some m
      else (case match_domain fd m of None \<Rightarrow> None | Some m' \<Rightarrow> Some ((k, n) # m')))"

text \<open>
  The loop over the nodes with volumes; the flag says that \<open>surge\<close> nodes were found and the function
  returns from within the loop.
\<close>

fun match_loop :: "int \<Rightarrow> (string \<times> node) list \<Rightarrow> node list \<Rightarrow> node list \<Rightarrow> node list \<Rightarrow> bool \<times> node list \<times> node list" where
  "match_loop surge m [] toCordon unmatched = (False, toCordon, unmatched)"
| "match_loop surge m (o1 # os) toCordon unmatched =
     (let (m', toCordon', unmatched') =
        (case match_domain (nd_FailureDomain o1) m of
           Some m1 \<Rightarrow> (m1, toCordon @ [o1], unmatched)
         | None \<Rightarrow> (m, toCordon, unmatched @ [o1])) in
      if int (length toCordon') = surge then (True, toCordon', unmatched')
      else match_loop surge m' os toCordon' unmatched')"

text \<open>\<open>None\<close> is the panic of a slice with a negative bound.\<close>

definition take_upto :: "int \<Rightarrow> node list \<Rightarrow> node list option" where
  "take_upto room ns =
     (let extra = min room (int (length ns)) in if extra < 0 then None else Some (take (nat extra) ns))"

definition new_nodes_map :: "node list \<Rightarrow> (string \<times> node) list" where
  "new_nodes_map ns = fold (\<lambda>n. m_put (nd_ProviderID n) n) ns []"

definition computeNodesList :: "pool \<Rightarrow> int \<Rightarrow> (node list \<times> node list) option" where
  "computeNodesList p surge =
     (let (oldNodes, newNodes) = splitOldNewNodes p;
          (volumes, noVolumes) = splitVolumeNoVolumeAttachedNodes oldNodes;
          (full, toCordon, unmatched) = match_loop surge (new_nodes_map newNodes) volumes [] [] in
      if full then Some (toCordon, [])
      else (case take_upto (surge - int (length toCordon)) noVolumes of
              None \<Rightarrow> None
            | Some extra \<Rightarrow>
                (case take_upto (surge - int (length (toCordon @ extra))) unmatched of
                   None \<Rightarrow> None
                 | Some unmatched' \<Rightarrow> Some (toCordon @ extra, unmatched'))))"

fun scale_out :: "nat \<Rightarrow> 'w env \<Rightarrow> 'w pool_manager \<Rightarrow> node_pool \<Rightarrow> int \<Rightarrow> ('w, pool) io" where
  "scale_out 0 e m np surge = (\<lambda>w. (OutOfFuel, w))"
| "scale_out (Suc k) e m np surge =
     bindE (WaitForDesiredNodes (Suc k) e (pm_GetPool m) np) (\<lambda>p.
       let tmpSurge = min (pl_Desired p) surge;
           newNodes = int (length (snd (splitOldNewNodes p))) in
       if newNodes \<ge> tmpSurge then ret p
       else bindE (pm_ScalePool m np (pl_Desired p + tmpSurge - newNodes)) (\<lambda>_. scale_out k e m np surge))"

text \<open>One turn of the update loop; \<open>Ret True\<close> when no old node is left.\<close>

definition rolling_turn :: "nat \<Rightarrow> 'w env \<Rightarrow> 'w pool_manager \<Rightarrow> int \<Rightarrow> node_pool \<Rightarrow> ('w, bool) io" where
  "rolling_turn fuel e m surge np =
     bindE (scale_out fuel e m np (if IsSpot np then 0 else surge)) (\<lambda>p.
     bindE (check (en_err e)) (\<lambda>_.
     bindE (markOldNodes m p) (\<lambda>_.
     bindE (check (en_err e)) (\<lambda>_.
     if isUpdateDone p then ret True
     else
       bindE (terminateCordonedNodes m np p surge) (\<lambda>_.
       bindE (check (en_err e)) (\<lambda>_.
       bindE (WaitForDesiredNodes fuel e (pm_GetPool m) np) (\<lambda>p2.
       bindE (check (en_err e)) (\<lambda>_.
       case computeNodesList p2 surge of
         None \<Rightarrow> (\<lambda>w. (Panic ''slice bounds out of range'', w))
       | Some (toCordon0, unmatched0) \<Rightarrow>
           let toCordon = (if IsSpot np then toCordon0 @ unmatched0 else toCordon0);
               unmatched = (if IsSpot np then [] else unmatched0) in
           bindE (cordonNodes m toCordon) (\<lambda>_.
           bindE (check (en_err e)) (\<lambda>_.
           bindE (increaseByUnmatchedNodes m p2 np unmatched) (\<lambda>_.
           bindE (check (en_err e)) (\<lambda>_. ret False))))))))))))"

fun rolling_loop :: "nat \<Rightarrow> 'w env \<Rightarrow> 'w pool_manager \<Rightarrow> int \<Rightarrow> node_pool \<Rightarrow> ('w, unit) io" where
  "rolling_loop 0 e m surge np = (\<lambda>w. (OutOfFuel, w))"
| "rolling_loop (Suc k) e m surge np =
     bindE (rolling_turn (Suc k) e m surge np) (\<lambda>finished. if finished then ret () else rolling_loop k e m surge np)"

definition rolling_Update :: "nat \<Rightarrow> 'w env \<Rightarrow> 'w pool_manager \<Rightarrow> int \<Rightarrow> node_pool \<Rightarrow> ('w, unit) io" where
  "rolling_Update fuel e m surge np =
     (if np_MaxSize np < 1 then ret () else rolling_loop fuel e m (min (np_MaxSize np) surge) np)"

definition rolling_PrepareForRemoval :: "'w pool_manager \<Rightarrow> node_pool \<Rightarrow> ('w, unit) io" where
  "rolling_PrepareForRemoval m np = pm_ScalePool m np 0"

section \<open>Update by the cluster lifecycle controller\<close>

fun mark_loop :: "'w pool_manager \<Rightarrow> (node \<Rightarrow> bool) \<Rightarrow> node list \<Rightarrow> int \<Rightarrow> ('w, int) io" where
  "mark_loop m P [] marked = ret marked"
| "mark_loop m P (n # ns) marked =
     (if P n then bindE (pm_MarkNodeForDecommission m n) (\<lambda>_. mark_loop m P ns (marked + 1))
      else mark_loop m P ns marked)"

definition markNodes :: "'w pool_manager \<Rightarrow> pool \<Rightarrow> (node \<Rightarrow> bool) \<Rightarrow> ('w, int) io" where
  "markNodes m p P = mark_loop m P (pl_Nodes p) 0"

fun clc_doUpdate :: "nat \<Rightarrow> 'w env \<Rightarrow> 'w pool_manager \<Rightarrow> int \<Rightarrow> node_pool \<Rightarrow> ('w, unit) io" where
  "clc_doUpdate 0 e m interval np = (\<lambda>w. (OutOfFuel, w))"
| "clc_doUpdate (Suc k) e m interval np =
     bindE (check (en_err e)) (\<lambda>_.
     bindE (pm_GetPool m np) (\<lambda>p.
     bindE (markNodes m p (is_old p)) (\<lambda>oldNodes.
       if oldNodes = 0 then ret ()
       else bindE (wait e interval) (\<lambda>_. clc_doUpdate k e m interval np))))"

definition rollbackUpdate :: "'w pool_manager \<Rightarrow> node_pool \<Rightarrow> ('w, unit) io" where
  "rollbackUpdate m np =
     bindE (pm_GetPool m np) (\<lambda>p.
       each (\<lambda>n. if is_old p n then pm_AbortNodeDecommissioning m n else ret ()) (pl_Nodes p))"

text \<open>\<open>retry\<close> is the retry helper with its exponential back-off and ten attempts.\<close>

definition clc_Update ::
  "nat \<Rightarrow> (('w, unit) io \<Rightarrow> ('w, unit) io) \<Rightarrow> 'w env \<Rightarrow> 'w pool_manager \<Rightarrow> int \<Rightarrow> node_pool \<Rightarrow> ('w, unit) io" where
  "clc_Update fuel retry e m interval np =
     tryE (clc_doUpdate fuel e m interval np)
       (\<lambda>err w. if en_err e w = Some Canceled
                then tryE (retry (rollbackUpdate m np)) (\<lambda>_. fail err) (\<lambda>_. fail err) w
                else fail err w)
       ret"

fun clc_PrepareForRemoval :: "nat \<Rightarrow> 'w env \<Rightarrow> 'w pool_manager \<Rightarrow> int \<Rightarrow> node_pool \<Rightarrow> ('w, unit) io" where
  "clc_PrepareForRemoval 0 e m interval np = (\<lambda>w. (OutOfFuel, w))"
| "clc_PrepareForRemoval (Suc k) e m interval np =
     bindE (pm_GetPool m np) (\<lambda>p.
     bindE (pm_MarkPoolForDecommission m np) (\<lambda>_.
     bindE (each (pm_DisableReplacementNodeProvisioning m) (pl_Nodes p)) (\<lambda>_.
     bindE (markNodes m p (\<lambda>_. True)) (\<lambda>nodes.
       if nodes = 0 then ret ()
       else bindE (wait e interval) (\<lambda>_. clc_PrepareForRemoval k e m interval np)))))"

section \<open>Selection of nodes\<close>

lemma split_loop_filter: "split_loop P ns = (filter P ns, filter (\<lambda>n. \<not> P n) ns)"
  by (induction ns) auto

lemma match_domain_spec:
  assumes "match_domain fd m = Some m'"
  shows "\<exists>k n. nd_FailureDomain n = fd \<and> mset m = add_mset (k, n) (mset m')"
  using assms by (induction m arbitrary: m') (auto split: if_splits option.splits)

lemma match_domain_None: "match_domain fd m = None \<longleftrightarrow> (\<forall>(k, n) \<in> set m. nd_FailureDomain n \<noteq> fd)"
  by (induction m) (auto split: option.splits if_splits)

text \<open>How many nodes of a failure domain a map or a list holds.\<close>

definition in_domain :: "string \<Rightarrow> (string \<times> node) list \<Rightarrow> nat" where
  "in_domain fd m = length (filter (\<lambda>(k, n). nd_FailureDomain n = fd) m)"

definition nodes_in :: "string \<Rightarrow> node list \<Rightarrow> nat" where
  "nodes_in fd ns = length (filter (\<lambda>n. nd_FailureDomain n = fd) ns)"

lemma in_domain_match:
  assumes "match_domain fd m = Some m'"
  shows "in_domain d m = in_domain d m' + (if d = fd then 1 else 0)"
proof -
  obtain k n where n: "nd_FailureDomain n = fd" and ms: "mset m = add_mset (k, n) (mset m')"
    using match_domain_spec [OF assms] by blast
  have "in_domain d m = size (filter_mset (\<lambda>(k, n). nd_FailureDomain n = d) (mset m))" for m
    by (simp add: in_domain_def flip: mset_filter)
  then show ?thesis using ms n by auto
qed

lemma match_domain_iff: "match_domain fd m \<noteq> None \<longleftrightarrow> 0 < in_domain fd m"
  unfolding match_domain_None not_None_eq [symmetric] by (auto simp: in_domain_def filter_empty_conv split_beta)

text \<open>The nodes to cordon are matched one to one with new nodes of their failure domain.\<close>

lemma match_loop_spec:
  assumes "match_loop surge m os tc un = (full, tc', un')" and "int (length tc) < surge"
  shows "\<exists>tc1 un1. tc' = tc @ tc1 \<and> un' = un @ un1 \<and> mset (tc1 @ un1) \<subseteq># mset os
      \<and> (\<forall>d. nodes_in d tc1 \<le> in_domain d m) \<and> (\<not> full \<longrightarrow> mset (tc1 @ un1) = mset os)
      \<and> int (length tc') \<le> surge \<and> (full \<longleftrightarrow> int (length tc') = surge)"
  using assms
proof (induction os arbitrary: m tc un)
  case Nil
  then show ?case by (simp add: nodes_in_def)
next
  case (Cons o1 os)
  show ?case
  proof (cases "match_domain (nd_FailureDomain o1) m")
    case None
    then have "match_loop surge m os tc (un @ [o1]) = (full, tc', un')" using Cons.prems by simp
    from Cons.IH [OF this Cons.prems(2)] obtain tc1 un1
      where *: "tc' = tc @ tc1" "un' = (un @ [o1]) @ un1" "mset (tc1 @ un1) \<subseteq># mset os"
        "\<forall>d. nodes_in d tc1 \<le> in_domain d m" "\<not> full \<longrightarrow> mset (tc1 @ un1) = mset os"
        "int (length tc') \<le> surge" "full \<longleftrightarrow> int (length tc') = surge"
      by blast
    have "mset (tc1 @ o1 # un1) \<subseteq># mset (o1 # os)" using *(3) by simp
    moreover have "\<not> full \<longrightarrow> mset (tc1 @ o1 # un1) = mset (o1 # os)" using *(5) by simp
    ultimately show ?thesis using * by (intro exI [of _ tc1] exI [of _ "o1 # un1"]) simp
  next
    case (Some m1)
    show ?thesis
    proof (cases "int (length (tc @ [o1])) = surge")
      case True
      then have eq: "full" "tc' = tc @ [o1]" "un' = un" using Cons.prems Some by auto
      have "nodes_in d [o1] \<le> in_domain d m" for d
        using in_domain_match [OF Some, of d] by (simp add: nodes_in_def)
      then show ?thesis using eq True by (intro exI [of _ "[o1]"] exI [of _ "[]"]) auto
    next
      case False
      then have run: "match_loop surge m1 os (tc @ [o1]) un = (full, tc', un')" using Cons.prems Some by simp
      have "int (length (tc @ [o1])) < surge" using False Cons.prems(2) by simp
      from Cons.IH [OF run this] obtain tc1 un1
        where *: "tc' = (tc @ [o1]) @ tc1" "un' = un @ un1" "mset (tc1 @ un1) \<subseteq># mset os"
          "\<forall>d. nodes_in d tc1 \<le> in_domain d m1" "\<not> full \<longrightarrow> mset (tc1 @ un1) = mset os"
          "int (length tc') \<le> surge" "full \<longleftrightarrow> int (length tc') = surge"
        by blast
      have "nodes_in d (o1 # tc1) \<le> in_domain d m" for d
        using *(4) in_domain_match [OF Some, of d] by (auto simp: nodes_in_def)
      then show ?thesis using * by (intro exI [of _ "o1 # tc1"] exI [of _ un1]) simp
    qed
  qed
qed

text \<open>Only the numbers of new nodes per failure domain matter, not the order of the map.\<close>

lemma match_loop_order:
  assumes "\<And>d. in_domain d m = in_domain d m2"
  shows "match_loop surge m os tc un = match_loop surge m2 os tc un"
  using assms
proof (induction os arbitrary: m m2 tc un)
  case Nil
  then show ?case by simp
next
  case (Cons o1 os)
  let ?d = "nd_FailureDomain o1"
  show ?case
  proof (cases "match_domain ?d m")
    case None
    then have "match_domain ?d m2 = None"
      using match_domain_iff [of ?d m] match_domain_iff [of ?d m2] Cons.prems [of ?d] by simp
    with None Cons.IH [OF Cons.prems] show ?thesis by simp
  next
    case (Some m1)
    then have "match_domain ?d m2 \<noteq> None"
      using match_domain_iff [of ?d m] match_domain_iff [of ?d m2] Cons.prems [of ?d] by simp
    then obtain m3 where m3: "match_domain ?d m2 = Some m3" by blast
    have "in_domain d m1 = in_domain d m3" for d
      using in_domain_match [OF Some, of d] in_domain_match [OF m3, of d] Cons.prems [of d] by simp
    from Cons.IH [OF this] Some m3 show ?thesis by simp
  qed
qed

lemma in_domain_mset: "mset m = mset m2 \<Longrightarrow> in_domain d m = in_domain d m2"
  unfolding in_domain_def by (metis mset_filter size_mset)

lemma in_domain_put: "in_domain d (m_put k n m) \<le> in_domain d m + (if nd_FailureDomain n = d then 1 else 0)"
  unfolding m_put_def in_domain_def by (induction m) auto

lemma in_domain_new_nodes: "in_domain d (new_nodes_map ns) \<le> nodes_in d ns"
proof -
  have "in_domain d (fold (\<lambda>n. m_put (nd_ProviderID n) n) ns m) \<le> in_domain d m + nodes_in d ns" for m
  proof (induction ns arbitrary: m)
    case Nil
    then show ?case by simp
  next
    case (Cons n ns)
    from Cons [of "m_put (nd_ProviderID n) n m"] in_domain_put [of d "nd_ProviderID n" n m]
    show ?case by (simp add: nodes_in_def split: if_splits)
  qed
  from this [of "[]"] show ?thesis by (simp add: new_nodes_map_def in_domain_def)
qed

lemma take_upto_nonneg: "0 \<le> room \<Longrightarrow> take_upto room ns = Some (take (nat room) ns)"
  by (auto simp: take_upto_def Let_def min_def nat_le_iff split: if_splits)

text \<open>
  Claim C37. With a surge of at least one, the nodes chosen for the next round are distinct old nodes,
  at most as many as the surge allows together with the unmatched ones; if there is an old node at
  all, some node is chosen. The cordoned nodes that have volumes attached are covered, failure
  domain by failure domain, by at least as many new nodes, and the unmatched ones all have volumes.
  The choice does not depend on the order in which the map of new nodes is iterated.
\<close>

theorem computeNodesList_spec:
  assumes "1 \<le> surge"
  shows "\<exists>toCordon unmatched. computeNodesList p surge = Some (toCordon, unmatched)
    \<and> mset (toCordon @ unmatched) \<subseteq># mset (filter (is_old p) (pl_Nodes p))
    \<and> int (length (toCordon @ unmatched)) \<le> surge
    \<and> (filter (is_old p) (pl_Nodes p) \<noteq> [] \<longrightarrow> toCordon @ unmatched \<noteq> [])
    \<and> (\<forall>n \<in> set unmatched. nd_VolumesAttached n)
    \<and> (\<forall>d. nodes_in d (filter nd_VolumesAttached toCordon) \<le> nodes_in d (filter (\<lambda>n. \<not> is_old p n) (pl_Nodes p)))
    \<and> (\<forall>m os. mset m = mset (new_nodes_map (filter (\<lambda>n. \<not> is_old p n) (pl_Nodes p)))
         \<longrightarrow> match_loop surge m os [] [] =
             match_loop surge (new_nodes_map (filter (\<lambda>n. \<not> is_old p n) (pl_Nodes p))) os [] [])"
proof -
  let ?old = "filter (is_old p) (pl_Nodes p)" and ?new = "filter (\<lambda>n. \<not> is_old p n) (pl_Nodes p)"
  let ?vol = "filter nd_VolumesAttached ?old" and ?no = "filter (\<lambda>n. \<not> nd_VolumesAttached n) ?old"
  obtain full tc un where m: "match_loop surge (new_nodes_map ?new) ?vol [] [] = (full, tc, un)"
    by (metis prod_cases3)
  have spec: "mset (tc @ un) \<subseteq># mset ?vol" "\<forall>d. nodes_in d tc \<le> in_domain d (new_nodes_map ?new)"
    "int (length tc) \<le> surge" "full \<longleftrightarrow> int (length tc) = surge" "\<not> full \<longrightarrow> mset (tc @ un) = mset ?vol"
    using match_loop_spec [OF m] assms by auto
  have part: "mset ?vol + mset ?no = mset ?old"
    using multiset_partition [of "mset ?old" nd_VolumesAttached] by (simp only: mset_filter)
  have vol: "n \<in> set ?vol" if "n \<in> set (tc @ un)" for n
    using that set_mset_mono [OF spec(1)] by auto
  have order: "\<forall>m os. mset m = mset (new_nodes_map ?new) \<longrightarrow>
      match_loop surge m os [] [] = match_loop surge (new_nodes_map ?new) os [] []"
    by (intro allI impI match_loop_order) (rule in_domain_mset)
  have dom: "nodes_in d tc \<le> nodes_in d ?new" for d
    using spec(2) in_domain_new_nodes [of d ?new] by (meson order_trans)
  have split: "splitOldNewNodes p = (?old, ?new)" "splitVolumeNoVolumeAttachedNodes ?old = (?vol, ?no)"
    by (simp_all add: splitOldNewNodes_def splitVolumeNoVolumeAttachedNodes_def split_loop_filter)
  let ?room = "nat (surge - int (length tc))"
  let ?extra = "take ?room ?no" and ?un = "take (nat (surge - int (length (tc @ take ?room ?no)))) un"
  have filt: "filter nd_VolumesAttached tc = tc" using vol by (intro filter_True) auto
  show ?thesis
  proof (cases full)
    case True
    then have "computeNodesList p surge = Some (tc, [])" using m split by (simp add: computeNodesList_def)
    moreover have "mset (tc @ []) \<subseteq># mset ?old"
      using spec(1) part by (metis append_Nil2 mset_append mset_subset_eq_add_left subset_mset.order_trans)
    moreover have "?old \<noteq> [] \<longrightarrow> tc @ [] \<noteq> []" using True spec(4) assms by auto
    moreover have "int (length (tc @ [])) \<le> surge" using spec(3) by simp
    moreover have "\<forall>n \<in> set []. nd_VolumesAttached n" by simp
    moreover have "\<forall>d. nodes_in d (filter nd_VolumesAttached tc) \<le> nodes_in d ?new" using dom filt by simp
    ultimately show ?thesis using order by (intro exI conjI)
  next
    case False
    then have room: "0 < ?room" "0 \<le> surge - int (length tc)" using spec(3,4) by auto
    have len: "int (length (tc @ ?extra)) \<le> surge" using room by auto
    have eq: "computeNodesList p surge = Some (tc @ ?extra, ?un)"
      using m split False room len by (simp add: computeNodesList_def take_upto_nonneg)
    have "mset ?un \<subseteq># mset un" "mset ?extra \<subseteq># mset ?no"
      by (metis append_take_drop_id mset_append mset_subset_eq_add_left)+
    then have "mset (tc @ ?un) + mset ?extra \<subseteq># mset (tc @ un) + mset ?no"
      by (simp add: subset_mset.add_mono)
    also have "\<dots> \<subseteq># mset ?old" using spec(1) part by (metis subset_mset.add_right_mono)
    finally have sub: "mset ((tc @ ?extra) @ ?un) \<subseteq># mset ?old" by (simp add: ac_simps)
    have total: "int (length ((tc @ ?extra) @ ?un)) \<le> surge" using len by auto
    have some: "(tc @ ?extra) @ ?un \<noteq> []" if "?old \<noteq> []"
    proof
      assume none: "(tc @ ?extra) @ ?un = []"
      then have "?no = []" "un = []" "tc = []" using room assms by auto
      then have "mset ?vol + mset ?no = {#}" using spec(5) False by (simp only:) simp
      then show False using that unfolding part by simp
    qed
    have unv: "\<forall>n \<in> set ?un. nd_VolumesAttached n" using vol by (auto dest: in_set_takeD)
    have "filter nd_VolumesAttached ?extra = []" by (auto simp: filter_empty_conv dest: in_set_takeD)
    then have "filter nd_VolumesAttached (tc @ ?extra) = tc" using filt by simp
    then have "\<forall>d. nodes_in d (filter nd_VolumesAttached (tc @ ?extra)) \<le> nodes_in d ?new" using dom by simp
    moreover have "?old \<noteq> [] \<longrightarrow> (tc @ ?extra) @ ?un \<noteq> []" using some by blast
    ultimately show ?thesis using eq sub total unv order by (intro exI conjI)
  qed
qed

theorem computeNodesList_spec_witness:
  "\<exists>toCordon unmatched. computeNodesList ((empty_pool 1)\<lparr>pl_Nodes := [sample_node]\<rparr>) 1 = Some (toCordon, unmatched)
     \<and> toCordon @ unmatched \<noteq> []"
proof -
  have "filter (is_old ((empty_pool 1)\<lparr>pl_Nodes := [sample_node]\<rparr>)) [sample_node] \<noteq> []"
    by (simp add: is_old_def empty_pool_def sample_node_def)
  then show ?thesis
    using computeNodesList_spec [of 1 "(empty_pool 1)\<lparr>pl_Nodes := [sample_node]\<rparr>"] by auto
qed

section \<open>The contract of a strategy\<close>

text \<open>
  What the manager promises to the rolling strategy: scaling to zero ends only when the pool was
  seen without nodes.
\<close>

locale node_pool_manager =
  fixes m :: "'w pool_manager"
  assumes scale_to_zero: "pm_ScalePool m np 0 w = (Ret (), w')
     \<Longrightarrow> \<exists>w0 w1 p. pm_GetPool m np w0 = (Ret p, w1) \<and> pl_Nodes p = []"

lemma wait_desired_seen:
  "wait_desired k e getPool np w = (Ret p, w') \<Longrightarrow> \<exists>w0. getPool np w0 = (Ret p, w')"
  by (induction k arbitrary: w) (auto split: if_splits)

lemma WaitForDesiredNodes_seen:
  "WaitForDesiredNodes k e getPool np w = (Ret p, w') \<Longrightarrow> \<exists>w0. getPool np w0 = (Ret p, w')"
  by (auto simp: WaitForDesiredNodes_def dest: wait_desired_seen)

lemma GetPool_Current: "GetPool m np w = (Ret p, w') \<Longrightarrow> pl_Current p = int (length (pl_Nodes p))"
  by (auto simp: GetPool_def Let_def ret_def fail_def elim!: tryE_cases)

lemma scale_loop_zero:
  "scale_loop k m np 0 w = (Ret (), w') \<Longrightarrow> \<exists>w0 w1 p. GetPool m np w0 = (Ret p, w1) \<and> pl_Nodes p = []"
proof (induction k arbitrary: w)
  case 0
  then show ?case by simp
next
  case (Suc k)
  from Suc.prems obtain p w1 where p: "WaitForDesiredNodes (Suc k) (mg_env m) (GetPool m) np w = (Ret p, w1)"
    and rest: "pl_Current p = 0 \<or> pl_Current p < 0 \<or> (\<exists>w2. scale_loop k m np 0 w2 = (Ret (), w'))"
    by (fastforce simp: Let_def split: if_splits list.splits)
  obtain w0 where g: "GetPool m np w0 = (Ret p, w1)" using WaitForDesiredNodes_seen [OF p] by blast
  show ?case
  proof (cases "pl_Nodes p = []")
    case True
    with g show ?thesis by blast
  next
    case False
    then have "pl_Current p > 0" using GetPool_Current [OF g] by simp
    with rest Suc.IH show ?thesis by auto
  qed
qed

interpretation kube_pm: node_pool_manager "kubernetes_manager fuel m" for fuel m
  by unfold_locales (auto simp: kubernetes_manager_def ScalePool_def dest: scale_loop_zero)

text \<open>
  What a strategy promises to the provisioner: a successful update ends by seeing a pool in which
  every node has the current generation, a successful preparation for removal has seen the pool
  empty.
\<close>

locale update_strategy =
  fixes getPool :: "node_pool \<Rightarrow> ('w, pool) io"
    and update :: "node_pool \<Rightarrow> ('w, unit) io"
    and prepare :: "node_pool \<Rightarrow> ('w, unit) io"
  assumes update_replaces: "1 \<le> np_MaxSize np \<Longrightarrow> update np w = (Ret (), w')
      \<Longrightarrow> \<exists>w0 p. getPool np w0 = (Ret p, w') \<and> (\<forall>n \<in> set (pl_Nodes p). nd_Generation n = pl_Generation p)"
    and prepare_empties: "prepare np w = (Ret (), w')
      \<Longrightarrow> \<exists>w0 w1 p. getPool np w0 = (Ret p, w1) \<and> pl_Nodes p = []"
begin

text \<open>Updating the pools of a group one after the other.\<close>

lemma each_update_replaces:
  "each update nps w = (Ret (), w') \<Longrightarrow> np \<in> set nps \<Longrightarrow> 1 \<le> np_MaxSize np
     \<Longrightarrow> \<exists>w0 w1 p. getPool np w0 = (Ret p, w1) \<and> (\<forall>n \<in> set (pl_Nodes p). nd_Generation n = pl_Generation p)"
proof (induction nps arbitrary: w)
  case Nil
  then show ?case by simp
next
  case (Cons x xs)
  then obtain w1 where "update x w = (Ret (), w1)" "each update xs w1 = (Ret (), w')" by auto
  then show ?case using Cons update_replaces [of x w w1] by auto
qed

lemma each_prepare_empties:
  "each prepare nps w = (Ret (), w') \<Longrightarrow> np \<in> set nps
     \<Longrightarrow> \<exists>w0 w1 p. getPool np w0 = (Ret p, w1) \<and> pl_Nodes p = []"
proof (induction nps arbitrary: w)
  case Nil
  then show ?case by simp
next
  case (Cons x xs)
  then obtain w1 where "prepare x w = (Ret (), w1)" "each prepare xs w1 = (Ret (), w')" by auto
  then show ?case using Cons prepare_empties [of x w w1] by auto
qed

end

lemma mark_loop_zero:
  "mark_loop m P ns k w = (Ret r, w') \<Longrightarrow> 0 \<le> k \<Longrightarrow> k \<le> r \<and> (r = k \<longrightarrow> w' = w \<and> (\<forall>n \<in> set ns. \<not> P n))"
proof (induction ns arbitrary: k w)
  case Nil
  then show ?case by simp
next
  case (Cons n ns)
  show ?case
  proof (cases "P n")
    case True
    with Cons.prems obtain w1 where "mark_loop m P ns (k + 1) w1 = (Ret r, w')" by auto
    with Cons.IH [of "k + 1" w1] Cons.prems(2) show ?thesis by auto
  next
    case False
    with Cons.prems(1) have "mark_loop m P ns k w = (Ret r, w')" by simp
    from Cons.IH [OF this Cons.prems(2)] False show ?thesis by simp
  qed
qed

lemma clc_doUpdate_Ret:
  "clc_doUpdate k e m i np w = (Ret (), w') \<Longrightarrow>
     \<exists>w0 p. pm_GetPool m np w0 = (Ret p, w') \<and> (\<forall>n \<in> set (pl_Nodes p). \<not> is_old p n)"
proof (induction k arbitrary: w)
  case 0
  then show ?case by simp
next
  case (Suc k)
  then obtain p w1 marked w2 where g: "pm_GetPool m np w = (Ret p, w1)"
    and mk: "markNodes m p (is_old p) w1 = (Ret marked, w2)"
    and rest: "marked = 0 \<and> w' = w2 \<or> (\<exists>w3. clc_doUpdate k e m i np w3 = (Ret (), w'))"
    by (fastforce split: if_splits)
  from mark_loop_zero [of m "is_old p" "pl_Nodes p" 0 w1 marked w2] mk
  have "marked = 0 \<Longrightarrow> w2 = w1 \<and> (\<forall>n \<in> set (pl_Nodes p). \<not> is_old p n)" by (simp add: markNodes_def)
  with g rest Suc.IH show ?case by blast
qed

lemma clc_Prepare_Ret:
  "clc_PrepareForRemoval k e m i np w = (Ret (), w') \<Longrightarrow> \<exists>w0 w1 p. pm_GetPool m np w0 = (Ret p, w1) \<and> pl_Nodes p = []"
proof (induction k arbitrary: w)
  case 0
  then show ?case by simp
next
  case (Suc k)
  then obtain p w1 marked w2 w3 where g: "pm_GetPool m np w = (Ret p, w1)"
    and mk: "markNodes m p (\<lambda>_. True) w2 = (Ret marked, w3)"
    and rest: "marked = 0 \<or> (\<exists>w4. clc_PrepareForRemoval k e m i np w4 = (Ret (), w'))"
    by (fastforce split: if_splits)
  from mark_loop_zero [of m "\<lambda>_. True" "pl_Nodes p" 0 w2 marked w3] mk
  have "marked = 0 \<Longrightarrow> \<forall>n \<in> set (pl_Nodes p). False" unfolding markNodes_def by blast
  then have "marked = 0 \<Longrightarrow> pl_Nodes p = []" by (cases "pl_Nodes p") auto
  with g rest Suc.IH show ?case by blast
qed

interpretation clc: update_strategy "pm_GetPool m" "clc_Update fuel retry e m i" "clc_PrepareForRemoval fuel e m i"
  for fuel retry e m i
proof unfold_locales
  fix np w w' assume "clc_Update fuel retry e m i np w = (Ret (), w')"
  then have "clc_doUpdate fuel e m i np w = (Ret (), w')"
    by (auto simp: clc_Update_def elim!: tryE_cases split: if_splits)
  then show "\<exists>w0 p. pm_GetPool m np w0 = (Ret p, w') \<and> (\<forall>n \<in> set (pl_Nodes p). nd_Generation n = pl_Generation p)"
    using clc_doUpdate_Ret by (fastforce simp: is_old_def)
qed (rule clc_Prepare_Ret)

lemma scale_out_seen: "scale_out k e m np surge w = (Ret p, w') \<Longrightarrow> \<exists>w0. pm_GetPool m np w0 = (Ret p, w')"
proof (induction k arbitrary: w)
  case 0
  then show ?case by simp
next
  case (Suc k)
  then show ?case by (fastforce simp: Let_def split: if_splits dest: WaitForDesiredNodes_seen)
qed

lemma each_skip: "(\<And>x. x \<in> set xs \<Longrightarrow> f x = ret ()) \<Longrightarrow> each f xs w = (Ret (), w)"
  by (induction xs) (auto simp: bindE_def ret_def)

lemma isUpdateDone_iff: "isUpdateDone p \<longleftrightarrow> (\<forall>n \<in> set (pl_Nodes p). \<not> is_old p n)"
  by (auto simp: isUpdateDone_def splitOldNewNodes_def split_loop_filter filter_empty_conv)

lemma rolling_turn_True:
  assumes "rolling_turn fuel e m surge np w = (Ret True, w')"
  shows "\<exists>w0 p. pm_GetPool m np w0 = (Ret p, w') \<and> (\<forall>n \<in> set (pl_Nodes p). \<not> is_old p n)"
proof -
  obtain p w1 w2 where s: "scale_out fuel e m np (if IsSpot np then 0 else surge) w = (Ret p, w1)"
    and mk: "markOldNodes m p w1 = (Ret (), w2)" and fin: "isUpdateDone p" "w' = w2"
    using assms by (auto simp: rolling_turn_def Let_def split: if_splits option.splits prod.splits)
  have old: "\<forall>n \<in> set (pl_Nodes p). \<not> is_old p n" using fin(1) by (simp add: isUpdateDone_iff)
  then have "markOldNodes m p w1 = (Ret (), w1)" unfolding markOldNodes_def by (intro each_skip) simp
  then have "w' = w1" using mk fin(2) by simp
  with scale_out_seen [OF s] old show ?thesis by blast
qed

lemma rolling_loop_Ret:
  "rolling_loop k e m surge np w = (Ret (), w') \<Longrightarrow>
     \<exists>w0 p. pm_GetPool m np w0 = (Ret p, w') \<and> (\<forall>n \<in> set (pl_Nodes p). \<not> is_old p n)"
proof (induction k arbitrary: w)
  case 0
  then show ?case by simp
next
  case (Suc k)
  then obtain b w1 where t: "rolling_turn (Suc k) e m surge np w = (Ret b, w1)"
    and rest: "(if b then ret () else rolling_loop k e m surge np) w1 = (Ret (), w')" by auto
  show ?case
  proof (cases b)
    case True
    with t rest rolling_turn_True show ?thesis by fastforce
  next
    case False
    with rest Suc.IH show ?thesis by simp
  qed
qed

interpretation rolling: update_strategy "pm_GetPool (kubernetes_manager f m)"
  "rolling_Update fuel e (kubernetes_manager f m) surge" "rolling_PrepareForRemoval (kubernetes_manager f m)"
  for fuel e f m surge
proof unfold_locales
  fix np w w' assume "1 \<le> np_MaxSize np" "rolling_Update fuel e (kubernetes_manager f m) surge np w = (Ret (), w')"
  then have "rolling_loop fuel e (kubernetes_manager f m) (min (np_MaxSize np) surge) np w = (Ret (), w')"
    by (simp add: rolling_Update_def)
  from rolling_loop_Ret [OF this]
  show "\<exists>w0 p. pm_GetPool (kubernetes_manager f m) np w0 = (Ret p, w')
      \<and> (\<forall>n \<in> set (pl_Nodes p). nd_Generation n = pl_Generation p)" by (simp add: is_old_def)
qed (auto simp: rolling_PrepareForRemoval_def dest: kube_pm.scale_to_zero)



text \<open>
  The same for the strategy that leaves the replacement to the cluster lifecycle
  controller: success means that the last look at the pool showed no old node, respectively no node.
\<close>

theorem clc_update_complete:
  assumes "clc_Update fuel retry e m i np w = (Ret (), w1)"
    and "1 \<le> np_MaxSize np"
    and "clc_PrepareForRemoval fuel' e m i np' w1 = (Ret (), w2)"
  shows "(\<exists>w0 p. pm_GetPool m np w0 = (Ret p, w1) \<and> (\<forall>n \<in> set (pl_Nodes p). nd_Generation n = pl_Generation p))
    \<and> (\<exists>w0 w3 p. pm_GetPool m np' w0 = (Ret p, w3) \<and> pl_Nodes p = [])"
  using clc.update_replaces [OF assms(2,1)] clc.prepare_empties [OF assms(3)] by blast

theorem clc_update_complete_witness:
  "\<exists>w0 w3 p. pm_GetPool (kubernetes_manager 2 (sample_manager [] (Ret ()))) sample_pool w0 = (Ret p, w3) \<and> pl_Nodes p = []"
proof -
  let ?m = "kubernetes_manager 2 (sample_manager [] (Ret ()))"
  have get: "pm_GetPool ?m sample_pool 5 = (Ret (empty_pool 0), 5)"
    by (simp add: kubernetes_manager_def GetPool_def tryE_def ret_def sample_defs empty_pool_def instanceIDMap_def)
  have r1: "clc_Update 1 (\<lambda>op. op) sample_env ?m 1 sample_pool 5 = (Ret (), 5)"
    by (simp add: clc_Update_def tryE_def bindE_def check_def ret_def get markNodes_def empty_pool_def sample_env_def)
  have r2: "clc_PrepareForRemoval 1 sample_env ?m 1 sample_pool 5 = (Ret (), 5)"
    using get by (simp add: bindE_def ret_def markNodes_def empty_pool_def kubernetes_manager_def sample_manager_def sample_backend_def)
  have "1 \<le> np_MaxSize sample_pool" by (simp add: sample_pool_def)
  from clc_update_complete [OF r1 this r2] show ?thesis by blast
qed

section \<open>Which nodes a rolling update terminates\<close>

lemma keeps_bindE_run:
  assumes "keeps I m" and "\<And>x w w'. m w = (Ret x, w') \<Longrightarrow> keeps I (f x)"
  shows "keeps I (bindE m f)"
proof (rule keepsI)
  fix w assume "I w"
  obtain r w1 where m: "m w = (r, w1)" by (cases "m w")
  then have "I w1" using assms(1) \<open>I w\<close> by (auto dest: keepsD)
  then show "I (snd (bindE m f w))"
    using m assms(2) [of w] by (cases r) (auto simp: bindE_def keeps_def)
qed

lemma keeps_abort [simp, intro]: "keeps I (\<lambda>w. (OutOfFuel, w))" "keeps I (\<lambda>w. (Panic s, w))"
  by (simp_all add: keeps_def)

lemma keeps_WaitForDesiredNodes:
  assumes "keeps I (getPool np)" and "\<And>d w. I w \<Longrightarrow> I (en_sleep e d w)"
  shows "keeps I (WaitForDesiredNodes k e getPool np)"
proof -
  have "keeps I (wait_desired k e' getPool np)" if "en_sleep e' = en_sleep e" for e'
    using that
  proof (induction k)
    case 0
    then show ?case by simp
  next
    case (Suc k)
    then show ?case using assms by (auto intro!: keeps_bindE keeps_wait)
  qed
  then show ?thesis by (simp add: keeps_def WaitForDesiredNodes_def)
qed

lemma keeps_terminate_loop:
  "(\<And>n b. n \<in> set ns \<Longrightarrow> keeps I (pm_TerminateNode m np n b)) \<Longrightarrow> keeps I (terminate_loop m np surge k ns)"
  by (induction ns arbitrary: k) (auto intro!: keeps_bindE)

text \<open>The operations a rolling update may use freely.\<close>

definition harmless :: "('w \<Rightarrow> bool) \<Rightarrow> 'w env \<Rightarrow> 'w pool_manager \<Rightarrow> node_pool \<Rightarrow> bool" where
  "harmless I e m np \<longleftrightarrow> keeps I (pm_GetPool m np) \<and> (\<forall>r. keeps I (pm_ScalePool m np r))
     \<and> (\<forall>n. keeps I (pm_MarkNodeForDecommission m n)) \<and> (\<forall>n. keeps I (pm_CordonNode m n))
     \<and> (\<forall>d w. I w \<longrightarrow> I (en_sleep e d w))"

lemma keeps_scale_out: "harmless I e m np \<Longrightarrow> keeps I (scale_out k e m np surge)"
  by (induction k) (auto simp: harmless_def Let_def intro!: keeps_bindE keeps_WaitForDesiredNodes)

lemma keeps_rolling_turn:
  assumes "harmless I e m np"
    and tmn: "\<And>w0 p w1 n b. pm_GetPool m np w0 = (Ret p, w1) \<Longrightarrow> n \<in> set (pl_Nodes p) \<Longrightarrow> nd_Cordoned n
        \<Longrightarrow> nd_Generation n \<noteq> pl_Generation p \<Longrightarrow> keeps I (pm_TerminateNode m np n b)"
  shows "keeps I (rolling_turn fuel e m surge np)"
proof -
  note h = assms(1) [unfolded harmless_def]
  have w: "keeps I (WaitForDesiredNodes fuel e (pm_GetPool m) np)" using h by (intro keeps_WaitForDesiredNodes) auto
  have mk: "keeps I (markOldNodes m p)" for p unfolding markOldNodes_def using h by (intro keeps_each) auto
  have co: "keeps I (cordonNodes m ns)" for ns unfolding cordonNodes_def using h by (intro keeps_each) auto
  have inc: "keeps I (increaseByUnmatchedNodes m p np ns)" for p ns unfolding increaseByUnmatchedNodes_def using h by auto
  have te: "keeps I (terminateCordonedNodes m np p surge)" if "scale_out fuel e m np s w = (Ret p, w')" for p s w w'
  proof -
    from scale_out_seen [OF that] obtain w0 where "pm_GetPool m np w0 = (Ret p, w')" by blast
    from tmn [OF this] show ?thesis unfolding terminateCordonedNodes_def Let_def
      by (intro keeps_terminate_loop)
        (auto simp: splitOldNewNodes_def split_loop_filter filterNodesToTerminate_def is_old_def)
  qed
  show ?thesis unfolding rolling_turn_def
    by (rule keeps_bindE_run [OF keeps_scale_out [OF assms(1)]])
      (auto simp: Let_def intro!: keeps_bindE w mk co inc te split: option.splits)
qed

text \<open>
  Claim C12. A rolling update asks for the termination of a node only if the node was listed in the
  pool, was cordoned and had another generation than the pool: every property of the world that
  survives reading the pool, scaling, marking, cordoning, waiting and the termination of such nodes
  survives the whole update, whatever its outcome.
\<close>

theorem rolling_terminates_only_old_cordoned:
  assumes "harmless I e m np"
    and "\<And>w0 p w1 n b. pm_GetPool m np w0 = (Ret p, w1) \<Longrightarrow> n \<in> set (pl_Nodes p) \<Longrightarrow> nd_Cordoned n
        \<Longrightarrow> nd_Generation n \<noteq> pl_Generation p \<Longrightarrow> keeps I (pm_TerminateNode m np n b)"
    and "I w"
  shows "I (snd (rolling_Update fuel e m surge np w))"
proof -
  have "keeps I (rolling_loop k e m s np)" for k s
    by (induction k) (auto intro!: keeps_bindE keeps_rolling_turn [OF assms(1,2)])
  then have "keeps I (rolling_Update fuel e m surge np)" by (simp add: rolling_Update_def)
  with assms(3) show ?thesis by (simp add: keeps_def)
qed

text \<open>A manager whose world is the list of the names of terminated nodes.\<close>

definition logging_manager :: "string list pool_manager" where
  "logging_manager = \<lparr>pm_GetPool = (\<lambda>_ w. (Ret ((empty_pool 1)\<lparr>pl_Nodes := (if w = [] then [sample_node] else [])\<rparr>), w)),
     pm_MarkNodeForDecommission = (\<lambda>_. ret ()), pm_AbortNodeDecommissioning = (\<lambda>_. ret ()),
     pm_ScalePool = (\<lambda>_ _. ret ()), pm_TerminateNode = (\<lambda>_ n _ w. (Ret (), nd_Name n # w)),
     pm_MarkPoolForDecommission = (\<lambda>_. ret ()), pm_DisableReplacementNodeProvisioning = (\<lambda>_. ret ()),
     pm_CordonNode = (\<lambda>_. ret ())\<rparr>"

theorem rolling_terminates_only_old_cordoned_witness:
  "set (snd (rolling_Update 2 \<lparr>en_now = (\<lambda>_. 0), en_sleep = (\<lambda>_ w. w), en_err = (\<lambda>_. None)\<rparr>
      logging_manager 0 sample_pool [])) \<subseteq> {nd_Name sample_node}"
  by (rule rolling_terminates_only_old_cordoned [where I = "\<lambda>w. set w \<subseteq> {nd_Name sample_node}"])
    (auto simp: harmless_def logging_manager_def keeps_def ret_def split: if_splits)

end
