(* ===== verification/ASG_Backend.thy ===== *)
theory ASG_Backend
  imports Node_Pool_Backend
begin

text \<open>
  The node pool backend on AWS Auto Scaling Groups (\<open>pkg/updatestrategy/aws_asg.go\<close>). The AWS SDK is
  a record of calls: a call that the code makes through a paginator returns the items of all pages,
  or the pages themselves where the code looks at them one by one. Pointers of the SDK that the code
  dereferences without a test are optional fields, and reading an absent one is a panic.
\<close>

section \<open>Data\<close>

record asg_instance =
  ai_InstanceId :: string
  ai_AvailabilityZone :: string
  ai_HealthStatus :: string
  ai_LifecycleState :: string
  ai_LaunchTemplate :: "(string \<times> string) option"

record mixed_instances_policy =
  mx_LaunchTemplate :: "string \<times> string"
  mx_OnDemandBaseCapacity :: int
  mx_OnDemandPercentage :: int
  mx_Overrides :: "string list"

record asg =
  ag_Name :: string
  ag_MinSize :: int
  ag_MaxSize :: int
  ag_DesiredCapacity :: int
  ag_Tags :: "(string \<times> string) list"
  ag_Instances :: "asg_instance list"
  ag_MixedInstancesPolicy :: "mixed_instances_policy option"
  ag_LaunchTemplate :: "(string \<times> string) option"

record update_asg =
  ua_Name :: string
  ua_DesiredCapacity :: "int option"
  ua_MinSize :: "int option"
  ua_MaxSize :: "int option"

record ec2_instance =
  ei_InstanceId :: string
  ei_InstanceType :: string
  ei_Spot :: bool

record 'w asg_api =
  aa_DescribeGroups :: "string list \<Rightarrow> ('w, asg list) io"
  aa_UpdateGroup :: "update_asg \<Rightarrow> ('w, unit) io"
  aa_DeleteTags :: "(string \<times> string \<times> string) list \<Rightarrow> ('w, unit) io"
  aa_DescribeTags :: "string \<Rightarrow> string \<Rightarrow> ('w, (string \<times> string) list list) io"
  aa_TerminateInstance :: "string \<Rightarrow> bool \<Rightarrow> ('w, unit) io"
  aa_InstanceStatuses :: "string \<Rightarrow> ('w, string list) io"
  aa_LaunchTemplateVersions :: "string \<Rightarrow> string \<Rightarrow> ('w, (string \<times> bool) list) io"
  aa_DescribeInstances :: "string list \<Rightarrow> ('w, ec2_instance list) io"
  aa_GroupLoadBalancers :: "string \<Rightarrow> ('w, string list) io"
  aa_LoadBalancerInstances :: "string \<Rightarrow> ('w, string list list) io"
  aa_InstanceHealth :: "string \<Rightarrow> string list \<Rightarrow> ('w, (string \<times> string) list) io"
  aa_RetryFor :: "int \<Rightarrow> ('w, unit) io \<Rightarrow> ('w, unit) io"

definition outdatedNodeGeneration :: int where "outdatedNodeGeneration = 0"
definition currentNodeGeneration :: int where "currentNodeGeneration = 1"
definition kubeAutoScalerEnabledTagKey :: string where
  "kubeAutoScalerEnabledTagKey = ''k8s.io/cluster-autoscaler/enabled''"
definition clusterIDTagPrefix :: string where "clusterIDTagPrefix = ''kubernetes.io/cluster/''"
definition resourceLifecycleOwned :: string where "resourceLifecycleOwned = ''owned''"
definition nodePoolTagLegacy :: string where "nodePoolTagLegacy = ''NodePool''"
definition ec2AutoscalingGroupTagKey :: string where "ec2AutoscalingGroupTagKey = ''aws:autoscaling:groupName''"
definition instanceTerminationRetryDuration :: int where "instanceTerminationRetryDuration = 15 * minute"

section \<open>Finding the groups of a pool\<close>

definition asgHasAllTags :: "(string \<times> string) list \<Rightarrow> (string \<times> string) list \<Rightarrow> bool" where
  "asgHasAllTags expected tags =
     (if length expected > length tags then False
      else sum_list (map (\<lambda>e. length (filter (\<lambda>t. t = e) tags)) expected) = length expected)"

definition getNodePoolASGs :: "'w asg_api \<Rightarrow> ('a) account_cluster_scheme \<Rightarrow> node_pool \<Rightarrow> ('w, asg list) io" where
  "getNodePoolASGs api c np =
     bindE (aa_DescribeGroups api []) (\<lambda>groups.
       let asgs = filter (\<lambda>g. asgHasAllTags [(clusterIDTagPrefix @ cluster_Name c, resourceLifecycleOwned),
                                (nodePoolTagLegacy, np_Name np)] (ag_Tags g)) groups in
       if length asgs = 0
       then fail (Errorf (''failed to find any ASGs for node pool '' @ [CHR 0x27] @ np_Name np @ [CHR 0x27]))
       else ret asgs)"

section \<open>Generation of the nodes\<close>

record launch_parameters =
  lp_TemplateName :: string
  lp_TemplateVersion :: string
  lp_InstanceTypes :: "string list"
  lp_Spot :: bool

definition launch_params :: "'w asg_api \<Rightarrow> asg \<Rightarrow> ('w, launch_parameters) io" where
  "launch_params api a =
     (case ag_MixedInstancesPolicy a of
        Some mx \<Rightarrow>
          if mx_OnDemandBaseCapacity mx \<noteq> 0
          then fail (Errorf (''invalid MixedInstancesPolicy for ASG '' @ ag_Name a
                 @ '': InstancesDistribution.OnDemandBasedCapacity cannot be 0''))
          else if mx_OnDemandPercentage mx = 0
          then ret \<lparr>lp_TemplateName = fst (mx_LaunchTemplate mx), lp_TemplateVersion = snd (mx_LaunchTemplate mx),
                    lp_InstanceTypes = mx_Overrides mx, lp_Spot = True\<rparr>
          else if mx_OnDemandPercentage mx = 100
          then ret \<lparr>lp_TemplateName = fst (mx_LaunchTemplate mx), lp_TemplateVersion = snd (mx_LaunchTemplate mx),
                    lp_InstanceTypes = mx_Overrides mx, lp_Spot = False\<rparr>
          else fail (Errorf (''invalid MixedInstancesPolicy for ASG '' @ ag_Name a
                 @ '': InstancesDistribution.OnDemandPercentageAboveBaseCapacity can be either 0 or 100''))
      | None \<Rightarrow>
          (case ag_LaunchTemplate a of
             Some (name, version) \<Rightarrow>
               tryE (aa_LaunchTemplateVersions api name version)
                 (\<lambda>e. fail (Errorf (''unable to fetch launch template version '' @ version @ '' for ASG ''
                        @ ag_Name a @ '': '' @ error_text e)))
                 (\<lambda>vs. case vs of
                     [] \<Rightarrow> fail (Errorf (''unable to find launch template version '' @ version @ '' for ASG '' @ ag_Name a))
                   | (ty, spot) # _ \<Rightarrow> ret \<lparr>lp_TemplateName = name, lp_TemplateVersion = version,
                        lp_InstanceTypes = [ty], lp_Spot = spot\<rparr>)
           | None \<Rightarrow> ret \<lparr>lp_TemplateName = [], lp_TemplateVersion = [], lp_InstanceTypes = [], lp_Spot = False\<rparr>))"

text \<open>The instances of another template or version; \<open>None\<close> when an instance has no template.\<close>

fun other_template :: "launch_parameters \<Rightarrow> asg_instance list \<Rightarrow> string list option" where
  "other_template lp [] = Some []"
| "other_template lp (i # is) =
     (case ai_LaunchTemplate i of
        None \<Rightarrow> None
      | Some (name, version) \<Rightarrow>
          (case other_template lp is of
             None \<Rightarrow> None
           | Some old \<Rightarrow> Some (if name \<noteq> lp_TemplateName lp \<or> version \<noteq> lp_TemplateVersion lp
                              then ai_InstanceId i # old else old)))"

definition getInstancesToUpdate :: "'w asg_api \<Rightarrow> asg \<Rightarrow> ('w, string list) io" where
  "getInstancesToUpdate api a =
     (if length (ag_Instances a) = 0 then ret []
      else bindE (launch_params api a) (\<lambda>lp.
        if lp_TemplateName lp = []
        then fail (Errorf (''unable to determine launch template for ASG '' @ ag_Name a))
        else if lp_TemplateVersion lp = [] \<or> has_prefix (lp_TemplateVersion lp) ''$''
        then fail (Errorf (''unsupported launch template version for ASG '' @ ag_Name a @ '': '' @ lp_TemplateVersion lp))
        else (case other_template lp (ag_Instances a) of
                None \<Rightarrow> (\<lambda>w. (Panic ''nil pointer dereference'', w))
              | Some old \<Rightarrow>
                  tryE (aa_DescribeInstances api (map ai_InstanceId (ag_Instances a)))
                    (\<lambda>e. fail (Errorf (''unable to fetch instance information for ASG '' @ ag_Name a @ '': '' @ error_text e)))
                    (\<lambda>is. ret (old @ map ei_InstanceId
                       (filter (\<lambda>i. ei_InstanceType i \<notin> set (lp_InstanceTypes lp) \<or> ei_Spot i \<noteq> lp_Spot lp) is))))))"

fun health_loop :: "(string \<times> string) list \<Rightarrow> bool gomap \<Rightarrow> bool gomap" where
  "health_loop [] m = m"
| "health_loop ((i, state) # ss) m =
     (let inService = (state = ''InService'') in
      case m_get m i of
        Some ready \<Rightarrow> health_loop ss (if ready then m_put i inService m else m)
      | None \<Rightarrow> health_loop ss (m_put i inService m))"

fun lb_loop :: "'w asg_api \<Rightarrow> string list \<Rightarrow> bool gomap \<Rightarrow> ('w, bool gomap) io" where
  "lb_loop api [] m = ret m"
| "lb_loop api (lb # lbs) m =
     bindE (aa_LoadBalancerInstances api lb) (\<lambda>descs.
       case descs of
         [instances] \<Rightarrow> bindE (aa_InstanceHealth api lb instances) (\<lambda>states. lb_loop api lbs (health_loop states m))
       | _ \<Rightarrow> fail (Errorf (''expected 1 load balancer, found '' @ nat_str (length descs))))"

definition getLoadBalancerAttachedInstancesReadiness :: "'w asg_api \<Rightarrow> asg \<Rightarrow> ('w, bool gomap) io" where
  "getLoadBalancerAttachedInstancesReadiness api a =
     bindE (aa_GroupLoadBalancers api (ag_Name a)) (\<lambda>lbs. lb_loop api lbs [])"

definition instance_node :: "string list \<Rightarrow> bool gomap \<Rightarrow> asg_instance \<Rightarrow> node" where
  "instance_node old lb i =
     (let ready = (ai_HealthStatus i = ''Healthy'' \<and> ai_LifecycleState i = ''InService'') in
      \<lparr>nd_Name = [], nd_Annotations = [], nd_Labels = [], nd_Taints = [], nd_Cordoned = False,
       nd_ProviderID = ''aws:///'' @ ai_AvailabilityZone i @ ''/'' @ ai_InstanceId i,
       nd_FailureDomain = ai_AvailabilityZone i,
       nd_Generation = (if ai_InstanceId i \<in> set old then outdatedNodeGeneration else currentNodeGeneration),
       nd_VolumesAttached = False,
       nd_Ready = (case m_get lb (ai_InstanceId i) of Some r \<Rightarrow> if ready then r else ready | None \<Rightarrow> ready),
       nd_Master = False\<rparr>)"

fun get_loop :: "'w asg_api \<Rightarrow> asg list \<Rightarrow> pool \<Rightarrow> ('w, pool) io" where
  "get_loop api [] p = ret p"
| "get_loop api (a # as) p =
     bindE (getInstancesToUpdate api a) (\<lambda>old.
     bindE (getLoadBalancerAttachedInstancesReadiness api a) (\<lambda>lb.
       get_loop api as (p\<lparr>pl_Min := pl_Min p + ag_MinSize a, pl_Max := pl_Max p + ag_MaxSize a,
         pl_Desired := pl_Desired p + ag_DesiredCapacity a,
         pl_Nodes := pl_Nodes p @ map (instance_node old lb) (ag_Instances a)\<rparr>)))"

definition asg_Get :: "'w asg_api \<Rightarrow> ('a) account_cluster_scheme \<Rightarrow> node_pool \<Rightarrow> ('w, pool) io" where
  "asg_Get api c np =
     bindE (getNodePoolASGs api c np) (\<lambda>asgs.
     bindE (get_loop api asgs \<lparr>pl_Min = 0, pl_Desired = 0, pl_Current = 0, pl_Max = 0,
              pl_Generation = currentNodeGeneration, pl_Nodes = []\<rparr>) (\<lambda>p.
     ret (p\<lparr>pl_Current := int (length (pl_Nodes p))\<rparr>)))"

section \<open>Scaling\<close>

definition inc_less :: "asg \<Rightarrow> asg \<Rightarrow> bool" where
  "inc_less i j = (if ag_DesiredCapacity i = 0 then False
     else if ag_DesiredCapacity j = 0 then True
     else ag_DesiredCapacity i < ag_DesiredCapacity j)"

definition dec_less :: "asg \<Rightarrow> asg \<Rightarrow> bool" where
  "dec_less i j \<longleftrightarrow> ag_DesiredCapacity i > ag_DesiredCapacity j"

text \<open>
  One pass of the labelled loops. The range variable is a copy of the element of the slice, so the
  assignment to its \<open>DesiredCapacity\<close> is lost at the end of the iteration; what remains of a pass is
  the counter. The flag says that the loop was left.
\<close>

fun adjust_pass :: "int \<Rightarrow> asg list \<Rightarrow> int \<Rightarrow> bool \<times> int" where
  "adjust_pass step [] diff = (False, diff)"
| "adjust_pass step (a # as) diff =
     (if 0 \<le> step * diff then (True, diff)
      else (let copy = a\<lparr>ag_DesiredCapacity := ag_DesiredCapacity a - step\<rparr> in adjust_pass step as (diff + step)))"

lemma adjust_pass_False:
  "adjust_pass step as diff = (False, d) \<Longrightarrow> as \<noteq> [] \<Longrightarrow> d = diff + step * int (length as) \<and> step * (d - step) < 0"
proof (induction as arbitrary: diff)
  case Nil
  then show ?case by simp
next
  case (Cons a as)
  then have neg: "step * diff < 0" and rest: "adjust_pass step as (diff + step) = (False, d)"
    by (auto split: if_splits)
  show ?case
  proof (cases "as = []")
    case True
    then show ?thesis using neg rest by auto
  next
    case False
    from Cons.IH [OF rest False] have "d = diff + step + step * int (length as)" "step * (d - step) < 0" by blast+
    moreover from this(1) have "d = diff + step * int (length (a # as))" by (simp add: algebra_simps)
    ultimately show ?thesis by (intro conjI)
  qed
qed

lemma adjust_pass_decreases:
  assumes "adjust_pass step as diff = (False, d)" "as \<noteq> []" "step = 1 \<or> step = -1"
  shows "nat \<bar>d\<bar> < nat \<bar>diff\<bar>"
proof -
  have "0 < int (length as)" using assms(2) by simp
  with adjust_pass_False [OF assms(1,2)] assms(3) show ?thesis by auto
qed

text \<open>The loop around the passes; \<open>None\<close> when it would never end.\<close>

function adjust_loop :: "int \<Rightarrow> asg list \<Rightarrow> int \<Rightarrow> int option" where
  "adjust_loop step as diff =
     (case adjust_pass step as diff of
        (True, d) \<Rightarrow> Some d
      | (False, d) \<Rightarrow> if as = [] \<or> (step \<noteq> 1 \<and> step \<noteq> -1) then None else adjust_loop step as d)"
  by pat_completeness auto
termination
  by (relation "measure (\<lambda>(step, as, diff). nat \<bar>diff\<bar>)") (auto dest!: adjust_pass_decreases [OF sym])

definition update_group :: "'w asg_api \<Rightarrow> asg \<Rightarrow> ('w, unit) io" where
  "update_group api a =
     aa_UpdateGroup api \<lparr>ua_Name = ag_Name a, ua_DesiredCapacity = Some (ag_DesiredCapacity a),
       ua_MinSize = Some (min (ag_DesiredCapacity a) (ag_MinSize a)),
       ua_MaxSize = Some (max (ag_DesiredCapacity a) (ag_MaxSize a))\<rparr>"

definition scale_groups :: "'w asg_api \<Rightarrow> asg list \<Rightarrow> int \<Rightarrow> ('w, unit) io" where
  "scale_groups api asgs replicas =
     (let diff = replicas - sum_list (map ag_DesiredCapacity asgs) in
      if diff = 0 then ret ()
      else (let sorted = (if diff > 0 then sort_by inc_less asgs else sort_by dec_less asgs) in
        case adjust_loop (if diff > 0 then -1 else 1) sorted diff of
          None \<Rightarrow> (\<lambda>w. (OutOfFuel, w))
        | Some _ \<Rightarrow> each (update_group api) sorted))"

definition asg_Scale :: "'w asg_api \<Rightarrow> ('a) account_cluster_scheme \<Rightarrow> node_pool \<Rightarrow> int \<Rightarrow> ('w, unit) io" where
  "asg_Scale api c np replicas = bindE (getNodePoolASGs api c np) (\<lambda>asgs. scale_groups api asgs replicas)"

section \<open>Decommissioning and termination\<close>

definition deleteTags :: "'w asg_api \<Rightarrow> ('a) account_cluster_scheme \<Rightarrow> node_pool \<Rightarrow> string gomap \<Rightarrow> ('w, unit) io" where
  "deleteTags api c np tags =
     bindE (getNodePoolASGs api c np) (\<lambda>asgs.
       each (\<lambda>a. aa_DeleteTags api (map (\<lambda>(k, v). (ag_Name a, k, v)) tags)) asgs)"

definition asg_MarkForDecommission :: "'w asg_api \<Rightarrow> ('a) account_cluster_scheme \<Rightarrow> node_pool \<Rightarrow> ('w, unit) io" where
  "asg_MarkForDecommission api c np =
     bindE (deleteTags api c np [(kubeAutoScalerEnabledTagKey, [])]) (\<lambda>_.
     bindE (getNodePoolASGs api c np) (\<lambda>asgs.
       each (\<lambda>a. if ag_MinSize a > 0
                 then aa_UpdateGroup api \<lparr>ua_Name = ag_Name a, ua_DesiredCapacity = None, ua_MinSize = Some 0, ua_MaxSize = None\<rparr>
                 else ret ()) asgs))"

definition instanceIDFromProviderID :: "string \<Rightarrow> string \<Rightarrow> string" where
  "instanceIDFromProviderID providerID az = trim_prefix providerID (''aws:///'' @ az @ ''/'')"

definition instanceState :: "'w asg_api \<Rightarrow> string \<Rightarrow> ('w, string) io" where
  "instanceState api i =
     bindE (aa_InstanceStatuses api i) (\<lambda>ss. ret (case ss of [] \<Rightarrow> ''terminated'' | s # _ \<Rightarrow> s))"

text \<open>The last page with the tag decides, in a page the first tag.\<close>

definition asg_name :: "(string \<times> string) list list \<Rightarrow> string" where
  "asg_name pages = fold (\<lambda>page name.
     case filter (\<lambda>(k, v). k = ec2AutoscalingGroupTagKey) page of [] \<Rightarrow> name | (k, v) # _ \<Rightarrow> v) pages []"

definition lower_min_size :: "'w asg_api \<Rightarrow> string \<Rightarrow> ('w, unit) io" where
  "lower_min_size api i =
     bindE (aa_DescribeTags api i ec2AutoscalingGroupTagKey) (\<lambda>pages.
       let name = asg_name pages in
       if name = []
       then fail (Errorf (''failed to get Autoscaling Group name from EC2 tags of instance '' @ [CHR 0x27] @ i @ [CHR 0x27]))
       else bindE (aa_DescribeGroups api [name]) (\<lambda>groups.
         case groups of
           [] \<Rightarrow> fail (Errorf (''failed to find ASG '' @ [CHR 0x27] @ name @ [CHR 0x27]))
         | a # _ \<Rightarrow>
             let newDesired = ag_DesiredCapacity a - 1; minSize = ag_MinSize a in
             if 0 \<le> newDesired \<and> 0 < minSize \<and> newDesired < minSize
             then aa_UpdateGroup api \<lparr>ua_Name = ag_Name a, ua_DesiredCapacity = None,
                    ua_MinSize = Some newDesired, ua_MaxSize = None\<rparr>
             else ret ()))"

definition terminate_attempt :: "'w asg_api \<Rightarrow> string \<Rightarrow> bool \<Rightarrow> ('w, unit) io" where
  "terminate_attempt api i decrementDesired =
     tryE (instanceState api i) (\<lambda>e. fail (Permanent e)) (\<lambda>state.
       if state = ''running''
       then bindE (aa_TerminateInstance api i decrementDesired) (\<lambda>_. fail (Errorf ''signalled instance to shutdown''))
       else if state = ''shutting-down'' \<or> state = ''stopping'' then fail (Errorf ''instance shutting down'')
       else if state = ''terminated'' \<or> state = ''stopped'' then ret ()
       else fail (Errorf (''unexpected instance state '' @ [CHR 0x27] @ state @ [CHR 0x27])))"

definition asg_Terminate :: "'w asg_api \<Rightarrow> node \<Rightarrow> bool \<Rightarrow> ('w, unit) io" where
  "asg_Terminate api n decrementDesired =
     (let i = instanceIDFromProviderID (nd_ProviderID n) (nd_FailureDomain n) in
      bindE (if decrementDesired then lower_min_size api i else ret ()) (\<lambda>_.
      aa_RetryFor api instanceTerminationRetryDuration (terminate_attempt api i decrementDesired)))"

definition asg_backend :: "'w asg_api \<Rightarrow> ('a) account_cluster_scheme \<Rightarrow> 'w backend" where
  "asg_backend api c = \<lparr>bk_Get = asg_Get api c, bk_Scale = asg_Scale api c,
     bk_MarkForDecommission = asg_MarkForDecommission api c, bk_Terminate = (\<lambda>np. asg_Terminate api)\<rparr>"

section \<open>Properties of scaling\<close>

lemma adjust_loop_ends:
  assumes "step = 1 \<or> step = -1" and "as \<noteq> []"
  shows "\<exists>d. adjust_loop step as diff = Some d"
  using assms
proof (induction step as diff rule: adjust_loop.induct)
  case (1 step as diff)
  then show ?case
    by (subst adjust_loop.simps) (auto split: prod.splits bool.splits simp del: adjust_loop.simps)
qed

declare adjust_loop.simps [simp del]

lemma sort_by_Nil_iff: "sort_by b xs = [] \<longleftrightarrow> xs = []"
  by (metis mset_sort_by mset_zero_iff)

lemma scale_groups_eq:
  assumes "asgs \<noteq> []"
  shows "scale_groups api asgs r =
    (if r = sum_list (map ag_DesiredCapacity asgs) then ret ()
     else each (update_group api) (if r > sum_list (map ag_DesiredCapacity asgs) then sort_by inc_less asgs else sort_by dec_less asgs))"
proof -
  have "\<exists>d. adjust_loop (if r > sum_list (map ag_DesiredCapacity asgs) then -1 else 1)
      (if r > sum_list (map ag_DesiredCapacity asgs) then sort_by inc_less asgs else sort_by dec_less asgs)
      (r - sum_list (map ag_DesiredCapacity asgs)) = Some d"
    using assms by (intro adjust_loop_ends) (auto simp: sort_by_Nil_iff)
  then show ?thesis by (auto simp: scale_groups_def Let_def)
qed

lemma getNodePoolASGs_nonempty: "getNodePoolASGs api c np w = (Ret asgs, w') \<Longrightarrow> asgs \<noteq> []"
  by (auto simp: getNodePoolASGs_def Let_def split: if_splits)

text \<open>
  Claim C29. Scaling a pool does not change its size: once the groups of the pool are read, the call
  either does nothing more or updates each of them, in some order, with the desired capacity it
  already has; the number of replicas asked for is never sent.
\<close>

theorem asg_Scale_never_changes_desired:
  assumes "getNodePoolASGs api c np w = (Ret asgs, w1)"
  shows "asg_Scale api c np replicas w = (Ret (), w1)
    \<or> (\<exists>perm. mset perm = mset asgs \<and>
         asg_Scale api c np replicas w = each (\<lambda>a. aa_UpdateGroup api \<lparr>ua_Name = ag_Name a,
           ua_DesiredCapacity = Some (ag_DesiredCapacity a),
           ua_MinSize = Some (min (ag_DesiredCapacity a) (ag_MinSize a)),
           ua_MaxSize = Some (max (ag_DesiredCapacity a) (ag_MaxSize a))\<rparr>) perm w1)"
proof -
  have eq: "asg_Scale api c np replicas w = scale_groups api asgs replicas w1"
    using assms by (simp add: asg_Scale_def bindE_def)
  have up: "update_group api = (\<lambda>a. aa_UpdateGroup api \<lparr>ua_Name = ag_Name a,
           ua_DesiredCapacity = Some (ag_DesiredCapacity a),
           ua_MinSize = Some (min (ag_DesiredCapacity a) (ag_MinSize a)),
           ua_MaxSize = Some (max (ag_DesiredCapacity a) (ag_MaxSize a))\<rparr>)"
    by (intro ext) (simp add: update_group_def)
  let ?perm = "if replicas > sum_list (map ag_DesiredCapacity asgs) then sort_by inc_less asgs else sort_by dec_less asgs"
  have "mset ?perm = mset asgs" by simp
  then show ?thesis
    unfolding eq scale_groups_eq [OF getNodePoolASGs_nonempty [OF assms]] up [symmetric]
    by (cases "replicas = sum_list (map ag_DesiredCapacity asgs)") (auto simp: ret_def)
qed

text \<open>
  An account with groups as its world; updating a group that exists writes the given fields.
\<close>

definition apply_update :: "update_asg \<Rightarrow> asg \<Rightarrow> asg" where
  "apply_update u a = (if ag_Name a = ua_Name u
     then a\<lparr>ag_DesiredCapacity := (case ua_DesiredCapacity u of None \<Rightarrow> ag_DesiredCapacity a | Some d \<Rightarrow> d),
            ag_MinSize := (case ua_MinSize u of None \<Rightarrow> ag_MinSize a | Some d \<Rightarrow> d),
            ag_MaxSize := (case ua_MaxSize u of None \<Rightarrow> ag_MaxSize a | Some d \<Rightarrow> d)\<rparr> else a)"

definition account_api :: "(asg list) asg_api" where
  "account_api = \<lparr>aa_DescribeGroups = (\<lambda>names w. (Ret w, w)), aa_UpdateGroup = (\<lambda>u w. (Ret (), map (apply_update u) w)),
     aa_DeleteTags = (\<lambda>_. ret ()), aa_DescribeTags = (\<lambda>_ _. ret []), aa_TerminateInstance = (\<lambda>_ _. ret ()),
     aa_InstanceStatuses = (\<lambda>_. ret []), aa_LaunchTemplateVersions = (\<lambda>_ _. ret []), aa_DescribeInstances = (\<lambda>_. ret []),
     aa_GroupLoadBalancers = (\<lambda>_. ret []), aa_LoadBalancerInstances = (\<lambda>_. ret []), aa_InstanceHealth = (\<lambda>_ _. ret []),
     aa_RetryFor = (\<lambda>_ op. op)\<rparr>"

definition sample_group :: asg where
  "sample_group = \<lparr>ag_Name = ''g'', ag_MinSize = 1, ag_MaxSize = 10, ag_DesiredCapacity = 3,
     ag_Tags = [(''kubernetes.io/cluster/aws:1:eu:kube'', ''owned''), (''NodePool'', ''p'')], ag_Instances = [],
     ag_MixedInstancesPolicy = None, ag_LaunchTemplate = Some (''lt'', ''1'')\<rparr>"

theorem asg_Scale_never_changes_desired_witness:
  "map ag_DesiredCapacity (snd (asg_Scale account_api sample_cluster
     \<lparr>np_DiscountStrategy = [], np_InstanceTypes = [], np_Name = ''p'', np_Profile = ''worker'', np_MinSize = 0,
      np_MaxSize = 10, np_ConfigItems = [], np_InstanceType = []\<rparr> 7 [sample_group])) = [3]"
proof -
  let ?np = "\<lparr>np_DiscountStrategy = [], np_InstanceTypes = [], np_Name = ''p'', np_Profile = ''worker'', np_MinSize = 0,
      np_MaxSize = 10, np_ConfigItems = [], np_InstanceType = []\<rparr>"
  have get: "getNodePoolASGs account_api sample_cluster ?np [sample_group] = (Ret [sample_group], [sample_group])"
    by (simp add: getNodePoolASGs_def bindE_def ret_def account_api_def asgHasAllTags_def sample_group_def
        cluster_Name_def sample_cluster_def clusterIDTagPrefix_def resourceLifecycleOwned_def nodePoolTagLegacy_def
        ZalandoEKSProvider_def)
  from asg_Scale_never_changes_desired [OF get, of 7] show ?thesis
    by (auto simp: account_api_def apply_update_def bindE_def sample_group_def)
qed

section \<open>Properties of the groups and their instances\<close>

lemma count_le_sum:
  fixes f :: "'b \<Rightarrow> nat"
  assumes "\<And>x. x \<in> set xs \<Longrightarrow> f x \<le> 1"
  shows "sum_list (map f xs) \<le> length xs \<and> (sum_list (map f xs) = length xs \<longleftrightarrow> (\<forall>x \<in> set xs. f x = 1))"
  using assms
proof (induction xs)
  case Nil
  then show ?case by simp
next
  case (Cons x xs)
  then have "f x \<le> 1" "sum_list (map f xs) \<le> length xs"
    "sum_list (map f xs) = length xs \<longleftrightarrow> (\<forall>x \<in> set xs. f x = 1)" by auto
  then show ?case by auto
qed

text \<open>
  With unique tag keys, which AWS guarantees, a group is taken for a pool exactly when it
  carries all the expected tags with their values.
\<close>

theorem asgHasAllTags_iff:
  assumes "distinct (map fst tags)" and "distinct expected"
  shows "asgHasAllTags expected tags \<longleftrightarrow> set expected \<subseteq> set tags"
proof -
  have dt: "distinct tags" using assms(1) by (simp add: distinct_map)
  have cnt: "length (filter (\<lambda>t. t = e) tags) = (if e \<in> set tags then 1 else 0)" for e
    using dt by (induction tags) auto
  have all: "sum_list (map (\<lambda>e. length (filter (\<lambda>t. t = e) tags)) expected) = length expected
      \<longleftrightarrow> (\<forall>e \<in> set expected. e \<in> set tags)"
    using count_le_sum [of expected "\<lambda>e. length (filter (\<lambda>t. t = e) tags)"] cnt by auto
  have "length expected \<le> length tags" if "set expected \<subseteq> set tags"
    using that assms(2) dt by (metis card_mono distinct_card finite_set)
  then show ?thesis using all by (auto simp: asgHasAllTags_def)
qed

theorem asgHasAllTags_iff_witness:
  "asgHasAllTags [(''a'', ''1'')] [(''b'', ''2''), (''a'', ''1'')] \<longleftrightarrow> set [(''a'', ''1'')] \<subseteq> set [(''b'', ''2''), (''a'', ''1'')]"
  by (rule asgHasAllTags_iff) simp_all

lemma other_template_spec:
  "other_template lp is = Some old \<Longrightarrow>
     set old = {ai_InstanceId i | i. i \<in> set is \<and> ai_LaunchTemplate i \<noteq> Some (lp_TemplateName lp, lp_TemplateVersion lp)}"
proof (induction "is" arbitrary: old)
  case (Cons i "is")
  then obtain rest where "other_template lp is = Some rest" "set old = set rest \<union>
      (if ai_LaunchTemplate i \<noteq> Some (lp_TemplateName lp, lp_TemplateVersion lp) then {ai_InstanceId i} else {})"
    by (fastforce split: option.splits if_splits)
  then show ?case using Cons.IH by auto
qed simp

text \<open>
  The instances reported as outdated are exactly those started from another launch
  template or version than the group has now, and those whose type the group does not use or whose
  spot or on-demand lifecycle differs; groups with a floating template version are rejected.
\<close>

theorem getInstancesToUpdate_spec:
  assumes "getInstancesToUpdate api a w = (Ret old, w')" and "ag_Instances a \<noteq> []"
  shows "\<exists>lp w1 described. launch_params api a w = (Ret lp, w1)
    \<and> aa_DescribeInstances api (map ai_InstanceId (ag_Instances a)) w1 = (Ret described, w')
    \<and> lp_TemplateName lp \<noteq> [] \<and> lp_TemplateVersion lp \<noteq> [] \<and> \<not> has_prefix (lp_TemplateVersion lp) ''$''
    \<and> set old = {ai_InstanceId i | i. i \<in> set (ag_Instances a)
           \<and> ai_LaunchTemplate i \<noteq> Some (lp_TemplateName lp, lp_TemplateVersion lp)}
        \<union> {ei_InstanceId i | i. i \<in> set described
           \<and> (ei_InstanceType i \<notin> set (lp_InstanceTypes lp) \<or> ei_Spot i \<noteq> lp_Spot lp)}"
proof -
  obtain lp w1 where lp: "launch_params api a w = (Ret lp, w1)" using assms by (auto simp: getInstancesToUpdate_def)
  have ok: "lp_TemplateName lp \<noteq> []" "lp_TemplateVersion lp \<noteq> []" "\<not> has_prefix (lp_TemplateVersion lp) ''$''"
    using assms lp by (auto simp: getInstancesToUpdate_def bindE_def fail_def split: if_splits)
  then obtain old1 where o: "other_template lp (ag_Instances a) = Some old1"
    using assms lp by (auto simp: getInstancesToUpdate_def bindE_def split: option.splits)
  have run: "tryE (aa_DescribeInstances api (map ai_InstanceId (ag_Instances a)))
     (\<lambda>e. fail (Errorf (''unable to fetch instance information for ASG '' @ ag_Name a @ '': '' @ error_text e)))
     (\<lambda>is. ret (old1 @ map ei_InstanceId
        (filter (\<lambda>i. ei_InstanceType i \<notin> set (lp_InstanceTypes lp) \<or> ei_Spot i \<noteq> lp_Spot lp) is))) w1 = (Ret old, w')"
    using assms lp ok o by (simp add: getInstancesToUpdate_def bindE_def)
  from run obtain described where "aa_DescribeInstances api (map ai_InstanceId (ag_Instances a)) w1 = (Ret described, w')"
    "old = old1 @ map ei_InstanceId (filter (\<lambda>i. ei_InstanceType i \<notin> set (lp_InstanceTypes lp) \<or> ei_Spot i \<noteq> lp_Spot lp) described)"
    by (cases rule: tryE_cases) auto
  then show ?thesis using lp ok other_template_spec [OF o]
    by (intro exI [of _ lp] exI [of _ w1] exI [of _ described]) auto
qed

theorem getInstancesToUpdate_spec_witness:
  "\<exists>lp w1. launch_params (account_api\<lparr>aa_LaunchTemplateVersions := (\<lambda>_ _. ret [(''m5.large'', False)])\<rparr>)
     (sample_group\<lparr>ag_Instances := [\<lparr>ai_InstanceId = ''i'', ai_AvailabilityZone = ''a'', ai_HealthStatus = ''Healthy'',
        ai_LifecycleState = ''InService'', ai_LaunchTemplate = Some (''lt'', ''0'')\<rparr>]\<rparr>) [] = (Ret lp, w1)"
proof -
  let ?api = "account_api\<lparr>aa_LaunchTemplateVersions := (\<lambda>_ _. ret [(''m5.large'', False)])\<rparr>"
  let ?a = "sample_group\<lparr>ag_Instances := [\<lparr>ai_InstanceId = ''i'', ai_AvailabilityZone = ''a'', ai_HealthStatus = ''Healthy'',
        ai_LifecycleState = ''InService'', ai_LaunchTemplate = Some (''lt'', ''0'')\<rparr>]\<rparr>"
  have run: "getInstancesToUpdate ?api ?a [] = (Ret [''i''], [])"
    by (simp add: getInstancesToUpdate_def launch_params_def bindE_def tryE_def ret_def account_api_def sample_group_def
        has_prefix_def)
  have "ag_Instances ?a \<noteq> []" by simp
  from getInstancesToUpdate_spec [OF run this] show ?thesis by blast
qed

end
