(* ===== verification/EC2_Backend.thy ===== *)
theory EC2_Backend
  imports ASG_Backend
begin

text \<open>
  The node pool backend on single EC2 instances that Karpenter starts
  (\<open>pkg/updatestrategy/aws_ec2.go\<close>): the generation of a node from its instance configuration or from
  the drift of its node claim, and the termination of the nodes of a pool. The AWS SDK, the
  Kubernetes client, the names of Karpenter's labels and annotations, base64 and the retry helper
  are fields of a record of the outside.
\<close>

section \<open>Data\<close>

record instance_config =
  ic_UserData :: string
  ic_ImageID :: string
  ic_Tags :: "string gomap"

record karpenter_instance =
  xi_InstanceId :: string
  xi_ImageId :: string
  xi_State :: string
  xi_AvailabilityZone :: string
  xi_Tags :: "(string \<times> string) list"

record node_class =
  nk_Annotations :: "string gomap"
  nk_AMISelectorIDs :: "string list"
  nk_Tags :: "string gomap"
  nk_UserData :: "string option"

definition zero_node_class :: node_class where
  "zero_node_class = \<lparr>nk_Annotations = [], nk_AMISelectorIDs = [], nk_Tags = [], nk_UserData = None\<rparr>"

record karp_node_pool =
  kp_Annotations :: "string gomap"
  kp_NodeClassRef :: string

record node_claim =
  nc_Name :: string
  nc_Annotations :: "string gomap"
  nc_Drifted :: bool
  nc_NodeName :: string

record k8s_node =
  k8_Name :: string
  k8_ProviderID :: string
  k8_Labels :: "string gomap"
  k8_OwnerReferences :: "(string \<times> string) list"

type_synonym ec2_filter = "string \<times> string list"

text \<open>
  The outside. \<open>ex_DescribeInstances\<close> gives the instances of all pages; a lookup of an absent object
  fails with a status error \<open>NotFound\<close>.
\<close>

record 'w ec2_api =
  ex_DescribeInstances :: "ec2_filter list \<Rightarrow> ('w, karpenter_instance list) io"
  ex_UserData :: "string \<Rightarrow> ('w, string) io"
  ex_TerminateInstances :: "string list \<Rightarrow> ('w, unit) io"
  ex_GetNodePool :: "string \<Rightarrow> ('w, karp_node_pool) io"
  ex_GetNodeClass :: "string \<Rightarrow> ('w, node_class) io"
  ex_ListNodes :: "string \<times> string \<Rightarrow> ('w, k8s_node list) io"
  ex_ListNodeClaims :: "string \<times> string \<Rightarrow> ('w, node_claim list) io"
  ex_Retry :: "('w, node_class) io \<Rightarrow> ('w, node_class) io"
  ex_Base64 :: "string \<Rightarrow> string"
  ex_Render :: "node_pool \<Rightarrow> string"
  ex_Format :: "ec2_filter list \<Rightarrow> string"
  ex_NodePoolLabelKey :: string
  ex_NodePoolHash :: string
  ex_NodePoolHashVersion :: string
  ex_NodeClassHash :: string
  ex_NodeClassHashVersion :: string

definition nodePoolTag :: string where "nodePoolTag = ''node.kubernetes.io/node-pool''"
definition LabelTopologyZone :: string where "LabelTopologyZone = ''topology.kubernetes.io/zone''"

section \<open>Instances\<close>

definition InstanceConfigUpToDate :: "instance_config \<Rightarrow> instance_config \<Rightarrow> bool" where
  "InstanceConfigUpToDate i p =
     (if ic_UserData i \<noteq> ic_UserData p then False
      else if ic_ImageID i \<notin> set (split_on (CHR '','') (ic_ImageID p)) then False
      else list_all (\<lambda>(k, v). m_get (ic_Tags i) k = Some v) (ic_Tags p))"

definition filterWithNodePool :: "('a) account_cluster_scheme \<Rightarrow> node_pool \<Rightarrow> ec2_filter list" where
  "filterWithNodePool c np =
     [(''tag:'' @ clusterIDTagPrefix @ cluster_Name c, [resourceLifecycleOwned]),
      (''tag:'' @ nodePoolTag, [np_Name np])]"

definition getInstances :: "'w ec2_api \<Rightarrow> ec2_filter list \<Rightarrow> ('w, karpenter_instance list) io" where
  "getInstances x fs =
     bindE (ex_DescribeInstances x fs) (\<lambda>is.
       ret (filter (\<lambda>i. xi_State i = ''running'' \<or> xi_State i = ''pending'' \<or> xi_State i = ''stopped'') is))"

definition getInstanceConfig :: "'w ec2_api \<Rightarrow> karpenter_instance \<Rightarrow> ('w, instance_config) io" where
  "getInstanceConfig x i =
     bindE (ex_UserData x (xi_InstanceId i)) (\<lambda>u.
       ret \<lparr>ic_UserData = u, ic_ImageID = xi_ImageId i,
            ic_Tags = fold (\<lambda>(k, v). m_put k v) (xi_Tags i) []\<rparr>)"

definition getAMIsFromSpec :: "node_class \<Rightarrow> string" where
  "getAMIsFromSpec k = join_with '','' (filter (\<lambda>i. i \<noteq> []) (nk_AMISelectorIDs k))"

definition class_config :: "'w ec2_api \<Rightarrow> node_class \<Rightarrow> instance_config" where
  "class_config x k = \<lparr>ic_UserData = ex_Base64 x (case nk_UserData k of None \<Rightarrow> [] | Some u \<Rightarrow> u),
     ic_ImageID = getAMIsFromSpec k, ic_Tags = nk_Tags k\<rparr>"

definition NodePoolConfigGetter :: "'w ec2_api \<Rightarrow> node_pool \<Rightarrow> ('w, instance_config) io" where
  "NodePoolConfigGetter x np =
     bindE (ex_Retry x (tryE (ex_GetNodeClass x (np_Name np))
              (\<lambda>e. if IsNotFound e then ret zero_node_class else fail e) ret))
       (\<lambda>k. ret (class_config x k))"

definition plain_node :: "string \<Rightarrow> string \<Rightarrow> int \<Rightarrow> node" where
  "plain_node provider domain gen = \<lparr>nd_Name = [], nd_Annotations = [], nd_Labels = [], nd_Taints = [],
     nd_Cordoned = False, nd_ProviderID = provider, nd_FailureDomain = domain, nd_Generation = gen,
     nd_VolumesAttached = False, nd_Ready = False, nd_Master = False\<rparr>"

definition current_pool :: "node list \<Rightarrow> pool" where
  "current_pool nodes = \<lparr>pl_Min = 0, pl_Desired = 0, pl_Current = 0, pl_Max = 0,
     pl_Generation = currentNodeGeneration, pl_Nodes = nodes\<rparr>"

fun instance_nodes :: "'w ec2_api \<Rightarrow> instance_config \<Rightarrow> karpenter_instance list \<Rightarrow> ('w, node list) io" where
  "instance_nodes x pc [] = ret []"
| "instance_nodes x pc (i # is) =
     tryE (getInstanceConfig x i)
       (\<lambda>e. fail (Wrapf (''failed to get instance config for instance '' @ quoted (xi_InstanceId i)) e))
       (\<lambda>ic. bindE (instance_nodes x pc is) (\<lambda>ns.
          ret (plain_node (''aws:///'' @ xi_AvailabilityZone i @ ''/'' @ xi_InstanceId i) (xi_AvailabilityZone i)
                 (if InstanceConfigUpToDate ic pc then currentNodeGeneration else outdatedNodeGeneration) # ns)))"

section \<open>Node claims\<close>

definition hasHashMismatch :: "string gomap \<Rightarrow> string gomap \<Rightarrow> string \<Rightarrow> string \<Rightarrow> bool" where
  "hasHashMismatch claim source hashKey versionKey =
     (case (m_get source hashKey, m_get claim hashKey) of
        (Some desired, Some observed) \<Rightarrow>
          if desired = [] \<or> observed = [] then False
          else if desired \<noteq> observed then True
          else (case (m_get source versionKey, m_get claim versionKey) of
                  (Some v, Some v') \<Rightarrow> v \<noteq> v'
                | _ \<Rightarrow> False)
      | _ \<Rightarrow> False)"

definition isNodeClaimBehindObservedTemplates :: "'w ec2_api \<Rightarrow> node_claim \<Rightarrow> karp_node_pool \<Rightarrow> string gomap \<Rightarrow> bool" where
  "isNodeClaimBehindObservedTemplates x c p annotations \<longleftrightarrow>
     hasHashMismatch (nc_Annotations c) (kp_Annotations p) (ex_NodePoolHash x) (ex_NodePoolHashVersion x)
     \<or> hasHashMismatch (nc_Annotations c) annotations (ex_NodeClassHash x) (ex_NodeClassHashVersion x)"

fun nodeClaimDriftMaps :: "'w ec2_api \<Rightarrow> node_claim list \<Rightarrow> karp_node_pool option \<Rightarrow> string gomap
    \<Rightarrow> bool gomap \<times> bool gomap \<Rightarrow> bool gomap \<times> bool gomap" where
  "nodeClaimDriftMaps x [] p an maps = maps"
| "nodeClaimDriftMaps x (c # cs) p an (byClaim, byNode) =
     (let drifted = (nc_Drifted c
            \<or> (case p of Some pool \<Rightarrow> isNodeClaimBehindObservedTemplates x c pool an | None \<Rightarrow> False)) in
      if \<not> drifted then nodeClaimDriftMaps x cs p an (byClaim, byNode)
      else if nc_NodeName c = [] then nodeClaimDriftMaps x cs p an (m_put (nc_Name c) True byClaim, byNode)
      else nodeClaimDriftMaps x cs p an (m_put (nc_Name c) True byClaim, m_put (nc_NodeName c) True byNode))"

fun nodeClaimNameFromOwnerReferences :: "(string \<times> string) list \<Rightarrow> string option" where
  "nodeClaimNameFromOwnerReferences [] = None"
| "nodeClaimNameFromOwnerReferences ((kind, name) # rs) =
     (if kind = ''NodeClaim'' \<and> name \<noteq> [] then Some name else nodeClaimNameFromOwnerReferences rs)"

definition nodeFailureDomain :: "k8s_node \<Rightarrow> string" where
  "nodeFailureDomain n =
     (case m_get (k8_Labels n) LabelTopologyZone of
        Some d \<Rightarrow> d
      | None \<Rightarrow> (case m_get (k8_Labels n) ''failure-domain.beta.kubernetes.io/zone'' of Some d \<Rightarrow> d | None \<Rightarrow> []))"

definition m_true :: "bool gomap \<Rightarrow> string \<Rightarrow> bool" where
  "m_true m k \<longleftrightarrow> m_get m k = Some True"

definition claim_node :: "bool gomap \<Rightarrow> bool gomap \<Rightarrow> k8s_node \<Rightarrow> node" where
  "claim_node byClaim byNode n = plain_node (k8_ProviderID n) (nodeFailureDomain n)
     (if m_true byNode (k8_Name n) then outdatedNodeGeneration
      else (case nodeClaimNameFromOwnerReferences (k8_OwnerReferences n) of
              Some c \<Rightarrow> if m_true byClaim c then outdatedNodeGeneration else currentNodeGeneration
            | None \<Rightarrow> currentNodeGeneration))"

definition GetUsingKubernetesObjects :: "'w ec2_api \<Rightarrow> node_pool \<Rightarrow> ('w, pool) io" where
  "GetUsingKubernetesObjects x np =
     tryE (ex_GetNodePool x (np_Name np))
       (\<lambda>e. fail (Wrapf (''failed to get Karpenter NodePool '' @ quoted (np_Name np)) e)) (\<lambda>p.
     let className = (if kp_NodeClassRef p = [] then np_Name np else kp_NodeClassRef p) in
     tryE (ex_GetNodeClass x className)
       (\<lambda>e. fail (Wrapf (''failed to get Karpenter EC2NodeClass '' @ quoted className) e)) (\<lambda>k.
     tryE (ex_ListNodes x (nodePoolTag, np_Name np))
       (\<lambda>e. fail (Wrapf ''failed to list Kubernetes Nodes of the node pool'' e)) (\<lambda>nodes.
     tryE (ex_ListNodeClaims x (ex_NodePoolLabelKey x, np_Name np))
       (\<lambda>e. fail (Wrapf ''failed to list Karpenter NodeClaims of the node pool'' e)) (\<lambda>claims.
     let (byClaim, byNode) = nodeClaimDriftMaps x claims (Some p) (nk_Annotations k) ([], []) in
     ret (current_pool (map (claim_node byClaim byNode) (filter (\<lambda>n. k8_ProviderID n \<noteq> []) nodes)))))))"

section \<open>The backend\<close>

definition uses_drift_detection :: "node_pool \<Rightarrow> bool" where
  "uses_drift_detection np \<longleftrightarrow> (case m_get (np_ConfigItems np) ''karpenter_ami_family_alias'' of
     Some alias \<Rightarrow> has_prefix alias ''bottlerocket'' \<or> has_prefix alias ''al2023''
   | None \<Rightarrow> False)"

definition ec2_Get :: "'w ec2_api \<Rightarrow> ('a) account_cluster_scheme \<Rightarrow> node_pool \<Rightarrow> ('w, pool) io" where
  "ec2_Get x c np =
     (if uses_drift_detection np then GetUsingKubernetesObjects x np
      else
        tryE (getInstances x (filterWithNodePool c np))
          (\<lambda>e. fail (Wrapf ''failed to list EC2 instances of the node pool'' e)) (\<lambda>is.
        tryE (NodePoolConfigGetter x np)
          (\<lambda>e. fail (Wrapf (''failed to get nodePool config for pool '' @ quoted (np_Name np)) e)) (\<lambda>pc.
        bindE (instance_nodes x pc is) (\<lambda>ns. ret (current_pool ns)))))"

definition ec2_Terminate :: "'w ec2_api \<Rightarrow> node_pool \<Rightarrow> node \<Rightarrow> bool \<Rightarrow> ('w, unit) io" where
  "ec2_Terminate x np n decrementDesired =
     tryE (ex_TerminateInstances x [instanceIDFromProviderID (nd_ProviderID n) (nd_FailureDomain n)])
       (\<lambda>e. fail (Wrapf (''failed to terminate EC2 instances of the node pool '' @ [CHR 0x27] @ ex_Render x np @ [CHR 0x27]) e))
       ret"

definition ec2_backend :: "'w ec2_api \<Rightarrow> ('a) account_cluster_scheme \<Rightarrow> 'w backend" where
  "ec2_backend x c = \<lparr>bk_Get = ec2_Get x c, bk_Scale = (\<lambda>_ _. ret ()),
     bk_MarkForDecommission = (\<lambda>_. ret ()), bk_Terminate = ec2_Terminate x\<rparr>"

text \<open>The wait for the end of all instances; it polls until the context is done.\<close>

fun await_termination :: "nat \<Rightarrow> 'w env \<Rightarrow> 'w ec2_api \<Rightarrow> ec2_filter list \<Rightarrow> ('w, unit) io" where
  "await_termination 0 e x fs = (\<lambda>w. (OutOfFuel, w))"
| "await_termination (Suc k) e x fs =
     tryE (wait e (15 * second))
       (\<lambda>err. fail (Wrapf ''context cancelled while waiting for instance termination'' err)) (\<lambda>_.
     tryE (getInstances x fs)
       (\<lambda>err. fail (Wrapf ''failed to list EC2 instances of the node pool'' err)) (\<lambda>is.
     if is = [] then ret () else await_termination k e x fs))"

definition decommission :: "nat \<Rightarrow> 'w env \<Rightarrow> 'w ec2_api \<Rightarrow> ec2_filter list \<Rightarrow> ('w, unit) io" where
  "decommission fuel e x fs =
     tryE (getInstances x fs) (\<lambda>err. fail (Wrapf ''failed to list EC2 instances of the node pool'' err)) (\<lambda>is.
     if length is = 0 then ret ()
     else tryE (ex_TerminateInstances x (map xi_InstanceId is))
       (\<lambda>err. fail (Wrapf (''failed to terminate EC2 instances of the filters '' @ [CHR 0x27] @ ex_Format x fs @ [CHR 0x27]) err))
       (\<lambda>_. await_termination fuel e x fs))"

definition DecommissionNodePool :: "nat \<Rightarrow> 'w env \<Rightarrow> 'w ec2_api \<Rightarrow> ('a) account_cluster_scheme \<Rightarrow> node_pool \<Rightarrow> ('w, unit) io" where
  "DecommissionNodePool fuel e x c np = decommission fuel e x (filterWithNodePool c np)"

definition DecommissionKarpenterNodes :: "nat \<Rightarrow> 'w env \<Rightarrow> 'w ec2_api \<Rightarrow> ('a) account_cluster_scheme \<Rightarrow> ('w, unit) io" where
  "DecommissionKarpenterNodes fuel e x c = decommission fuel e x
     [(''tag:'' @ clusterIDTagPrefix @ cluster_Name c, [resourceLifecycleOwned]), (''tag-key'', [ex_NodePoolLabelKey x])]"

section \<open>Which nodes are outdated\<close>

lemma getAMIsFromSpec_split:
  assumes "\<And>i. i \<in> set (nk_AMISelectorIDs k) \<Longrightarrow> CHR '','' \<notin> set i" and "ami \<noteq> []"
  shows "ami \<in> set (split_on (CHR '','') (getAMIsFromSpec k)) \<longleftrightarrow> ami \<in> set (nk_AMISelectorIDs k)"
proof (cases "filter (\<lambda>i. i \<noteq> []) (nk_AMISelectorIDs k) = []")
  case True
  then have "ami \<notin> set (nk_AMISelectorIDs k)" using assms(2) by (auto simp: filter_empty_conv)
  then show ?thesis using True assms(2) by (simp add: getAMIsFromSpec_def)
next
  case False
  have "split_on (CHR '','') (getAMIsFromSpec k) = filter (\<lambda>i. i \<noteq> []) (nk_AMISelectorIDs k)"
    unfolding getAMIsFromSpec_def using assms(1) by (intro split_join False) auto
  then show ?thesis using assms(2) by simp
qed

text \<open>What it means that an instance matches a node class.\<close>

definition matches_class :: "'w ec2_api \<Rightarrow> node_class \<Rightarrow> karpenter_instance \<Rightarrow> string \<Rightarrow> bool" where
  "matches_class x k i userData \<longleftrightarrow>
     userData = ex_Base64 x (case nk_UserData k of None \<Rightarrow> [] | Some u \<Rightarrow> u)
     \<and> xi_ImageId i \<in> set (nk_AMISelectorIDs k)
     \<and> set (nk_Tags k) \<subseteq> set (xi_Tags i)"

lemma tags_get:
  assumes "distinct (map fst ts)"
  shows "m_get (fold (\<lambda>(k, v). m_put k v) ts []) key = Some v \<longleftrightarrow> (key, v) \<in> set ts"
proof -
  have "distinct (map fst (rev ts))" using assms by (simp add: rev_map [symmetric])
  from map_of_eq_Some_iff [OF this] have "m_get (rev ts) key = Some v \<longleftrightarrow> (key, v) \<in> set ts" by simp
  then show ?thesis by (auto simp: fold_put_get split: option.splits)
qed

definition usable_instance :: "karpenter_instance \<Rightarrow> bool" where
  "usable_instance i \<longleftrightarrow> xi_ImageId i \<noteq> [] \<and> distinct (map fst (xi_Tags i))"

lemma up_to_date_iff_matches:
  assumes "\<And>a. a \<in> set (nk_AMISelectorIDs k) \<Longrightarrow> CHR '','' \<notin> set a" and "usable_instance i"
  shows "InstanceConfigUpToDate \<lparr>ic_UserData = u, ic_ImageID = xi_ImageId i,
            ic_Tags = fold (\<lambda>(k, v). m_put k v) (xi_Tags i) []\<rparr> (class_config x k) \<longleftrightarrow> matches_class x k i u"
  using assms getAMIsFromSpec_split [of k "xi_ImageId i"] tags_get [of "xi_Tags i"]
  by (auto simp: InstanceConfigUpToDate_def class_config_def matches_class_def usable_instance_def list_all_iff)

lemma instance_nodes_spec:
  assumes "instance_nodes x (class_config x k) is w = (Ret ns, w')"
    and "\<And>a. a \<in> set (nk_AMISelectorIDs k) \<Longrightarrow> CHR '','' \<notin> set a"
    and "\<And>i. i \<in> set is \<Longrightarrow> usable_instance i"
  shows "list_all2 (\<lambda>i n. \<exists>u v v'. ex_UserData x (xi_InstanceId i) v = (Ret u, v')
     \<and> n = plain_node (''aws:///'' @ xi_AvailabilityZone i @ ''/'' @ xi_InstanceId i) (xi_AvailabilityZone i)
             (if matches_class x k i u then currentNodeGeneration else outdatedNodeGeneration)) is ns"
  using assms(1,3)
proof (induction "is" arbitrary: w ns)
  case (Cons i "is")
  from Cons.prems(1) obtain u w1 rest where u: "ex_UserData x (xi_InstanceId i) w = (Ret u, w1)"
    and rest: "instance_nodes x (class_config x k) is w1 = (Ret rest, w')"
    and ns: "ns = plain_node (''aws:///'' @ xi_AvailabilityZone i @ ''/'' @ xi_InstanceId i) (xi_AvailabilityZone i)
       (if InstanceConfigUpToDate \<lparr>ic_UserData = u, ic_ImageID = xi_ImageId i,
            ic_Tags = fold (\<lambda>(k, v). m_put k v) (xi_Tags i) []\<rparr> (class_config x k)
        then currentNodeGeneration else outdatedNodeGeneration) # rest"
    by (auto simp: getInstanceConfig_def elim!: tryE_cases)
  have "usable_instance i" using Cons.prems(2) by simp
  note up_to_date_iff_matches [OF assms(2) this, where u = u and x = x]
  then show ?case using Cons.IH [OF rest] Cons.prems(2) u ns by auto
qed simp

text \<open>
  Claim C26. Without drift detection a node of a Karpenter pool is current exactly when its
  instance runs one of the images the node class lists, has the encoded user data of the node class
  and carries all its tags; there is one node for every instance that has not been terminated. The
  node class is the one with the name of the pool as the API server gave it; only when the server
  answered that there is none it is the empty one, which no instance matches. The hypotheses: image
  identifiers hold no comma, a success of the retry helper is the success of one of its attempts, and
  AWS gives every instance an image and distinct tags.
\<close>

theorem ec2_Get_generations:
  assumes "ec2_Get x c np w = (Ret p, w')" and "\<not> uses_drift_detection np"
    and amis: "\<And>v k v' a. ex_GetNodeClass x (np_Name np) v = (Ret k, v') \<Longrightarrow> a \<in> set (nk_AMISelectorIDs k) \<Longrightarrow> CHR '','' \<notin> set a"
    and retry: "\<And>m v k v'. ex_Retry x m v = (Ret k, v') \<Longrightarrow> \<exists>u u'. m u = (Ret k, u')"
    and instances: "\<And>v is v' i. ex_DescribeInstances x (filterWithNodePool c np) v = (Ret is, v') \<Longrightarrow> i \<in> set is \<Longrightarrow> usable_instance i"
  shows "\<exists>is all w1 k. ex_DescribeInstances x (filterWithNodePool c np) w = (Ret all, w1)
     \<and> is = filter (\<lambda>i. xi_State i \<in> {''running'', ''pending'', ''stopped''}) all
     \<and> ((\<exists>v v'. ex_GetNodeClass x (np_Name np) v = (Ret k, v'))
          \<or> k = zero_node_class \<and> (\<exists>v e v'. ex_GetNodeClass x (np_Name np) v = (Fail e, v') \<and> IsNotFound e))
     \<and> list_all2 (\<lambda>i n. \<exists>u v v'. ex_UserData x (xi_InstanceId i) v = (Ret u, v')
         \<and> n = plain_node (''aws:///'' @ xi_AvailabilityZone i @ ''/'' @ xi_InstanceId i) (xi_AvailabilityZone i)
                 (if matches_class x k i u then currentNodeGeneration else outdatedNodeGeneration)) is (pl_Nodes p)"
proof -
  from assms(1,2) obtain "is" w1 pc w2 ns where g: "getInstances x (filterWithNodePool c np) w = (Ret is, w1)"
    and pc: "NodePoolConfigGetter x np w1 = (Ret pc, w2)" and ns: "instance_nodes x pc is w2 = (Ret ns, w')"
    and p: "p = current_pool ns"
    by (auto simp: ec2_Get_def elim!: tryE_cases)
  from g obtain all where all: "ex_DescribeInstances x (filterWithNodePool c np) w = (Ret all, w1)"
    and is_def: "is = filter (\<lambda>i. xi_State i \<in> {''running'', ''pending'', ''stopped''}) all"
    by (auto simp: getInstances_def)
  from pc obtain k u u' where pck: "pc = class_config x k"
    and k: "tryE (ex_GetNodeClass x (np_Name np)) (\<lambda>e. if IsNotFound e then ret zero_node_class else fail e) ret u = (Ret k, u')"
    using retry unfolding NodePoolConfigGetter_def by (auto; blast)
  from k have src: "(\<exists>v v'. ex_GetNodeClass x (np_Name np) v = (Ret k, v'))
      \<or> k = zero_node_class \<and> (\<exists>v e v'. ex_GetNodeClass x (np_Name np) v = (Fail e, v') \<and> IsNotFound e)"
  proof (cases rule: tryE_cases)
    case (err e v')
    then have "IsNotFound e" "k = zero_node_class" by (auto split: if_splits)
    with err(1) show ?thesis by blast
  qed auto
  then have "CHR '','' \<notin> set a" if "a \<in> set (nk_AMISelectorIDs k)" for a
    using that amis by (auto simp: zero_node_class_def)
  moreover have "usable_instance i" if "i \<in> set is" for i using that instances [OF all] is_def by auto
  ultimately have "list_all2 (\<lambda>i n. \<exists>u v v'. ex_UserData x (xi_InstanceId i) v = (Ret u, v')
     \<and> n = plain_node (''aws:///'' @ xi_AvailabilityZone i @ ''/'' @ xi_InstanceId i) (xi_AvailabilityZone i)
             (if matches_class x k i u then currentNodeGeneration else outdatedNodeGeneration)) is (pl_Nodes p)"
    using instance_nodes_spec [OF ns [unfolded pck]] by (simp add: p current_pool_def)
  with all is_def src show ?thesis by blast
qed

definition sample_ec2 :: "nat ec2_api" where
  "sample_ec2 = \<lparr>ex_DescribeInstances = (\<lambda>_ n. (Ret (replicate n \<lparr>xi_InstanceId = ''i-1'', xi_ImageId = ''ami-1'',
       xi_State = ''running'', xi_AvailabilityZone = ''a'', xi_Tags = [(''t'', ''1'')]\<rparr>), n)),
     ex_UserData = (\<lambda>_. ret ''data''), ex_TerminateInstances = (\<lambda>_. ret ()),
     ex_GetNodePool = (\<lambda>_. ret \<lparr>kp_Annotations = [(''h'', ''2'')], kp_NodeClassRef = []\<rparr>),
     ex_GetNodeClass = (\<lambda>_. ret \<lparr>nk_Annotations = [], nk_AMISelectorIDs = [''ami-0'', ''ami-1''], nk_Tags = [(''t'', ''1'')],
       nk_UserData = Some ''data''\<rparr>),
     ex_ListNodes = (\<lambda>_. ret [\<lparr>k8_Name = ''n1'', k8_ProviderID = ''aws:///a/i-1'', k8_Labels = [], k8_OwnerReferences = []\<rparr>]),
     ex_ListNodeClaims = (\<lambda>_. ret [\<lparr>nc_Name = ''c1'', nc_Annotations = [(''h'', ''1'')], nc_Drifted = False, nc_NodeName = ''n1''\<rparr>]),
     ex_Retry = (\<lambda>m. m), ex_Base64 = (\<lambda>s. s), ex_Render = np_Name, ex_Format = (\<lambda>_. []),
     ex_NodePoolLabelKey = ''karpenter.sh/nodepool'', ex_NodePoolHash = ''h'', ex_NodePoolHashVersion = ''hv'',
     ex_NodeClassHash = ''c'', ex_NodeClassHashVersion = ''cv''\<rparr>"

definition karpenter_pool :: node_pool where
  "karpenter_pool = \<lparr>np_DiscountStrategy = ''none'', np_InstanceTypes = [''m5.large''], np_Name = ''p'',
     np_Profile = ''worker-karpenter'', np_MinSize = 0, np_MaxSize = 5, np_ConfigItems = [], np_InstanceType = ''m5.large''\<rparr>"

theorem ec2_Get_generations_witness:
  "\<exists>(is::karpenter_instance list) all w1 k. ex_DescribeInstances sample_ec2 (filterWithNodePool sample_cluster karpenter_pool) (Suc 0) = (Ret all, w1)
     \<and> is = filter (\<lambda>i. xi_State i \<in> {''running'', ''pending'', ''stopped''}) all
     \<and> ((\<exists>v v'. ex_GetNodeClass sample_ec2 (np_Name karpenter_pool) v = (Ret k, v'))
          \<or> k = zero_node_class \<and> (\<exists>v e v'. ex_GetNodeClass sample_ec2 (np_Name karpenter_pool) v = (Fail e, v') \<and> IsNotFound e))
     \<and> list_all2 (\<lambda>i n. \<exists>u v v'. ex_UserData sample_ec2 (xi_InstanceId i) v = (Ret u, v')
         \<and> n = plain_node (''aws:///'' @ xi_AvailabilityZone i @ ''/'' @ xi_InstanceId i) (xi_AvailabilityZone i)
                 (if matches_class sample_ec2 k i u then currentNodeGeneration else outdatedNodeGeneration)) is
         [plain_node ''aws:///a/i-1'' ''a'' currentNodeGeneration]"
proof -
  have run: "ec2_Get sample_ec2 sample_cluster karpenter_pool (Suc 0)
      = (Ret (current_pool [plain_node ''aws:///a/i-1'' ''a'' currentNodeGeneration]), Suc 0)"
    by (simp add: ec2_Get_def uses_drift_detection_def getInstances_def NodePoolConfigGetter_def getInstanceConfig_def
        tryE_def bindE_def ret_def sample_ec2_def karpenter_pool_def InstanceConfigUpToDate_def class_config_def
        getAMIsFromSpec_def m_put_def)
  have nodes: "pl_Nodes (current_pool ns) = ns" for ns by (simp add: current_pool_def)
  show ?thesis
    by (rule ec2_Get_generations [OF run, unfolded nodes])
      (auto simp: uses_drift_detection_def sample_ec2_def karpenter_pool_def ret_def usable_instance_def)
qed

text \<open>
  The claims that count as drifted: marked so by Karpenter, or made from another revision of the
  node pool or of the node class.
\<close>

definition drifted :: "'w ec2_api \<Rightarrow> karp_node_pool \<Rightarrow> node_class \<Rightarrow> node_claim \<Rightarrow> bool" where
  "drifted x p k c \<longleftrightarrow> nc_Drifted c \<or> isNodeClaimBehindObservedTemplates x c p (nk_Annotations k)"

lemma nodeClaimDriftMaps_spec:
  "nodeClaimDriftMaps x cs (Some p) (nk_Annotations k) (a, b) = (byClaim, byNode) \<Longrightarrow>
     (m_true byClaim n \<longleftrightarrow> m_true a n \<or> (\<exists>c \<in> set cs. drifted x p k c \<and> nc_Name c = n))
     \<and> (m_true byNode n \<longleftrightarrow> m_true b n \<or> (\<exists>c \<in> set cs. drifted x p k c \<and> nc_NodeName c = n \<and> n \<noteq> []))"
proof (induction cs arbitrary: a b)
  case (Cons c cs)
  show ?case
  proof (cases "drifted x p k c")
    case False
    then show ?thesis using Cons by (auto simp: drifted_def)
  next
    case True
    then show ?thesis using Cons.prems
      by (cases "nc_NodeName c = []") (auto simp: drifted_def m_true_def dest!: Cons.IH split: if_splits)
  qed
qed simp

text \<open>
  With drift detection, the nodes of a pool are the Kubernetes nodes with a provider ID,
  and a node is outdated exactly when a drifted node claim names it, or when the first node claim
  that owns it has drifted.
\<close>

theorem drift_outdates_nodes:
  assumes "GetUsingKubernetesObjects x np w = (Ret pool, w')"
  shows "\<exists>p k nodes claims. (\<exists>v v'. ex_GetNodePool x (np_Name np) v = (Ret p, v'))
     \<and> (\<exists>v v'. ex_GetNodeClass x (if kp_NodeClassRef p = [] then np_Name np else kp_NodeClassRef p) v = (Ret k, v'))
     \<and> (\<exists>v v'. ex_ListNodes x (nodePoolTag, np_Name np) v = (Ret nodes, v'))
     \<and> (\<exists>v. ex_ListNodeClaims x (ex_NodePoolLabelKey x, np_Name np) v = (Ret claims, w'))
     \<and> pl_Nodes pool = map (\<lambda>n. plain_node (k8_ProviderID n) (nodeFailureDomain n)
          (if \<exists>c \<in> set claims. drifted x p k c \<and>
                (nc_NodeName c = k8_Name n \<and> k8_Name n \<noteq> []
                 \<or> nodeClaimNameFromOwnerReferences (k8_OwnerReferences n) = Some (nc_Name c))
           then outdatedNodeGeneration else currentNodeGeneration)) (filter (\<lambda>n. k8_ProviderID n \<noteq> []) nodes)"
proof -
  from assms obtain p k nodes claims w1 w2 w3 byClaim byNode where
    calls: "ex_GetNodePool x (np_Name np) w = (Ret p, w1)"
      "ex_GetNodeClass x (if kp_NodeClassRef p = [] then np_Name np else kp_NodeClassRef p) w1 = (Ret k, w2)"
      "ex_ListNodes x (nodePoolTag, np_Name np) w2 = (Ret nodes, w3)"
      "ex_ListNodeClaims x (ex_NodePoolLabelKey x, np_Name np) w3 = (Ret claims, w')"
    and maps: "nodeClaimDriftMaps x claims (Some p) (nk_Annotations k) ([], []) = (byClaim, byNode)"
    and pool: "pool = current_pool (map (claim_node byClaim byNode) (filter (\<lambda>n. k8_ProviderID n \<noteq> []) nodes))"
    by (auto simp: GetUsingKubernetesObjects_def Let_def split: prod.splits elim!: tryE_cases)
  have "m_true byClaim n \<longleftrightarrow> (\<exists>c \<in> set claims. drifted x p k c \<and> nc_Name c = n)"
    "m_true byNode n \<longleftrightarrow> (\<exists>c \<in> set claims. drifted x p k c \<and> nc_NodeName c = n \<and> n \<noteq> [])" for n
    using nodeClaimDriftMaps_spec [OF maps, of n] by (auto simp: m_true_def)
  then have "claim_node byClaim byNode = (\<lambda>n. plain_node (k8_ProviderID n) (nodeFailureDomain n)
      (if \<exists>c \<in> set claims. drifted x p k c \<and> (nc_NodeName c = k8_Name n \<and> k8_Name n \<noteq> []
            \<or> nodeClaimNameFromOwnerReferences (k8_OwnerReferences n) = Some (nc_Name c))
       then outdatedNodeGeneration else currentNodeGeneration))"
    by (auto simp: claim_node_def fun_eq_iff split: option.splits)
  then have "pl_Nodes pool = map (\<lambda>n. plain_node (k8_ProviderID n) (nodeFailureDomain n)
      (if \<exists>c \<in> set claims. drifted x p k c \<and> (nc_NodeName c = k8_Name n \<and> k8_Name n \<noteq> []
            \<or> nodeClaimNameFromOwnerReferences (k8_OwnerReferences n) = Some (nc_Name c))
       then outdatedNodeGeneration else currentNodeGeneration)) (filter (\<lambda>n. k8_ProviderID n \<noteq> []) nodes)"
    by (simp add: pool current_pool_def)
  with calls show ?thesis by blast
qed

theorem drift_outdates_nodes_witness:
  "\<exists>p k nodes claims. (\<exists>v v'. ex_GetNodePool sample_ec2 ''p'' v = (Ret p, v'))
     \<and> (\<exists>v v'. ex_GetNodeClass sample_ec2 (if kp_NodeClassRef p = [] then ''p'' else kp_NodeClassRef p) v = (Ret k, v'))
     \<and> (\<exists>v v'. ex_ListNodes sample_ec2 (nodePoolTag, ''p'') v = (Ret nodes, v'))
     \<and> (\<exists>v. ex_ListNodeClaims sample_ec2 (ex_NodePoolLabelKey sample_ec2, ''p'') v = (Ret claims, 0))
     \<and> [plain_node ''aws:///a/i-1'' [] outdatedNodeGeneration] = map (\<lambda>n. plain_node (k8_ProviderID n) (nodeFailureDomain n)
          (if \<exists>c \<in> set claims. drifted sample_ec2 p k c \<and>
                (nc_NodeName c = k8_Name n \<and> k8_Name n \<noteq> []
                 \<or> nodeClaimNameFromOwnerReferences (k8_OwnerReferences n) = Some (nc_Name c))
           then outdatedNodeGeneration else currentNodeGeneration)) (filter (\<lambda>n. k8_ProviderID n \<noteq> []) nodes)"
proof -
  have run: "GetUsingKubernetesObjects sample_ec2 karpenter_pool 0
      = (Ret (current_pool [plain_node ''aws:///a/i-1'' [] outdatedNodeGeneration]), 0)"
    by (simp add: GetUsingKubernetesObjects_def tryE_def ret_def sample_ec2_def karpenter_pool_def claim_node_def
        isNodeClaimBehindObservedTemplates_def hasHashMismatch_def m_true_def m_put_def nodeFailureDomain_def)
  have nodes: "pl_Nodes (current_pool ns) = ns" and name: "np_Name karpenter_pool = ''p''" for ns
    by (simp_all add: current_pool_def karpenter_pool_def)
  show ?thesis by (rule drift_outdates_nodes [OF run, unfolded nodes name])
qed

section \<open>Decommissioning a pool\<close>

lemma await_termination_Ret:
  "await_termination fuel e x fs w = (Ret u, w') \<Longrightarrow> \<exists>v. getInstances x fs v = (Ret [], w')"
proof (induction fuel arbitrary: w)
  case (Suc k)
  from Suc.prems obtain w1 "is" w2 where "getInstances x fs w1 = (Ret is, w2)"
    "(if is = [] then ret () else await_termination k e x fs) w2 = (Ret u, w')"
    by (auto elim!: tryE_cases)
  then show ?case using Suc.IH [of w2] by (auto split: if_splits)
qed simp

text \<open>
  The documented behaviour of AWS the termination relies on: listing succeeds, terminating instances
  succeeds and leaves at most \<open>n\<close> polls until they are gone (\<open>left w\<close> bounds the polls still needed
  in a world, and every pause lowers it).
\<close>

definition instances_vanish :: "('w \<Rightarrow> nat) \<Rightarrow> nat \<Rightarrow> 'w env \<Rightarrow> 'w ec2_api \<Rightarrow> ec2_filter list \<Rightarrow> bool" where
  "instances_vanish left n e x fs \<longleftrightarrow>
     (\<forall>w. \<exists>is. getInstances x fs w = (Ret is, w) \<and> (left w = 0 \<longrightarrow> is = []))
     \<and> (\<forall>w. left (en_sleep e (15 * second) w) \<le> left w - 1)
     \<and> (\<forall>ids w. ids \<noteq> [] \<longrightarrow> (\<exists>w'. ex_TerminateInstances x ids w = (Ret (), w') \<and> left w' \<le> n))"

lemma await_termination_ends:
  assumes v: "instances_vanish left n e x fs" and ctx: "\<And>w. en_err e w = None"
  shows "left w \<le> fuel \<Longrightarrow> 0 < fuel \<Longrightarrow> \<exists>w'. await_termination fuel e x fs w = (Ret (), w')"
proof (induction fuel arbitrary: w)
  case (Suc k)
  let ?w = "en_sleep e (15 * second) w"
  obtain "is" where i: "getInstances x fs ?w = (Ret is, ?w)" "left ?w = 0 \<longrightarrow> is = []"
    using v unfolding instances_vanish_def by blast
  have le: "left ?w \<le> left w - 1" using v by (simp add: instances_vanish_def)
  have step: "await_termination (Suc k) e x fs w
      = (if is = [] then (Ret (), ?w) else await_termination k e x fs ?w)"
    using i(1) ctx by (simp add: tryE_def wait_def check_def ret_def)
  show ?case
  proof (cases "is = []")
    case False
    then have "left ?w \<le> k" "0 < k" using i(2) le Suc.prems by auto
    then show ?thesis using step False Suc.IH [of ?w] by simp
  qed (use step in simp)
qed simp

text \<open>
  Claim C27. Decommissioning the nodes of a pool returns success only after AWS listed no instance
  of the pool any more; and when terminated instances disappear within some number of polls, that
  many rounds of the loop are enough for it to return with success.
\<close>

theorem decommission_complete:
  "(\<forall>u w'. decommission fuel e x fs w = (Ret u, w') \<longrightarrow> (\<exists>v. getInstances x fs v = (Ret [], w')))
   \<and> (instances_vanish left n e x fs \<and> (\<forall>w. en_err e w = None) \<and> n \<le> fuel \<and> 0 < fuel
      \<longrightarrow> (\<exists>w'. decommission fuel e x fs w = (Ret (), w')))"
proof (intro conjI allI impI)
  fix u w' assume "decommission fuel e x fs w = (Ret u, w')"
  then obtain "is" w1 w2 where "getInstances x fs w = (Ret is, w1)"
    "is = [] \<and> w' = w1 \<or> await_termination fuel e x fs w2 = (Ret u, w')"
    by (auto simp: decommission_def elim!: tryE_cases split: if_splits)
  then show "\<exists>v. getInstances x fs v = (Ret [], w')" by (metis await_termination_Ret)
next
  assume h: "instances_vanish left n e x fs \<and> (\<forall>w. en_err e w = None) \<and> n \<le> fuel \<and> 0 < fuel"
  then obtain "is" where i: "getInstances x fs w = (Ret is, w)" unfolding instances_vanish_def by blast
  show "\<exists>w'. decommission fuel e x fs w = (Ret (), w')"
  proof (cases "is = []")
    case False
    then obtain w1 where t: "ex_TerminateInstances x (map xi_InstanceId is) w = (Ret (), w1)" "left w1 \<le> n"
      using h unfolding instances_vanish_def by (metis map_is_Nil_conv)
    have "\<exists>w'. await_termination fuel e x fs w1 = (Ret (), w')"
      using h t(2) by (intro await_termination_ends [where left = left and n = n]) auto
    then show ?thesis using i t(1) False by (simp add: decommission_def tryE_def)
  qed (use i in \<open>simp add: decommission_def tryE_def ret_def\<close>)
qed

theorem decommission_complete_witness:
  "\<exists>w'. decommission 2 \<lparr>en_now = int, en_sleep = (\<lambda>_ n. n - 1), en_err = (\<lambda>_. None)\<rparr>
     (sample_ec2\<lparr>ex_TerminateInstances := (\<lambda>_ _. (Ret (), 2))\<rparr>) [] 7 = (Ret (), w')"
proof -
  have "instances_vanish (\<lambda>n. n) 2 \<lparr>en_now = int, en_sleep = (\<lambda>_ n. n - 1), en_err = (\<lambda>_. None)\<rparr>
     (sample_ec2\<lparr>ex_TerminateInstances := (\<lambda>_ _. (Ret (), 2))\<rparr>) []"
    by (simp add: instances_vanish_def getInstances_def sample_ec2_def bindE_def ret_def)
  then show ?thesis
    using decommission_complete [of 2 "\<lparr>en_now = int, en_sleep = (\<lambda>_ n. n - 1), en_err = (\<lambda>_. None)\<rparr>"
        "sample_ec2\<lparr>ex_TerminateInstances := (\<lambda>_ _. (Ret (), 2))\<rparr>" "[]" 7 "\<lambda>n. n" 2] by auto
qed

end
