(* ===== verification/Clusterpy.thy ===== *)
theory Clusterpy
  imports Cluster_Config Update_Strategy ASG_Backend EC2_Backend
begin

text \<open>
  Provisioning and decommissioning a cluster (\<open>provisioner/clusterpy.go\<close>): the order of the steps, the
  stacks of etcd and of the cluster, the groups of node pools, the choice of the update strategy, the
  deletions and manifests, and the removal of everything. The provisioner changes the cluster it is
  given; the model returns the changed cluster, and gives up the changes made before an error. The
  clients of Kubernetes and AWS, HTTP and the parsers are fields of a record; a client is made for the
  address of an API server and the data of its certificate authority.
\<close>

section \<open>Data\<close>

record hook_response =
  hr_APIServerURL :: string
  hr_CAData :: string
  hr_ServiceCIDR :: string

record deployment =
  dp_Name :: string
  dp_Replicas :: "int option"

record 'w deployments =
  ds_List :: "string \<Rightarrow> ('w, deployment list) io"
  ds_Update :: "string \<Rightarrow> deployment \<Rightarrow> ('w, unit) io"

record ('w, 'c, 'y, 'o, 'm) outside = "('w, 'c, 'y) readers" +
  ou_InstanceTypes :: "('w, aws_instance_type list) io"
  ou_URLHost :: "string \<Rightarrow> go_error + string"
  ou_MarshalPolicy :: "policy_document \<Rightarrow> go_error + string"
  ou_BestCertificate :: "'c list \<Rightarrow> string \<Rightarrow> go_error + string"
  ou_Clients :: "string \<Rightarrow> string \<Rightarrow> go_error + 'w clients"
  ou_Applier :: "string \<Rightarrow> string \<Rightarrow> ('w, ('w, 'y, 'o, 'm) applier) io"
  ou_Karpenter :: "string \<Rightarrow> string \<Rightarrow> go_error + 'w karpenter"
  ou_KubeApi :: "string \<Rightarrow> string \<Rightarrow> go_error + 'w kube_api"
  ou_Deployments :: "string \<Rightarrow> string \<Rightarrow> go_error + 'w deployments"
  ou_EC2 :: "string \<Rightarrow> string \<Rightarrow> go_error + 'w ec2_api"
  ou_EC2Instances :: "'w ec2_api"
  ou_ASG :: "'w asg_api"
  ou_ParseDuration :: "string \<Rightarrow> go_error + int"
  ou_FormatTime :: "int \<Rightarrow> string"
  ou_ParseTime :: "string \<Rightarrow> int option"
  ou_RetryConstant :: "int \<Rightarrow> nat \<Rightarrow> ('w, unit) io \<Rightarrow> ('w, unit) io"
  ou_RetryRollback :: "('w, unit) io \<Rightarrow> ('w, unit) io"
  ou_NewRequest :: "string \<Rightarrow> go_error option"
  ou_Token :: "('w, string) io"
  ou_Get :: "string \<Rightarrow> string \<Rightarrow> ('w, int) io"
  ou_hook :: "(cluster \<Rightarrow> ('w, hook_response \<times> cluster) io) option"

text \<open>The options of the provisioner.\<close>

record clusterpy =
  cy_assumedRole :: string
  cy_dryRun :: bool
  cy_applyOnly :: bool
  cy_Strategy :: string
  cy_drainConfig :: drain_config
  cy_removeVolumes :: bool
  cy_manageEtcdStack :: bool
  cy_manageMasterNodes :: bool

definition maxApplyRetries :: nat where "maxApplyRetries = 15"
definition defaultMaxRetryTime :: int where "defaultMaxRetryTime = 5 * minute"

abbreviation checked :: "('w, 'c, 'y, 'o, 'm) outside \<Rightarrow> ('w, unit) io" where
  "checked s \<equiv> check (en_err (sr_env s))"

definition sr :: "('w, 'c, 'y, 'o, 'm) outside \<Rightarrow> ('w, 'c) surroundings" where
  "sr s = surroundings.truncate s"

definition ca_of :: "hook_response option \<Rightarrow> string" where
  "ca_of options = (case options of Some h \<Rightarrow> hr_CAData h | None \<Rightarrow> [])"

section \<open>VPC, subnets and values\<close>

definition find_vpc :: "('w, 'c, 'y, 'o, 'm) outside \<Rightarrow> cluster \<Rightarrow> ('w, vpc \<times> cluster) io" where
  "find_vpc s c =
     (case m_get (cl_ConfigItems c) ''vpc_id'' of
        None \<Rightarrow> bindE (GetDefaultVPC (sr_aws s)) (\<lambda>v.
                  ret (v, c\<lparr>cl_ConfigItems := m_put ''vpc_id'' (vp_VpcId v) (cl_ConfigItems c)\<rparr>))
      | Some vpcID \<Rightarrow> bindE (GetVPC (sr_aws s) vpcID) (\<lambda>v. ret (v, c)))"

definition strings_text :: "string list \<Rightarrow> string" where
  "strings_text xs = ''['' @ join_with '' '' xs @ '']''"

definition find_subnets :: "('w, 'c, 'y, 'o, 'm) outside \<Rightarrow> cluster \<Rightarrow> ('w, subnet list) io" where
  "find_subnets s c =
     bindE (GetSubnets (sr_aws s) (m_str (cl_ConfigItems c) ''vpc_id'')) (\<lambda>all.
     bindE (checked s) (\<lambda>_.
       let subnets = filterSubnets all (subnetNot isCustomSubnet) in
       case m_get (cl_ConfigItems c) ''subnets'' of
         None \<Rightarrow> ret subnets
       | Some subnetIDs \<Rightarrow>
           (let ids = split_on (CHR '','') subnetIDs; found = filterSubnets subnets (subnetIDIncluded ids) in
            if length found \<noteq> length ids
            then fail (Errorf (''invalid or unknown subnets; desired '' @ strings_text ids))
            else ret found)))"

record az_infos =
  az_LBs :: az_info
  az_Nodes :: az_info
  az_InternalNodes :: az_info
  az_Pods :: az_info

definition choose_azs :: "cluster \<Rightarrow> subnet list \<Rightarrow> az_infos" where
  "choose_azs c subnets =
     (let restrict = (\<lambda>az. case m_get (cl_ConfigItems c) ''availability_zones'' of
            None \<Rightarrow> az
          | Some names \<Rightarrow> RestrictAZs az (split_on (CHR '','') names)) in
      \<lparr>az_LBs = restrict (selectSubnetIDs subnets ''kubernetes.io/role/elb''),
       az_Nodes = restrict (selectSubnetIDs subnets ''kubernetes.io/role/node''),
       az_InternalNodes = restrict (selectSubnetIDs subnets ''kubernetes.io/role/internal-node''),
       az_Pods = selectSubnetIDs subnets ''kubernetes.io/role/pod''\<rparr>)"

definition with_subnets_item :: "az_infos \<Rightarrow> cluster \<Rightarrow> cluster" where
  "with_subnets_item az c =
     (if m_has (cl_ConfigItems c) ''subnets'' then c
      else c\<lparr>cl_ConfigItems := m_put ''subnets'' (m_str (SubnetsByAZ (az_Nodes az)) subnetAllAZName) (cl_ConfigItems c)\<rparr>)"

definition base_values :: "az_infos \<Rightarrow> vpc \<Rightarrow> string \<Rightarrow> string \<Rightarrow> tvalues" where
  "base_values az v hostedZone certificate =
     [(''subnets'', VMap (SubnetsByAZ (az_Nodes az))),
      (''availability_zones'', VStrings (AvailabilityZones (az_Nodes az))),
      (''subnet_ipv6_cidrs'', VString (join_with '','' (SubnetIPv6CIDRs (az_Nodes az)))),
      (''lb_subnets'', VMap (SubnetsByAZ (az_LBs az))),
      (''internal_node_subnets'', VMap (SubnetsByAZ (az_InternalNodes az))),
      (''pod_subnets'', VMap (SubnetsByAZ (az_Pods az))),
      (''hosted_zone'', VString hostedZone),
      (''load_balancer_certificate'', VString certificate),
      (''vpc_ipv4_cidr'', VString (vp_CidrBlock v)),
      (''vpc_ipv6_cidrs'', VStrings (vp_Ipv6CidrBlocks v))]"

definition provision_values :: "('w, 'c, 'y, 'o, 'm) outside \<Rightarrow> cluster \<Rightarrow> vpc \<Rightarrow> az_infos \<Rightarrow> ('w, tvalues) io" where
  "provision_values s c v az =
     bindE (from_sum (ou_URLHost s (cl_APIServerURL c))) (\<lambda>host.
     bindE (from_sum (GetHostedZone (ou_URLHost s) (cl_APIServerURL c))) (\<lambda>hostedZone.
     bindE (GetCertificates (sr_aws s)) (\<lambda>certificates.
     bindE (from_sum (ou_BestCertificate s certificates host)) (\<lambda>certificate.
     bindE (from_outcome (nodeSubnetsUsablePercent c)) (\<lambda>percent.
     tryE (from_outcome (MaxNodes (az_Nodes az) percent))
       (\<lambda>e. fail (Wrapf ''failed to calculate the max number of nodes of the node subnets'' e)) (\<lambda>maxNodes.
     ret (m_put ''node_subnets_max_nodes'' (VInt maxNodes) (base_values az v hostedZone certificate))))))))"

section \<open>Stacks\<close>

definition etcd_policy :: stack_policy where
  "etcd_policy =
     [\<lparr>ps_Effect = ''Allow'', ps_Action = [''Update:*''], ps_Principal = ''*'', ps_Resource = [''*''], ps_NotResource = [],
       ps_Condition = None\<rparr>,
      \<lparr>ps_Effect = ''Deny'', ps_Action = [''Update:Replace'', ''Update:Delete''], ps_Principal = ''*'', ps_Resource = [],
       ps_NotResource = [],
       ps_Condition = Some [''AWS::AutoScaling::AutoScalingGroup'', ''AWS::S3::Bucket'', ''AWS::IAM::Role'']\<rparr>]"

definition createOrUpdateEtcdStack :: "('w, 'c, 'y, 'o, 'm) outside \<Rightarrow> cluster \<Rightarrow> tvalues \<Rightarrow> string \<Rightarrow> string \<Rightarrow> instance_types
    \<Rightarrow> ('w, tvalues) io" where
  "createOrUpdateEtcdStack s c values etcdKmsKeyARN bucketName types =
     bindE (cf_EtcdManifest (sr_config s) ''stack.yaml'') (\<lambda>template.
       let etcdStackName = (case m_get (cl_ConfigItems c) ''etcd_stack_name'' of Some v \<Rightarrow> v | None \<Rightarrow> ''etcd-cluster-etcd'') in
     bindE (from_outcome (InstanceInfo types (m_str (cl_ConfigItems c) ''etcd_instance_type''))) (\<lambda>info.
       let values1 = m_put ''etcd_instance_type_info'' (VInstance info) values in
     bindE (RenderAndUploadFiles (sr s) (cluster_data c values1 (Some types)) ''etcd'' bucketName etcdKmsKeyARN) (\<lambda>s3Path.
       let values2 = m_put s3GeneratedFilesPathValuesKey (VString s3Path) values1 in
     bindE (render_cluster s template (cluster_data c values2 (Some types))) (\<lambda>rendered.
     bindE (applyStack (sr_aws s) etcdStackName rendered [] [(''application'', ''kubernetes''), (''component'', ''etcd-cluster'')]
              True (Some etcd_policy)) (\<lambda>_.
     bindE (wait_for_stack (sr s) etcdStackName) (\<lambda>_.
     ret values2))))))"

definition apply_cf_manifest :: "('w, 'c, 'y, 'o, 'm) outside \<Rightarrow> cluster \<Rightarrow> tvalues \<Rightarrow> string \<Rightarrow> manifest \<Rightarrow> ('w, unit) io" where
  "apply_cf_manifest s c values bucketName m =
     (let failed = (\<lambda>what e. fail (Wrapf (''failed to '' @ what @ '' manifest '' @ mf_Path m) e)) in
      tryE (render_cluster s m (cluster_data c values None)) (failed ''render'') (\<lambda>rendered.
      tryE (from_outcome (remarshalYAML s rendered)) (failed ''remarshal'') (\<lambda>remarshaled.
        if remarshaled = [] then ret ()
        else tryE (from_sum (aw_ParseTemplate (sr_aws s) rendered)) (failed ''parse stack for'') (\<lambda>cf.
          let cf' = cf\<lparr>cf_Template := rendered, cf_Path := mf_Path m\<rparr> in
          tryE (applyCFManifest (sr_aws s) cf' (cluster_Name c) bucketName) (failed ''apply stack for'') (\<lambda>_.
          tryE (wait_for_stack (sr s) (cf_StackName cf')) (failed ''wait for stack for'') ret)))))"

definition applyCFManifests :: "('w, 'c, 'y, 'o, 'm) outside \<Rightarrow> cluster \<Rightarrow> tvalues \<Rightarrow> string \<Rightarrow> ('w, unit) io" where
  "applyCFManifests s c values bucketName =
     bindE (cf_CFManifests (sr_config s)) (each (apply_cf_manifest s c values bucketName))"

definition createOrUpdateClusterStack :: "('w, 'c, 'y, 'o, 'm) outside \<Rightarrow> cluster \<Rightarrow> tvalues \<Rightarrow> string \<Rightarrow> instance_types
    \<Rightarrow> ('w, string gomap) io" where
  "createOrUpdateClusterStack s c values bucketName types =
     bindE (cf_StackManifest (sr_config s) ''cluster.yaml'') (\<lambda>template.
     bindE (render_cluster s template (cluster_data c values (Some types))) (\<lambda>rendered.
     bindE (applyClusterStack (sr_aws s) (cl_LocalID c) rendered c bucketName) (\<lambda>_.
     bindE (wait_for_stack (sr s) (cl_LocalID c)) (\<lambda>_.
     bindE (getStackByName (sr_aws s) (cl_LocalID c)) (\<lambda>st.
     ret (fold (\<lambda>(k, v). m_put k v) (sk_Outputs st) []))))))"

section \<open>The update strategy\<close>

text \<open>The settings of the drain configuration that a cluster can override, in order.\<close>

definition drain_settings :: "(string \<times> (int \<Rightarrow> drain_config \<Rightarrow> drain_config)) list" where
  "drain_settings =
     [(''drain_grace_period'', \<lambda>v d. d\<lparr>dc_ForceEvictionGracePeriod := v\<rparr>),
      (''drain_min_pod_lifetime'', \<lambda>v d. d\<lparr>dc_MinPodLifetime := v\<rparr>),
      (''drain_min_healthy_sibling_lifetime'', \<lambda>v d. d\<lparr>dc_MinHealthyPDBSiblingLifetime := v\<rparr>),
      (''drain_min_unhealthy_sibling_lifetime'', \<lambda>v d. d\<lparr>dc_MinUnhealthyPDBSiblingLifetime := v\<rparr>),
      (''drain_force_evict_interval'', \<lambda>v d. d\<lparr>dc_ForceEvictionInterval := v\<rparr>),
      (''drain_poll_interval'', \<lambda>v d. d\<lparr>dc_PollInterval := v\<rparr>)]"

fun override_drain :: "(string \<Rightarrow> go_error + int) \<Rightarrow> string gomap \<Rightarrow> (string \<times> (int \<Rightarrow> drain_config \<Rightarrow> drain_config)) list
    \<Rightarrow> drain_config \<Rightarrow> go_error + drain_config" where
  "override_drain parse items [] d = Inr d"
| "override_drain parse items ((key, set_value) # settings) d =
     (case m_get items key of
        None \<Rightarrow> override_drain parse items settings d
      | Some v \<Rightarrow>
          (case parse v of
             Inl e \<Rightarrow> Inl (Errorf (''invalid value for '' @ key @ '': '' @ error_text e))
           | Inr n \<Rightarrow> override_drain parse items settings (set_value n d)))"

definition cluster_updater :: "('w, 'c, 'y, 'o, 'm) outside \<Rightarrow> clusterpy \<Rightarrow> cluster \<Rightarrow> hook_response option \<Rightarrow> go_error + 'w updater" where
  "cluster_updater s p c options =
     (let strategy = (case m_get (cl_ConfigItems c) ''update_strategy'' of Some v \<Rightarrow> v | None \<Rightarrow> cy_Strategy p);
          host = cl_APIServerURL c; ca = ca_of options in
      case ou_KubeApi s host ca of
        Inl e \<Rightarrow> Inl e
      | Inr client \<Rightarrow>
          (case override_drain (ou_ParseDuration s) (cl_ConfigItems c) drain_settings (cy_drainConfig p) of
             Inl e \<Rightarrow> Inl e
           | Inr drainConfig \<Rightarrow>
               (case ou_EC2 s host ca of
                  Inl e \<Rightarrow> Inl e
                | Inr ec2 \<Rightarrow>
                    (let m = \<lparr>mg_kube = client,
                           mg_backend = ProfileNodePoolProvisioner (asg_backend (ou_ASG s) c)
                              [(karpenterNodePoolProfile, ec2_backend ec2 c)],
                           mg_env = sr_env s, mg_drainConfig = drainConfig,
                           mg_noScheduleTaint = (m_str (cl_ConfigItems c) ''decommission_node_no_schedule_taint'' = ''true''),
                           mg_formatTime = ou_FormatTime s, mg_parseTime = ou_ParseTime s\<rparr>;
                         pm = kubernetes_manager (sr_fuel s) m in
                     if strategy = ''rolling''
                     then Inr \<lparr>up_Update = rolling_Update (sr_fuel s) (sr_env s) pm 3,
                               up_PrepareForRemoval = rolling_PrepareForRemoval pm\<rparr>
                     else if strategy = ''clc''
                     then Inr \<lparr>up_Update = clc_Update (sr_fuel s) (ou_RetryRollback s) (sr_env s) pm (10 * second),
                               up_PrepareForRemoval = clc_PrepareForRemoval (sr_fuel s) (sr_env s) pm (10 * second)\<rparr>
                     else Inl (Errorf (''unknown update strategy: '' @ cy_Strategy p))))))"

section \<open>Groups of node pools\<close>

fun groupNodePools :: "node_pool list \<Rightarrow> node_pool list \<times> node_pool list \<times> node_pool list" where
  "groupNodePools [] = ([], [], [])"
| "groupNodePools (np # nps) =
     (let (masters, workers, karpenterPools) = groupNodePools nps in
      if IsMaster np then (np # masters, workers, karpenterPools)
      else if IsKarpenter np then (masters, workers, np # karpenterPools)
      else (masters, np # workers, karpenterPools))"

text \<open>Waiting for the API server: no context, a deadline and a pause of 15 seconds.\<close>

fun wait_api_server :: "nat \<Rightarrow> ('w, 'c, 'y, 'o, 'm) outside \<Rightarrow> string \<Rightarrow> int \<Rightarrow> go_error \<Rightarrow> ('w, unit) io" where
  "wait_api_server 0 s url timeout err = (\<lambda>w. (OutOfFuel, w))"
| "wait_api_server (Suc k) s url timeout err = (\<lambda>w.
     if en_now (sr_env s) w < timeout
     then (case ou_NewRequest s (url @ ''/readyz'') of
             Some e \<Rightarrow> fail e w
           | None \<Rightarrow>
               bindE (ou_Token s) (\<lambda>token.
                 tryE (ou_Get s (url @ ''/readyz'') token)
                   (\<lambda>_. bindE (sleep (sr_env s) (15 * second)) (\<lambda>_. wait_api_server k s url timeout err))
                   (\<lambda>status. if status = 200 then ret ()
                             else bindE (sleep (sr_env s) (15 * second)) (\<lambda>_. wait_api_server k s url timeout err))) w)
     else fail err w)"

definition waitForAPIServer :: "('w, 'c, 'y, 'o, 'm) outside \<Rightarrow> cluster \<Rightarrow> ('w, unit) io" where
  "waitForAPIServer s c w =
     wait_api_server (sr_fuel s) s (cl_APIServerURL c) (en_now (sr_env s) w + 15 * minute)
       (Errorf (quoted (cl_APIServerURL c) @ '' was not ready after 15m0s'')) w"

definition provisionNodePoolGroup :: "('w, 'c, 'y, 'o, 'm) outside \<Rightarrow> ('w, unit) io \<Rightarrow> ('w, unit) io \<Rightarrow> 'w updater \<Rightarrow> cluster
    \<Rightarrow> node_pool list \<Rightarrow> bool \<Rightarrow> ('w, unit) io" where
  "provisionNodePoolGroup s provisionPools ready u c nodePools applyOnly =
     bindE provisionPools (\<lambda>_.
     bindE ready (\<lambda>_.
     bindE (checked s) (\<lambda>_.
       if \<not> applyOnly \<and> \<not> (cl_LifecycleStatus c = ''requested'' \<or> cl_LifecycleStatus c = ''creating'')
       then each (\<lambda>np. bindE (up_Update u np) (\<lambda>_. checked s)) nodePools
       else ret ())))"

section \<open>Applying\<close>

definition Deletions :: "('w, 'c, 'y, 'o, 'm) outside \<Rightarrow> cluster \<Rightarrow> resource list \<Rightarrow> hook_response option \<Rightarrow> ('w, unit) io" where
  "Deletions s c ds options =
     bindE (from_sum (ou_Clients s (cl_APIServerURL c) (ca_of options))) (\<lambda>k. each (DeleteResource k) ds)"

definition named_stack :: "string \<Rightarrow> stack" where
  "named_stack name = \<lparr>sk_Name = name, sk_Status = [], sk_Reason = None, sk_LastUpdated = None, sk_Tags = [], sk_Outputs = []\<rparr>"

definition delete_stack :: "('w, 'c, 'y, 'o, 'm) outside \<Rightarrow> stack \<Rightarrow> ('w, unit) io" where
  "delete_stack s st = aws_DeleteStack (sr_fuel s) (sr_env s) (sr_aws s) st"

definition CFDeletions :: "('w, 'c, 'y, 'o, 'm) outside \<Rightarrow> string list \<Rightarrow> ('w, unit) io" where
  "CFDeletions s names = each (\<lambda>n. delete_stack s (named_stack n)) names"

definition apply_manifests :: "('w, 'y, 'o, 'm) applier \<Rightarrow> 'y manifest_package list \<Rightarrow> ('w, unit) io" where
  "apply_manifests d packages =
     each (\<lambda>module. each (\<lambda>m. tryE (applier_Apply maxApplyRetries d m)
        (\<lambda>e. fail (Wrapf (''kubectl apply failed for '' @ rm_SourceFile m) e)) ret) (mp_manifests module)) packages"

definition clusterpy_apply :: "('w, 'c, 'y, 'o, 'm) outside \<Rightarrow> cluster \<Rightarrow> deletions \<Rightarrow> cf_deletions \<Rightarrow> 'y manifest_package list
    \<Rightarrow> hook_response option \<Rightarrow> ('w, unit) io" where
  "clusterpy_apply s c ds cfds packages options =
     bindE (Deletions s c (dl_PreApply ds) options) (\<lambda>_.
     bindE (CFDeletions s (cd_PreApply cfds)) (\<lambda>_.
       if \<not> has_prefix (cl_InfrastructureAccount c) ''aws:''
       then fail (Errorf (''wrong format for string InfrastructureAccount: '' @ cl_InfrastructureAccount c))
       else bindE (ou_Applier s (cl_APIServerURL c) (ca_of options)) (\<lambda>d.
         bindE (apply_manifests d packages) (\<lambda>_.
         bindE (Deletions s c (dl_PostApply ds) options) (\<lambda>_.
         CFDeletions s (cd_PostApply cfds))))))"

section \<open>Provisioning\<close>

definition run_hook :: "('w, 'c, 'y, 'o, 'm) outside \<Rightarrow> cluster \<Rightarrow> ('w, hook_response option \<times> cluster) io" where
  "run_hook s c =
     (case ou_hook s of
        None \<Rightarrow> ret (None, c)
      | Some hook \<Rightarrow>
          bindE (hook c) (\<lambda>(r, c1).
            let c2 = (if hr_APIServerURL r \<noteq> [] then c1\<lparr>cl_APIServerURL := hr_APIServerURL r\<rparr> else c1);
                c3 = (if hr_ServiceCIDR r \<noteq> []
                      then c2\<lparr>cl_ConfigItems := m_put ''service_cidr'' (hr_ServiceCIDR r) (cl_ConfigItems c2)\<rparr> else c2) in
            ret (Some r, c3)))"

definition etcd_stage :: "('w, 'c, 'y, 'o, 'm) outside \<Rightarrow> clusterpy \<Rightarrow> cluster \<Rightarrow> tvalues \<Rightarrow> string \<Rightarrow> instance_types \<Rightarrow> ('w, tvalues) io" where
  "etcd_stage s p c values bucketName types =
     (if cy_manageEtcdStack p \<and> cl_Provider c = ZalandoAWSProvider
      then bindE (resolveKeyID (sr_aws s) ''alias/etcd-cluster'') (\<lambda>arn.
             createOrUpdateEtcdStack s c (m_put ''etcd_kms_key_arn'' (VString arn) values) arn bucketName types)
      else ret values)"

definition pool_renderer :: "cluster \<Rightarrow> string \<Rightarrow> bool \<Rightarrow> instance_types \<Rightarrow> renderer" where
  "pool_renderer c bucketName encode types =
     \<lparr>rn_cluster = c, rn_bucketName = bucketName, rn_encodeUserData = encode, rn_instanceTypes = types\<rparr>"

text \<open>The part of \<open>provision\<close> from the node pools on.\<close>

definition provision_pools :: "('w, 'c, 'y, 'o, 'm) outside \<Rightarrow> clusterpy \<Rightarrow> cluster \<Rightarrow> tvalues \<Rightarrow> az_infos \<Rightarrow> string \<Rightarrow> instance_types
    \<Rightarrow> deletions \<Rightarrow> cf_deletions \<Rightarrow> 'y manifest_package list \<Rightarrow> hook_response option \<Rightarrow> ('w, unit) io" where
  "provision_pools s p c values az bucketName types ds cfds packages options =
     bindE (from_sum (ou_Karpenter s (cl_APIServerURL c) (ca_of options))) (\<lambda>k.
     bindE (ou_Applier s (cl_APIServerURL c) (ca_of options)) (\<lambda>d.
       let (masters, workers, karpenterPools) = groupNodePools (cl_NodePools c);
           ca = aws_Provision (sr s) (pool_renderer c bucketName True types) (az_Nodes az);
           karpenter = karpenter_Provision (sr s) (pool_renderer c bucketName False types) maxApplyRetries d in
     bindE (from_sum (cluster_updater s p c options)) (\<lambda>u.
     bindE (if cy_manageMasterNodes p
            then provisionNodePoolGroup s (ca masters values) (waitForAPIServer s c) u c masters (cy_applyOnly p)
            else ret ()) (\<lambda>_.
     bindE (provisionNodePoolGroup s (ca workers values) (ret ()) u c workers (cy_applyOnly p)) (\<lambda>_.
     bindE (clusterpy_apply s c ds cfds packages options) (\<lambda>_.
     bindE (provisionNodePoolGroup s (karpenter karpenterPools values) (ret ()) u c karpenterPools (cy_applyOnly p)) (\<lambda>_.
     bindE (aws_Reconcile (sr s) c u) (\<lambda>_.
     karpenter_Reconcile k c u))))))))"

definition bucket_name :: "cluster \<Rightarrow> string" where
  "bucket_name c = ''cluster-lifecycle-manager-'' @ trim_prefix (cl_InfrastructureAccount c) ''aws:'' @ ''-'' @ cl_Region c"

text \<open>
  The part of \<open>provision\<close> that only reads: everything up to the point where the deletions are known to
  be valid.
\<close>

definition provision_plan :: "('w, 'c, 'y, 'o, 'm) outside \<Rightarrow> cluster
    \<Rightarrow> ('w, instance_types \<times> cluster \<times> az_infos \<times> tvalues \<times> deletions \<times> cf_deletions) io" where
  "provision_plan s c0 =
     tryE (NewInstanceTypesFromAWS (ou_InstanceTypes s)) (\<lambda>_. fail (Errorf ''failed to fetch instance types from AWS'')) (\<lambda>types.
     bindE (applyDefaultsToManifests s types c0) (\<lambda>c1.
     bindE (find_vpc s c1) (\<lambda>(v, c2).
     bindE (checked s) (\<lambda>_.
     bindE (find_subnets s c2) (\<lambda>subnets.
       let az = choose_azs c2 subnets; c3 = with_subnets_item az c2 in
     bindE (provision_values s c3 v az) (\<lambda>values.
     bindE (parseDeletions s (cluster_data c3 values (Some types))) (\<lambda>ds.
     bindE (parseCFDeletions s (cluster_data c3 values (Some types))) (\<lambda>cfds.
     ret (types, c3, az, values, ds, cfds)))))))))"

definition provision :: "('w, 'c, 'y, 'o, 'm) outside \<Rightarrow> clusterpy \<Rightarrow> cluster \<Rightarrow> ('w, cluster) io" where
  "provision s p c0 =
     bindE (provision_plan s c0) (\<lambda>(types, c3, az, values, ds, cfds).
       let bucketName = bucket_name c3 in
     bindE (createS3Bucket (sr_aws s) bucketName) (\<lambda>_.
     bindE (etcd_stage s p c3 values bucketName types) (\<lambda>values1.
     bindE (checked s) (\<lambda>_.
     bindE (createOrUpdateClusterStack s c3 values1 bucketName types) (\<lambda>outputs.
       let values2 = m_put ''ClusterStackOutputs'' (VMap outputs) values1 in
     bindE (checked s) (\<lambda>_.
     bindE (run_hook s c3) (\<lambda>(options, c4).
     bindE (from_sum (InitOIDCProvider (ou_URLHost s) (ou_MarshalPolicy s) c4)) (\<lambda>c5.
     bindE (applyCFManifests s c5 values2 bucketName) (\<lambda>_.
     bindE (renderManifests s (cluster_data c5 values2 (Some types))) (\<lambda>packages.
     bindE (provision_pools s p c5 values2 az bucketName types ds cfds packages options) (\<lambda>_.
     ret c5)))))))))))"

section \<open>Decommissioning\<close>

definition downscaleDeployments :: "('w, 'c, 'y, 'o, 'm) outside \<Rightarrow> cluster \<Rightarrow> string \<Rightarrow> string \<Rightarrow> ('w, unit) io" where
  "downscaleDeployments s c caData namespace =
     bindE (from_sum (ou_Deployments s (cl_APIServerURL c) caData)) (\<lambda>client.
     bindE (ds_List client namespace) (\<lambda>items.
       each (\<lambda>d. if (case dp_Replicas d of Some r \<Rightarrow> r | None \<Rightarrow> 0) = 0 then ret ()
                 else ds_Update client namespace (d\<lparr>dp_Replicas := Some 0\<rparr>)) items))"

definition listClusterStacks :: "('w, 'c, 'y, 'o, 'm) outside \<Rightarrow> cluster \<Rightarrow> ('w, stack list) io" where
  "listClusterStacks s c =
     ListStacks (sr_aws s) [(tagNameKubernetesClusterPrefix @ cluster_Name c, lifecycleOwned)] [(mainStackTagKey, stackTagValueTrue)]"

definition stack_failed_to_delete :: "stack \<Rightarrow> go_error \<Rightarrow> go_error" where
  "stack_failed_to_delete st e = Errorf (''failed to delete stack '' @ sk_Name st @ '': '' @ error_text e)"

definition deleteClusterStacks :: "('w, 'c, 'y, 'o, 'm) outside \<Rightarrow> cluster \<Rightarrow> ('w, unit) io" where
  "deleteClusterStacks s c =
     bindE (listClusterStacks s c) (\<lambda>stacks.
       joined (run_all (\<lambda>st. aw_RetryFor (sr_aws s) defaultMaxRetryTime
          (tryE (delete_stack s st) (\<lambda>e. fail (Permanent e)) ret)) stack_failed_to_delete stacks))"

text \<open>
  The rounds of deleting the stacks of the cluster: the number of rounds left and the error of the
  last deletion.
\<close>

fun delete_rounds :: "nat \<Rightarrow> ('w, 'c, 'y, 'o, 'm) outside \<Rightarrow> cluster \<Rightarrow> nat \<Rightarrow> go_error option \<Rightarrow> ('w, go_error option) io" where
  "delete_rounds 0 s c numberOfStacks err = ret err"
| "delete_rounds (Suc i) s c numberOfStacks err =
     (if numberOfStacks = 0 then ret err
      else (let continue = (\<lambda>err'. bindE (listClusterStacks s c) (\<lambda>stacks. delete_rounds i s c (length stacks) err')) in
            tryE (deleteClusterStacks s c) (\<lambda>e. continue (Some e)) (\<lambda>_. continue None)))"

fun remove_volumes :: "('w, 'c, 'y, 'o, 'm) outside \<Rightarrow> volume list \<Rightarrow> ('w, unit) io" where
  "remove_volumes s [] = ret ()"
| "remove_volumes s (v # vs) =
     (if vo_State v = ''deleted'' \<or> vo_State v = ''deleting'' then remove_volumes s vs
      else if vo_State v = ''available''
      then tryE (DeleteVolume (sr_aws s) (vo_VolumeId v))
             (\<lambda>e. fail (Errorf (''failed to delete EBS volume '' @ vo_VolumeId v @ '': '' @ error_text e)))
             (\<lambda>_. remove_volumes s vs)
      else fail (Errorf (''unable to delete EBS volume '' @ vo_VolumeId v @ '': volume in state '' @ vo_State v)))"

definition removeEBSVolumes :: "('w, 'c, 'y, 'o, 'm) outside \<Rightarrow> cluster \<Rightarrow> ('w, unit) io" where
  "removeEBSVolumes s c =
     bindE (GetVolumes (sr_aws s) [(''kubernetes.io/cluster/'' @ cluster_Name c, ''owned'')]) (remove_volumes s)"

definition proceed_anyway :: "('w, unit) io \<Rightarrow> ('w, unit) io" where
  "proceed_anyway m = tryE m (\<lambda>_. ret ()) ret"

definition cluster_decommission :: "('w, 'c, 'y, 'o, 'm) outside \<Rightarrow> clusterpy \<Rightarrow> cluster \<Rightarrow> string \<Rightarrow> (cluster \<Rightarrow> ('w, unit) io) list
    \<Rightarrow> ('w, unit) io" where
  "cluster_decommission s p c caData hooks =
     bindE (proceed_anyway (ou_RetryConstant s (10 * second) 5 (downscaleDeployments s c caData ''kube-system''))) (\<lambda>_.
     bindE (proceed_anyway (DecommissionKarpenterNodes (sr_fuel s) (sr_env s) (ou_EC2Instances s) c)) (\<lambda>_.
     bindE (delete_rounds maxApplyRetries s c 1 None) (\<lambda>err.
       case err of
         Some e \<Rightarrow> fail e
       | None \<Rightarrow>
           bindE (each (\<lambda>hook. hook c) hooks) (\<lambda>_.
           bindE (delete_stack s (named_stack (cl_LocalID c))) (\<lambda>_.
             if cy_removeVolumes p then aw_RetryFor (sr_aws s) defaultMaxRetryTime (removeEBSVolumes s c) else ret ())))))"

definition hasTag :: "(string \<times> string) list \<Rightarrow> string \<times> string \<Rightarrow> bool" where
  "hasTag tags tag = list_ex (\<lambda>(k, v). k = fst tag \<and> v = snd tag) tags"

section \<open>Groups of node pools\<close>

lemma groupNodePools_filter:
  "groupNodePools nps = (filter IsMaster nps, filter (\<lambda>np. \<not> IsMaster np \<and> \<not> IsKarpenter np) nps,
     filter (\<lambda>np. \<not> IsMaster np \<and> IsKarpenter np) nps)"
  by (induction nps) auto

lemma karpenter_not_master: "IsKarpenter np \<Longrightarrow> \<not> IsMaster np"
proof -
  have "\<not> contains_str ''worker-karpenter'' ''master''" by code_simp
  then show "IsKarpenter np \<Longrightarrow> \<not> IsMaster np" by (simp add: IsKarpenter_def IsMaster_def)
qed

text \<open>
  Claim C22. Provisioning and reconciling agree on the node pools: every pool of the cluster is in
  exactly one group, the Karpenter group has the pools that reconciling Karpenter keeps, and the
  masters and workers together are the pools whose stacks reconciling keeps. So reconciling never
  removes a pool that was provisioned in the same run.
\<close>

theorem groups_match_reconciliation:
  "case groupNodePools (cl_NodePools c) of (masters, workers, karpenterPools) \<Rightarrow>
     mset (masters @ workers @ karpenterPools) = mset (cl_NodePools c)
     \<and> karpenterPools = KarpenterPools c \<and> mset (masters @ workers) = mset (ASGBackedPools c)
     \<and> set masters \<inter> set workers = {} \<and> set karpenterPools \<inter> set (masters @ workers) = {}"
proof -
  let ?nps = "cl_NodePools c"
  have k: "filter (\<lambda>np. \<not> IsMaster np \<and> IsKarpenter np) ?nps = KarpenterPools c"
    unfolding KarpenterPools_filter by (rule filter_cong) (auto dest: karpenter_not_master)
  have split: "mset (filter IsMaster nps @ filter (\<lambda>np. \<not> IsMaster np \<and> \<not> IsKarpenter np) nps) = mset (filter (\<lambda>np. \<not> IsKarpenter np) nps)" for nps
    by (induction nps) (auto dest: karpenter_not_master)
  have "mset (filter IsMaster nps @ filter (\<lambda>np. \<not> IsMaster np \<and> \<not> IsKarpenter np) nps @ filter IsKarpenter nps) = mset nps" for nps
    by (induction nps) (auto dest: karpenter_not_master)
  then have "mset (filter IsMaster ?nps @ filter (\<lambda>np. \<not> IsMaster np \<and> \<not> IsKarpenter np) ?nps @ KarpenterPools c) = mset ?nps"
    by (simp only: KarpenterPools_filter)
  then show ?thesis using k split [of ?nps]
    by (auto simp: groupNodePools_filter ASGBackedPools_filter KarpenterPools_filter dest: karpenter_not_master)
qed

section \<open>Nothing happens to invalid input\<close>

text \<open>The calls that read: what they preserve, the planning of a provisioning preserves.\<close>

definition reads_keep :: "('w \<Rightarrow> bool) \<Rightarrow> ('w, 'c, 'y, 'o, 'm) outside \<Rightarrow> bool" where
  "reads_keep I s \<longleftrightarrow>
     keeps I (ou_InstanceTypes s) \<and> keeps I (cf_DefaultsManifests (sr_config s)) \<and> (\<forall>v. keeps I (rd_Decrypt s v))
     \<and> (\<forall>ids. keeps I (aw_DescribeVpcs (sr_aws s) ids)) \<and> (\<forall>v. keeps I (aw_DescribeSubnets (sr_aws s) v))
     \<and> keeps I (aw_ListCertificates (sr_aws s)) \<and> (\<forall>arn. keeps I (aw_GetCertificate (sr_aws s) arn))
     \<and> keeps I (cf_DeletionsManifests (sr_config s)) \<and> keeps I (cf_CFDeletionsManifests (sr_config s))"

lemma keeps_from_sum [simp, intro]: "keeps I (from_sum r)"
  by (cases r) (auto simp: from_sum_def)

lemma keeps_from_outcome [simp, intro]: "keeps I (from_outcome r)"
  by (simp add: keeps_def from_outcome_def)

lemma keeps_state: "(\<And>w. keeps I (m w)) \<Longrightarrow> keeps I (\<lambda>w. m w w)"
  by (auto simp: keeps_def)

lemma keeps_case_sum [intro]: "(\<And>a. keeps I (f a)) \<Longrightarrow> (\<And>b. keeps I (g b)) \<Longrightarrow> keeps I (case r of Inl a \<Rightarrow> f a | Inr b \<Rightarrow> g b)"
  by (cases r) auto

lemma keeps_defaults_loop: "keeps I (defaults_loop s d fs acc)"
  by (induction fs arbitrary: acc) (auto simp: render_cluster_def intro!: keeps_bindE keeps_case_sum)

lemma keeps_deletions_loop: "keeps I (deletions_loop s d fs acc)"
  by (induction fs arbitrary: acc) (auto simp: render_cluster_def intro!: keeps_bindE keeps_case_sum)

lemma keeps_cf_deletions_loop: "keeps I (cf_deletions_loop s d fs acc)"
  by (induction fs arbitrary: acc) (auto simp: render_cluster_def intro!: keeps_bindE keeps_case_sum)

lemma keeps_decrypt_loop: "(\<And>v. keeps I (d v)) \<Longrightarrow> keeps I (decrypt_loop d rest items)"
  by (induction d rest items rule: decrypt_loop.induct) auto

lemma keeps_certificates:
  assumes "\<And>arn. keeps I (aw_GetCertificate a arn)"
  shows "keeps I (certificate_summaries a arns)"
proof (induction arns)
  case (Cons arn arns)
  then show ?case using assms
    by (auto simp: getCertificateSummaryFromACM_def split: prod.splits intro!: keeps_bindE keeps_case_sum)
qed auto

lemma keeps_plan_parts:
  assumes "reads_keep I s"
  shows "keeps I (applyDefaultsToManifests s types c)" "keeps I (find_vpc s c)" "keeps I (find_subnets s c)"
    "keeps I (provision_values s c v az)" "keeps I (parseDeletions s d)" "keeps I (parseCFDeletions s d)"
    "keeps I (NewInstanceTypesFromAWS (ou_InstanceTypes s))"
proof -
  note reads = assms [unfolded reads_keep_def]
  show "keeps I (applyDefaultsToManifests s types c)"
    unfolding applyDefaultsToManifests_def updateDefaults_def decryptConfigItems_def
    using reads by (auto intro!: keeps_tryE keeps_bindE keeps_defaults_loop keeps_decrypt_loop)
  show "keeps I (find_vpc s c)" unfolding find_vpc_def GetDefaultVPC_def GetVPC_def
    using reads by (auto intro!: keeps_bindE split: option.splits list.splits)
  show "keeps I (find_subnets s c)" unfolding find_subnets_def GetSubnets_def
    using reads by (auto simp: Let_def intro!: keeps_bindE split: option.splits)
  show "keeps I (provision_values s c v az)" unfolding provision_values_def GetCertificates_def
    using reads by (auto intro!: keeps_bindE keeps_tryE keeps_certificates)
  show "keeps I (parseDeletions s d)" "keeps I (parseCFDeletions s d)"
    unfolding parseDeletions_def parseCFDeletions_def
    using reads by (auto intro!: keeps_bindE keeps_deletions_loop keeps_cf_deletions_loop)
  show "keeps I (NewInstanceTypesFromAWS (ou_InstanceTypes s))"
    unfolding NewInstanceTypesFromAWS_def using reads by (auto simp: keeps_def bindE_def split: prod.splits outcome.splits)
qed

lemma keeps_provision_plan: "reads_keep I s \<Longrightarrow> keeps I (provision_plan s c)"
  unfolding provision_plan_def Let_def
  by (intro keeps_tryE keeps_bindE keeps_fail) (auto intro!: keeps_bindE keeps_plan_parts split: prod.splits)

text \<open>
  Claim C6. A cluster whose configuration is not valid is left alone: when the defaults, the secrets,
  the network, the certificate or one of the deletion files is refused, provisioning fails with that
  error and has preserved everything that its reading calls preserve; no bucket, stack or resource
  has been touched.
\<close>

theorem provision_validates_first:
  assumes reads: "reads_keep I s" and before: "I w" and refused: "fst (provision_plan s c w) = Fail e"
  shows "fst (provision s p c w) = Fail e \<and> I (snd (provision s p c w))"
proof -
  obtain w' where plan: "provision_plan s c w = (Fail e, w')" using refused by (metis prod.collapse)
  then have "provision s p c w = (Fail e, w')" by (simp add: provision_def bindE_def)
  moreover have "I w'" using keepsD [OF keeps_provision_plan [OF reads] before plan] .
  ultimately show ?thesis by simp
qed

text \<open>An account without a default VPC.\<close>

definition sample_asg :: "account asg_api" where
  "sample_asg = \<lparr>aa_DescribeGroups = (\<lambda>_. ret []), aa_UpdateGroup = (\<lambda>_. ret ()), aa_DeleteTags = (\<lambda>_. ret ()),
     aa_DescribeTags = (\<lambda>_ _. ret []), aa_TerminateInstance = (\<lambda>_ _. ret ()), aa_InstanceStatuses = (\<lambda>_. ret []),
     aa_LaunchTemplateVersions = (\<lambda>_ _. ret []), aa_DescribeInstances = (\<lambda>_. ret []), aa_GroupLoadBalancers = (\<lambda>_. ret []),
     aa_LoadBalancerInstances = (\<lambda>_. ret []), aa_InstanceHealth = (\<lambda>_ _. ret []), aa_RetryFor = (\<lambda>_ m. m)\<rparr>"

definition no_instances :: "account ec2_api" where
  "no_instances = \<lparr>ex_DescribeInstances = (\<lambda>_. ret []), ex_UserData = (\<lambda>_. ret []), ex_TerminateInstances = (\<lambda>_. ret ()),
     ex_GetNodePool = (\<lambda>_. ret \<lparr>kp_Annotations = [], kp_NodeClassRef = []\<rparr>), ex_GetNodeClass = (\<lambda>_. ret zero_node_class),
     ex_ListNodes = (\<lambda>_. ret []), ex_ListNodeClaims = (\<lambda>_. ret []), ex_Retry = (\<lambda>m. m), ex_Base64 = (\<lambda>s. s), ex_Render = np_Name,
     ex_Format = (\<lambda>_. []), ex_NodePoolLabelKey = ''karpenter.sh/nodepool'', ex_NodePoolHash = [], ex_NodePoolHashVersion = [],
     ex_NodeClassHash = [], ex_NodeClassHashVersion = []\<rparr>"

definition sample_outside :: "(account, string, string, unit, unit) outside" where
  "sample_outside = readers.extend sample_readers (outside.fields (ret []) (\<lambda>u. Inr u) (\<lambda>_. Inr []) (\<lambda>_ _. Inr [])
     (\<lambda>_ _. Inl Canceled) (\<lambda>_ _. fail Canceled) (\<lambda>_ _. Inl Canceled) (\<lambda>_ _. Inl Canceled) (\<lambda>_ _. Inl Canceled)
     (\<lambda>_ _. Inl Canceled) no_instances sample_asg (\<lambda>s. case parse_int64 s of Some n \<Rightarrow> Inr n | None \<Rightarrow> Inl (Errorf s)) int_str parse_int64
     (\<lambda>_ _ m. m) (\<lambda>m. m) (\<lambda>_. None) (ret ''t'') (\<lambda>_ _ w. (Ret (if snd w < 30 * second then 503 else 200), w)) None)"

definition sample_clusterpy :: clusterpy where
  "sample_clusterpy = \<lparr>cy_assumedRole = [], cy_dryRun = False, cy_applyOnly = False, cy_Strategy = ''clc'',
     cy_drainConfig = \<lparr>dc_ForceEvictionGracePeriod = 1, dc_MinPodLifetime = 2, dc_MinHealthyPDBSiblingLifetime = 3,
       dc_MinUnhealthyPDBSiblingLifetime = 4, dc_ForceEvictionInterval = 5, dc_PollInterval = 6\<rparr>,
     cy_removeVolumes = False, cy_manageEtcdStack = False, cy_manageMasterNodes = True\<rparr>"

lemmas sample_outside_defs = sample_outside_def readers.defs outside.defs sample_readers_def

theorem provision_validates_first_witness:
  "fst (provision sample_outside sample_clusterpy sample_cluster ([], 0)) = Fail (Errorf ''default VPC not found in account'')
   \<and> snd (provision sample_outside sample_clusterpy sample_cluster ([], 0)) = ([], 0)"
proof -
  have plan: "fst (provision_plan sample_outside sample_cluster ([], 0)) = Fail (Errorf ''default VPC not found in account'')"
    by code_simp
  have "reads_keep (\<lambda>w. w = ([], 0)) sample_outside"
    by (simp add: reads_keep_def keeps_def sample_outside_defs sample_config_def sample_aws_def ret_def)
  from provision_validates_first [OF this refl plan] show ?thesis by simp
qed

section \<open>Drain settings\<close>

definition setting :: "(string \<Rightarrow> go_error + int) \<Rightarrow> string gomap \<Rightarrow> string \<Rightarrow> int \<Rightarrow> int \<Rightarrow> bool" where
  "setting parse items key dflt v \<longleftrightarrow> (case m_get items key of None \<Rightarrow> v = dflt | Some t \<Rightarrow> parse t = Inr v)"

text \<open>The effect of one setting on the configuration.\<close>

definition one_setting :: "(string \<Rightarrow> go_error + int) \<Rightarrow> string gomap \<Rightarrow> string \<times> (int \<Rightarrow> drain_config \<Rightarrow> drain_config) \<Rightarrow> drain_config \<Rightarrow> drain_config" where
  "one_setting parse items kf d = (case m_get items (fst kf) of
     None \<Rightarrow> d | Some t \<Rightarrow> (case parse t of Inr v \<Rightarrow> snd kf v d | Inl _ \<Rightarrow> d))"

definition valid_settings :: "(string \<Rightarrow> go_error + int) \<Rightarrow> string gomap \<Rightarrow> (string \<times> (int \<Rightarrow> drain_config \<Rightarrow> drain_config)) list \<Rightarrow> bool" where
  "valid_settings parse items settings \<longleftrightarrow> (\<forall>key \<in> set (map fst settings). \<forall>t. m_get items key = Some t \<longrightarrow> (\<exists>v. parse t = Inr v))"

lemma override_drain_result:
  "override_drain parse items settings d =
     (if valid_settings parse items settings then Inr (fold (one_setting parse items) settings d)
      else override_drain parse items settings d)"
  "override_drain parse items settings d = Inl e \<Longrightarrow> \<not> valid_settings parse items settings"
  "override_drain parse items settings d = Inr d' \<Longrightarrow> valid_settings parse items settings"
  by (induction settings arbitrary: d)
    (auto simp: valid_settings_def one_setting_def split: option.splits sum.splits)

lemma one_setting_keeps:
  "(\<And>v d. sel (snd kf v d) = sel d) \<Longrightarrow> sel (one_setting parse items kf d) = sel d"
  by (simp add: one_setting_def split: option.splits sum.splits)

lemma one_setting_sets:
  assumes "\<And>v d. sel (f v d) = v" and "valid_settings parse items [(key, f)]" and "sel d = dflt"
  shows "setting parse items key dflt (sel (one_setting parse items (key, f) d))"
  using assms by (auto simp: one_setting_def setting_def valid_settings_def split: option.splits sum.splits)

lemmas one_setting_keeps_fields = one_setting_keeps [where sel = dc_ForceEvictionGracePeriod]
  one_setting_keeps [where sel = dc_MinPodLifetime] one_setting_keeps [where sel = dc_MinHealthyPDBSiblingLifetime]
  one_setting_keeps [where sel = dc_MinUnhealthyPDBSiblingLifetime] one_setting_keeps [where sel = dc_ForceEvictionInterval]
  one_setting_keeps [where sel = dc_PollInterval]

lemma valid_setting: "valid_settings parse items settings \<Longrightarrow> (key, f) \<in> set settings \<Longrightarrow> valid_settings parse items [(key, f)]"
  by (force simp: valid_settings_def)

text \<open>
  A cluster overrides each drain setting on its own: with its config item when that is
  there, and else the global value holds; and a config item that is not a duration is an error.
\<close>

theorem drain_settings_override:
  "case override_drain parse items drain_settings d of
     Inr d' \<Rightarrow> setting parse items ''drain_grace_period'' (dc_ForceEvictionGracePeriod d) (dc_ForceEvictionGracePeriod d')
       \<and> setting parse items ''drain_min_pod_lifetime'' (dc_MinPodLifetime d) (dc_MinPodLifetime d')
       \<and> setting parse items ''drain_min_healthy_sibling_lifetime'' (dc_MinHealthyPDBSiblingLifetime d) (dc_MinHealthyPDBSiblingLifetime d')
       \<and> setting parse items ''drain_min_unhealthy_sibling_lifetime'' (dc_MinUnhealthyPDBSiblingLifetime d) (dc_MinUnhealthyPDBSiblingLifetime d')
       \<and> setting parse items ''drain_force_evict_interval'' (dc_ForceEvictionInterval d) (dc_ForceEvictionInterval d')
       \<and> setting parse items ''drain_poll_interval'' (dc_PollInterval d) (dc_PollInterval d')
   | Inl e \<Rightarrow> \<exists>key \<in> set (map fst drain_settings). \<exists>t err. m_get items key = Some t \<and> parse t = Inl err"
proof (cases "valid_settings parse items drain_settings")
  case True
  note valid = valid_setting [OF True, unfolded drain_settings_def]
  have "override_drain parse items drain_settings d = Inr (fold (one_setting parse items) drain_settings d)"
    using True by (subst override_drain_result(1)) simp
  then show ?thesis unfolding drain_settings_def
    by (simp add: one_setting_keeps_fields) (intro conjI one_setting_sets, auto simp: one_setting_keeps_fields intro: valid)
next
  case False
  then obtain e where "override_drain parse items drain_settings d = Inl e"
    using override_drain_result(3) by (cases "override_drain parse items drain_settings d") auto
  moreover obtain key t where "key \<in> set (map fst drain_settings)" "m_get items key = Some t" "\<forall>v. parse t \<noteq> Inr v"
    using False by (auto simp: valid_settings_def)
  ultimately show ?thesis by (cases "parse t") auto
qed

section \<open>Waiting for the API server\<close>

lemma wait_api_server_ready:
  "wait_api_server k s url timeout err w = (Ret u, w') \<Longrightarrow>
     \<exists>token v. ou_Get s (url @ ''/readyz'') token v = (Ret 200, w')"
proof (induction k arbitrary: w)
  case (Suc k)
  then obtain token w1 where t: "tryE (ou_Get s (url @ ''/readyz'') token)
        (\<lambda>_. bindE (sleep (sr_env s) (15 * second)) (\<lambda>_. wait_api_server k s url timeout err))
        (\<lambda>status. if status = 200 then ret () else bindE (sleep (sr_env s) (15 * second)) (\<lambda>_. wait_api_server k s url timeout err)) w1
      = (Ret u, w')"
    by (auto split: if_splits option.splits)
  then show ?case
  proof (cases rule: tryE_cases)
    case (ok status w2)
    then show ?thesis using Suc.IH by (auto split: if_splits)
  qed (use Suc.IH in auto)
qed simp

lemma wait_api_server_ends:
  assumes clock: "\<And>t u w. en_now (sr_env s) w \<le> en_now (sr_env s) (snd (ou_Get s u t w))"
      "\<And>w. en_now (sr_env s) w \<le> en_now (sr_env s) (snd (ou_Token s w))"
      "\<And>w. en_now (sr_env s) w + 15 * second \<le> en_now (sr_env s) (en_sleep (sr_env s) (15 * second) w)"
    and calls: "\<And>u t w. fst (ou_Get s u t w) \<noteq> OutOfFuel" "\<And>w. fst (ou_Token s w) \<noteq> OutOfFuel"
  shows "0 < k \<Longrightarrow> timeout \<le> en_now (sr_env s) w + (int k - 1) * (15 * second) \<Longrightarrow>
     fst (wait_api_server k s url timeout err w) \<noteq> OutOfFuel"
proof (induction k arbitrary: w)
  case (Suc k)
  let ?now = "en_now (sr_env s)"
  obtain r w1 where token: "ou_Token s w = (r, w1)" by (cases "ou_Token s w")
  show ?case
  proof (cases "?now w < timeout \<and> ou_NewRequest s (url @ ''/readyz'') = None \<and> (\<exists>t. r = Ret t)")
    case False
    then show ?thesis using token calls(2) [of w] by (cases r) (auto simp: fail_def bindE_def split: option.splits)
  next
    case True
    then obtain t where t: "r = Ret t" by blast
    obtain q w2 where get: "ou_Get s (url @ ''/readyz'') t w1 = (q, w2)" by (cases "ou_Get s (url @ ''/readyz'') t w1")
    let ?w3 = "en_sleep (sr_env s) (15 * second) w2"
    have "?now w \<le> ?now w1" "?now w1 \<le> ?now w2" "?now w2 + 15 * second \<le> ?now ?w3" "q \<noteq> OutOfFuel"
      using clock(2) [of w] clock(1) [of w1 "url @ ''/readyz''" t] clock(3) [of w2] calls(1) [of "url @ ''/readyz''" t w1] token get
      by simp_all
    then have later: "?now w + 15 * second \<le> ?now ?w3" and q: "q \<noteq> OutOfFuel" by simp_all
    have "0 < k" using True Suc.prems(2) by (cases k) auto
    moreover have "timeout \<le> ?now ?w3 + (int k - 1) * (15 * second)"
      using later Suc.prems(2) by (simp add: algebra_simps)
    ultimately have "fst (wait_api_server k s url timeout err ?w3) \<noteq> OutOfFuel" by (rule Suc.IH)
    then show ?thesis using True token t get q
      by (cases q) (auto simp: bindE_def tryE_def sleep_def ret_def)
  qed
qed simp

text \<open>
  Waiting for the API server ends within 61 requests, whatever the server answers, and it
  succeeds only after the server has answered a request for \<open>/readyz\<close> with the status 200.
\<close>

theorem waitForAPIServer_verdict:
  assumes "sr_fuel s = 61"
    and "\<And>t u w. en_now (sr_env s) w \<le> en_now (sr_env s) (snd (ou_Get s u t w))"
    and "\<And>w. en_now (sr_env s) w \<le> en_now (sr_env s) (snd (ou_Token s w))"
    and "\<And>w. en_now (sr_env s) w + 15 * second \<le> en_now (sr_env s) (en_sleep (sr_env s) (15 * second) w)"
    and "\<And>u t w. fst (ou_Get s u t w) \<noteq> OutOfFuel" and "\<And>w. fst (ou_Token s w) \<noteq> OutOfFuel"
  shows "case waitForAPIServer s c w of
      (OutOfFuel, w') \<Rightarrow> False
    | (Ret u, w') \<Rightarrow> \<exists>token v. ou_Get s (cl_APIServerURL c @ ''/readyz'') token v = (Ret 200, w')
    | _ \<Rightarrow> True"
proof -
  have "fst (wait_api_server 61 s (cl_APIServerURL c) (en_now (sr_env s) w + 15 * minute) err w) \<noteq> OutOfFuel" for err
    by (rule wait_api_server_ends [OF assms(2-6)]) (simp_all add: minute_def)
  then have ends: "fst (waitForAPIServer s c w) \<noteq> OutOfFuel" by (simp only: waitForAPIServer_def assms(1)) simp
  obtain r w' where run: "waitForAPIServer s c w = (r, w')" by (cases "waitForAPIServer s c w")
  show ?thesis
  proof (cases r)
    case (Ret u)
    then show ?thesis using run wait_api_server_ready by (auto simp: waitForAPIServer_def)
  qed (use run ends in auto)
qed

theorem waitForAPIServer_verdict_witness:
  "case waitForAPIServer (sample_outside\<lparr>sr_fuel := 61\<rparr>) sample_cluster ([], 0) of
      (OutOfFuel, w') \<Rightarrow> False
    | (Ret u, w') \<Rightarrow> \<exists>token v. ou_Get (sample_outside\<lparr>sr_fuel := 61\<rparr>) (cl_APIServerURL sample_cluster @ ''/readyz'') token v = (Ret 200, w')
    | _ \<Rightarrow> True"
  by (rule waitForAPIServer_verdict) (simp_all add: sample_outside_defs account_env_def ret_def split: prod.splits)

section \<open>Decommissioning\<close>

lemma delete_rounds_clean:
  assumes "\<And>v v'. deleteClusterStacks s c v \<noteq> (Ret (), v')"
  shows "delete_rounds n s c k err w = (Ret None, w') \<Longrightarrow> n = 0 \<or> k = 0"
proof (induction n arbitrary: k err w)
  case (Suc n)
  have rest: "err' = None" if "delete_rounds n s c k' err' v = (Ret None, w')" for k' err' v
  proof (cases "n = 0 \<or> k' = 0")
    case True
    then show ?thesis using that by (cases n) auto
  next
    case False
    then show ?thesis using Suc.IH that by blast
  qed
  show ?case
  proof (rule ccontr)
    assume "\<not> (Suc n = 0 \<or> k = 0)"
    with Suc.prems have "tryE (deleteClusterStacks s c)
        (\<lambda>e. bindE (listClusterStacks s c) (\<lambda>stacks. delete_rounds n s c (length stacks) (Some e)))
        (\<lambda>_. bindE (listClusterStacks s c) (\<lambda>stacks. delete_rounds n s c (length stacks) None)) w = (Ret None, w')"
      by (simp add: Let_def)
    then show False by (cases rule: tryE_cases) (use assms in \<open>auto dest: rest\<close>)
  qed
qed simp

lemma keeps_delete_rounds:
  assumes "keeps I (deleteClusterStacks s c)" "keeps I (listClusterStacks s c)"
  shows "keeps I (delete_rounds n s c k err)"
  using assms by (induction n arbitrary: k err) (auto simp: Let_def intro!: keeps_tryE keeps_bindE)

text \<open>
  Claim C7. The main stack of a cluster and its volumes are not touched as long as the other stacks of
  the cluster cannot be deleted: decommissioning then fails, and it has preserved everything that the
  earlier steps preserve.
\<close>

theorem decommission_main_stack_last:
  assumes stuck: "\<And>v v'. deleteClusterStacks s c v \<noteq> (Ret (), v')"
    and steps: "keeps I (ou_RetryConstant s (10 * second) 5 (downscaleDeployments s c ca ''kube-system''))"
      "keeps I (DecommissionKarpenterNodes (sr_fuel s) (sr_env s) (ou_EC2Instances s) c)"
      "keeps I (deleteClusterStacks s c)" "keeps I (listClusterStacks s c)"
    and before: "I w"
  shows "(\<forall>u. fst (cluster_decommission s p c ca hooks w) \<noteq> Ret u) \<and> I (snd (cluster_decommission s p c ca hooks w))"
proof -
  let ?early = "bindE (proceed_anyway (ou_RetryConstant s (10 * second) 5 (downscaleDeployments s c ca ''kube-system''))) (\<lambda>_.
     bindE (proceed_anyway (DecommissionKarpenterNodes (sr_fuel s) (sr_env s) (ou_EC2Instances s) c)) (\<lambda>_.
     delete_rounds maxApplyRetries s c 1 None))"
  have k: "keeps I ?early"
    using steps keeps_delete_rounds [OF steps(3,4)] by (auto simp: proceed_anyway_def intro!: keeps_bindE keeps_tryE)
  obtain r w1 where run: "?early w = (r, w1)" by (cases "?early w")
  have "I w1" using keepsD [OF k before run] .
  moreover have "r \<noteq> Ret None"
  proof
    assume "r = Ret None"
    with run obtain v where "delete_rounds maxApplyRetries s c 1 None v = (Ret None, w1)" by auto
    from delete_rounds_clean [OF stuck this] show False by (simp add: maxApplyRetries_def)
  qed
  moreover have "cluster_decommission s p c ca hooks w = (case r of Ret (Some e) \<Rightarrow> (Fail e, w1) | Ret None \<Rightarrow> cluster_decommission s p c ca hooks w
      | Fail e \<Rightarrow> (Fail e, w1) | Panic m \<Rightarrow> (Panic m, w1) | OutOfFuel \<Rightarrow> (OutOfFuel, w1))"
    using run by (auto simp: cluster_decommission_def bindE_def fail_def split: prod.splits outcome.splits option.splits)
  ultimately show ?thesis by (cases r) (auto split: option.splits)
qed

theorem decommission_main_stack_last_witness:
  "(\<forall>u. fst (cluster_decommission (sample_outside\<lparr>sr_aws := sample_aws\<lparr>aw_DescribeStacks := fail Canceled\<rparr>\<rparr>)
       sample_clusterpy sample_cluster [] [] ([(''kube'', True)], 0)) \<noteq> Ret u)
   \<and> fst (snd (cluster_decommission (sample_outside\<lparr>sr_aws := sample_aws\<lparr>aw_DescribeStacks := fail Canceled\<rparr>\<rparr>)
       sample_clusterpy sample_cluster [] [] ([(''kube'', True)], 0))) = [(''kube'', True)]"
proof -
  let ?s = "sample_outside\<lparr>sr_aws := sample_aws\<lparr>aw_DescribeStacks := fail Canceled\<rparr>\<rparr>"
  let ?I = "\<lambda>w :: account. fst w = [(''kube'', True)]"
  have lists: "listClusterStacks ?s sample_cluster v = (Fail Canceled, v)" for v
    by (simp add: listClusterStacks_def ListStacks_def fail_def sample_outside_defs)
  then have deletes: "deleteClusterStacks ?s sample_cluster v = (Fail Canceled, v)" for v
    by (simp add: deleteClusterStacks_def bindE_def)
  have "downscaleDeployments ?s sample_cluster [] ''kube-system'' v = (Fail Canceled, v)" for v
    by (simp add: downscaleDeployments_def from_sum_def fail_def sample_outside_defs)
  then have scale: "keeps ?I (ou_RetryConstant ?s (10 * second) 5 (downscaleDeployments ?s sample_cluster [] ''kube-system''))"
    by (simp add: keeps_def) (simp add: sample_outside_defs)
  have "DecommissionKarpenterNodes (sr_fuel ?s) (sr_env ?s) (ou_EC2Instances ?s) sample_cluster v = (Ret (), v)" for v
    by (simp add: DecommissionKarpenterNodes_def decommission_def getInstances_def no_instances_def ret_def bindE_def tryE_def sample_outside_defs)
  then have nodes: "keeps ?I (DecommissionKarpenterNodes (sr_fuel ?s) (sr_env ?s) (ou_EC2Instances ?s) sample_cluster)"
    by (simp add: keeps_def)
  show ?thesis
    by (rule decommission_main_stack_last [where I = ?I, OF _ scale nodes]) (simp_all add: deletes lists keeps_def)
qed

lemma remove_volumes_all:
  "remove_volumes s vs w = (Ret (), w') \<Longrightarrow> list_all (\<lambda>v. vo_State v \<in> {''deleted'', ''deleting'', ''available''}) vs"
proof (induction vs arbitrary: w)
  case (Cons v vs)
  show ?case
  proof (cases "vo_State v = ''available''")
    case True
    with Cons.prems obtain w1 where "remove_volumes s vs w1 = (Ret (), w')"
      by (auto simp: tryE_def fail_def split: prod.splits outcome.splits)
    then show ?thesis using Cons.IH True by auto
  next
    case False
    then show ?thesis using Cons by (auto simp: fail_def split: if_splits)
  qed
qed simp

section \<open>Dry runs\<close>

text \<open>
  The option for dry runs has no effect: the steps of provisioning and of decommissioning are the same
  with and without it.
\<close>

lemma updater_dry_run: "cluster_updater s (p\<lparr>cy_dryRun := b\<rparr>) c options = cluster_updater s p c options"
  by (simp add: cluster_updater_def Let_def cong: option.case_cong sum.case_cong if_cong)

lemma dry_run_ignored:
  "provision s (p\<lparr>cy_dryRun := b\<rparr>) c = provision s p c"
  "cluster_decommission s (p\<lparr>cy_dryRun := b\<rparr>) c ca hooks = cluster_decommission s p c ca hooks"
proof -
  have "provision_pools s (p\<lparr>cy_dryRun := b\<rparr>) = provision_pools s p"
    by (intro ext) (simp add: provision_pools_def updater_dry_run Let_def case_prod_unfold cong: if_cong)
  then show "provision s (p\<lparr>cy_dryRun := b\<rparr>) c = provision s p c"
    by (simp add: provision_def etcd_stage_def Let_def case_prod_unfold cong: if_cong)
  show "cluster_decommission s (p\<lparr>cy_dryRun := b\<rparr>) c ca hooks = cluster_decommission s p c ca hooks"
    by (simp add: cluster_decommission_def cong: option.case_cong)
qed

end
