(* ===== verification/Registry.thy ===== *)
theory Registry
  imports Controller Pool_Provisioner
begin

text \<open>
  The cluster registries (\<open>registry/registry.go\<close>, \<open>registry/http.go\<close>, \<open>registry/file.go\<close>,
  \<open>registry/static.go\<close>). The generated client of the HTTP registry is a record of calls; its models have
  pointers in their fields, and a nil pointer that is dereferenced is a panic. The clusters a registry
  lists point to each other through their account; the model keeps them in one list and refers to them
  by their index until the list is complete.
\<close>

section \<open>The models of the registry\<close>

record problem_model =
  qm_Detail :: string
  qm_Instance :: string
  qm_Status :: int
  qm_Title :: "string option"
  qm_Type :: "string option"
  qm_ClusterStatusProblemsItems0 :: "string gomap"

record status_model =
  ms_CurrentVersion :: string
  ms_LastVersion :: string
  ms_NextVersion :: string
  ms_Problems :: "problem_model option list"

record pool_model =
  nm_ConfigItems :: "string gomap"
  nm_DiscountStrategy :: "string option"
  nm_InstanceTypes :: "string list"
  nm_MaxSize :: "int option"
  nm_MinSize :: "int option"
  nm_Name :: "string option"
  nm_Profile :: "string option"

record cluster_model =
  cm_Alias :: "string option"
  cm_APIServerURL :: "string option"
  cm_Channel :: "string option"
  cm_ConfigItems :: "string gomap"
  cm_CreatedAt :: int
  cm_CriticalityLevel :: "int option"
  cm_Environment :: "string option"
  cm_ID :: "string option"
  cm_InfrastructureAccount :: "string option"
  cm_LifecycleStatus :: "string option"
  cm_LocalID :: "string option"
  cm_NodePools :: "pool_model option list"
  cm_Provider :: "string option"
  cm_Region :: "string option"
  cm_Status :: "status_model option"

record cluster_update =
  cu_Alias :: string
  cu_APIServerURL :: string
  cu_Channel :: string
  cu_ConfigItems :: "string gomap"
  cu_CriticalityLevel :: int
  cu_Environment :: string
  cu_ID :: string
  cu_InfrastructureAccount :: string
  cu_LifecycleStatus :: string
  cu_LocalID :: string
  cu_Provider :: string
  cu_Region :: string
  cu_Status :: "status_model option"

record account_model =
  am_CostCenter :: "string option"
  am_CriticalityLevel :: "int option"
  am_Environment :: "string option"
  am_ExternalID :: "string option"
  am_ID :: "string option"
  am_LifecycleStatus :: "string option"
  am_Name :: "string option"
  am_Owner :: "string option"
  am_Type :: "string option"

record pool_update =
  nu_ConfigItems :: "string gomap"
  nu_DiscountStrategy :: string
  nu_InstanceTypes :: "string list"
  nu_MaxSize :: int
  nu_MinSize :: int
  nu_Name :: string
  nu_Profile :: string

record account_update =
  au_CostCenter :: string
  au_CriticalityLevel :: int
  au_Environment :: string
  au_ExternalID :: string
  au_ID :: string
  au_LifecycleStatus :: string
  au_Name :: string
  au_Owner :: string
  au_Type :: string

record 'w registry_client =
  rc_Token :: "('w, string) io"
  rc_ListClusters :: "string \<Rightarrow> ('w, cluster_model option list) io"
  rc_UpdateCluster :: "string \<Rightarrow> string \<Rightarrow> cluster_update \<Rightarrow> ('w, unit) io"
  rc_AddOrUpdateConfigItem :: "string \<Rightarrow> string \<Rightarrow> string \<Rightarrow> string \<Rightarrow> ('w, unit) io"
  rc_ListAccounts :: "string \<Rightarrow> string \<Rightarrow> ('w, account_model option list) io"
  rc_URLHost :: "string \<Rightarrow> go_error + string"
  rc_MarshalPolicy :: "policy_document \<Rightarrow> go_error + string"

definition deref :: "'a option \<Rightarrow> 'a outcome" where
  "deref p = (case p of Some x \<Rightarrow> Ret x | None \<Rightarrow> Panic ''nil pointer dereference'')"

section \<open>Filter\<close>

record cluster_filter =
  ft_LifecycleStatus :: "string option"
  ft_Providers :: "string list"

fun has_provider :: "cluster_model \<Rightarrow> string list \<Rightarrow> bool outcome" where
  "has_provider m [] = Ret False"
| "has_provider m (p # ps) = bindO (deref (cm_Provider m)) (\<lambda>q. if q = p then Ret True else has_provider m ps)"

definition Includes :: "cluster_filter \<Rightarrow> cluster_model option \<Rightarrow> bool outcome" where
  "Includes f cluster =
     (case cluster of
        None \<Rightarrow> Ret False
      | Some m \<Rightarrow>
          bindO (case ft_LifecycleStatus f of
                   None \<Rightarrow> Ret True
                 | Some s \<Rightarrow> bindO (deref (cm_LifecycleStatus m)) (\<lambda>t. Ret (t = s))) (\<lambda>b.
            if \<not> b then Ret False
            else if ft_Providers f = [] then Ret True
            else has_provider m (ft_Providers f)))"

section \<open>Conversions\<close>

definition convertFromProblemModel :: "problem_model option \<Rightarrow> problem outcome" where
  "convertFromProblemModel p =
     bindO (deref p) (\<lambda>m.
     bindO (deref (qm_Title m)) (\<lambda>title.
     bindO (deref (qm_Type m)) (\<lambda>type.
     Ret \<lparr>pb_Detail = qm_Detail m, pb_Instance = qm_Instance m, pb_Status = qm_Status m, pb_Title = title, pb_Type = type\<rparr>)))"

definition convertFromClusterStatusModel :: "status_model option \<Rightarrow> cluster_status outcome" where
  "convertFromClusterStatusModel status =
     bindO (deref status) (\<lambda>s.
     bindO (mapO convertFromProblemModel (ms_Problems s)) (\<lambda>problems.
     Ret \<lparr>st_CurrentVersion = ms_CurrentVersion s, st_LastVersion = ms_LastVersion s, st_NextVersion = ms_NextVersion s,
          st_Problems = problems\<rparr>))"

definition convertToProblemModel :: "problem \<Rightarrow> problem_model" where
  "convertToProblemModel p =
     \<lparr>qm_Detail = pb_Detail p, qm_Instance = pb_Instance p, qm_Status = pb_Status p, qm_Title = Some (pb_Title p),
      qm_Type = Some (pb_Type p), qm_ClusterStatusProblemsItems0 = []\<rparr>"

definition convertToClusterStatusModel :: "cluster_status option \<Rightarrow> status_model outcome" where
  "convertToClusterStatusModel status =
     bindO (deref status) (\<lambda>s.
     Ret \<lparr>ms_CurrentVersion = st_CurrentVersion s, ms_LastVersion = st_LastVersion s, ms_NextVersion = st_NextVersion s,
          ms_Problems = map (\<lambda>p. Some (convertToProblemModel p)) (st_Problems s)\<rparr>)"

definition convertFromNodePoolModel :: "pool_model option \<Rightarrow> node_pool outcome" where
  "convertFromNodePoolModel nodePool =
     bindO (deref nodePool) (\<lambda>m.
     bindO (case nm_InstanceTypes m of
              [] \<Rightarrow> if nm_Profile m = Some ''worker-karpenter'' then Ret []
                    else bindO (deref (nm_Name m)) (\<lambda>name. Fail (Errorf (''no instance types for pool '' @ name)))
            | t # _ \<Rightarrow> Ret t) (\<lambda>instanceType.
     bindO (deref (nm_DiscountStrategy m)) (\<lambda>discount.
     bindO (deref (nm_Name m)) (\<lambda>name.
     bindO (deref (nm_Profile m)) (\<lambda>profile.
     bindO (deref (nm_MinSize m)) (\<lambda>minSize.
     bindO (deref (nm_MaxSize m)) (\<lambda>maxSize.
     Ret \<lparr>np_DiscountStrategy = discount, np_InstanceTypes = nm_InstanceTypes m, np_Name = name, np_Profile = profile,
          np_MinSize = minSize, np_MaxSize = maxSize, np_ConfigItems = nm_ConfigItems m, np_InstanceType = instanceType\<rparr>)))))))"

text \<open>The fields that the conversion does not set have their zero values; the time is one of them.\<close>

definition convertFromClusterModel :: "cluster_model \<Rightarrow> account_cluster outcome" where
  "convertFromClusterModel m =
     bindO (mapO convertFromNodePoolModel (cm_NodePools m)) (\<lambda>nodePools.
     bindO (deref (cm_Alias m)) (\<lambda>alias.
     bindO (deref (cm_APIServerURL m)) (\<lambda>url.
     bindO (deref (cm_Channel m)) (\<lambda>channel.
     bindO (deref (cm_CriticalityLevel m)) (\<lambda>level.
     bindO (deref (cm_Environment m)) (\<lambda>environment.
     bindO (deref (cm_ID m)) (\<lambda>i.
     bindO (deref (cm_InfrastructureAccount m)) (\<lambda>account.
     bindO (deref (cm_LifecycleStatus m)) (\<lambda>lifecycle.
     bindO (deref (cm_LocalID m)) (\<lambda>localID.
     bindO (deref (cm_Provider m)) (\<lambda>provider.
     bindO (deref (cm_Region m)) (\<lambda>region.
     bindO (convertFromClusterStatusModel (cm_Status m)) (\<lambda>status.
     Ret \<lparr>cl_Alias = alias, cl_APIServerURL = url, cl_Channel = channel, cl_ConfigItems = cm_ConfigItems m,
          cl_CriticalityLevel = level, cl_Environment = environment, cl_ID = i, cl_InfrastructureAccount = account,
          cl_LifecycleStatus = lifecycle, cl_LocalID = localID, cl_NodePools = nodePools, cl_Provider = provider,
          cl_Region = region, cl_Status = Some status, cl_Owner = [], cl_AccountName = [], cl_CreatedAt = 0,
          cl_OIDCProvider = [], cl_IAMRoleTrustRelationshipTemplate = []\<rparr>)))))))))))))"

section \<open>The clusters of an account\<close>

text \<open>
  The clusters listed by a registry as a list of cells; a cluster of an account is an index into it.
  The trust relationship of a cluster is written while the clusters after it have no identity provider
  yet.
\<close>

definition members :: "nat list gomap \<Rightarrow> string \<Rightarrow> nat list" where
  "members grouped account = (case m_get grouped account of Some indices \<Rightarrow> indices | None \<Rightarrow> [])"

definition add_member :: "account_cluster list \<Rightarrow> nat \<Rightarrow> nat list gomap \<Rightarrow> nat list gomap" where
  "add_member cs i grouped =
     (let a = cl_InfrastructureAccount (cs ! i) in m_put a (members grouped a @ [i]) grouped)"

definition by_account :: "account_cluster list \<Rightarrow> nat list gomap" where
  "by_account cs = fold (add_member cs) [0..<length cs] []"

definition seen :: "nat list gomap \<Rightarrow> account_cluster list \<Rightarrow> nat \<Rightarrow> cluster" where
  "seen grouped cs i =
     account_cluster.extend (cs ! i) (cluster.fields
       (map ((!) cs) (members grouped (cl_InfrastructureAccount (cs ! i)))))"

fun init_loop :: "(string \<Rightarrow> go_error + string) \<Rightarrow> (policy_document \<Rightarrow> go_error + string) \<Rightarrow> nat list gomap \<Rightarrow> nat list
    \<Rightarrow> account_cluster list \<Rightarrow> go_error + account_cluster list" where
  "init_loop url_host marshal grouped [] cs = Inr cs"
| "init_loop url_host marshal grouped (i # is) cs =
     (case InitOIDCProvider url_host marshal (seen grouped cs i) of
        Inl e \<Rightarrow> Inl e
      | Inr c \<Rightarrow> init_loop url_host marshal grouped is (cs[i := account_cluster.truncate c]))"

definition init_accounts :: "(string \<Rightarrow> go_error + string) \<Rightarrow> (policy_document \<Rightarrow> go_error + string) \<Rightarrow> account_cluster list
    \<Rightarrow> go_error + cluster list" where
  "init_accounts url_host marshal cs =
     (case init_loop url_host marshal (by_account cs) [0..<length cs] cs of
        Inl e \<Rightarrow> Inl e
      | Inr cs' \<Rightarrow> Inr (map (seen (by_account cs) cs') [0..<length cs']))"

section \<open>The HTTP registry\<close>

fun accounts_loop :: "account_model option list \<Rightarrow> account_model gomap \<Rightarrow> account_model gomap outcome" where
  "accounts_loop [] accounts = Ret accounts"
| "accounts_loop (a # as) accounts =
     bindO (deref a) (\<lambda>m. bindO (deref (am_ID m)) (\<lambda>i. accounts_loop as (m_put i m accounts)))"

definition getReadyInfrastructureAccounts :: "'w registry_client \<Rightarrow> ('w, account_model gomap) io" where
  "getReadyInfrastructureAccounts r =
     bindE (rc_Token r) (\<lambda>token.
     bindE (rc_ListAccounts r token ''ready'') (\<lambda>items. from_outcome (accounts_loop items [])))"

definition with_account :: "account_model gomap \<Rightarrow> account_cluster \<Rightarrow> account_cluster outcome" where
  "with_account accounts c =
     (case m_get accounts (cl_InfrastructureAccount c) of
        None \<Rightarrow> Ret c
      | Some a \<Rightarrow>
          bindO (deref (am_Owner a)) (\<lambda>owner.
          bindO (deref (am_Name a)) (\<lambda>name.
          Ret (c\<lparr>cl_Owner := owner, cl_AccountName := name\<rparr>))))"

fun convert_loop :: "cluster_filter \<Rightarrow> account_model gomap \<Rightarrow> cluster_model option list \<Rightarrow> account_cluster list \<Rightarrow> account_cluster list outcome" where
  "convert_loop f accounts [] result = Ret result"
| "convert_loop f accounts (p # ps) result =
     bindO (Includes f p) (\<lambda>b.
       if \<not> b then convert_loop f accounts ps result
       else bindO (deref p) (\<lambda>m.
            bindO (convertFromClusterModel m) (\<lambda>c.
            bindO (with_account accounts c) (\<lambda>c'.
            convert_loop f accounts ps (result @ [c'])))))"

text \<open>Sorting compares every element once there are two of them.\<close>

definition created :: "cluster_model option \<Rightarrow> int" where
  "created p = (case p of Some m \<Rightarrow> cm_CreatedAt m | None \<Rightarrow> 0)"

definition created_before :: "cluster_model option \<Rightarrow> cluster_model option \<Rightarrow> bool" where
  "created_before a b \<longleftrightarrow> created a < created b"

interpretation created_order: choice created_before
  by unfold_locales (auto simp: created_before_def)

definition sort_created :: "cluster_model option list \<Rightarrow> cluster_model option list outcome" where
  "sort_created items =
     (if 2 \<le> length items \<and> None \<in> set items then Panic ''nil pointer dereference''
      else Ret (sort_by created_before items))"

definition http_ListClusters :: "'w registry_client \<Rightarrow> cluster_filter \<Rightarrow> ('w, cluster list) io" where
  "http_ListClusters r f =
     bindE (rc_Token r) (\<lambda>token.
     bindE (rc_ListClusters r token) (\<lambda>items.
     bindE (from_outcome (sort_created items)) (\<lambda>ordered.
     bindE (getReadyInfrastructureAccounts r) (\<lambda>accounts.
     bindE (from_outcome (convert_loop f accounts ordered [])) (\<lambda>result.
     from_sum (init_accounts (rc_URLHost r) (rc_MarshalPolicy r) result))))))"

text \<open>The update that the registry sends: every other field has its zero value.\<close>

definition status_update :: "string \<Rightarrow> status_model \<Rightarrow> cluster_update" where
  "status_update lifecycle status =
     \<lparr>cu_Alias = [], cu_APIServerURL = [], cu_Channel = [], cu_ConfigItems = [], cu_CriticalityLevel = 0, cu_Environment = [],
      cu_ID = [], cu_InfrastructureAccount = [], cu_LifecycleStatus = lifecycle, cu_LocalID = [], cu_Provider = [], cu_Region = [],
      cu_Status = Some status\<rparr>"

definition http_UpdateLifecycleStatus :: "'w registry_client \<Rightarrow> cluster \<Rightarrow> ('w, unit) io" where
  "http_UpdateLifecycleStatus r c =
     bindE (rc_Token r) (\<lambda>token.
     bindE (from_outcome (convertToClusterStatusModel (cl_Status c))) (\<lambda>status.
     rc_UpdateCluster r token (cl_ID c) (status_update (cl_LifecycleStatus c) status)))"

fun items_loop :: "'w registry_client \<Rightarrow> string \<Rightarrow> string gomap \<Rightarrow> cluster \<Rightarrow> ('w, cluster) io" where
  "items_loop r token [] c = ret c"
| "items_loop r token ((key, v) # items) c =
     bindE (rc_AddOrUpdateConfigItem r token (cl_ID c) key v) (\<lambda>_.
       items_loop r token items (c\<lparr>cl_ConfigItems := m_put key v (cl_ConfigItems c)\<rparr>))"

definition http_UpdateConfigItems :: "'w registry_client \<Rightarrow> cluster \<Rightarrow> string gomap \<Rightarrow> ('w, cluster) io" where
  "http_UpdateConfigItems r c configItems = bindE (rc_Token r) (\<lambda>token. items_loop r token configItems c)"

definition http_registry :: "'w registry_client \<Rightarrow> 'w registry_ops" where
  "http_registry r =
     \<lparr>rg_ListClusters = (\<lambda>providers. http_ListClusters r \<lparr>ft_LifecycleStatus = None, ft_Providers = providers\<rparr>),
      rg_UpdateLifecycleStatus = http_UpdateLifecycleStatus r\<rparr>"

section \<open>The file registry\<close>

text \<open>
  The content of the file that was read last is part of the state. Reading YAML starts from that
  content and may fail after it has changed it.
\<close>

record 'w file_client =
  fr_filePath :: string
  fr_ReadFile :: "string \<Rightarrow> ('w, string) io"
  fr_Unmarshal :: "string \<Rightarrow> account_cluster list \<Rightarrow> account_cluster list \<times> go_error option"
  fr_URLHost :: "string \<Rightarrow> go_error + string"
  fr_MarshalPolicy :: "policy_document \<Rightarrow> go_error + string"

type_synonym 'w with_file = "account_cluster list \<times> 'w"

fun set_pool_types :: "string \<Rightarrow> node_pool list \<Rightarrow> node_pool list \<times> go_error option" where
  "set_pool_types i [] = ([], None)"
| "set_pool_types i (np # nps) =
     (case np_InstanceTypes np of
        [] \<Rightarrow> if np_Profile np = ''worker-karpenter''
              then (let (nps', e) = set_pool_types i nps in (np\<lparr>np_InstanceType := []\<rparr> # nps', e))
              else (np # nps, Some (Errorf (''no instance types for cluster '' @ i @ '', pool '' @ np_Name np)))
      | t # _ \<Rightarrow> (let (nps', e) = set_pool_types i nps in (np\<lparr>np_InstanceType := t\<rparr> # nps', e)))"

fun set_types :: "account_cluster list \<Rightarrow> account_cluster list \<times> go_error option" where
  "set_types [] = ([], None)"
| "set_types (c # cs) =
     (let (nps, e) = set_pool_types (cl_ID c) (cl_NodePools c); c' = c\<lparr>cl_NodePools := nps\<rparr> in
      case e of
        Some _ \<Rightarrow> (c' # cs, e)
      | None \<Rightarrow> (let (cs', e') = set_types cs in (c' # cs', e')))"

definition file_ListClusters :: "'w file_client \<Rightarrow> ('w with_file, cluster list) io" where
  "file_ListClusters r s =
     (case fr_ReadFile r (fr_filePath r) (snd s) of
        (Ret content, w) \<Rightarrow>
          (let (parsed, e) = fr_Unmarshal r content (fst s) in
           case e of
             Some err \<Rightarrow> (Fail (Wrapf (''failed to parse file '' @ fr_filePath r) err), (parsed, w))
           | None \<Rightarrow>
               (let (typed, e') = set_types parsed in
                case e' of
                  Some err \<Rightarrow> (Fail err, (typed, w))
                | None \<Rightarrow>
                    (case init_accounts (fr_URLHost r) (fr_MarshalPolicy r) typed of
                       Inl err \<Rightarrow> (Fail err, (typed, w))
                     | Inr cs \<Rightarrow> (Ret cs, (map account_cluster.truncate cs, w)))))
      | (Fail e, w) \<Rightarrow> (Fail e, (fst s, w))
      | (Panic m, w) \<Rightarrow> (Panic m, (fst s, w))
      | (OutOfFuel, w) \<Rightarrow> (OutOfFuel, (fst s, w)))"

definition empty_cluster_passed :: go_error where
  "empty_cluster_passed = Errorf ''failed to update the cluster. Empty cluster is passed''"

definition not_found_in_file :: "cluster \<Rightarrow> go_error" where
  "not_found_in_file c = Errorf (''failed to update the cluster: cluster '' @ cl_ID c @ '' not found'')"

text \<open>The status is dereferenced for the log.\<close>

definition file_UpdateLifecycleStatus :: "cluster option \<Rightarrow> ('w with_file, unit) io" where
  "file_UpdateLifecycleStatus cluster s =
     (case cluster of
        None \<Rightarrow> fail empty_cluster_passed s
      | Some c \<Rightarrow>
          if list_ex (\<lambda>d. cl_ID d = cl_ID c) (fst s)
          then bindE (from_outcome (deref (cl_Status c))) (\<lambda>_. ret ()) s
          else fail (not_found_in_file c) s)"

definition file_UpdateConfigItems :: "cluster option \<Rightarrow> string gomap \<Rightarrow> ('w with_file, cluster) io" where
  "file_UpdateConfigItems cluster configItems s =
     (case cluster of
        None \<Rightarrow> fail empty_cluster_passed s
      | Some c \<Rightarrow>
          if list_ex (\<lambda>d. cl_ID d = cl_ID c) (fst s)
          then ret (c\<lparr>cl_ConfigItems := fold (\<lambda>(k, v). m_put k v) configItems (cl_ConfigItems c)\<rparr>) s
          else fail (not_found_in_file c) s)"

section \<open>The static registry and the choice of a registry\<close>

definition static_clusters :: "account_cluster list" where
  "static_clusters =
     [\<lparr>cl_Alias = [], cl_APIServerURL = ''http://127.0.0.1:8001'', cl_Channel = ''alpha'',
       cl_ConfigItems = [(''foo'', ''bar'')], cl_CriticalityLevel = 2, cl_Environment = ''dev'', cl_ID = ''123'',
       cl_InfrastructureAccount = ''fake:abc'', cl_LifecycleStatus = ''ready'', cl_LocalID = [], cl_NodePools = [],
       cl_Provider = [], cl_Region = [], cl_Status = None, cl_Owner = [], cl_AccountName = [], cl_CreatedAt = 0,
       cl_OIDCProvider = [], cl_IAMRoleTrustRelationshipTemplate = []\<rparr>]"

definition static_ListClusters :: "(string \<Rightarrow> go_error + string) \<Rightarrow> (policy_document \<Rightarrow> go_error + string) \<Rightarrow> go_error + cluster list" where
  "static_ListClusters url_host marshal = init_accounts url_host marshal static_clusters"

datatype registry_choice = NoRegistry | HTTPRegistry string | FileRegistry string

record parsed_url =
  pu_Scheme :: string
  pu_Host :: string
  pu_Path :: string

definition NewRegistry :: "(string \<Rightarrow> go_error + parsed_url) \<Rightarrow> string \<Rightarrow> registry_choice outcome" where
  "NewRegistry parse uri =
     (case parse uri of
        Inl e \<Rightarrow> Ret NoRegistry
      | Inr u \<Rightarrow>
          if pu_Scheme u = ''http'' \<or> pu_Scheme u = ''https'' then Ret (HTTPRegistry uri)
          else if pu_Scheme u = ''file'' \<or> pu_Scheme u = [] then Ret (FileRegistry (pu_Host u @ pu_Path u))
          else Panic (''unknown registry type: '' @ pu_Scheme u))"

section \<open>What a listing holds\<close>

lemma members_add: "members (add_member cs i m) a = members m a @ (if cl_InfrastructureAccount (cs ! i) = a then [i] else [])"
  by (simp add: members_def add_member_def Let_def)

lemma members_fold:
  "members (fold (add_member cs) is m) a = members m a @ filter (\<lambda>i. cl_InfrastructureAccount (cs ! i) = a) is"
  by (induction "is" arbitrary: m) (simp_all add: members_add)

lemma members_by_account: "members (by_account cs) a = filter (\<lambda>i. cl_InfrastructureAccount (cs ! i) = a) [0..<length cs]"
  by (simp add: by_account_def members_fold) (simp add: members_def)

lemmas account_record = account_cluster.defs cluster.defs

lemma truncate_seen [simp]: "account_cluster.truncate (seen g cs i) = cs ! i"
  by (simp add: seen_def account_record)

lemma seen_fields [simp]:
  "cl_InfrastructureAccount (seen g cs i) = cl_InfrastructureAccount (cs ! i)"
  "cl_AccountClusters (seen g cs i) = map ((!) cs) (members g (cl_InfrastructureAccount (cs ! i)))"
  "cl_Status (seen g cs i) = cl_Status (cs ! i)" "cl_OIDCProvider (seen g cs i) = cl_OIDCProvider (cs ! i)"
  by (simp_all add: seen_def account_record)

lemma oidc_provider_truncate: "oidc_provider u (account_cluster.truncate c) = oidc_provider u c"
  by (simp add: oidc_provider_def account_record split: sum.splits)

lemma oidc_provider_stable [simp]:
  "oidc_provider u (c\<lparr>cl_OIDCProvider := p\<rparr>) = oidc_provider u c"
  "oidc_provider u (c\<lparr>cl_IAMRoleTrustRelationshipTemplate := t\<rparr>) = oidc_provider u c"
  by (simp_all add: oidc_provider_def split: sum.splits)

text \<open>Two clusters that differ in their provider and trust relationship only.\<close>

definition same_cluster :: "account_cluster \<Rightarrow> account_cluster \<Rightarrow> bool" where
  "same_cluster a b \<longleftrightarrow> (\<exists>p t. b = a\<lparr>cl_OIDCProvider := p, cl_IAMRoleTrustRelationshipTemplate := t\<rparr>)"

lemma same_cluster_refl [simp]: "same_cluster a a"
  unfolding same_cluster_def by (rule exI [of _ "cl_OIDCProvider a"], rule exI [of _ "cl_IAMRoleTrustRelationshipTemplate a"]) simp

lemma same_cluster_trans: "same_cluster a b \<Longrightarrow> same_cluster b c \<Longrightarrow> same_cluster a c"
proof -
  assume "same_cluster a b" "same_cluster b c"
  then obtain p t q u where "b = a\<lparr>cl_OIDCProvider := p, cl_IAMRoleTrustRelationshipTemplate := t\<rparr>"
      "c = b\<lparr>cl_OIDCProvider := q, cl_IAMRoleTrustRelationshipTemplate := u\<rparr>" unfolding same_cluster_def by blast
  then have "c = a\<lparr>cl_OIDCProvider := q, cl_IAMRoleTrustRelationshipTemplate := u\<rparr>" by simp
  then show ?thesis unfolding same_cluster_def by blast
qed

lemma same_cluster_fields:
  assumes "same_cluster a b"
  shows "cl_InfrastructureAccount b = cl_InfrastructureAccount a" "cl_Status b = cl_Status a" "oidc_provider u b = oidc_provider u a"
  using assms by (auto simp: same_cluster_def)

lemma InitOIDCProvider_result:
  assumes "InitOIDCProvider u m c = Inr c'"
  shows "same_cluster (account_cluster.truncate c) (account_cluster.truncate c') \<and> oidc_provider u c = Inr (cl_OIDCProvider c')"
  using assms
  by (auto simp: InitOIDCProvider_def own_entry_def Let_def same_cluster_def account_record split: sum.splits)

lemma init_loop_result:
  "init_loop u m g is cs = Inr cs' \<Longrightarrow> distinct is \<Longrightarrow> set is \<subseteq> {..<length cs} \<Longrightarrow>
     length cs' = length cs \<and> (\<forall>i < length cs. same_cluster (cs ! i) (cs' ! i))
     \<and> (\<forall>i < length cs. i \<notin> set is \<longrightarrow> cs' ! i = cs ! i)
     \<and> (\<forall>i \<in> set is. oidc_provider u (cs ! i) = Inr (cl_OIDCProvider (cs' ! i)))"
proof (induction "is" arbitrary: cs)
  case (Cons i "is")
  from Cons.prems(1) obtain c where c: "InitOIDCProvider u m (seen g cs i) = Inr c"
    and rest: "init_loop u m g is (cs[i := account_cluster.truncate c]) = Inr cs'" by (auto split: sum.splits)
  from InitOIDCProvider_result [OF c]
  have same: "same_cluster (cs ! i) (account_cluster.truncate c)" and prov: "oidc_provider u (cs ! i) = Inr (cl_OIDCProvider c)"
    using oidc_provider_truncate [of u "seen g cs i"] by simp_all
  have IH: "length cs' = length cs \<and> (\<forall>j < length cs. same_cluster (cs[i := account_cluster.truncate c] ! j) (cs' ! j))
     \<and> (\<forall>j < length cs. j \<notin> set is \<longrightarrow> cs' ! j = cs[i := account_cluster.truncate c] ! j)
     \<and> (\<forall>j \<in> set is. oidc_provider u (cs[i := account_cluster.truncate c] ! j) = Inr (cl_OIDCProvider (cs' ! j)))"
    using Cons.IH [OF rest] Cons.prems(2,3) by simp
  have "same_cluster (cs ! j) (cs' ! j)" if "j < length cs" for j
    using IH that same same_cluster_trans [of "cs ! i" "account_cluster.truncate c"] by (cases "j = i") auto
  moreover have "oidc_provider u (cs ! j) = Inr (cl_OIDCProvider (cs' ! j))" if "j \<in> set (i # is)" for j
    using IH that Cons.prems(2,3) prov by (cases "j = i") (auto simp: account_record nth_list_update)
  ultimately show ?case using IH by (auto simp: nth_list_update)
qed simp

text \<open>Each cluster of an account sees all clusters of the account, in the order of the listing.\<close>

definition account_consistent :: "(string \<Rightarrow> go_error + string) \<Rightarrow> cluster list \<Rightarrow> bool" where
  "account_consistent url_host cs \<longleftrightarrow> list_all (\<lambda>c.
     cl_AccountClusters c = map account_cluster.truncate (filter (\<lambda>d. cl_InfrastructureAccount d = cl_InfrastructureAccount c) cs)
     \<and> oidc_provider url_host c = Inr (cl_OIDCProvider c)) cs"

lemma init_accounts_result:
  assumes "init_accounts u m cs0 = Inr cs"
  shows "account_consistent u cs \<and> list_all2 (\<lambda>a c. same_cluster a (account_cluster.truncate c)) cs0 cs"
proof -
  let ?g = "by_account cs0" and ?n = "length cs0"
  from assms obtain st where st: "init_loop u m ?g [0..<?n] cs0 = Inr st" and cs: "cs = map (seen ?g st) [0..<length st]"
    by (auto simp: init_accounts_def split: sum.splits)
  have r: "length st = ?n" "\<And>i. i < ?n \<Longrightarrow> same_cluster (cs0 ! i) (st ! i)"
      "\<And>i. i < ?n \<Longrightarrow> oidc_provider u (cs0 ! i) = Inr (cl_OIDCProvider (st ! i))"
    using init_loop_result [OF st] by (simp_all add: atLeast0LessThan)
  have same_account: "cl_InfrastructureAccount (st ! i) = cl_InfrastructureAccount (cs0 ! i)" if "i < ?n" for i
    using same_cluster_fields(1) [OF r(2) [OF that]] .
  have "members ?g a = filter (\<lambda>i. cl_InfrastructureAccount (st ! i) = a) [0..<?n]" for a
    unfolding members_by_account using same_account by (intro filter_cong) auto
  then have "cl_AccountClusters (seen ?g st i) = map account_cluster.truncate (filter (\<lambda>d. cl_InfrastructureAccount d = cl_InfrastructureAccount (seen ?g st i)) cs)" for i
    by (simp add: cs r(1) filter_map o_def)
  moreover have "oidc_provider u (seen ?g st i) = Inr (cl_OIDCProvider (seen ?g st i))" if "i < ?n" for i
    using r(3) [OF that] same_cluster_fields(3) [OF r(2) [OF that], of u] oidc_provider_truncate [of u "seen ?g st i"] by simp
  ultimately have "account_consistent u cs"
    by (auto simp: account_consistent_def list_all_iff cs r(1))
  moreover have "list_all2 (\<lambda>a c. same_cluster a (account_cluster.truncate c)) cs0 cs"
    using r(1,2) by (simp add: cs list_all2_conv_all_nth)
  ultimately show ?thesis by blast
qed

text \<open>\<open>describes p c\<close>: the cluster is what the registry holds, with its node pools and its status.\<close>

definition describes :: "cluster_model option \<Rightarrow> ('a) account_cluster_scheme \<Rightarrow> bool" where
  "describes p c \<longleftrightarrow> (\<exists>m. p = Some m
     \<and> cm_ID m = Some (cl_ID c) \<and> cm_Alias m = Some (cl_Alias c) \<and> cm_APIServerURL m = Some (cl_APIServerURL c)
     \<and> cm_Channel m = Some (cl_Channel c) \<and> cm_ConfigItems m = cl_ConfigItems c
     \<and> cm_InfrastructureAccount m = Some (cl_InfrastructureAccount c) \<and> cm_LifecycleStatus m = Some (cl_LifecycleStatus c)
     \<and> cm_LocalID m = Some (cl_LocalID c) \<and> cm_Provider m = Some (cl_Provider c) \<and> cm_Region m = Some (cl_Region c)
     \<and> mapO convertFromNodePoolModel (cm_NodePools m) = Ret (cl_NodePools c)
     \<and> (\<exists>st. cl_Status c = Some st \<and> convertFromClusterStatusModel (cm_Status m) = Ret st))"

lemma from_sum_Ret: "from_sum q w = (Ret x, w') \<longleftrightarrow> q = Inr x \<and> w' = w"
  by (cases q) (auto simp: from_sum_def)

lemma from_outcome_Ret: "from_outcome q w = (Ret x, w') \<longleftrightarrow> q = Ret x \<and> w' = w"
  by (auto simp: from_outcome_def)

lemma deref_Ret [simp]: "deref p = Ret x \<longleftrightarrow> p = Some x"
  by (cases p) (auto simp: deref_def)

lemma convert_describes:
  assumes "convertFromClusterModel m = Ret c" and "with_account accounts c = Ret c'"
  shows "describes (Some m) c'"
proof -
  have "describes (Some m) c" using assms(1)
    by (auto simp: convertFromClusterModel_def describes_def bindO_Ret_iff)
  then show ?thesis using assms(2)
    by (auto simp: with_account_def describes_def bindO_Ret_iff split: option.splits)
qed

lemma convert_loop_describes:
  "convert_loop f accounts ps result = Ret cs \<Longrightarrow>
     \<exists>new. cs = result @ new \<and> list_all2 describes (filter (\<lambda>p. Includes f p = Ret True) ps) new"
proof (induction ps arbitrary: result)
  case (Cons p ps)
  from Cons.prems obtain b where b: "Includes f p = Ret b" by (auto simp: bindO_Ret_iff)
  show ?case
  proof (cases b)
    case False
    with b Cons show ?thesis by simp
  next
    case True
    with b Cons.prems obtain m c c' where m: "p = Some m" "convertFromClusterModel m = Ret c" "with_account accounts c = Ret c'"
        "convert_loop f accounts ps (result @ [c']) = Ret cs" by (auto simp: bindO_Ret_iff)
    then show ?thesis using Cons.IH [OF m(4)] convert_describes [OF m(2,3)] b True by auto
  qed
qed simp

lemma describes_same: "describes p a \<Longrightarrow> same_cluster a (account_cluster.truncate c) \<Longrightarrow> describes p c"
proof -
  assume d: "describes p a" and "same_cluster a (account_cluster.truncate c)"
  then obtain q t where "account_cluster.truncate c = a\<lparr>cl_OIDCProvider := q, cl_IAMRoleTrustRelationshipTemplate := t\<rparr>"
    unfolding same_cluster_def by blast
  with d have "describes p (account_cluster.truncate c)" by (simp add: describes_def)
  then show ?thesis by (simp add: describes_def account_record)
qed

lemma describes_all:
  assumes "list_all2 describes ps as" and "list_all2 (\<lambda>a c. same_cluster a (account_cluster.truncate c)) as cs"
  shows "list_all2 describes ps cs"
proof (rule list_all2_all_nthI)
  show "length ps = length cs" using assms by (metis list_all2_lengthD)
  fix i assume "i < length ps"
  then have "describes (ps ! i) (as ! i)" "same_cluster (as ! i) (account_cluster.truncate (cs ! i))"
    using assms by (auto simp: list_all2_conv_all_nth)
  then show "describes (ps ! i) (cs ! i)" by (rule describes_same)
qed

lemma sort_created_Ret:
  assumes "sort_created items = Ret ordered"
  shows "mset ordered = mset items \<and> sorted_wrt (\<lambda>a b. created a \<le> created b) ordered"
  using assms created_order.sorted_sort_by [of items]
  by (simp add: sort_created_def created_before_def not_less split: if_splits) auto

lemma listing_copies:
  assumes "http_ListClusters r f w = (Ret cs, w')"
  shows "\<exists>token w1 w2 items ordered. rc_ListClusters r token w1 = (Ret items, w2)
     \<and> mset ordered = mset items \<and> sorted_wrt (\<lambda>a b. created a \<le> created b) ordered
     \<and> list_all2 describes (filter (\<lambda>p. Includes f p = Ret True) ordered) cs
     \<and> account_consistent (rc_URLHost r) cs"
proof -
  from assms obtain token w1 w2 items ordered accounts result where
      items: "rc_ListClusters r token w1 = (Ret items, w2)" "sort_created items = Ret ordered"
        "convert_loop f accounts ordered [] = Ret result"
      and cs: "init_accounts (rc_URLHost r) (rc_MarshalPolicy r) result = Inr cs"
    by (auto simp: http_ListClusters_def from_outcome_Ret from_sum_Ret)
  have "list_all2 describes (filter (\<lambda>p. Includes f p = Ret True) ordered) result"
    using convert_loop_describes [OF items(3)] by simp
  moreover have "list_all2 (\<lambda>a c. same_cluster a (account_cluster.truncate c)) result cs"
    using init_accounts_result [OF cs] by blast
  ultimately have "list_all2 describes (filter (\<lambda>p. Includes f p = Ret True) ordered) cs"
    by (rule describes_all)
  with items init_accounts_result [OF cs] sort_created_Ret show ?thesis by blast
qed

text \<open>
  Claim C15. A listing of the HTTP registry copies what the registry holds: exactly the clusters that
  the filter includes, oldest first, with their identity, their node pools and their status; every
  cluster has a status, the identity provider of its kind, and as its account clusters the listed
  clusters of its account in the order of the listing.
\<close>

theorem http_listing:
  assumes "http_ListClusters r f w = (Ret cs, w')"
  shows "\<exists>token w1 w2 items ordered. rc_ListClusters r token w1 = (Ret items, w2)
     \<and> mset ordered = mset items \<and> sorted_wrt (\<lambda>a b. created a \<le> created b) ordered
     \<and> list_all2 describes (filter (\<lambda>p. Includes f p = Ret True) ordered) cs
     \<and> account_consistent (rc_URLHost r) cs"
  by (rule listing_copies [OF assms])

text \<open>A registry with two clusters of one account.\<close>

definition sample_model :: "string \<Rightarrow> int \<Rightarrow> cluster_model" where
  "sample_model i t = \<lparr>cm_Alias = Some i, cm_APIServerURL = Some ''https://kube.example.org'', cm_Channel = Some ''stable'',
     cm_ConfigItems = [], cm_CreatedAt = t, cm_CriticalityLevel = Some 1, cm_Environment = Some ''test'', cm_ID = Some i,
     cm_InfrastructureAccount = Some ''aws:1'', cm_LifecycleStatus = Some ''ready'', cm_LocalID = Some i, cm_NodePools = [],
     cm_Provider = Some ''zalando-aws'', cm_Region = Some ''eu'',
     cm_Status = Some \<lparr>ms_CurrentVersion = [], ms_LastVersion = [], ms_NextVersion = [], ms_Problems = []\<rparr>\<rparr>"

text \<open>The providers that a policy trusts stand for the JSON of the policy.\<close>

definition sample_marshal :: "policy_document \<Rightarrow> go_error + string" where
  "sample_marshal d = Inr (join_with '' '' (map (\<lambda>s. m_str (sm_Principal s) ''Federated'') (filter (\<lambda>s. m_has (sm_Principal s) ''Federated'') (pd_Statement d))))"

definition sample_client :: "'w registry_client" where
  "sample_client = \<lparr>rc_Token = ret ''t'', rc_ListClusters = (\<lambda>_. ret [Some (sample_model ''new'' 7), Some (sample_model ''old'' 3)]),
     rc_UpdateCluster = (\<lambda>_ _ _. ret ()), rc_AddOrUpdateConfigItem = (\<lambda>_ _ _ _. ret ()),
     rc_ListAccounts = (\<lambda>_ _. ret [Some \<lparr>am_CostCenter = Some ''1234'', am_CriticalityLevel = Some 2, am_Environment = Some ''test'',
        am_ExternalID = Some ''1'', am_ID = Some ''aws:1'', am_LifecycleStatus = Some ''ready'', am_Name = Some ''n'',
        am_Owner = Some ''o'', am_Type = Some ''aws''\<rparr>]),
     rc_URLHost = (\<lambda>_. Inr ''kube.example.org''), rc_MarshalPolicy = sample_marshal\<rparr>"

definition sample_filter :: cluster_filter where
  "sample_filter = \<lparr>ft_LifecycleStatus = None, ft_Providers = [''zalando-aws'']\<rparr>"

definition sample_listing :: "cluster list" where
  "sample_listing = (case fst (http_ListClusters sample_client sample_filter ()) of Ret cs \<Rightarrow> cs | _ \<Rightarrow> [])"

lemma sample_listing_run: "http_ListClusters sample_client sample_filter () = (Ret sample_listing, ())"
  by code_simp

theorem http_listing_witness:
  "http_ListClusters sample_client sample_filter () = (Ret sample_listing, ()) \<and> map cl_ID sample_listing = [''old'', ''new'']
     \<and> account_consistent (rc_URLHost (sample_client :: unit registry_client)) sample_listing"
proof -
  have "map cl_ID sample_listing = [''old'', ''new'']" by code_simp
  with http_listing [OF sample_listing_run] sample_listing_run show ?thesis by blast
qed

text \<open>
  The trust relationship of a cluster is written before the clusters after it have their identity
  providers: the older of two clusters of an account trusts the empty provider in place of the newer
  one.
\<close>

lemma trust_misses_later_clusters:
  "map cl_IAMRoleTrustRelationshipTemplate sample_listing =
     [''arn:aws:iam::1:oidc-provider/old.example.org arn:aws:iam::1:oidc-provider/'',
      ''arn:aws:iam::1:oidc-provider/old.example.org arn:aws:iam::1:oidc-provider/new.example.org'']
   \<and> map cl_OIDCProvider sample_listing = [''old.example.org'', ''new.example.org'']"
  by code_simp

text \<open>The time of creation is lost: the sibling of a cluster is the first one listed.\<close>

lemma creation_time_lost: "convertFromClusterModel m = Ret c \<Longrightarrow> cl_CreatedAt c = 0"
  by (auto simp: convertFromClusterModel_def bindO_Ret_iff)

text \<open>The status that is sent to the registry is the status that is read from it.\<close>

lemma status_roundtrip:
  "convertToClusterStatusModel (Some st) = Ret m \<Longrightarrow> convertFromClusterStatusModel (Some m) = Ret st"
proof -
  have "mapO convertFromProblemModel (map (\<lambda>p. Some (convertToProblemModel p)) ps) = Ret ps" for ps
    by (induction ps) (simp_all add: convertFromProblemModel_def convertToProblemModel_def deref_def)
  then show "convertToClusterStatusModel (Some st) = Ret m \<Longrightarrow> convertFromClusterStatusModel (Some m) = Ret st"
    by (auto simp: convertToClusterStatusModel_def convertFromClusterStatusModel_def deref_def)
qed

section \<open>Storing config items\<close>

text \<open>What the creation hook relies on: a successful update leaves the items in the cluster.\<close>

locale config_store =
  fixes update :: "cluster \<Rightarrow> string gomap \<Rightarrow> ('w, cluster) io"
  assumes stores: "update c items w = (Ret c', w') \<Longrightarrow>
    c' = c\<lparr>cl_ConfigItems := fold (\<lambda>(k, v). m_put k v) items (cl_ConfigItems c)\<rparr>"

lemma items_loop_stores:
  "items_loop r token items c w = (Ret c', w') \<Longrightarrow>
     c' = c\<lparr>cl_ConfigItems := fold (\<lambda>(k, v). m_put k v) items (cl_ConfigItems c)\<rparr>"
  by (induction r token items c arbitrary: w rule: items_loop.induct) auto

interpretation http_store: config_store "http_UpdateConfigItems r" for r
  by unfold_locales (auto simp: http_UpdateConfigItems_def dest: items_loop_stores)

interpretation file_store: config_store "\<lambda>c. file_UpdateConfigItems (Some c)"
  by unfold_locales (auto simp: file_UpdateConfigItems_def split: if_splits)

section \<open>Complete answers\<close>

text \<open>
  The fields that the conversions dereference are there. The document of the API marks them as required,
  except for the status of a cluster; that no pool, problem, cluster or account is null it does not say.
\<close>

definition complete_problem :: "problem_model option \<Rightarrow> bool" where
  "complete_problem p \<longleftrightarrow> (\<exists>m. p = Some m \<and> qm_Title m \<noteq> None \<and> qm_Type m \<noteq> None)"

definition complete_pool :: "pool_model option \<Rightarrow> bool" where
  "complete_pool p \<longleftrightarrow> (\<exists>m. p = Some m \<and> nm_DiscountStrategy m \<noteq> None \<and> nm_MaxSize m \<noteq> None \<and> nm_MinSize m \<noteq> None
     \<and> nm_Name m \<noteq> None \<and> nm_Profile m \<noteq> None)"

definition complete_cluster :: "cluster_model option \<Rightarrow> bool" where
  "complete_cluster p \<longleftrightarrow> (\<exists>m. p = Some m \<and> cm_Alias m \<noteq> None \<and> cm_APIServerURL m \<noteq> None \<and> cm_Channel m \<noteq> None
     \<and> cm_CriticalityLevel m \<noteq> None \<and> cm_Environment m \<noteq> None \<and> cm_ID m \<noteq> None \<and> cm_InfrastructureAccount m \<noteq> None
     \<and> cm_LifecycleStatus m \<noteq> None \<and> cm_LocalID m \<noteq> None \<and> cm_Provider m \<noteq> None \<and> cm_Region m \<noteq> None
     \<and> list_all complete_pool (cm_NodePools m)
     \<and> (\<exists>s. cm_Status m = Some s \<and> list_all complete_problem (ms_Problems s)))"

definition complete_account :: "account_model option \<Rightarrow> bool" where
  "complete_account p \<longleftrightarrow> (\<exists>m. p = Some m \<and> am_ID m \<noteq> None \<and> am_Name m \<noteq> None \<and> am_Owner m \<noteq> None)"

text \<open>A call that ends with a value or an error in every world, and never with a panic.\<close>

definition answers :: "('w, 'a) io \<Rightarrow> bool" where
  "answers m \<longleftrightarrow> (\<forall>w. orderly (fst (m w)))"

lemma deref_Some [simp]: "deref (Some x) = Ret x"
  by (simp add: deref_def)

lemma orderly_pool: "complete_pool p \<Longrightarrow> orderly (convertFromNodePoolModel p)"
  by (auto simp: complete_pool_def convertFromNodePoolModel_def split: list.splits)

lemma orderly_problem: "complete_problem p \<Longrightarrow> orderly (convertFromProblemModel p)"
  by (auto simp: complete_problem_def convertFromProblemModel_def)

lemma orderly_convert: "complete_cluster (Some m) \<Longrightarrow> orderly (convertFromClusterModel m)"
  by (auto simp: complete_cluster_def convertFromClusterModel_def convertFromClusterStatusModel_def list_all_iff
      intro!: orderly_bindO orderly_mapO orderly_pool orderly_problem)

lemma orderly_has_provider: "complete_cluster (Some m) \<Longrightarrow> orderly (has_provider m ps)"
  by (induction ps) (auto simp: complete_cluster_def)

lemma orderly_Includes: "complete_cluster p \<Longrightarrow> orderly (Includes f p)"
proof -
  assume "complete_cluster p"
  then obtain m where m: "p = Some m" "complete_cluster (Some m)" by (auto simp: complete_cluster_def)
  then have "\<exists>t. cm_LifecycleStatus m = Some t" by (auto simp: complete_cluster_def)
  then show ?thesis using m orderly_has_provider [OF m(2)]
    by (auto simp: Includes_def deref_def split: option.splits)
qed

lemma orderly_with_account:
  "\<forall>i a. m_get accounts i = Some a \<longrightarrow> am_Owner a \<noteq> None \<and> am_Name a \<noteq> None \<Longrightarrow> orderly (with_account accounts c)"
  by (force simp: with_account_def split: option.splits)

lemma orderly_convert_loop:
  "list_all complete_cluster ps \<Longrightarrow> \<forall>i a. m_get accounts i = Some a \<longrightarrow> am_Owner a \<noteq> None \<and> am_Name a \<noteq> None \<Longrightarrow>
     orderly (convert_loop f accounts ps result)"
proof (induction ps arbitrary: result)
  case (Cons p ps)
  from Cons.prems(1) obtain m where "p = Some m" "complete_cluster (Some m)" by (auto simp: complete_cluster_def)
  then show ?case using Cons
    by (auto intro!: orderly_bindO orderly_Includes orderly_convert orderly_with_account)
qed simp

lemma accounts_loop_complete:
  "list_all complete_account as \<Longrightarrow> \<forall>i a. m_get accounts i = Some a \<longrightarrow> am_Owner a \<noteq> None \<and> am_Name a \<noteq> None \<Longrightarrow>
     \<exists>m. accounts_loop as accounts = Ret m \<and> (\<forall>i a. m_get m i = Some a \<longrightarrow> am_Owner a \<noteq> None \<and> am_Name a \<noteq> None)"
proof (induction "as" arbitrary: accounts)
  case (Cons p "as")
  then obtain a i where a: "p = Some a" "am_ID a = Some i" "am_Owner a \<noteq> None \<and> am_Name a \<noteq> None"
    by (auto simp: complete_account_def)
  then have "\<forall>j b. m_get (m_put i a accounts) j = Some b \<longrightarrow> am_Owner b \<noteq> None \<and> am_Name b \<noteq> None"
    using Cons.prems(2) by auto
  with Cons a show ?case by (simp add: deref_def)
qed auto

text \<open>
  \<open>registry_answers r\<close>: the calls of the client return values or errors, and the values are complete.
\<close>

definition registry_answers :: "'w registry_client \<Rightarrow> bool" where
  "registry_answers r \<longleftrightarrow> answers (rc_Token r) \<and> (\<forall>t. answers (rc_ListClusters r t)) \<and> (\<forall>t s. answers (rc_ListAccounts r t s))
     \<and> (\<forall>t w items w'. rc_ListClusters r t w = (Ret items, w') \<longrightarrow> list_all complete_cluster items)
     \<and> (\<forall>t s w items w'. rc_ListAccounts r t s w = (Ret items, w') \<longrightarrow> list_all complete_account items)"

lemma answers_bindE: "answers m \<Longrightarrow> (\<And>x w w'. m w = (Ret x, w') \<Longrightarrow> answers (f x)) \<Longrightarrow> answers (bindE m f)"
proof (unfold answers_def, intro allI)
  fix w assume m: "\<forall>w. orderly (fst (m w))" and f: "\<And>x w w'. m w = (Ret x, w') \<Longrightarrow> \<forall>w. orderly (fst (f x w))"
  obtain r w' where r: "m w = (r, w')" by (cases "m w")
  then show "orderly (fst (bindE m f w))" using m [rule_format, of w] f [of w] by (cases r) (auto simp: bindE_def)
qed

lemma answers_from_outcome [simp]: "answers (from_outcome q) \<longleftrightarrow> orderly q"
  by (simp add: answers_def from_outcome_def)

lemma answers_from_sum [simp]: "answers (from_sum q)"
  by (cases q) (auto simp: answers_def from_sum_def ret_def fail_def)

lemma accounts_complete:
  assumes "registry_answers r" and "getReadyInfrastructureAccounts r w = (Ret accounts, w')"
  shows "\<forall>i a. m_get accounts i = Some a \<longrightarrow> am_Owner a \<noteq> None \<and> am_Name a \<noteq> None"
proof -
  from assms(2) obtain t w1 w2 items where items: "rc_ListAccounts r t ''ready'' w1 = (Ret items, w2)" "accounts_loop items [] = Ret accounts"
    by (auto simp: getReadyInfrastructureAccounts_def from_outcome_Ret)
  have "list_all complete_account items" using assms(1) items(1) by (simp add: registry_answers_def) blast
  from accounts_loop_complete [OF this, of "[]"] items(2) show ?thesis by auto
qed

lemma accounts_answer: "registry_answers r \<Longrightarrow> answers (getReadyInfrastructureAccounts r)"
proof -
  assume r: "registry_answers r"
  have "orderly (accounts_loop items [])" if "rc_ListAccounts r t s w = (Ret items, w')" for t s w items w'
  proof -
    have "list_all complete_account items" using r that by (simp add: registry_answers_def) blast
    from accounts_loop_complete [OF this, of "[]"] show ?thesis by auto
  qed
  moreover have "answers (rc_Token r)" "\<And>t s. answers (rc_ListAccounts r t s)" using r by (simp_all add: registry_answers_def)
  ultimately show ?thesis
    unfolding getReadyInfrastructureAccounts_def by (intro answers_bindE) auto
qed

lemma http_ListClusters_answers:
  assumes "registry_answers r"
  shows "answers (http_ListClusters r f)"
proof -
  have calls: "answers (rc_Token r)" "\<And>t. answers (rc_ListClusters r t)" using assms by (simp_all add: registry_answers_def)
  have complete: "list_all complete_cluster items" if "rc_ListClusters r t w = (Ret items, w')" for t w items w'
    using assms that by (simp add: registry_answers_def) blast
  have sorts: "\<exists>ordered. sort_created items = Ret ordered \<and> list_all complete_cluster ordered" if "list_all complete_cluster items" for items
    using that by (auto simp: sort_created_def list_all_iff complete_cluster_def)
  have converts: "orderly (convert_loop f accounts ordered [])"
    if "rc_ListClusters r t w = (Ret items, w')" "sort_created items = Ret ordered" "getReadyInfrastructureAccounts r v = (Ret accounts, v')"
    for t w items w' ordered v accounts v'
    using orderly_convert_loop [OF _ accounts_complete [OF assms that(3)]] sorts [OF complete [OF that(1)]] that(2) by auto
  have sorted_answer: "orderly (sort_created items)" if "rc_ListClusters r t w = (Ret items, w')" for t w items w'
    using sorts [OF complete [OF that]] by auto
  show ?thesis unfolding http_ListClusters_def
    by (intro answers_bindE calls accounts_answer assms, simp_all only: answers_from_outcome answers_from_sum from_outcome_Ret)
      (blast intro: sorted_answer converts)+
qed

end
