(* ===== verification/Providers.thy ===== *)
theory Providers
  imports Clusterpy Registry
begin

text \<open>
  The provisioners of the two kinds of clusters (\<open>provisioner/zalando_aws.go\<close>,
  \<open>provisioner/zalando_eks.go\<close>, \<open>provisioner/stdout.go\<close>), the connection to the account of a cluster
  (\<open>setupAWSAdapter\<close> of \<open>provisioner/clusterpy.go\<close>, \<open>pkg/aws/config.go\<close>, \<open>pkg/aws/eks/token.go\<close>) and
  the hook that stores what is known of an EKS cluster only after its creation. Everything made from an
  AWS configuration is a function of it.
\<close>

section \<open>Connecting to an account\<close>

record aws_config =
  ac_Region :: string
  ac_AssumedRole :: "string option"

record ('w, 'c, 'y, 'o, 'm) provider_env =
  pe_LoadDefaultConfig :: "string \<Rightarrow> ('w, aws_config) io"
  pe_MetadataRegion :: "('w, string) io"
  pe_Outside :: "aws_config \<Rightarrow> ('w, 'c, 'y, 'o, 'm) outside"
  pe_NewGenerator :: "('w, unit) io"
  pe_GetWithSTS :: "aws_config \<Rightarrow> string \<Rightarrow> ('w, string) io"
  pe_UpdateConfigItems :: "cluster \<Rightarrow> string gomap \<Rightarrow> ('w, cluster) io"

definition aws_Config :: "('w, 'c, 'y, 'o, 'm) provider_env \<Rightarrow> string \<Rightarrow> string \<Rightarrow> ('w, aws_config) io" where
  "aws_Config e assumedRole region =
     bindE (pe_LoadDefaultConfig e region) (\<lambda>cfg.
     bindE (if ac_Region cfg = []
            then bindE (pe_MetadataRegion e) (\<lambda>r. ret (cfg\<lparr>ac_Region := r\<rparr>))
            else ret cfg) (\<lambda>cfg1.
     ret (if assumedRole \<noteq> [] then cfg1\<lparr>ac_AssumedRole := Some assumedRole\<rparr> else cfg1)))"

definition role_arn :: "clusterpy \<Rightarrow> string \<Rightarrow> string" where
  "role_arn p account =
     (if cy_assumedRole p \<noteq> [] then ''arn:aws:iam::'' @ account @ '':role/'' @ cy_assumedRole p else cy_assumedRole p)"

definition setupAWSAdapter :: "('w, 'c, 'y, 'o, 'm) provider_env \<Rightarrow> clusterpy \<Rightarrow> cluster \<Rightarrow> ('w, aws_config) io" where
  "setupAWSAdapter e p c =
     (case split_on (CHR '':'') (cl_InfrastructureAccount c) of
        [provider, account] \<Rightarrow>
          if provider \<noteq> ''aws'' then fail (Errorf (''clusterpy: Cannot work with cloud provider '' @ [CHR 0x27] @ provider))
          else
            bindE (aws_Config e (role_arn p account) (cl_Region c)) (\<lambda>cfg.
            bindE (VerifyAccount (sr_aws (pe_Outside e cfg)) (cl_InfrastructureAccount c)) (\<lambda>_.
            ret cfg))
      | _ \<Rightarrow> fail (Errorf (''clusterpy: Unknown format for infrastructure account '' @ [CHR 0x27] @ cl_InfrastructureAccount c)))"

section \<open>The hook of EKS clusters\<close>

definition KeyEKSEndpoint :: string where "KeyEKSEndpoint = ''eks_endpoint''"
definition KeyEKSCAData :: string where "KeyEKSCAData = ''eks_certificate_authority_data''"
definition KeyEKSOIDCIssuerURL :: string where "KeyEKSOIDCIssuerURL = ''eks_oidc_issuer_url''"

lemmas eks_keys = KeyEKSEndpoint_def KeyEKSCAData_def KeyEKSOIDCIssuerURL_def

definition eks_items :: "EKSClusterDetails \<Rightarrow> string gomap" where
  "eks_items d = [(KeyEKSEndpoint, ed_Endpoint d), (KeyEKSCAData, ed_CertificateAuthority d), (KeyEKSOIDCIssuerURL, ed_OIDCIssuerURL d)]"

text \<open>The items whose value differs; an item that is missing counts as empty.\<close>

definition to_update :: "string gomap \<Rightarrow> EKSClusterDetails \<Rightarrow> string gomap" where
  "to_update items d = filter (\<lambda>(k, v). m_str items k \<noteq> v) (eks_items d)"

definition hook_Execute :: "(cluster \<Rightarrow> string gomap \<Rightarrow> ('w, cluster) io) \<Rightarrow> (string \<Rightarrow> go_error + string) \<Rightarrow> ('w, 'c) aws_api
    \<Rightarrow> cluster \<Rightarrow> ('w, hook_response \<times> cluster) io" where
  "hook_Execute update decode a c =
     bindE (GetEKSClusterDetails a c) (\<lambda>d.
     bindE (from_sum (decode (ed_CertificateAuthority d))) (\<lambda>decodedCA.
     bindE (update c (to_update (cl_ConfigItems c) d)) (\<lambda>c'.
     ret (\<lparr>hr_APIServerURL = ed_Endpoint d, hr_CAData = decodedCA, hr_ServiceCIDR = ed_ServiceCIDR d\<rparr>, c'))))"

section \<open>The provisioner of AWS clusters\<close>

definition NewZalandoAWSProvisioner :: "string \<Rightarrow> clusterpy option \<Rightarrow> clusterpy" where
  "NewZalandoAWSProvisioner assumedRole options =
     (let none = \<lparr>cy_assumedRole = assumedRole, cy_dryRun = False, cy_applyOnly = False, cy_Strategy = [],
            cy_drainConfig = \<lparr>dc_ForceEvictionGracePeriod = 0, dc_MinPodLifetime = 0, dc_MinHealthyPDBSiblingLifetime = 0,
              dc_MinUnhealthyPDBSiblingLifetime = 0, dc_ForceEvictionInterval = 0, dc_PollInterval = 0\<rparr>,
            cy_removeVolumes = False, cy_manageEtcdStack = False, cy_manageMasterNodes = True\<rparr> in
      case options of
        None \<Rightarrow> none
      | Some opt \<Rightarrow> none\<lparr>cy_dryRun := cy_dryRun opt, cy_applyOnly := cy_applyOnly opt, cy_Strategy := cy_Strategy opt,
                      cy_drainConfig := cy_drainConfig opt, cy_removeVolumes := cy_removeVolumes opt,
                      cy_manageEtcdStack := cy_manageEtcdStack opt\<rparr>)"

definition aws_Supports :: "cluster \<Rightarrow> bool" where
  "aws_Supports c \<longleftrightarrow> cl_Provider c = ZalandoAWSProvider"

definition setup_failed :: "go_error \<Rightarrow> ('w, 'a) io" where
  "setup_failed err = fail (Errorf (''failed to setup AWS Adapter: '' @ error_text err))"

definition ZalandoAWS_Provision :: "('w, 'c, 'y, 'o, 'm) provider_env \<Rightarrow> clusterpy \<Rightarrow> 'w config \<Rightarrow> cluster \<Rightarrow> ('w, cluster) io" where
  "ZalandoAWS_Provision e p config c =
     (if \<not> aws_Supports c then fail ErrProviderNotSupported
      else tryE (setupAWSAdapter e p c) setup_failed (\<lambda>cfg.
        provision ((pe_Outside e cfg)\<lparr>sr_config := config, ou_hook := None\<rparr>) p c))"

definition ZalandoAWS_Decommission :: "('w, 'c, 'y, 'o, 'm) provider_env \<Rightarrow> clusterpy \<Rightarrow> cluster \<Rightarrow> ('w, unit) io" where
  "ZalandoAWS_Decommission e p c =
     (if \<not> aws_Supports c then fail ErrProviderNotSupported
      else tryE (setupAWSAdapter e p c) setup_failed (\<lambda>cfg.
        cluster_decommission (pe_Outside e cfg) p c [] []))"

section \<open>The provisioner of EKS clusters\<close>

definition NewZalandoEKSProvisioner :: "string \<Rightarrow> clusterpy option \<Rightarrow> clusterpy" where
  "NewZalandoEKSProvisioner assumedRole options =
     (NewZalandoAWSProvisioner assumedRole options)\<lparr>cy_manageMasterNodes := False, cy_manageEtcdStack := False\<rparr>"

definition eks_Supports :: "cluster \<Rightarrow> bool" where
  "eks_Supports c \<longleftrightarrow> cl_Provider c = ZalandoEKSProvider"

definition eks_Token :: "('w, 'c, 'y, 'o, 'm) provider_env \<Rightarrow> aws_config \<Rightarrow> string \<Rightarrow> ('w, string) io" where
  "eks_Token e cfg clusterName = bindE (pe_NewGenerator e) (\<lambda>_. pe_GetWithSTS e cfg clusterName)"

definition ZalandoEKS_Provision :: "('w, 'c, 'y, 'o, 'm) provider_env \<Rightarrow> clusterpy \<Rightarrow> 'w config \<Rightarrow> cluster \<Rightarrow> ('w, cluster) io" where
  "ZalandoEKS_Provision e p config c =
     (if \<not> eks_Supports c then fail ErrProviderNotSupported
      else tryE (setupAWSAdapter e p c) setup_failed (\<lambda>cfg.
        let s = pe_Outside e cfg in
        provision (s\<lparr>sr_config := config, ou_Token := eks_Token e cfg (cl_Alias c),
          ou_hook := Some (hook_Execute (pe_UpdateConfigItems e) (sr_Base64Decode s) (sr_aws s))\<rparr>) p c))"

definition no_cluster_found :: "go_error \<Rightarrow> bool" where
  "no_cluster_found err \<longleftrightarrow>
     (case as_api_error err of
        Some (c, m) \<Rightarrow> c = ''ResourceNotFoundException'' \<and> contains_str m ''No cluster found for name''
      | None \<Rightarrow> False)"

definition ZalandoEKS_Decommission :: "('w, 'c, 'y, 'o, 'm) provider_env \<Rightarrow> clusterpy \<Rightarrow> cluster \<Rightarrow> ('w, unit) io" where
  "ZalandoEKS_Decommission e p c =
     (if \<not> eks_Supports c then fail ErrProviderNotSupported
      else bindE (setupAWSAdapter e p c) (\<lambda>cfg.
        let s = pe_Outside e cfg in
        tryE (GetEKSClusterDetails (sr_aws s) c)
          (\<lambda>err. if no_cluster_found err then ret () else fail err)
          (\<lambda>d. bindE (from_sum (sr_Base64Decode s (ed_CertificateAuthority d))) (\<lambda>caData.
             cluster_decommission (s\<lparr>ou_Token := eks_Token e cfg (cl_Alias c)\<rparr>) p (c\<lparr>cl_APIServerURL := ed_Endpoint d\<rparr>) caData
               [DeleteLeakedAWSVPCCNIENIs (sr_aws s)]))))"

section \<open>The provisioner that only prints\<close>

definition stdout_Supports :: "cluster \<Rightarrow> bool" where "stdout_Supports c = True"

definition stdout_Provision :: "'w config \<Rightarrow> cluster \<Rightarrow> ('w, cluster) io" where "stdout_Provision config c = ret c"

definition stdout_Decommission :: "cluster \<Rightarrow> ('w, unit) io" where "stdout_Decommission c = ret ()"

section \<open>As the controller uses them\<close>

text \<open>
  The controller hands a cluster to a provisioner and keeps it; what a failing provisioner changed in it
  before the failure is not modelled.
\<close>

definition on_object :: "(cluster \<Rightarrow> ('w, cluster) io) \<Rightarrow> (cluster \<times> 'w, unit) io" where
  "on_object m s =
     (case m (fst s) (snd s) of
        (Ret c', w') \<Rightarrow> (Ret (), (c', w'))
      | (Fail e, w') \<Rightarrow> (Fail e, (fst s, w'))
      | (Panic q, w') \<Rightarrow> (Panic q, (fst s, w'))
      | (OutOfFuel, w') \<Rightarrow> (OutOfFuel, (fst s, w')))"

definition aws_provisioner :: "('w, 'c, 'y, 'o, 'm) provider_env \<Rightarrow> clusterpy \<Rightarrow> ('w, 'w config) provisioner" where
  "aws_provisioner e p = \<lparr>pv_Supports = aws_Supports, pv_Provision = (\<lambda>config. on_object (ZalandoAWS_Provision e p config)),
     pv_Decommission = on_world (ZalandoAWS_Decommission e p)\<rparr>"

definition eks_provisioner :: "('w, 'c, 'y, 'o, 'm) provider_env \<Rightarrow> clusterpy \<Rightarrow> ('w, 'w config) provisioner" where
  "eks_provisioner e p = \<lparr>pv_Supports = eks_Supports, pv_Provision = (\<lambda>config. on_object (ZalandoEKS_Provision e p config)),
     pv_Decommission = on_world (ZalandoEKS_Decommission e p)\<rparr>"

section \<open>Only the account of the cluster is touched\<close>

text \<open>
  \<open>asks_only I e\<close>: what is needed to find out to which account the credentials belong preserves \<open>I\<close>.
\<close>

definition asks_only :: "('w \<Rightarrow> bool) \<Rightarrow> ('w, 'c, 'y, 'o, 'm) provider_env \<Rightarrow> bool" where
  "asks_only I e \<longleftrightarrow> (\<forall>region. keeps I (pe_LoadDefaultConfig e region)) \<and> keeps I (pe_MetadataRegion e)
     \<and> (\<forall>cfg. keeps I (aw_CallerAccount (sr_aws (pe_Outside e cfg))))"

text \<open>The credentials never belong to the account of the cluster.\<close>

definition foreign_account :: "('w, 'c, 'y, 'o, 'm) provider_env \<Rightarrow> cluster \<Rightarrow> bool" where
  "foreign_account e c \<longleftrightarrow> (\<forall>cfg w account w'. aw_CallerAccount (sr_aws (pe_Outside e cfg)) w = (Ret account, w')
     \<longrightarrow> ''aws:'' @ account \<noteq> cl_InfrastructureAccount c)"

lemma keeps_setupAWSAdapter:
  assumes "asks_only I e"
  shows "keeps I (setupAWSAdapter e p c)"
proof -
  have conf: "keeps I (aws_Config e role region)" for role region
    using assms by (auto simp: aws_Config_def asks_only_def intro!: keeps_bindE split: if_splits)
  have verify: "keeps I (VerifyAccount (sr_aws (pe_Outside e cfg)) account)" for cfg account
  proof -
    have "keeps I (aw_CallerAccount (sr_aws (pe_Outside e cfg)))" using assms by (simp add: asks_only_def)
    moreover have "keeps I (\<lambda>w. (Panic s, w) :: unit outcome \<times> _)" for s by (simp add: keeps_def)
    ultimately show ?thesis by (auto simp: VerifyAccount_def intro!: keeps_bindE split: option.splits)
  qed
  show ?thesis by (auto simp: setupAWSAdapter_def intro!: keeps_bindE conf verify split: list.splits)
qed

lemma setupAWSAdapter_own_account:
  assumes "setupAWSAdapter e p c w = (Ret cfg, w')"
  shows "\<exists>v v' account. aw_CallerAccount (sr_aws (pe_Outside e cfg)) v = (Ret account, v')
     \<and> cl_InfrastructureAccount c = ''aws:'' @ account"
proof -
  from assms obtain account w1 where parts: "split_on (CHR '':'') (cl_InfrastructureAccount c) = [''aws'', account]"
    and verify: "VerifyAccount (sr_aws (pe_Outside e cfg)) (cl_InfrastructureAccount c) w1 = (Ret (), w')"
    by (auto simp: setupAWSAdapter_def split: list.splits if_splits)
  from verify parts obtain w2 where "aw_CallerAccount (sr_aws (pe_Outside e cfg)) w1 = (Ret account, w2)"
    by (auto simp: VerifyAccount_def getAWSAccountID_def split: if_splits)
  moreover have "cl_InfrastructureAccount c = ''aws:'' @ account"
    using join_split [of "CHR '':''" "cl_InfrastructureAccount c"] parts by simp
  ultimately show ?thesis by blast
qed

text \<open>A step that needs the adapter fails and preserves \<open>I\<close> when the account is foreign.\<close>

definition refused :: "('w \<Rightarrow> bool) \<Rightarrow> 'a outcome \<times> 'w \<Rightarrow> bool" where
  "refused I r \<longleftrightarrow> (\<forall>x. fst r \<noteq> Ret x) \<and> I (snd r)"

lemma refused_setup:
  assumes "asks_only I e" "foreign_account e c" "I w"
  shows "refused I (setupAWSAdapter e p c w)"
proof -
  obtain r w' where run: "setupAWSAdapter e p c w = (r, w')" by (cases "setupAWSAdapter e p c w")
  have "r \<noteq> Ret cfg" for cfg
  proof
    assume "r = Ret cfg"
    with run have "setupAWSAdapter e p c w = (Ret cfg, w')" by simp
    from setupAWSAdapter_own_account [OF this] assms(2) show False unfolding foreign_account_def by metis
  qed
  then show ?thesis using keepsD [OF keeps_setupAWSAdapter [OF assms(1)] assms(3) run] run by (simp add: refused_def)
qed

lemma refused_tryE: "refused I (m w) \<Longrightarrow> refused I (tryE m setup_failed f w)"
  by (cases "m w"; cases "fst (m w)") (auto simp: refused_def tryE_def setup_failed_def fail_def)

lemma refused_bindE: "refused I (m w) \<Longrightarrow> refused I (bindE m f w)"
  by (cases "m w"; cases "fst (m w)") (auto simp: refused_def bindE_def)

lemma refused_fail: "I w \<Longrightarrow> refused I (fail err w)"
  by (simp add: refused_def fail_def)

text \<open>
  Claim C10. A cluster is provisioned and decommissioned only with credentials of its own account: when
  the account of the caller is another one, all four operations fail, and everything that asking for
  the account preserves is preserved.
\<close>

theorem foreign_account_untouched:
  assumes "asks_only I e" and "foreign_account e c" and "I w"
  shows "refused I (ZalandoAWS_Provision e p config c w) \<and> refused I (ZalandoAWS_Decommission e p c w)
     \<and> refused I (ZalandoEKS_Provision e p config c w) \<and> refused I (ZalandoEKS_Decommission e p c w)"
  using refused_setup [OF assms, of p] assms(3)
  by (simp add: ZalandoAWS_Provision_def ZalandoAWS_Decommission_def ZalandoEKS_Provision_def ZalandoEKS_Decommission_def
      refused_tryE refused_bindE refused_fail)

section \<open>What the hook stores\<close>

context config_store
begin

lemma hook_Execute_stores:
  assumes "hook_Execute update decode a c w = (Ret (r, c'), w')"
  shows "\<exists>d. m_str (cl_ConfigItems c') KeyEKSEndpoint = ed_Endpoint d \<and> m_str (cl_ConfigItems c') KeyEKSCAData = ed_CertificateAuthority d
     \<and> m_str (cl_ConfigItems c') KeyEKSOIDCIssuerURL = ed_OIDCIssuerURL d
     \<and> (\<forall>k. k \<notin> {KeyEKSEndpoint, KeyEKSCAData, KeyEKSOIDCIssuerURL} \<longrightarrow> m_get (cl_ConfigItems c') k = m_get (cl_ConfigItems c) k)
     \<and> c'\<lparr>cl_ConfigItems := cl_ConfigItems c\<rparr> = c
     \<and> (\<exists>v v'. GetEKSClusterDetails a c v = (Ret d, v'))
     \<and> hr_APIServerURL r = ed_Endpoint d \<and> decode (ed_CertificateAuthority d) = Inr (hr_CAData r) \<and> hr_ServiceCIDR r = ed_ServiceCIDR d"
proof -
  from assms obtain d v' v2 where d: "GetEKSClusterDetails a c w = (Ret d, v')"
    and r: "decode (ed_CertificateAuthority d) = Inr (hr_CAData r)" "hr_APIServerURL r = ed_Endpoint d" "hr_ServiceCIDR r = ed_ServiceCIDR d"
    and u: "update c (to_update (cl_ConfigItems c) d) v2 = (Ret c', w')"
    by (auto simp: hook_Execute_def from_sum_Ret)
  have c': "c' = c\<lparr>cl_ConfigItems := fold (\<lambda>(k, v). m_put k v) (to_update (cl_ConfigItems c) d) (cl_ConfigItems c)\<rparr>"
    using stores [OF u] .
  show ?thesis
    by (rule exI [of _ d]) (use d r in \<open>auto simp: c' to_update_def eks_items_def eks_keys m_str_def\<close>)
qed

end

text \<open>
  The hook of EKS clusters with the HTTP registry: when it succeeds, the cluster holds the
  endpoint, the certificate authority and the issuer that AWS gave for it, every other item and field
  of the cluster is as before, and provisioning goes on with the same endpoint and the decoded
  certificate authority.
\<close>

theorem hook_records_details:
  assumes "hook_Execute (http_UpdateConfigItems reg) decode a c w = (Ret (r, c'), w')"
  shows "\<exists>d. m_str (cl_ConfigItems c') KeyEKSEndpoint = ed_Endpoint d \<and> m_str (cl_ConfigItems c') KeyEKSCAData = ed_CertificateAuthority d
     \<and> m_str (cl_ConfigItems c') KeyEKSOIDCIssuerURL = ed_OIDCIssuerURL d
     \<and> (\<forall>k. k \<notin> {KeyEKSEndpoint, KeyEKSCAData, KeyEKSOIDCIssuerURL} \<longrightarrow> m_get (cl_ConfigItems c') k = m_get (cl_ConfigItems c) k)
     \<and> c'\<lparr>cl_ConfigItems := cl_ConfigItems c\<rparr> = c
     \<and> (\<exists>v v'. GetEKSClusterDetails a c v = (Ret d, v'))
     \<and> hr_APIServerURL r = ed_Endpoint d \<and> decode (ed_CertificateAuthority d) = Inr (hr_CAData r) \<and> hr_ServiceCIDR r = ed_ServiceCIDR d"
  by (rule http_store.hook_Execute_stores [OF assms])

section \<open>The contract of a provisioner\<close>

text \<open>
  What the controller relies on: a provisioner refuses a cluster that it does not support with the
  error that the controller takes as no failure, and has done nothing then.
\<close>

locale provisioner_contract =
  fixes pv :: "('w, 'cfg) provisioner"
  assumes refuses: "\<not> pv_Supports pv c \<Longrightarrow> pv_Provision pv config (c, w) = (Fail ErrProviderNotSupported, (c, w))
      \<and> pv_Decommission pv (c, w) = (Fail ErrProviderNotSupported, (c, w))"
begin

lemma provisioned_supported: "pv_Provision pv config s = (Ret (), s') \<Longrightarrow> pv_Supports pv (fst s)"
  using refuses [of "fst s" config "snd s"] by (cases s) auto

lemma decommissioned_supported: "pv_Decommission pv s = (Ret (), s') \<Longrightarrow> pv_Supports pv (fst s)"
  using refuses [of "fst s" _ "snd s"] by (cases s) auto

end

interpretation aws_contract: provisioner_contract "aws_provisioner e p" for e p
  by unfold_locales (auto simp: aws_provisioner_def on_object_def on_world_def ZalandoAWS_Provision_def ZalandoAWS_Decommission_def fail_def Let_def)

interpretation eks_contract: provisioner_contract "eks_provisioner e p" for e p
  by unfold_locales (auto simp: eks_provisioner_def on_object_def on_world_def ZalandoEKS_Provision_def ZalandoEKS_Decommission_def fail_def Let_def)

text \<open>The two provisioners support disjoint clusters, so that at most one of them works on a cluster.\<close>

lemma one_provisioner_per_cluster:
  assumes "pv_Provision (aws_provisioner e p) config s = (Ret (), s')"
  shows "pv_Provision (eks_provisioner e q) config s = (Fail ErrProviderNotSupported, s)"
proof -
  have "aws_Supports (fst s)" using aws_contract.provisioned_supported [OF assms] by (simp add: aws_provisioner_def)
  then have "\<not> pv_Supports (eks_provisioner e q) (fst s)"
    by (simp add: eks_provisioner_def aws_Supports_def eks_Supports_def ZalandoAWSProvider_def ZalandoEKSProvider_def)
  from eks_contract.refuses [OF this, of config "snd s"] show ?thesis by simp
qed

section \<open>Samples\<close>

definition sample_env :: "(account, string, string, unit, unit) provider_env" where
  "sample_env = \<lparr>pe_LoadDefaultConfig = (\<lambda>region. ret \<lparr>ac_Region = region, ac_AssumedRole = None\<rparr>), pe_MetadataRegion = ret ''eu'',
     pe_Outside = (\<lambda>_. sample_outside), pe_NewGenerator = ret (), pe_GetWithSTS = (\<lambda>_ _. ret ''t''),
     pe_UpdateConfigItems = (\<lambda>c items. ret c)\<rparr>"

theorem foreign_account_untouched_witness:
  "refused (\<lambda>w. w = ([(''kube'', True)], 0))
     (ZalandoAWS_Decommission sample_env sample_clusterpy (sample_cluster\<lparr>cl_InfrastructureAccount := ''aws:2''\<rparr>) ([(''kube'', True)], 0))"
proof -
  have "asks_only (\<lambda>w. w = ([(''kube'', True)], 0)) sample_env"
    by (simp add: asks_only_def sample_env_def keeps_def ret_def sample_outside_defs sample_aws_def)
  moreover have "foreign_account sample_env (sample_cluster\<lparr>cl_InfrastructureAccount := ''aws:2''\<rparr>)"
    by (simp add: foreign_account_def sample_env_def ret_def sample_outside_defs sample_aws_def)
  ultimately show ?thesis using foreign_account_untouched [of "\<lambda>w. w = ([(''kube'', True)], 0)" sample_env] by simp
qed

definition sample_eks :: "(account, string) aws_api" where
  "sample_eks = sample_aws\<lparr>aw_DescribeEKS := (\<lambda>_. ret \<lparr>ek_Endpoint = ''https://e'', ek_CertificateAuthority = ''ca'', ek_Issuer = ''https://i'',
     ek_IpFamily = ''ipv4'', ek_ServiceIpv4Cidr = ''10.3.0.0/16'', ek_ServiceIpv6Cidr = []\<rparr>)\<rparr>"

theorem hook_records_details_witness:
  "\<exists>r c' w'. hook_Execute (http_UpdateConfigItems sample_client) Inr sample_eks sample_cluster ([], 0) = (Ret (r, c'), w')
     \<and> m_str (cl_ConfigItems c') KeyEKSEndpoint = ''https://e'' \<and> c'\<lparr>cl_ConfigItems := cl_ConfigItems sample_cluster\<rparr> = sample_cluster"
proof -
  let ?c = "sample_cluster\<lparr>cl_ConfigItems := [(''k'', ''v''), (''eks_endpoint'', ''https://e''),
     (''eks_certificate_authority_data'', ''ca''), (''eks_oidc_issuer_url'', ''https://i'')]\<rparr>"
  let ?r = "\<lparr>hr_APIServerURL = ''https://e'', hr_CAData = ''ca'', hr_ServiceCIDR = ''10.3.0.0/16''\<rparr>"
  have run: "hook_Execute (http_UpdateConfigItems sample_client) Inr sample_eks sample_cluster ([], 0) = (Ret (?r, ?c), ([], 0))"
    by code_simp
  have "m_str (cl_ConfigItems ?c) KeyEKSEndpoint = ''https://e''" by code_simp
  with hook_records_details [OF run] run show ?thesis by blast
qed

end
