(* ===== verification/Clm_Wiring.thy ===== *)
theory Clm_Wiring
  imports Clm_Main Providers
begin

text \<open>
  How \<open>main\<close> (\<open>cmd/clm/main.go\<close>) puts the program together from its command line: the flags with their
  defaults (\<open>config/config.go\<close>), the options of the two provisioners, the controller, and the choice between
  the control loop and the commands. The library for flags splits the command line and reads numbers,
  durations and regular expressions; the registry, the source of configurations and the environment of the
  provisioners are given. The health server, the handler of signals and logging are left out.
\<close>

section \<open>The configuration\<close>

record manager_config = lm_config +
  mc_Registry :: string
  mc_AccountFilter :: include_exclude_filter
  mc_AssumedRole :: string
  mc_Interval :: int
  mc_Debug :: bool
  mc_DumpRequest :: bool
  mc_DryRun :: bool
  mc_ConcurrentUpdates :: int
  mc_Listen :: string
  mc_Providers :: "string list"
  mc_ApplyOnly :: bool
  mc_AwsMaxRetries :: int
  mc_AwsMaxRetryInterval :: int
  mc_DrainConfig :: drain_config
  mc_Strategy :: string
  mc_RemoveVolumes :: bool
  mc_ManageEtcdStack :: bool

text \<open>The value that \<open>New\<close> returns has only zero values; a nil regular expression is none that is ever used.\<close>

definition new_config :: manager_config where
  "new_config = \<lparr>lc_Directory = [], lc_ConfigSources = [], lc_Workdir = [], lc_SSHPrivateKeyFile = [], lc_Token = [],
     lc_RegistryTokenName = [], lc_ClusterTokenName = [], lc_CredentialsDir = [], mc_Registry = [],
     mc_AccountFilter = \<lparr>ie_Include = (\<lambda>_. False), ie_Exclude = (\<lambda>_. False)\<rparr>, mc_AssumedRole = [], mc_Interval = 0,
     mc_Debug = False, mc_DumpRequest = False, mc_DryRun = False, mc_ConcurrentUpdates = 0, mc_Listen = [], mc_Providers = [],
     mc_ApplyOnly = False, mc_AwsMaxRetries = 0, mc_AwsMaxRetryInterval = 0,
     mc_DrainConfig = \<lparr>dc_ForceEvictionGracePeriod = 0, dc_MinPodLifetime = 0, dc_MinHealthyPDBSiblingLifetime = 0,
       dc_MinUnhealthyPDBSiblingLifetime = 0, dc_ForceEvictionInterval = 0, dc_PollInterval = 0\<rparr>,
     mc_Strategy = [], mc_RemoveVolumes = False, mc_ManageEtcdStack = False\<rparr>"

section \<open>Flags\<close>

text \<open>A flag has a name, a default, a variable of the environment, and the field of the configuration it is stored in.\<close>

datatype flag_var =
    StringVar "string \<Rightarrow> manager_config \<Rightarrow> manager_config"
  | RegexpVar "(string \<Rightarrow> bool) \<Rightarrow> manager_config \<Rightarrow> manager_config"
  | DurationVar "int \<Rightarrow> manager_config \<Rightarrow> manager_config"
  | BoolVar "bool \<Rightarrow> manager_config \<Rightarrow> manager_config"
  | IntVar "int \<Rightarrow> manager_config \<Rightarrow> manager_config"
  | UintVar "int \<Rightarrow> manager_config \<Rightarrow> manager_config"
  | EnumVar "string list" "string \<Rightarrow> manager_config \<Rightarrow> manager_config"
  | StringsVar "string list \<Rightarrow> manager_config \<Rightarrow> manager_config"
  | EnumsVar "string list" "string list \<Rightarrow> manager_config \<Rightarrow> manager_config"

record flag =
  fl_Name :: string
  fl_Default :: "string option"
  fl_Envar :: "string option"
  fl_Var :: flag_var

definition flag_of :: "string \<Rightarrow> flag_var \<Rightarrow> flag" where
  "flag_of name v = \<lparr>fl_Name = name, fl_Default = None, fl_Envar = None, fl_Var = v\<rparr>"

definition drain_flag :: "string \<Rightarrow> string \<Rightarrow> (int \<Rightarrow> drain_config \<Rightarrow> drain_config) \<Rightarrow> flag" where
  "drain_flag name value_text f = (flag_of name (DurationVar (\<lambda>d c. c\<lparr>mc_DrainConfig := f d (mc_DrainConfig c)\<rparr>)))\<lparr>fl_Default := Some value_text\<rparr>"

definition flags :: "string \<Rightarrow> (string \<Rightarrow> path) \<Rightarrow> flag list" where
  "flags tempDir locate =
     [(flag_of ''registry'' (StringVar (\<lambda>s c. c\<lparr>mc_Registry := s\<rparr>)))\<lparr>fl_Default := Some ''file://clusters.yaml''\<rparr>,
      (flag_of ''include'' (RegexpVar (\<lambda>r c. c\<lparr>mc_AccountFilter := (mc_AccountFilter c)\<lparr>ie_Include := r\<rparr>\<rparr>)))\<lparr>fl_Default := Some ''.*''\<rparr>,
      (flag_of ''exclude'' (RegexpVar (\<lambda>r c. c\<lparr>mc_AccountFilter := (mc_AccountFilter c)\<lparr>ie_Exclude := r\<rparr>\<rparr>)))\<lparr>fl_Default := Some ''^$''\<rparr>,
      flag_of ''token'' (StringVar (\<lambda>s c. c\<lparr>lc_Token := s\<rparr>)),
      (flag_of ''registry-token-name'' (StringVar (\<lambda>s c. c\<lparr>lc_RegistryTokenName := s\<rparr>)))\<lparr>fl_Default := Some ''cluster-registry-rw''\<rparr>,
      (flag_of ''cluster-token-name'' (StringVar (\<lambda>s c. c\<lparr>lc_ClusterTokenName := s\<rparr>)))\<lparr>fl_Default := Some ''cluster-rw''\<rparr>,
      flag_of ''assumed-role'' (StringVar (\<lambda>s c. c\<lparr>mc_AssumedRole := s\<rparr>)),
      (flag_of ''interval'' (DurationVar (\<lambda>d c. c\<lparr>mc_Interval := d\<rparr>)))\<lparr>fl_Default := Some ''10m''\<rparr>,
      flag_of ''debug'' (BoolVar (\<lambda>b c. c\<lparr>mc_Debug := b\<rparr>)),
      flag_of ''dump-request'' (BoolVar (\<lambda>b c. c\<lparr>mc_DumpRequest := b\<rparr>)),
      flag_of ''dry-run'' (BoolVar (\<lambda>b c. c\<lparr>mc_DryRun := b\<rparr>)),
      (flag_of ''listen'' (StringVar (\<lambda>s c. c\<lparr>mc_Listen := s\<rparr>)))\<lparr>fl_Default := Some '':9090''\<rparr>,
      (flag_of ''workdir'' (StringVar (\<lambda>s c. c\<lparr>lc_Workdir := s\<rparr>)))\<lparr>fl_Default := Some (path_Join [tempDir, ''clm-workdir''])\<rparr>,
      (flag_of ''provider'' (EnumsVar [''zalando-aws'', ''zalando-eks''] (\<lambda>ss c. c\<lparr>mc_Providers := ss\<rparr>)))\<lparr>fl_Default := Some ''zalando-aws''\<rparr>,
      flag_of ''config-source'' (StringsVar (\<lambda>ss c. c\<lparr>lc_ConfigSources := ss\<rparr>)),
      flag_of ''directory'' (StringVar (\<lambda>s c. c\<lparr>lc_Directory := s\<rparr>)),
      (flag_of ''concurrent-updates'' (UintVar (\<lambda>n c. c\<lparr>mc_ConcurrentUpdates := n\<rparr>)))\<lparr>fl_Default := Some ''1''\<rparr>,
      (flag_of ''ssh-private-key-path'' (StringVar (\<lambda>s c. c\<lparr>lc_SSHPrivateKeyFile := s\<rparr>)))\<lparr>fl_Envar := Some ''SSH_PRIVATE_KEY_PATH''\<rparr>,
      (flag_of ''credentials-dir'' (StringVar (\<lambda>s c. c\<lparr>lc_CredentialsDir := locate s\<rparr>)))
        \<lparr>fl_Envar := Some ''CREDENTIALS_DIR'', fl_Default := Some ''/meta/credentials''\<rparr>,
      flag_of ''apply-only'' (BoolVar (\<lambda>b c. c\<lparr>mc_ApplyOnly := b\<rparr>)),
      (flag_of ''aws-max-retries'' (IntVar (\<lambda>n c. c\<lparr>mc_AwsMaxRetries := n\<rparr>)))\<lparr>fl_Default := Some ''50''\<rparr>,
      (flag_of ''aws-max-retry-interval'' (DurationVar (\<lambda>d c. c\<lparr>mc_AwsMaxRetryInterval := d\<rparr>)))\<lparr>fl_Default := Some ''10s''\<rparr>,
      drain_flag ''drain-grace-period'' ''6h'' (\<lambda>d g. g\<lparr>dc_ForceEvictionGracePeriod := d\<rparr>),
      drain_flag ''drain-min-pod-lifetime'' ''72h'' (\<lambda>d g. g\<lparr>dc_MinPodLifetime := d\<rparr>),
      drain_flag ''drain-min-healthy-sibling-lifetime'' ''1h'' (\<lambda>d g. g\<lparr>dc_MinHealthyPDBSiblingLifetime := d\<rparr>),
      drain_flag ''drain-min-unhealthy-sibling-lifetime'' ''6h'' (\<lambda>d g. g\<lparr>dc_MinUnhealthyPDBSiblingLifetime := d\<rparr>),
      drain_flag ''drain-force-evict-interval'' ''5m'' (\<lambda>d g. g\<lparr>dc_ForceEvictionInterval := d\<rparr>),
      drain_flag ''drain-poll-interval'' ''30s'' (\<lambda>d g. g\<lparr>dc_PollInterval := d\<rparr>),
      (flag_of ''update-strategy'' (EnumVar [''rolling'', ''clc''] (\<lambda>s c. c\<lparr>mc_Strategy := s\<rparr>)))\<lparr>fl_Default := Some ''clc''\<rparr>,
      flag_of ''remove-volumes'' (BoolVar (\<lambda>b c. c\<lparr>mc_RemoveVolumes := b\<rparr>)),
      flag_of ''manage-etcd-stack'' (BoolVar (\<lambda>b c. c\<lparr>mc_ManageEtcdStack := b\<rparr>))]"

text \<open>
  The library parses the command line with these flags and stores their values in the configuration that
  \<open>New\<close> returned; it gives the command.
\<close>

definition ParseFlags :: "(flag list \<Rightarrow> manager_config \<Rightarrow> go_error + string \<times> manager_config) \<Rightarrow> string \<Rightarrow> (string \<Rightarrow> path)
    \<Rightarrow> go_error + string \<times> manager_config" where
  "ParseFlags kingpin_Parse tempDir locate = kingpin_Parse (flags tempDir locate) new_config"

section \<open>The parts of the program\<close>

text \<open>The options of the provisioners; what is not an option of a provisioner has no meaning here.\<close>

definition aws_options :: "manager_config \<Rightarrow> clusterpy" where
  "aws_options cfg = \<lparr>cy_assumedRole = [], cy_dryRun = mc_DryRun cfg, cy_applyOnly = mc_ApplyOnly cfg, cy_Strategy = mc_Strategy cfg,
     cy_drainConfig = mc_DrainConfig cfg, cy_removeVolumes = mc_RemoveVolumes cfg, cy_manageEtcdStack = mc_ManageEtcdStack cfg,
     cy_manageMasterNodes = False\<rparr>"

definition eks_options :: "manager_config \<Rightarrow> clusterpy" where
  "eks_options cfg = \<lparr>cy_assumedRole = [], cy_dryRun = mc_DryRun cfg, cy_applyOnly = mc_ApplyOnly cfg, cy_Strategy = mc_Strategy cfg,
     cy_drainConfig = mc_DrainConfig cfg, cy_removeVolumes = mc_RemoveVolumes cfg, cy_manageEtcdStack = False,
     cy_manageMasterNodes = False\<rparr>"

definition main_provisioners :: "('w, 'c, 'y, 'o, 'm) provider_env \<Rightarrow> manager_config \<Rightarrow> ('w, 'w config) provisioner gomap" where
  "main_provisioners e cfg =
     [(ZalandoAWSProvider, aws_provisioner e (NewZalandoAWSProvisioner (mc_AssumedRole cfg) (Some (aws_options cfg)))),
      (ZalandoEKSProvider, eks_provisioner e (NewZalandoEKSProvisioner (mc_AssumedRole cfg) (Some (eks_options cfg))))]"

text \<open>
  The commands use the source of configurations itself, the controller puts its cache in front of it. What
  a version of a configuration is and how it is read is given with the source.
\<close>

record ('w, 'v) configurations =
  cg_source :: "('w, 'v) config_source"
  cg_ID :: "'v \<Rightarrow> string"
  cg_Get :: "'v \<Rightarrow> ('w, 'w config) io"
  cg_Delete :: "'w config \<Rightarrow> ('w, unit) io"
  cg_digest :: "string \<Rightarrow> string"

definition wired :: "'w registry_ops \<Rightarrow> ('w, 'v) configurations \<Rightarrow> ('w, 'c, 'y, 'o, 'm) provider_env \<Rightarrow> manager_config
    \<Rightarrow> ('w, 'v, 'w config) controller" where
  "wired reg g e cfg =
     \<lparr>ct_registry = reg, ct_provisioners = main_provisioners e cfg, ct_providers = mc_Providers cfg,
      ct_configSource = cg_source g, ct_versionID = cg_ID g, ct_versionGet = cg_Get g, ct_configDelete = cg_Delete g,
      ct_digest = cg_digest g, ct_dryRun = mc_DryRun cfg, ct_accountFilter = mc_AccountFilter cfg\<rparr>"

text \<open>What \<open>main\<close> starts: the control loop with its number of workers and its interval, or one command.\<close>

datatype ('w, 'v) started =
    ControlLoop "('w, 'v, 'w config) controller" int int
  | Command "('w, unit) io"

definition main_start :: "'w registry_ops \<Rightarrow> ('w, 'v) configurations \<Rightarrow> ('w, 'v) configurations \<Rightarrow> ('w, 'c, 'y, 'o, 'm) provider_env
    \<Rightarrow> 'w decrypter \<Rightarrow> manager_config \<Rightarrow> string \<Rightarrow> ('w, 'v) started" where
  "main_start reg g cached e d cfg cmd =
     (if cmd = ''controller'' then ControlLoop (wired reg cached e cfg) (mc_ConcurrentUpdates cfg) (mc_Interval cfg)
      else Command (run_command (wired reg g e cfg) d
        (if cmd = ''provision'' then Provision else if cmd = ''decommission'' then Decommission else OtherCommand cmd)))"

section \<open>What the wiring guarantees\<close>

text \<open>
  What the library promises of a command line that it accepts: every flag is stored once, with a value of its
  type, and one of the allowed values where there are such; only a flag without a default may be left out, and
  a list that has a default is not empty.
\<close>

definition assigns :: "flag \<Rightarrow> manager_config \<Rightarrow> manager_config \<Rightarrow> bool" where
  "assigns f c c' \<longleftrightarrow> fl_Default f = None \<and> c' = c \<or>
     (case fl_Var f of
        StringVar put \<Rightarrow> \<exists>v. c' = put v c
      | RegexpVar put \<Rightarrow> \<exists>v. c' = put v c
      | DurationVar put \<Rightarrow> \<exists>v. c' = put v c
      | BoolVar put \<Rightarrow> \<exists>v. c' = put v c
      | IntVar put \<Rightarrow> \<exists>v. c' = put v c
      | UintVar put \<Rightarrow> \<exists>v. 0 \<le> v \<and> c' = put v c
      | EnumVar allowed put \<Rightarrow> \<exists>v. v \<in> set allowed \<and> c' = put v c
      | StringsVar put \<Rightarrow> \<exists>vs. c' = put vs c
      | EnumsVar allowed put \<Rightarrow> \<exists>vs. vs \<noteq> [] \<and> set vs \<subseteq> set allowed \<and> c' = put vs c)"

fun assigned :: "flag list \<Rightarrow> manager_config \<Rightarrow> manager_config \<Rightarrow> bool" where
  "assigned [] c c' \<longleftrightarrow> c' = c"
| "assigned (f # fs) c c' \<longleftrightarrow> (\<exists>d. assigns f c d \<and> assigned fs d c')"

definition parses_flags :: "(flag list \<Rightarrow> manager_config \<Rightarrow> go_error + string \<times> manager_config) \<Rightarrow> bool" where
  "parses_flags kingpin_Parse \<longleftrightarrow> (\<forall>fs c cmd c'. kingpin_Parse fs c = Inr (cmd, c') \<longrightarrow> assigned fs c c')"

lemma assigned_append: "assigned (fs @ gs) c c' \<longleftrightarrow> (\<exists>d. assigned fs c d \<and> assigned gs d c')"
  by (induction fs arbitrary: c) auto

text \<open>A flag that does not touch a field leaves it.\<close>

primrec leaves :: "(manager_config \<Rightarrow> 'v) \<Rightarrow> flag_var \<Rightarrow> bool" where
  "leaves g (StringVar put) \<longleftrightarrow> (\<forall>v c. g (put v c) = g c)"
| "leaves g (RegexpVar put) \<longleftrightarrow> (\<forall>v c. g (put v c) = g c)"
| "leaves g (DurationVar put) \<longleftrightarrow> (\<forall>v c. g (put v c) = g c)"
| "leaves g (BoolVar put) \<longleftrightarrow> (\<forall>v c. g (put v c) = g c)"
| "leaves g (IntVar put) \<longleftrightarrow> (\<forall>v c. g (put v c) = g c)"
| "leaves g (UintVar put) \<longleftrightarrow> (\<forall>v c. g (put v c) = g c)"
| "leaves g (EnumVar allowed put) \<longleftrightarrow> (\<forall>v c. g (put v c) = g c)"
| "leaves g (StringsVar put) \<longleftrightarrow> (\<forall>v c. g (put v c) = g c)"
| "leaves g (EnumsVar allowed put) \<longleftrightarrow> (\<forall>v c. g (put v c) = g c)"

lemma assigns_leaves: "assigns f c c' \<Longrightarrow> leaves g (fl_Var f) \<Longrightarrow> g c' = g c"
  by (cases "fl_Var f") (auto simp: assigns_def)

lemma assigned_leave: "assigned fs c c' \<Longrightarrow> list_all (\<lambda>f. leaves g (fl_Var f)) fs \<Longrightarrow> g c' = g c"
  by (induction fs arbitrary: c) (auto dest: assigns_leaves [of _ _ _ g])

text \<open>The field that one flag sets has what this flag was given.\<close>

lemma assigned_one:
  assumes "assigned (fs @ f # gs) c c'" and "list_all (\<lambda>h. leaves g (fl_Var h)) gs"
  obtains c1 c2 where "assigns f c1 c2" "g c' = g c2"
  using assms assigned_leave [of gs _ c' g] by (auto simp: assigned_append)

text \<open>The providers of the configuration are those of the flag, at least the default one, and each is one of the two.\<close>

lemma parsed_providers:
  assumes "parses_flags parse" and "ParseFlags parse tempDir locate = Inr (cmd, cfg)"
  shows "mc_Providers cfg \<noteq> []" "set (mc_Providers cfg) \<subseteq> {ZalandoAWSProvider, ZalandoEKSProvider}"
proof -
  let ?fs = "flags tempDir locate"
  let ?f = "(flag_of ''provider'' (EnumsVar [''zalando-aws'', ''zalando-eks''] (\<lambda>ss c. c\<lparr>mc_Providers := ss\<rparr>)))\<lparr>fl_Default := Some ''zalando-aws''\<rparr>"
  from assms have set: "assigned ?fs new_config cfg" by (simp add: ParseFlags_def parses_flags_def)
  have "?fs = take 13 ?fs @ ?f # drop 14 ?fs" by (simp add: flags_def)
  with set have split: "assigned (take 13 ?fs @ ?f # drop 14 ?fs) new_config cfg" by (simp only:)
  have others: "list_all (\<lambda>h. leaves mc_Providers (fl_Var h)) (drop 14 ?fs)"
    by (simp add: flags_def flag_of_def drain_flag_def)
  obtain c1 c2 where "assigns ?f c1 c2" "mc_Providers cfg = mc_Providers c2"
    by (rule assigned_one [OF split others])
  then show "mc_Providers cfg \<noteq> []" "set (mc_Providers cfg) \<subseteq> {ZalandoAWSProvider, ZalandoEKSProvider}"
    by (auto simp: assigns_def flag_of_def ZalandoAWSProvider_def ZalandoEKSProvider_def)
qed

lemma provider_supported:
  assumes "cl_Provider c \<in> {ZalandoAWSProvider, ZalandoEKSProvider}"
  shows "list_ex (\<lambda>(_, p). pv_Supports p c) (main_provisioners e cfg)"
  using assms by (auto simp: main_provisioners_def aws_provisioner_def eks_provisioner_def aws_Supports_def eks_Supports_def)

lemma dropUnsupported_all:
  "list_all (\<lambda>x. list_ex (\<lambda>(_, p). pv_Supports p x) (ct_provisioners c)) xs \<Longrightarrow> dropUnsupported c xs = xs"
  by (induction xs) auto

lemma has_provider_True: "has_provider m ps = Ret True \<Longrightarrow> \<exists>p \<in> set ps. cm_Provider m = Some p"
  by (induction ps) (auto simp: bindO_Ret_iff split: if_splits)

lemma included_provider:
  "Includes \<lparr>ft_LifecycleStatus = None, ft_Providers = ps\<rparr> (Some m) = Ret True \<Longrightarrow> ps \<noteq> [] \<Longrightarrow> \<exists>p \<in> set ps. cm_Provider m = Some p"
  by (auto simp: Includes_def dest: has_provider_True)

text \<open>
  Claim C39. The flags, the filter of the HTTP registry and the provisioners of \<open>main\<close> agree: whatever the
  command line is, every cluster that the registry lists for the providers of the command line is supported
  by a provisioner, so that the controller drops none of the clusters it lists.
\<close>

theorem listed_clusters_supported:
  assumes "parses_flags parse" and "ParseFlags parse tempDir locate = Inr (cmd, cfg)"
    and "http_ListClusters r \<lparr>ft_LifecycleStatus = None, ft_Providers = mc_Providers cfg\<rparr> w = (Ret cs, w')"
  shows "dropUnsupported (wired reg g e cfg) cs = cs"
proof (rule dropUnsupported_all, unfold list_all_iff, rule ballI)
  fix c assume c: "c \<in> set cs"
  let ?f = "\<lparr>ft_LifecycleStatus = None, ft_Providers = mc_Providers cfg\<rparr>"
  from listing_copies [OF assms(3)] obtain ordered where
    d: "list_all2 describes (filter (\<lambda>p. Includes ?f p = Ret True) ordered) cs" by blast
  from list_all2_right [OF d c] obtain p where p: "Includes ?f p = Ret True" "describes p c" by auto
  then obtain m where m: "p = Some m" "cm_Provider m = Some (cl_Provider c)" by (auto simp: describes_def)
  from included_provider [OF p(1) [unfolded m(1)] parsed_providers(1) [OF assms(1,2)]] m(2)
  have "cl_Provider c \<in> set (mc_Providers cfg)" by auto
  with parsed_providers(2) [OF assms(1,2)] provider_supported
  show "list_ex (\<lambda>(_, p). pv_Supports p c) (ct_provisioners (wired reg g e cfg))" by (auto simp: wired_def)
qed

section \<open>A library for flags\<close>

text \<open>An instance of the library: it is given the flags of the command line with their texts and the command.\<close>

record kingpin =
  kp_Duration :: "string \<Rightarrow> go_error + int"
  kp_Regexp :: "string \<Rightarrow> go_error + (string \<Rightarrow> bool)"
  kp_Int :: "string \<Rightarrow> go_error + int"
  kp_Uint :: "string \<Rightarrow> go_error + int"
  kp_Getenv :: "string \<Rightarrow> string"

text \<open>
  The texts of a flag: those of the command line, otherwise the variable of the environment, otherwise the
  default. A flag of the command line without a text is one with the text true.
\<close>

definition flag_texts :: "kingpin \<Rightarrow> (string \<times> string) list \<Rightarrow> flag \<Rightarrow> string list" where
  "flag_texts k given f =
     (case map snd (filter (\<lambda>g. fst g = fl_Name f) given) of
        [] \<Rightarrow>
          (let env = (case fl_Envar f of None \<Rightarrow> [] | Some v \<Rightarrow> kp_Getenv k v) in
           if env \<noteq> [] then [env] else case fl_Default f of None \<Rightarrow> [] | Some d \<Rightarrow> [d])
      | ts \<Rightarrow> ts)"

definition one_text :: "string \<Rightarrow> string list \<Rightarrow> (string \<Rightarrow> go_error + 'v) \<Rightarrow> ('v \<Rightarrow> manager_config \<Rightarrow> manager_config) \<Rightarrow> manager_config
    \<Rightarrow> go_error + manager_config" where
  "one_text name ts read put c =
     (case ts of
        [] \<Rightarrow> Inr c
      | [t] \<Rightarrow> map_sum id (\<lambda>v. put v c) (read t)
      | _ \<Rightarrow> Inl (Errorf (''flag '' @ quoted name @ '' cannot be repeated'')))"

definition enum_text :: "string list \<Rightarrow> string \<Rightarrow> go_error + string" where
  "enum_text allowed t =
     (if t \<in> set allowed then Inr t
      else Inl (Errorf (''enum value must be one of '' @ join_with '','' allowed @ '', got '' @ quoted t)))"

definition bool_text :: "string \<Rightarrow> go_error + bool" where
  "bool_text t =
     (if t \<in> {''1'', ''t'', ''T'', ''TRUE'', ''true'', ''True''} then Inr True
      else if t \<in> {''0'', ''f'', ''F'', ''FALSE'', ''false'', ''False''} then Inr False
      else Inl (Errorf (''strconv.ParseBool: parsing '' @ quoted t @ '': invalid syntax'')))"

fun enum_texts :: "string list \<Rightarrow> string list \<Rightarrow> go_error + string list" where
  "enum_texts allowed [] = Inr []"
| "enum_texts allowed (t # ts) = (case enum_text allowed t of Inl e \<Rightarrow> Inl e | Inr _ \<Rightarrow> map_sum id (Cons t) (enum_texts allowed ts))"

definition set_flag :: "kingpin \<Rightarrow> string \<Rightarrow> flag_var \<Rightarrow> string list \<Rightarrow> manager_config \<Rightarrow> go_error + manager_config" where
  "set_flag k name v ts c =
     (case v of
        StringVar put \<Rightarrow> one_text name ts Inr put c
      | RegexpVar put \<Rightarrow> one_text name ts (kp_Regexp k) put c
      | DurationVar put \<Rightarrow> one_text name ts (kp_Duration k) put c
      | BoolVar put \<Rightarrow> one_text name ts bool_text put c
      | IntVar put \<Rightarrow> one_text name ts (kp_Int k) put c
      | UintVar put \<Rightarrow> one_text name ts (kp_Uint k) put c
      | EnumVar allowed put \<Rightarrow> one_text name ts (enum_text allowed) put c
      | StringsVar put \<Rightarrow> Inr (put ts c)
      | EnumsVar allowed put \<Rightarrow> if ts = [] then Inr c else map_sum id (\<lambda>ss. put ss c) (enum_texts allowed ts))"

fun set_flags :: "kingpin \<Rightarrow> (string \<times> string) list \<Rightarrow> flag list \<Rightarrow> manager_config \<Rightarrow> go_error + manager_config" where
  "set_flags k given [] c = Inr c"
| "set_flags k given (f # fs) c =
     (case set_flag k (fl_Name f) (fl_Var f) (flag_texts k given f) c of
        Inl e \<Rightarrow> Inl e
      | Inr c' \<Rightarrow> set_flags k given fs c')"

lemma one_text_value: "one_text name ts read put c = Inr c' \<Longrightarrow> ts = [] \<and> c' = c \<or> (\<exists>t v. read t = Inr v \<and> c' = put v c)"
  by (auto simp: one_text_def map_sum_Inr split: list.splits)

lemma enum_texts_allowed: "enum_texts allowed ts = Inr ss \<Longrightarrow> ss = ts \<and> set ts \<subseteq> set allowed"
  by (induction ts arbitrary: ss) (auto simp: enum_text_def map_sum_Inr split: if_splits sum.splits)

lemma flag_texts_default: "flag_texts k given f = [] \<Longrightarrow> fl_Default f = None"
  by (auto simp: flag_texts_def Let_def split: list.splits if_splits option.splits)


definition library_parse :: "kingpin \<Rightarrow> (string \<times> string) list \<Rightarrow> string \<Rightarrow> flag list \<Rightarrow> manager_config \<Rightarrow> go_error + string \<times> manager_config" where
  "library_parse k given cmd fs c =
     (case List.find (\<lambda>g. fst g \<notin> set (map fl_Name fs)) given of
        Some g \<Rightarrow> Inl (Errorf (''unknown long flag '' @ quoted (''--'' @ fst g)))
      | None \<Rightarrow> map_sum id (Pair cmd) (set_flags k given fs c))"

lemma set_flag_assigns:
  assumes "set_flag k (fl_Name f) (fl_Var f) (flag_texts k given f) c = Inr c'" and "\<And>t v. kp_Uint k t = Inr v \<Longrightarrow> 0 \<le> v"
  shows "assigns f c c'"
proof (cases "flag_texts k given f = []")
  case True
  with flag_texts_default [OF True] assms(1) show ?thesis
    by (cases "fl_Var f") (auto simp: set_flag_def one_text_def assigns_def)
next
  case False
  then show ?thesis using assms
    by (cases "fl_Var f") (auto simp: set_flag_def assigns_def map_sum_Inr enum_text_def split: if_splits
        dest!: one_text_value enum_texts_allowed)
qed

lemma set_flags_assigned:
  assumes "\<And>t v. kp_Uint k t = Inr v \<Longrightarrow> 0 \<le> v"
  shows "set_flags k given fs c = Inr c' \<Longrightarrow> assigned fs c c'"
  by (induction fs arbitrary: c) (auto split: sum.splits dest: set_flag_assigns [OF _ assms])

lemma library_parses_flags:
  assumes "\<And>t v. kp_Uint k t = Inr v \<Longrightarrow> 0 \<le> v"
  shows "parses_flags (library_parse k given cmd)"
proof -
  have "assigned fs c c'" if "set_flags k given fs c = Inr c'" for fs c c' using set_flags_assigned assms that by blast
  then show ?thesis by (auto simp: parses_flags_def library_parse_def map_sum_Inr split: option.splits)
qed

definition sample_durations :: "(string \<times> int) list" where
  "sample_durations = [(''10m'', 600), (''10s'', 10), (''6h'', 21600), (''72h'', 259200), (''1h'', 3600), (''5m'', 300), (''30s'', 30)]"

definition sample_kingpin :: kingpin where
  "sample_kingpin = \<lparr>kp_Duration = (\<lambda>s. case m_get sample_durations s of Some d \<Rightarrow> Inr d | None \<Rightarrow> Inl (Errorf s)),
     kp_Regexp = (\<lambda>s. Inr (\<lambda>t. s = ''.*'')), kp_Int = (\<lambda>s. case parse_int64 s of Some i \<Rightarrow> Inr i | None \<Rightarrow> Inl (Errorf s)),
     kp_Uint = (\<lambda>s. if s \<noteq> [] \<and> list_all digit s then Inr (int (digits_val s)) else Inl (Errorf s)),
     kp_Getenv = (\<lambda>_. [])\<rparr>"

definition sample_parse :: "flag list \<Rightarrow> manager_config \<Rightarrow> go_error + string \<times> manager_config" where
  "sample_parse = library_parse sample_kingpin [(''dry-run'', ''true''), (''config-source'', ''main:dir:x''), (''config-source'', ''b:dir:y'')] ''controller''"

lemma sample_parses_flags: "parses_flags sample_parse"
  unfolding sample_parse_def by (rule library_parses_flags) (auto simp: sample_kingpin_def split: if_splits)

text \<open>A command line with a few flags: every other value is the default.\<close>

lemma sample_command_line:
  "case ParseFlags sample_parse ''/tmp'' (\<lambda>s. [s]) of
     Inl _ \<Rightarrow> False
   | Inr (cmd, cfg) \<Rightarrow> cmd = ''controller'' \<and> mc_DryRun cfg \<and> lc_ConfigSources cfg = [''main:dir:x'', ''b:dir:y'']
       \<and> mc_Registry cfg = ''file://clusters.yaml'' \<and> mc_Providers cfg = [''zalando-aws''] \<and> mc_ConcurrentUpdates cfg = 1
       \<and> mc_Interval cfg = 600 \<and> mc_Strategy cfg = ''clc'' \<and> lc_Workdir cfg = ''/tmp/clm-workdir''
       \<and> lc_CredentialsDir cfg = [''/meta/credentials''] \<and> dc_MinPodLifetime (mc_DrainConfig cfg) = 259200
       \<and> dc_PollInterval (mc_DrainConfig cfg) = 30"
  by code_simp

theorem listed_clusters_supported_witness:
  "\<exists>cmd cfg. ParseFlags sample_parse ''/tmp'' (\<lambda>s. [s]) = Inr (cmd, cfg) \<and> sample_listing \<noteq> []
    \<and> (\<forall>g :: (account, unit) configurations. dropUnsupported (wired (http_registry sample_client) g sample_env cfg) sample_listing = sample_listing)"
proof -
  obtain cmd cfg where cfg: "ParseFlags sample_parse ''/tmp'' (\<lambda>s. [s]) = Inr (cmd, cfg)" "mc_Providers cfg = [''zalando-aws'']"
    using sample_command_line by (auto split: sum.splits prod.splits)
  then have "sample_filter = \<lparr>ft_LifecycleStatus = None, ft_Providers = mc_Providers cfg\<rparr>" by (simp add: sample_filter_def)
  with sample_listing_run have "http_ListClusters sample_client \<lparr>ft_LifecycleStatus = None, ft_Providers = mc_Providers cfg\<rparr> () = (Ret sample_listing, ())"
    by simp
  from listed_clusters_supported [OF sample_parses_flags cfg(1) this]
  have "\<forall>g :: (account, unit) configurations. dropUnsupported (wired (http_registry sample_client) g sample_env cfg) sample_listing = sample_listing"
    by blast
  moreover have "sample_listing \<noteq> []" by code_simp
  ultimately show ?thesis using cfg(1) by blast
qed

end
