(* ===== verification/Registry_Client.thy ===== *)
theory Registry_Client
  imports Registry
begin

text \<open>
  The operations of the generated client of the cluster registry that the program uses
  (\<open>pkg/cluster-registry/client\<close>): what each writes to a request, which operation it submits, how it
  reads the response, and the client of \<open>registry/http.go\<close> that is put together from them. The
  transport of go-openapi, the requests it lets the parameters be written to, and its decoders are
  parameters; contexts are not modelled, the program never sets one on a parameter.
\<close>

section \<open>What the runtime provides\<close>

record error_model =
  em_Code :: int
  em_Fields :: string
  em_Message :: string

datatype body_param =
    ClusterUpdate cluster_update
  | ConfigValue "string option"
  | ClusterBody cluster_model
  | NodePoolBody pool_model
  | NodePoolUpdate pool_update
  | AccountBody account_model
  | AccountUpdate account_update

datatype auth_info = BearerToken string

record 'q client_request =
  rq_SetTimeout :: "int \<Rightarrow> 'q \<Rightarrow> go_error + 'q"
  rq_SetQueryParam :: "string \<Rightarrow> string \<Rightarrow> 'q \<Rightarrow> go_error + 'q"
  rq_SetPathParam :: "string \<Rightarrow> string \<Rightarrow> 'q \<Rightarrow> go_error + 'q"
  rq_SetBodyParam :: "body_param \<Rightarrow> 'q \<Rightarrow> go_error + 'q"

record client_response =
  rs_Code :: int
  rs_Body :: string

text \<open>
  A consumer decodes a body into a new structure: it may return an error, and leaves something in the
  structure in any case.
\<close>

record consumer =
  cn_Clusters :: "string \<Rightarrow> go_error option \<times> cluster_model option list"
  cn_Cluster :: "string \<Rightarrow> go_error option \<times> cluster_model"
  cn_ConfigValue :: "string \<Rightarrow> go_error option \<times> string option"
  cn_Accounts :: "string \<Rightarrow> go_error option \<times> account_model option list"
  cn_Account :: "string \<Rightarrow> go_error option \<times> account_model"
  cn_NodePools :: "string \<Rightarrow> go_error option \<times> pool_model option list"
  cn_NodePool :: "string \<Rightarrow> go_error option \<times> pool_model"
  cn_Error :: "string \<Rightarrow> go_error option \<times> error_model"

text \<open>The values of type \<open>any\<close> that a reader returns.\<close>

datatype api_result =
    ListClustersOK "cluster_model option list"
  | UpdateClusterOK cluster_model
  | AddOrUpdateConfigItemOK "string option"
  | ListInfrastructureAccountsOK "account_model option list"
  | CreateClusterCreated cluster_model
  | DeleteClusterNoContent
  | GetClusterOK cluster_model
  | DeleteConfigItemNoContent
  | CreateInfrastructureAccountCreated account_model
  | GetInfrastructureAccountOK account_model
  | UpdateInfrastructureAccountOK account_model
  | CreateOrUpdateNodePoolOK pool_model
  | DeleteNodePoolNoContent
  | ListNodePoolsOK "pool_model option list"
  | UpdateNodePoolOK pool_model
  | AddOrUpdateNodePoolConfigItemOK "string option"
  | DeleteNodePoolConfigItemNoContent

record 'q client_operation =
  op_ID :: string
  op_Method :: string
  op_PathPattern :: string
  op_ProducesMediaTypes :: "string list"
  op_ConsumesMediaTypes :: "string list"
  op_Schemes :: "string list"
  op_Params :: "'q \<Rightarrow> go_error + 'q"
  op_Reader :: "client_response \<Rightarrow> consumer \<Rightarrow> go_error + api_result"
  op_AuthInfo :: auth_info

type_synonym ('w, 'q) transport = "'q client_operation \<Rightarrow> ('w, api_result) io"

record 'q openapi =
  oa_DefaultTimeout :: int
  oa_request :: "'q client_request"
  oa_NewAPIError :: "string \<Rightarrow> client_response \<Rightarrow> int \<Rightarrow> go_error"
  oa_MarshalError :: "error_model \<Rightarrow> string"

definition io_EOF :: go_error where "io_EOF = Sentinel ''EOF''"

fun is_EOF :: "go_error \<Rightarrow> bool" where
  "is_EOF (Wrapf _ e) = is_EOF e"
| "is_EOF (Permanent e) = is_EOF e"
| "is_EOF e = (e = io_EOF)"

text \<open>\<open>if err := consumer.Consume(body, o.Payload); err != nil && !errors.Is(err, io.EOF)\<close>\<close>

definition read_payload :: "go_error option \<times> 'p \<Rightarrow> go_error + 'p" where
  "read_payload r = (case fst r of
     Some e \<Rightarrow> if \<not> is_EOF e then Inl e else Inr (snd r)
   | None \<Rightarrow> Inr (snd r))"

definition status_text :: "string \<Rightarrow> int \<Rightarrow> string \<Rightarrow> string" where
  "status_text route code what = ''['' @ route @ '']['' @ int_str code @ ''] '' @ what"

section \<open>Parameters\<close>

record list_clusters_params =
  lp_timeout :: int
  lp_Alias :: "string option"
  lp_APIServerURL :: "string option"
  lp_Channel :: "string option"
  lp_CostCenter :: "string option"
  lp_CriticalityLevel :: "int option"
  lp_Environment :: "string option"
  lp_InfrastructureAccount :: "string option"
  lp_LifecycleStatus :: "string option"
  lp_LocalID :: "string option"
  lp_Provider :: "string option"
  lp_Region :: "string option"
  lp_Verbose :: "bool option"

definition NewListClustersParams :: "'q openapi \<Rightarrow> list_clusters_params" where
  "NewListClustersParams oa = \<lparr>lp_timeout = oa_DefaultTimeout oa, lp_Alias = None, lp_APIServerURL = None,
     lp_Channel = None, lp_CostCenter = None, lp_CriticalityLevel = None, lp_Environment = None,
     lp_InfrastructureAccount = None, lp_LifecycleStatus = None, lp_LocalID = None, lp_Provider = None,
     lp_Region = None, lp_Verbose = None\<rparr>"

text \<open>\<open>if err := ...; err != nil { return err }\<close> for every part of a request\<close>

fun writes :: "('q \<Rightarrow> go_error + 'q) list \<Rightarrow> 'q \<Rightarrow> go_error + 'q" where
  "writes [] q = Inr q"
| "writes (f # fs) q = (case f q of Inl e \<Rightarrow> Inl e | Inr q' \<Rightarrow> writes fs q')"

text \<open>A query parameter is set when it is there and not empty.\<close>

definition query_param :: "'q openapi \<Rightarrow> string \<Rightarrow> string option \<Rightarrow> 'q \<Rightarrow> go_error + 'q" where
  "query_param oa name v q = (case v of
     None \<Rightarrow> Inr q
   | Some s \<Rightarrow> if s \<noteq> [] then rq_SetQueryParam (oa_request oa) name s q else Inr q)"

fun query_params :: "'q openapi \<Rightarrow> (string \<times> string option) list \<Rightarrow> 'q \<Rightarrow> go_error + 'q" where
  "query_params oa [] q = Inr q"
| "query_params oa ((name, v) # ps) q = (case query_param oa name v q of Inl e \<Rightarrow> Inl e | Inr q' \<Rightarrow> query_params oa ps q')"

definition format_bool :: "bool \<Rightarrow> string" where
  "format_bool b = (if b then ''true'' else ''false'')"

definition ListClusters_WriteToRequest :: "'q openapi \<Rightarrow> list_clusters_params \<Rightarrow> 'q \<Rightarrow> go_error + 'q" where
  "ListClusters_WriteToRequest oa p = writes
     [rq_SetTimeout (oa_request oa) (lp_timeout p),
      query_params oa
       [(''alias'', lp_Alias p), (''api_server_url'', lp_APIServerURL p), (''channel'', lp_Channel p),
        (''cost_center'', lp_CostCenter p), (''criticality_level'', map_option int_str (lp_CriticalityLevel p)),
        (''environment'', lp_Environment p), (''infrastructure_account'', lp_InfrastructureAccount p),
        (''lifecycle_status'', lp_LifecycleStatus p), (''local_id'', lp_LocalID p), (''provider'', lp_Provider p),
        (''region'', lp_Region p), (''verbose'', map_option format_bool (lp_Verbose p))]]"

record list_accounts_params =
  ip_timeout :: int
  ip_CostCenter :: "string option"
  ip_CriticalityLevel :: "int option"
  ip_Environment :: "string option"
  ip_ExternalID :: "string option"
  ip_LifecycleStatus :: "string option"
  ip_Name :: "string option"
  ip_Owner :: "string option"
  ip_Type :: "string option"

definition NewListInfrastructureAccountsParams :: "'q openapi \<Rightarrow> list_accounts_params" where
  "NewListInfrastructureAccountsParams oa = \<lparr>ip_timeout = oa_DefaultTimeout oa, ip_CostCenter = None,
     ip_CriticalityLevel = None, ip_Environment = None, ip_ExternalID = None, ip_LifecycleStatus = None,
     ip_Name = None, ip_Owner = None, ip_Type = None\<rparr>"

definition ListInfrastructureAccounts_WriteToRequest :: "'q openapi \<Rightarrow> list_accounts_params \<Rightarrow> 'q \<Rightarrow> go_error + 'q" where
  "ListInfrastructureAccounts_WriteToRequest oa p = writes
     [rq_SetTimeout (oa_request oa) (ip_timeout p),
      query_params oa
       [(''cost_center'', ip_CostCenter p), (''criticality_level'', map_option int_str (ip_CriticalityLevel p)),
        (''environment'', ip_Environment p), (''external_id'', ip_ExternalID p), (''lifecycle_status'', ip_LifecycleStatus p),
        (''name'', ip_Name p), (''owner'', ip_Owner p), (''type'', ip_Type p)]]"

record update_cluster_params =
  up_timeout :: int
  up_Cluster :: "cluster_update option"
  up_ClusterID :: string

definition NewUpdateClusterParams :: "'q openapi \<Rightarrow> update_cluster_params" where
  "NewUpdateClusterParams oa = \<lparr>up_timeout = oa_DefaultTimeout oa, up_Cluster = None, up_ClusterID = []\<rparr>"

definition body_of :: "'q openapi \<Rightarrow> body_param option \<Rightarrow> 'q \<Rightarrow> go_error + 'q" where
  "body_of oa b q = (case b of None \<Rightarrow> Inr q | Some x \<Rightarrow> rq_SetBodyParam (oa_request oa) x q)"

definition UpdateCluster_WriteToRequest :: "'q openapi \<Rightarrow> update_cluster_params \<Rightarrow> 'q \<Rightarrow> go_error + 'q" where
  "UpdateCluster_WriteToRequest oa p = writes
     [rq_SetTimeout (oa_request oa) (up_timeout p), body_of oa (map_option ClusterUpdate (up_Cluster p)),
      rq_SetPathParam (oa_request oa) ''cluster_id'' (up_ClusterID p)]"

record config_item_params =
  cp_timeout :: int
  cp_ClusterID :: string
  cp_ConfigKey :: string
  cp_Value :: "string option option"

definition NewAddOrUpdateConfigItemParams :: "'q openapi \<Rightarrow> config_item_params" where
  "NewAddOrUpdateConfigItemParams oa = \<lparr>cp_timeout = oa_DefaultTimeout oa, cp_ClusterID = [], cp_ConfigKey = [], cp_Value = None\<rparr>"

definition AddOrUpdateConfigItem_WriteToRequest :: "'q openapi \<Rightarrow> config_item_params \<Rightarrow> 'q \<Rightarrow> go_error + 'q" where
  "AddOrUpdateConfigItem_WriteToRequest oa p = writes
     [rq_SetTimeout (oa_request oa) (cp_timeout p), rq_SetPathParam (oa_request oa) ''cluster_id'' (cp_ClusterID p),
      rq_SetPathParam (oa_request oa) ''config_key'' (cp_ConfigKey p), body_of oa (map_option ConfigValue (cp_Value p))]"

section \<open>Readers of responses\<close>

text \<open>
  An answer with one of the documented codes is read into the structure of that code; as an error it
  is that structure, here its text. Some of the structures have a payload.
\<close>

definition bare_error :: "string \<Rightarrow> int \<Rightarrow> string \<Rightarrow> go_error + 'r" where
  "bare_error route code what = Inl (Errorf (status_text route code what))"

definition payload_error :: "'q openapi \<Rightarrow> string \<Rightarrow> int \<Rightarrow> string \<Rightarrow> client_response \<Rightarrow> consumer \<Rightarrow> go_error + 'r" where
  "payload_error oa route code what rs cn = (case read_payload (cn_Error cn (rs_Body rs)) of
     Inl e \<Rightarrow> Inl e
   | Inr m \<Rightarrow> Inl (Errorf (status_text route code what @ '' '' @ oa_MarshalError oa m)))"

definition ListClusters_ReadResponse :: "'q openapi \<Rightarrow> client_response \<Rightarrow> consumer \<Rightarrow> go_error + api_result" where
  "ListClusters_ReadResponse oa rs cn =
     (if rs_Code rs = 200 then map_sum id ListClustersOK (read_payload (cn_Clusters cn (rs_Body rs)))
      else if rs_Code rs = 401 then bare_error ''GET /kubernetes-clusters'' 401 ''listClustersUnauthorized''
      else if rs_Code rs = 403 then bare_error ''GET /kubernetes-clusters'' 403 ''listClustersForbidden''
      else if rs_Code rs = 500 then payload_error oa ''GET /kubernetes-clusters'' 500 ''listClustersInternalServerError'' rs cn
      else Inl (oa_NewAPIError oa ''[GET /kubernetes-clusters] listClusters'' rs (rs_Code rs)))"

definition UpdateCluster_ReadResponse :: "'q openapi \<Rightarrow> client_response \<Rightarrow> consumer \<Rightarrow> go_error + api_result" where
  "UpdateCluster_ReadResponse oa rs cn =
     (let route = ''PATCH /kubernetes-clusters/{cluster_id}'' in
      if rs_Code rs = 200 then map_sum id UpdateClusterOK (read_payload (cn_Cluster cn (rs_Body rs)))
      else if rs_Code rs = 401 then bare_error route 401 ''updateClusterUnauthorized''
      else if rs_Code rs = 403 then bare_error route 403 ''updateClusterForbidden''
      else if rs_Code rs = 404 then bare_error route 404 ''updateClusterNotFound''
      else if rs_Code rs = 500 then payload_error oa route 500 ''updateClusterInternalServerError'' rs cn
      else Inl (oa_NewAPIError oa (''['' @ route @ ''] updateCluster'') rs (rs_Code rs)))"

definition AddOrUpdateConfigItem_ReadResponse :: "'q openapi \<Rightarrow> client_response \<Rightarrow> consumer \<Rightarrow> go_error + api_result" where
  "AddOrUpdateConfigItem_ReadResponse oa rs cn =
     (let route = ''PUT /kubernetes-clusters/{cluster_id}/config-items/{config_key}'' in
      if rs_Code rs = 200 then map_sum id AddOrUpdateConfigItemOK (read_payload (cn_ConfigValue cn (rs_Body rs)))
      else if rs_Code rs = 400 then payload_error oa route 400 ''addOrUpdateConfigItemBadRequest'' rs cn
      else if rs_Code rs = 401 then bare_error route 401 ''addOrUpdateConfigItemUnauthorized''
      else if rs_Code rs = 403 then bare_error route 403 ''addOrUpdateConfigItemForbidden''
      else if rs_Code rs = 500 then payload_error oa route 500 ''addOrUpdateConfigItemInternalServerError'' rs cn
      else Inl (oa_NewAPIError oa (''['' @ route @ ''] addOrUpdateConfigItem'') rs (rs_Code rs)))"

definition ListInfrastructureAccounts_ReadResponse :: "'q openapi \<Rightarrow> client_response \<Rightarrow> consumer \<Rightarrow> go_error + api_result" where
  "ListInfrastructureAccounts_ReadResponse oa rs cn =
     (let route = ''GET /infrastructure-accounts'' in
      if rs_Code rs = 200 then map_sum id ListInfrastructureAccountsOK (read_payload (cn_Accounts cn (rs_Body rs)))
      else if rs_Code rs = 401 then bare_error route 401 ''listInfrastructureAccountsUnauthorized''
      else if rs_Code rs = 403 then bare_error route 403 ''listInfrastructureAccountsForbidden''
      else if rs_Code rs = 500 then payload_error oa route 500 ''listInfrastructureAccountsInternalServerError'' rs cn
      else Inl (oa_NewAPIError oa (''['' @ route @ ''] listInfrastructureAccounts'') rs (rs_Code rs)))"

section \<open>Operations\<close>

text \<open>
  Each operation submits itself and asserts the type of the result; a result of another type is a
  panic. The text of the panic leaves out the name of that type.
\<close>

definition unexpected_success :: "string \<Rightarrow> ('w, 'r) io" where
  "unexpected_success name w = (Panic (''unexpected success response for '' @ name), w)"

definition ListClusters_operation :: "'q openapi \<Rightarrow> list_clusters_params \<Rightarrow> auth_info \<Rightarrow> 'q client_operation" where
  "ListClusters_operation oa p authInfo =
     \<lparr>op_ID = ''listClusters'', op_Method = ''GET'', op_PathPattern = ''/kubernetes-clusters'',
      op_ProducesMediaTypes = [''application/json''], op_ConsumesMediaTypes = [''application/json''],
      op_Schemes = [''https''], op_Params = ListClusters_WriteToRequest oa p,
      op_Reader = ListClusters_ReadResponse oa, op_AuthInfo = authInfo\<rparr>"

definition ListClusters :: "'q openapi \<Rightarrow> ('w, 'q) transport \<Rightarrow> list_clusters_params option \<Rightarrow> auth_info \<Rightarrow> ('w, cluster_model option list) io" where
  "ListClusters oa tr params authInfo =
     (let p = (case params of None \<Rightarrow> NewListClustersParams oa | Some p \<Rightarrow> p) in
      bindE (tr (ListClusters_operation oa p authInfo)) (\<lambda>result. case result of ListClustersOK items \<Rightarrow> ret items | _ \<Rightarrow> unexpected_success ''listClusters''))"

definition UpdateCluster_operation :: "'q openapi \<Rightarrow> update_cluster_params \<Rightarrow> auth_info \<Rightarrow> 'q client_operation" where
  "UpdateCluster_operation oa p authInfo =
     \<lparr>op_ID = ''updateCluster'', op_Method = ''PATCH'', op_PathPattern = ''/kubernetes-clusters/{cluster_id}'',
      op_ProducesMediaTypes = [''application/json''], op_ConsumesMediaTypes = [''application/json''],
      op_Schemes = [''https''], op_Params = UpdateCluster_WriteToRequest oa p,
      op_Reader = UpdateCluster_ReadResponse oa, op_AuthInfo = authInfo\<rparr>"

definition UpdateCluster :: "'q openapi \<Rightarrow> ('w, 'q) transport \<Rightarrow> update_cluster_params option \<Rightarrow> auth_info \<Rightarrow> ('w, cluster_model) io" where
  "UpdateCluster oa tr params authInfo =
     (let p = (case params of None \<Rightarrow> NewUpdateClusterParams oa | Some p \<Rightarrow> p) in
      bindE (tr (UpdateCluster_operation oa p authInfo)) (\<lambda>result. case result of UpdateClusterOK c \<Rightarrow> ret c | _ \<Rightarrow> unexpected_success ''updateCluster''))"

definition AddOrUpdateConfigItem_operation :: "'q openapi \<Rightarrow> config_item_params \<Rightarrow> auth_info \<Rightarrow> 'q client_operation" where
  "AddOrUpdateConfigItem_operation oa p authInfo =
     \<lparr>op_ID = ''addOrUpdateConfigItem'', op_Method = ''PUT'',
      op_PathPattern = ''/kubernetes-clusters/{cluster_id}/config-items/{config_key}'',
      op_ProducesMediaTypes = [''application/json''], op_ConsumesMediaTypes = [''application/json''],
      op_Schemes = [''https''], op_Params = AddOrUpdateConfigItem_WriteToRequest oa p,
      op_Reader = AddOrUpdateConfigItem_ReadResponse oa, op_AuthInfo = authInfo\<rparr>"

definition AddOrUpdateConfigItem :: "'q openapi \<Rightarrow> ('w, 'q) transport \<Rightarrow> config_item_params option \<Rightarrow> auth_info \<Rightarrow> ('w, string option) io" where
  "AddOrUpdateConfigItem oa tr params authInfo =
     (let p = (case params of None \<Rightarrow> NewAddOrUpdateConfigItemParams oa | Some p \<Rightarrow> p) in
      bindE (tr (AddOrUpdateConfigItem_operation oa p authInfo)) (\<lambda>result. case result of AddOrUpdateConfigItemOK v \<Rightarrow> ret v | _ \<Rightarrow> unexpected_success ''addOrUpdateConfigItem''))"

definition ListInfrastructureAccounts_operation :: "'q openapi \<Rightarrow> list_accounts_params \<Rightarrow> auth_info \<Rightarrow> 'q client_operation" where
  "ListInfrastructureAccounts_operation oa p authInfo =
     \<lparr>op_ID = ''listInfrastructureAccounts'', op_Method = ''GET'', op_PathPattern = ''/infrastructure-accounts'',
      op_ProducesMediaTypes = [''application/json''], op_ConsumesMediaTypes = [''application/json''],
      op_Schemes = [''https''], op_Params = ListInfrastructureAccounts_WriteToRequest oa p,
      op_Reader = ListInfrastructureAccounts_ReadResponse oa, op_AuthInfo = authInfo\<rparr>"

definition ListInfrastructureAccounts :: "'q openapi \<Rightarrow> ('w, 'q) transport \<Rightarrow> list_accounts_params option \<Rightarrow> auth_info \<Rightarrow> ('w, account_model option list) io" where
  "ListInfrastructureAccounts oa tr params authInfo =
     (let p = (case params of None \<Rightarrow> NewListInfrastructureAccountsParams oa | Some p \<Rightarrow> p) in
      bindE (tr (ListInfrastructureAccounts_operation oa p authInfo)) (\<lambda>result. case result of ListInfrastructureAccountsOK items \<Rightarrow> ret items | _ \<Rightarrow> unexpected_success ''listInfrastructureAccounts''))"

section \<open>The client of the HTTP registry\<close>

text \<open>
  The server of the registry, as its URL is parsed, the transport that the runtime makes for it, and
  the client with the parameters that the operations of \<open>registry/http.go\<close> call it with.
\<close>

record server_url =
  su_Host :: string
  su_Path :: string
  su_Scheme :: string

definition newClient :: "(string \<Rightarrow> string \<Rightarrow> string list \<Rightarrow> ('w, 'q) transport) \<Rightarrow> server_url \<Rightarrow> ('w, 'q) transport" where
  "newClient new server = new (su_Host server) (su_Path server) [su_Scheme server]"

definition NewHTTPRegistry :: "'q openapi \<Rightarrow> (string \<Rightarrow> string \<Rightarrow> string list \<Rightarrow> ('w, 'q) transport) \<Rightarrow> server_url
    \<Rightarrow> ('w, string) io \<Rightarrow> (string \<Rightarrow> go_error + string) \<Rightarrow> (policy_document \<Rightarrow> go_error + string) \<Rightarrow> 'w registry_client" where
  "NewHTTPRegistry oa new server tokenSource urlHost marshal =
     (let tr = newClient new server in
      \<lparr>rc_Token = tokenSource,
       rc_ListClusters = (\<lambda>token. ListClusters oa tr (Some (NewListClustersParams oa)) (BearerToken token)),
       rc_UpdateCluster = (\<lambda>token i u. bindE (UpdateCluster oa tr
           (Some ((NewUpdateClusterParams oa)\<lparr>up_ClusterID := i, up_Cluster := Some u\<rparr>)) (BearerToken token)) (\<lambda>_. ret ())),
       rc_AddOrUpdateConfigItem = (\<lambda>token i key v. bindE (AddOrUpdateConfigItem oa tr
           (Some ((NewAddOrUpdateConfigItemParams oa)\<lparr>cp_ClusterID := i, cp_ConfigKey := key, cp_Value := Some (Some v)\<rparr>)) (BearerToken token)) (\<lambda>_. ret ())),
       rc_ListAccounts = (\<lambda>token status. ListInfrastructureAccounts oa tr
           (Some ((NewListInfrastructureAccountsParams oa)\<lparr>ip_LifecycleStatus := Some status\<rparr>)) (BearerToken token)),
       rc_URLHost = urlHost, rc_MarshalPolicy = marshal\<rparr>)"

section \<open>Answers of the registry\<close>

text \<open>
  What the transport promises: it returns an error, or what the reader of the operation makes of some
  response with the consumer it has for the type of the response.
\<close>

definition reads_responses :: "consumer \<Rightarrow> ('w, 'q) transport \<Rightarrow> bool" where
  "reads_responses cn tr \<longleftrightarrow> (\<forall>op w. case tr op w of
       (Ret x, w') \<Rightarrow> \<exists>rs. op_Reader op rs cn = Inr x
     | (Fail e, w') \<Rightarrow> True
     | _ \<Rightarrow> False)"

text \<open>What the registry promises: bodies that are decoded without an error describe complete objects.\<close>

definition decodes_complete :: "consumer \<Rightarrow> bool" where
  "decodes_complete cn \<longleftrightarrow>
     (\<forall>b items. read_payload (cn_Clusters cn b) = Inr items \<longrightarrow> list_all complete_cluster items)
     \<and> (\<forall>b items. read_payload (cn_Accounts cn b) = Inr items \<longrightarrow> list_all complete_account items)"

text \<open>Only the code 200 is a success, and the result then has the type of the operation.\<close>

lemmas reader_defs = ListClusters_ReadResponse_def UpdateCluster_ReadResponse_def
  AddOrUpdateConfigItem_ReadResponse_def ListInfrastructureAccounts_ReadResponse_def
  bare_error_def payload_error_def Let_def map_sum_Inr

lemma readers_succeed:
  "ListClusters_ReadResponse oa rs cn = Inr x \<longleftrightarrow>
     rs_Code rs = 200 \<and> (\<exists>items. read_payload (cn_Clusters cn (rs_Body rs)) = Inr items \<and> x = ListClustersOK items)"
  "UpdateCluster_ReadResponse oa rs cn = Inr x \<longleftrightarrow>
     rs_Code rs = 200 \<and> (\<exists>c. read_payload (cn_Cluster cn (rs_Body rs)) = Inr c \<and> x = UpdateClusterOK c)"
  "AddOrUpdateConfigItem_ReadResponse oa rs cn = Inr x \<longleftrightarrow>
     rs_Code rs = 200 \<and> (\<exists>v. read_payload (cn_ConfigValue cn (rs_Body rs)) = Inr v \<and> x = AddOrUpdateConfigItemOK v)"
  "ListInfrastructureAccounts_ReadResponse oa rs cn = Inr x \<longleftrightarrow>
     rs_Code rs = 200 \<and> (\<exists>items. read_payload (cn_Accounts cn (rs_Body rs)) = Inr items \<and> x = ListInfrastructureAccountsOK items)"
  by (auto simp: reader_defs split: sum.splits)

lemma reads_responses_Ret: "reads_responses cn tr \<Longrightarrow> tr op w = (Ret x, w') \<Longrightarrow> \<exists>rs. op_Reader op rs cn = Inr x"
  unfolding reads_responses_def by (drule spec [of _ op], drule spec [of _ w]) simp

lemma reads_responses_answers: "reads_responses cn tr \<Longrightarrow> answers (tr op)"
  unfolding answers_def
proof
  fix w assume "reads_responses cn tr"
  then have "case tr op w of (Ret x, w') \<Rightarrow> \<exists>rs. op_Reader op rs cn = Inr x | (Fail e, w') \<Rightarrow> True | _ \<Rightarrow> False"
    by (simp add: reads_responses_def)
  then show "orderly (fst (tr op w))" by (auto split: prod.splits outcome.splits)
qed

lemma answers_ret [simp]: "answers (ret x)"
  by (simp add: answers_def ret_def)

text \<open>
  What the operations of the client have in common: an operation submits itself with the parameters or, in
  place of nil, new ones, and returns the result if it has the right type; and its reader succeeds with one
  code only, with a result of that type. So the panic of an operation is out of reach, and its success means
  a response with this code.
\<close>

locale api_operation =
  fixes operation :: "'q openapi \<Rightarrow> ('w, 'q) transport \<Rightarrow> 'p option \<Rightarrow> auth_info \<Rightarrow> ('w, 'r) io"
    and new_params :: "'q openapi \<Rightarrow> 'p"
    and request :: "'q openapi \<Rightarrow> 'p \<Rightarrow> auth_info \<Rightarrow> 'q client_operation"
    and success :: "api_result \<Rightarrow> 'r option"
    and code :: int
  assumes submits: "operation oa tr params a w =
      (let op = request oa (case params of None \<Rightarrow> new_params oa | Some p \<Rightarrow> p) a in
       case tr op w of
         (Ret x, w') \<Rightarrow> (case success x of Some r \<Rightarrow> (Ret r, w') | None \<Rightarrow> unexpected_success (op_ID op) w')
       | (Fail e, w') \<Rightarrow> (Fail e, w') | (Panic s, w') \<Rightarrow> (Panic s, w') | (OutOfFuel, w') \<Rightarrow> (OutOfFuel, w'))"
    and reads: "op_Reader (request oa p a) rs cn = Inr x \<Longrightarrow> rs_Code rs = code \<and> success x \<noteq> None"
begin

lemma ends_orderly:
  assumes "reads_responses cn tr"
  shows "answers (operation oa tr params a)"
  unfolding answers_def
proof
  fix w
  let ?op = "request oa (case params of None \<Rightarrow> new_params oa | Some p \<Rightarrow> p) a"
  obtain r w' where r: "tr ?op w = (r, w')" by (cases "tr ?op w")
  have "orderly r" using reads_responses_answers [OF assms, of ?op] r by (auto simp: answers_def dest: spec [of _ w])
  moreover have "\<exists>y. success x = Some y" if "r = Ret x" for x
    using reads_responses_Ret [OF assms, of ?op w x w'] reads r that by blast
  ultimately show "orderly (fst (operation oa tr params a w))" using r by (cases r) (auto simp: submits Let_def)
qed

lemma accepted:
  assumes "reads_responses cn tr" and "operation oa tr params a w = (Ret r, w')"
  obtains op rs x where "op = request oa (case params of None \<Rightarrow> new_params oa | Some p \<Rightarrow> p) a"
    "tr op w = (Ret x, w')" "op_Reader op rs cn = Inr x" "rs_Code rs = code" "success x = Some r"
proof -
  let ?op = "request oa (case params of None \<Rightarrow> new_params oa | Some p \<Rightarrow> p) a"
  from assms(2) obtain x where x: "tr ?op w = (Ret x, w')" "success x = Some r"
    by (auto simp: submits Let_def unexpected_success_def split: prod.splits outcome.splits option.splits)
  with reads_responses_Ret [OF assms(1)] obtain rs where rs: "op_Reader ?op rs cn = Inr x" by blast
  with reads have "rs_Code rs = code" by blast
  with x rs that show thesis by blast
qed

end

lemmas operation_defs = ListClusters_operation_def UpdateCluster_operation_def AddOrUpdateConfigItem_operation_def
  ListInfrastructureAccounts_operation_def

lemmas live_operation_defs = ListClusters_def UpdateCluster_def AddOrUpdateConfigItem_def ListInfrastructureAccounts_def
  operation_defs bindE_def ret_def Let_def

interpretation list_clusters: api_operation ListClusters NewListClustersParams ListClusters_operation
    "\<lambda>x. case x of ListClustersOK items \<Rightarrow> Some items | _ \<Rightarrow> None" 200
  by unfold_locales (auto simp: live_operation_defs readers_succeed split: api_result.splits outcome.splits prod.splits)

interpretation update_cluster: api_operation UpdateCluster NewUpdateClusterParams UpdateCluster_operation
    "\<lambda>x. case x of UpdateClusterOK c \<Rightarrow> Some c | _ \<Rightarrow> None" 200
  by unfold_locales (auto simp: live_operation_defs readers_succeed split: api_result.splits outcome.splits prod.splits)

interpretation add_or_update_config_item: api_operation AddOrUpdateConfigItem NewAddOrUpdateConfigItemParams
    AddOrUpdateConfigItem_operation "\<lambda>x. case x of AddOrUpdateConfigItemOK v \<Rightarrow> Some v | _ \<Rightarrow> None" 200
  by unfold_locales (auto simp: live_operation_defs readers_succeed split: api_result.splits outcome.splits prod.splits)

interpretation list_accounts: api_operation ListInfrastructureAccounts NewListInfrastructureAccountsParams
    ListInfrastructureAccounts_operation "\<lambda>x. case x of ListInfrastructureAccountsOK items \<Rightarrow> Some items | _ \<Rightarrow> None" 200
  by unfold_locales (auto simp: live_operation_defs readers_succeed split: api_result.splits outcome.splits prod.splits)

lemma lists_complete:
  assumes "reads_responses cn tr" and "decodes_complete cn"
  shows "ListClusters oa tr p a w = (Ret items, w') \<Longrightarrow> list_all complete_cluster items"
    and "ListInfrastructureAccounts oa tr q a w = (Ret accounts, w') \<Longrightarrow> list_all complete_account accounts"
  using assms(2) by (auto simp: operation_defs decodes_complete_def readers_succeed
      elim!: list_clusters.accepted [OF assms(1)] list_accounts.accepted [OF assms(1)])

lemma NewHTTPRegistry_answers:
  assumes "reads_responses cn (newClient new server)" and "decodes_complete cn" and "answers tokens"
  shows "registry_answers (NewHTTPRegistry oa new server tokens urlHost marshal)"
  using assms list_clusters.ends_orderly [OF assms(1)] list_accounts.ends_orderly [OF assms(1)] lists_complete [OF assms(1,2)]
  by (auto simp: registry_answers_def NewHTTPRegistry_def Let_def)

text \<open>
  Claim C25. A status that the HTTP registry reports as stored was accepted: with a fresh token, a
  \<open>PATCH\<close> of exactly this cluster with its lifecycle status and a body that reads back as its status
  was submitted, and the registry answered it with the code 200. No other answer counts as success.
\<close>

theorem status_update_accepted:
  assumes "reads_responses cn (newClient new server)"
    and "http_UpdateLifecycleStatus (NewHTTPRegistry oa new server tokens urlHost marshal) c w = (Ret (), w')"
  shows "\<exists>token w1 op model rs st m.
      tokens w = (Ret token, w1) \<and> newClient new server op w1 = (Ret (UpdateClusterOK model), w')
    \<and> op_Method op = ''PATCH'' \<and> op_PathPattern op = ''/kubernetes-clusters/{cluster_id}'' \<and> op_AuthInfo op = BearerToken token
    \<and> op_Params op = UpdateCluster_WriteToRequest oa \<lparr>up_timeout = oa_DefaultTimeout oa,
        up_Cluster = Some (status_update (cl_LifecycleStatus c) m), up_ClusterID = cl_ID c\<rparr>
    \<and> op_Reader op rs cn = Inr (UpdateClusterOK model) \<and> rs_Code rs = 200
    \<and> cl_Status c = Some st \<and> convertFromClusterStatusModel (Some m) = Ret st"
proof -
  let ?tr = "newClient new server"
  from assms(2) obtain token w1 m w2 model where
      token: "tokens w = (Ret token, w1)" and m: "convertToClusterStatusModel (cl_Status c) = Ret m"
      and call: "UpdateCluster oa ?tr (Some ((NewUpdateClusterParams oa)\<lparr>up_ClusterID := cl_ID c,
          up_Cluster := Some (status_update (cl_LifecycleStatus c) m)\<rparr>)) (BearerToken token) w1 = (Ret model, w')"
    by (auto simp: http_UpdateLifecycleStatus_def NewHTTPRegistry_def Let_def from_outcome_Ret ret_def)
  from m obtain st where st: "cl_Status c = Some st"
    by (cases "cl_Status c") (auto simp: convertToClusterStatusModel_def deref_def)
  obtain op rs x where
      op: "op = UpdateCluster_operation oa \<lparr>up_timeout = oa_DefaultTimeout oa, up_Cluster = Some (status_update (cl_LifecycleStatus c) m),
        up_ClusterID = cl_ID c\<rparr> (BearerToken token)"
      and x: "?tr op w1 = (Ret x, w')" "op_Reader op rs cn = Inr x" "rs_Code rs = 200"
      and "(case x of UpdateClusterOK c \<Rightarrow> Some c | _ \<Rightarrow> None) = Some model"
    by (rule update_cluster.accepted [OF assms(1) call]) (rule that, simp_all add: NewUpdateClusterParams_def)
  then have "x = UpdateClusterOK model" by (simp split: api_result.splits)
  with op x have rs: "?tr op w1 = (Ret (UpdateClusterOK model), w')" "op_Reader op rs cn = Inr (UpdateClusterOK model)" "rs_Code rs = 200"
      "op_Method op = ''PATCH''" "op_PathPattern op = ''/kubernetes-clusters/{cluster_id}''" "op_AuthInfo op = BearerToken token"
      "op_Params op = UpdateCluster_WriteToRequest oa \<lparr>up_timeout = oa_DefaultTimeout oa,
        up_Cluster = Some (status_update (cl_LifecycleStatus c) m), up_ClusterID = cl_ID c\<rparr>"
    by (simp_all add: UpdateCluster_operation_def)
  moreover have "convertFromClusterStatusModel (Some m) = Ret st" using status_roundtrip m st by simp
  ultimately show ?thesis using rs token st
    by (intro exI [of _ token] exI [of _ w1] exI [of _ op] exI [of _ model] exI [of _ rs] exI [of _ st] exI [of _ m]) simp
qed

text \<open>A registry that gives every request the same answer, and decoders for its bodies.\<close>

definition sample_account :: account_model where
  "sample_account = \<lparr>am_CostCenter = None, am_CriticalityLevel = None, am_Environment = None, am_ExternalID = None, am_ID = None,
     am_LifecycleStatus = None, am_Name = None, am_Owner = None, am_Type = None\<rparr>"

definition sample_pool :: pool_model where
  "sample_pool = \<lparr>nm_ConfigItems = [], nm_DiscountStrategy = None, nm_InstanceTypes = [], nm_MaxSize = None, nm_MinSize = None,
     nm_Name = None, nm_Profile = None\<rparr>"

definition sample_consumer :: consumer where
  "sample_consumer = \<lparr>cn_Clusters = (\<lambda>b. if b = [] then (Some io_EOF, []) else (None, [Some (sample_model b 7)])), cn_Cluster = (\<lambda>_. (Some io_EOF, sample_model [] 0)),
     cn_ConfigValue = (\<lambda>_. (Some io_EOF, None)), cn_Accounts = (\<lambda>_. (Some io_EOF, [])),
     cn_Account = (\<lambda>_. (Some io_EOF, sample_account)), cn_NodePools = (\<lambda>_. (Some io_EOF, [])), cn_NodePool = (\<lambda>_. (Some io_EOF, sample_pool)),
     cn_Error = (\<lambda>_. (Some io_EOF, \<lparr>em_Code = 0, em_Fields = [], em_Message = []\<rparr>))\<rparr>"

definition sample_openapi :: "unit openapi" where
  "sample_openapi = \<lparr>oa_DefaultTimeout = 30, oa_request = \<lparr>rq_SetTimeout = (\<lambda>_. Inr), rq_SetQueryParam = (\<lambda>_ _. Inr),
     rq_SetPathParam = (\<lambda>_ _. Inr), rq_SetBodyParam = (\<lambda>_. Inr)\<rparr>,
     oa_NewAPIError = (\<lambda>s _ _. Errorf s), oa_MarshalError = em_Message\<rparr>"

definition sample_transport :: "int \<Rightarrow> string \<Rightarrow> string \<Rightarrow> string \<Rightarrow> string list \<Rightarrow> ('w, unit) transport" where
  "sample_transport code body host path schemes op w = (case op_Reader op \<lparr>rs_Code = code, rs_Body = body\<rparr> sample_consumer of
     Inl e \<Rightarrow> (Fail e, w) | Inr x \<Rightarrow> (Ret x, w))"

definition sample_server :: server_url where
  "sample_server = \<lparr>su_Host = ''registry.example.org'', su_Path = ''/'', su_Scheme = ''https''\<rparr>"

definition sample_answering :: "int \<Rightarrow> string \<Rightarrow> 'w registry_client" where
  "sample_answering code body = NewHTTPRegistry sample_openapi (sample_transport code body) sample_server (ret ''t'') Inr (\<lambda>_. Inr [])"

lemma sample_transport_reads: "reads_responses sample_consumer (newClient (sample_transport code body) server)"
  by (auto simp: reads_responses_def newClient_def sample_transport_def split: sum.splits prod.splits outcome.splits)

text \<open>
  An empty answer is no error: the end of the input is taken for an empty list of clusters.
\<close>

lemma empty_answer_lists_nothing: "http_ListClusters (sample_answering 200 []) f w = (Ret [], w)"
  by (simp add: http_ListClusters_def getReadyInfrastructureAccounts_def sample_answering_def NewHTTPRegistry_def Let_def newClient_def
      sample_transport_def ListClusters_def ListInfrastructureAccounts_def operation_defs reader_defs read_payload_def sample_consumer_def io_EOF_def
      sort_created_def from_outcome_def from_sum_def init_accounts_def bindE_def ret_def)

lemma forbidden_is_reported: "http_ListClusters (sample_answering 403 []) f w = (Fail (Errorf ''[GET /kubernetes-clusters][403] listClustersForbidden''), w)"
  by (simp add: http_ListClusters_def sample_answering_def NewHTTPRegistry_def Let_def newClient_def
      sample_transport_def ListClusters_def operation_defs reader_defs status_text_def bindE_def ret_def) (code_simp)

theorem status_update_accepted_witness:
  "\<exists>(op :: unit client_operation) model rs st m. op_Method op = ''PATCH'' \<and> op_AuthInfo op = BearerToken ''t''
    \<and> op_Params op = UpdateCluster_WriteToRequest sample_openapi \<lparr>up_timeout = 30,
        up_Cluster = Some (status_update ''ready'' m), up_ClusterID = ''old''\<rparr>
    \<and> op_Reader op rs sample_consumer = Inr (UpdateClusterOK model) \<and> rs_Code rs = 200
    \<and> cl_Status (hd sample_listing) = Some st \<and> convertFromClusterStatusModel (Some m) = Ret st"
proof -
  let ?c = "hd sample_listing"
  have c: "cl_LifecycleStatus ?c = ''ready''" "cl_ID ?c = ''old''" by code_simp+
  have "http_UpdateLifecycleStatus (sample_answering 200 []) ?c () = (Ret (), ())" by code_simp
  from status_update_accepted [OF sample_transport_reads this [unfolded sample_answering_def]]
  obtain token w1 op model rs st m where *: "ret ''t'' () = (Ret token, w1)" "op_Method op = ''PATCH''" "op_AuthInfo op = BearerToken token"
      "op_Params op = UpdateCluster_WriteToRequest sample_openapi \<lparr>up_timeout = oa_DefaultTimeout sample_openapi,
        up_Cluster = Some (status_update (cl_LifecycleStatus ?c) m), up_ClusterID = cl_ID ?c\<rparr>"
      "op_Reader op rs sample_consumer = Inr (UpdateClusterOK model)" "rs_Code rs = 200"
      "cl_Status ?c = Some st" "convertFromClusterStatusModel (Some m) = Ret st"
      "newClient (sample_transport 200 []) sample_server op w1 = (Ret (UpdateClusterOK model), ())"
    by metis
  then have "token = ''t''" by (simp add: ret_def)
  with * c show ?thesis
    by (intro exI [of _ op] exI [of _ model] exI [of _ rs] exI [of _ st] exI [of _ m]) (simp add: sample_openapi_def)
qed

end
