(* ===== verification/Registry_Operations.thy ===== *)
theory Registry_Operations
  imports Registry_Client
begin

text \<open>
  The operations of the generated client of the cluster registry that the program does not call
  (\<open>pkg/cluster-registry/client\<close>): creating, reading and deleting clusters, their config items, accounts,
  node pools and the config items of node pools. They have the form of the operations of
  \<open>Registry_Client\<close>, and each is an instance of its locale \<open>api_operation\<close>. The last section shows for all
  operations of the client that a request sets exactly the parameters of its path.
\<close>

lemma errors_fail: "bare_error route c what \<noteq> Inr x" "payload_error oa route c what rs cn \<noteq> Inr x"
  by (simp_all add: bare_error_def payload_error_def split: sum.splits)

lemmas reading = bindE_def ret_def Let_def map_sum_Inr errors_fail

section \<open>Clusters\<close>

record create_cluster_params =
  ccp_timeout :: int
  ccp_Cluster :: "cluster_model option"

definition NewCreateClusterParams :: "'q openapi \<Rightarrow> create_cluster_params" where
  "NewCreateClusterParams oa = \<lparr>ccp_timeout = oa_DefaultTimeout oa, ccp_Cluster = None\<rparr>"

definition CreateCluster_WriteToRequest :: "'q openapi \<Rightarrow> create_cluster_params \<Rightarrow> 'q \<Rightarrow> go_error + 'q" where
  "CreateCluster_WriteToRequest oa p = writes
     [rq_SetTimeout (oa_request oa) (ccp_timeout p), body_of oa (map_option ClusterBody (ccp_Cluster p))]"

definition CreateCluster_ReadResponse :: "'q openapi \<Rightarrow> client_response \<Rightarrow> consumer \<Rightarrow> go_error + api_result" where
  "CreateCluster_ReadResponse oa rs cn =
     (let route = ''POST /kubernetes-clusters'' in
      if rs_Code rs = 201 then map_sum id CreateClusterCreated (read_payload (cn_Cluster cn (rs_Body rs)))
      else if rs_Code rs = 400 then payload_error oa route 400 ''createClusterBadRequest'' rs cn
      else if rs_Code rs = 401 then bare_error route 401 ''createClusterUnauthorized''
      else if rs_Code rs = 403 then bare_error route 403 ''createClusterForbidden''
      else if rs_Code rs = 409 then bare_error route 409 ''createClusterConflict''
      else if rs_Code rs = 500 then payload_error oa route 500 ''createClusterInternalServerError'' rs cn
      else Inl (oa_NewAPIError oa (''['' @ route @ ''] createCluster'') rs (rs_Code rs)))"

definition CreateCluster_operation :: "'q openapi \<Rightarrow> create_cluster_params \<Rightarrow> auth_info \<Rightarrow> 'q client_operation" where
  "CreateCluster_operation oa p authInfo =
     \<lparr>op_ID = ''createCluster'', op_Method = ''POST'',
      op_PathPattern = ''/kubernetes-clusters'',
      op_ProducesMediaTypes = [''application/json''], op_ConsumesMediaTypes = [''application/json''],
      op_Schemes = [''https''], op_Params = CreateCluster_WriteToRequest oa p,
      op_Reader = CreateCluster_ReadResponse oa, op_AuthInfo = authInfo\<rparr>"

definition CreateCluster :: "'q openapi \<Rightarrow> ('w, 'q) transport \<Rightarrow> create_cluster_params option \<Rightarrow> auth_info \<Rightarrow> ('w, cluster_model) io" where
  "CreateCluster oa tr params authInfo =
     (let p = (case params of None \<Rightarrow> NewCreateClusterParams oa | Some p \<Rightarrow> p) in
      bindE (tr (CreateCluster_operation oa p authInfo)) (\<lambda>result. case result of CreateClusterCreated r \<Rightarrow> ret r | _ \<Rightarrow> unexpected_success ''createCluster''))"

interpretation create_cluster: api_operation CreateCluster NewCreateClusterParams CreateCluster_operation
    "\<lambda>x. case x of CreateClusterCreated r \<Rightarrow> Some r | _ \<Rightarrow> None" 201
  by unfold_locales
    (auto simp: CreateCluster_def CreateCluster_operation_def CreateCluster_ReadResponse_def reading split: api_result.splits outcome.splits prod.splits if_splits)

record delete_cluster_params =
  dcp_timeout :: int
  dcp_ClusterID :: string

definition NewDeleteClusterParams :: "'q openapi \<Rightarrow> delete_cluster_params" where
  "NewDeleteClusterParams oa = \<lparr>dcp_timeout = oa_DefaultTimeout oa, dcp_ClusterID = []\<rparr>"

definition DeleteCluster_WriteToRequest :: "'q openapi \<Rightarrow> delete_cluster_params \<Rightarrow> 'q \<Rightarrow> go_error + 'q" where
  "DeleteCluster_WriteToRequest oa p = writes
     [rq_SetTimeout (oa_request oa) (dcp_timeout p), rq_SetPathParam (oa_request oa) ''cluster_id'' (dcp_ClusterID p)]"

definition DeleteCluster_ReadResponse :: "'q openapi \<Rightarrow> client_response \<Rightarrow> consumer \<Rightarrow> go_error + api_result" where
  "DeleteCluster_ReadResponse oa rs cn =
     (let route = ''DELETE /kubernetes-clusters/{cluster_id}'' in
      if rs_Code rs = 204 then Inr DeleteClusterNoContent
      else if rs_Code rs = 400 then payload_error oa route 400 ''deleteClusterBadRequest'' rs cn
      else if rs_Code rs = 401 then bare_error route 401 ''deleteClusterUnauthorized''
      else if rs_Code rs = 403 then payload_error oa route 403 ''deleteClusterForbidden'' rs cn
      else if rs_Code rs = 404 then bare_error route 404 ''deleteClusterNotFound''
      else if rs_Code rs = 500 then payload_error oa route 500 ''deleteClusterInternalServerError'' rs cn
      else Inl (oa_NewAPIError oa (''['' @ route @ ''] deleteCluster'') rs (rs_Code rs)))"

definition DeleteCluster_operation :: "'q openapi \<Rightarrow> delete_cluster_params \<Rightarrow> auth_info \<Rightarrow> 'q client_operation" where
  "DeleteCluster_operation oa p authInfo =
     \<lparr>op_ID = ''deleteCluster'', op_Method = ''DELETE'',
      op_PathPattern = ''/kubernetes-clusters/{cluster_id}'',
      op_ProducesMediaTypes = [''application/json''], op_ConsumesMediaTypes = [''application/json''],
      op_Schemes = [''https''], op_Params = DeleteCluster_WriteToRequest oa p,
      op_Reader = DeleteCluster_ReadResponse oa, op_AuthInfo = authInfo\<rparr>"

definition DeleteCluster :: "'q openapi \<Rightarrow> ('w, 'q) transport \<Rightarrow> delete_cluster_params option \<Rightarrow> auth_info \<Rightarrow> ('w, unit) io" where
  "DeleteCluster oa tr params authInfo =
     (let p = (case params of None \<Rightarrow> NewDeleteClusterParams oa | Some p \<Rightarrow> p) in
      bindE (tr (DeleteCluster_operation oa p authInfo)) (\<lambda>result. case result of DeleteClusterNoContent \<Rightarrow> ret () | _ \<Rightarrow> unexpected_success ''deleteCluster''))"

interpretation delete_cluster: api_operation DeleteCluster NewDeleteClusterParams DeleteCluster_operation
    "\<lambda>x. case x of DeleteClusterNoContent \<Rightarrow> Some () | _ \<Rightarrow> None" 204
  by unfold_locales
    (auto simp: DeleteCluster_def DeleteCluster_operation_def DeleteCluster_ReadResponse_def reading split: api_result.splits outcome.splits prod.splits if_splits)

record get_cluster_params =
  gcp_timeout :: int
  gcp_ClusterID :: string
  gcp_Verbose :: "bool option"

definition NewGetClusterParams :: "'q openapi \<Rightarrow> get_cluster_params" where
  "NewGetClusterParams oa = \<lparr>gcp_timeout = oa_DefaultTimeout oa, gcp_ClusterID = [], gcp_Verbose = None\<rparr>"

definition GetCluster_WriteToRequest :: "'q openapi \<Rightarrow> get_cluster_params \<Rightarrow> 'q \<Rightarrow> go_error + 'q" where
  "GetCluster_WriteToRequest oa p = writes
     [rq_SetTimeout (oa_request oa) (gcp_timeout p), rq_SetPathParam (oa_request oa) ''cluster_id'' (gcp_ClusterID p),
      query_param oa ''verbose'' (map_option format_bool (gcp_Verbose p))]"

definition GetCluster_ReadResponse :: "'q openapi \<Rightarrow> client_response \<Rightarrow> consumer \<Rightarrow> go_error + api_result" where
  "GetCluster_ReadResponse oa rs cn =
     (let route = ''GET /kubernetes-clusters/{cluster_id}'' in
      if rs_Code rs = 200 then map_sum id GetClusterOK (read_payload (cn_Cluster cn (rs_Body rs)))
      else if rs_Code rs = 401 then bare_error route 401 ''getClusterUnauthorized''
      else if rs_Code rs = 403 then bare_error route 403 ''getClusterForbidden''
      else if rs_Code rs = 404 then bare_error route 404 ''getClusterNotFound''
      else if rs_Code rs = 500 then payload_error oa route 500 ''getClusterInternalServerError'' rs cn
      else Inl (oa_NewAPIError oa (''['' @ route @ ''] getCluster'') rs (rs_Code rs)))"

definition GetCluster_operation :: "'q openapi \<Rightarrow> get_cluster_params \<Rightarrow> auth_info \<Rightarrow> 'q client_operation" where
  "GetCluster_operation oa p authInfo =
     \<lparr>op_ID = ''getCluster'', op_Method = ''GET'',
      op_PathPattern = ''/kubernetes-clusters/{cluster_id}'',
      op_ProducesMediaTypes = [''application/json''], op_ConsumesMediaTypes = [''application/json''],
      op_Schemes = [''https''], op_Params = GetCluster_WriteToRequest oa p,
      op_Reader = GetCluster_ReadResponse oa, op_AuthInfo = authInfo\<rparr>"

definition GetCluster :: "'q openapi \<Rightarrow> ('w, 'q) transport \<Rightarrow> get_cluster_params option \<Rightarrow> auth_info \<Rightarrow> ('w, cluster_model) io" where
  "GetCluster oa tr params authInfo =
     (let p = (case params of None \<Rightarrow> NewGetClusterParams oa | Some p \<Rightarrow> p) in
      bindE (tr (GetCluster_operation oa p authInfo)) (\<lambda>result. case result of GetClusterOK r \<Rightarrow> ret r | _ \<Rightarrow> unexpected_success ''getCluster''))"

interpretation get_cluster: api_operation GetCluster NewGetClusterParams GetCluster_operation
    "\<lambda>x. case x of GetClusterOK r \<Rightarrow> Some r | _ \<Rightarrow> None" 200
  by unfold_locales
    (auto simp: GetCluster_def GetCluster_operation_def GetCluster_ReadResponse_def reading split: api_result.splits outcome.splits prod.splits if_splits)

section \<open>Config items of clusters\<close>

record delete_config_item_params =
  dip_timeout :: int
  dip_ClusterID :: string
  dip_ConfigKey :: string

definition NewDeleteConfigItemParams :: "'q openapi \<Rightarrow> delete_config_item_params" where
  "NewDeleteConfigItemParams oa = \<lparr>dip_timeout = oa_DefaultTimeout oa, dip_ClusterID = [], dip_ConfigKey = []\<rparr>"

definition DeleteConfigItem_WriteToRequest :: "'q openapi \<Rightarrow> delete_config_item_params \<Rightarrow> 'q \<Rightarrow> go_error + 'q" where
  "DeleteConfigItem_WriteToRequest oa p = writes
     [rq_SetTimeout (oa_request oa) (dip_timeout p), rq_SetPathParam (oa_request oa) ''cluster_id'' (dip_ClusterID p),
      rq_SetPathParam (oa_request oa) ''config_key'' (dip_ConfigKey p)]"

definition DeleteConfigItem_ReadResponse :: "'q openapi \<Rightarrow> client_response \<Rightarrow> consumer \<Rightarrow> go_error + api_result" where
  "DeleteConfigItem_ReadResponse oa rs cn =
     (let route = ''DELETE /kubernetes-clusters/{cluster_id}/config-items/{config_key}'' in
      if rs_Code rs = 204 then Inr DeleteConfigItemNoContent
      else if rs_Code rs = 400 then payload_error oa route 400 ''deleteConfigItemBadRequest'' rs cn
      else if rs_Code rs = 401 then bare_error route 401 ''deleteConfigItemUnauthorized''
      else if rs_Code rs = 403 then bare_error route 403 ''deleteConfigItemForbidden''
      else if rs_Code rs = 404 then bare_error route 404 ''deleteConfigItemNotFound''
      else if rs_Code rs = 500 then payload_error oa route 500 ''deleteConfigItemInternalServerError'' rs cn
      else Inl (oa_NewAPIError oa (''['' @ route @ ''] deleteConfigItem'') rs (rs_Code rs)))"

definition DeleteConfigItem_operation :: "'q openapi \<Rightarrow> delete_config_item_params \<Rightarrow> auth_info \<Rightarrow> 'q client_operation" where
  "DeleteConfigItem_operation oa p authInfo =
     \<lparr>op_ID = ''deleteConfigItem'', op_Method = ''DELETE'',
      op_PathPattern = ''/kubernetes-clusters/{cluster_id}/config-items/{config_key}'',
      op_ProducesMediaTypes = [''application/json''], op_ConsumesMediaTypes = [''application/json''],
      op_Schemes = [''https''], op_Params = DeleteConfigItem_WriteToRequest oa p,
      op_Reader = DeleteConfigItem_ReadResponse oa, op_AuthInfo = authInfo\<rparr>"

definition DeleteConfigItem :: "'q openapi \<Rightarrow> ('w, 'q) transport \<Rightarrow> delete_config_item_params option \<Rightarrow> auth_info \<Rightarrow> ('w, unit) io" where
  "DeleteConfigItem oa tr params authInfo =
     (let p = (case params of None \<Rightarrow> NewDeleteConfigItemParams oa | Some p \<Rightarrow> p) in
      bindE (tr (DeleteConfigItem_operation oa p authInfo)) (\<lambda>result. case result of DeleteConfigItemNoContent \<Rightarrow> ret () | _ \<Rightarrow> unexpected_success ''deleteConfigItem''))"

interpretation delete_config_item: api_operation DeleteConfigItem NewDeleteConfigItemParams DeleteConfigItem_operation
    "\<lambda>x. case x of DeleteConfigItemNoContent \<Rightarrow> Some () | _ \<Rightarrow> None" 204
  by unfold_locales
    (auto simp: DeleteConfigItem_def DeleteConfigItem_operation_def DeleteConfigItem_ReadResponse_def reading split: api_result.splits outcome.splits prod.splits if_splits)

section \<open>Infrastructure accounts\<close>

record create_infrastructure_account_params =
  cap_timeout :: int
  cap_InfrastructureAccount :: "account_model option"

definition NewCreateInfrastructureAccountParams :: "'q openapi \<Rightarrow> create_infrastructure_account_params" where
  "NewCreateInfrastructureAccountParams oa = \<lparr>cap_timeout = oa_DefaultTimeout oa, cap_InfrastructureAccount = None\<rparr>"

definition CreateInfrastructureAccount_WriteToRequest :: "'q openapi \<Rightarrow> create_infrastructure_account_params \<Rightarrow> 'q \<Rightarrow> go_error + 'q" where
  "CreateInfrastructureAccount_WriteToRequest oa p = writes
     [rq_SetTimeout (oa_request oa) (cap_timeout p), body_of oa (map_option AccountBody (cap_InfrastructureAccount p))]"

definition CreateInfrastructureAccount_ReadResponse :: "'q openapi \<Rightarrow> client_response \<Rightarrow> consumer \<Rightarrow> go_error + api_result" where
  "CreateInfrastructureAccount_ReadResponse oa rs cn =
     (let route = ''POST /infrastructure-accounts'' in
      if rs_Code rs = 201 then map_sum id CreateInfrastructureAccountCreated (read_payload (cn_Account cn (rs_Body rs)))
      else if rs_Code rs = 400 then bare_error route 400 ''createInfrastructureAccountBadRequest''
      else if rs_Code rs = 401 then bare_error route 401 ''createInfrastructureAccountUnauthorized''
      else if rs_Code rs = 403 then bare_error route 403 ''createInfrastructureAccountForbidden''
      else if rs_Code rs = 409 then bare_error route 409 ''createInfrastructureAccountConflict''
      else if rs_Code rs = 500 then payload_error oa route 500 ''createInfrastructureAccountInternalServerError'' rs cn
      else Inl (oa_NewAPIError oa (''['' @ route @ ''] createInfrastructureAccount'') rs (rs_Code rs)))"

definition CreateInfrastructureAccount_operation :: "'q openapi \<Rightarrow> create_infrastructure_account_params \<Rightarrow> auth_info \<Rightarrow> 'q client_operation" where
  "CreateInfrastructureAccount_operation oa p authInfo =
     \<lparr>op_ID = ''createInfrastructureAccount'', op_Method = ''POST'',
      op_PathPattern = ''/infrastructure-accounts'',
      op_ProducesMediaTypes = [''application/json''], op_ConsumesMediaTypes = [''application/json''],
      op_Schemes = [''https''], op_Params = CreateInfrastructureAccount_WriteToRequest oa p,
      op_Reader = CreateInfrastructureAccount_ReadResponse oa, op_AuthInfo = authInfo\<rparr>"

definition CreateInfrastructureAccount :: "'q openapi \<Rightarrow> ('w, 'q) transport \<Rightarrow> create_infrastructure_account_params option \<Rightarrow> auth_info \<Rightarrow> ('w, account_model) io" where
  "CreateInfrastructureAccount oa tr params authInfo =
     (let p = (case params of None \<Rightarrow> NewCreateInfrastructureAccountParams oa | Some p \<Rightarrow> p) in
      bindE (tr (CreateInfrastructureAccount_operation oa p authInfo)) (\<lambda>result. case result of CreateInfrastructureAccountCreated r \<Rightarrow> ret r | _ \<Rightarrow> unexpected_success ''createInfrastructureAccount''))"

interpretation create_infrastructure_account: api_operation CreateInfrastructureAccount NewCreateInfrastructureAccountParams CreateInfrastructureAccount_operation
    "\<lambda>x. case x of CreateInfrastructureAccountCreated r \<Rightarrow> Some r | _ \<Rightarrow> None" 201
  by unfold_locales
    (auto simp: CreateInfrastructureAccount_def CreateInfrastructureAccount_operation_def CreateInfrastructureAccount_ReadResponse_def reading split: api_result.splits outcome.splits prod.splits if_splits)

record get_infrastructure_account_params =
  gap_timeout :: int
  gap_AccountID :: string

definition NewGetInfrastructureAccountParams :: "'q openapi \<Rightarrow> get_infrastructure_account_params" where
  "NewGetInfrastructureAccountParams oa = \<lparr>gap_timeout = oa_DefaultTimeout oa, gap_AccountID = []\<rparr>"

definition GetInfrastructureAccount_WriteToRequest :: "'q openapi \<Rightarrow> get_infrastructure_account_params \<Rightarrow> 'q \<Rightarrow> go_error + 'q" where
  "GetInfrastructureAccount_WriteToRequest oa p = writes
     [rq_SetTimeout (oa_request oa) (gap_timeout p), rq_SetPathParam (oa_request oa) ''account_id'' (gap_AccountID p)]"

definition GetInfrastructureAccount_ReadResponse :: "'q openapi \<Rightarrow> client_response \<Rightarrow> consumer \<Rightarrow> go_error + api_result" where
  "GetInfrastructureAccount_ReadResponse oa rs cn =
     (let route = ''GET /infrastructure-accounts/{account_id}'' in
      if rs_Code rs = 200 then map_sum id GetInfrastructureAccountOK (read_payload (cn_Account cn (rs_Body rs)))
      else if rs_Code rs = 401 then bare_error route 401 ''getInfrastructureAccountUnauthorized''
      else if rs_Code rs = 403 then bare_error route 403 ''getInfrastructureAccountForbidden''
      else if rs_Code rs = 404 then bare_error route 404 ''getInfrastructureAccountNotFound''
      else if rs_Code rs = 500 then payload_error oa route 500 ''getInfrastructureAccountInternalServerError'' rs cn
      else Inl (oa_NewAPIError oa (''['' @ route @ ''] getInfrastructureAccount'') rs (rs_Code rs)))"

definition GetInfrastructureAccount_operation :: "'q openapi \<Rightarrow> get_infrastructure_account_params \<Rightarrow> auth_info \<Rightarrow> 'q client_operation" where
  "GetInfrastructureAccount_operation oa p authInfo =
     \<lparr>op_ID = ''getInfrastructureAccount'', op_Method = ''GET'',
      op_PathPattern = ''/infrastructure-accounts/{account_id}'',
      op_ProducesMediaTypes = [''application/json''], op_ConsumesMediaTypes = [''application/json''],
      op_Schemes = [''https''], op_Params = GetInfrastructureAccount_WriteToRequest oa p,
      op_Reader = GetInfrastructureAccount_ReadResponse oa, op_AuthInfo = authInfo\<rparr>"

definition GetInfrastructureAccount :: "'q openapi \<Rightarrow> ('w, 'q) transport \<Rightarrow> get_infrastructure_account_params option \<Rightarrow> auth_info \<Rightarrow> ('w, account_model) io" where
  "GetInfrastructureAccount oa tr params authInfo =
     (let p = (case params of None \<Rightarrow> NewGetInfrastructureAccountParams oa | Some p \<Rightarrow> p) in
      bindE (tr (GetInfrastructureAccount_operation oa p authInfo)) (\<lambda>result. case result of GetInfrastructureAccountOK r \<Rightarrow> ret r | _ \<Rightarrow> unexpected_success ''getInfrastructureAccount''))"

interpretation get_infrastructure_account: api_operation GetInfrastructureAccount NewGetInfrastructureAccountParams GetInfrastructureAccount_operation
    "\<lambda>x. case x of GetInfrastructureAccountOK r \<Rightarrow> Some r | _ \<Rightarrow> None" 200
  by unfold_locales
    (auto simp: GetInfrastructureAccount_def GetInfrastructureAccount_operation_def GetInfrastructureAccount_ReadResponse_def reading split: api_result.splits outcome.splits prod.splits if_splits)

record update_infrastructure_account_params =
  uap_timeout :: int
  uap_AccountID :: string
  uap_InfrastructureAccount :: "account_update option"

definition NewUpdateInfrastructureAccountParams :: "'q openapi \<Rightarrow> update_infrastructure_account_params" where
  "NewUpdateInfrastructureAccountParams oa = \<lparr>uap_timeout = oa_DefaultTimeout oa, uap_AccountID = [], uap_InfrastructureAccount = None\<rparr>"

definition UpdateInfrastructureAccount_WriteToRequest :: "'q openapi \<Rightarrow> update_infrastructure_account_params \<Rightarrow> 'q \<Rightarrow> go_error + 'q" where
  "UpdateInfrastructureAccount_WriteToRequest oa p = writes
     [rq_SetTimeout (oa_request oa) (uap_timeout p), rq_SetPathParam (oa_request oa) ''account_id'' (uap_AccountID p),
      body_of oa (map_option AccountUpdate (uap_InfrastructureAccount p))]"

definition UpdateInfrastructureAccount_ReadResponse :: "'q openapi \<Rightarrow> client_response \<Rightarrow> consumer \<Rightarrow> go_error + api_result" where
  "UpdateInfrastructureAccount_ReadResponse oa rs cn =
     (let route = ''PATCH /infrastructure-accounts/{account_id}'' in
      if rs_Code rs = 200 then map_sum id UpdateInfrastructureAccountOK (read_payload (cn_Account cn (rs_Body rs)))
      else if rs_Code rs = 401 then bare_error route 401 ''updateInfrastructureAccountUnauthorized''
      else if rs_Code rs = 403 then bare_error route 403 ''updateInfrastructureAccountForbidden''
      else if rs_Code rs = 404 then bare_error route 404 ''updateInfrastructureAccountNotFound''
      else if rs_Code rs = 500 then payload_error oa route 500 ''updateInfrastructureAccountInternalServerError'' rs cn
      else Inl (oa_NewAPIError oa (''['' @ route @ ''] updateInfrastructureAccount'') rs (rs_Code rs)))"

definition UpdateInfrastructureAccount_operation :: "'q openapi \<Rightarrow> update_infrastructure_account_params \<Rightarrow> auth_info \<Rightarrow> 'q client_operation" where
  "UpdateInfrastructureAccount_operation oa p authInfo =
     \<lparr>op_ID = ''updateInfrastructureAccount'', op_Method = ''PATCH'',
      op_PathPattern = ''/infrastructure-accounts/{account_id}'',
      op_ProducesMediaTypes = [''application/json''], op_ConsumesMediaTypes = [''application/json''],
      op_Schemes = [''https''], op_Params = UpdateInfrastructureAccount_WriteToRequest oa p,
      op_Reader = UpdateInfrastructureAccount_ReadResponse oa, op_AuthInfo = authInfo\<rparr>"

definition UpdateInfrastructureAccount :: "'q openapi \<Rightarrow> ('w, 'q) transport \<Rightarrow> update_infrastructure_account_params option \<Rightarrow> auth_info \<Rightarrow> ('w, account_model) io" where
  "UpdateInfrastructureAccount oa tr params authInfo =
     (let p = (case params of None \<Rightarrow> NewUpdateInfrastructureAccountParams oa | Some p \<Rightarrow> p) in
      bindE (tr (UpdateInfrastructureAccount_operation oa p authInfo)) (\<lambda>result. case result of UpdateInfrastructureAccountOK r \<Rightarrow> ret r | _ \<Rightarrow> unexpected_success ''updateInfrastructureAccount''))"

interpretation update_infrastructure_account: api_operation UpdateInfrastructureAccount NewUpdateInfrastructureAccountParams UpdateInfrastructureAccount_operation
    "\<lambda>x. case x of UpdateInfrastructureAccountOK r \<Rightarrow> Some r | _ \<Rightarrow> None" 200
  by unfold_locales
    (auto simp: UpdateInfrastructureAccount_def UpdateInfrastructureAccount_operation_def UpdateInfrastructureAccount_ReadResponse_def reading split: api_result.splits outcome.splits prod.splits if_splits)

section \<open>Node pools\<close>

record create_or_update_node_pool_params =
  cnp_timeout :: int
  cnp_ClusterID :: string
  cnp_NodePool :: "pool_model option"
  cnp_NodePoolName :: string

definition NewCreateOrUpdateNodePoolParams :: "'q openapi \<Rightarrow> create_or_update_node_pool_params" where
  "NewCreateOrUpdateNodePoolParams oa = \<lparr>cnp_timeout = oa_DefaultTimeout oa, cnp_ClusterID = [], cnp_NodePool = None, cnp_NodePoolName = []\<rparr>"

definition CreateOrUpdateNodePool_WriteToRequest :: "'q openapi \<Rightarrow> create_or_update_node_pool_params \<Rightarrow> 'q \<Rightarrow> go_error + 'q" where
  "CreateOrUpdateNodePool_WriteToRequest oa p = writes
     [rq_SetTimeout (oa_request oa) (cnp_timeout p), rq_SetPathParam (oa_request oa) ''cluster_id'' (cnp_ClusterID p),
      body_of oa (map_option NodePoolBody (cnp_NodePool p)),
      rq_SetPathParam (oa_request oa) ''node_pool_name'' (cnp_NodePoolName p)]"

definition CreateOrUpdateNodePool_ReadResponse :: "'q openapi \<Rightarrow> client_response \<Rightarrow> consumer \<Rightarrow> go_error + api_result" where
  "CreateOrUpdateNodePool_ReadResponse oa rs cn =
     (let route = ''PUT /kubernetes-clusters/{cluster_id}/node-pools/{node_pool_name}'' in
      if rs_Code rs = 200 then map_sum id CreateOrUpdateNodePoolOK (read_payload (cn_NodePool cn (rs_Body rs)))
      else if rs_Code rs = 400 then payload_error oa route 400 ''createOrUpdateNodePoolBadRequest'' rs cn
      else if rs_Code rs = 401 then bare_error route 401 ''createOrUpdateNodePoolUnauthorized''
      else if rs_Code rs = 403 then bare_error route 403 ''createOrUpdateNodePoolForbidden''
      else if rs_Code rs = 500 then payload_error oa route 500 ''createOrUpdateNodePoolInternalServerError'' rs cn
      else Inl (oa_NewAPIError oa (''['' @ route @ ''] createOrUpdateNodePool'') rs (rs_Code rs)))"

definition CreateOrUpdateNodePool_operation :: "'q openapi \<Rightarrow> create_or_update_node_pool_params \<Rightarrow> auth_info \<Rightarrow> 'q client_operation" where
  "CreateOrUpdateNodePool_operation oa p authInfo =
     \<lparr>op_ID = ''createOrUpdateNodePool'', op_Method = ''PUT'',
      op_PathPattern = ''/kubernetes-clusters/{cluster_id}/node-pools/{node_pool_name}'',
      op_ProducesMediaTypes = [''application/json''], op_ConsumesMediaTypes = [''application/json''],
      op_Schemes = [''https''], op_Params = CreateOrUpdateNodePool_WriteToRequest oa p,
      op_Reader = CreateOrUpdateNodePool_ReadResponse oa, op_AuthInfo = authInfo\<rparr>"

definition CreateOrUpdateNodePool :: "'q openapi \<Rightarrow> ('w, 'q) transport \<Rightarrow> create_or_update_node_pool_params option \<Rightarrow> auth_info \<Rightarrow> ('w, pool_model) io" where
  "CreateOrUpdateNodePool oa tr params authInfo =
     (let p = (case params of None \<Rightarrow> NewCreateOrUpdateNodePoolParams oa | Some p \<Rightarrow> p) in
      bindE (tr (CreateOrUpdateNodePool_operation oa p authInfo)) (\<lambda>result. case result of CreateOrUpdateNodePoolOK r \<Rightarrow> ret r | _ \<Rightarrow> unexpected_success ''createOrUpdateNodePool''))"

interpretation create_or_update_node_pool: api_operation CreateOrUpdateNodePool NewCreateOrUpdateNodePoolParams CreateOrUpdateNodePool_operation
    "\<lambda>x. case x of CreateOrUpdateNodePoolOK r \<Rightarrow> Some r | _ \<Rightarrow> None" 200
  by unfold_locales
    (auto simp: CreateOrUpdateNodePool_def CreateOrUpdateNodePool_operation_def CreateOrUpdateNodePool_ReadResponse_def reading split: api_result.splits outcome.splits prod.splits if_splits)

record delete_node_pool_params =
  dpp_timeout :: int
  dpp_ClusterID :: string
  dpp_NodePoolName :: string

definition NewDeleteNodePoolParams :: "'q openapi \<Rightarrow> delete_node_pool_params" where
  "NewDeleteNodePoolParams oa = \<lparr>dpp_timeout = oa_DefaultTimeout oa, dpp_ClusterID = [], dpp_NodePoolName = []\<rparr>"

definition DeleteNodePool_WriteToRequest :: "'q openapi \<Rightarrow> delete_node_pool_params \<Rightarrow> 'q \<Rightarrow> go_error + 'q" where
  "DeleteNodePool_WriteToRequest oa p = writes
     [rq_SetTimeout (oa_request oa) (dpp_timeout p), rq_SetPathParam (oa_request oa) ''cluster_id'' (dpp_ClusterID p),
      rq_SetPathParam (oa_request oa) ''node_pool_name'' (dpp_NodePoolName p)]"

definition DeleteNodePool_ReadResponse :: "'q openapi \<Rightarrow> client_response \<Rightarrow> consumer \<Rightarrow> go_error + api_result" where
  "DeleteNodePool_ReadResponse oa rs cn =
     (let route = ''DELETE /kubernetes-clusters/{cluster_id}/node-pools/{node_pool_name}'' in
      if rs_Code rs = 204 then Inr DeleteNodePoolNoContent
      else if rs_Code rs = 400 then payload_error oa route 400 ''deleteNodePoolBadRequest'' rs cn
      else if rs_Code rs = 401 then bare_error route 401 ''deleteNodePoolUnauthorized''
      else if rs_Code rs = 403 then bare_error route 403 ''deleteNodePoolForbidden''
      else if rs_Code rs = 404 then bare_error route 404 ''deleteNodePoolNotFound''
      else if rs_Code rs = 500 then payload_error oa route 500 ''deleteNodePoolInternalServerError'' rs cn
      else Inl (oa_NewAPIError oa (''['' @ route @ ''] deleteNodePool'') rs (rs_Code rs)))"

definition DeleteNodePool_operation :: "'q openapi \<Rightarrow> delete_node_pool_params \<Rightarrow> auth_info \<Rightarrow> 'q client_operation" where
  "DeleteNodePool_operation oa p authInfo =
     \<lparr>op_ID = ''deleteNodePool'', op_Method = ''DELETE'',
      op_PathPattern = ''/kubernetes-clusters/{cluster_id}/node-pools/{node_pool_name}'',
      op_ProducesMediaTypes = [''application/json''], op_ConsumesMediaTypes = [''application/json''],
      op_Schemes = [''https''], op_Params = DeleteNodePool_WriteToRequest oa p,
      op_Reader = DeleteNodePool_ReadResponse oa, op_AuthInfo = authInfo\<rparr>"

definition DeleteNodePool :: "'q openapi \<Rightarrow> ('w, 'q) transport \<Rightarrow> delete_node_pool_params option \<Rightarrow> auth_info \<Rightarrow> ('w, unit) io" where
  "DeleteNodePool oa tr params authInfo =
     (let p = (case params of None \<Rightarrow> NewDeleteNodePoolParams oa | Some p \<Rightarrow> p) in
      bindE (tr (DeleteNodePool_operation oa p authInfo)) (\<lambda>result. case result of DeleteNodePoolNoContent \<Rightarrow> ret () | _ \<Rightarrow> unexpected_success ''deleteNodePool''))"

interpretation delete_node_pool: api_operation DeleteNodePool NewDeleteNodePoolParams DeleteNodePool_operation
    "\<lambda>x. case x of DeleteNodePoolNoContent \<Rightarrow> Some () | _ \<Rightarrow> None" 204
  by unfold_locales
    (auto simp: DeleteNodePool_def DeleteNodePool_operation_def DeleteNodePool_ReadResponse_def reading split: api_result.splits outcome.splits prod.splits if_splits)

record list_node_pools_params =
  lnp_timeout :: int
  lnp_ClusterID :: string

definition NewListNodePoolsParams :: "'q openapi \<Rightarrow> list_node_pools_params" where
  "NewListNodePoolsParams oa = \<lparr>lnp_timeout = oa_DefaultTimeout oa, lnp_ClusterID = []\<rparr>"

definition ListNodePools_WriteToRequest :: "'q openapi \<Rightarrow> list_node_pools_params \<Rightarrow> 'q \<Rightarrow> go_error + 'q" where
  "ListNodePools_WriteToRequest oa p = writes
     [rq_SetTimeout (oa_request oa) (lnp_timeout p), rq_SetPathParam (oa_request oa) ''cluster_id'' (lnp_ClusterID p)]"

definition ListNodePools_ReadResponse :: "'q openapi \<Rightarrow> client_response \<Rightarrow> consumer \<Rightarrow> go_error + api_result" where
  "ListNodePools_ReadResponse oa rs cn =
     (let route = ''GET /kubernetes-clusters/{cluster_id}/node-pools'' in
      if rs_Code rs = 200 then map_sum id ListNodePoolsOK (read_payload (cn_NodePools cn (rs_Body rs)))
      else if rs_Code rs = 401 then bare_error route 401 ''listNodePoolsUnauthorized''
      else if rs_Code rs = 403 then bare_error route 403 ''listNodePoolsForbidden''
      else if rs_Code rs = 500 then payload_error oa route 500 ''listNodePoolsInternalServerError'' rs cn
      else Inl (oa_NewAPIError oa (''['' @ route @ ''] listNodePools'') rs (rs_Code rs)))"

definition ListNodePools_operation :: "'q openapi \<Rightarrow> list_node_pools_params \<Rightarrow> auth_info \<Rightarrow> 'q client_operation" where
  "ListNodePools_operation oa p authInfo =
     \<lparr>op_ID = ''listNodePools'', op_Method = ''GET'',
      op_PathPattern = ''/kubernetes-clusters/{cluster_id}/node-pools'',
      op_ProducesMediaTypes = [''application/json''], op_ConsumesMediaTypes = [''application/json''],
      op_Schemes = [''https''], op_Params = ListNodePools_WriteToRequest oa p,
      op_Reader = ListNodePools_ReadResponse oa, op_AuthInfo = authInfo\<rparr>"

definition ListNodePools :: "'q openapi \<Rightarrow> ('w, 'q) transport \<Rightarrow> list_node_pools_params option \<Rightarrow> auth_info \<Rightarrow> ('w, pool_model option list) io" where
  "ListNodePools oa tr params authInfo =
     (let p = (case params of None \<Rightarrow> NewListNodePoolsParams oa | Some p \<Rightarrow> p) in
      bindE (tr (ListNodePools_operation oa p authInfo)) (\<lambda>result. case result of ListNodePoolsOK r \<Rightarrow> ret r | _ \<Rightarrow> unexpected_success ''listNodePools''))"

interpretation list_node_pools: api_operation ListNodePools NewListNodePoolsParams ListNodePools_operation
    "\<lambda>x. case x of ListNodePoolsOK r \<Rightarrow> Some r | _ \<Rightarrow> None" 200
  by unfold_locales
    (auto simp: ListNodePools_def ListNodePools_operation_def ListNodePools_ReadResponse_def reading split: api_result.splits outcome.splits prod.splits if_splits)

record update_node_pool_params =
  unp_timeout :: int
  unp_ClusterID :: string
  unp_NodePool :: "pool_update option"
  unp_NodePoolName :: string

definition NewUpdateNodePoolParams :: "'q openapi \<Rightarrow> update_node_pool_params" where
  "NewUpdateNodePoolParams oa = \<lparr>unp_timeout = oa_DefaultTimeout oa, unp_ClusterID = [], unp_NodePool = None, unp_NodePoolName = []\<rparr>"

definition UpdateNodePool_WriteToRequest :: "'q openapi \<Rightarrow> update_node_pool_params \<Rightarrow> 'q \<Rightarrow> go_error + 'q" where
  "UpdateNodePool_WriteToRequest oa p = writes
     [rq_SetTimeout (oa_request oa) (unp_timeout p), rq_SetPathParam (oa_request oa) ''cluster_id'' (unp_ClusterID p),
      body_of oa (map_option NodePoolUpdate (unp_NodePool p)),
      rq_SetPathParam (oa_request oa) ''node_pool_name'' (unp_NodePoolName p)]"

definition UpdateNodePool_ReadResponse :: "'q openapi \<Rightarrow> client_response \<Rightarrow> consumer \<Rightarrow> go_error + api_result" where
  "UpdateNodePool_ReadResponse oa rs cn =
     (let route = ''PATCH /kubernetes-clusters/{cluster_id}/node-pools/{node_pool_name}'' in
      if rs_Code rs = 200 then map_sum id UpdateNodePoolOK (read_payload (cn_NodePool cn (rs_Body rs)))
      else if rs_Code rs = 400 then payload_error oa route 400 ''updateNodePoolBadRequest'' rs cn
      else if rs_Code rs = 401 then bare_error route 401 ''updateNodePoolUnauthorized''
      else if rs_Code rs = 403 then bare_error route 403 ''updateNodePoolForbidden''
      else if rs_Code rs = 500 then payload_error oa route 500 ''updateNodePoolInternalServerError'' rs cn
      else Inl (oa_NewAPIError oa (''['' @ route @ ''] updateNodePool'') rs (rs_Code rs)))"

definition UpdateNodePool_operation :: "'q openapi \<Rightarrow> update_node_pool_params \<Rightarrow> auth_info \<Rightarrow> 'q client_operation" where
  "UpdateNodePool_operation oa p authInfo =
     \<lparr>op_ID = ''updateNodePool'', op_Method = ''PATCH'',
      op_PathPattern = ''/kubernetes-clusters/{cluster_id}/node-pools/{node_pool_name}'',
      op_ProducesMediaTypes = [''application/json''], op_ConsumesMediaTypes = [''application/json''],
      op_Schemes = [''https''], op_Params = UpdateNodePool_WriteToRequest oa p,
      op_Reader = UpdateNodePool_ReadResponse oa, op_AuthInfo = authInfo\<rparr>"

definition UpdateNodePool :: "'q openapi \<Rightarrow> ('w, 'q) transport \<Rightarrow> update_node_pool_params option \<Rightarrow> auth_info \<Rightarrow> ('w, pool_model) io" where
  "UpdateNodePool oa tr params authInfo =
     (let p = (case params of None \<Rightarrow> NewUpdateNodePoolParams oa | Some p \<Rightarrow> p) in
      bindE (tr (UpdateNodePool_operation oa p authInfo)) (\<lambda>result. case result of UpdateNodePoolOK r \<Rightarrow> ret r | _ \<Rightarrow> unexpected_success ''updateNodePool''))"

interpretation update_node_pool: api_operation UpdateNodePool NewUpdateNodePoolParams UpdateNodePool_operation
    "\<lambda>x. case x of UpdateNodePoolOK r \<Rightarrow> Some r | _ \<Rightarrow> None" 200
  by unfold_locales
    (auto simp: UpdateNodePool_def UpdateNodePool_operation_def UpdateNodePool_ReadResponse_def reading split: api_result.splits outcome.splits prod.splits if_splits)

section \<open>Config items of node pools\<close>

record add_or_update_node_pool_config_item_params =
  nip_timeout :: int
  nip_ClusterID :: string
  nip_ConfigKey :: string
  nip_NodePoolName :: string
  nip_Value :: "string option option"

definition NewAddOrUpdateNodePoolConfigItemParams :: "'q openapi \<Rightarrow> add_or_update_node_pool_config_item_params" where
  "NewAddOrUpdateNodePoolConfigItemParams oa = \<lparr>nip_timeout = oa_DefaultTimeout oa, nip_ClusterID = [], nip_ConfigKey = [], nip_NodePoolName = [], nip_Value = None\<rparr>"

definition AddOrUpdateNodePoolConfigItem_WriteToRequest :: "'q openapi \<Rightarrow> add_or_update_node_pool_config_item_params \<Rightarrow> 'q \<Rightarrow> go_error + 'q" where
  "AddOrUpdateNodePoolConfigItem_WriteToRequest oa p = writes
     [rq_SetTimeout (oa_request oa) (nip_timeout p), rq_SetPathParam (oa_request oa) ''cluster_id'' (nip_ClusterID p),
      rq_SetPathParam (oa_request oa) ''config_key'' (nip_ConfigKey p),
      rq_SetPathParam (oa_request oa) ''node_pool_name'' (nip_NodePoolName p),
      body_of oa (map_option ConfigValue (nip_Value p))]"

definition AddOrUpdateNodePoolConfigItem_ReadResponse :: "'q openapi \<Rightarrow> client_response \<Rightarrow> consumer \<Rightarrow> go_error + api_result" where
  "AddOrUpdateNodePoolConfigItem_ReadResponse oa rs cn =
     (let route = ''PUT /kubernetes-clusters/{cluster_id}/node-pools/{node_pool_name}/config-items/{config_key}'' in
      if rs_Code rs = 200 then map_sum id AddOrUpdateNodePoolConfigItemOK (read_payload (cn_ConfigValue cn (rs_Body rs)))
      else if rs_Code rs = 400 then payload_error oa route 400 ''addOrUpdateNodePoolConfigItemBadRequest'' rs cn
      else if rs_Code rs = 401 then bare_error route 401 ''addOrUpdateNodePoolConfigItemUnauthorized''
      else if rs_Code rs = 403 then bare_error route 403 ''addOrUpdateNodePoolConfigItemForbidden''
      else if rs_Code rs = 500 then payload_error oa route 500 ''addOrUpdateNodePoolConfigItemInternalServerError'' rs cn
      else Inl (oa_NewAPIError oa (''['' @ route @ ''] addOrUpdateNodePoolConfigItem'') rs (rs_Code rs)))"

definition AddOrUpdateNodePoolConfigItem_operation :: "'q openapi \<Rightarrow> add_or_update_node_pool_config_item_params \<Rightarrow> auth_info \<Rightarrow> 'q client_operation" where
  "AddOrUpdateNodePoolConfigItem_operation oa p authInfo =
     \<lparr>op_ID = ''addOrUpdateNodePoolConfigItem'', op_Method = ''PUT'',
      op_PathPattern = ''/kubernetes-clusters/{cluster_id}/node-pools/{node_pool_name}/config-items/{config_key}'',
      op_ProducesMediaTypes = [''application/json''], op_ConsumesMediaTypes = [''application/json''],
      op_Schemes = [''https''], op_Params = AddOrUpdateNodePoolConfigItem_WriteToRequest oa p,
      op_Reader = AddOrUpdateNodePoolConfigItem_ReadResponse oa, op_AuthInfo = authInfo\<rparr>"

definition AddOrUpdateNodePoolConfigItem :: "'q openapi \<Rightarrow> ('w, 'q) transport \<Rightarrow> add_or_update_node_pool_config_item_params option \<Rightarrow> auth_info \<Rightarrow> ('w, string option) io" where
  "AddOrUpdateNodePoolConfigItem oa tr params authInfo =
     (let p = (case params of None \<Rightarrow> NewAddOrUpdateNodePoolConfigItemParams oa | Some p \<Rightarrow> p) in
      bindE (tr (AddOrUpdateNodePoolConfigItem_operation oa p authInfo)) (\<lambda>result. case result of AddOrUpdateNodePoolConfigItemOK r \<Rightarrow> ret r | _ \<Rightarrow> unexpected_success ''addOrUpdateNodePoolConfigItem''))"

interpretation add_or_update_node_pool_config_item: api_operation AddOrUpdateNodePoolConfigItem NewAddOrUpdateNodePoolConfigItemParams AddOrUpdateNodePoolConfigItem_operation
    "\<lambda>x. case x of AddOrUpdateNodePoolConfigItemOK r \<Rightarrow> Some r | _ \<Rightarrow> None" 200
  by unfold_locales
    (auto simp: AddOrUpdateNodePoolConfigItem_def AddOrUpdateNodePoolConfigItem_operation_def AddOrUpdateNodePoolConfigItem_ReadResponse_def reading split: api_result.splits outcome.splits prod.splits if_splits)

record delete_node_pool_config_item_params =
  dnp_timeout :: int
  dnp_ClusterID :: string
  dnp_ConfigKey :: string
  dnp_NodePoolName :: string

definition NewDeleteNodePoolConfigItemParams :: "'q openapi \<Rightarrow> delete_node_pool_config_item_params" where
  "NewDeleteNodePoolConfigItemParams oa = \<lparr>dnp_timeout = oa_DefaultTimeout oa, dnp_ClusterID = [], dnp_ConfigKey = [], dnp_NodePoolName = []\<rparr>"

definition DeleteNodePoolConfigItem_WriteToRequest :: "'q openapi \<Rightarrow> delete_node_pool_config_item_params \<Rightarrow> 'q \<Rightarrow> go_error + 'q" where
  "DeleteNodePoolConfigItem_WriteToRequest oa p = writes
     [rq_SetTimeout (oa_request oa) (dnp_timeout p), rq_SetPathParam (oa_request oa) ''cluster_id'' (dnp_ClusterID p),
      rq_SetPathParam (oa_request oa) ''config_key'' (dnp_ConfigKey p),
      rq_SetPathParam (oa_request oa) ''node_pool_name'' (dnp_NodePoolName p)]"

definition DeleteNodePoolConfigItem_ReadResponse :: "'q openapi \<Rightarrow> client_response \<Rightarrow> consumer \<Rightarrow> go_error + api_result" where
  "DeleteNodePoolConfigItem_ReadResponse oa rs cn =
     (let route = ''DELETE /kubernetes-clusters/{cluster_id}/node-pools/{node_pool_name}/config-items/{config_key}'' in
      if rs_Code rs = 204 then Inr DeleteNodePoolConfigItemNoContent
      else if rs_Code rs = 400 then payload_error oa route 400 ''deleteNodePoolConfigItemBadRequest'' rs cn
      else if rs_Code rs = 401 then bare_error route 401 ''deleteNodePoolConfigItemUnauthorized''
      else if rs_Code rs = 403 then bare_error route 403 ''deleteNodePoolConfigItemForbidden''
      else if rs_Code rs = 404 then bare_error route 404 ''deleteNodePoolConfigItemNotFound''
      else if rs_Code rs = 500 then payload_error oa route 500 ''deleteNodePoolConfigItemInternalServerError'' rs cn
      else Inl (oa_NewAPIError oa (''['' @ route @ ''] deleteNodePoolConfigItem'') rs (rs_Code rs)))"

definition DeleteNodePoolConfigItem_operation :: "'q openapi \<Rightarrow> delete_node_pool_config_item_params \<Rightarrow> auth_info \<Rightarrow> 'q client_operation" where
  "DeleteNodePoolConfigItem_operation oa p authInfo =
     \<lparr>op_ID = ''deleteNodePoolConfigItem'', op_Method = ''DELETE'',
      op_PathPattern = ''/kubernetes-clusters/{cluster_id}/node-pools/{node_pool_name}/config-items/{config_key}'',
      op_ProducesMediaTypes = [''application/json''], op_ConsumesMediaTypes = [''application/json''],
      op_Schemes = [''https''], op_Params = DeleteNodePoolConfigItem_WriteToRequest oa p,
      op_Reader = DeleteNodePoolConfigItem_ReadResponse oa, op_AuthInfo = authInfo\<rparr>"

definition DeleteNodePoolConfigItem :: "'q openapi \<Rightarrow> ('w, 'q) transport \<Rightarrow> delete_node_pool_config_item_params option \<Rightarrow> auth_info \<Rightarrow> ('w, unit) io" where
  "DeleteNodePoolConfigItem oa tr params authInfo =
     (let p = (case params of None \<Rightarrow> NewDeleteNodePoolConfigItemParams oa | Some p \<Rightarrow> p) in
      bindE (tr (DeleteNodePoolConfigItem_operation oa p authInfo)) (\<lambda>result. case result of DeleteNodePoolConfigItemNoContent \<Rightarrow> ret () | _ \<Rightarrow> unexpected_success ''deleteNodePoolConfigItem''))"

interpretation delete_node_pool_config_item: api_operation DeleteNodePoolConfigItem NewDeleteNodePoolConfigItemParams DeleteNodePoolConfigItem_operation
    "\<lambda>x. case x of DeleteNodePoolConfigItemNoContent \<Rightarrow> Some () | _ \<Rightarrow> None" 204
  by unfold_locales
    (auto simp: DeleteNodePoolConfigItem_def DeleteNodePoolConfigItem_operation_def DeleteNodePoolConfigItem_ReadResponse_def reading split: api_result.splits outcome.splits prod.splits if_splits)

section \<open>Paths\<close>

text \<open>A request that keeps what is written to it, and the names in the pattern of a path.\<close>

datatype written = Timeout int | QueryParam string string | PathParam string string | BodyParam body_param

definition recorder :: "written list client_request" where
  "recorder = \<lparr>rq_SetTimeout = (\<lambda>t q. Inr (q @ [Timeout t])), rq_SetQueryParam = (\<lambda>n v q. Inr (q @ [QueryParam n v])),
     rq_SetPathParam = (\<lambda>n v q. Inr (q @ [PathParam n v])), rq_SetBodyParam = (\<lambda>b q. Inr (q @ [BodyParam b]))\<rparr>"

fun path_names :: "written list \<Rightarrow> string list" where
  "path_names [] = []"
| "path_names (PathParam n v # ws) = n # path_names ws"
| "path_names (_ # ws) = path_names ws"

fun placeholders :: "string \<Rightarrow> string list" where
  "placeholders [] = []"
| "placeholders (c # s) = (if c = CHR ''{'' then takeWhile (\<lambda>d. d \<noteq> CHR ''}'') s # placeholders s else placeholders s)"

definition fills_path :: "written list client_operation \<Rightarrow> bool" where
  "fills_path op \<longleftrightarrow> (case op_Params op [] of
     Inl _ \<Rightarrow> False
   | Inr q \<Rightarrow> distinct (path_names q) \<and> set (path_names q) = set (placeholders (op_PathPattern op)))"

lemma path_names_append [simp]: "path_names (xs @ ys) = path_names xs @ path_names ys"
  by (induction xs rule: path_names.induct) auto

lemma recorded:
  assumes "oa_request oa = recorder"
  shows "rq_SetTimeout (oa_request oa) t q = Inr (q @ [Timeout t])"
    "rq_SetPathParam (oa_request oa) n v q = Inr (q @ [PathParam n v])"
    "\<exists>q'. body_of oa b q = Inr q' \<and> path_names q' = path_names q"
    "\<exists>q'. query_param oa n s q = Inr q' \<and> path_names q' = path_names q"
  using assms by (auto simp: recorder_def body_of_def query_param_def split: option.splits)

lemma recorded_query: "oa_request oa = recorder \<Longrightarrow> \<exists>q'. query_params oa ps q = Inr q' \<and> path_names q' = path_names q"
proof (induction ps arbitrary: q)
  case (Cons p ps)
  obtain n v where p: "p = (n, v)" by (cases p)
  from recorded(4) [OF Cons.prems, of n v q] obtain q1 where "query_param oa n v q = Inr q1" "path_names q1 = path_names q" by blast
  with Cons.IH [OF Cons.prems, of q1] p show ?case by simp
qed simp

text \<open>The names of the parameters of the path, in the order in which the parts of a request set them.\<close>

definition sets_path :: "string list \<Rightarrow> (written list \<Rightarrow> go_error + written list) \<Rightarrow> bool" where
  "sets_path names f \<longleftrightarrow> (\<forall>q. \<exists>q'. f q = Inr q' \<and> path_names q' = path_names q @ names)"

lemma sets_path_parts:
  assumes "oa_request oa = recorder"
  shows "sets_path [] (rq_SetTimeout (oa_request oa) t)" "sets_path [n] (rq_SetPathParam (oa_request oa) n v)"
    "sets_path [] (body_of oa b)" "sets_path [] (query_param oa n s)" "sets_path [] (query_params oa ps)"
  using recorded [OF assms] recorded_query [OF assms] by (simp_all add: sets_path_def)

lemma sets_path_writes: "sets_path [] (writes [])"
  "sets_path xs f \<Longrightarrow> sets_path ys (writes fs) \<Longrightarrow> sets_path (xs @ ys) (writes (f # fs))"
proof -
  assume f: "sets_path xs f" and fs: "sets_path ys (writes fs)"
  show "sets_path (xs @ ys) (writes (f # fs))"
    unfolding sets_path_def
  proof
    fix q
    from f obtain q1 where q1: "f q = Inr q1" "path_names q1 = path_names q @ xs" unfolding sets_path_def by blast
    from fs obtain q2 where "writes fs q1 = Inr q2" "path_names q2 = path_names q1 @ ys" unfolding sets_path_def by blast
    with q1 show "\<exists>q'. writes (f # fs) q = Inr q' \<and> path_names q' = path_names q @ (xs @ ys)" by simp
  qed
qed (simp add: sets_path_def)

lemma fills_path_intro:
  "sets_path names (op_Params op) \<Longrightarrow> distinct names \<Longrightarrow> set names = set (placeholders (op_PathPattern op)) \<Longrightarrow> fills_path op"
  by (auto simp: fills_path_def sets_path_def dest: spec [of _ "[]"])

lemmas request_defs = ListClusters_operation_def UpdateCluster_operation_def AddOrUpdateConfigItem_operation_def
  ListInfrastructureAccounts_operation_def CreateCluster_operation_def DeleteCluster_operation_def
  GetCluster_operation_def DeleteConfigItem_operation_def CreateInfrastructureAccount_operation_def
  GetInfrastructureAccount_operation_def UpdateInfrastructureAccount_operation_def
  CreateOrUpdateNodePool_operation_def DeleteNodePool_operation_def ListNodePools_operation_def
  UpdateNodePool_operation_def AddOrUpdateNodePoolConfigItem_operation_def DeleteNodePoolConfigItem_operation_def
  ListClusters_WriteToRequest_def [abs_def] UpdateCluster_WriteToRequest_def [abs_def]
  AddOrUpdateConfigItem_WriteToRequest_def [abs_def] ListInfrastructureAccounts_WriteToRequest_def [abs_def]
  CreateCluster_WriteToRequest_def [abs_def] DeleteCluster_WriteToRequest_def [abs_def]
  GetCluster_WriteToRequest_def [abs_def] DeleteConfigItem_WriteToRequest_def [abs_def]
  CreateInfrastructureAccount_WriteToRequest_def [abs_def] GetInfrastructureAccount_WriteToRequest_def [abs_def]
  UpdateInfrastructureAccount_WriteToRequest_def [abs_def] CreateOrUpdateNodePool_WriteToRequest_def [abs_def]
  DeleteNodePool_WriteToRequest_def [abs_def] ListNodePools_WriteToRequest_def [abs_def]
  UpdateNodePool_WriteToRequest_def [abs_def] AddOrUpdateNodePoolConfigItem_WriteToRequest_def [abs_def]
  DeleteNodePoolConfigItem_WriteToRequest_def [abs_def]

text \<open>
  Every request of the client sets exactly the parameters that the pattern of its path names, each of them
  once, whatever the values and whatever else the request has.
\<close>

theorem requests_fill_paths:
  assumes "oa_request oa = recorder"
  shows "fills_path (ListClusters_operation oa p0 a)"
    "fills_path (UpdateCluster_operation oa p1 a)"
    "fills_path (AddOrUpdateConfigItem_operation oa p2 a)"
    "fills_path (ListInfrastructureAccounts_operation oa p3 a)"
    "fills_path (CreateCluster_operation oa p4 a)"
    "fills_path (DeleteCluster_operation oa p5 a)"
    "fills_path (GetCluster_operation oa p6 a)"
    "fills_path (DeleteConfigItem_operation oa p7 a)"
    "fills_path (CreateInfrastructureAccount_operation oa p8 a)"
    "fills_path (GetInfrastructureAccount_operation oa p9 a)"
    "fills_path (UpdateInfrastructureAccount_operation oa p10 a)"
    "fills_path (CreateOrUpdateNodePool_operation oa p11 a)"
    "fills_path (DeleteNodePool_operation oa p12 a)"
    "fills_path (ListNodePools_operation oa p13 a)"
    "fills_path (UpdateNodePool_operation oa p14 a)"
    "fills_path (AddOrUpdateNodePoolConfigItem_operation oa p15 a)"
    "fills_path (DeleteNodePoolConfigItem_operation oa p16 a)"
  by (unfold request_defs client_operation.select_convs,
      (rule fills_path_intro, unfold client_operation.select_convs,
        (rule sets_path_writes sets_path_parts [OF assms])+, simp, simp add: insert_commute)+)

end
