(* ===== verification/Model_JSON.thy ===== *)
theory Model_JSON
  imports Registry
begin

text \<open>
  How a problem of a cluster status is read from and written as JSON
  (\<open>pkg/cluster-registry/models/cluster_status.go\<close>): the only model with JSON methods of its own, because
  it takes additional properties. Every listing decodes problems with \<open>UnmarshalJSON\<close>, and every status
  update encodes them with \<open>MarshalJSON\<close>. What \<open>encoding/json\<close> does with a struct, a map, a string and an
  integer is modelled on JSON values; their text is not. Joining two objects is a function of go-openapi and
  a parameter.
\<close>

section \<open>JSON values\<close>

text \<open>The members of an object in the order of the text; a name may occur more than once.\<close>

datatype json =
    JNull
  | JBool bool
  | JNumber string
  | JString string
  | JArray "json list"
  | JObject "(string \<times> json) list"

fun json_kind :: "json \<Rightarrow> string" where
  "json_kind JNull = ''null''"
| "json_kind (JBool _) = ''bool''"
| "json_kind (JNumber _) = ''number''"
| "json_kind (JString _) = ''string''"
| "json_kind (JArray _) = ''array''"
| "json_kind (JObject _) = ''object''"

definition type_error :: "string \<Rightarrow> string \<Rightarrow> string \<Rightarrow> go_error" where
  "type_error what target type = Errorf (''json: cannot unmarshal '' @ what @ '' into Go '' @ target @ '' of type '' @ type)"

text \<open>
  Text that is not valid UTF-8: the encoder puts the replacement character for every byte that does not
  start a character.
\<close>

definition byte_in :: "nat \<Rightarrow> nat \<Rightarrow> char \<Rightarrow> bool" where
  "byte_in lo hi c \<longleftrightarrow> lo \<le> of_char c \<and> of_char c \<le> hi"

abbreviation continues :: "char \<Rightarrow> bool" where
  "continues \<equiv> byte_in 128 191"

text \<open>The bounds of the second byte of a character, by the first one.\<close>

definition second_byte :: "char \<Rightarrow> char \<Rightarrow> bool" where
  "second_byte a b \<longleftrightarrow>
     byte_in (if byte_in 224 224 a then 160 else if byte_in 240 240 a then 144 else 128)
       (if byte_in 237 237 a then 159 else if byte_in 244 244 a then 143 else 191) b"

definition rune_length :: "string \<Rightarrow> nat" where
  "rune_length s =
     (if s = [] then 0
      else if byte_in 0 127 (s ! 0) then 1
      else if byte_in 194 223 (s ! 0) \<and> 2 \<le> length s \<and> second_byte (s ! 0) (s ! 1) then 2
      else if byte_in 224 239 (s ! 0) \<and> 3 \<le> length s \<and> second_byte (s ! 0) (s ! 1) \<and> continues (s ! 2) then 3
      else if byte_in 240 244 (s ! 0) \<and> 4 \<le> length s \<and> second_byte (s ! 0) (s ! 1) \<and> continues (s ! 2)
          \<and> continues (s ! 3) then 4
      else 0)"

definition replacement_rune :: string where
  "replacement_rune = map char_of [239, 191, 189 :: nat]"

function utf8_text :: "string \<Rightarrow> string" where
  "utf8_text [] = []"
| "utf8_text (c # s) =
     (let n = rune_length (c # s) in
      if n = 0 then replacement_rune @ utf8_text s
      else take n (c # s) @ utf8_text (drop n (c # s)))"
  by pat_completeness auto
termination by (relation "measure length") auto

definition valid_utf8 :: "string \<Rightarrow> bool" where
  "valid_utf8 s \<longleftrightarrow> utf8_text s = s"

text \<open>
  The name of a member selects the field of exactly this name, and otherwise the field whose name is the
  same up to case. Besides the letters of ASCII two characters fold to one: the long s and the Kelvin sign.
\<close>

fun fold_name :: "string \<Rightarrow> string" where
  "fold_name (a # b # c # s) =
     (if a = char_of (226 :: nat) \<and> b = char_of (132 :: nat) \<and> c = char_of (170 :: nat) then CHR ''K'' # fold_name s
      else if a = char_of (197 :: nat) \<and> b = char_of (191 :: nat) then CHR ''S'' # fold_name (c # s)
      else (if byte_in 97 122 a then char_of (of_char a - 32 :: nat) else a) # fold_name (b # c # s))"
| "fold_name [a, b] =
     (if a = char_of (197 :: nat) \<and> b = char_of (191 :: nat) then ''S''
      else (if byte_in 97 122 a then char_of (of_char a - 32 :: nat) else a) # fold_name [b])"
| "fold_name [a] = [if byte_in 97 122 a then char_of (of_char a - 32 :: nat) else a]"
| "fold_name [] = []"

definition field_named :: "string list \<Rightarrow> string \<Rightarrow> string option" where
  "field_named names key =
     (if key \<in> set names then Some key else List.find (\<lambda>f. fold_name f = fold_name key) names)"

text \<open>Decoding into a field: null leaves a string and an integer as they are, and clears a pointer.\<close>

definition decode_string :: "string \<Rightarrow> json \<Rightarrow> string \<Rightarrow> go_error + string" where
  "decode_string field v old =
     (case v of
        JNull \<Rightarrow> Inr old
      | JString s \<Rightarrow> Inr s
      | _ \<Rightarrow> Inl (type_error (json_kind v) (''struct field .'' @ field) ''string''))"

definition decode_int32 :: "string \<Rightarrow> json \<Rightarrow> int \<Rightarrow> go_error + int" where
  "decode_int32 field v old =
     (case v of
        JNull \<Rightarrow> Inr old
      | JNumber n \<Rightarrow>
          (case parse_int64 n of
             Some i \<Rightarrow>
               if - (2 ^ 31) \<le> i \<and> i < 2 ^ 31 then Inr i
               else Inl (type_error (''number '' @ n) (''struct field .'' @ field) ''int32'')
           | None \<Rightarrow> Inl (type_error (''number '' @ n) (''struct field .'' @ field) ''int32''))
      | _ \<Rightarrow> Inl (type_error (json_kind v) (''struct field .'' @ field) ''int32''))"

definition decode_pointer :: "string \<Rightarrow> json \<Rightarrow> go_error + string option" where
  "decode_pointer field v =
     (case v of
        JNull \<Rightarrow> Inr None
      | JString s \<Rightarrow> Inr (Some s)
      | _ \<Rightarrow> Inl (type_error (json_kind v) (''struct field .'' @ field) ''string''))"

section \<open>Reading a problem\<close>

definition problem_fields :: "string list" where
  "problem_fields = [''detail'', ''instance'', ''status'', ''title'', ''type'']"

definition zero_problem :: problem_model where
  "zero_problem = \<lparr>qm_Detail = [], qm_Instance = [], qm_Status = 0, qm_Title = None, qm_Type = None,
     qm_ClusterStatusProblemsItems0 = []\<rparr>"

definition bind_member :: "string \<times> json \<Rightarrow> problem_model \<Rightarrow> go_error + problem_model" where
  "bind_member member p =
     (case field_named problem_fields (fst member) of
        None \<Rightarrow> Inr p
      | Some f \<Rightarrow>
          if f = ''detail'' then map_sum id (\<lambda>s. p\<lparr>qm_Detail := s\<rparr>) (decode_string f (snd member) (qm_Detail p))
          else if f = ''instance'' then map_sum id (\<lambda>s. p\<lparr>qm_Instance := s\<rparr>) (decode_string f (snd member) (qm_Instance p))
          else if f = ''status'' then map_sum id (\<lambda>i. p\<lparr>qm_Status := i\<rparr>) (decode_int32 f (snd member) (qm_Status p))
          else if f = ''title'' then map_sum id (\<lambda>s. p\<lparr>qm_Title := s\<rparr>) (decode_pointer f (snd member))
          else map_sum id (\<lambda>s. p\<lparr>qm_Type := s\<rparr>) (decode_pointer f (snd member)))"

fun bind_members :: "(string \<times> json) list \<Rightarrow> problem_model \<Rightarrow> go_error + problem_model" where
  "bind_members [] p = Inr p"
| "bind_members (m # ms) p = (case bind_member m p of Inl e \<Rightarrow> Inl e | Inr q \<Rightarrow> bind_members ms q)"

text \<open>Stage 1 binds the properties of the struct, stage 2 reads all of them into a map.\<close>

definition stage1 :: "json \<Rightarrow> go_error + problem_model" where
  "stage1 data =
     (case data of
        JObject ms \<Rightarrow> bind_members ms zero_problem
      | JNull \<Rightarrow> Inr zero_problem
      | _ \<Rightarrow> Inl (type_error (json_kind data) ''value'' ''struct''))"

definition stage2 :: "json \<Rightarrow> go_error + json gomap" where
  "stage2 data =
     (case data of
        JObject ms \<Rightarrow> Inr (fold (\<lambda>(k, v). m_put k v) ms [])
      | JNull \<Rightarrow> Inr []
      | _ \<Rightarrow> Inl (type_error (json_kind data) ''value'' ''map[string]json.RawMessage''))"

definition additional_string :: "json \<Rightarrow> go_error + string" where
  "additional_string v =
     (case v of JString s \<Rightarrow> Inr s | JNull \<Rightarrow> Inr [] | _ \<Rightarrow> Inl (type_error (json_kind v) ''value'' ''string''))"

fun stage3 :: "json gomap \<Rightarrow> string gomap \<Rightarrow> go_error + string gomap" where
  "stage3 [] result = Inr result"
| "stage3 ((k, v) # rest) result =
     (case additional_string v of Inl e \<Rightarrow> Inl e | Inr toadd \<Rightarrow> stage3 rest (m_put k toadd result))"

text \<open>The error the method returns and what it leaves in the problem it is called on.\<close>

definition UnmarshalJSON :: "problem_model \<Rightarrow> json \<Rightarrow> go_error option \<times> problem_model" where
  "UnmarshalJSON m data =
     (case stage1 data of
        Inl e \<Rightarrow> (Some e, m)
      | Inr rcv \<Rightarrow>
          (case stage2 data of
             Inl e \<Rightarrow> (Some e, rcv)
           | Inr properties \<Rightarrow>
               (let rest = m_del ''type'' (m_del ''title'' (m_del ''status'' (m_del ''instance'' (m_del ''detail'' properties)))) in
                if length rest > 0 then
                  (case stage3 rest [] of
                     Inl e \<Rightarrow> (Some e, rcv)
                   | Inr result \<Rightarrow> (None, rcv\<lparr>qm_ClusterStatusProblemsItems0 := result\<rparr>))
                else (None, rcv))))"

section \<open>Writing a problem\<close>

definition json_pointer :: "string option \<Rightarrow> json" where
  "json_pointer p = (case p of None \<Rightarrow> JNull | Some s \<Rightarrow> JString (utf8_text s))"

text \<open>The members of the struct: the fields with \<open>omitempty\<close> are left out when they are zero.\<close>

definition known_members :: "problem_model \<Rightarrow> (string \<times> json) list" where
  "known_members m =
     (if qm_Detail m = [] then [] else [(''detail'', JString (utf8_text (qm_Detail m)))])
     @ (if qm_Instance m = [] then [] else [(''instance'', JString (utf8_text (qm_Instance m)))])
     @ (if qm_Status m = 0 then [] else [(''status'', JNumber (int_str (qm_Status m)))])
     @ [(''title'', json_pointer (qm_Title m)), (''type'', json_pointer (qm_Type m))]"

definition key_before :: "string \<times> 'v \<Rightarrow> string \<times> 'v \<Rightarrow> bool" where
  "key_before a b \<longleftrightarrow> fst a < fst b"

interpretation key_order: choice key_before
  by unfold_locales (auto simp: key_before_def)

text \<open>A map is written with its keys in order.\<close>

definition map_members :: "string gomap \<Rightarrow> (string \<times> json) list" where
  "map_members additional = map (\<lambda>(k, v). (utf8_text k, JString (utf8_text v))) (sort_by key_before additional)"

definition MarshalJSON :: "(json \<Rightarrow> json \<Rightarrow> json) \<Rightarrow> problem_model \<Rightarrow> json" where
  "MarshalJSON concatJSON m =
     (let props = known_members m in
      if length (qm_ClusterStatusProblemsItems0 m) = 0 then JObject props
      else
        let additional = JObject (map_members (qm_ClusterStatusProblemsItems0 m)) in
        if props = [] then additional
        else concatJSON (JObject props) additional)"

text \<open>What the two methods rely on: two objects are joined to one with the members of both.\<close>

definition concatenates :: "(json \<Rightarrow> json \<Rightarrow> json) \<Rightarrow> bool" where
  "concatenates concatJSON \<longleftrightarrow> (\<forall>a b. concatJSON (JObject a) (JObject b) = JObject (a @ b))"

section \<open>Well-formed text\<close>

lemma rune_length_le: "rune_length s \<le> length s"
  by (auto simp: rune_length_def Suc_le_eq)

text \<open>The length of a character depends on its own bytes only.\<close>

lemma rune_length_cong:
  "rune_length s = n \<Longrightarrow> 0 < n \<Longrightarrow> n \<le> length t \<Longrightarrow> (\<And>i. i < n \<Longrightarrow> t ! i = s ! i) \<Longrightarrow> rune_length t = n"
  unfolding rune_length_def by (auto split: if_splits)

lemma rune_length_take:
  assumes "rune_length s = n" and "0 < n"
  shows "rune_length (take n s @ t) = n"
proof -
  have "n \<le> length s" using rune_length_le [of s] assms(1) by simp
  then show ?thesis by (intro rune_length_cong [OF assms]) (simp_all add: nth_append)
qed

lemma rune_length_replacement: "rune_length (replacement_rune @ t) = 3"
  using rune_length_take [of replacement_rune 3 t] by (simp add: rune_length_def replacement_rune_def byte_in_def second_byte_def)

lemma utf8_text_rune: "0 < rune_length s \<Longrightarrow> utf8_text s = take (rune_length s) s @ utf8_text (drop (rune_length s) s)"
  by (cases s) (auto simp: Let_def )

text \<open>What the encoder writes is valid, so that writing it again changes nothing.\<close>

lemma valid_utf8_text: "valid_utf8 (utf8_text s)"
proof (induction s rule: utf8_text.induct)
  case (2 c s)
  let ?n = "rune_length (c # s)"
  show ?case
  proof (cases "?n = 0")
    case True
    have "utf8_text (replacement_rune @ t) = replacement_rune @ utf8_text t" for t
      using utf8_text_rune [of "replacement_rune @ t"] by (simp add: rune_length_replacement) (simp add: replacement_rune_def)
    with 2(1) [OF refl True] True show ?thesis by (simp add: valid_utf8_def Let_def)
  next
    case False
    let ?t = "take ?n (c # s)"
    have "length ?t = ?n" using rune_length_le [of "c # s"] by simp
    moreover have "rune_length (?t @ t) = ?n" for t using rune_length_take [OF refl] False by blast
    ultimately have "utf8_text (?t @ t) = ?t @ utf8_text t" for t
      using utf8_text_rune [of "?t @ t"] False by (simp del: take_Suc_Cons)
    with 2(2) [OF refl False] False show ?thesis by (simp add: valid_utf8_def Let_def )
  qed
qed (simp add: valid_utf8_def)

lemma utf8_text_id [simp]: "valid_utf8 s \<Longrightarrow> utf8_text s = s"
  by (simp add: valid_utf8_def)

lemma valid_utf8_Nil [simp]: "valid_utf8 []"
  by (simp add: valid_utf8_def)

lemma rune_length_ascii: "byte_in 0 127 c \<Longrightarrow> rune_length (c # s) = 1"
  by (simp add: rune_length_def)

lemma valid_utf8_ascii: "list_all (byte_in 0 127) s \<Longrightarrow> valid_utf8 s"
  by (induction s) (simp_all add: valid_utf8_def Let_def rune_length_ascii )

lemma utf8_text_empty [simp]: "utf8_text s = [] \<longleftrightarrow> s = []"
proof (cases s)
  case (Cons c t)
  then show ?thesis by (auto simp: Let_def replacement_rune_def )
qed simp

section \<open>Reading what was written\<close>

lemma sort_by_Nil [simp]: "sort_by b xs = [] \<longleftrightarrow> xs = []"
  using mset_sort_by [of b xs] by (metis mset_zero_iff_right mset.simps(1))

lemma m_ok_sort_by: "m_ok xs \<Longrightarrow> m_ok (sort_by b xs)"
  unfolding m_ok_def by (metis mset_sort_by mset_map mset_eq_imp_distinct_iff)

lemma m_put_fresh: "m_ok (acc @ m # ms) \<Longrightarrow> m_put (fst m) (snd m) acc = acc @ [m]"
  by (induction acc) (auto simp: m_put_def m_ok_def)

lemma fold_put_fresh: "m_ok (acc @ ms) \<Longrightarrow> fold (\<lambda>(k, v). m_put k v) ms acc = acc @ ms"
proof (induction ms arbitrary: acc)
  case (Cons m ms)
  have "m_put (fst m) (snd m) acc = acc @ [m]" using m_put_fresh Cons.prems .
  moreover have "m_ok ((acc @ [m]) @ ms)" using Cons.prems by simp
  ultimately show ?case using Cons.IH [of "acc @ [m]"] by (simp add: case_prod_beta)
qed simp

text \<open>A name that selects no field of the struct, in whatever case it is written.\<close>

definition additional_name :: "string \<Rightarrow> bool" where
  "additional_name k \<longleftrightarrow> field_named problem_fields k = None"

lemma additional_name_foreign: "additional_name k \<Longrightarrow> k \<notin> set problem_fields"
  by (auto simp: additional_name_def field_named_def split: if_splits)

lemma bind_members_append:
  "bind_members (xs @ ys) p = (case bind_members xs p of Inl e \<Rightarrow> Inl e | Inr q \<Rightarrow> bind_members ys q)"
  by (induction xs arbitrary: p) (auto split: sum.splits)

lemma bind_members_additional: "list_all (additional_name \<circ> fst) ms \<Longrightarrow> bind_members ms p = Inr p"
  by (induction ms) (auto simp: bind_member_def additional_name_def)

lemma decode_pointer_written: "decode_pointer f (json_pointer p) = Inr (map_option utf8_text p)"
  by (simp add: decode_pointer_def json_pointer_def split: option.splits)

lemma decode_int32_written: "- (2 ^ 31) \<le> i \<Longrightarrow> i < 2 ^ 31 \<Longrightarrow> decode_int32 f (JNumber (int_str i)) old = Inr i"
  by (simp add: decode_int32_def parse_int64_int_str)

lemma field_named_known [simp]:
  "field_named problem_fields ''detail'' = Some ''detail''" "field_named problem_fields ''instance'' = Some ''instance''"
  "field_named problem_fields ''status'' = Some ''status''" "field_named problem_fields ''title'' = Some ''title''"
  "field_named problem_fields ''type'' = Some ''type''"
  by (simp_all add: field_named_def problem_fields_def)

text \<open>The known properties of a problem, with what is not valid text replaced.\<close>

definition written_problem :: "problem_model \<Rightarrow> problem_model" where
  "written_problem m = \<lparr>qm_Detail = utf8_text (qm_Detail m), qm_Instance = utf8_text (qm_Instance m), qm_Status = qm_Status m,
     qm_Title = map_option utf8_text (qm_Title m), qm_Type = map_option utf8_text (qm_Type m),
     qm_ClusterStatusProblemsItems0 = []\<rparr>"

lemma bind_known_members:
  assumes "- (2 ^ 31) \<le> qm_Status m" and "qm_Status m < 2 ^ 31"
  shows "bind_members (known_members m) zero_problem = Inr (written_problem m)"
  by (simp add: known_members_def zero_problem_def written_problem_def bind_member_def decode_string_def
      decode_pointer_written decode_int32_written [OF assms])

lemma set_problem_fields: "set problem_fields = {''detail'', ''instance'', ''status'', ''title'', ''type''}"
  by (simp add: problem_fields_def)

lemma known_names: "k \<in> set (map fst (known_members m)) \<Longrightarrow> k \<in> set problem_fields"
  by (auto simp: known_members_def problem_fields_def split: if_splits)

lemma known_distinct: "m_ok (known_members m)"
  by (simp add: known_members_def m_ok_def)

definition without_known :: "'v gomap \<Rightarrow> 'v gomap" where
  "without_known ms = filter (\<lambda>p. fst p \<notin> set problem_fields) ms"

lemma delete_known:
  "m_del ''type'' (m_del ''title'' (m_del ''status'' (m_del ''instance'' (m_del ''detail'' ms)))) = without_known ms"
  by (simp add: m_del_def without_known_def problem_fields_def conj_ac)

lemma stage3_strings:
  "m_ok (acc @ xs) \<Longrightarrow> stage3 (map (\<lambda>(k, v). (k, JString v)) xs) acc = Inr (acc @ xs)"
proof (induction xs arbitrary: acc)
  case (Cons x xs)
  have "m_put (fst x) (snd x) acc = acc @ [x]" using m_put_fresh Cons.prems .
  moreover have "m_ok ((acc @ [x]) @ xs)" using Cons.prems by simp
  ultimately show ?case using Cons.IH [of "acc @ [x]"] by (cases x) (simp add: additional_string_def)
qed simp

definition valid_pointer :: "string option \<Rightarrow> bool" where
  "valid_pointer p \<longleftrightarrow> (case p of None \<Rightarrow> True | Some s \<Rightarrow> valid_utf8 s)"

text \<open>
  The text of a problem that can be written and read again: valid text, a status of 32 bits, and
  additional properties whose names are different from those of the fields in more than their case.
\<close>

definition portable_problem :: "problem_model \<Rightarrow> bool" where
  "portable_problem m \<longleftrightarrow>
     valid_utf8 (qm_Detail m) \<and> valid_utf8 (qm_Instance m) \<and> valid_pointer (qm_Title m) \<and> valid_pointer (qm_Type m)
     \<and> - (2 ^ 31) \<le> qm_Status m \<and> qm_Status m < 2 ^ 31
     \<and> m_ok (qm_ClusterStatusProblemsItems0 m)
     \<and> list_all (\<lambda>(k, v). additional_name k \<and> valid_utf8 k \<and> valid_utf8 v) (qm_ClusterStatusProblemsItems0 m)"

lemma written_portable: "portable_problem m \<Longrightarrow> written_problem m = m\<lparr>qm_ClusterStatusProblemsItems0 := []\<rparr>"
  by (cases "qm_Title m"; cases "qm_Type m") (simp_all add: portable_problem_def valid_pointer_def written_problem_def)

lemma map_members_portable:
  assumes "portable_problem m"
  shows "map_members (qm_ClusterStatusProblemsItems0 m) =
    map (\<lambda>(k, v). (k, JString v)) (sort_by key_before (qm_ClusterStatusProblemsItems0 m))"
  using assms by (auto simp: map_members_def portable_problem_def list_all_iff)

lemma written_members:
  assumes "portable_problem m"
  defines "xs \<equiv> sort_by key_before (qm_ClusterStatusProblemsItems0 m)"
  defines "ms \<equiv> known_members m @ map (\<lambda>(k, v). (k, JString v)) xs"
  shows "UnmarshalJSON z (JObject ms) = (None, m\<lparr>qm_ClusterStatusProblemsItems0 := xs\<rparr>)"
proof -
  let ?as = "map (\<lambda>(k, v). (k, JString v)) xs"
  have keys: "map fst ?as = map fst xs" by (auto simp: case_prod_beta)
  have xs: "m_ok xs" "list_all (additional_name \<circ> fst) xs"
    using assms(1) m_ok_sort_by by (auto simp: xs_def portable_problem_def list_all_iff)
  then have as: "list_all (additional_name \<circ> fst) ?as" by (auto simp: list_all_iff case_prod_beta)
  have foreign: "fst p \<notin> set problem_fields" if "p \<in> set ?as" for p
    using as that additional_name_foreign by (auto simp: list_all_iff)
  have "k \<notin> set problem_fields" if "k \<in> set (map fst ?as)" for k
    using foreign that unfolding set_map [of fst] by blast
  then have "set (map fst (known_members m)) \<inter> set (map fst ?as) = {}" using known_names by blast
  then have ok: "m_ok ms" using xs(1) known_distinct [of m] keys by (simp only: m_ok_def ms_def map_append distinct_append)
  have s1: "stage1 (JObject ms) = Inr (m\<lparr>qm_ClusterStatusProblemsItems0 := []\<rparr>)"
    using assms(1) by (simp add: stage1_def ms_def bind_members_append bind_known_members bind_members_additional [OF as]
        written_portable portable_problem_def)
  have "stage2 (JObject ms) = Inr ms" using fold_put_fresh [of "[]" ms] ok by (simp add: stage2_def)
  moreover have "without_known ms = ?as"
    using known_names [of _ m] foreign by (auto simp: ms_def without_known_def filter_empty_conv filter_id_conv)
  moreover have "stage3 ?as [] = Inr xs" using stage3_strings [of "[]" xs] xs(1) by simp
  ultimately show ?thesis using s1 by (simp add: UnmarshalJSON_def delete_known)
qed

text \<open>
  Claim C38. Reading a problem that was written as JSON gives the problem back, whatever the receiver held
  before: the known properties, left out where they are zero, and every additional property under its name.
  It is enough that the text is valid UTF-8, that the status fits in 32 bits, and that the name of no
  additional property is the name of a field up to case.
\<close>

theorem problem_json_roundtrip:
  assumes "concatenates concatJSON" and "portable_problem m"
  shows "\<exists>additional. UnmarshalJSON receiver (MarshalJSON concatJSON m) = (None, m\<lparr>qm_ClusterStatusProblemsItems0 := additional\<rparr>)
    \<and> m_get additional = m_get (qm_ClusterStatusProblemsItems0 m)"
proof -
  let ?xs = "sort_by key_before (qm_ClusterStatusProblemsItems0 m)"
  have "known_members m \<noteq> []" by (simp add: known_members_def)
  then have "MarshalJSON concatJSON m = JObject (known_members m @ map (\<lambda>(k, v). (k, JString v)) ?xs)"
    using assms by (simp add: MarshalJSON_def Let_def concatenates_def map_members_portable)
  then have "UnmarshalJSON receiver (MarshalJSON concatJSON m) = (None, m\<lparr>qm_ClusterStatusProblemsItems0 := ?xs\<rparr>)"
    using written_members [OF assms(2)] by simp
  moreover have "m_get ?xs = m_get (qm_ClusterStatusProblemsItems0 m)"
    using assms(2) by (intro m_get_mset m_ok_sort_by) (simp_all add: portable_problem_def)
  ultimately show ?thesis by blast
qed

definition sample_concat :: "json \<Rightarrow> json \<Rightarrow> json" where
  "sample_concat a b = (case (a, b) of (JObject xs, JObject ys) \<Rightarrow> JObject (xs @ ys) | _ \<Rightarrow> JNull)"

definition sample_problem :: problem_model where
  "sample_problem = \<lparr>qm_Detail = ''no permission'', qm_Instance = [], qm_Status = 403, qm_Title = Some ''apply failed'',
     qm_Type = Some ''https://example.org/apply'', qm_ClusterStatusProblemsItems0 = [(''team'', ''a''), (''owner'', ''b'')]\<rparr>"

theorem problem_json_roundtrip_witness:
  "UnmarshalJSON zero_problem (MarshalJSON sample_concat sample_problem)
     = (None, sample_problem\<lparr>qm_ClusterStatusProblemsItems0 := [(''owner'', ''b''), (''team'', ''a'')]\<rparr>)"
proof -
  have "concatenates sample_concat" by (simp add: concatenates_def sample_concat_def)
  moreover have "portable_problem sample_problem" by code_simp
  ultimately obtain additional where
    "UnmarshalJSON zero_problem (MarshalJSON sample_concat sample_problem) = (None, sample_problem\<lparr>qm_ClusterStatusProblemsItems0 := additional\<rparr>)"
    using problem_json_roundtrip [of sample_concat sample_problem zero_problem] by blast
  moreover have "qm_ClusterStatusProblemsItems0 (snd (UnmarshalJSON zero_problem (MarshalJSON sample_concat sample_problem)))
      = [(''owner'', ''b''), (''team'', ''a'')]" by code_simp
  ultimately show ?thesis by simp
qed

text \<open>
  What the program reports of a cluster it reads in the next listing: the conversion to the model, the
  JSON and the conversion back give the problem, with what is not valid text replaced.
\<close>

lemma reported_problem_reread:
  assumes "- (2 ^ 31) \<le> pb_Status p" and "pb_Status p < 2 ^ 31"
  shows "\<exists>m. UnmarshalJSON receiver (MarshalJSON concatJSON (convertToProblemModel p)) = (None, m)
    \<and> convertFromProblemModel (Some m) = Ret (p\<lparr>pb_Detail := utf8_text (pb_Detail p), pb_Instance := utf8_text (pb_Instance p),
        pb_Title := utf8_text (pb_Title p), pb_Type := utf8_text (pb_Type p)\<rparr>)"
proof -
  let ?m = "convertToProblemModel p"
  have "bind_members (known_members ?m) zero_problem = Inr (written_problem ?m)"
    using assms by (intro bind_known_members) (simp_all add: convertToProblemModel_def)
  moreover have "without_known (known_members ?m) = []"
    using known_names [of _ ?m] by (auto simp: without_known_def filter_empty_conv)
  moreover have "stage2 (JObject (known_members ?m)) = Inr (known_members ?m)"
    using fold_put_fresh [of "[]" "known_members ?m"] known_distinct by (simp add: stage2_def)
  ultimately have "UnmarshalJSON receiver (MarshalJSON concatJSON ?m) = (None, written_problem ?m)"
    by (simp add: MarshalJSON_def convertToProblemModel_def UnmarshalJSON_def stage1_def delete_known)
  then show ?thesis by (simp add: convertFromProblemModel_def written_problem_def convertToProblemModel_def deref_def)
qed

section \<open>What is read\<close>

lemma bind_member_status: "bind_member member p = Inr q \<Longrightarrow> - (2 ^ 31) \<le> qm_Status p \<and> qm_Status p < 2 ^ 31 \<Longrightarrow>
    - (2 ^ 31) \<le> qm_Status q \<and> qm_Status q < 2 ^ 31"
  by (auto simp: bind_member_def decode_int32_def split: option.splits if_splits json.splits)
    (auto simp: map_sum_def split: sum.splits)

lemma bind_members_status: "bind_members ms p = Inr q \<Longrightarrow> - (2 ^ 31) \<le> qm_Status p \<and> qm_Status p < 2 ^ 31 \<Longrightarrow>
    - (2 ^ 31) \<le> qm_Status q \<and> qm_Status q < 2 ^ 31"
  by (induction ms arbitrary: p) (auto split: sum.splits dest: bind_member_status)

lemma stage3_keys: "stage3 rest acc = Inr result \<Longrightarrow> fst ` set result = fst ` set acc \<union> fst ` set rest"
  by (induction rest acc rule: stage3.induct) (auto simp: m_put_def dom_update split: sum.splits)

lemma stage3_ok: "stage3 rest acc = Inr result \<Longrightarrow> m_ok acc \<Longrightarrow> m_ok result"
  by (induction rest acc rule: stage3.induct) (auto split: sum.splits)

lemma stage3_rejects: "(k, v) \<in> set rest \<Longrightarrow> additional_string v = Inl e \<Longrightarrow> \<exists>e'. stage3 rest acc = Inl e'"
  by (induction rest acc rule: stage3.induct) (auto split: sum.splits)

text \<open>
  A problem that was read has a status of 32 bits, and no additional property has the name of a field.
\<close>

lemma read_problem_wellformed:
  assumes "UnmarshalJSON receiver data = (None, m)"
  shows "- (2 ^ 31) \<le> qm_Status m \<and> qm_Status m < 2 ^ 31" "m_ok (qm_ClusterStatusProblemsItems0 m)"
    "fst ` set (qm_ClusterStatusProblemsItems0 m) \<inter> set problem_fields = {}"
proof -
  from assms obtain rcv ms where rcv: "stage1 data = Inr rcv" "stage2 data = Inr ms"
      and m: "m = rcv \<or> (\<exists>result. stage3 (without_known ms) [] = Inr result \<and> m = rcv\<lparr>qm_ClusterStatusProblemsItems0 := result\<rparr>)"
    by (auto simp: UnmarshalJSON_def Let_def delete_known split: sum.splits if_splits)
  have zero: "- (2 ^ 31) \<le> qm_Status zero_problem \<and> qm_Status zero_problem < 2 ^ 31"
      "qm_ClusterStatusProblemsItems0 zero_problem = []" by (simp_all add: zero_problem_def)
  have "- (2 ^ 31) \<le> qm_Status rcv \<and> qm_Status rcv < 2 ^ 31"
    using rcv(1) bind_members_status [OF _ zero(1)] zero(1) by (auto simp: stage1_def split: json.splits)
  with m show "- (2 ^ 31) \<le> qm_Status m \<and> qm_Status m < 2 ^ 31" by auto
  have "bind_member x p = Inr q \<Longrightarrow> qm_ClusterStatusProblemsItems0 q = qm_ClusterStatusProblemsItems0 p" for x p q
    by (auto simp: bind_member_def map_sum_def split: option.splits if_splits sum.splits)
  then have "bind_members xs p = Inr q \<Longrightarrow> qm_ClusterStatusProblemsItems0 q = qm_ClusterStatusProblemsItems0 p" for xs p q
    by (induction xs arbitrary: p) (auto split: sum.splits)
  with rcv(1) zero(2) have none: "qm_ClusterStatusProblemsItems0 rcv = []" by (auto simp: stage1_def split: json.splits)
  with m show "m_ok (qm_ClusterStatusProblemsItems0 m)" by (auto dest: stage3_ok)
  have "fst ` set result \<inter> set problem_fields = {}" if "stage3 (without_known ms) [] = Inr result" for result
    unfolding stage3_keys [OF that] by (auto simp: without_known_def)
  with m none show "fst ` set (qm_ClusterStatusProblemsItems0 m) \<inter> set problem_fields = {}"
    by (elim disjE exE conjE) simp_all
qed

text \<open>
  One additional property that is neither text nor null makes the whole problem unreadable, and with it
  the listing that it is part of.
\<close>

lemma additional_must_be_text:
  assumes "m_ok ms" and "(k, v) \<in> set ms" and "k \<notin> set problem_fields" and "additional_string v = Inl e"
  shows "fst (UnmarshalJSON receiver (JObject ms)) \<noteq> None"
proof -
  have "fold (\<lambda>(k, v). m_put k v) ms [] = ms" using fold_put_fresh [of "[]"] assms(1) by simp
  moreover have "(k, v) \<in> set (without_known ms)" using assms by (simp add: without_known_def)
  ultimately show ?thesis using stage3_rejects [OF _ assms(4), of k "without_known ms" "[]"]
    by (auto simp: UnmarshalJSON_def stage2_def Let_def delete_known split: sum.splits)
qed

text \<open>
  The decoder matches names up to case, the removal of the known properties does not: a member that
  differs from a field in case only is bound to the field and kept as an additional property as well, and
  writing such a problem and reading it again replaces the field.
\<close>

lemma case_variant_read_twice:
  "UnmarshalJSON zero_problem (JObject [(''Title'', JString ''a''), (''type'', JString ''b'')])
     = (None, zero_problem\<lparr>qm_Title := Some ''a'', qm_Type := Some ''b'', qm_ClusterStatusProblemsItems0 := [(''Title'', ''a'')]\<rparr>)"
  by code_simp

text \<open>
  The required properties are not checked: a problem without a title is read, and converting it
  dereferences a nil pointer.
\<close>

lemma untitled_problem_panics:
  "UnmarshalJSON receiver (JObject [(''type'', JString t)]) = (None, zero_problem\<lparr>qm_Type := Some t\<rparr>)"
  "convertFromProblemModel (Some (zero_problem\<lparr>qm_Type := Some t\<rparr>)) = Panic ''nil pointer dereference''"
  by (simp_all add: UnmarshalJSON_def stage1_def stage2_def bind_member_def decode_pointer_def delete_known without_known_def
      m_put_def set_problem_fields convertFromProblemModel_def zero_problem_def deref_def)

end
