(* ===== verification/Model_Validation.thy ===== *)
theory Model_Validation
  imports Registry_Operations Model_JSON
begin

text \<open>
  The validation of the models of the cluster registry, as it is generated from the document of its API
  (\<open>pkg/cluster-registry/models\<close> and the bodies of the list operations). The checks of go-openapi are
  parameters: the model has which field is checked, in which order, under which name, and how the errors of
  a nested model are named. The registry package reads the models without validating them; the lemmas at
  the end say what a validated answer would give its conversions, and where even that is not enough.
\<close>

section \<open>What go-openapi provides\<close>

text \<open>The values that a check or \<open>IsZero\<close> is given: pointers, slices, texts and times. A nil slice is an empty one.\<close>

datatype checked =
    StringPointer "string option"
  | IntPointer "int option"
  | Text string
  | Strings "string list"
  | DateTime int
  | PoolPointer "pool_model option"
  | Pools "pool_model option list"
  | ProblemPointer "problem_model option"
  | Problems "problem_model option list"
  | StatusPointer "status_model option"
  | ClusterPointer "cluster_model option"
  | Clusters "cluster_model option list"
  | AccountPointer "account_model option"
  | Accounts "account_model option list"

text \<open>
  A check is given the path of the field and where it is found. \<open>AsValidation\<close> and \<open>AsComposite\<close> look for an
  error of the type in the chain of an error (\<open>errors.As\<close>).
\<close>

record 'e validation =
  va_Required :: "string \<Rightarrow> string \<Rightarrow> checked \<Rightarrow> 'e option"
  va_Pattern :: "string \<Rightarrow> string \<Rightarrow> string \<Rightarrow> string \<Rightarrow> 'e option"
  va_FormatOf :: "string \<Rightarrow> string \<Rightarrow> string \<Rightarrow> int \<Rightarrow> 'e option"
  va_EnumCase :: "string \<Rightarrow> string \<Rightarrow> string \<Rightarrow> string list \<Rightarrow> bool \<Rightarrow> 'e option"
  va_MinItems :: "string \<Rightarrow> string \<Rightarrow> int \<Rightarrow> int \<Rightarrow> 'e option"
  va_UniqueItems :: "string \<Rightarrow> string \<Rightarrow> string list \<Rightarrow> 'e option"
  va_IsZero :: "checked \<Rightarrow> bool"
  va_AsValidation :: "'e \<Rightarrow> 'e option"
  va_AsComposite :: "'e \<Rightarrow> 'e option"
  va_ValidateName :: "string \<Rightarrow> 'e \<Rightarrow> 'e"
  va_CompositeValidationError :: "'e list \<Rightarrow> 'e"

text \<open>The error a validation returns, if it does not panic.\<close>

type_synonym 'e verdict = "'e option outcome"

text \<open>\<open>if err := first; err != nil { return err }\<close>\<close>

definition and_then :: "'e verdict \<Rightarrow> 'e verdict \<Rightarrow> 'e verdict" where
  "and_then first rest = bindO first (\<lambda>e. case e of Some err \<Rightarrow> Ret (Some err) | None \<Rightarrow> rest)"

text \<open>\<open>if err := ...; err != nil { res = append(res, err) }\<close>, for all the fields of a model\<close>

fun collect :: "'e verdict list \<Rightarrow> 'e list \<Rightarrow> 'e list outcome" where
  "collect [] res = Ret res"
| "collect (v # vs) res = bindO v (\<lambda>e. collect vs (case e of Some err \<Rightarrow> res @ [err] | None \<Rightarrow> res))"

definition composite :: "'e validation \<Rightarrow> 'e verdict list \<Rightarrow> 'e verdict" where
  "composite v fs =
     bindO (collect fs []) (\<lambda>res. Ret (if length res > 0 then Some (va_CompositeValidationError v res) else None))"

definition required :: "'e validation \<Rightarrow> string \<Rightarrow> checked \<Rightarrow> 'e verdict" where
  "required v path x = Ret (va_Required v path ''body'' x)"

text \<open>The error of a nested model gets the name of the field in front.\<close>

definition nested_error :: "'e validation \<Rightarrow> string \<Rightarrow> 'e \<Rightarrow> 'e" where
  "nested_error v name err =
     (case va_AsValidation v err of
        Some ve \<Rightarrow> va_ValidateName v name ve
      | None \<Rightarrow> (case va_AsComposite v err of Some ce \<Rightarrow> va_ValidateName v name ce | None \<Rightarrow> err))"

fun validate_each :: "'e validation \<Rightarrow> ('a option \<Rightarrow> checked) \<Rightarrow> ('a \<Rightarrow> 'e verdict) \<Rightarrow> string \<Rightarrow> nat \<Rightarrow> 'a option list \<Rightarrow> 'e verdict" where
  "validate_each v pointer validate name i [] = Ret None"
| "validate_each v pointer validate name i (x # xs) =
     (if va_IsZero v (pointer x) then validate_each v pointer validate name (Suc i) xs
      else case x of
        None \<Rightarrow> validate_each v pointer validate name (Suc i) xs
      | Some m \<Rightarrow>
          bindO (validate m) (\<lambda>e. case e of
              Some err \<Rightarrow> Ret (Some (nested_error v (name @ ''.'' @ int_str (int i)) err))
            | None \<Rightarrow> validate_each v pointer validate name (Suc i) xs))"

text \<open>The loop of the context validation ends at an element that is zero but not nil.\<close>

fun context_validate_each :: "'e validation \<Rightarrow> ('a option \<Rightarrow> checked) \<Rightarrow> ('a \<Rightarrow> 'e verdict) \<Rightarrow> string \<Rightarrow> nat \<Rightarrow> 'a option list \<Rightarrow> 'e verdict" where
  "context_validate_each v pointer validate name i [] = Ret None"
| "context_validate_each v pointer validate name i (x # xs) =
     (case x of
        None \<Rightarrow> context_validate_each v pointer validate name (Suc i) xs
      | Some m \<Rightarrow>
          if va_IsZero v (pointer x) then Ret None
          else bindO (validate m) (\<lambda>e. case e of
              Some err \<Rightarrow> Ret (Some (nested_error v (name @ ''.'' @ int_str (int i)) err))
            | None \<Rightarrow> context_validate_each v pointer validate name (Suc i) xs))"

section \<open>Node pools\<close>

definition NodePool_validateDiscountStrategy :: "'e validation \<Rightarrow> pool_model \<Rightarrow> 'e verdict" where
  "NodePool_validateDiscountStrategy v m = required v ''discount_strategy'' (StringPointer (nm_DiscountStrategy m))"

definition NodePool_validateInstanceTypes :: "'e validation \<Rightarrow> pool_model \<Rightarrow> 'e verdict" where
  "NodePool_validateInstanceTypes v m =
     and_then (required v ''instance_types'' (Strings (nm_InstanceTypes m)))
    (and_then (Ret (va_MinItems v ''instance_types'' ''body'' (int (length (nm_InstanceTypes m))) 1))
              (Ret (va_UniqueItems v ''instance_types'' ''body'' (nm_InstanceTypes m))))"

definition NodePool_validateMaxSize :: "'e validation \<Rightarrow> pool_model \<Rightarrow> 'e verdict" where
  "NodePool_validateMaxSize v m = required v ''max_size'' (IntPointer (nm_MaxSize m))"

definition NodePool_validateMinSize :: "'e validation \<Rightarrow> pool_model \<Rightarrow> 'e verdict" where
  "NodePool_validateMinSize v m = required v ''min_size'' (IntPointer (nm_MinSize m))"

definition NodePool_validateName :: "'e validation \<Rightarrow> pool_model \<Rightarrow> 'e verdict" where
  "NodePool_validateName v m = required v ''name'' (StringPointer (nm_Name m))"

definition NodePool_validateProfile :: "'e validation \<Rightarrow> pool_model \<Rightarrow> 'e verdict" where
  "NodePool_validateProfile v m = required v ''profile'' (StringPointer (nm_Profile m))"

definition NodePool_Validate :: "'e validation \<Rightarrow> pool_model \<Rightarrow> 'e verdict" where
  "NodePool_Validate v m = composite v
     [NodePool_validateDiscountStrategy v m, NodePool_validateInstanceTypes v m, NodePool_validateMaxSize v m,
      NodePool_validateMinSize v m, NodePool_validateName v m, NodePool_validateProfile v m]"

definition NodePool_ContextValidate :: "pool_model \<Rightarrow> 'e verdict" where
  "NodePool_ContextValidate m = Ret None"

definition NodePoolUpdate_validateInstanceTypes :: "'e validation \<Rightarrow> pool_update \<Rightarrow> 'e verdict" where
  "NodePoolUpdate_validateInstanceTypes v m =
     (if va_IsZero v (Strings (nu_InstanceTypes m)) then Ret None
      else and_then (Ret (va_MinItems v ''instance_types'' ''body'' (int (length (nu_InstanceTypes m))) 1))
                    (Ret (va_UniqueItems v ''instance_types'' ''body'' (nu_InstanceTypes m))))"

definition NodePoolUpdate_Validate :: "'e validation \<Rightarrow> pool_update \<Rightarrow> 'e verdict" where
  "NodePoolUpdate_Validate v m = composite v [NodePoolUpdate_validateInstanceTypes v m]"

section \<open>Problems and statuses\<close>

definition Problem_validateTitle :: "'e validation \<Rightarrow> problem_model \<Rightarrow> 'e verdict" where
  "Problem_validateTitle v m = required v ''title'' (StringPointer (qm_Title m))"

definition Problem_validateType :: "'e validation \<Rightarrow> problem_model \<Rightarrow> 'e verdict" where
  "Problem_validateType v m = required v ''type'' (StringPointer (qm_Type m))"

definition Problem_Validate :: "'e validation \<Rightarrow> problem_model \<Rightarrow> 'e verdict" where
  "Problem_Validate v m = composite v [Problem_validateTitle v m, Problem_validateType v m]"

definition Problem_ContextValidate :: "problem_model \<Rightarrow> 'e verdict" where
  "Problem_ContextValidate m = Ret None"

definition ClusterStatus_validateProblems :: "'e validation \<Rightarrow> status_model \<Rightarrow> 'e verdict" where
  "ClusterStatus_validateProblems v m =
     (if va_IsZero v (Problems (ms_Problems m)) then Ret None
      else validate_each v ProblemPointer (Problem_Validate v) ''problems'' 0 (ms_Problems m))"

definition ClusterStatus_Validate :: "'e validation \<Rightarrow> status_model \<Rightarrow> 'e verdict" where
  "ClusterStatus_Validate v m = composite v [ClusterStatus_validateProblems v m]"

definition ClusterStatus_contextValidateProblems :: "'e validation \<Rightarrow> status_model \<Rightarrow> 'e verdict" where
  "ClusterStatus_contextValidateProblems v m =
     context_validate_each v ProblemPointer Problem_ContextValidate ''problems'' 0 (ms_Problems m)"

definition ClusterStatus_ContextValidate :: "'e validation \<Rightarrow> status_model \<Rightarrow> 'e verdict" where
  "ClusterStatus_ContextValidate v m = composite v [ClusterStatus_contextValidateProblems v m]"

text \<open>A status in a field of its own, of a cluster or of an update of one.\<close>

definition validate_status :: "'e validation \<Rightarrow> status_model option \<Rightarrow> 'e verdict" where
  "validate_status v status =
     (if va_IsZero v (StatusPointer status) then Ret None
      else case status of
        None \<Rightarrow> Ret None
      | Some s \<Rightarrow> bindO (ClusterStatus_Validate v s) (\<lambda>e. Ret (map_option (nested_error v ''status'') e)))"

definition context_validate_status :: "'e validation \<Rightarrow> status_model option \<Rightarrow> 'e verdict" where
  "context_validate_status v status =
     (case status of
        None \<Rightarrow> Ret None
      | Some s \<Rightarrow>
          if va_IsZero v (StatusPointer status) then Ret None
          else bindO (ClusterStatus_ContextValidate v s) (\<lambda>e. Ret (map_option (nested_error v ''status'') e)))"

section \<open>Clusters\<close>

definition clusterTypeLifecycleStatusPropEnum :: "string list" where
  "clusterTypeLifecycleStatusPropEnum = [''requested'', ''creating'', ''ready'', ''decommission-requested'', ''decommissioned'']"

definition Cluster_validateAlias :: "'e validation \<Rightarrow> cluster_model \<Rightarrow> 'e verdict" where
  "Cluster_validateAlias v m =
     and_then (required v ''alias'' (StringPointer (cm_Alias m)))
       (bindO (deref (cm_Alias m)) (\<lambda>alias. Ret (va_Pattern v ''alias'' ''body'' alias ''^[a-z][a-z0-9-]*[a-z0-9]$'')))"

definition Cluster_validateAPIServerURL :: "'e validation \<Rightarrow> cluster_model \<Rightarrow> 'e verdict" where
  "Cluster_validateAPIServerURL v m = required v ''api_server_url'' (StringPointer (cm_APIServerURL m))"

definition Cluster_validateChannel :: "'e validation \<Rightarrow> cluster_model \<Rightarrow> 'e verdict" where
  "Cluster_validateChannel v m = required v ''channel'' (StringPointer (cm_Channel m))"

definition Cluster_validateCreatedAt :: "'e validation \<Rightarrow> cluster_model \<Rightarrow> 'e verdict" where
  "Cluster_validateCreatedAt v m =
     (if va_IsZero v (DateTime (cm_CreatedAt m)) then Ret None
      else Ret (va_FormatOf v ''created_at'' ''body'' ''date-time'' (cm_CreatedAt m)))"

definition Cluster_validateCriticalityLevel :: "'e validation \<Rightarrow> cluster_model \<Rightarrow> 'e verdict" where
  "Cluster_validateCriticalityLevel v m = required v ''criticality_level'' (IntPointer (cm_CriticalityLevel m))"

definition Cluster_validateEnvironment :: "'e validation \<Rightarrow> cluster_model \<Rightarrow> 'e verdict" where
  "Cluster_validateEnvironment v m = required v ''environment'' (StringPointer (cm_Environment m))"

definition Cluster_validateID :: "'e validation \<Rightarrow> cluster_model \<Rightarrow> 'e verdict" where
  "Cluster_validateID v m = required v ''id'' (StringPointer (cm_ID m))"

definition Cluster_validateInfrastructureAccount :: "'e validation \<Rightarrow> cluster_model \<Rightarrow> 'e verdict" where
  "Cluster_validateInfrastructureAccount v m = required v ''infrastructure_account'' (StringPointer (cm_InfrastructureAccount m))"

definition Cluster_validateLifecycleStatusEnum :: "'e validation \<Rightarrow> string \<Rightarrow> string \<Rightarrow> string \<Rightarrow> 'e verdict" where
  "Cluster_validateLifecycleStatusEnum v path location s =
     Ret (va_EnumCase v path location s clusterTypeLifecycleStatusPropEnum True)"

definition Cluster_validateLifecycleStatus :: "'e validation \<Rightarrow> cluster_model \<Rightarrow> 'e verdict" where
  "Cluster_validateLifecycleStatus v m =
     and_then (required v ''lifecycle_status'' (StringPointer (cm_LifecycleStatus m)))
       (bindO (deref (cm_LifecycleStatus m)) (Cluster_validateLifecycleStatusEnum v ''lifecycle_status'' ''body''))"

definition Cluster_validateLocalID :: "'e validation \<Rightarrow> cluster_model \<Rightarrow> 'e verdict" where
  "Cluster_validateLocalID v m = required v ''local_id'' (StringPointer (cm_LocalID m))"

definition Cluster_validateNodePools :: "'e validation \<Rightarrow> cluster_model \<Rightarrow> 'e verdict" where
  "Cluster_validateNodePools v m =
     (if va_IsZero v (Pools (cm_NodePools m)) then Ret None
      else validate_each v PoolPointer (NodePool_Validate v) ''node_pools'' 0 (cm_NodePools m))"

definition Cluster_validateProvider :: "'e validation \<Rightarrow> cluster_model \<Rightarrow> 'e verdict" where
  "Cluster_validateProvider v m = required v ''provider'' (StringPointer (cm_Provider m))"

definition Cluster_validateRegion :: "'e validation \<Rightarrow> cluster_model \<Rightarrow> 'e verdict" where
  "Cluster_validateRegion v m = required v ''region'' (StringPointer (cm_Region m))"

definition Cluster_validateStatus :: "'e validation \<Rightarrow> cluster_model \<Rightarrow> 'e verdict" where
  "Cluster_validateStatus v m = validate_status v (cm_Status m)"

definition Cluster_Validate :: "'e validation \<Rightarrow> cluster_model \<Rightarrow> 'e verdict" where
  "Cluster_Validate v m = composite v
     [Cluster_validateAlias v m, Cluster_validateAPIServerURL v m, Cluster_validateChannel v m, Cluster_validateCreatedAt v m,
      Cluster_validateCriticalityLevel v m, Cluster_validateEnvironment v m, Cluster_validateID v m,
      Cluster_validateInfrastructureAccount v m, Cluster_validateLifecycleStatus v m, Cluster_validateLocalID v m,
      Cluster_validateNodePools v m, Cluster_validateProvider v m, Cluster_validateRegion v m, Cluster_validateStatus v m]"

definition Cluster_contextValidateNodePools :: "'e validation \<Rightarrow> cluster_model \<Rightarrow> 'e verdict" where
  "Cluster_contextValidateNodePools v m =
     context_validate_each v PoolPointer NodePool_ContextValidate ''node_pools'' 0 (cm_NodePools m)"

definition Cluster_contextValidateStatus :: "'e validation \<Rightarrow> cluster_model \<Rightarrow> 'e verdict" where
  "Cluster_contextValidateStatus v m = context_validate_status v (cm_Status m)"

definition Cluster_ContextValidate :: "'e validation \<Rightarrow> cluster_model \<Rightarrow> 'e verdict" where
  "Cluster_ContextValidate v m = composite v [Cluster_contextValidateNodePools v m, Cluster_contextValidateStatus v m]"

text \<open>The update of a cluster: nothing is required, and a lifecycle status is checked when there is one.\<close>

definition clusterUpdateTypeLifecycleStatusPropEnum :: "string list" where
  "clusterUpdateTypeLifecycleStatusPropEnum = [''requested'', ''creating'', ''ready'', ''decommission-requested'', ''decommissioned'']"

definition ClusterUpdate_validateLifecycleStatusEnum :: "'e validation \<Rightarrow> string \<Rightarrow> string \<Rightarrow> string \<Rightarrow> 'e verdict" where
  "ClusterUpdate_validateLifecycleStatusEnum v path location s =
     Ret (va_EnumCase v path location s clusterUpdateTypeLifecycleStatusPropEnum True)"

definition ClusterUpdate_validateLifecycleStatus :: "'e validation \<Rightarrow> cluster_update \<Rightarrow> 'e verdict" where
  "ClusterUpdate_validateLifecycleStatus v m =
     (if va_IsZero v (Text (cu_LifecycleStatus m)) then Ret None
      else ClusterUpdate_validateLifecycleStatusEnum v ''lifecycle_status'' ''body'' (cu_LifecycleStatus m))"

definition ClusterUpdate_validateStatus :: "'e validation \<Rightarrow> cluster_update \<Rightarrow> 'e verdict" where
  "ClusterUpdate_validateStatus v m = validate_status v (cu_Status m)"

definition ClusterUpdate_Validate :: "'e validation \<Rightarrow> cluster_update \<Rightarrow> 'e verdict" where
  "ClusterUpdate_Validate v m = composite v [ClusterUpdate_validateLifecycleStatus v m, ClusterUpdate_validateStatus v m]"

definition ClusterUpdate_contextValidateStatus :: "'e validation \<Rightarrow> cluster_update \<Rightarrow> 'e verdict" where
  "ClusterUpdate_contextValidateStatus v m = context_validate_status v (cu_Status m)"

definition ClusterUpdate_ContextValidate :: "'e validation \<Rightarrow> cluster_update \<Rightarrow> 'e verdict" where
  "ClusterUpdate_ContextValidate v m = composite v [ClusterUpdate_contextValidateStatus v m]"

section \<open>Infrastructure accounts and values of config items\<close>

definition infrastructureAccountTypeLifecycleStatusPropEnum :: "string list" where
  "infrastructureAccountTypeLifecycleStatusPropEnum = [''requested'', ''creating'', ''ready'', ''decommissioned'']"

definition Account_validateCostCenter :: "'e validation \<Rightarrow> account_model \<Rightarrow> 'e verdict" where
  "Account_validateCostCenter v m = required v ''cost_center'' (StringPointer (am_CostCenter m))"

definition Account_validateCriticalityLevel :: "'e validation \<Rightarrow> account_model \<Rightarrow> 'e verdict" where
  "Account_validateCriticalityLevel v m = required v ''criticality_level'' (IntPointer (am_CriticalityLevel m))"

definition Account_validateEnvironment :: "'e validation \<Rightarrow> account_model \<Rightarrow> 'e verdict" where
  "Account_validateEnvironment v m = required v ''environment'' (StringPointer (am_Environment m))"

definition Account_validateExternalID :: "'e validation \<Rightarrow> account_model \<Rightarrow> 'e verdict" where
  "Account_validateExternalID v m = required v ''external_id'' (StringPointer (am_ExternalID m))"

definition Account_validateID :: "'e validation \<Rightarrow> account_model \<Rightarrow> 'e verdict" where
  "Account_validateID v m = required v ''id'' (StringPointer (am_ID m))"

definition Account_validateLifecycleStatusEnum :: "'e validation \<Rightarrow> string \<Rightarrow> string \<Rightarrow> string \<Rightarrow> 'e verdict" where
  "Account_validateLifecycleStatusEnum v path location s =
     Ret (va_EnumCase v path location s infrastructureAccountTypeLifecycleStatusPropEnum True)"

definition Account_validateLifecycleStatus :: "'e validation \<Rightarrow> account_model \<Rightarrow> 'e verdict" where
  "Account_validateLifecycleStatus v m =
     and_then (required v ''lifecycle_status'' (StringPointer (am_LifecycleStatus m)))
       (bindO (deref (am_LifecycleStatus m)) (Account_validateLifecycleStatusEnum v ''lifecycle_status'' ''body''))"

definition Account_validateName :: "'e validation \<Rightarrow> account_model \<Rightarrow> 'e verdict" where
  "Account_validateName v m = required v ''name'' (StringPointer (am_Name m))"

definition Account_validateOwner :: "'e validation \<Rightarrow> account_model \<Rightarrow> 'e verdict" where
  "Account_validateOwner v m = required v ''owner'' (StringPointer (am_Owner m))"

definition Account_validateType :: "'e validation \<Rightarrow> account_model \<Rightarrow> 'e verdict" where
  "Account_validateType v m = required v ''type'' (StringPointer (am_Type m))"

definition Account_Validate :: "'e validation \<Rightarrow> account_model \<Rightarrow> 'e verdict" where
  "Account_Validate v m = composite v
     [Account_validateCostCenter v m, Account_validateCriticalityLevel v m, Account_validateEnvironment v m,
      Account_validateExternalID v m, Account_validateID v m, Account_validateLifecycleStatus v m, Account_validateName v m,
      Account_validateOwner v m, Account_validateType v m]"

definition Account_ContextValidate :: "account_model \<Rightarrow> 'e verdict" where
  "Account_ContextValidate m = Ret None"

definition infrastructureAccountUpdateTypeLifecycleStatusPropEnum :: "string list" where
  "infrastructureAccountUpdateTypeLifecycleStatusPropEnum = [''requested'', ''creating'', ''ready'', ''decommissioned'']"

definition AccountUpdate_validateLifecycleStatusEnum :: "'e validation \<Rightarrow> string \<Rightarrow> string \<Rightarrow> string \<Rightarrow> 'e verdict" where
  "AccountUpdate_validateLifecycleStatusEnum v path location s =
     Ret (va_EnumCase v path location s infrastructureAccountUpdateTypeLifecycleStatusPropEnum True)"

definition AccountUpdate_validateLifecycleStatus :: "'e validation \<Rightarrow> account_update \<Rightarrow> 'e verdict" where
  "AccountUpdate_validateLifecycleStatus v m =
     (if va_IsZero v (Text (au_LifecycleStatus m)) then Ret None
      else AccountUpdate_validateLifecycleStatusEnum v ''lifecycle_status'' ''body'' (au_LifecycleStatus m))"

definition AccountUpdate_Validate :: "'e validation \<Rightarrow> account_update \<Rightarrow> 'e verdict" where
  "AccountUpdate_Validate v m = composite v [AccountUpdate_validateLifecycleStatus v m]"

definition ConfigValue_validateValue :: "'e validation \<Rightarrow> string option \<Rightarrow> 'e verdict" where
  "ConfigValue_validateValue v m = required v ''value'' (StringPointer m)"

definition ConfigValue_Validate :: "'e validation \<Rightarrow> string option \<Rightarrow> 'e verdict" where
  "ConfigValue_Validate v m = composite v [ConfigValue_validateValue v m]"

section \<open>The bodies of the list operations\<close>

definition ListClustersOKBody_validateItems :: "'e validation \<Rightarrow> cluster_model option list \<Rightarrow> 'e verdict" where
  "ListClustersOKBody_validateItems v items =
     (if va_IsZero v (Clusters items) then Ret None
      else validate_each v ClusterPointer (Cluster_Validate v) ''listClustersOK.items'' 0 items)"

definition ListClustersOKBody_Validate :: "'e validation \<Rightarrow> cluster_model option list \<Rightarrow> 'e verdict" where
  "ListClustersOKBody_Validate v items = composite v [ListClustersOKBody_validateItems v items]"

definition ListClustersOKBody_contextValidateItems :: "'e validation \<Rightarrow> cluster_model option list \<Rightarrow> 'e verdict" where
  "ListClustersOKBody_contextValidateItems v items =
     context_validate_each v ClusterPointer (Cluster_ContextValidate v) ''listClustersOK.items'' 0 items"

definition ListClustersOKBody_ContextValidate :: "'e validation \<Rightarrow> cluster_model option list \<Rightarrow> 'e verdict" where
  "ListClustersOKBody_ContextValidate v items = composite v [ListClustersOKBody_contextValidateItems v items]"

definition ListInfrastructureAccountsOKBody_validateItems :: "'e validation \<Rightarrow> account_model option list \<Rightarrow> 'e verdict" where
  "ListInfrastructureAccountsOKBody_validateItems v items =
     (if va_IsZero v (Accounts items) then Ret None
      else validate_each v AccountPointer (Account_Validate v) ''listInfrastructureAccountsOK.items'' 0 items)"

definition ListInfrastructureAccountsOKBody_Validate :: "'e validation \<Rightarrow> account_model option list \<Rightarrow> 'e verdict" where
  "ListInfrastructureAccountsOKBody_Validate v items = composite v [ListInfrastructureAccountsOKBody_validateItems v items]"

definition ListInfrastructureAccountsOKBody_contextValidateItems :: "'e validation \<Rightarrow> account_model option list \<Rightarrow> 'e verdict" where
  "ListInfrastructureAccountsOKBody_contextValidateItems v items =
     context_validate_each v AccountPointer Account_ContextValidate ''listInfrastructureAccountsOK.items'' 0 items"

definition ListInfrastructureAccountsOKBody_ContextValidate :: "'e validation \<Rightarrow> account_model option list \<Rightarrow> 'e verdict" where
  "ListInfrastructureAccountsOKBody_ContextValidate v items = composite v [ListInfrastructureAccountsOKBody_contextValidateItems v items]"

definition ListNodePoolsOKBody_validateItems :: "'e validation \<Rightarrow> pool_model option list \<Rightarrow> 'e verdict" where
  "ListNodePoolsOKBody_validateItems v items =
     (if va_IsZero v (Pools items) then Ret None
      else validate_each v PoolPointer (NodePool_Validate v) ''listNodePoolsOK.items'' 0 items)"

definition ListNodePoolsOKBody_Validate :: "'e validation \<Rightarrow> pool_model option list \<Rightarrow> 'e verdict" where
  "ListNodePoolsOKBody_Validate v items = composite v [ListNodePoolsOKBody_validateItems v items]"

definition ListNodePoolsOKBody_contextValidateItems :: "'e validation \<Rightarrow> pool_model option list \<Rightarrow> 'e verdict" where
  "ListNodePoolsOKBody_contextValidateItems v items =
     context_validate_each v PoolPointer NodePool_ContextValidate ''listNodePoolsOK.items'' 0 items"

definition ListNodePoolsOKBody_ContextValidate :: "'e validation \<Rightarrow> pool_model option list \<Rightarrow> 'e verdict" where
  "ListNodePoolsOKBody_ContextValidate v items = composite v [ListNodePoolsOKBody_contextValidateItems v items]"

section \<open>Binary form\<close>

text \<open>
  The two methods are the same for every model; the writer and the reader of JSON are go-openapi's. A nil
  model is written as nothing, and a model that cannot be read is left as it was.
\<close>

definition MarshalBinary :: "('m \<Rightarrow> go_error + string) \<Rightarrow> 'm option \<Rightarrow> go_error + string" where
  "MarshalBinary writeJSON m = (case m of None \<Rightarrow> Inr [] | Some x \<Rightarrow> writeJSON x)"

definition UnmarshalBinary :: "(string \<Rightarrow> go_error + 'm) \<Rightarrow> 'm \<Rightarrow> string \<Rightarrow> go_error option \<times> 'm" where
  "UnmarshalBinary readJSON m b = (case readJSON b of Inl e \<Rightarrow> (Some e, m) | Inr res \<Rightarrow> (None, res))"

section \<open>What a validated model has\<close>

text \<open>
  What the checks promise: a required pointer is not nil, a slice has the items it is to have at least, a
  text is one of an enumeration, and only nil pointers and slices without elements may count as zero.
\<close>

definition documented_checks :: "'e validation \<Rightarrow> bool" where
  "documented_checks v \<longleftrightarrow>
     (\<forall>path loc. va_Required v path loc (StringPointer None) \<noteq> None \<and> va_Required v path loc (IntPointer None) \<noteq> None)
     \<and> (\<forall>path loc n k. n < k \<longrightarrow> va_MinItems v path loc n k \<noteq> None)
     \<and> (\<forall>path loc s allowed. s \<notin> set allowed \<longrightarrow> va_EnumCase v path loc s allowed True \<noteq> None)
     \<and> (\<forall>m. \<not> va_IsZero v (PoolPointer (Some m))) \<and> (\<forall>m. \<not> va_IsZero v (ProblemPointer (Some m)))
     \<and> (\<forall>m. \<not> va_IsZero v (StatusPointer (Some m))) \<and> (\<forall>m. \<not> va_IsZero v (ClusterPointer (Some m)))
     \<and> (\<forall>m. \<not> va_IsZero v (AccountPointer (Some m)))
     \<and> (\<forall>x xs. \<not> va_IsZero v (Pools (x # xs))) \<and> (\<forall>x xs. \<not> va_IsZero v (Problems (x # xs)))
     \<and> (\<forall>x xs. \<not> va_IsZero v (Clusters (x # xs))) \<and> (\<forall>x xs. \<not> va_IsZero v (Accounts (x # xs)))"

lemma checks:
  assumes "documented_checks v"
  shows "va_Required v path loc (StringPointer None) \<noteq> None" "va_Required v path loc (IntPointer None) \<noteq> None"
    "n < k \<Longrightarrow> va_MinItems v path loc n k \<noteq> None"
    "s \<notin> set allowed \<Longrightarrow> va_EnumCase v path loc s allowed True \<noteq> None"
  using assms by (simp_all add: documented_checks_def del: not_None_eq)

lemma not_zero:
  assumes "documented_checks v"
  shows "\<not> va_IsZero v (PoolPointer (Some p))" "\<not> va_IsZero v (ProblemPointer (Some q))"
    "\<not> va_IsZero v (StatusPointer (Some s))" "\<not> va_IsZero v (ClusterPointer (Some c))"
    "\<not> va_IsZero v (AccountPointer (Some a))"
    "ps \<noteq> [] \<Longrightarrow> \<not> va_IsZero v (Pools ps)" "qs \<noteq> [] \<Longrightarrow> \<not> va_IsZero v (Problems qs)"
    "cs \<noteq> [] \<Longrightarrow> \<not> va_IsZero v (Clusters cs)" "as \<noteq> [] \<Longrightarrow> \<not> va_IsZero v (Accounts as)"
  using assms by (simp_all add: documented_checks_def neq_Nil_conv del: not_None_eq) blast+

lemma required_pointer:
  assumes "documented_checks v"
  shows "required v path (StringPointer p) = Ret None \<Longrightarrow> p \<noteq> None" "required v path (IntPointer q) = Ret None \<Longrightarrow> q \<noteq> None"
  using checks(1,2) [OF assms] by (cases p; cases q; simp add: required_def)+

lemma and_then_None [simp]: "and_then a b = Ret None \<longleftrightarrow> a = Ret None \<and> b = Ret None"
  by (auto simp: and_then_def bindO_Ret_iff split: option.splits)

lemma collect_Nil: "collect fs res = Ret [] \<longleftrightarrow> res = [] \<and> list_all (\<lambda>f. f = Ret None) fs"
  by (induction fs arbitrary: res) (auto simp: bindO_Ret_iff split: option.splits)

lemma composite_None [simp]: "composite v fs = Ret None \<longleftrightarrow> list_all (\<lambda>f. f = Ret None) fs"
  using collect_Nil [of fs "[]"] by (auto simp: composite_def bindO_Ret_iff split: if_splits)

lemma validate_each_None:
  "validate_each v pointer validate name i xs = Ret None \<Longrightarrow> \<forall>m. \<not> va_IsZero v (pointer (Some m)) \<Longrightarrow> Some m \<in> set xs \<Longrightarrow>
     validate m = Ret None"
  by (induction v pointer validate name i xs rule: validate_each.induct)
    (auto simp: bindO_Ret_iff split: if_splits option.splits)

text \<open>Validation never panics: a pointer is dereferenced after the check that it is there.\<close>

lemma orderly_required [simp]: "orderly (required v path x)"
  by (simp add: required_def)

lemma orderly_checked:
  assumes "documented_checks v"
  shows "orderly (and_then (required v path (StringPointer p)) (bindO (deref p) (\<lambda>s. Ret (further s))))"
proof (cases p)
  case None
  then obtain e where "va_Required v path ''body'' (StringPointer p) = Some e" using checks(1) [OF assms] by blast
  then show ?thesis by (simp add: and_then_def required_def)
qed (simp add: and_then_def required_def split: option.splits)

lemma orderly_collect: "list_all orderly fs \<Longrightarrow> orderly (collect fs res)"
  by (induction fs arbitrary: res) (auto intro!: orderly_bindO)

lemma orderly_composite: "list_all orderly fs \<Longrightarrow> orderly (composite v fs)"
  unfolding composite_def by (intro orderly_bindO orderly_collect) auto

lemma orderly_validate_each: "(\<And>m. orderly (validate m)) \<Longrightarrow> orderly (validate_each v pointer validate name i xs)"
  by (induction v pointer validate name i xs rule: validate_each.induct) (auto intro!: orderly_bindO split: option.splits)

lemmas pool_validation_defs = NodePool_validateDiscountStrategy_def NodePool_validateInstanceTypes_def NodePool_validateMaxSize_def
  NodePool_validateMinSize_def NodePool_validateName_def NodePool_validateProfile_def

lemmas cluster_validation_defs = Cluster_validateAlias_def Cluster_validateAPIServerURL_def Cluster_validateChannel_def
  Cluster_validateCreatedAt_def Cluster_validateCriticalityLevel_def Cluster_validateEnvironment_def Cluster_validateID_def
  Cluster_validateInfrastructureAccount_def Cluster_validateLifecycleStatus_def Cluster_validateLocalID_def
  Cluster_validateProvider_def Cluster_validateRegion_def

lemmas account_validation_defs = Account_validateCostCenter_def Account_validateCriticalityLevel_def Account_validateEnvironment_def
  Account_validateExternalID_def Account_validateID_def Account_validateLifecycleStatus_def Account_validateName_def
  Account_validateOwner_def Account_validateType_def

lemma orderly_NodePool_Validate: "orderly (NodePool_Validate v m)"
  unfolding NodePool_Validate_def
  by (rule orderly_composite) (simp add: pool_validation_defs and_then_def required_def split: option.splits)

lemma orderly_Problem_Validate: "orderly (Problem_Validate v m)"
  unfolding Problem_Validate_def by (rule orderly_composite) (simp add: Problem_validateTitle_def Problem_validateType_def)

lemma orderly_validate_status: "orderly (validate_status v s)"
  by (auto simp: validate_status_def ClusterStatus_Validate_def ClusterStatus_validateProblems_def orderly_Problem_Validate
      intro!: orderly_bindO orderly_composite orderly_validate_each split: option.splits)

lemma orderly_Cluster_Validate:
  assumes "documented_checks v"
  shows "orderly (Cluster_Validate v m)"
proof -
  note checked = orderly_checked [OF assms]
  have "orderly (Cluster_validateNodePools v m)"
    by (auto simp: Cluster_validateNodePools_def intro!: orderly_validate_each orderly_NodePool_Validate)
  then show ?thesis unfolding Cluster_Validate_def
    by (intro orderly_composite) (simp add: cluster_validation_defs Cluster_validateLifecycleStatusEnum_def [abs_def] checked
        Cluster_validateStatus_def orderly_validate_status)
qed

theorem validation_never_panics:
  assumes "documented_checks v"
  shows "orderly (ListClustersOKBody_Validate v items)"
  by (auto simp: ListClustersOKBody_Validate_def ListClustersOKBody_validateItems_def orderly_Cluster_Validate [OF assms]
      intro!: orderly_composite orderly_validate_each)

text \<open>A validated model has every field that its conversion needs, up to what the document of the API leaves open.\<close>

lemma validated_pool:
  assumes v: "documented_checks v" and ok: "NodePool_Validate v m = Ret None"
  shows "complete_pool (Some m) \<and> nm_InstanceTypes m \<noteq> []"
proof -
  from ok have "va_MinItems v ''instance_types'' ''body'' (int (length (nm_InstanceTypes m))) 1 = None"
    by (simp add: NodePool_Validate_def NodePool_validateInstanceTypes_def)
  with checks(3) [OF v, of "int (length (nm_InstanceTypes m))" 1] have "\<not> int (length (nm_InstanceTypes m)) < 1" by blast
  then have "nm_InstanceTypes m \<noteq> []" by auto
  moreover have "complete_pool (Some m)" using ok
    unfolding NodePool_Validate_def complete_pool_def pool_validation_defs composite_None list.pred_inject
    by (blast dest: required_pointer [OF v])
  ultimately show ?thesis by blast
qed

lemma validated_problem:
  assumes v: "documented_checks v" and "Problem_Validate v m = Ret None"
  shows "complete_problem (Some m)"
  using assms(2) unfolding Problem_Validate_def complete_problem_def Problem_validateTitle_def Problem_validateType_def
    composite_None list.pred_inject
  by (blast dest: required_pointer [OF v])

lemma validated_status:
  assumes v: "documented_checks v" and ok: "validate_status v (Some s) = Ret None" and no: "None \<notin> set (ms_Problems s)"
  shows "list_all complete_problem (ms_Problems s)"
proof (cases "ms_Problems s = []")
  case False
  with v ok have each: "validate_each v ProblemPointer (Problem_Validate v) ''problems'' 0 (ms_Problems s) = Ret None"
    by (simp add: validate_status_def ClusterStatus_Validate_def ClusterStatus_validateProblems_def not_zero bindO_Ret_iff)
  have "complete_problem p" if "p \<in> set (ms_Problems s)" for p
  proof (cases p)
    case (Some q)
    with validate_each_None [OF each, of q] that show ?thesis using validated_problem [OF v] not_zero(2) [OF v] by simp
  qed (use that no in simp)
  then show ?thesis by (simp add: list_all_iff)
qed simp

lemma validated_pools:
  assumes v: "documented_checks v" and "Cluster_validateNodePools v m = Ret None" and "Some p \<in> set (cm_NodePools m)"
  shows "NodePool_Validate v p = Ret None"
proof -
  from assms(3) have "cm_NodePools m \<noteq> []" by auto
  with assms(2) not_zero(6) [OF v] have "validate_each v PoolPointer (NodePool_Validate v) ''node_pools'' 0 (cm_NodePools m) = Ret None"
    by (simp add: Cluster_validateNodePools_def)
  from validate_each_None [OF this _ assms(3)] not_zero(1) [OF v] show ?thesis by simp
qed

text \<open>What the document of the API does not rule out: null in place of a pool or a problem, and no status.\<close>

definition without_nulls :: "cluster_model option \<Rightarrow> bool" where
  "without_nulls p \<longleftrightarrow> (case p of
     None \<Rightarrow> False
   | Some m \<Rightarrow> None \<notin> set (cm_NodePools m) \<and> (case cm_Status m of None \<Rightarrow> False | Some s \<Rightarrow> None \<notin> set (ms_Problems s)))"

lemma validated_lifecycle:
  assumes v: "documented_checks v" and ok: "Cluster_validateLifecycleStatus v m = Ret None"
  shows "\<exists>s. cm_LifecycleStatus m = Some s \<and> s \<in> set clusterTypeLifecycleStatusPropEnum"
proof -
  from ok have "required v ''lifecycle_status'' (StringPointer (cm_LifecycleStatus m)) = Ret None"
    by (simp add: Cluster_validateLifecycleStatus_def)
  then obtain s where s: "cm_LifecycleStatus m = Some s" by (blast dest: required_pointer [OF v])
  with ok have "va_EnumCase v ''lifecycle_status'' ''body'' s clusterTypeLifecycleStatusPropEnum True = None"
    by (simp add: Cluster_validateLifecycleStatus_def Cluster_validateLifecycleStatusEnum_def)
  with checks(4) [OF v, of s clusterTypeLifecycleStatusPropEnum] s show ?thesis by blast
qed

lemma validated_cluster:
  assumes v: "documented_checks v" and ok: "Cluster_Validate v m = Ret None" and nulls: "without_nulls (Some m)"
  shows "complete_cluster (Some m) \<and> (\<forall>p \<in> set (cm_NodePools m). \<exists>n. p = Some n \<and> nm_InstanceTypes n \<noteq> [])"
proof -
  from nulls obtain s where s: "cm_Status m = Some s" "None \<notin> set (ms_Problems s)" and pools: "None \<notin> set (cm_NodePools m)"
    by (auto simp: without_nulls_def split: option.splits)
  from ok have each: "Cluster_validateNodePools v m = Ret None" "validate_status v (Some s) = Ret None"
      "Cluster_validateLifecycleStatus v m = Ret None"
    by (simp_all add: Cluster_Validate_def Cluster_validateStatus_def s(1))
  have p: "complete_pool p \<and> (\<exists>n. p = Some n \<and> nm_InstanceTypes n \<noteq> [])" if "p \<in> set (cm_NodePools m)" for p
  proof (cases p)
    case (Some n)
    with validated_pools [OF v each(1)] that validated_pool [OF v] show ?thesis by blast
  qed (use that pools in simp)
  have "list_all complete_problem (ms_Problems s)" by (rule validated_status [OF v each(2) s(2)])
  moreover have "cm_Alias m \<noteq> None" "cm_APIServerURL m \<noteq> None" "cm_Channel m \<noteq> None" "cm_CriticalityLevel m \<noteq> None"
      "cm_Environment m \<noteq> None" "cm_ID m \<noteq> None" "cm_InfrastructureAccount m \<noteq> None" "cm_LocalID m \<noteq> None"
      "cm_Provider m \<noteq> None" "cm_Region m \<noteq> None"
    using ok unfolding Cluster_Validate_def cluster_validation_defs composite_None list.pred_inject and_then_None
    by (blast dest: required_pointer [OF v])+
  moreover have "cm_LifecycleStatus m \<noteq> None" using validated_lifecycle [OF v each(3)] by blast
  ultimately show ?thesis using p s(1) by (simp add: complete_cluster_def list_all_iff del: not_None_eq)
qed

lemma validated_account:
  assumes v: "documented_checks v" and "Account_Validate v m = Ret None"
  shows "complete_account (Some m)"
proof -
  have "am_ID m \<noteq> None" "am_Name m \<noteq> None" "am_Owner m \<noteq> None"
    using assms(2) unfolding Account_Validate_def account_validation_defs composite_None list.pred_inject and_then_None
    by (blast dest: required_pointer [OF v])+
  then show ?thesis by (simp add: complete_account_def del: not_None_eq)
qed

lemma validated_accounts:
  assumes v: "documented_checks v" and "ListInfrastructureAccountsOKBody_Validate v items = Ret None" and "None \<notin> set items"
  shows "list_all complete_account items"
proof (cases "items = []")
  case False
  with assms(2) not_zero(9) [OF v] have each: "validate_each v AccountPointer (Account_Validate v) ''listInfrastructureAccountsOK.items'' 0 items = Ret None"
    by (simp add: ListInfrastructureAccountsOKBody_Validate_def ListInfrastructureAccountsOKBody_validateItems_def)
  have "complete_account p" if "p \<in> set items" for p
  proof (cases p)
    case (Some m)
    with validate_each_None [OF each, of m] that show ?thesis using validated_account [OF v] not_zero(5) [OF v] by simp
  qed (use that assms(3) in simp)
  then show ?thesis by (simp add: list_all_iff)
qed simp

lemma validated_items:
  assumes v: "documented_checks v" and "ListClustersOKBody_Validate v items = Ret None" and "Some m \<in> set items"
  shows "Cluster_Validate v m = Ret None"
proof -
  from assms(3) have "items \<noteq> []" by auto
  with assms(2) not_zero(8) [OF v] have "validate_each v ClusterPointer (Cluster_Validate v) ''listClustersOK.items'' 0 items = Ret None"
    by (simp add: ListClustersOKBody_Validate_def ListClustersOKBody_validateItems_def)
  from validate_each_None [OF this _ assms(3)] not_zero(4) [OF v] show ?thesis by simp
qed

lemma validated_body:
  assumes v: "documented_checks v" and i: "ListClustersOKBody_Validate v items = Ret None" "list_all without_nulls items"
  shows "list_all complete_cluster items"
proof -
  have "complete_cluster p" if p: "p \<in> set items" for p
  proof -
    from i(2) p have "without_nulls p" by (simp add: list_all_iff)
    then obtain m where "p = Some m" "without_nulls (Some m)" by (cases p) (auto simp: without_nulls_def)
    with validated_items [OF v i(1)] p validated_cluster [OF v] show ?thesis by blast
  qed
  then show ?thesis by (simp add: list_all_iff)
qed

text \<open>
  Bodies that decode to valid models without nulls describe complete objects: this is what the client needs
  of the decoders.
\<close>

definition decodes_valid :: "'e validation \<Rightarrow> consumer \<Rightarrow> bool" where
  "decodes_valid v cn \<longleftrightarrow>
     (\<forall>b items. read_payload (cn_Clusters cn b) = Inr items \<longrightarrow> ListClustersOKBody_Validate v items = Ret None \<and> list_all without_nulls items)
     \<and> (\<forall>b items. read_payload (cn_Accounts cn b) = Inr items \<longrightarrow>
          ListInfrastructureAccountsOKBody_Validate v items = Ret None \<and> None \<notin> set items)"

lemma valid_bodies_complete: "documented_checks v \<Longrightarrow> decodes_valid v cn \<Longrightarrow> decodes_complete cn"
  unfolding decodes_valid_def decodes_complete_def using validated_body validated_accounts by metis

section \<open>A registry whose answers are valid\<close>

text \<open>
  \<open>validated_registry v r\<close>: the calls of the client return values or errors, and the values pass the
  validation of their bodies and have no null and a status in every cluster.
\<close>

definition validated_registry :: "'e validation \<Rightarrow> 'w registry_client \<Rightarrow> bool" where
  "validated_registry v r \<longleftrightarrow> answers (rc_Token r) \<and> (\<forall>t. answers (rc_ListClusters r t)) \<and> (\<forall>t s. answers (rc_ListAccounts r t s))
     \<and> (\<forall>t w items w'. rc_ListClusters r t w = (Ret items, w') \<longrightarrow>
          ListClustersOKBody_Validate v items = Ret None \<and> list_all without_nulls items)
     \<and> (\<forall>t s w items w'. rc_ListAccounts r t s w = (Ret items, w') \<longrightarrow>
          ListInfrastructureAccountsOKBody_Validate v items = Ret None \<and> None \<notin> set items)"

lemma validated_listing:
  assumes v: "documented_checks v" and "validated_registry v r" and "rc_ListClusters r t w = (Ret items, w')" and "p \<in> set items"
  obtains m where "p = Some m" "Cluster_Validate v m = Ret None" "without_nulls (Some m)"
proof -
  have i: "ListClustersOKBody_Validate v items = Ret None" "list_all without_nulls items"
    using assms(2,3) unfolding validated_registry_def by blast+
  then have "without_nulls p" using assms(4) by (simp add: list_all_iff)
  then obtain m where "p = Some m" "without_nulls (Some m)" by (cases p) (auto simp: without_nulls_def)
  with validated_items [OF v i(1)] assms(4) that show thesis by blast
qed

lemma validated_registry_answers_completely:
  assumes v: "documented_checks v" and r: "validated_registry v r"
  shows "registry_answers r"
  unfolding registry_answers_def
proof (intro conjI allI impI)
  fix t w items w' assume "rc_ListClusters r t w = (Ret items, w')"
  then show "list_all complete_cluster items"
    using r validated_body [OF v] unfolding validated_registry_def by blast
next
  fix t s w items w' assume "rc_ListAccounts r t s w = (Ret items, w')"
  then show "list_all complete_account items" using r validated_accounts [OF v] unfolding validated_registry_def by blast
qed (use r in \<open>simp_all add: validated_registry_def\<close>)

lemma converted_pool_types:
  "convertFromNodePoolModel (Some n) = Ret q \<Longrightarrow> nm_InstanceTypes n \<noteq> [] \<Longrightarrow> np_InstanceType q \<in> set (np_InstanceTypes q)"
  by (auto simp: convertFromNodePoolModel_def bindO_Ret_iff split: list.splits)

lemma described_cluster:
  assumes v: "documented_checks v" and m: "Cluster_Validate v m = Ret None" "without_nulls (Some m)" and d: "describes (Some m) c"
  shows "cl_LifecycleStatus c \<in> set clusterTypeLifecycleStatusPropEnum"
    "np \<in> set (cl_NodePools c) \<Longrightarrow> np_InstanceType np \<in> set (np_InstanceTypes np)"
proof -
  from m(1) have "Cluster_validateLifecycleStatus v m = Ret None" by (simp add: Cluster_Validate_def)
  from validated_lifecycle [OF v this] d show "cl_LifecycleStatus c \<in> set clusterTypeLifecycleStatusPropEnum"
    by (auto simp: describes_def)
  assume "np \<in> set (cl_NodePools c)"
  moreover from d have "list_all2 (\<lambda>p q. convertFromNodePoolModel p = Ret q) (cm_NodePools m) (cl_NodePools c)"
    by (auto simp: describes_def mapO_Ret_iff)
  ultimately obtain p where p: "p \<in> set (cm_NodePools m)" "convertFromNodePoolModel p = Ret np"
    by (auto dest: list_all2_right)
  from validated_cluster [OF v m] p(1) obtain n where "p = Some n" "nm_InstanceTypes n \<noteq> []" by blast
  with p(2) show "np_InstanceType np \<in> set (np_InstanceTypes np)" by (simp add: converted_pool_types)
qed

text \<open>
  Claim C17. The validation generated from the document of the API is enough for the listing of the HTTP
  registry, if nothing in the answer is null and every cluster has a status: then the listing ends with the
  clusters or an error and never panics, and each of its clusters has one of the five lifecycle statuses and
  pools that know an instance type of their own.
\<close>

theorem validated_registry_listing:
  assumes "documented_checks v" and "validated_registry v r"
  shows "answers (http_ListClusters r f) \<and>
    (\<forall>w cs w' c. http_ListClusters r f w = (Ret cs, w') \<longrightarrow> c \<in> set cs \<longrightarrow>
       cl_LifecycleStatus c \<in> set clusterTypeLifecycleStatusPropEnum
       \<and> (\<forall>np \<in> set (cl_NodePools c). np_InstanceType np \<in> set (np_InstanceTypes np)))"
proof (intro conjI allI impI)
  show "answers (http_ListClusters r f)" by (rule http_ListClusters_answers [OF validated_registry_answers_completely [OF assms]])
  fix w cs w' c assume "http_ListClusters r f w = (Ret cs, w')" and c: "c \<in> set cs"
  from listing_copies [OF this(1)] obtain token w1 w2 items ordered where
      items: "rc_ListClusters r token w1 = (Ret items, w2)" and m: "mset ordered = mset items"
      and d: "list_all2 describes (filter (\<lambda>p. Includes f p = Ret True) ordered) cs" by blast
  from list_all2_right [OF d c] obtain p where p: "p \<in> set ordered" "describes p c" by auto
  from p(1) m have "p \<in> set items" by (metis set_mset_mset)
  from validated_listing [OF assms items this] p(2) obtain q where
    q: "Cluster_Validate v q = Ret None" "without_nulls (Some q)" "describes (Some q) c" by metis
  show "cl_LifecycleStatus c \<in> set clusterTypeLifecycleStatusPropEnum" by (rule described_cluster(1) [OF assms(1) q])
  show "\<forall>np \<in> set (cl_NodePools c). np_InstanceType np \<in> set (np_InstanceTypes np)"
    using described_cluster(2) [OF assms(1) q] by blast
qed

text \<open>Checks that do what is promised and no more.\<close>

definition sample_IsZero :: "checked \<Rightarrow> bool" where
  "sample_IsZero x = (case x of
     StringPointer p \<Rightarrow> p = None | IntPointer p \<Rightarrow> p = None | Text s \<Rightarrow> s = [] | Strings xs \<Rightarrow> xs = [] | DateTime t \<Rightarrow> t = 0
   | PoolPointer p \<Rightarrow> p = None | Pools ps \<Rightarrow> ps = [] | ProblemPointer p \<Rightarrow> p = None | Problems ps \<Rightarrow> ps = []
   | StatusPointer p \<Rightarrow> p = None | ClusterPointer p \<Rightarrow> p = None | Clusters ps \<Rightarrow> ps = []
   | AccountPointer p \<Rightarrow> p = None | Accounts ps \<Rightarrow> ps = [])"

definition sample_validation :: "string validation" where
  "sample_validation = \<lparr>va_Required = (\<lambda>path loc x. if sample_IsZero x then Some (path @ '' is required'') else None),
     va_Pattern = (\<lambda>_ _ _ _. None), va_FormatOf = (\<lambda>_ _ _ _. None),
     va_EnumCase = (\<lambda>path loc s allowed _. if s \<in> set allowed then None else Some (path @ '' should be one of '' @ join_with '', '' allowed)),
     va_MinItems = (\<lambda>path loc n k. if n < k then Some (path @ '' should have more items'') else None),
     va_UniqueItems = (\<lambda>path loc xs. if distinct xs then None else Some (path @ '' should not have duplicates'')),
     va_IsZero = sample_IsZero, va_AsValidation = (\<lambda>_. None), va_AsComposite = Some, va_ValidateName = (\<lambda>name e. name @ ''.'' @ e),
     va_CompositeValidationError = join_with ''; ''\<rparr>"

lemma sample_checks: "documented_checks sample_validation"
  by (simp add: documented_checks_def sample_validation_def sample_IsZero_def)

lemma sample_validated: "validated_registry sample_validation (sample_client :: unit registry_client)"
proof -
  have "ListClustersOKBody_Validate sample_validation [Some (sample_model ''new'' 7), Some (sample_model ''old'' 3)] = Ret None"
    "list_all without_nulls [Some (sample_model ''new'' 7), Some (sample_model ''old'' 3)]" by code_simp+
  moreover have "\<forall>items w'. rc_ListAccounts (sample_client :: unit registry_client) t s w = (Ret items, w') \<longrightarrow>
      ListInfrastructureAccountsOKBody_Validate sample_validation items = Ret None \<and> None \<notin> set items" for t s w
    by (simp add: sample_client_def ret_def) code_simp
  ultimately show ?thesis
    by (simp add: validated_registry_def answers_def) (simp add: sample_client_def ret_def)
qed

theorem validated_registry_listing_witness:
  "answers (http_ListClusters (sample_client :: unit registry_client) sample_filter)
    \<and> sample_listing \<noteq> [] \<and> list_all (\<lambda>c. cl_LifecycleStatus c \<in> set clusterTypeLifecycleStatusPropEnum) sample_listing"
proof -
  have "sample_listing \<noteq> []" by code_simp
  with validated_registry_listing [OF sample_checks sample_validated, of sample_filter] sample_listing_run show ?thesis
    unfolding list_all_iff by blast
qed

section \<open>Where a valid answer is not enough\<close>

lemma converted_pools:
  "list_all complete_pool ps \<Longrightarrow> \<forall>p \<in> set ps. \<exists>n. p = Some n \<and> nm_InstanceTypes n \<noteq> [] \<Longrightarrow>
     \<exists>qs. mapO convertFromNodePoolModel ps = Ret qs"
  by (induction ps) (auto simp: complete_pool_def convertFromNodePoolModel_def split: list.splits)

text \<open>
  The status of a cluster is optional in the document of the API, and a null pool passes the validation:
  without its status, or with a null among its pools, a valid cluster is still valid, and its conversion
  dereferences a nil pointer.
\<close>

lemma valid_cluster_panics:
  assumes v: "documented_checks v" and ok: "Cluster_Validate v m = Ret None" and nulls: "without_nulls (Some m)"
  shows "Cluster_Validate v (m\<lparr>cm_Status := None\<rparr>) = Ret None"
    "convertFromClusterModel (m\<lparr>cm_Status := None\<rparr>) = Panic ''nil pointer dereference''"
    "Cluster_Validate v (m\<lparr>cm_NodePools := [None]\<rparr>) = Ret None"
    "convertFromClusterModel (m\<lparr>cm_NodePools := [None]\<rparr>) = Panic ''nil pointer dereference''"
proof -
  from validated_cluster [OF assms] have c: "complete_cluster (Some m)"
    and "\<forall>p \<in> set (cm_NodePools m). \<exists>n. p = Some n \<and> nm_InstanceTypes n \<noteq> []" by blast+
  with converted_pools obtain qs where qs: "mapO convertFromNodePoolModel (cm_NodePools m) = Ret qs"
    by (auto simp: complete_cluster_def)
  show "Cluster_Validate v (m\<lparr>cm_Status := None\<rparr>) = Ret None" "Cluster_Validate v (m\<lparr>cm_NodePools := [None]\<rparr>) = Ret None"
    using ok by (auto simp: Cluster_Validate_def cluster_validation_defs Cluster_validateStatus_def Cluster_validateNodePools_def
        validate_status_def)
  show "convertFromClusterModel (m\<lparr>cm_Status := None\<rparr>) = Panic ''nil pointer dereference''"
    using c qs by (auto simp: convertFromClusterModel_def complete_cluster_def convertFromClusterStatusModel_def deref_def)
  show "convertFromClusterModel (m\<lparr>cm_NodePools := [None]\<rparr>) = Panic ''nil pointer dereference''"
    by (simp add: convertFromClusterModel_def convertFromNodePoolModel_def deref_def)
qed

section \<open>Validation in a context\<close>

text \<open>No field of the models depends on the context: this validation accepts every model.\<close>

lemma context_validate_each_accepts:
  "(\<And>m. validate m = Ret None) \<Longrightarrow> context_validate_each v pointer validate name i xs = Ret None"
  by (induction v pointer validate name i xs rule: context_validate_each.induct) (auto split: option.splits)

lemma context_validate_status_accepts: "context_validate_status v s = Ret None"
proof -
  have "ClusterStatus_ContextValidate v m = Ret None" for m
    by (simp add: ClusterStatus_ContextValidate_def ClusterStatus_contextValidateProblems_def Problem_ContextValidate_def
        context_validate_each_accepts)
  then show ?thesis by (simp add: context_validate_status_def split: option.splits)
qed

lemma context_validation_accepts:
  "Cluster_ContextValidate v m = Ret None" "ClusterUpdate_ContextValidate v u = Ret None"
  "ListClustersOKBody_ContextValidate v items = Ret None" "ListInfrastructureAccountsOKBody_ContextValidate v as = Ret None"
proof -
  show cluster: "Cluster_ContextValidate v m = Ret None" for m
    by (simp add: Cluster_ContextValidate_def Cluster_contextValidateNodePools_def Cluster_contextValidateStatus_def
        context_validate_status_accepts context_validate_each_accepts NodePool_ContextValidate_def)
  show "ClusterUpdate_ContextValidate v u = Ret None"
    by (simp add: ClusterUpdate_ContextValidate_def ClusterUpdate_contextValidateStatus_def context_validate_status_accepts)
  show "ListClustersOKBody_ContextValidate v items = Ret None"
    by (simp add: ListClustersOKBody_ContextValidate_def ListClustersOKBody_contextValidateItems_def cluster context_validate_each_accepts)
  show "ListInfrastructureAccountsOKBody_ContextValidate v as = Ret None"
    by (simp add: ListInfrastructureAccountsOKBody_ContextValidate_def ListInfrastructureAccountsOKBody_contextValidateItems_def
        Account_ContextValidate_def context_validate_each_accepts)
qed

end
