(* ===== verification/Kube_Setup.thy ===== *)
theory Kube_Setup
  imports Kube_Client File_System
begin

text \<open>
  Setting up the Kubernetes clients (\<open>pkg/kubernetes/kubernetes.go\<close>, \<open>kubectl_apply.go\<close>): the configuration
  of a connection, the collection of clients, the applier with its caches on disk and the schema it
  fetches once. What client-go makes of a configuration is a field of a record.
\<close>

section \<open>Connections\<close>

text \<open>The token source of a connection is its name here; the transport asks it for every request.\<close>

record 't rest_config =
  rf_Host :: string
  rf_TokenSource :: 't
  rf_Burst :: int
  rf_CAData :: string

definition newConfig :: "string \<Rightarrow> 't \<Rightarrow> string \<Rightarrow> 't rest_config" where
  "newConfig host tokenSrc ca = \<lparr>rf_Host = host, rf_TokenSource = tokenSrc, rf_Burst = 100,
     rf_CAData = (if length ca > 0 then ca else [])\<rparr>"

definition NewConfigFromHost :: "string \<Rightarrow> 't \<Rightarrow> string \<Rightarrow> 't rest_config" where
  "NewConfigFromHost host tokenSrc ca = newConfig host tokenSrc ca"

record ('t, 'k, 'd, 'm, 's, 'w) client_go =
  cg_NewForConfig :: "'t rest_config \<Rightarrow> go_error + 'k"
  cg_NewDynamic :: "'t rest_config \<Rightarrow> go_error + 'd"
  cg_NewMapper :: "'k \<Rightarrow> 'm"
  cg_MkdirTemp :: "string \<Rightarrow> ('w, path) io"
  cg_NewCachedDiscovery :: "'t rest_config \<Rightarrow> path \<Rightarrow> path \<Rightarrow> int \<Rightarrow> go_error + 'd"
  cg_DiscoveryMapper :: "'d \<Rightarrow> 'm"
  cg_ParseSchema :: "'d \<Rightarrow> ('w, 's) io"

record ('k, 'd, 'm) clients_collection =
  ck_TypedClient :: 'k
  ck_DynamicClient :: 'd
  ck_Mapper :: 'm

definition NewClientsCollection :: "('t, 'k, 'd, 'm, 's, 'w) client_go \<Rightarrow> string \<Rightarrow> 't \<Rightarrow> string \<Rightarrow> go_error + ('k, 'd, 'm) clients_collection" where
  "NewClientsCollection cg host tokenSrc caData =
     (let cfg = newConfig host tokenSrc caData in
      case cg_NewForConfig cg cfg of
        Inl e \<Rightarrow> Inl e
      | Inr typedClient \<Rightarrow>
          (case cg_NewDynamic cg cfg of
             Inl e \<Rightarrow> Inl e
           | Inr dynamicClient \<Rightarrow>
               Inr \<lparr>ck_TypedClient = typedClient, ck_DynamicClient = dynamicClient, ck_Mapper = cg_NewMapper cg typedClient\<rparr>))"

text \<open>Watching a kind: the stream is opened by the dynamic client, as \<open>watch\<close>.\<close>

definition kube_Watch :: "'w clients \<Rightarrow> (gvr \<Rightarrow> string \<Rightarrow> string \<Rightarrow> ('w, 's) io) \<Rightarrow> string \<Rightarrow> string \<Rightarrow> string \<Rightarrow> ('w, 's) io" where
  "kube_Watch c watch kind namespace opts = bindE (getResourceClient c kind namespace) (\<lambda>(g, ns). watch g ns opts)"

section \<open>The applier\<close>

text \<open>The schema is fetched at most once; \<open>None\<close> is the state before.\<close>

record ('t, 'k, 'd, 'm, 's) applier_state =
  as_restConfig :: "'t rest_config"
  as_discovery :: 'd
  as_kubeClient :: 'k
  as_maxRetries :: nat
  as_mapper :: 'm
  as_openAPI :: "'s outcome option"

definition NewApplier :: "('t, 'k, 'd, 'm, 's, 'w) client_go \<Rightarrow> 't rest_config \<Rightarrow> nat \<Rightarrow> ('w, ('t, 'k, 'd, 'm, 's) applier_state) io" where
  "NewApplier cg restConfig maxRetries =
     bindE (cg_MkdirTemp cg ''discovery-cache'') (\<lambda>discoveryCacheDir.
     bindE (cg_MkdirTemp cg ''http-cache'') (\<lambda>httpCacheDir.
     case cg_NewCachedDiscovery cg restConfig discoveryCacheDir httpCacheDir (5 * minute) of
       Inl e \<Rightarrow> fail e
     | Inr discoveryInterface \<Rightarrow>
         (case cg_NewForConfig cg restConfig of
            Inl e \<Rightarrow> fail e
          | Inr client \<Rightarrow> ret \<lparr>as_restConfig = restConfig, as_discovery = discoveryInterface, as_kubeClient = client,
              as_maxRetries = maxRetries, as_mapper = cg_DiscoveryMapper cg discoveryInterface, as_openAPI = None\<rparr>)))"

definition OpenAPISchema :: "('t, 'k, 'd, 'm, 's, 'w) client_go \<Rightarrow> (('t, 'k, 'd, 'm, 's) applier_state \<times> 'w, 's) io" where
  "OpenAPISchema cg s = (case as_openAPI (fst s) of
     Some r \<Rightarrow> (r, s)
   | None \<Rightarrow> (let (r, w') = cg_ParseSchema cg (as_discovery (fst s)) (snd s) in (r, ((fst s)\<lparr>as_openAPI := Some r\<rparr>, w'))))"

section \<open>Properties\<close>

text \<open>
  A call after the first gives the answer of the first and asks nobody, also when that was an error:
  an applier whose first request for the schema failed fails to validate for the rest of its life.
\<close>

lemma schema_fetched_once:
  assumes "OpenAPISchema cg (d, w) = (r, (d', w'))"
  shows "OpenAPISchema cg (d', v) = (r, (d', v))"
  using assms by (auto simp: OpenAPISchema_def Let_def split: option.splits prod.splits)

text \<open>Caches are made before anything that can fail, and stay when it does.\<close>

lemma caches_made_first:
  assumes "cg_MkdirTemp cg ''discovery-cache'' w = (Ret p, w1)" and "cg_MkdirTemp cg ''http-cache'' w1 = (Ret q, w2)"
  shows "snd (NewApplier cg cfg n w) = w2"
  using assms by (auto simp: NewApplier_def bindE_def ret_def fail_def split: sum.splits)

end
