(* ===== verification/Spec2Isabelle.thy ===== *)
theory Spec2Isabelle
  imports Template_Values Clm_Wiring Model_Validation Kube_Setup
begin

text \<open>
  The Cluster Lifecycle Manager: it keeps the Kubernetes clusters that a registry lists in the state
  that the channels of a configuration repository describe, on AWS.

  \<^bold>\<open>The program and its parts.\<close> The command line (\<open>cmd/clm/main.go\<close>) sets up configuration sources,
  tokens, the registry and the provisioners, and runs either the controller or one command. The
  controller (\<open>controller/\<close>) refreshes its list of clusters from the registry (\<open>registry/\<close>, on the
  generated client in \<open>pkg/cluster-registry/\<close>) and the configuration source (\<open>channel/\<close>), and its
  workers take the cluster with the highest priority, check out its configuration and hand it to a
  provisioner (\<open>provisioner/\<close>). A provisioner renders templates, applies CloudFormation stacks and
  Kubernetes manifests (\<open>pkg/kubernetes/\<close>), provisions node pools and replaces their nodes with an
  update strategy (\<open>pkg/updatestrategy/\<close>) on one of two backends. The result goes back to the registry.

  \<^bold>\<open>Conventions.\<close> A Go function that touches the outside world is a computation \<open>('w, 'a) io\<close>: it takes the
  world and returns an outcome and the next world. The outcome is a value, an error, a panic (also
  \<open>log.Fatalf\<close>), or the end of the fuel of a loop. Code outside the repository (the AWS SDK, client-go,
  go-git, go-openapi, the flag library, the retry helper, YAML and the text of JSON, digests, X.509, the template parser, regular
  expressions of the account filter) is a field of a record, with what is needed of it as named
  hypotheses; the parts of Go's standard library that matter to a property are defined. Structs are
  records, a pointer that may be nil is an option, a map is an association list with distinct keys
  whose order is the order of iteration, a nil map is the empty map. Sorting with \<open>sort.Slice\<close> is stable
  here. Strings are bytes. Integers are mathematical where they count things, and wrap at 64 bits or
  are words where the code can reach the bound. The goroutines of an error group run one after the
  other, in order; the interleaving of the controller's workers is a step relation. Changes that a
  provisioner made to its copy of a cluster before an error are given up with it. Logging is left out.

  \<^bold>\<open>Theories.\<close>
  \<^item> \<open>Clm_Prelude\<close>, \<open>Go_Lib\<close>, \<open>Go_Net\<close>, \<open>Go_Base64\<close>: errors, outcomes and world-passing computations; the
    functions of \<open>strings\<close>, \<open>strconv\<close>, \<open>net\<close>, \<open>sort\<close> and \<open>encoding/base64\<close>; the locale \<open>choice\<close> for picking a
    best element and sorting, interpreted wherever the program orders something.
  \<^item> \<open>Api_Cluster\<close> (\<open>api/\<close>): clusters, node pools, versions, channel overrides, OIDC providers. The
    version of a cluster covers every attribute that is hashed, as far as the lengths of the pieces written
    without separators do not cancel out; overrides read back what is written.
  \<^item> \<open>Cluster_List\<close>, \<open>Controller\<close> (\<open>controller/\<close>): the cluster list with its shared objects, priorities,
    selection; processing and reporting; refresher and workers as the step relation \<open>ctl_step\<close>. A
    cluster is never processed twice at once, a refresh stores what the registry answered and the pending
    list is exactly what needs an update, by its priority now;
    lifecycle transitions are legal, successful updates settle, problem lists are bounded.
  \<^item> \<open>File_System\<close>, \<open>Git_Checkout\<close>, \<open>Git_Source\<close>, \<open>Channel\<close> (\<open>channel/\<close>): a file system with symbolic links;
    checking out a tree without leaving its directory; the mirror of a repository, its updates and the
    cleaning of its working directory; configurations in a directory, combined sources, the version cache,
    which is transparent for sources that only read when they are asked for a version, as these do.
  \<^item> \<open>Registry\<close>, \<open>Registry_Client\<close>, \<open>Registry_Operations\<close> (\<open>registry/\<close>, \<open>pkg/cluster-registry/client/\<close>):
    conversions between models and clusters, listings of the HTTP, file and static registries, the operations
    of the generated client with their requests and responses. The locale \<open>config_store\<close> is what storing
    config items promises; the locale \<open>api_operation\<close>, interpreted on each of the seventeen operations, gives
    that no operation panics and what its success means. Every request sets exactly the parameters of its path.
  \<^item> \<open>Model_JSON\<close>, \<open>Model_Validation\<close> (\<open>pkg/cluster-registry/models/\<close>): the JSON methods of a problem, which every
    listing and every status update runs, with their round trip; the validation generated from the document
    of the API, which answers of the registry it would make safe to convert, and which panic nevertheless.
  \<^item> \<open>Credentials\<close> (\<open>pkg/credentials-loader/\<close>, \<open>provisioner/jwks.go\<close>): tokens in files, key documents.
  \<^item> \<open>Template_Render\<close>, \<open>Template_Funcs\<close>, \<open>Template_Values\<close> (\<open>provisioner/template.go\<close>): the template context
    with its cache, refined from an inductive meaning of templates; the functions templates call.
  \<^item> \<open>Instance_Info\<close>, \<open>Subnets\<close>, \<open>AWS_Stacks\<close> (\<open>pkg/aws/\<close>, \<open>provisioner/aws.go\<close>, \<open>aws_az.go\<close>): instance types, the choice of
    subnets, the operations on stacks with their waiting loops.
  \<^item> \<open>Kube_Client\<close>, \<open>Kube_Setup\<close> (\<open>pkg/kubernetes/\<close>): resolving kinds, operations on resources, deletions,
    manifests; the clients and the applier with its caches. A
    deletion is refined to the removal of a set of objects.
  \<^item> \<open>Node_Pool_Backend\<close>, \<open>Node_Pool_Manager\<close>, \<open>Update_Strategy\<close>, \<open>ASG_Backend\<close>, \<open>EC2_Backend\<close>
    (\<open>pkg/updatestrategy/\<close>): the interfaces as records; the locale \<open>polling\<close> for waiting loops, the locales
    \<open>node_pool_manager\<close> and \<open>update_strategy\<close> with interpretations on the manager and on both strategies;
    draining and its guards, stated over all runs: what is not guarded has the same result and effects with
    any other termination or deletion, that is, does not call it; both backends.
  \<^item> \<open>Pool_Provisioner\<close>, \<open>Cluster_Config\<close>, \<open>Clusterpy\<close>, \<open>Providers\<close> (\<open>provisioner/node_pools.go\<close>,
    \<open>remote_files.go\<close>, \<open>clusterpy.go\<close>, \<open>zalando_aws.go\<close>, \<open>zalando_eks.go\<close>): node pools and their files, config items,
    provisioning and decommissioning in their order, the two kinds of clusters behind the locale
    \<open>provisioner_contract\<close>.
  \<^item> \<open>Clm_Main\<close>, \<open>Clm_Wiring\<close> (\<open>cmd/clm/main.go\<close>, \<open>config/config.go\<close>): configuration sources and tokens from the
    command line, the commands; the flags with their defaults and how the parts are put together from them.
    The providers that the flags allow are those that have a provisioner.
  \<^item> This theory has the properties of the parts together.

  \<^bold>\<open>Bounds.\<close> Loops that end on a deadline have fuel, and their theorems show that the fuel is enough:
  100 looks at a stack for its maximum of 25 minutes at 15 seconds, 61 requests to an API server within
  15 minutes, 60 looks at a pool of nodes within its operation timeout. Rendering has depth 2, which the
  guard against nested hashes never exceeds. Resolving a path follows at most 40 links, as Linux does.
  Update loops of a strategy without a deadline have fuel as a parameter, and their theorems say what
  success means; Karpenter's decommissioning also succeeds when the instances disappear.

  \<^bold>\<open>Not modelled.\<close> The splitting of the command line is the flag library's; the health server and the signal
  handler are I/O. Constructors of clients (\<open>newAWSAdapter\<close>, \<open>NewControllerClient\<close>) only configure libraries. Of
  the generated client in \<open>pkg/cluster-registry/client/\<close> the setters of parameters (\<open>With...\<close>, \<open>Set...\<close>), which
  store one field, and the predicates on responses (\<open>IsSuccess\<close>, \<open>IsCode\<close>, ...), which compare a constant,
  are left out: nothing calls them but the setters that the model of the HTTP registry writes as updates of
  the parameters. \<open>pkg/aws/iface\<close> has interfaces only; test helpers
  (\<open>test_util.go\<close>, \<open>mock_source.go\<close>) are not part of the program. Contexts are modelled where a loop
  looks at them, as a function of the world.
\<close>

section \<open>The controller with the HTTP registry\<close>

lemma dropUnsupported_subset: "set (dropUnsupported c xs) \<subseteq> set xs"
  by (induction xs) auto

lemma listed_have_status:
  assumes "http_ListClusters r f w = (Ret cs, w')" and "c \<in> set cs"
  shows "cl_Status c \<noteq> None"
proof -
  from assms(1) obtain token w1 items w2 ordered accounts result where
      "convert_loop f accounts ordered [] = Ret result"
      and cs: "init_accounts (rc_URLHost r) (rc_MarshalPolicy r) result = Inr cs"
    by (auto simp: http_ListClusters_def from_outcome_Ret from_sum_Ret)
  then obtain ps where "list_all2 describes ps result" using convert_loop_describes by fastforce
  with init_accounts_result [OF cs] have "list_all2 describes ps cs" by (auto intro: describes_all)
  with assms(2) obtain p where "describes p c" by (auto simp: list_all2_conv_all_nth in_set_conv_nth)
  then show ?thesis by (auto simp: describes_def)
qed

lemma orderly_bindE:
  assumes "orderly (fst (m w))" and "\<And>x w'. m w = (Ret x, w') \<Longrightarrow> orderly (fst (f x w'))"
  shows "orderly (fst (bindE m f w))"
proof -
  obtain q w' where "m w = (q, w')" by fastforce
  with assms show ?thesis by (cases q) (auto simp: bindE_def)
qed

text \<open>
  The answers that a listing of clusters from the world \<open>w\<close> on gets are incomplete: a cluster among the
  clusters it receives, or else an account among the accounts it then receives, is null or lacks
  something that the conversion dereferences.
\<close>

definition incomplete_listing :: "'w registry_client \<Rightarrow> 'w \<Rightarrow> bool" where
  "incomplete_listing r w \<longleftrightarrow> (\<exists>token w1 items w2. rc_Token r w = (Ret token, w1) \<and> rc_ListClusters r token w1 = (Ret items, w2)
     \<and> (\<not> list_all complete_cluster items
        \<or> (\<exists>token' w3 accounts w4. rc_Token r w2 = (Ret token', w3) \<and> rc_ListAccounts r token' ''ready'' w3 = (Ret accounts, w4)
             \<and> \<not> list_all complete_account accounts)))"

lemma complete_listing_answers:
  assumes calls: "answers (rc_Token r)" "\<And>t. answers (rc_ListClusters r t)" "\<And>t s. answers (rc_ListAccounts r t s)"
    and complete: "\<not> incomplete_listing r w"
  shows "orderly (fst (http_ListClusters r f w))"
  unfolding http_ListClusters_def
proof (rule orderly_bindE)
  show "orderly (fst (rc_Token r w))" using calls(1) by (simp add: answers_def)
  fix t w1 assume token: "rc_Token r w = (Ret t, w1)"
  show "orderly (fst (bindE (rc_ListClusters r t) (\<lambda>items. bindE (from_outcome (sort_created items)) (\<lambda>ordered.
      bindE (getReadyInfrastructureAccounts r) (\<lambda>accounts. bindE (from_outcome (convert_loop f accounts ordered [])) (\<lambda>result.
      from_sum (init_accounts (rc_URLHost r) (rc_MarshalPolicy r) result))))) w1))"
  proof (rule orderly_bindE)
    show "orderly (fst (rc_ListClusters r t w1))" using calls(2) by (simp add: answers_def)
    fix items w2 assume clusters: "rc_ListClusters r t w1 = (Ret items, w2)"
    have "list_all complete_cluster items" using complete token clusters unfolding incomplete_listing_def by blast
    then have "\<exists>ordered. sort_created items = Ret ordered \<and> list_all complete_cluster ordered"
      by (auto simp: sort_created_def list_all_iff complete_cluster_def)
    then obtain ordered where ordered: "sort_created items = Ret ordered" "list_all complete_cluster ordered" by blast
    have got: "\<exists>m. accounts_loop as [] = Ret m \<and> (\<forall>i a. m_get m i = Some a \<longrightarrow> am_Owner a \<noteq> None \<and> am_Name a \<noteq> None)"
      if "rc_Token r w2 = (Ret t', w3)" "rc_ListAccounts r t' ''ready'' w3 = (Ret as, w4)" for t' w3 "as" w4
    proof -
      have "list_all complete_account as" using complete token clusters that unfolding incomplete_listing_def by blast
      from accounts_loop_complete [OF this, of "[]"] show ?thesis by simp
    qed
    have "orderly (fst (getReadyInfrastructureAccounts r w2))"
      unfolding getReadyInfrastructureAccounts_def using calls(1,3) got
      by (intro orderly_bindE) (fastforce simp: answers_def from_outcome_def)+
    moreover have "\<forall>i a. m_get m i = Some a \<longrightarrow> am_Owner a \<noteq> None \<and> am_Name a \<noteq> None"
      if "getReadyInfrastructureAccounts r w2 = (Ret m, w3)" for m w3
      using that got by (fastforce simp: getReadyInfrastructureAccounts_def from_outcome_Ret)
    ultimately have "orderly (fst (bindE (getReadyInfrastructureAccounts r) (\<lambda>accounts.
        bindE (from_outcome (convert_loop f accounts ordered [])) (\<lambda>result.
        from_sum (init_accounts (rc_URLHost r) (rc_MarshalPolicy r) result))) w2))"
      using orderly_convert_loop [OF ordered(2)] answers_from_sum [unfolded answers_def, rule_format]
      by (intro orderly_bindE) (auto simp: from_outcome_def answers_def)
    then show "orderly (fst (bindE (from_outcome (sort_created items)) (\<lambda>ordered.
        bindE (getReadyInfrastructureAccounts r) (\<lambda>accounts. bindE (from_outcome (convert_loop f accounts ordered [])) (\<lambda>result.
        from_sum (init_accounts (rc_URLHost r) (rc_MarshalPolicy r) result)))) w2))"
      by (simp add: ordered(1) from_outcome_def bindE_def)
  qed
qed

lemma registry_answers_complete: "registry_answers r \<Longrightarrow> \<not> incomplete_listing r w"
  unfolding registry_answers_def incomplete_listing_def by blast

text \<open>A refresh does not panic as long as the listing in it does not, and its lists are well-formed.\<close>

lemma refresh_list_ok:
  assumes "refresh c l w = (Ret l', w')" and "list_ok l"
  shows "list_ok l' \<and> pending_ok l'"
proof -
  from assms(1) obtain cs v where "UpdateAvailable (ct_configSource c) (ct_versionID c) (ct_digest c) (ct_accountFilter c)
      (dropUnsupported c cs) l v = (Ret l', w')" by (auto simp: refresh_def)
  from UpdateAvailable_spec [OF this assms(2)] show ?thesis by simp
qed

lemma refresh_orderly:
  assumes "ct_registry c = http_registry r" and "list_ok l"
    and "answers (cs_Update (ct_configSource c))" and "\<And>ch ov. answers (cs_Version (ct_configSource c) ch ov)"
    and listed: "\<And>w0. cs_Update (ct_configSource c) w = (Ret (), w0)
      \<Longrightarrow> orderly (fst (http_ListClusters r \<lparr>ft_LifecycleStatus = None, ft_Providers = ct_providers c\<rparr> w0))"
  shows "orderly (fst (refresh c l w))"
proof -
  let ?src = "ct_configSource c"
  let ?list = "http_ListClusters r \<lparr>ft_LifecycleStatus = None, ft_Providers = ct_providers c\<rparr>"
  have version: "\<exists>q v'. cs_Version ?src ch ov v = (q, v') \<and> (\<exists>x. q = Ret x \<or> (\<exists>e. q = Fail e))" for ch ov v
    using assms(4) [of ch ov] by (cases "cs_Version ?src ch ov v"; cases "fst (cs_Version ?src ch ov v)") (auto simp: answers_def dest: spec [of _ v])
  have update: "\<exists>l' v'. UpdateAvailable ?src (ct_versionID c) (ct_digest c) (ct_accountFilter c) (dropUnsupported c cs) l v = (Ret l', v')"
    if "?list u = (Ret cs, u')" for cs u u' v
  proof -
    have "cl_Status x \<noteq> None" if "x \<in> set (dropUnsupported c cs)" for x
      using listed_have_status [OF \<open>?list u = (Ret cs, u')\<close>] that dropUnsupported_subset [of c cs] by blast
    from UpdateAvailable_returns [OF assms(2) this version] show ?thesis .
  qed
  have list: "rg_ListClusters (ct_registry c) (ct_providers c) = ?list" by (simp add: assms(1) http_registry_def)
  show ?thesis
    unfolding refresh_def list
  proof (intro orderly_bindE)
    show "orderly (fst (cs_Update ?src w))" using assms(3) by (simp add: answers_def)
    fix x w0 assume "cs_Update ?src w = (Ret x, w0)"
    then show "orderly (fst (?list w0))" using listed by simp
  next
    fix cs w0 w1 assume "?list w0 = (Ret cs, w1)"
    from update [OF this] obtain l' v' where
      "UpdateAvailable ?src (ct_versionID c) (ct_digest c) (ct_accountFilter c) (dropUnsupported c cs) l w1 = (Ret l', v')" by blast
    then show "orderly (fst (UpdateAvailable ?src (ct_versionID c) (ct_digest c) (ct_accountFilter c) (dropUnsupported c cs) l w1))" by simp
  qed
qed

section \<open>The sources and tokens of the program\<close>

text \<open>The calls of the git library return values or errors.\<close>

definition git_answers :: "('x, 'a, 'p) git_lib \<Rightarrow> bool" where
  "git_answers lib \<longleftrightarrow> (\<forall>u k. answers (gl_PublicKeys lib u k)) \<and> (\<forall>d u a. answers (gl_PlainClone lib d u a))
     \<and> (\<forall>d. answers (gl_PlainOpen lib d)) \<and> (\<forall>p a. answers (gl_Fetch lib p a)) \<and> (\<forall>p n. answers (gl_Remote lib p n))
     \<and> (\<forall>p a. answers (gl_List lib p a)) \<and> (\<forall>p t. answers (gl_SetHEAD lib p t)) \<and> (\<forall>p v. answers (gl_ResolveRevision lib p v))"

lemma answers_tryE:
  assumes "answers m" and "\<And>e. answers (h e)" and "\<And>x. answers (f x)"
  shows "answers (tryE m h f)"
  unfolding answers_def
proof
  fix w
  obtain q v where q: "m w = (q, v)" by (cases "m w")
  then show "orderly (fst (tryE m h f w))"
    using assms by (cases q) (auto simp: tryE_def answers_def dest: spec [of _ w])
qed

lemma answers_fail [simp]: "answers (fail e)"
  by (simp add: answers_def fail_def)

lemma answers_on_fs [simp]: "answers (on_fs r)"
  by (auto simp: answers_def on_fs_def split: sum.splits)

lemma answers_on_target: "answers m \<Longrightarrow> answers (on_target m)"
  unfolding answers_def
proof
  fix s assume "\<forall>w. orderly (fst (m w))"
  then show "orderly (fst (on_target m s))" by (cases "m (snd s)") (auto simp: on_target_def dest: spec [of _ "snd s"])
qed

lemmas answers_intros = answers_tryE answers_bindE answers_ret answers_fail answers_on_fs answers_on_target

lemma git_auth_answers: "git_answers lib \<Longrightarrow> answers (git_auth lib g)"
  unfolding git_auth_def Let_def by (simp, intro conjI impI answers_intros) (simp_all add: git_answers_def)

lemma set_head_answers: "git_answers lib \<Longrightarrow> answers (set_head lib repo refs)"
  by (induction refs) (auto simp: git_answers_def split: option.splits)

lemma syncMirrorHEAD_answers: "git_answers lib \<Longrightarrow> answers (syncMirrorHEAD lib g repo)"
  unfolding syncMirrorHEAD_def by (intro answers_intros git_auth_answers set_head_answers) (auto simp: git_answers_def)

lemma git_Update_answers: "git_answers lib \<Longrightarrow> answers (git_Update lib g)"
  unfolding git_Update_def
  by (intro answers_intros git_auth_answers syncMirrorHEAD_answers) (auto simp: git_answers_def intro: answers_intros)

lemma git_Version_answers: "git_answers lib \<Longrightarrow> answers (git_Version lib g ch ov)"
  unfolding git_Version_def by (intro answers_intros) (auto simp: git_answers_def)

lemma source_ops_answers:
  assumes "git_answers lib"
  shows "answers (cs_Update (source_ops lib s))" "answers (cs_Version (source_ops lib s) ch ov)"
  using assms
  by (cases s; auto simp: directory_source_def git_config_source_def intro!: answers_intros git_Update_answers git_Version_answers)+

lemma combined_answers:
  assumes "\<And>s. s \<in> set ss \<Longrightarrow> answers (cs_Update s) \<and> (\<forall>ch ov. answers (cs_Version s ch ov))"
  shows "answers (combined_Update ss)" "answers (combined_Version ss ch ov)"
  using assms by (induction ss) (auto intro!: answers_intros)

lemma root_source_answers:
  assumes "git_answers lib"
  shows "answers (cs_Update (root_source lib r))" "answers (cs_Version (root_source lib r) ch ov)"
  using source_ops_answers [OF assms]
  by (cases r; auto simp: combined_source_def Let_def intro!: answers_intros combined_answers)+

text \<open>
  The sources of the program only read when they are asked for a version, if opening a repository and
  resolving a revision in it do; so the cache in front of them is transparent.
\<close>

lemma quiet_bindE: "(\<And>w. snd (m w) = w) \<Longrightarrow> (\<And>x w. snd (f x w) = w) \<Longrightarrow> snd (bindE m f w) = w"
proof -
  assume m: "\<And>w. snd (m w) = w" and f: "\<And>x w. snd (f x w) = w"
  obtain q where "m w = (q, w)" using m by (metis prod.collapse)
  then show ?thesis using f by (cases q) (simp_all add: bindE_def)
qed

lemma quiet_tryE:
  "(\<And>w. snd (m w) = w) \<Longrightarrow> (\<And>e w. snd (h e w) = w) \<Longrightarrow> (\<And>x w. snd (f x w) = w) \<Longrightarrow> snd (tryE m h f w) = w"
proof -
  assume m: "\<And>w. snd (m w) = w" and f: "\<And>e w. snd (h e w) = w" "\<And>x w. snd (f x w) = w"
  obtain q where "m w = (q, w)" using m by (metis prod.collapse)
  then show ?thesis using f by (cases q) (simp_all add: tryE_def)
qed

lemma root_source_reading:
  assumes "\<And>d w. snd (gl_PlainOpen lib d w) = w" and "\<And>p v w. snd (gl_ResolveRevision lib p v w) = w"
  shows "reading (root_source lib r)"
proof -
  have one: "reading (source_ops lib s)" for s
    using assms by (cases s) (auto simp: reading_def directory_source_def git_config_source_def git_Version_def ret_def fail_def
        intro!: quiet_bindE quiet_tryE)
  then have "reading (combined_source (map (source_ops lib) ss))" for ss by (intro combined_reading) auto
  with one show ?thesis
    by (cases r) (auto simp: reading_def Let_def ret_def intro!: quiet_bindE)
qed

lemma root_source_cached:
  assumes "\<And>d w. snd (gl_PlainOpen lib d w) = w" and "\<And>p v w. snd (gl_ResolveRevision lib p v w) = w"
    and "\<And>ch ov. CallVersion ch ov \<in> set cs \<Longrightarrow> no_nul ch ov"
  shows "fst (calls (caching_source (root_source lib r)) cs ([], w)) = fst (calls (root_source lib r) cs w)"
proof -
  have "cache_valid (root_source lib r) [] w" by (simp add: cache_valid_def)
  from caching_calls [OF root_source_reading [OF assms(1,2)] this, of cs] assms(3)
  obtain cache' where "calls (caching_source (root_source lib r)) cs ([], w)
      = (fst (calls (root_source lib r) cs w), (cache', snd (calls (root_source lib r) cs w)))" by blast
  then show ?thesis by simp
qed

lemma caching_answers:
  assumes "answers (cs_Update target)" and "\<And>ch ov. answers (cs_Version target ch ov)"
  shows "answers (cs_Update (caching_source target))" "answers (cs_Version (caching_source target) ch ov)"
proof -
  show "answers (cs_Update (caching_source target))"
    by (simp add: answers_def caching_source_def caching_Update_def answers_on_target [OF assms(1), unfolded answers_def, rule_format])
  have "answers (bindE (on_target (cs_Version target ch ov)) (\<lambda>res s'. (Ret res, (m_put (cache_key ch ov) res (fst s'), snd s'))))"
    by (intro answers_bindE answers_on_target assms(2)) (simp add: answers_def)
  then show "answers (cs_Version (caching_source target) ch ov)"
    by (simp add: answers_def caching_source_def caching_Version_def split: option.splits)
qed

lemma program_answers:
  assumes "r = NewHTTPRegistry oa new server (on_target (on_fs (fst (token_sources tlib cfg)))) urlHost marshal"
    and "ct_configSource c = caching_source (root_source lib rt)"
    and tr: "reads_responses cn (newClient new server)" and "git_answers lib"
  shows "answers (cs_Update (ct_configSource c))" "answers (cs_Version (ct_configSource c) ch ov)"
    "answers (rc_Token r)" "answers (rc_ListClusters r t)" "answers (rc_ListAccounts r t u)"
proof -
  show "answers (cs_Update (ct_configSource c))" "answers (cs_Version (ct_configSource c) ch ov)"
    unfolding assms(2) using assms(4) by (auto intro: caching_answers root_source_answers)
  show "answers (rc_Token r)" "answers (rc_ListClusters r t)" "answers (rc_ListAccounts r t u)"
    using list_clusters.ends_orderly [OF tr] list_accounts.ends_orderly [OF tr]
    by (auto simp: assms(1) NewHTTPRegistry_def Let_def intro: answers_on_target)
qed

text \<open>
  Answers that pass the validation generated from the document of the API, and have no null and a status in
  every cluster, are complete, so that a refresh then never panics.
\<close>

lemma refresh_survives_valid:
  assumes "r = NewHTTPRegistry oa new server (on_target (on_fs (fst (token_sources tlib cfg)))) urlHost marshal"
    and "ct_registry c = http_registry r" and "ct_configSource c = caching_source (root_source lib rt)"
    and "reads_responses cn (newClient new server)" and "documented_checks v" and "decodes_valid v cn" and "git_answers lib" and "list_ok l"
  shows "orderly (fst (refresh c l w))"
proof -
  note answers = program_answers [OF assms(1,3,4,7)]
  have "registry_answers r"
    unfolding assms(1) using assms(4-6) by (intro NewHTTPRegistry_answers valid_bodies_complete) (auto intro: answers_on_target)
  then show ?thesis
    by (intro refresh_orderly [OF assms(2,8) answers(1,2)] complete_listing_answers [OF answers(3-5)] registry_answers_complete)
qed

text \<open>
  Claim C16. The controller as the program puts it together, with the sources of the command line behind
  the cache of versions, the HTTP registry and tokens that are static or read from files, survives every
  refresh unless the registry sends an incomplete answer: a refresh ends with a well-formed cluster list
  or with an error; it can panic only when its source has been updated and a cluster (or then an account)
  that this very listing received was null or lacked an attribute that the conversion dereferences, such
  as the status, which the API does not require. The transport is assumed to return errors or what the
  readers make of a response, and the calls of the git library values or errors.
\<close>

theorem refresh_survives:
  assumes r: "r = NewHTTPRegistry oa new server (on_target (on_fs (fst (token_sources tlib cfg)))) urlHost marshal"
    and c: "ct_registry c = http_registry r" "ct_configSource c = caching_source (root_source lib rt)"
    and outside: "reads_responses cn (newClient new server)" "git_answers lib" and ok: "list_ok l"
  shows "case refresh c l w of
      (Ret l', w') \<Rightarrow> list_ok l' \<and> pending_ok l'
    | (Fail e, w') \<Rightarrow> True
    | _ \<Rightarrow> \<exists>w0. cs_Update (ct_configSource c) w = (Ret (), w0) \<and> incomplete_listing r w0"
proof -
  note answers = program_answers [OF r c(2) outside]
  obtain q w' where run: "refresh c l w = (q, w')" by (cases "refresh c l w")
  have "list_ok l' \<and> pending_ok l'" if "q = Ret l'" for l' using refresh_list_ok [OF _ ok] run that by simp
  moreover have "\<exists>w0. cs_Update (ct_configSource c) w = (Ret (), w0) \<and> incomplete_listing r w0" if "\<not> orderly q"
  proof (rule ccontr)
    assume "\<nexists>w0. cs_Update (ct_configSource c) w = (Ret (), w0) \<and> incomplete_listing r w0"
    then have "orderly (fst (refresh c l w))"
      by (intro refresh_orderly [OF c(1) ok answers(1,2)] complete_listing_answers [OF answers(3-5)]) blast
    with run that show False by simp
  qed
  ultimately show ?thesis using run by (cases q) auto
qed

lemma sample_consumer_complete: "decodes_complete sample_consumer"
  by (auto simp: decodes_complete_def read_payload_def sample_consumer_def io_EOF_def complete_cluster_def sample_model_def split: if_splits)

lemma sample_lib_answers: "git_answers sample_lib"
  by (simp add: git_answers_def sample_lib_def answers_def ret_def fail_def)

definition sample_tokens :: token_lib where
  "sample_tokens = \<lparr>tl_DecodeSegment = Inr, tl_UnmarshalClaims = (\<lambda>_. Inl Canceled)\<rparr>"

definition sample_program :: "(root_version gomap \<times> unit disk, root_version, string) controller" where
  "sample_program = \<lparr>ct_registry = http_registry (NewHTTPRegistry sample_openapi (sample_transport 200 ''a'') sample_server
       (on_target (on_fs (fst (token_sources sample_tokens (sample_config\<lparr>lc_Token := ''t''\<rparr>))))) Inr (\<lambda>_. Inr [])),
     ct_provisioners = [], ct_providers = [],
     ct_configSource = caching_source (root_source sample_lib (Single (DirectorySource \<lparr>dy_name = ''main'', dy_location = [''w'']\<rparr>))),
     ct_versionID = root_ID, ct_versionGet = (\<lambda>v. ret (root_ID v)), ct_configDelete = (\<lambda>_. ret ()), ct_digest = id,
     ct_dryRun = False, ct_accountFilter = all_accounts\<rparr>"

theorem refresh_survives_witness:
  "case refresh sample_program NewClusterList ([], (sample_disk, ())) of
      (Ret l', w') \<Rightarrow> list_ok l' \<and> pending_ok l'
    | (Fail e, w') \<Rightarrow> True
    | _ \<Rightarrow> False"
proof -
  let ?r = "NewHTTPRegistry sample_openapi (sample_transport 200 ''a'') sample_server
       (on_target (on_fs (fst (token_sources sample_tokens (sample_config\<lparr>lc_Token := ''t''\<rparr>))))) Inr (\<lambda>_. Inr [])
       :: (root_version gomap \<times> unit disk) registry_client"
  have "registry_answers ?r"
    by (intro NewHTTPRegistry_answers [OF sample_transport_reads sample_consumer_complete]) (auto intro: answers_on_target)
  then have complete: "\<not> incomplete_listing ?r w0" for w0 by (rule registry_answers_complete)
  have "case refresh sample_program NewClusterList ([], (sample_disk, ())) of
      (Ret l', w') \<Rightarrow> list_ok l' \<and> pending_ok l'
    | (Fail e, w') \<Rightarrow> True
    | _ \<Rightarrow> \<exists>w0. cs_Update (ct_configSource sample_program) ([], (sample_disk, ())) = (Ret (), w0) \<and> incomplete_listing ?r w0"
    by (rule refresh_survives [OF refl _ _ sample_transport_reads sample_lib_answers NewClusterList_ok(1)])
      (simp_all only: sample_program_def controller.select_convs)
  then show ?thesis using complete by (auto split: prod.splits outcome.splits)
qed

end
